(* ===== verification/Prelude.thy ===== *)
theory Prelude
  imports Main "HOL-Library.Word"
begin

text \<open>
  Shared vocabulary of the development: machine integers, the result type that stands for
  Rust's \<open>Result\<close> together with the \<open>?\<close> operator, checked arithmetic, byte slices, and the
  little-endian codecs that every account and instruction layout of the programs uses.
\<close>

unbundle bit_operations_syntax

named_theorems handler_simps \<open>definitions unfolded when a handler is inverted\<close>
named_theorems codec_simps \<open>definitions and lengths used by the byte codecs\<close>

section \<open>Machine integers and addresses\<close>

type_synonym u8 = "8 word"
type_synonym u16 = "16 word"
type_synonym u32 = "32 word"
type_synonym u64 = "64 word"
type_synonym bytes = "u8 list"

text \<open>
  A Solana address is a 32-byte array. It is kept as the 256-bit number those bytes denote,
  most significant byte first, which is also the number a base58 literal denotes.
\<close>

type_synonym address = "256 word"

section \<open>Results\<close>

text \<open>\<open>bindE m f\<close> is \<open>let x = m?; f x\<close>; \<open>guardE b e\<close> is \<open>if !b { return Err(e) }\<close>.\<close>

definition bindE :: "'e + 'a \<Rightarrow> ('a \<Rightarrow> 'e + 'b) \<Rightarrow> 'e + 'b" where
  "bindE m f = (case m of Inl e \<Rightarrow> Inl e | Inr x \<Rightarrow> f x)"

definition guardE :: "bool \<Rightarrow> 'e \<Rightarrow> 'e + unit" where
  "guardE b e = (if b then Inr () else Inl e)"

text \<open>\<open>map_err(|_| e)\<close> and \<open>ok_or(e)\<close>.\<close>

definition map_errE :: "'f \<Rightarrow> 'e + 'a \<Rightarrow> 'f + 'a" where
  "map_errE e m = (case m of Inl _ \<Rightarrow> Inl e | Inr x \<Rightarrow> Inr x)"

definition ok_orE :: "'a option \<Rightarrow> 'e \<Rightarrow> 'e + 'a" where
  "ok_orE m e = (case m of None \<Rightarrow> Inl e | Some x \<Rightarrow> Inr x)"

definition is_ok :: "'e + 'a \<Rightarrow> bool" where
  "is_ok m = (case m of Inl _ \<Rightarrow> False | Inr _ \<Rightarrow> True)"

lemma is_ok_iff: "is_ok m \<longleftrightarrow> (\<exists>x. m = Inr x)"
  by (cases m) (simp_all add: is_ok_def)

lemma bindE_Inl [simp]: "bindE (Inl e) f = Inl e"
  by (simp add: bindE_def)

lemma bindE_Inr [simp]: "bindE (Inr x) f = f x"
  by (simp add: bindE_def)

lemma bindE_eq_Inr [simp]: "bindE m f = Inr y \<longleftrightarrow> (\<exists>x. m = Inr x \<and> f x = Inr y)"
  by (cases m) auto

lemma bindE_eq_Inl: "bindE m f = Inl e \<longleftrightarrow> m = Inl e \<or> (\<exists>x. m = Inr x \<and> f x = Inl e)"
  by (cases m) auto

lemma bindE_assoc: "bindE (bindE m f) g = bindE m (\<lambda>x. bindE (f x) g)"
  by (cases m) auto

lemma guardE_True [simp]: "guardE True e = Inr ()"
  by (simp add: guardE_def)

lemma guardE_False [simp]: "guardE False e = Inl e"
  by (simp add: guardE_def)

lemma guardE_eq_Inr [simp]: "guardE b e = Inr u \<longleftrightarrow> b"
  by (simp add: guardE_def)

lemma guardE_eq_Inl [simp]: "guardE b e = Inl e' \<longleftrightarrow> \<not> b \<and> e = e'"
  by (auto simp: guardE_def)

lemma map_errE_Inl [simp]: "map_errE e (Inl e') = Inl e"
  by (simp add: map_errE_def)

lemma map_errE_Inr [simp]: "map_errE e (Inr x) = Inr x"
  by (simp add: map_errE_def)

lemma map_errE_eq_Inr [simp]: "map_errE e m = Inr x \<longleftrightarrow> m = Inr x"
  by (cases m) auto

lemma map_errE_eq_Inl: "map_errE e m = Inl e' \<longleftrightarrow> e = e' \<and> \<not> is_ok m"
  by (cases m) (auto simp: is_ok_def)

lemma ok_orE_None [simp]: "ok_orE None e = Inl e"
  by (simp add: ok_orE_def)

lemma ok_orE_Some [simp]: "ok_orE (Some x) e = Inr x"
  by (simp add: ok_orE_def)

lemma ok_orE_eq_Inr [simp]: "ok_orE m e = Inr x \<longleftrightarrow> m = Some x"
  by (cases m) auto

section \<open>Checked arithmetic\<close>

definition checked_add :: "'a::len word \<Rightarrow> 'a word \<Rightarrow> 'a word option" where
  "checked_add a b = (if unat a + unat b < 2 ^ LENGTH('a) then Some (a + b) else None)"

definition checked_sub :: "'a::len word \<Rightarrow> 'a word \<Rightarrow> 'a word option" where
  "checked_sub a b = (if b \<le> a then Some (a - b) else None)"

definition saturating_sub :: "'a::len word \<Rightarrow> 'a word \<Rightarrow> 'a word" where
  "saturating_sub a b = (if b \<le> a then a - b else 0)"

lemma checked_add_Some:
  "checked_add a b = Some c \<Longrightarrow> unat c = unat a + unat b"
  by (auto simp: checked_add_def unat_word_ariths split: if_splits)

lemma checked_sub_Some:
  "checked_sub a b = Some c \<longleftrightarrow> b \<le> a \<and> c = a - b"
  by (auto simp: checked_sub_def)

lemma checked_sub_unat:
  "checked_sub a b = Some c \<Longrightarrow> unat c + unat b = unat a"
  by (auto simp: checked_sub_Some unat_sub word_le_nat_alt)

lemma checked_add_one:
  fixes a :: "'a::len word"
  shows "checked_add a 1 = Some c \<longleftrightarrow> a \<noteq> - 1 \<and> c = a + 1"
proof -
  have "unat a + 1 < 2 ^ LENGTH('a) \<longleftrightarrow> a \<noteq> - 1"
  proof -
    have "unat a < 2 ^ LENGTH('a)" by (rule unsigned_less)
    moreover have "unat (- 1 :: 'a word) = 2 ^ LENGTH('a) - 1"
      by (simp add: unsigned_minus_1_eq_mask mask_eq_exp_minus_1)
    ultimately show ?thesis by (simp only: word_unat_eq_iff) linarith
  qed
  then show ?thesis by (auto simp: checked_add_def unat_1)
qed

section \<open>Byte slices\<close>

text \<open>\<open>slice i n xs\<close> is \<open>xs[i..i + n]\<close>; every use follows a length check that keeps it in range.\<close>

definition slice :: "nat \<Rightarrow> nat \<Rightarrow> 'a list \<Rightarrow> 'a list" where
  "slice i n xs = take n (drop i xs)"

definition bytes_of_string :: "string \<Rightarrow> bytes" where
  "bytes_of_string s = map of_char s"

lemma length_slice [simp]: "i + n \<le> length xs \<Longrightarrow> length (slice i n xs) = n"
  by (simp add: slice_def)

lemma slice_append_left: "i + n \<le> length xs \<Longrightarrow> slice i n (xs @ ys) = slice i n xs"
  by (simp add: slice_def)

lemma slice_append_right: "length xs \<le> i \<Longrightarrow> slice i n (xs @ ys) = slice (i - length xs) n ys"
  by (simp add: slice_def)

lemma slice_all [simp]: "length xs = n \<Longrightarrow> slice 0 n xs = xs"
  by (simp add: slice_def)

lemma slice_prefix: "length xs = n \<Longrightarrow> slice 0 n (xs @ ys) = xs"
  by (simp add: slice_def)

lemma slice_0_take: "slice 0 n xs = take n xs"
  by (simp add: slice_def)

lemma slice_Cons [simp]: "0 < i \<Longrightarrow> slice i n (x # xs) = slice (i - 1) n xs"
  by (cases i) (simp_all add: slice_def)

lemma nth_slice [simp]: "i + n \<le> length xs \<Longrightarrow> j < n \<Longrightarrow> slice i n xs ! j = xs ! (i + j)"
  by (simp add: slice_def)

lemma nth_add_diff [simp]: "\<not> j < i \<Longrightarrow> xs ! (i + (j - i)) = xs ! j"
  by simp

section \<open>Little-endian codecs\<close>

fun le_of_nat :: "nat \<Rightarrow> nat \<Rightarrow> bytes" where
  "le_of_nat 0 k = []"
| "le_of_nat (Suc n) k = word_of_nat k # le_of_nat n (k div 256)"

fun nat_of_le :: "bytes \<Rightarrow> nat" where
  "nat_of_le [] = 0"
| "nat_of_le (b # bs) = unat b + 256 * nat_of_le bs"

definition u64_le :: "u64 \<Rightarrow> bytes" where
  "u64_le w = le_of_nat 8 (unat w)"

definition u64_of_le :: "bytes \<Rightarrow> u64" where
  "u64_of_le bs = word_of_nat (nat_of_le bs)"

definition address_bytes :: "address \<Rightarrow> bytes" where
  "address_bytes a = rev (le_of_nat 32 (unat a))"

definition address_of_bytes :: "bytes \<Rightarrow> address" where
  "address_of_bytes bs = word_of_nat (nat_of_le (rev bs))"

lemma le_of_nat_numeral [simp]:
  "le_of_nat (numeral n) k = word_of_nat k # le_of_nat (pred_numeral n) (k div 256)"
  by (subst numeral_eq_Suc) simp

lemma length_le_of_nat [simp]: "length (le_of_nat n k) = n"
  by (induction n k rule: le_of_nat.induct) auto

lemma nat_of_le_less: "nat_of_le bs < 256 ^ length bs"
proof (induction bs)
  case Nil
  show ?case by simp
next
  case (Cons b bs)
  have "unat b < 256" using unsigned_less [of b] by simp
  with Cons.IH show ?case by simp
qed

lemma unat_u8_of_nat: "unat (word_of_nat k :: u8) = k mod 256"
  by (simp add: unsigned_of_nat take_bit_eq_mod)

lemma nat_of_le_of_nat: "nat_of_le (le_of_nat n k) = k mod 256 ^ n"
proof (induction n k rule: le_of_nat.induct)
  case (1 k)
  show ?case by simp
next
  case (2 n k)
  have "k mod 256 ^ Suc n = k mod 256 + 256 * ((k div 256) mod 256 ^ n)"
    by (simp add: mod_mult2_eq)
  with 2 show ?case by (simp add: unat_u8_of_nat)
qed

lemma le_of_nat_of_le: "le_of_nat (length bs) (nat_of_le bs) = bs"
proof (induction bs)
  case Nil
  show ?case by simp
next
  case (Cons b bs)
  have less: "unat b < 256" using unsigned_less [of b] by simp
  then have "(unat b + 256 * nat_of_le bs) div 256 = nat_of_le bs" by simp
  moreover have "(word_of_nat (unat b + 256 * nat_of_le bs) :: u8) = b"
  proof (rule word_unat_eq_iff [THEN iffD2])
    have "(unat b + 256 * nat_of_le bs) mod 256 = unat b mod 256"
      by (rule mod_mult_self2)
    with less show "unat (word_of_nat (unat b + 256 * nat_of_le bs) :: u8) = unat b"
      by (simp only: unat_u8_of_nat mod_less)
  qed
  ultimately show ?case using Cons.IH by simp
qed

lemma length_u64_le [simp, codec_simps]: "length (u64_le w) = 8"
  by (simp add: u64_le_def del: le_of_nat_numeral)

lemma length_address_bytes [simp, codec_simps]: "length (address_bytes a) = 32"
  by (simp add: address_bytes_def del: le_of_nat_numeral)

lemma u64_of_le_le [simp, codec_simps]: "u64_of_le (u64_le w) = w"
proof -
  have "unat w < 256 ^ 8" using unsigned_less [of w] by simp
  then show ?thesis
    by (simp add: u64_of_le_def u64_le_def nat_of_le_of_nat del: le_of_nat_numeral)
qed

lemma u64_le_of_le: "length bs = 8 \<Longrightarrow> u64_le (u64_of_le bs) = bs"
proof -
  assume len: "length bs = 8"
  have "nat_of_le bs < 2 ^ 64" using nat_of_le_less [of bs] by (simp add: len)
  then have "unat (word_of_nat (nat_of_le bs) :: u64) = nat_of_le bs"
    by (simp add: unsigned_of_nat take_bit_eq_mod)
  then show ?thesis
    using le_of_nat_of_le [of bs] by (simp add: u64_le_def u64_of_le_def len del: le_of_nat_numeral)
qed

lemma address_of_bytes_bytes [simp, codec_simps]: "address_of_bytes (address_bytes a) = a"
proof -
  have "unat a < 256 ^ 32" using unsigned_less [of a] by simp
  then show ?thesis
    by (simp add: address_of_bytes_def address_bytes_def nat_of_le_of_nat del: le_of_nat_numeral)
qed

lemma address_bytes_of_bytes: "length bs = 32 \<Longrightarrow> address_bytes (address_of_bytes bs) = bs"
proof -
  assume len: "length bs = 32"
  have "nat_of_le (rev bs) < 2 ^ 256" using nat_of_le_less [of "rev bs"] by (simp add: len)
  then have "unat (word_of_nat (nat_of_le (rev bs)) :: address) = nat_of_le (rev bs)"
    by (simp add: unsigned_of_nat take_bit_eq_mod)
  then show ?thesis
    using le_of_nat_of_le [of "rev bs"]
    by (simp add: address_bytes_def address_of_bytes_def len del: le_of_nat_numeral)
qed

lemma address_bytes_inject [simp]: "address_bytes a = address_bytes b \<longleftrightarrow> a = b"
  by (metis address_of_bytes_bytes)

lemma u64_le_inject [simp]: "u64_le a = u64_le b \<longleftrightarrow> a = b"
  by (metis u64_of_le_le)

lemma u64_le_neq_Nil [simp]: "u64_le w \<noteq> []"
  by (metis length_u64_le list.size(3) zero_neq_numeral)

lemma address_bytes_neq_Nil [simp]: "address_bytes a \<noteq> []"
  by (metis length_address_bytes list.size(3) zero_neq_numeral)

end
