(* ===== verification/Solana.thy ===== *)
theory Solana
  imports Prelude
begin

text \<open>
  The Solana side of the two on-chain programs: accounts, the ledger they live in, the
  account views an instruction receives, cross-program invocations (CPIs), and the record of
  everything the programs take from crates outside the repository. That record is a parameter
  of every definition that uses it; what the theorems rely on is stated as hypotheses on it.

  The ledger maps every address to an account. Two entries of an instruction's account list
  with the same address therefore share one account, as they do on chain. An instruction
  either returns the new world or an error; the runtime discards all changes on an error.
\<close>

section \<open>Errors\<close>

text \<open>
  The built-in \<open>ProgramError\<close> variants the programs return, \<open>Custom\<close> for their own error
  enums, \<open>CpiFailed\<close> for any other error a CPI reports, and \<open>Panic\<close> for an abort (an index out
  of range, a length mismatch in \<open>copy_from_slice\<close>, an \<open>unwrap\<close> of \<open>None\<close>).
\<close>

datatype program_error =
    InvalidInstructionData
  | InvalidAccountData
  | NotEnoughAccountKeys
  | MissingRequiredSignature
  | InvalidAccountOwner
  | AccountAlreadyInitialized
  | IncorrectProgramId
  | InvalidSeeds
  | ArithmeticOverflow
  | InvalidArgument
  | AccountBorrowFailed
  | Custom u32
  | CpiFailed nat
  | Panic

type_synonym 'a res = "program_error + 'a"

section \<open>Accounts, views and the ledger\<close>

record account =
  acc_lamports :: u64
  acc_data :: bytes
  acc_owner :: address

type_synonym ledger = "address \<Rightarrow> account"

record account_view =
  av_address :: address
  av_is_signer :: bool
  av_is_writable :: bool

record instruction_account =
  ia_address :: address
  ia_is_writable :: bool
  ia_is_signer :: bool

text \<open>
  The instruction structs of the system, associated-token and token crates, with their fields,
  and \<open>Invoke\<close> for an \<open>InstructionView\<close> the program builds by hand.
\<close>

datatype cpi =
    CreateAccount address address u64 u64 address \<comment> \<open>from, to, lamports, space, owner\<close>
  | SystemTransfer address address u64 \<comment> \<open>from, to, lamports\<close>
  | Allocate address u64 \<comment> \<open>account, space\<close>
  | Assign address address \<comment> \<open>account, owner\<close>
  | CreateIdempotent address address address address address address
      \<comment> \<open>funding account, account, wallet, mint, system program, token program\<close>
  | TokenTransfer address address address u64 address
      \<comment> \<open>from, to, authority, amount, token program\<close>
  | TokenBurn address address address u64 address
      \<comment> \<open>account, mint, authority, amount, token program\<close>
  | Invoke address "instruction_account list" bytes \<comment> \<open>program id, accounts, data\<close>

type_synonym signer_seeds = "bytes list list"

text \<open>The ledger, the CPIs the instruction has completed so far in order, and its log lines.\<close>

record world =
  w_ledger :: ledger
  w_invoked :: "(cpi \<times> signer_seeds) list"
  w_logs :: "bytes list"

section \<open>What comes from outside the repository\<close>

text \<open>The base state of an unpacked Token-2022 mint, and its extension types if they parse.\<close>

record mint_2022_state =
  m22_decimals :: u8
  m22_has_freeze_authority :: bool
  m22_extension_types :: "u16 list option"

record runtime =
  rt_find_program_address :: "bytes list \<Rightarrow> address \<Rightarrow> address \<times> u8"
  rt_create_program_address :: "bytes list \<Rightarrow> address \<Rightarrow> address option"
  rt_derive_program_address :: "bytes list \<Rightarrow> address \<Rightarrow> address \<times> u8"
  rt_rent :: "(nat \<Rightarrow> u64 res) res"
  rt_invoke :: "cpi \<Rightarrow> signer_seeds \<Rightarrow> ledger \<Rightarrow> ledger res"
  rt_token_amount :: "bytes \<Rightarrow> u64"
  rt_token_2022_amount :: "bytes \<Rightarrow> u64"
  rt_mint_decimals :: "bytes \<Rightarrow> u8"
  rt_mint_2022_decimals :: "bytes \<Rightarrow> u8"
  rt_mint_len :: nat
  rt_mint_has_freeze_authority :: "bytes \<Rightarrow> bool"
  rt_unpack_mint_2022 :: "bytes \<Rightarrow> mint_2022_state option"
  rt_memo_required :: "bytes \<Rightarrow> bool option"
  rt_mint_2022_base_len :: nat
  rt_mint_2022_authority :: "bytes \<Rightarrow> address option"
  rt_ext_token_metadata :: nat
  rt_ext_token_group :: nat
  rt_ext_token_group_member :: nat

text \<open>
  Program ids of the crates the programs link against, as the numbers their base58 strings
  denote: \<open>11111111111111111111111111111111\<close>,
  \<open>TokenkegQfeZyiNwAJbNbGKPFXCWuBvf9Ss623VQ5DA\<close>,
  \<open>TokenzQdBNbLqP5VEhdkAS6EPFLC1PHnBqCXEpPxuEb\<close> and
  \<open>ATokenGPvbdGVxr1b2hvZbsiqW5xWH25efTNsLJA8knL\<close>.
\<close>

definition SYSTEM_PROGRAM_ID :: address where
  "SYSTEM_PROGRAM_ID = 0"

definition TOKEN_PROGRAM_ID :: address where
  "TOKEN_PROGRAM_ID = 3106054211088883198575105191760876350940303353676611666299516346430146937001"

definition TOKEN_2022_PROGRAM_ID :: address where
  "TOKEN_2022_PROGRAM_ID = 3106054213517619466333521364411816883583182866730275619636245252638471457788"

definition ATA_PROGRAM_ID :: address where
  "ATA_PROGRAM_ID = 63590851936555425018482094543133168213809614203979002813017495418995103889497"

section \<open>Operations on views\<close>

definition account_of :: "world \<Rightarrow> account_view \<Rightarrow> account" where
  "account_of w info = w_ledger w (av_address info)"

definition owned_by :: "world \<Rightarrow> account_view \<Rightarrow> address \<Rightarrow> bool" where
  "owned_by w info program = (acc_owner (account_of w info) = program)"

definition data_of :: "world \<Rightarrow> account_view \<Rightarrow> bytes" where
  "data_of w info = acc_data (account_of w info)"

definition is_data_empty :: "world \<Rightarrow> account_view \<Rightarrow> bool" where
  "is_data_empty w info = (data_of w info = [])"

definition lamports_of :: "world \<Rightarrow> account_view \<Rightarrow> u64" where
  "lamports_of w info = acc_lamports (account_of w info)"

definition set_account :: "address \<Rightarrow> account \<Rightarrow> world \<Rightarrow> world" where
  "set_account a acc w = w\<lparr>w_ledger := (w_ledger w)(a := acc)\<rparr>"

definition set_data :: "account_view \<Rightarrow> bytes \<Rightarrow> world \<Rightarrow> world" where
  "set_data info bs w =
     set_account (av_address info) ((account_of w info)\<lparr>acc_data := bs\<rparr>) w"

definition set_lamports :: "account_view \<Rightarrow> u64 \<Rightarrow> world \<Rightarrow> world" where
  "set_lamports info n w =
     set_account (av_address info) ((account_of w info)\<lparr>acc_lamports := n\<rparr>) w"

text \<open>
  \<open>live\<close> lists the addresses of the shared borrows that are alive at a call. A mutable borrow
  of one of them fails. Shared borrows never meet a live mutable one in these programs, so
  \<open>try_borrow\<close> is \<open>data_of\<close>.
\<close>

definition try_borrow_mut :: "address list \<Rightarrow> account_view \<Rightarrow> unit res" where
  "try_borrow_mut live info = guardE (av_address info \<notin> set live) AccountBorrowFailed"

text \<open>\<open>info.try_borrow_mut()?.copy_from_slice(bs)\<close>: the lengths must agree.\<close>

definition copy_from_slice :: "address list \<Rightarrow> account_view \<Rightarrow> bytes \<Rightarrow> world \<Rightarrow> world res" where
  "copy_from_slice live info bs w =
     bindE (try_borrow_mut live info) (\<lambda>_.
     bindE (guardE (length (data_of w info) = length bs) Panic) (\<lambda>_.
     Inr (set_data info bs w)))"

text \<open>\<open>data[..bs.len()].copy_from_slice(bs)\<close>: the account must be long enough.\<close>

definition copy_to_prefix :: "address list \<Rightarrow> account_view \<Rightarrow> bytes \<Rightarrow> world \<Rightarrow> world res" where
  "copy_to_prefix live info bs w =
     bindE (try_borrow_mut live info) (\<lambda>_.
     bindE (guardE (length bs \<le> length (data_of w info)) Panic) (\<lambda>_.
     Inr (set_data info (bs @ drop (length bs) (data_of w info)) w)))"

text \<open>\<open>close\<close> empties the account and hands it back to the system program.\<close>

definition close_account :: "address list \<Rightarrow> account_view \<Rightarrow> world \<Rightarrow> world res" where
  "close_account live info w =
     bindE (try_borrow_mut live info) (\<lambda>_.
     Inr (set_account (av_address info)
       \<lparr>acc_lamports = 0, acc_data = [], acc_owner = SYSTEM_PROGRAM_ID\<rparr> w))"

text \<open>\<open>resize\<close> truncates or zero-extends the data.\<close>

definition resize_account :: "address list \<Rightarrow> account_view \<Rightarrow> nat \<Rightarrow> world \<Rightarrow> world res" where
  "resize_account live info n w =
     bindE (try_borrow_mut live info) (\<lambda>_.
     Inr (set_data info
       (take n (data_of w info) @ replicate (n - length (data_of w info)) 0) w))"

definition invoke_signed :: "runtime \<Rightarrow> cpi \<Rightarrow> signer_seeds \<Rightarrow> world \<Rightarrow> world res" where
  "invoke_signed rt c seeds w =
     bindE (rt_invoke rt c seeds (w_ledger w)) (\<lambda>l.
     Inr (w\<lparr>w_ledger := l, w_invoked := w_invoked w @ [(c, seeds)]\<rparr>))"

definition writable_meta :: "address \<Rightarrow> instruction_account" where
  "writable_meta a = \<lparr>ia_address = a, ia_is_writable = True, ia_is_signer = False\<rparr>"

definition readonly_meta :: "address \<Rightarrow> instruction_account" where
  "readonly_meta a = \<lparr>ia_address = a, ia_is_writable = False, ia_is_signer = False\<rparr>"

definition readonly_signer_meta :: "address \<Rightarrow> instruction_account" where
  "readonly_signer_meta a = \<lparr>ia_address = a, ia_is_writable = False, ia_is_signer = True\<rparr>"

section \<open>Views for concrete scenarios\<close>

definition plain_view :: "address \<Rightarrow> account_view" where
  "plain_view a = \<lparr>av_address = a, av_is_signer = False, av_is_writable = True\<rparr>"

definition signer_view :: "address \<Rightarrow> account_view" where
  "signer_view a = \<lparr>av_address = a, av_is_signer = True, av_is_writable = True\<rparr>"

lemma view_simps [simp]:
  "av_address (plain_view a) = a" "av_is_writable (plain_view a)" "\<not> av_is_signer (plain_view a)"
  "av_address (signer_view a) = a" "av_is_writable (signer_view a)" "av_is_signer (signer_view a)"
  by (simp_all add: plain_view_def signer_view_def)

end
