(* ===== verification/Withdraw_Program.thy ===== *)
theory Withdraw_Program
  imports Solana
begin

text \<open>
  The channel-side withdraw program (\<open>private-channel-withdraw-program\<close>): its errors, the
  per-mint withdraw config account, the two handlers and the entrypoint. Its token program is
  Token-2022. Helpers that also exist in the escrow program carry the suffix \<open>_withdraw\<close>.
\<close>

section \<open>Ids, errors, discriminators\<close>

text \<open>\<open>J231K9UEpS4y4KAPwGc4gsMNCjKFRMYcQBcjVW7vBhVi\<close> as a number.\<close>

definition WITHDRAW_ID :: address where
  "WITHDRAW_ID = 114368939976848381407198263567894080464407199334299763265100831233247362716417"

datatype withdraw_error =
    WdInvalidMint
  | WdZeroAmount
  | InvalidWithdrawConfig
  | WithdrawConfigNotInitialized
  | InvalidMintAuthority
  | InvalidTreasuryAccount
  | InvalidSystemProgram
  | AmountBelowMinimum

primrec withdraw_error_code :: "withdraw_error \<Rightarrow> u32" where
  "withdraw_error_code WdInvalidMint = 0"
| "withdraw_error_code WdZeroAmount = 1"
| "withdraw_error_code InvalidWithdrawConfig = 2"
| "withdraw_error_code WithdrawConfigNotInitialized = 3"
| "withdraw_error_code InvalidMintAuthority = 4"
| "withdraw_error_code InvalidTreasuryAccount = 5"
| "withdraw_error_code InvalidSystemProgram = 6"
| "withdraw_error_code AmountBelowMinimum = 7"

definition withdraw_err :: "withdraw_error \<Rightarrow> program_error" where
  "withdraw_err e = Custom (withdraw_error_code e)"

datatype withdraw_instruction = WithdrawFunds | SetWithdrawConfig

definition withdraw_instruction_try_from :: "u8 \<Rightarrow> withdraw_instruction option" where
  "withdraw_instruction_try_from d =
     (if d = 0 then Some WithdrawFunds else if d = 1 then Some SetWithdrawConfig else None)"

section \<open>The withdraw config account\<close>

definition WITHDRAW_CONFIG_SEED :: bytes where
  "WITHDRAW_CONFIG_SEED = bytes_of_string ''withdraw_config''"

record withdraw_config =
  wc_bump :: u8
  wc_fee :: u64
  wc_allow_mint_slot :: u64
  wc_treasury :: address
  wc_treasury_token_account :: address
  wc_min_withdraw_amount :: u64

definition WithdrawConfig_LEN :: nat where
  "WithdrawConfig_LEN = 1 + 8 + 8 + 32 + 32 + 8"

definition WithdrawConfig_to_bytes :: "withdraw_config \<Rightarrow> bytes" where
  "WithdrawConfig_to_bytes self =
     [wc_bump self] @ u64_le (wc_fee self) @ u64_le (wc_allow_mint_slot self)
     @ address_bytes (wc_treasury self) @ address_bytes (wc_treasury_token_account self)
     @ u64_le (wc_min_withdraw_amount self)"

definition WithdrawConfig_try_from_bytes :: "bytes \<Rightarrow> withdraw_config res" where
  "WithdrawConfig_try_from_bytes bs =
     bindE (guardE (length bs = WithdrawConfig_LEN) (withdraw_err InvalidWithdrawConfig)) (\<lambda>_.
     Inr \<lparr>wc_bump = bs ! 0, wc_fee = u64_of_le (slice 1 8 bs),
          wc_allow_mint_slot = u64_of_le (slice 9 8 bs),
          wc_treasury = address_of_bytes (slice 17 32 bs),
          wc_treasury_token_account = address_of_bytes (slice 49 32 bs),
          wc_min_withdraw_amount = u64_of_le (slice 81 8 bs)\<rparr>)"

record withdraw_funds_event =
  wfe_amount :: u64
  wfe_destination :: address

definition WithdrawFundsEvent_to_bytes :: "withdraw_funds_event \<Rightarrow> bytes" where
  "WithdrawFundsEvent_to_bytes self = u64_le (wfe_amount self) @ address_bytes (wfe_destination self)"

section \<open>Shared checks\<close>

definition require_len_withdraw :: "bytes \<Rightarrow> nat \<Rightarrow> unit res" where
  "require_len_withdraw bs n = guardE (\<not> length bs < n) InvalidInstructionData"

definition verify_signer_withdraw :: "account_view \<Rightarrow> bool \<Rightarrow> unit res" where
  "verify_signer_withdraw info expect_writable =
     bindE (guardE (av_is_signer info) MissingRequiredSignature) (\<lambda>_.
     guardE (\<not> (expect_writable \<and> \<not> av_is_writable info)) InvalidAccountData)"

definition verify_ata_program_withdraw :: "account_view \<Rightarrow> unit res" where
  "verify_ata_program_withdraw info = guardE (av_address info = ATA_PROGRAM_ID) IncorrectProgramId"

definition verify_token_program :: "account_view \<Rightarrow> unit res" where
  "verify_token_program info = guardE (av_address info = TOKEN_2022_PROGRAM_ID) IncorrectProgramId"

definition verify_mint_account :: "runtime \<Rightarrow> world \<Rightarrow> account_view \<Rightarrow> unit res" where
  "verify_mint_account rt w info =
     bindE (guardE (owned_by w info TOKEN_2022_PROGRAM_ID) (withdraw_err WdInvalidMint)) (\<lambda>_.
     guardE (\<not> length (data_of w info) < rt_mint_2022_base_len rt) (withdraw_err WdInvalidMint))"

definition validate_ata_withdraw ::
  "runtime \<Rightarrow> world \<Rightarrow> account_view \<Rightarrow> address \<Rightarrow> account_view \<Rightarrow> account_view \<Rightarrow> unit res" where
  "validate_ata_withdraw rt w ata_info wallet_key mint_info token_program_info =
     (let expected_ata = fst (rt_find_program_address rt
            [address_bytes wallet_key, address_bytes (av_address token_program_info),
             address_bytes (av_address mint_info)] ATA_PROGRAM_ID)
      in guardE (\<not> (av_address ata_info \<noteq> expected_ata \<or> is_data_empty w ata_info))
           InvalidInstructionData)"

definition create_pda_account_withdraw ::
  "runtime \<Rightarrow> account_view \<Rightarrow> (nat \<Rightarrow> u64 res) \<Rightarrow> nat \<Rightarrow> address \<Rightarrow> account_view \<Rightarrow>
     bytes list \<Rightarrow> world \<Rightarrow> world res" where
  "create_pda_account_withdraw rt payer rent space owner new_pda_account seeds w =
     (let signers = [seeds] in
      bindE (rent space) (\<lambda>balance.
      let required_lamports = max balance 1 in
      if 0 < lamports_of w new_pda_account then
        let required_lamports = saturating_sub required_lamports (lamports_of w new_pda_account) in
        bindE (if 0 < required_lamports
               then invoke_signed rt
                 (SystemTransfer (av_address payer) (av_address new_pda_account) required_lamports)
                 [] w
               else Inr w) (\<lambda>w.
        bindE (invoke_signed rt (Allocate (av_address new_pda_account) (word_of_nat space))
                 signers w) (\<lambda>w.
        invoke_signed rt (Assign (av_address new_pda_account) owner) signers w))
      else
        invoke_signed rt
          (CreateAccount (av_address payer) (av_address new_pda_account) required_lamports
             (word_of_nat space) owner) signers w))"

section \<open>WithdrawFunds\<close>

record withdraw_funds_args =
  wfa_amount :: u64
  wfa_destination :: "address option"

definition withdraw_funds_parse_instruction_data :: "bytes \<Rightarrow> withdraw_funds_args res" where
  "withdraw_funds_parse_instruction_data bs =
     bindE (require_len_withdraw bs 9) (\<lambda>_.
     let amount = u64_of_le (slice 0 8 bs) in
     bindE (if bs ! 8 = 0 then Inr None
            else if bs ! 8 = 1 then
              bindE (require_len_withdraw bs (9 + 32)) (\<lambda>_.
              Inr (Some (address_of_bytes (slice 9 32 bs))))
            else Inl InvalidInstructionData) (\<lambda>destination.
     Inr \<lparr>wfa_amount = amount, wfa_destination = destination\<rparr>))"

definition process_withdraw_funds ::
  "runtime \<Rightarrow> address \<Rightarrow> account_view list \<Rightarrow> bytes \<Rightarrow> world \<Rightarrow> world res" where
  "process_withdraw_funds rt program_id accounts instruction_data w =
     bindE (withdraw_funds_parse_instruction_data instruction_data) (\<lambda>args.
     bindE (guardE (wfa_amount args \<noteq> 0) (withdraw_err WdZeroAmount)) (\<lambda>_.
     bindE (guardE (length accounts = 7) NotEnoughAccountKeys) (\<lambda>_.
     let user_info = accounts ! 0; mint_info = accounts ! 1; token_account_info = accounts ! 2;
         token_program_info = accounts ! 3; associated_token_program_info = accounts ! 4;
         withdraw_config_info = accounts ! 5; treasury_token_account_info = accounts ! 6 in
     bindE (verify_signer_withdraw user_info False) (\<lambda>_.
     bindE (verify_ata_program_withdraw associated_token_program_info) (\<lambda>_.
     bindE (verify_token_program token_program_info) (\<lambda>_.
     bindE (verify_mint_account rt w mint_info) (\<lambda>_.
     bindE (validate_ata_withdraw rt w token_account_info (av_address user_info) mint_info
       token_program_info) (\<lambda>_.
     bindE (guardE (owned_by w withdraw_config_info program_id)
       (withdraw_err WithdrawConfigNotInitialized)) (\<lambda>_.
     bindE (WithdrawConfig_try_from_bytes (data_of w withdraw_config_info)) (\<lambda>withdraw_config.
     bindE (ok_orE (rt_create_program_address rt
         [WITHDRAW_CONFIG_SEED, address_bytes (av_address mint_info), [wc_bump withdraw_config]]
         program_id) (withdraw_err InvalidWithdrawConfig)) (\<lambda>expected_withdraw_config.
     bindE (guardE (av_address withdraw_config_info = expected_withdraw_config)
       (withdraw_err InvalidWithdrawConfig)) (\<lambda>_.
     let is_treasury = (av_address user_info = wc_treasury withdraw_config) in
     bindE (guardE (\<not> (\<not> is_treasury \<and> wfa_amount args < wc_min_withdraw_amount withdraw_config))
       (withdraw_err AmountBelowMinimum)) (\<lambda>_.
     let charges_fee = (0 < wc_fee withdraw_config \<and> \<not> is_treasury) in
     bindE
       (if charges_fee then
          bindE (guardE (av_address treasury_token_account_info
              = wc_treasury_token_account withdraw_config)
            (withdraw_err InvalidTreasuryAccount)) (\<lambda>_.
          invoke_signed rt (TokenTransfer (av_address token_account_info)
            (av_address treasury_token_account_info) (av_address user_info)
            (wc_fee withdraw_config) (av_address token_program_info)) [] w)
        else Inr w) (\<lambda>w.
     bindE (invoke_signed rt (TokenBurn (av_address token_account_info) (av_address mint_info)
       (av_address user_info) (wfa_amount args) (av_address token_program_info)) [] w) (\<lambda>w.
     let event = \<lparr>wfe_amount = wfa_amount args,
           wfe_destination = (case wfa_destination args of
              None \<Rightarrow> av_address user_info | Some d \<Rightarrow> d)\<rparr> in
     Inr (w\<lparr>w_logs := w_logs w @ [WithdrawFundsEvent_to_bytes event]\<rparr>))))))))))))))))"

section \<open>SetWithdrawConfig\<close>

record set_withdraw_config_args =
  sca_fee :: u64
  sca_allow_mint_slot :: u64
  sca_treasury :: address
  sca_min_withdraw_amount :: u64

definition set_withdraw_config_parse_instruction_data :: "bytes \<Rightarrow> set_withdraw_config_args res" where
  "set_withdraw_config_parse_instruction_data bs =
     bindE (require_len_withdraw bs (8 + 8 + 32 + 8)) (\<lambda>_.
     Inr \<lparr>sca_fee = u64_of_le (slice 0 8 bs), sca_allow_mint_slot = u64_of_le (slice 8 8 bs),
          sca_treasury = address_of_bytes (slice 16 32 bs),
          sca_min_withdraw_amount = u64_of_le (slice 48 8 bs)\<rparr>)"

definition process_set_withdraw_config ::
  "runtime \<Rightarrow> address \<Rightarrow> account_view list \<Rightarrow> bytes \<Rightarrow> world \<Rightarrow> world res" where
  "process_set_withdraw_config rt program_id accounts instruction_data w =
     bindE (set_withdraw_config_parse_instruction_data instruction_data) (\<lambda>args.
     bindE (guardE (length accounts = 4) NotEnoughAccountKeys) (\<lambda>_.
     let authority_info = accounts ! 0; mint_info = accounts ! 1;
         withdraw_config_info = accounts ! 2; system_program_info = accounts ! 3 in
     bindE (verify_signer_withdraw authority_info False) (\<lambda>_.
     bindE (verify_mint_account rt w mint_info) (\<lambda>_.
     bindE (guardE (rt_mint_2022_authority rt (data_of w mint_info)
         = Some (av_address authority_info)) (withdraw_err InvalidMintAuthority)) (\<lambda>_.
     bindE (guardE (av_address system_program_info = SYSTEM_PROGRAM_ID)
       (withdraw_err InvalidSystemProgram)) (\<lambda>_.
     let (withdraw_config_address, bump) = rt_find_program_address rt
           [WITHDRAW_CONFIG_SEED, address_bytes (av_address mint_info)] program_id in
     bindE (guardE (av_address withdraw_config_info = withdraw_config_address)
       (withdraw_err InvalidWithdrawConfig)) (\<lambda>_.
     let write = (\<lambda>w.
           let treasury_token_account = fst (rt_find_program_address rt
                 [address_bytes (sca_treasury args), address_bytes TOKEN_2022_PROGRAM_ID,
                  address_bytes (av_address mint_info)] ATA_PROGRAM_ID);
               withdraw_config = \<lparr>wc_bump = bump, wc_fee = sca_fee args,
                 wc_allow_mint_slot = sca_allow_mint_slot args, wc_treasury = sca_treasury args,
                 wc_treasury_token_account = treasury_token_account,
                 wc_min_withdraw_amount = sca_min_withdraw_amount args\<rparr>
           in copy_from_slice [] withdraw_config_info (WithdrawConfig_to_bytes withdraw_config) w)
     in
     if owned_by w withdraw_config_info program_id then
       bindE (WithdrawConfig_try_from_bytes (data_of w withdraw_config_info)) (\<lambda>stored.
       if sca_allow_mint_slot args < wc_allow_mint_slot stored then Inr w else write w)
     else
       bindE (rt_rent rt) (\<lambda>rent.
       bindE (create_pda_account_withdraw rt authority_info rent WithdrawConfig_LEN program_id
         withdraw_config_info
         [WITHDRAW_CONFIG_SEED, address_bytes (av_address mint_info), [bump]] w) (\<lambda>w.
       write w)))))))))"

section \<open>The entrypoint\<close>

definition process_instruction_withdraw ::
  "runtime \<Rightarrow> address \<Rightarrow> account_view list \<Rightarrow> bytes \<Rightarrow> world \<Rightarrow> world res" where
  "process_instruction_withdraw rt program_id accounts instruction_data w =
     (case instruction_data of
        [] \<Rightarrow> Inl InvalidInstructionData
      | d # instruction_data \<Rightarrow>
          bindE (ok_orE (withdraw_instruction_try_from d) InvalidInstructionData) (\<lambda>discriminator.
          case discriminator of
            WithdrawFunds \<Rightarrow> process_withdraw_funds rt program_id accounts instruction_data w
          | SetWithdrawConfig \<Rightarrow>
              process_set_withdraw_config rt program_id accounts instruction_data w))"

section \<open>The config codec\<close>

lemma WithdrawConfig_layout:
  "length bs = 89 \<Longrightarrow> bs = bs ! 0 # slice 1 8 bs @ slice 9 8 bs @ slice 17 32 bs @ slice 49 32 bs
     @ slice 81 8 bs"
  by (rule nth_equalityI) (auto simp: nth_append nth_Cons')

lemma length_WithdrawConfig_to_bytes [simp]:
  "length (WithdrawConfig_to_bytes c) = WithdrawConfig_LEN"
  by (simp add: WithdrawConfig_to_bytes_def WithdrawConfig_LEN_def)

lemma WithdrawConfig_dec_enc [simp]:
  "WithdrawConfig_try_from_bytes (WithdrawConfig_to_bytes c) = Inr c"
  by (simp add: WithdrawConfig_try_from_bytes_def)
    (simp add: WithdrawConfig_to_bytes_def nth_append slice_append_left slice_append_right)

text \<open>
  A withdraw config account decodes to a config exactly when its bytes are that config's
  encoding: the layout round-trips and has no slack.
\<close>

theorem withdraw_config_decodes_iff:
  "WithdrawConfig_try_from_bytes bs = Inr c \<longleftrightarrow> bs = WithdrawConfig_to_bytes c"
proof
  assume "WithdrawConfig_try_from_bytes bs = Inr c"
  then show "bs = WithdrawConfig_to_bytes c"
    using WithdrawConfig_layout [of bs]
    by (auto simp: WithdrawConfig_try_from_bytes_def WithdrawConfig_to_bytes_def
        WithdrawConfig_LEN_def u64_le_of_le address_bytes_of_bytes)
qed simp

section \<open>WithdrawFunds\<close>

lemma process_withdraw_funds_Inr:
  assumes "process_withdraw_funds rt p accounts xs w = Inr w'"
  obtains args config w1 w2 where
    "withdraw_funds_parse_instruction_data xs = Inr args" "wfa_amount args \<noteq> 0"
    "length accounts = 7" "av_is_signer (accounts ! 0)"
    "verify_token_program (accounts ! 3) = Inr ()" "verify_mint_account rt w (accounts ! 1) = Inr ()"
    "validate_ata_withdraw rt w (accounts ! 2) (av_address (accounts ! 0)) (accounts ! 1)
       (accounts ! 3) = Inr ()"
    "owned_by w (accounts ! 5) p"
    "WithdrawConfig_try_from_bytes (data_of w (accounts ! 5)) = Inr config"
    "rt_create_program_address rt [WITHDRAW_CONFIG_SEED, address_bytes (av_address (accounts ! 1)),
       [wc_bump config]] p = Some (av_address (accounts ! 5))"
    "\<not> (av_address (accounts ! 0) \<noteq> wc_treasury config
       \<and> wfa_amount args < wc_min_withdraw_amount config)"
    "(if 0 < wc_fee config \<and> av_address (accounts ! 0) \<noteq> wc_treasury config then
        bindE (guardE (av_address (accounts ! 6) = wc_treasury_token_account config)
          (withdraw_err InvalidTreasuryAccount)) (\<lambda>_.
        invoke_signed rt (TokenTransfer (av_address (accounts ! 2)) (av_address (accounts ! 6))
          (av_address (accounts ! 0)) (wc_fee config) (av_address (accounts ! 3))) [] w)
      else Inr w) = Inr w1"
    "invoke_signed rt (TokenBurn (av_address (accounts ! 2)) (av_address (accounts ! 1))
       (av_address (accounts ! 0)) (wfa_amount args) (av_address (accounts ! 3))) [] w1 = Inr w2"
    "w2\<lparr>w_logs := w_logs w2 @ [WithdrawFundsEvent_to_bytes \<lparr>wfe_amount = wfa_amount args,
       wfe_destination = (case wfa_destination args of None \<Rightarrow> av_address (accounts ! 0)
          | Some d \<Rightarrow> d)\<rparr>]\<rparr> = w'"
  using assms unfolding process_withdraw_funds_def Let_def
  apply (simp only: bindE_eq_Inr guardE_eq_Inr ok_orE_eq_Inr sum.inject)
  apply (elim exE conjE)
  apply (rule that; (assumption | simp add: verify_signer_withdraw_def))
  done

lemma invoke_signed_trace:
  "invoke_signed rt c seeds w = Inr w' \<Longrightarrow>
   w_invoked w' = w_invoked w @ [(c, seeds)] \<and> w_logs w' = w_logs w"
  by (auto simp: invoke_signed_def)


section \<open>SetWithdrawConfig\<close>

text \<open>The config the handler writes.\<close>

definition config_of_args ::
  "runtime \<Rightarrow> u8 \<Rightarrow> address \<Rightarrow> set_withdraw_config_args \<Rightarrow> withdraw_config" where
  "config_of_args rt bump mint args =
     \<lparr>wc_bump = bump, wc_fee = sca_fee args, wc_allow_mint_slot = sca_allow_mint_slot args,
      wc_treasury = sca_treasury args,
      wc_treasury_token_account = fst (rt_find_program_address rt
        [address_bytes (sca_treasury args), address_bytes TOKEN_2022_PROGRAM_ID,
         address_bytes mint] ATA_PROGRAM_ID),
      wc_min_withdraw_amount = sca_min_withdraw_amount args\<rparr>"

lemma process_set_withdraw_config_Inr:
  assumes "process_set_withdraw_config rt p accounts xs w = Inr w'"
  obtains args bump where
    "set_withdraw_config_parse_instruction_data xs = Inr args" "av_is_signer (accounts ! 0)"
    "owned_by w (accounts ! 1) TOKEN_2022_PROGRAM_ID"
    "rt_mint_2022_authority rt (data_of w (accounts ! 1)) = Some (av_address (accounts ! 0))"
    "rt_find_program_address rt [WITHDRAW_CONFIG_SEED, address_bytes (av_address (accounts ! 1))] p
       = (av_address (accounts ! 2), bump)"
    "(\<exists>stored. owned_by w (accounts ! 2) p
        \<and> WithdrawConfig_try_from_bytes (data_of w (accounts ! 2)) = Inr stored
        \<and> sca_allow_mint_slot args < wc_allow_mint_slot stored \<and> w' = w)
     \<or> (\<exists>stored. owned_by w (accounts ! 2) p
        \<and> WithdrawConfig_try_from_bytes (data_of w (accounts ! 2)) = Inr stored
        \<and> wc_allow_mint_slot stored \<le> sca_allow_mint_slot args
        \<and> copy_from_slice [] (accounts ! 2)
            (WithdrawConfig_to_bytes (config_of_args rt bump (av_address (accounts ! 1)) args)) w
            = Inr w')
     \<or> (\<exists>rent w1. \<not> owned_by w (accounts ! 2) p
        \<and> create_pda_account_withdraw rt (accounts ! 0) rent WithdrawConfig_LEN p (accounts ! 2)
            [WITHDRAW_CONFIG_SEED, address_bytes (av_address (accounts ! 1)), [bump]] w = Inr w1
        \<and> copy_from_slice [] (accounts ! 2)
            (WithdrawConfig_to_bytes (config_of_args rt bump (av_address (accounts ! 1)) args)) w1
            = Inr w')"
proof -
  obtain cfg bump where find: "rt_find_program_address rt
      [WITHDRAW_CONFIG_SEED, address_bytes (av_address (accounts ! 1))] p = (cfg, bump)"
    by force
  from assms obtain args where a: "set_withdraw_config_parse_instruction_data xs = Inr args"
    "av_is_signer (accounts ! 0)" "owned_by w (accounts ! 1) TOKEN_2022_PROGRAM_ID"
    "rt_mint_2022_authority rt (data_of w (accounts ! 1)) = Some (av_address (accounts ! 0))"
    "av_address (accounts ! 2) = cfg"
    and rest: "(if owned_by w (accounts ! 2) p then
       bindE (WithdrawConfig_try_from_bytes (data_of w (accounts ! 2))) (\<lambda>stored.
       if sca_allow_mint_slot args < wc_allow_mint_slot stored then Inr w
       else copy_from_slice [] (accounts ! 2)
         (WithdrawConfig_to_bytes (config_of_args rt bump (av_address (accounts ! 1)) args)) w)
     else
       bindE (rt_rent rt) (\<lambda>rent.
       bindE (create_pda_account_withdraw rt (accounts ! 0) rent WithdrawConfig_LEN p (accounts ! 2)
         [WITHDRAW_CONFIG_SEED, address_bytes (av_address (accounts ! 1)), [bump]] w) (\<lambda>w.
       copy_from_slice [] (accounts ! 2)
         (WithdrawConfig_to_bytes (config_of_args rt bump (av_address (accounts ! 1)) args)) w)))
      = Inr w'"
    unfolding process_set_withdraw_config_def Let_def find prod.case config_of_args_def
      verify_signer_withdraw_def verify_mint_account_def
    by (auto simp only: bindE_assoc guardE_eq_Inr sum.inject
        bindE_eq_Inr [of "set_withdraw_config_parse_instruction_data xs"]
        bindE_eq_Inr [where m = "guardE b e" for b e])
  show ?thesis
  proof (rule that [of args bump])
    show "rt_find_program_address rt [WITHDRAW_CONFIG_SEED,
      address_bytes (av_address (accounts ! 1))] p = (av_address (accounts ! 2), bump)"
      using find a(5) by simp
  next
    show "(\<exists>stored. owned_by w (accounts ! 2) p
        \<and> WithdrawConfig_try_from_bytes (data_of w (accounts ! 2)) = Inr stored
        \<and> sca_allow_mint_slot args < wc_allow_mint_slot stored \<and> w' = w)
     \<or> (\<exists>stored. owned_by w (accounts ! 2) p
        \<and> WithdrawConfig_try_from_bytes (data_of w (accounts ! 2)) = Inr stored
        \<and> wc_allow_mint_slot stored \<le> sca_allow_mint_slot args
        \<and> copy_from_slice [] (accounts ! 2)
            (WithdrawConfig_to_bytes (config_of_args rt bump (av_address (accounts ! 1)) args)) w
            = Inr w')
     \<or> (\<exists>rent w1. \<not> owned_by w (accounts ! 2) p
        \<and> create_pda_account_withdraw rt (accounts ! 0) rent WithdrawConfig_LEN p (accounts ! 2)
            [WITHDRAW_CONFIG_SEED, address_bytes (av_address (accounts ! 1)), [bump]] w = Inr w1
        \<and> copy_from_slice [] (accounts ! 2)
            (WithdrawConfig_to_bytes (config_of_args rt bump (av_address (accounts ! 1)) args)) w1
            = Inr w')"
      using rest by (cases "owned_by w (accounts ! 2) p") (auto simp: not_less split: if_splits)
  qed (use a in simp_all)
qed

lemma data_of_copy:
  "copy_from_slice live info bs w = Inr w' \<Longrightarrow> data_of w' info = bs"
  by (auto simp: copy_from_slice_def data_of_def account_of_def set_data_def set_account_def)

text \<open>
  SetWithdrawConfig succeeds only for the mint authority, on the config address of the mint.
  A write from an older slot than the stored one changes nothing at all; any other success leaves
  an account that decodes to exactly the config of the instruction.
\<close>

theorem set_withdraw_config_effect:
  assumes "process_set_withdraw_config rt p accounts xs w = Inr w'"
  shows "\<exists>args bump. set_withdraw_config_parse_instruction_data xs = Inr args
    \<and> av_is_signer (accounts ! 0)
    \<and> rt_mint_2022_authority rt (data_of w (accounts ! 1)) = Some (av_address (accounts ! 0))
    \<and> rt_find_program_address rt [WITHDRAW_CONFIG_SEED, address_bytes (av_address (accounts ! 1))] p
        = (av_address (accounts ! 2), bump)
    \<and> ((\<exists>stored. owned_by w (accounts ! 2) p
           \<and> WithdrawConfig_try_from_bytes (data_of w (accounts ! 2)) = Inr stored
           \<and> sca_allow_mint_slot args < wc_allow_mint_slot stored \<and> w' = w)
       \<or> WithdrawConfig_try_from_bytes (data_of w' (accounts ! 2))
           = Inr (config_of_args rt bump (av_address (accounts ! 1)) args))"
  using assms
  by (rule process_set_withdraw_config_Inr) (use data_of_copy in fastforce)

section \<open>The config over any instruction\<close>

text \<open>
  A CPI to another program cannot change an account the withdraw program owns.
\<close>

definition owner_cpi_contract :: "runtime \<Rightarrow> address \<Rightarrow> bool" where
  "owner_cpi_contract rt p \<longleftrightarrow>
     (\<forall>c seeds l l' a. rt_invoke rt c seeds l = Inr l' \<longrightarrow> (\<forall>metas bs. c \<noteq> Invoke p metas bs) \<longrightarrow>
        acc_owner (l a) = p \<longrightarrow> acc_owner (l' a) = p \<and> acc_data (l' a) = acc_data (l a))"

definition keeps_owned :: "address \<Rightarrow> address \<Rightarrow> world \<Rightarrow> world \<Rightarrow> bool" where
  "keeps_owned p a w w' \<longleftrightarrow> (acc_owner (w_ledger w a) = p \<longrightarrow>
     acc_owner (w_ledger w' a) = p \<and> acc_data (w_ledger w' a) = acc_data (w_ledger w a))"

lemma keeps_owned_refl: "keeps_owned p a w w"
  by (simp add: keeps_owned_def)

lemma keeps_owned_trans:
  "keeps_owned p a w w1 \<Longrightarrow> keeps_owned p a w1 w2 \<Longrightarrow> keeps_owned p a w w2"
  by (simp add: keeps_owned_def)

lemma keeps_owned_invoke:
  assumes "owner_cpi_contract rt p" "invoke_signed rt c seeds w = Inr w'"
    "\<forall>metas bs. c \<noteq> Invoke p metas bs"
  shows "keeps_owned p a w w'"
proof -
  from assms(2) obtain l' where l': "rt_invoke rt c seeds (w_ledger w) = Inr l'" "w_ledger w' = l'"
    by (auto simp: invoke_signed_def)
  then show ?thesis
    using assms(1,3) unfolding owner_cpi_contract_def keeps_owned_def by metis
qed

lemma keeps_owned_create:
  assumes "owner_cpi_contract rt p"
    "create_pda_account_withdraw rt payer rent n ow info seeds w = Inr w'"
  shows "keeps_owned p a w w'"
proof -
  note step = keeps_owned_invoke [OF assms(1)]
  show ?thesis
    using assms(2) unfolding create_pda_account_withdraw_def Let_def
    by (auto split: if_splits dest!: step [where a = a] intro: keeps_owned_trans)
qed

lemma withdraw_funds_keeps_owned:
  assumes "owner_cpi_contract rt p" "process_withdraw_funds rt p accounts xs w = Inr w'"
  shows "keeps_owned p a w w'"
  using assms(2)
proof (rule process_withdraw_funds_Inr)
  fix args config w1 w2
  assume fee: "(if 0 < wc_fee config \<and> av_address (accounts ! 0) \<noteq> wc_treasury config then
        bindE (guardE (av_address (accounts ! 6) = wc_treasury_token_account config)
          (withdraw_err InvalidTreasuryAccount)) (\<lambda>_.
        invoke_signed rt (TokenTransfer (av_address (accounts ! 2)) (av_address (accounts ! 6))
          (av_address (accounts ! 0)) (wc_fee config) (av_address (accounts ! 3))) [] w)
      else Inr w) = Inr w1"
    and burn: "invoke_signed rt (TokenBurn (av_address (accounts ! 2)) (av_address (accounts ! 1))
       (av_address (accounts ! 0)) (wfa_amount args) (av_address (accounts ! 3))) [] w1 = Inr w2"
    and w': "w2\<lparr>w_logs := w_logs w2 @ [WithdrawFundsEvent_to_bytes \<lparr>wfe_amount = wfa_amount args,
       wfe_destination = (case wfa_destination args of None \<Rightarrow> av_address (accounts ! 0)
          | Some d \<Rightarrow> d)\<rparr>]\<rparr> = w'"
  have "keeps_owned p a w w1"
    using fee keeps_owned_invoke [OF assms(1)] keeps_owned_refl by (auto split: if_splits)
  moreover have "keeps_owned p a w1 w2"
    using keeps_owned_invoke [OF assms(1) burn] by simp
  ultimately show ?thesis using w' by (auto simp: keeps_owned_def)
qed

lemma copy_from_slice_ledger:
  "copy_from_slice live info bs w = Inr w' \<Longrightarrow>
   w_ledger w' = (w_ledger w)(av_address info := (w_ledger w (av_address info))\<lparr>acc_data := bs\<rparr>)"
  by (auto simp: copy_from_slice_def set_data_def set_account_def account_of_def)

text \<open>
  Under any instruction of the withdraw program, an existing config account stays the
  program's and keeps decoding, and its AllowMint slot never goes back: either the account
  decodes to the same config as before, or a SetWithdrawConfig that the mint's authority signed
  rewrote it, to a config whose slot is at least the stored one.
\<close>

theorem config_slot_never_decreases:
  assumes rt: "owner_cpi_contract rt p"
    and run: "process_instruction_withdraw rt p accounts ixdata w = Inr w'"
    and own: "acc_owner (w_ledger w a) = p"
    and dec: "WithdrawConfig_try_from_bytes (acc_data (w_ledger w a)) = Inr c"
  shows "acc_owner (w_ledger w' a) = p \<and>
    (\<exists>c'. WithdrawConfig_try_from_bytes (acc_data (w_ledger w' a)) = Inr c'
       \<and> wc_allow_mint_slot c \<le> wc_allow_mint_slot c'
       \<and> (c' = c \<or> av_is_signer (accounts ! 0)
            \<and> rt_mint_2022_authority rt (data_of w (accounts ! 1)) = Some (av_address (accounts ! 0))))"
proof -
  obtain d xs where d: "ixdata = d # xs"
    using run by (cases ixdata) (auto simp: process_instruction_withdraw_def)
  consider (funds) "process_withdraw_funds rt p accounts xs w = Inr w'"
    | (config) "process_set_withdraw_config rt p accounts xs w = Inr w'"
    using run d
    by (auto simp: process_instruction_withdraw_def withdraw_instruction_try_from_def
        split: if_splits)
  then show ?thesis
  proof cases
    case funds
    from withdraw_funds_keeps_owned [OF rt this, of a] show ?thesis
      using own dec by (auto simp: keeps_owned_def)
  next
    case config
    then show ?thesis
    proof (rule process_set_withdraw_config_Inr)
      fix args bump
      assume sig: "av_is_signer (accounts ! 0)"
        "rt_mint_2022_authority rt (data_of w (accounts ! 1)) = Some (av_address (accounts ! 0))"
        and cases: "(\<exists>stored. owned_by w (accounts ! 2) p
            \<and> WithdrawConfig_try_from_bytes (data_of w (accounts ! 2)) = Inr stored
            \<and> sca_allow_mint_slot args < wc_allow_mint_slot stored \<and> w' = w)
         \<or> (\<exists>stored. owned_by w (accounts ! 2) p
            \<and> WithdrawConfig_try_from_bytes (data_of w (accounts ! 2)) = Inr stored
            \<and> wc_allow_mint_slot stored \<le> sca_allow_mint_slot args
            \<and> copy_from_slice [] (accounts ! 2)
                (WithdrawConfig_to_bytes (config_of_args rt bump (av_address (accounts ! 1)) args)) w
                = Inr w')
         \<or> (\<exists>rent w1. \<not> owned_by w (accounts ! 2) p
            \<and> create_pda_account_withdraw rt (accounts ! 0) rent WithdrawConfig_LEN p (accounts ! 2)
                [WITHDRAW_CONFIG_SEED, address_bytes (av_address (accounts ! 1)), [bump]] w = Inr w1
            \<and> copy_from_slice [] (accounts ! 2)
                (WithdrawConfig_to_bytes (config_of_args rt bump (av_address (accounts ! 1)) args)) w1
                = Inr w')"
      from cases show ?thesis
      proof (elim disjE exE conjE)
        fix stored
        assume "w' = w"
        with own dec show ?thesis by simp
      next
        fix stored
        assume st: "WithdrawConfig_try_from_bytes (data_of w (accounts ! 2)) = Inr stored"
          "wc_allow_mint_slot stored \<le> sca_allow_mint_slot args"
          and cp: "copy_from_slice [] (accounts ! 2)
            (WithdrawConfig_to_bytes (config_of_args rt bump (av_address (accounts ! 1)) args)) w
            = Inr w'"
        show ?thesis
          using st own dec sig copy_from_slice_ledger [OF cp]
          by (cases "av_address (accounts ! 2) = a")
            (auto simp: data_of_def account_of_def config_of_args_def)
      next
        fix rent w1
        assume no: "\<not> owned_by w (accounts ! 2) p"
          and cr: "create_pda_account_withdraw rt (accounts ! 0) rent WithdrawConfig_LEN p
            (accounts ! 2) [WITHDRAW_CONFIG_SEED, address_bytes (av_address (accounts ! 1)), [bump]] w
            = Inr w1"
          and cp: "copy_from_slice [] (accounts ! 2)
            (WithdrawConfig_to_bytes (config_of_args rt bump (av_address (accounts ! 1)) args)) w1
            = Inr w'"
        have "av_address (accounts ! 2) \<noteq> a"
          using no own by (auto simp: owned_by_def account_of_def)
        then show ?thesis
          using keeps_owned_create [OF rt cr, of a] own dec copy_from_slice_ledger [OF cp]
          by (auto simp: keeps_owned_def)
      qed
    qed
  qed
qed

section \<open>A concrete scenario\<close>

text \<open>Mint 11 with authority 14, its config at 12, the token account of wallet 15 at 13.\<close>

definition demo_config :: withdraw_config where
  "demo_config = \<lparr>wc_bump = 255, wc_fee = 3, wc_allow_mint_slot = 10, wc_treasury = 20,
     wc_treasury_token_account = 21, wc_min_withdraw_amount = 5\<rparr>"

definition demo_channel_rt :: runtime where
  "demo_channel_rt =
     \<lparr>rt_find_program_address = (\<lambda>seeds p. (if length (hd seeds) = 15 then 12 else 13, 255)),
      rt_create_program_address = (\<lambda>seeds p. Some 12),
      rt_derive_program_address = (\<lambda>seeds p. (109, 255)),
      rt_rent = Inr (\<lambda>n. Inr 1), rt_invoke = (\<lambda>c seeds l. Inr l),
      rt_token_amount = (\<lambda>_. 0), rt_token_2022_amount = (\<lambda>_. 0),
      rt_mint_decimals = (\<lambda>_. 6), rt_mint_2022_decimals = (\<lambda>_. 6), rt_mint_len = 8,
      rt_mint_has_freeze_authority = (\<lambda>_. False), rt_unpack_mint_2022 = (\<lambda>_. None),
      rt_memo_required = (\<lambda>_. None), rt_mint_2022_base_len = 1,
      rt_mint_2022_authority = (\<lambda>_. Some 14),
      rt_ext_token_metadata = 19, rt_ext_token_group = 21, rt_ext_token_group_member = 23\<rparr>"

definition demo_channel_world :: world where
  "demo_channel_world =
     \<lparr>w_ledger = (\<lambda>a.
        if a = 11 then \<lparr>acc_lamports = 1, acc_data = [0], acc_owner = TOKEN_2022_PROGRAM_ID\<rparr>
        else if a = 12 then
          \<lparr>acc_lamports = 1, acc_data = WithdrawConfig_to_bytes demo_config, acc_owner = WITHDRAW_ID\<rparr>
        else if a = 13 then \<lparr>acc_lamports = 1, acc_data = [0], acc_owner = TOKEN_2022_PROGRAM_ID\<rparr>
        else \<lparr>acc_lamports = 1, acc_data = [], acc_owner = SYSTEM_PROGRAM_ID\<rparr>),
      w_invoked = [], w_logs = []\<rparr>"

definition demo_withdraw_accounts :: "account_view list" where
  "demo_withdraw_accounts =
     [signer_view 15, plain_view 11, plain_view 13, plain_view TOKEN_2022_PROGRAM_ID,
      plain_view ATA_PROGRAM_ID, plain_view 12, plain_view 21]"

definition demo_set_config_accounts :: "account_view list" where
  "demo_set_config_accounts =
     [signer_view 14, plain_view 11, plain_view 12, plain_view SYSTEM_PROGRAM_ID]"

definition demo_set_config_data :: bytes where
  "demo_set_config_data = u64_le 4 @ u64_le 12 @ address_bytes 20 @ u64_le 6"

lemma demo_channel_contract: "owner_cpi_contract demo_channel_rt p"
  by (simp add: owner_cpi_contract_def demo_channel_rt_def)

lemmas demo_channel_defs = demo_channel_rt_def demo_channel_world_def data_of_def account_of_def
  owned_by_def is_data_empty_def verify_signer_withdraw_def verify_ata_program_withdraw_def
  verify_token_program_def verify_mint_account_def validate_ata_withdraw_def
  invoke_signed_def require_len_withdraw_def bytes_of_string_def WITHDRAW_CONFIG_SEED_def
  demo_config_def Let_def

lemma demo_withdraw_funds:
  "\<exists>w'. process_withdraw_funds demo_channel_rt WITHDRAW_ID demo_withdraw_accounts
    (u64_le 100 @ [0]) demo_channel_world = Inr w'"
proof -
  have args: "withdraw_funds_parse_instruction_data (u64_le 100 @ [0])
      = Inr \<lparr>wfa_amount = 100, wfa_destination = None\<rparr>"
    by (simp add: withdraw_funds_parse_instruction_data_def require_len_withdraw_def nth_append
        slice_append_left)
  have [simp]: "data_of demo_channel_world (plain_view 12) = WithdrawConfig_to_bytes demo_config"
    by (simp add: data_of_def account_of_def demo_channel_world_def)
  show ?thesis
    unfolding process_withdraw_funds_def
    by (simp add: args demo_withdraw_accounts_def) (simp add: demo_channel_defs)
qed

lemma demo_set_config:
  "\<exists>w' c. process_set_withdraw_config demo_channel_rt WITHDRAW_ID demo_set_config_accounts
      demo_set_config_data demo_channel_world = Inr w'
    \<and> acc_data (w_ledger w' 12) = WithdrawConfig_to_bytes c \<and> wc_allow_mint_slot c = 12"
proof -
  have args: "set_withdraw_config_parse_instruction_data demo_set_config_data
      = Inr \<lparr>sca_fee = 4, sca_allow_mint_slot = 12, sca_treasury = 20,
             sca_min_withdraw_amount = 6\<rparr>"
    by (simp add: set_withdraw_config_parse_instruction_data_def require_len_withdraw_def
        demo_set_config_data_def slice_append_left slice_append_right)
  have find: "rt_find_program_address demo_channel_rt [WITHDRAW_CONFIG_SEED, x] p = (12, 255)" for x p
    by (simp add: demo_channel_rt_def WITHDRAW_CONFIG_SEED_def bytes_of_string_def)
  have [simp]: "data_of demo_channel_world (plain_view 12) = WithdrawConfig_to_bytes demo_config"
    by (simp add: data_of_def account_of_def demo_channel_world_def)
  have slot: "wc_allow_mint_slot demo_config = 10" by (simp add: demo_config_def)
  show ?thesis
    unfolding process_set_withdraw_config_def
    by (simp add: args demo_set_config_accounts_def find copy_from_slice_def try_borrow_mut_def
        Let_def slot)
      (simp add: demo_channel_rt_def demo_channel_world_def data_of_def account_of_def
        owned_by_def verify_signer_withdraw_def verify_mint_account_def set_data_def set_account_def,
        rule exI, rule conjI, rule refl, simp)
qed


theorem set_withdraw_config_effect_witness:
  "\<exists>w' args. process_set_withdraw_config demo_channel_rt WITHDRAW_ID demo_set_config_accounts
      demo_set_config_data demo_channel_world = Inr w'
    \<and> set_withdraw_config_parse_instruction_data demo_set_config_data = Inr args
    \<and> av_is_signer (demo_set_config_accounts ! 0)"
proof -
  obtain w' where run: "process_set_withdraw_config demo_channel_rt WITHDRAW_ID
      demo_set_config_accounts demo_set_config_data demo_channel_world = Inr w'"
    using demo_set_config by blast
  show ?thesis using run set_withdraw_config_effect [OF run] by blast
qed

theorem config_slot_never_decreases_witness:
  "\<exists>w' c'. process_instruction_withdraw demo_channel_rt WITHDRAW_ID demo_set_config_accounts
      (1 # demo_set_config_data) demo_channel_world = Inr w'
    \<and> WithdrawConfig_try_from_bytes (acc_data (w_ledger w' 12)) = Inr c'
    \<and> wc_allow_mint_slot demo_config \<le> wc_allow_mint_slot c'"
proof -
  obtain w' where "process_set_withdraw_config demo_channel_rt WITHDRAW_ID
      demo_set_config_accounts demo_set_config_data demo_channel_world = Inr w'"
    using demo_set_config by blast
  then have run: "process_instruction_withdraw demo_channel_rt WITHDRAW_ID
      demo_set_config_accounts (1 # demo_set_config_data) demo_channel_world = Inr w'"
    by (simp add: process_instruction_withdraw_def withdraw_instruction_try_from_def)
  have "acc_owner (w_ledger demo_channel_world 12) = WITHDRAW_ID"
    "WithdrawConfig_try_from_bytes (acc_data (w_ledger demo_channel_world 12)) = Inr demo_config"
    by (simp_all add: demo_channel_world_def)
  from config_slot_never_decreases [OF demo_channel_contract run this] run show ?thesis by blast
qed

end
