(* ===== verification/Admission.thy ===== *)
theory Admission
  imports Withdraw_Program
begin

text \<open>
  Which transactions enter the channel: the instruction policy (\<open>core/src/transactions.rs\<close>), the
  checks of \<open>sendTransaction\<close> after decoding (\<open>core/src/rpc/send_transaction_impl.rs\<close>) and the
  signature stage (\<open>core/src/stages/sigverify.rs\<close>). A sanitized transaction is what the SDK's
  accessors return for it; keys and derivations defined outside the repository are the fields of
  an environment record.
\<close>

section \<open>Transactions and policy\<close>

record sdk_instruction =
  si_accounts :: "u8 list"
  si_data :: bytes

record sanitized_transaction =
  account_keys :: "address list"
  num_required_signatures :: u8
  program_instructions :: "(address \<times> sdk_instruction) list"
  is_writable :: "nat \<Rightarrow> bool"
  verify_error :: "string option"

record ingress_env =
  memo_id :: address
  native_mint_id :: address
  rent_sysvar_id :: address
  reserved_keys :: "address list"
  associated_token_address :: "address \<Rightarrow> address \<Rightarrow> address \<Rightarrow> address"
  valid_account_locks :: "sanitized_transaction \<Rightarrow> bool"

text \<open>\<open>dvp34bdbcEm4f4FCUjGV4mDAkDshaQR4LkK8fdcsyZq\<close> as a number.\<close>

definition DVP_SWAP_PROGRAM_ID :: address where
  "DVP_SWAP_PROGRAM_ID = 4278867834556605320538438674809853439506370150884848778837800906795627241936"

text \<open>The keys of the \<open>PRECOMPILES\<close> map.\<close>

definition precompile_keys :: "ingress_env \<Rightarrow> address list" where
  "precompile_keys env = [SYSTEM_PROGRAM_ID, TOKEN_2022_PROGRAM_ID, ATA_PROGRAM_ID,
     rent_sysvar_id env, memo_id env, WITHDRAW_ID, DVP_SWAP_PROGRAM_ID]"

record seize_policy =
  sp_delegate :: "address option"
  sp_compliance_owner :: "address option"

record ingress_policy =
  admin_keys :: "address list"
  ip_seize :: seize_policy

definition get_nth :: "nat \<Rightarrow> 'a list \<Rightarrow> 'a option" where
  "get_nth i xs = (if i < length xs then Some (xs ! i) else None)"

section \<open>Instruction policy\<close>

definition T22_INITIALIZE_MINT :: u8 where "T22_INITIALIZE_MINT = 0"
definition T22_INITIALIZE_MINT2 :: u8 where "T22_INITIALIZE_MINT2 = 20"
definition T22_INITIALIZE_PERMANENT_DELEGATE :: u8 where "T22_INITIALIZE_PERMANENT_DELEGATE = 35"
definition T22_SET_AUTHORITY :: u8 where "T22_SET_AUTHORITY = 6"
definition T22_MINT_TO :: u8 where "T22_MINT_TO = 7"
definition T22_FREEZE_ACCOUNT :: u8 where "T22_FREEZE_ACCOUNT = 10"
definition T22_THAW_ACCOUNT :: u8 where "T22_THAW_ACCOUNT = 11"
definition T22_MINT_TO_CHECKED :: u8 where "T22_MINT_TO_CHECKED = 14"
definition T22_BURN :: u8 where "T22_BURN = 8"
definition T22_TRANSFER_CHECKED :: u8 where "T22_TRANSFER_CHECKED = 12"
definition T22_BURN_CHECKED :: u8 where "T22_BURN_CHECKED = 15"
definition AUTHORITY_TYPE_ACCOUNT_OWNER :: u8 where "AUTHORITY_TYPE_ACCOUNT_OWNER = 2"
definition AUTHORITY_TYPE_CLOSE_ACCOUNT :: u8 where "AUTHORITY_TYPE_CLOSE_ACCOUNT = 3"
definition AUTHORITY_TYPE_PERMANENT_DELEGATE :: u8 where "AUTHORITY_TYPE_PERMANENT_DELEGATE = 8"
definition SET_WITHDRAW_CONFIG_DISCRIMINATOR :: u8 where "SET_WITHDRAW_CONFIG_DISCRIMINATOR = 1"

lemmas t22_tags = T22_INITIALIZE_MINT_def T22_INITIALIZE_MINT2_def
  T22_INITIALIZE_PERMANENT_DELEGATE_def T22_SET_AUTHORITY_def T22_MINT_TO_def
  T22_FREEZE_ACCOUNT_def T22_THAW_ACCOUNT_def T22_MINT_TO_CHECKED_def T22_BURN_def
  T22_TRANSFER_CHECKED_def T22_BURN_CHECKED_def AUTHORITY_TYPE_ACCOUNT_OWNER_def
  AUTHORITY_TYPE_CLOSE_ACCOUNT_def AUTHORITY_TYPE_PERMANENT_DELEGATE_def

definition ADMIN_INSTRUCTIONS_MAP :: "address \<rightharpoonup> u8 set" where
  "ADMIN_INSTRUCTIONS_MAP =
     [TOKEN_2022_PROGRAM_ID \<mapsto>
        {T22_INITIALIZE_MINT, T22_INITIALIZE_MINT2, T22_INITIALIZE_PERMANENT_DELEGATE}]"

definition is_admin_instruction :: "address \<Rightarrow> u8 \<Rightarrow> bool" where
  "is_admin_instruction program_id instruction_type =
     (case ADMIN_INSTRUCTIONS_MAP program_id of
        Some s \<Rightarrow> instruction_type \<in> s | None \<Rightarrow> False)"

definition requires_admin_signer :: "address \<Rightarrow> bytes \<Rightarrow> bool" where
  "requires_admin_signer program_id data =
     (case get_nth 0 data of
        None \<Rightarrow> False
      | Some instruction_type \<Rightarrow>
          if program_id = WITHDRAW_ID then instruction_type = SET_WITHDRAW_CONFIG_DISCRIMINATOR
          else if program_id \<noteq> TOKEN_2022_PROGRAM_ID then False
          else if instruction_type \<in> {T22_MINT_TO, T22_FREEZE_ACCOUNT, T22_THAW_ACCOUNT, T22_MINT_TO_CHECKED}
          then True
          else if instruction_type = T22_SET_AUTHORITY
          then get_nth 1 data \<notin> {Some AUTHORITY_TYPE_ACCOUNT_OWNER, Some AUTHORITY_TYPE_CLOSE_ACCOUNT}
          else False)"

definition is_foreign_delegate_rotation :: "address \<Rightarrow> bytes \<Rightarrow> address option \<Rightarrow> bool" where
  "is_foreign_delegate_rotation program_id data delegate =
     (if program_id \<noteq> TOKEN_2022_PROGRAM_ID \<or> get_nth 0 data \<noteq> Some T22_SET_AUTHORITY
         \<or> get_nth 1 data \<noteq> Some AUTHORITY_TYPE_PERMANENT_DELEGATE
      then False
      else \<not> (get_nth 2 data = Some 1
        \<and> (case delegate of None \<Rightarrow> False
           | Some d \<Rightarrow> 35 \<le> length data \<and> slice 3 32 data = address_bytes d)))"

record delegate_move_info =
  dm_instruction_type :: u8
  dm_source :: address
  dm_mint :: address
  dm_destination :: "address option"
  dm_amount :: "u64 option"

definition token_2022_ata :: "ingress_env \<Rightarrow> address \<Rightarrow> address \<Rightarrow> address" where
  "token_2022_ata env owner mint = associated_token_address env owner mint TOKEN_2022_PROGRAM_ID"

definition authority_index :: "u8 \<Rightarrow> nat option" where
  "authority_index instruction_type =
     (if instruction_type = T22_TRANSFER_CHECKED then Some 3
      else if instruction_type = T22_BURN \<or> instruction_type = T22_BURN_CHECKED then Some 2
      else None)"

definition delegate_move ::
  "ingress_env \<Rightarrow> address \<Rightarrow> address list \<Rightarrow> bytes \<Rightarrow> seize_policy \<Rightarrow> delegate_move_info option" where
  "delegate_move env program_id accounts data seize =
     Option.bind (sp_delegate seize) (\<lambda>delegate.
     if program_id \<noteq> TOKEN_2022_PROGRAM_ID then None
     else Option.bind (get_nth 0 data) (\<lambda>instruction_type.
     Option.bind (authority_index instruction_type) (\<lambda>index.
     if get_nth index accounts \<noteq> Some delegate then None
     else Option.bind (get_nth 0 accounts) (\<lambda>source.
     Option.bind (get_nth 1 accounts) (\<lambda>mint.
     if source = token_2022_ata env delegate mint then None
     else Some
       \<lparr>dm_instruction_type = instruction_type, dm_source = source, dm_mint = mint,
        dm_destination = (if instruction_type = T22_TRANSFER_CHECKED then get_nth 2 accounts else None),
        dm_amount = (if 9 \<le> length data then Some (u64_of_le (slice 1 8 data)) else None)\<rparr>)))))"

definition is_refused :: "ingress_env \<Rightarrow> delegate_move_info \<Rightarrow> seize_policy \<Rightarrow> bool" where
  "is_refused env dm seize =
     (let to_compliance = (case sp_compliance_owner seize of None \<Rightarrow> False
        | Some owner \<Rightarrow> dm_destination dm = Some (token_2022_ata env owner (dm_mint dm)))
      in \<not> (dm_instruction_type dm = T22_TRANSFER_CHECKED \<and> to_compliance))"

definition is_allowed_token_2022_instruction :: "bytes \<Rightarrow> bool" where
  "is_allowed_token_2022_instruction data =
     (case get_nth 0 data of
        Some t \<Rightarrow> t \<le> 24 \<or> t = T22_INITIALIZE_PERMANENT_DELEGATE | None \<Rightarrow> False)"

definition is_allowed_program_instruction :: "ingress_env \<Rightarrow> address \<Rightarrow> bytes \<Rightarrow> bool" where
  "is_allowed_program_instruction env program_id data =
     (if program_id = TOKEN_2022_PROGRAM_ID then is_allowed_token_2022_instruction data
      else program_id = ATA_PROGRAM_ID \<or> program_id = memo_id env \<or> program_id = WITHDRAW_ID
        \<or> program_id = DVP_SWAP_PROGRAM_ID)"

section \<open>Transaction policy\<close>

definition all_instructions_allowed :: "ingress_env \<Rightarrow> sanitized_transaction \<Rightarrow> bool" where
  "all_instructions_allowed env tx =
     list_all (\<lambda>(program_id, ix). is_allowed_program_instruction env program_id (si_data ix))
       (program_instructions tx)"

definition lists_native_mint :: "ingress_env \<Rightarrow> sanitized_transaction \<Rightarrow> bool" where
  "lists_native_mint env tx = list_ex (\<lambda>key. key = native_mint_id env) (account_keys tx)"

definition has_unused_writable_account :: "ingress_env \<Rightarrow> sanitized_transaction \<Rightarrow> bool" where
  "has_unused_writable_account env tx =
     (let used = set (concat (map (\<lambda>(_, ix). map unat (si_accounts ix))
            (filter (\<lambda>(program_id, _). program_id \<noteq> memo_id env) (program_instructions tx))))
      in list_ex (\<lambda>index. is_writable tx index \<and> index \<notin> used) [1..<length (account_keys tx)])"

definition has_writable_program_or_reserved_account ::
  "ingress_env \<Rightarrow> sanitized_transaction \<Rightarrow> bool" where
  "has_writable_program_or_reserved_account env tx =
     list_ex (\<lambda>(index, key). is_writable tx index
         \<and> (key \<in> set (precompile_keys env) \<or> key \<in> set (reserved_keys env)))
       (enumerate 0 (account_keys tx))"

datatype versioned_message = Legacy | V0 nat | V1

text \<open>A \<open>V0\<close> message carries the number of its address table lookups.\<close>

definition has_address_table_lookups :: "versioned_message \<Rightarrow> bool" where
  "has_address_table_lookups m = (case m of Legacy \<Rightarrow> False | V0 n \<Rightarrow> n \<noteq> 0 | V1 \<Rightarrow> False)"

section \<open>The sendTransaction checks\<close>

datatype send_error =
    AddressLookupUnsupported
  | InvalidTransactionLocks
  | NativeMintUnsupported
  | ProgramNotAllowed
  | UnusedWritableAccount
  | WritableProgramOrReservedAccount
  | NodeAtCapacity

datatype ingress_channel = HasRoom | Full | Closed

definition send_transaction ::
  "ingress_env \<Rightarrow> versioned_message \<Rightarrow> sanitized_transaction \<Rightarrow> ingress_channel \<Rightarrow>
     send_error + sanitized_transaction" where
  "send_transaction env message tx channel =
     bindE (guardE (\<not> has_address_table_lookups message) AddressLookupUnsupported) (\<lambda>_.
     bindE (guardE (valid_account_locks env tx) InvalidTransactionLocks) (\<lambda>_.
     bindE (guardE (\<not> lists_native_mint env tx) NativeMintUnsupported) (\<lambda>_.
     bindE (guardE (all_instructions_allowed env tx) ProgramNotAllowed) (\<lambda>_.
     bindE (guardE (\<not> has_unused_writable_account env tx) UnusedWritableAccount) (\<lambda>_.
     bindE (guardE (\<not> has_writable_program_or_reserved_account env tx)
         WritableProgramOrReservedAccount) (\<lambda>_.
     case channel of
       HasRoom \<Rightarrow> Inr tx
     | Full \<Rightarrow> Inl NodeAtCapacity
     | Closed \<Rightarrow> Inl NodeAtCapacity))))))"

section \<open>Signature verification\<close>

datatype transaction_type = Empty | Admin | Normal | Mixed

datatype sigverify_result =
    Valid transaction_type
  | InvalidTransaction transaction_type
  | NotSignedByAdmin
  | ForeignDelegateRotation
  | SeizeTargetRefused
  | SigverifyFailed string

definition is_signed_by_admin :: "sanitized_transaction \<Rightarrow> address list \<Rightarrow> bool" where
  "is_signed_by_admin tx admins =
     list_ex (\<lambda>key. key \<in> set admins) (take (unat (num_required_signatures tx)) (account_keys tx))"

definition needs_admin_signer :: "sanitized_transaction \<Rightarrow> bool" where
  "needs_admin_signer tx =
     list_ex (\<lambda>(program_id, ix). requires_admin_signer program_id (si_data ix)) (program_instructions tx)"

definition rotates_delegate_away :: "sanitized_transaction \<Rightarrow> ingress_policy \<Rightarrow> bool" where
  "rotates_delegate_away tx policy =
     list_ex (\<lambda>(program_id, ix).
         is_foreign_delegate_rotation program_id (si_data ix) (sp_delegate (ip_seize policy)))
       (program_instructions tx)"

definition resolved_accounts :: "address list \<Rightarrow> sdk_instruction \<Rightarrow> address list" where
  "resolved_accounts keys ix = List.map_filter (\<lambda>index. get_nth (unat index) keys) (si_accounts ix)"

definition delegate_moves ::
  "ingress_env \<Rightarrow> sanitized_transaction \<Rightarrow> seize_policy \<Rightarrow> delegate_move_info list" where
  "delegate_moves env tx seize =
     (if sp_delegate seize = None then []
      else List.map_filter (\<lambda>(program_id, ix).
             delegate_move env program_id (resolved_accounts (account_keys tx) ix) (si_data ix) seize)
           (program_instructions tx))"

fun count_instructions :: "(address \<times> sdk_instruction) list \<Rightarrow> nat \<Rightarrow> nat \<Rightarrow> nat \<times> nat" where
  "count_instructions [] num_admin_ix num_ix = (num_admin_ix, num_ix)"
| "count_instructions ((program_id, ix) # ixs) num_admin_ix num_ix =
     (case get_nth 0 (si_data ix) of
        None \<Rightarrow> count_instructions ixs num_admin_ix num_ix
      | Some instruction_type \<Rightarrow>
          count_instructions ixs
            (if is_admin_instruction program_id instruction_type then num_admin_ix + 1 else num_admin_ix)
            (num_ix + 1))"

definition classify_transaction :: "sanitized_transaction \<Rightarrow> transaction_type" where
  "classify_transaction tx =
     (let (num_admin_ix, num_ix) = count_instructions (program_instructions tx) 0 0 in
      if num_ix = 0 then Empty
      else if num_admin_ix = 0 then Normal
      else if num_admin_ix = num_ix then Admin
      else Mixed)"

definition sigverify_transaction ::
  "ingress_env \<Rightarrow> sanitized_transaction \<Rightarrow> ingress_policy \<Rightarrow> sigverify_result" where
  "sigverify_transaction env tx policy =
     (let transaction_type = classify_transaction tx;
          refused = (case transaction_type of
              Empty \<Rightarrow> Some (InvalidTransaction transaction_type)
            | Mixed \<Rightarrow> Some (InvalidTransaction transaction_type)
            | Admin \<Rightarrow> if \<not> is_signed_by_admin tx (admin_keys policy) then Some NotSignedByAdmin else None
            | Normal \<Rightarrow>
                if needs_admin_signer tx \<and> \<not> is_signed_by_admin tx (admin_keys policy)
                then Some NotSignedByAdmin else None)
      in case refused of
           Some r \<Rightarrow> r
         | None \<Rightarrow>
             (case verify_error tx of
                Some e \<Rightarrow> SigverifyFailed e
              | None \<Rightarrow>
                  if rotates_delegate_away tx policy then ForeignDelegateRotation
                  else if list_ex (\<lambda>dm. is_refused env dm (ip_seize policy))
                            (delegate_moves env tx (ip_seize policy))
                  then SeizeTargetRefused
                  else Valid transaction_type))"

text \<open>A worker: valid transactions go to dedup, everything else is dropped; \<open>room\<close> sends succeed.\<close>

fun sigverify_worker ::
  "ingress_env \<Rightarrow> ingress_policy \<Rightarrow> nat option \<Rightarrow> sanitized_transaction list \<Rightarrow> sanitized_transaction list" where
  "sigverify_worker env policy room [] = []"
| "sigverify_worker env policy room (tx # txs) =
     (case sigverify_transaction env tx policy of
        Valid _ \<Rightarrow>
          (case room of
             Some 0 \<Rightarrow> []
           | Some (Suc k) \<Rightarrow> tx # sigverify_worker env policy (Some k) txs
           | None \<Rightarrow> tx # sigverify_worker env policy None txs)
      | _ \<Rightarrow> sigverify_worker env policy room txs)"

section \<open>Lemmas\<close>

lemma count_instructions_eq:
  "count_instructions ixs a n =
     (a + length (filter (\<lambda>(p, ix). \<exists>t. get_nth 0 (si_data ix) = Some t \<and> is_admin_instruction p t) ixs),
      n + length (filter (\<lambda>(p, ix). si_data ix \<noteq> []) ixs))"
  by (induction ixs a n rule: count_instructions.induct) (auto simp: get_nth_def split: option.splits)

lemma count_instructions_append:
  "count_instructions (xs @ ys) a n = (case count_instructions xs a n of (a', n') \<Rightarrow> count_instructions ys a' n')"
  by (induction xs a n rule: count_instructions.induct) (auto split: option.splits)

lemma classify_Normal:
  assumes "classify_transaction tx = Normal" and "(p, ix) \<in> set (program_instructions tx)"
    and "get_nth 0 (si_data ix) = Some t"
  shows "\<not> is_admin_instruction p t"
  using assms
  by (auto simp: classify_transaction_def count_instructions_eq filter_empty_conv split: if_splits)

lemma sigverify_Valid:
  assumes "sigverify_transaction env tx policy = Valid ty"
  shows "classify_transaction tx = ty" and "verify_error tx = None"
    and "ty = Admin \<and> is_signed_by_admin tx (admin_keys policy)
      \<or> ty = Normal \<and> (needs_admin_signer tx \<longrightarrow> is_signed_by_admin tx (admin_keys policy))"
    and "\<not> rotates_delegate_away tx policy"
    and "\<not> list_ex (\<lambda>dm. is_refused env dm (ip_seize policy)) (delegate_moves env tx (ip_seize policy))"
  using assms
  by (auto simp: sigverify_transaction_def Let_def split: transaction_type.splits if_splits option.splits)

lemma delegate_moves_member:
  assumes "(p, ix) \<in> set (program_instructions tx)"
    and "delegate_move env p (resolved_accounts (account_keys tx) ix) (si_data ix) seize = Some dm"
  shows "dm \<in> set (delegate_moves env tx seize)"
proof -
  have "sp_delegate seize \<noteq> None"
    using assms(2) by (cases "sp_delegate seize") (simp_all add: delegate_move_def)
  then show ?thesis
    using assms by (force simp: delegate_moves_def List.map_filter_def)
qed

lemma no_unused_writable:
  assumes "\<not> has_unused_writable_account env tx" and "1 \<le> i" and "i < length (account_keys tx)"
    and "is_writable tx i"
  shows "\<exists>(p, ix)\<in>set (program_instructions tx). p \<noteq> memo_id env \<and> i \<in> unat ` set (si_accounts ix)"
  using assms by (fastforce simp: has_unused_writable_account_def list_ex_iff Let_def)

lemma no_writable_reserved:
  assumes "\<not> has_writable_program_or_reserved_account env tx" and "i < length (account_keys tx)"
    and "is_writable tx i"
  shows "account_keys tx ! i \<notin> set (precompile_keys env) \<union> set (reserved_keys env)"
proof -
  have "(i, account_keys tx ! i) \<in> set (enumerate 0 (account_keys tx))"
    using assms(2) by (simp add: in_set_enumerate_eq)
  then show ?thesis
    using assms(1,3) by (fastforce simp: has_writable_program_or_reserved_account_def list_ex_iff)
qed

section \<open>Properties\<close>



text \<open>
  A transaction \<open>sendTransaction\<close> accepts declares no lookup tables, never calls the System
  program, calls Token-2022 only with the classic instructions and the permanent delegate init,
  does not list the native mint, passes every writable key but the fee payer to an instruction
  that is not a Memo, and write-locks no program, sysvar or other reserved key.
\<close>

theorem send_transaction_admits:
  assumes "send_transaction env message tx channel = Inr tx'"
    and "memo_id env \<noteq> SYSTEM_PROGRAM_ID"
  shows "tx' = tx \<and> \<not> has_address_table_lookups message
    \<and> (\<forall>(program_id, ix)\<in>set (program_instructions tx). program_id \<noteq> SYSTEM_PROGRAM_ID
        \<and> (program_id = TOKEN_2022_PROGRAM_ID \<longrightarrow> (\<exists>t rest. si_data ix = t # rest \<and> (t \<le> 24 \<or> t = 35))))
    \<and> native_mint_id env \<notin> set (account_keys tx)
    \<and> (\<forall>index. 1 \<le> index \<and> index < length (account_keys tx) \<and> is_writable tx index \<longrightarrow>
        (\<exists>(program_id, ix)\<in>set (program_instructions tx). program_id \<noteq> memo_id env
          \<and> index \<in> unat ` set (si_accounts ix)))
    \<and> (\<forall>index<length (account_keys tx). is_writable tx index \<longrightarrow>
        account_keys tx ! index \<notin> set (precompile_keys env) \<union> set (reserved_keys env))"
proof -
  have checks: "tx' = tx" "\<not> has_address_table_lookups message" "\<not> lists_native_mint env tx"
    "all_instructions_allowed env tx" "\<not> has_unused_writable_account env tx"
    "\<not> has_writable_program_or_reserved_account env tx"
    using assms(1)
    by (auto simp: send_transaction_def bindE_eq_Inr guardE_eq_Inr split: ingress_channel.splits)
  have "program_id \<noteq> SYSTEM_PROGRAM_ID
      \<and> (program_id = TOKEN_2022_PROGRAM_ID \<longrightarrow> (\<exists>t rest. si_data ix = t # rest \<and> (t \<le> 24 \<or> t = 35)))"
    if "(program_id, ix) \<in> set (program_instructions tx)" for program_id ix
  proof -
    have ok: "is_allowed_program_instruction env program_id (si_data ix)"
      using checks(4) that by (auto simp: all_instructions_allowed_def list_all_iff)
    then have "program_id \<noteq> SYSTEM_PROGRAM_ID"
      using assms(2)
      by (auto simp: is_allowed_program_instruction_def SYSTEM_PROGRAM_ID_def TOKEN_2022_PROGRAM_ID_def
          ATA_PROGRAM_ID_def WITHDRAW_ID_def DVP_SWAP_PROGRAM_ID_def split: if_splits)
    moreover have "\<exists>t rest. si_data ix = t # rest \<and> (t \<le> 24 \<or> t = 35)"
      if "program_id = TOKEN_2022_PROGRAM_ID"
      using ok that by (cases "si_data ix") (auto simp: is_allowed_program_instruction_def
          is_allowed_token_2022_instruction_def get_nth_def t22_tags split: if_splits)
    ultimately show ?thesis by blast
  qed
  moreover have "native_mint_id env \<notin> set (account_keys tx)"
    using checks(3) by (auto simp: lists_native_mint_def list_ex_iff)
  ultimately show ?thesis
    using checks(1,2) no_unused_writable [OF checks(5)] no_writable_reserved [OF checks(6)] by blast
qed

text \<open>
  C39. An instruction with empty data does not count: it never changes how a transaction is
  classified, whichever program it calls. In particular a transaction of admin instructions and
  an empty-data instruction of another program is still classified as admin.
\<close>

theorem empty_data_instruction_not_counted:
  assumes "program_instructions tx = before @ (program_id, ix) # after" and "si_data ix = []"
  shows "classify_transaction tx = classify_transaction (tx\<lparr>program_instructions := before @ after\<rparr>)"
  using assms
  by (simp add: classify_transaction_def count_instructions_eq get_nth_def)

text \<open>
  A signature worker whose output stays open forwards exactly the valid transactions, in
  the order they came.
\<close>

theorem sigverify_worker_forwards_valid:
  "sigverify_worker env policy None txs
     = filter (\<lambda>tx. \<exists>ty. sigverify_transaction env tx policy = Valid ty) txs"
  by (induction txs) (auto split: sigverify_result.splits)

section \<open>Witnesses\<close>

definition demo_env :: ingress_env where
  "demo_env = \<lparr>memo_id = 101, native_mint_id = 103, rent_sysvar_id = 104,
     reserved_keys = [105], associated_token_address = (\<lambda>owner mint program. owner + mint),
     valid_account_locks = (\<lambda>_. True)\<rparr>"

text \<open>The admin is key 1, the permanent delegate key 2 and the compliance owner key 3.\<close>

definition demo_policy :: ingress_policy where
  "demo_policy = \<lparr>admin_keys = [1], ip_seize = \<lparr>sp_delegate = Some 2, sp_compliance_owner = Some 3\<rparr>\<rparr>"

text \<open>
  An admin pays for a MintTo and for a checked transfer by the delegate of mint 60 from account
  61 into the compliance account 63.
\<close>

definition demo_seize_ix :: sdk_instruction where
  "demo_seize_ix = \<lparr>si_accounts = [2, 3, 4, 1], si_data = [12, 5, 0, 0, 0, 0, 0, 0, 0, 6]\<rparr>"

definition demo_mint_ix :: sdk_instruction where
  "demo_mint_ix = \<lparr>si_accounts = [3, 2, 0], si_data = [7, 5, 0, 0, 0, 0, 0, 0, 0]\<rparr>"

definition demo_admin_tx :: sanitized_transaction where
  "demo_admin_tx = \<lparr>account_keys = [1, 2, 61, 60, 63, TOKEN_2022_PROGRAM_ID],
     num_required_signatures = 2,
     program_instructions = [(TOKEN_2022_PROGRAM_ID, demo_mint_ix), (TOKEN_2022_PROGRAM_ID, demo_seize_ix)],
     is_writable = (\<lambda>i. i < 5), verify_error = None\<rparr>"

lemmas demo_admission_defs = demo_env_def demo_policy_def demo_seize_ix_def demo_mint_ix_def
  demo_admin_tx_def

lemma demo_valid: "sigverify_transaction demo_env demo_admin_tx demo_policy = Valid Normal"
  by (simp add: sigverify_transaction_def classify_transaction_def demo_admission_defs get_nth_def
      is_admin_instruction_def ADMIN_INSTRUCTIONS_MAP_def t22_tags needs_admin_signer_def
      requires_admin_signer_def is_signed_by_admin_def rotates_delegate_away_def
      is_foreign_delegate_rotation_def delegate_moves_def List.map_filter_def delegate_move_def
      resolved_accounts_def authority_index_def token_2022_ata_def is_refused_def Let_def
      TOKEN_2022_PROGRAM_ID_def WITHDRAW_ID_def)


lemma demo_seize_move:
  "delegate_move demo_env TOKEN_2022_PROGRAM_ID
     (resolved_accounts (account_keys demo_admin_tx) demo_seize_ix) (si_data demo_seize_ix)
     (ip_seize demo_policy)
   = Some \<lparr>dm_instruction_type = 12, dm_source = 61, dm_mint = 60, dm_destination = Some 63,
       dm_amount = Some (u64_of_le [5, 0, 0, 0, 0, 0, 0, 0])\<rparr>"
  by (simp add: demo_admission_defs delegate_move_def resolved_accounts_def List.map_filter_def
      authority_index_def token_2022_ata_def get_nth_def t22_tags Prelude.slice_def)


theorem send_transaction_admits_witness:
  "send_transaction demo_env (V0 0) demo_admin_tx HasRoom = Inr demo_admin_tx
   \<and> native_mint_id demo_env \<notin> set (account_keys demo_admin_tx)"
proof -
  have "send_transaction demo_env (V0 0) demo_admin_tx HasRoom = Inr demo_admin_tx"
    by (simp add: send_transaction_def bindE_def guardE_def has_address_table_lookups_def
        lists_native_mint_def all_instructions_allowed_def is_allowed_program_instruction_def
        is_allowed_token_2022_instruction_def has_unused_writable_account_def
        has_writable_program_or_reserved_account_def demo_admission_defs get_nth_def t22_tags
        precompile_keys_def SYSTEM_PROGRAM_ID_def TOKEN_2022_PROGRAM_ID_def ATA_PROGRAM_ID_def
        WITHDRAW_ID_def DVP_SWAP_PROGRAM_ID_def upt_conv_Cons Let_def)
  with send_transaction_admits [OF this] show ?thesis
    by (simp add: demo_env_def SYSTEM_PROGRAM_ID_def)
qed

text \<open>InitializeMint2 followed by an associated-token creation, whose data may be empty.\<close>

definition demo_mint_and_ata_tx :: sanitized_transaction where
  "demo_mint_and_ata_tx = demo_admin_tx\<lparr>program_instructions :=
     [(TOKEN_2022_PROGRAM_ID, \<lparr>si_accounts = [3], si_data = [20]\<rparr>),
      (ATA_PROGRAM_ID, \<lparr>si_accounts = [0, 2, 0, 3], si_data = []\<rparr>)]\<rparr>"

theorem empty_data_instruction_not_counted_witness:
  "classify_transaction demo_mint_and_ata_tx = Admin"
  using empty_data_instruction_not_counted [of demo_mint_and_ata_tx
      "[(TOKEN_2022_PROGRAM_ID, \<lparr>si_accounts = [3], si_data = [20]\<rparr>)]" ATA_PROGRAM_ID
      "\<lparr>si_accounts = [0, 2, 0, 3], si_data = []\<rparr>" "[]"]
  by (simp add: demo_mint_and_ata_tx_def classify_transaction_def get_nth_def is_admin_instruction_def
      ADMIN_INSTRUCTIONS_MAP_def t22_tags)

end
