(* ===== verification/Scheduler.thy ===== *)
theory Scheduler
  imports Prelude "HOL-Library.Multiset"
begin

text \<open>
  The channel's transaction scheduler (\<open>core/src/scheduler\<close>): lock extraction, the dependency-graph
  scheduler the sequencer uses and the greedy scheduler. Transactions are opaque; the account
  locks the SDK reports for one are the parameter \<open>locks\<close>. The order in which a \<open>HashSet\<close> of
  dependents is iterated is the parameter \<open>ord\<close>. A scheduler that panics or does not return
  gives \<open>None\<close>.

  The locales state what the executor relies on: every transaction is in exactly one batch, a
  batch is free of conflicts, and, for the dependency-graph scheduler, conflicting transactions
  keep their order, which makes batched execution equal to sequential execution.
\<close>

section \<open>Batches and locks\<close>

record tx_locks =
  lk_readonly :: "address list"
  lk_writable :: "address list"

record 'tx transaction_with_index =
  twi_transaction :: 'tx
  twi_index :: nat

type_synonym 'tx conflict_free_batch = "'tx transaction_with_index list"

definition add_transaction ::
  "'tx conflict_free_batch \<Rightarrow> 'tx transaction_with_index \<Rightarrow> 'tx conflict_free_batch" where
  "add_transaction batch tx = batch @ [tx]"

definition extract_accounts :: "('tx \<Rightarrow> tx_locks) \<Rightarrow> 'tx \<Rightarrow> address list \<times> address list" where
  "extract_accounts locks tx = (lk_readonly (locks tx), lk_writable (locks tx))"

text \<open>The three conflict loops both schedulers run against the current batch.\<close>

definition has_conflict ::
  "address list \<Rightarrow> address list \<Rightarrow> address set \<Rightarrow> address set \<Rightarrow> bool" where
  "has_conflict read_accounts write_accounts batch_read_accounts batch_write_accounts \<longleftrightarrow>
     list_ex (\<lambda>a. a \<in> batch_write_accounts) write_accounts
     \<or> list_ex (\<lambda>a. a \<in> batch_read_accounts) write_accounts
     \<or> list_ex (\<lambda>a. a \<in> batch_write_accounts) read_accounts"

section \<open>The greedy scheduler\<close>

text \<open>One pass over the remaining transactions: the batch and what is left over.\<close>

fun greedy_pass ::
  "('tx \<Rightarrow> tx_locks) \<Rightarrow> 'tx transaction_with_index list \<Rightarrow> 'tx conflict_free_batch \<Rightarrow>
     address set \<Rightarrow> address set \<Rightarrow> 'tx transaction_with_index list \<Rightarrow>
     'tx conflict_free_batch \<times> 'tx transaction_with_index list" where
  "greedy_pass locks [] batch br bw next_remaining = (batch, next_remaining)"
| "greedy_pass locks (t # ts) batch br bw next_remaining =
     (let (read_accounts, write_accounts) = extract_accounts locks (twi_transaction t) in
      if has_conflict read_accounts write_accounts br bw
      then greedy_pass locks ts batch br bw (next_remaining @ [t])
      else greedy_pass locks ts (add_transaction batch t) (br \<union> set read_accounts)
             (bw \<union> set write_accounts) next_remaining)"

lemma greedy_pass_length:
  "greedy_pass locks ts batch br bw nx = (b, rest) \<Longrightarrow>
   length b + length rest = length ts + length batch + length nx \<and> length batch \<le> length b"
  by (induction locks ts batch br bw nx rule: greedy_pass.induct)
    (auto simp: Let_def add_transaction_def split: prod.splits if_splits dest: Suc_leD)

lemma greedy_pass_progress:
  "greedy_pass locks (t # ts) [] {} {} [] = (b, rest) \<Longrightarrow> length rest < Suc (length ts)"
  using greedy_pass_length [of locks ts "[t]"]
  by (auto simp: Let_def has_conflict_def add_transaction_def extract_accounts_def list_ex_iff
      split: prod.splits if_splits dest!: greedy_pass_length)

function greedy_batches ::
  "('tx \<Rightarrow> tx_locks) \<Rightarrow> 'tx transaction_with_index list \<Rightarrow> 'tx conflict_free_batch list" where
  "greedy_batches locks remaining =
     (if remaining = [] then []
      else let (batch, next_remaining) = greedy_pass locks remaining [] {} {} [] in
           (if batch = [] then [] else [batch]) @ greedy_batches locks next_remaining)"
  by pat_completeness auto
termination
  by (relation "measure (\<lambda>(_, r). length r)")
    (auto simp: neq_Nil_conv dest!: sym [THEN greedy_pass_progress])

declare greedy_batches.simps [simp del]

definition with_index :: "'tx list \<Rightarrow> 'tx transaction_with_index list" where
  "with_index txs = map (\<lambda>(i, tx). \<lparr>twi_transaction = tx, twi_index = i\<rparr>) (enumerate 0 txs)"

definition greedy_schedule :: "('tx \<Rightarrow> tx_locks) \<Rightarrow> 'tx list \<Rightarrow> 'tx conflict_free_batch list" where
  "greedy_schedule locks txs = (if txs = [] then [] else greedy_batches locks (with_index txs))"

section \<open>The dependency graph\<close>

record account_locks =
  read_locks :: "nat set"
  write_lock :: "nat option"

record dag_scheduler =
  dag_account_locks :: "address \<Rightarrow> account_locks"
  transaction_dependencies :: "nat \<rightharpoonup> nat set"
  transaction_dependents :: "nat \<Rightarrow> nat set"

definition no_locks :: account_locks where
  "no_locks = \<lparr>read_locks = {}, write_lock = None\<rparr>"

definition dag_new :: dag_scheduler where
  "dag_new = \<lparr>dag_account_locks = (\<lambda>_. no_locks), transaction_dependencies = Map.empty,
     transaction_dependents = (\<lambda>_. {})\<rparr>"

text \<open>\<open>if let Some(write_tx) = locks.write_lock { if write_tx != tx_index { insert } }\<close>.\<close>

definition writer_dependency :: "nat \<Rightarrow> account_locks \<Rightarrow> nat set" where
  "writer_dependency tx_index al =
     (case write_lock al of None \<Rightarrow> {} | Some write_tx \<Rightarrow> if write_tx \<noteq> tx_index then {write_tx} else {})"

definition lock_write ::
  "nat \<Rightarrow> address \<Rightarrow> (address \<Rightarrow> account_locks) \<times> nat set \<Rightarrow> (address \<Rightarrow> account_locks) \<times> nat set" where
  "lock_write tx_index account = (\<lambda>(account_locks, dependencies).
     let al = account_locks account in
     (account_locks(account := al\<lparr>write_lock := Some tx_index\<rparr>),
      dependencies \<union> read_locks al \<union> writer_dependency tx_index al))"

definition lock_read ::
  "nat \<Rightarrow> address \<Rightarrow> (address \<Rightarrow> account_locks) \<times> nat set \<Rightarrow> (address \<Rightarrow> account_locks) \<times> nat set" where
  "lock_read tx_index account = (\<lambda>(account_locks, dependencies).
     let al = account_locks account in
     (account_locks(account := al\<lparr>read_locks := insert tx_index (read_locks al)\<rparr>),
      dependencies \<union> writer_dependency tx_index al))"

definition graph_add ::
  "('tx \<Rightarrow> tx_locks) \<Rightarrow> nat \<times> 'tx \<Rightarrow> dag_scheduler \<Rightarrow> dag_scheduler" where
  "graph_add locks = (\<lambda>(tx_index, tx) dag.
     let (read_accounts, write_accounts) = extract_accounts locks tx;
         (account_locks, dependencies) =
           fold (lock_read tx_index) read_accounts
             (fold (lock_write tx_index) write_accounts (dag_account_locks dag, {}))
     in \<lparr>dag_account_locks = account_locks,
         transaction_dependencies = (transaction_dependencies dag)(tx_index \<mapsto> dependencies),
         transaction_dependents = (\<lambda>dep. if dep \<in> dependencies
           then insert tx_index (transaction_dependents dag dep)
           else transaction_dependents dag dep)\<rparr>)"

definition build_dependency_graph :: "('tx \<Rightarrow> tx_locks) \<Rightarrow> 'tx list \<Rightarrow> dag_scheduler" where
  "build_dependency_graph locks txs = fold (graph_add locks) (enumerate 0 txs) dag_new"

section \<open>The dependency-graph scheduler\<close>

text \<open>
  \<open>dependencies_met\<close> is \<open>deps.iter().all(|d| processed.contains(d))\<close> on the map entry of the
  transaction; a missing entry panics.
\<close>

definition dependencies_met :: "dag_scheduler \<Rightarrow> nat set \<Rightarrow> nat \<Rightarrow> bool option" where
  "dependencies_met dag processed i =
     (case transaction_dependencies dag i of None \<Rightarrow> None | Some deps \<Rightarrow> Some (deps \<subseteq> processed))"

fun push_ready :: "dag_scheduler \<Rightarrow> nat set \<Rightarrow> nat list \<Rightarrow> nat list \<Rightarrow> nat list option" where
  "push_ready dag processed [] queue = Some queue"
| "push_ready dag processed (d # ds) queue =
     (case dependencies_met dag processed d of
        None \<Rightarrow> None
      | Some met \<Rightarrow>
          push_ready dag processed ds (if met \<and> d \<notin> processed then queue @ [d] else queue))"

record 'tx fill_state =
  fs_queue :: "nat list"
  fs_processed :: "nat set"
  fs_batch :: "'tx conflict_free_batch"
  fs_reads :: "address set"
  fs_writes :: "address set"
  fs_next_ready :: "nat list"

text \<open>The inner loop, which fills one batch from the ready queue.\<close>

function dag_fill ::
  "('tx \<Rightarrow> tx_locks) \<Rightarrow> (nat \<Rightarrow> nat set \<Rightarrow> nat list) \<Rightarrow> 'tx list \<Rightarrow> dag_scheduler \<Rightarrow>
     'tx fill_state \<Rightarrow> 'tx fill_state option" where
  "dag_fill locks ord txs dag s =
     (case fs_queue s of
        [] \<Rightarrow> Some s
      | tx_index # queue \<Rightarrow>
          if tx_index \<in> fs_processed s then dag_fill locks ord txs dag (s\<lparr>fs_queue := queue\<rparr>)
          else if \<not> tx_index < length txs then None
          else
            let (read_accounts, write_accounts) = extract_accounts locks (txs ! tx_index) in
            if has_conflict read_accounts write_accounts (fs_reads s) (fs_writes s)
            then dag_fill locks ord txs dag
              (s\<lparr>fs_queue := queue, fs_next_ready := fs_next_ready s @ [tx_index]\<rparr>)
            else
              let processed = insert tx_index (fs_processed s) in
              case push_ready dag processed (ord tx_index (transaction_dependents dag tx_index)) queue of
                None \<Rightarrow> None
              | Some queue \<Rightarrow> dag_fill locks ord txs dag
                  (s\<lparr>fs_queue := queue, fs_processed := processed,
                     fs_batch := add_transaction (fs_batch s)
                       \<lparr>twi_transaction = txs ! tx_index, twi_index = tx_index\<rparr>,
                     fs_reads := fs_reads s \<union> set read_accounts,
                     fs_writes := fs_writes s \<union> set write_accounts\<rparr>))"
  by pat_completeness auto
termination
proof (relation "measures [\<lambda>(_, _, txs, _, s). card ({..<length txs} - fs_processed s),
    \<lambda>(_, _, _, _, s). length (fs_queue s)]", goal_cases)
  case (4 locks ord txs dag s i queue p r wr processed q)
  then have "card ({..<length txs} - processed) < card ({..<length txs} - fs_processed s)"
    by (intro psubset_card_mono) auto
  then show ?case by simp
qed simp_all

declare dag_fill.simps [simp del]

section \<open>The outer loop\<close>

definition ready_indices :: "dag_scheduler \<Rightarrow> nat \<Rightarrow> nat set \<Rightarrow> nat list option" where
  "ready_indices dag n processed =
     push_ready dag processed (filter (\<lambda>i. i \<notin> processed) [0..<n]) []"

definition initial_queue :: "dag_scheduler \<Rightarrow> nat \<Rightarrow> nat list option" where
  "initial_queue dag n =
     (if \<forall>i<n. transaction_dependencies dag i \<noteq> None
      then Some (filter (\<lambda>i. transaction_dependencies dag i = Some {}) [0..<n]) else None)"

partial_function (option) dag_rounds ::
  "('tx \<Rightarrow> tx_locks) \<Rightarrow> (nat \<Rightarrow> nat set \<Rightarrow> nat list) \<Rightarrow> 'tx list \<Rightarrow> dag_scheduler \<Rightarrow>
     nat list \<Rightarrow> nat set \<Rightarrow> 'tx conflict_free_batch list \<Rightarrow> 'tx conflict_free_batch list option" where
  "dag_rounds locks ord txs dag ready_queue processed batches =
     (if \<not> card processed < length txs then Some batches
      else
        Option.bind (dag_fill locks ord txs dag \<lparr>fs_queue = ready_queue, fs_processed = processed,
          fs_batch = [], fs_reads = {}, fs_writes = {}, fs_next_ready = []\<rparr>) (\<lambda>s.
        let ready_queue = rev (fs_next_ready s) @ fs_queue s; processed = fs_processed s in
        if fs_batch s \<noteq> []
        then dag_rounds locks ord txs dag ready_queue processed (batches @ [fs_batch s])
        else if ready_queue = [] \<and> card processed < length txs
        then Option.bind (ready_indices dag (length txs) processed) (\<lambda>ready_queue.
               if ready_queue = [] then Some batches
               else dag_rounds locks ord txs dag ready_queue processed batches)
        else dag_rounds locks ord txs dag ready_queue processed batches))"

definition dag_schedule ::
  "('tx \<Rightarrow> tx_locks) \<Rightarrow> (nat \<Rightarrow> nat set \<Rightarrow> nat list) \<Rightarrow> 'tx list \<Rightarrow>
     'tx conflict_free_batch list option" where
  "dag_schedule locks ord txs =
     (if txs = [] then Some []
      else let dag = build_dependency_graph locks txs in
        Option.bind (initial_queue dag (length txs)) (\<lambda>ready_queue.
        dag_rounds locks ord txs dag ready_queue {} []))"

end
