(* ===== verification/Scheduler_Graph.thy ===== *)
theory Scheduler_Graph
  imports Scheduler
begin

text \<open>
  What \<open>build_dependency_graph\<close> computes: the locks it holds on each account, the edges it adds for
  one transaction, and that any two conflicting transactions are connected by a path from the
  earlier to the later one.
\<close>

section \<open>Conflicts\<close>

definition conflicting :: "('tx \<Rightarrow> tx_locks) \<Rightarrow> 'tx \<Rightarrow> 'tx \<Rightarrow> bool" where
  "conflicting locks t u \<longleftrightarrow>
     set (lk_writable (locks t)) \<inter> (set (lk_writable (locks u)) \<union> set (lk_readonly (locks u))) \<noteq> {}
     \<or> set (lk_readonly (locks t)) \<inter> set (lk_writable (locks u)) \<noteq> {}"

lemma conflicting_sym: "conflicting locks t u \<longleftrightarrow> conflicting locks u t"
  by (auto simp: conflicting_def)

lemma has_conflict_iff:
  assumes "br = (\<Union>t\<in>B. set (lk_readonly (locks t)))" and "bw = (\<Union>t\<in>B. set (lk_writable (locks t)))"
  shows "has_conflict (lk_readonly (locks u)) (lk_writable (locks u)) br bw
    \<longleftrightarrow> (\<exists>t\<in>B. conflicting locks t u)"
  unfolding has_conflict_def conflicting_def assms list_ex_iff by blast

section \<open>One transaction\<close>

lemma writer_dependency_own [simp]:
  "writer_dependency i (al\<lparr>write_lock := Some i\<rparr>) = {}"
  "writer_dependency i (al\<lparr>read_locks := R\<rparr>) = writer_dependency i al"
  by (simp_all add: writer_dependency_def)

lemma fold_lock_write:
  "fold (lock_write i) ws (al, d) =
     (\<lambda>a. if a \<in> set ws then (al a)\<lparr>write_lock := Some i\<rparr> else al a,
      d \<union> (\<Union>a\<in>set ws. read_locks (al a) \<union> writer_dependency i (al a)))"
  by (induction ws arbitrary: al d) (auto simp: lock_write_def Let_def fun_eq_iff split: if_splits)

lemma fold_lock_read:
  "fold (lock_read i) rs (al, d) =
     (\<lambda>a. if a \<in> set rs then (al a)\<lparr>read_locks := insert i (read_locks (al a))\<rparr> else al a,
      d \<union> (\<Union>a\<in>set rs. writer_dependency i (al a)))"
  by (induction rs arbitrary: al d) (auto simp: lock_read_def Let_def fun_eq_iff split: if_splits)

definition new_dependencies :: "(address \<Rightarrow> account_locks) \<Rightarrow> nat \<Rightarrow> tx_locks \<Rightarrow> nat set" where
  "new_dependencies al i l =
     (\<Union>a\<in>set (lk_writable l). read_locks (al a) \<union> writer_dependency i (al a))
     \<union> (\<Union>a\<in>set (lk_readonly l) - set (lk_writable l). writer_dependency i (al a))"

definition new_locks :: "(address \<Rightarrow> account_locks) \<Rightarrow> nat \<Rightarrow> tx_locks \<Rightarrow> address \<Rightarrow> account_locks" where
  "new_locks al i l a =
     \<lparr>read_locks = (if a \<in> set (lk_readonly l) then insert i (read_locks (al a)) else read_locks (al a)),
      write_lock = (if a \<in> set (lk_writable l) then Some i else write_lock (al a))\<rparr>"

lemma graph_add_eq:
  "graph_add locks (i, tx) dag =
     \<lparr>dag_account_locks = new_locks (dag_account_locks dag) i (locks tx),
      transaction_dependencies = (transaction_dependencies dag)
        (i \<mapsto> new_dependencies (dag_account_locks dag) i (locks tx)),
      transaction_dependents = (\<lambda>d. if d \<in> new_dependencies (dag_account_locks dag) i (locks tx)
        then insert i (transaction_dependents dag d) else transaction_dependents dag d)\<rparr>"
proof -
  let ?al = "dag_account_locks dag" and ?l = "locks tx"
  have "fold (lock_read i) (lk_readonly ?l) (fold (lock_write i) (lk_writable ?l) (?al, {}))
      = (new_locks ?al i ?l, new_dependencies ?al i ?l)"
    by (auto simp: fold_lock_write fold_lock_read new_locks_def new_dependencies_def fun_eq_iff
        split: if_splits)
  then show ?thesis
    by (simp add: graph_add_def extract_accounts_def)
qed

section \<open>The graph of a transaction list\<close>

definition edges :: "dag_scheduler \<Rightarrow> (nat \<times> nat) set" where
  "edges dag = {(i, j). \<exists>D. transaction_dependencies dag j = Some D \<and> i \<in> D}"

definition last_writer :: "('tx \<Rightarrow> tx_locks) \<Rightarrow> 'tx list \<Rightarrow> address \<Rightarrow> nat option \<Rightarrow> bool" where
  "last_writer locks txs a w = (case w of
     None \<Rightarrow> \<forall>i<length txs. a \<notin> set (lk_writable (locks (txs ! i)))
   | Some k \<Rightarrow> k < length txs \<and> a \<in> set (lk_writable (locks (txs ! k)))
       \<and> (\<forall>i<length txs. a \<in> set (lk_writable (locks (txs ! i))) \<longrightarrow> i \<le> k))"

definition locks_held :: "('tx \<Rightarrow> tx_locks) \<Rightarrow> 'tx list \<Rightarrow> dag_scheduler \<Rightarrow> bool" where
  "locks_held locks txs dag \<longleftrightarrow> (\<forall>a.
     read_locks (dag_account_locks dag a) = {i. i < length txs \<and> a \<in> set (lk_readonly (locks (txs ! i)))}
     \<and> last_writer locks txs a (write_lock (dag_account_locks dag a)))"

definition graph_shape :: "'tx list \<Rightarrow> dag_scheduler \<Rightarrow> bool" where
  "graph_shape txs dag \<longleftrightarrow>
     (\<forall>i. transaction_dependencies dag i \<noteq> None \<longleftrightarrow> i < length txs)
     \<and> (\<forall>(i, j)\<in>edges dag. i < j)
     \<and> (\<forall>i. transaction_dependents dag i = {j. (i, j) \<in> edges dag})"

definition conflicts_connected :: "('tx \<Rightarrow> tx_locks) \<Rightarrow> 'tx list \<Rightarrow> dag_scheduler \<Rightarrow> bool" where
  "conflicts_connected locks txs dag \<longleftrightarrow>
     (\<forall>j<length txs. \<forall>i<j. conflicting locks (txs ! i) (txs ! j) \<longrightarrow> (i, j) \<in> (edges dag)\<^sup>+)"

lemma build_snoc:
  "build_dependency_graph locks (txs @ [tx]) =
     graph_add locks (length txs, tx) (build_dependency_graph locks txs)"
  by (simp add: build_dependency_graph_def enumerate_append_eq)

lemma last_writer_add:
  "a \<in> set (lk_writable (locks tx)) \<Longrightarrow> last_writer locks (txs @ [tx]) a (Some (length txs))"
  "a \<notin> set (lk_writable (locks tx)) \<Longrightarrow> last_writer locks txs a w \<Longrightarrow> last_writer locks (txs @ [tx]) a w"
  by (auto simp: last_writer_def nth_append less_Suc_eq split: option.splits)

lemma locks_held_add:
  assumes "locks_held locks txs dag"
  shows "locks_held locks (txs @ [tx]) (graph_add locks (length txs, tx) dag)"
  using assms unfolding locks_held_def
  by (auto simp: graph_add_eq new_locks_def nth_append less_Suc_eq intro!: last_writer_add)

lemma new_dependencies_less:
  assumes "locks_held locks txs dag" and "i \<in> new_dependencies (dag_account_locks dag) n l"
  shows "i < length txs"
  using assms
  by (force simp: locks_held_def new_dependencies_def writer_dependency_def last_writer_def
      split: option.splits if_splits)

lemma edges_add:
  assumes "transaction_dependencies dag n = None"
  shows "edges (graph_add locks (n, tx) dag) =
    edges dag \<union> {(i, n) | i. i \<in> new_dependencies (dag_account_locks dag) n (locks tx)}"
  using assms by (auto simp: edges_def graph_add_eq)

lemma graph_shape_add:
  assumes held: "locks_held locks txs dag" and shape: "graph_shape txs dag"
  shows "graph_shape (txs @ [tx]) (graph_add locks (length txs, tx) dag)"
proof -
  have "transaction_dependencies dag (length txs) = None"
    using shape by (auto simp: graph_shape_def)
  then show ?thesis
    using shape new_dependencies_less [OF held]
    by (auto simp: graph_shape_def edges_add)
      (auto simp: graph_add_eq less_Suc_eq split: if_splits)
qed

text \<open>An earlier transaction that conflicts with the new one is a dependency of it, or precedes one.\<close>

lemma conflict_reaches_new:
  assumes held: "locks_held locks txs dag" and i: "i < length txs"
    and conf: "conflicting locks (txs ! i) tx"
  shows "\<exists>k<length txs. k \<in> new_dependencies (dag_account_locks dag) (length txs) (locks tx)
    \<and> (k = i \<or> i < k \<and> conflicting locks (txs ! i) (txs ! k))"
proof -
  let ?al = "dag_account_locks dag" and ?n = "length txs"
  consider (reads) a where "a \<in> set (lk_readonly (locks (txs ! i)))" "a \<in> set (lk_writable (locks tx))"
    | (writes) a where "a \<in> set (lk_writable (locks (txs ! i)))"
        "a \<in> set (lk_writable (locks tx)) \<union> set (lk_readonly (locks tx))"
    using conf by (auto simp: conflicting_def)
  then show ?thesis
  proof cases
    case reads
    then have "i \<in> read_locks (?al a)"
      using held i by (simp add: locks_held_def)
    then have "i \<in> new_dependencies ?al ?n (locks tx)"
      using reads by (auto simp: new_dependencies_def)
    then show ?thesis using i by blast
  next
    case writes
    have "last_writer locks txs a (write_lock (?al a))"
      using held by (simp add: locks_held_def)
    then obtain k where k: "write_lock (?al a) = Some k" "k < ?n" "i \<le> k"
        "a \<in> set (lk_writable (locks (txs ! k)))"
      using writes i by (auto simp: last_writer_def split: option.splits)
    then have "k \<in> writer_dependency ?n (?al a)"
      by (simp add: writer_dependency_def)
    then have "k \<in> new_dependencies ?al ?n (locks tx)"
      using writes by (auto simp: new_dependencies_def)
    moreover have "k = i \<or> i < k \<and> conflicting locks (txs ! i) (txs ! k)"
      using k writes by (auto simp: conflicting_def)
    ultimately show ?thesis using k by blast
  qed
qed

lemma conflicts_connected_add:
  assumes held: "locks_held locks txs dag" and shape: "graph_shape txs dag"
    and conn: "conflicts_connected locks txs dag"
  shows "conflicts_connected locks (txs @ [tx]) (graph_add locks (length txs, tx) dag)"
proof -
  let ?n = "length txs" and ?dag = "graph_add locks (length txs, tx) dag"
  have E: "edges ?dag =
      edges dag \<union> {(i, ?n) | i. i \<in> new_dependencies (dag_account_locks dag) ?n (locks tx)}"
    using shape by (intro edges_add) (auto simp: graph_shape_def)
  then have old: "(i, j) \<in> (edges ?dag)\<^sup>+"
    if "i < j" "j < ?n" "conflicting locks (txs ! i) (txs ! j)" for i j
    using conn that trancl_mono [of _ "edges dag" "edges ?dag"]
    by (auto simp: conflicts_connected_def)
  have "(i, ?n) \<in> (edges ?dag)\<^sup>+" if "i < ?n" "conflicting locks (txs ! i) tx" for i
    using conflict_reaches_new [OF held that] old E
    by (auto intro: trancl_into_trancl)
  then show ?thesis
    using old by (auto simp: conflicts_connected_def nth_append less_Suc_eq)
qed

lemma build_dependency_graph_correct:
  "locks_held locks txs (build_dependency_graph locks txs)
   \<and> graph_shape txs (build_dependency_graph locks txs)
   \<and> conflicts_connected locks txs (build_dependency_graph locks txs)"
proof (induction txs rule: rev_induct)
  case Nil
  show ?case
    by (simp add: build_dependency_graph_def dag_new_def no_locks_def locks_held_def last_writer_def
        graph_shape_def edges_def conflicts_connected_def)
next
  case (snoc tx txs)
  then show ?case
    unfolding build_snoc
    by (intro conjI locks_held_add graph_shape_add conflicts_connected_add) simp_all
qed

end
