(* ===== verification/Scheduler_Safety.thy ===== *)
theory Scheduler_Safety
  imports Scheduler_Graph
begin

text \<open>
  Both schedulers return, put every transaction in exactly one batch and keep batches free of
  conflicts. The dependency-graph scheduler also never runs a transaction before an earlier one
  it conflicts with, so executing its batches gives the state of executing the transactions one
  by one in their original order.
\<close>

section \<open>Schedules\<close>

definition covers :: "'tx list \<Rightarrow> 'tx conflict_free_batch list \<Rightarrow> bool" where
  "covers txs bs \<longleftrightarrow> mset (concat bs) = mset (with_index txs)"

definition conflict_free :: "('tx \<Rightarrow> tx_locks) \<Rightarrow> 'tx conflict_free_batch \<Rightarrow> bool" where
  "conflict_free locks b \<longleftrightarrow>
     sorted_wrt (\<lambda>t u. \<not> conflicting locks (twi_transaction t) (twi_transaction u)) b"

definition may_precede ::
  "('tx \<Rightarrow> tx_locks) \<Rightarrow> 'tx transaction_with_index \<Rightarrow> 'tx transaction_with_index \<Rightarrow> bool" where
  "may_precede locks t u \<longleftrightarrow>
     twi_index t < twi_index u \<or> \<not> conflicting locks (twi_transaction t) (twi_transaction u)"

definition in_order :: "('tx \<Rightarrow> tx_locks) \<Rightarrow> 'tx conflict_free_batch list \<Rightarrow> bool" where
  "in_order locks bs \<longleftrightarrow> sorted_wrt (may_precede locks) (concat bs)"

text \<open>The batch of the earlier of two conflicting transactions comes strictly first.\<close>

definition keeps_order :: "('tx \<Rightarrow> tx_locks) \<Rightarrow> 'tx conflict_free_batch list \<Rightarrow> bool" where
  "keeps_order locks bs \<longleftrightarrow> (\<forall>p<length bs. \<forall>q<length bs. \<forall>t\<in>set (bs ! p). \<forall>u\<in>set (bs ! q).
     twi_index t < twi_index u \<and> conflicting locks (twi_transaction t) (twi_transaction u) \<longrightarrow> p < q)"

lemma with_index_simps [simp]:
  "map twi_index (with_index txs) = [0..<length txs]"
  "map twi_transaction (with_index txs) = txs"
  by (simp_all add: with_index_def comp_def case_prod_unfold enumerate_eq_zip)

lemma with_indexD:
  "t \<in> set (with_index txs) \<Longrightarrow> twi_index t < length txs \<and> twi_transaction t = txs ! twi_index t"
  by (auto simp: with_index_def in_set_enumerate_eq)

lemma with_indexI:
  "i < length txs \<Longrightarrow> \<lparr>twi_transaction = txs ! i, twi_index = i\<rparr> \<in> set (with_index txs)"
  by (auto simp: with_index_def in_set_enumerate_eq image_iff intro!: bexI [of _ "(i, txs ! i)"])

lemma distinct_with_index: "distinct (with_index txs)"
  using distinct_map [of twi_index "with_index txs"] by simp

lemma conflict_freeD:
  assumes "conflict_free locks b" and "t \<in> set b" and "u \<in> set b" and "t \<noteq> u"
  shows "\<not> conflicting locks (twi_transaction t) (twi_transaction u)"
proof -
  obtain i j where "i < length b" "j < length b" "t = b ! i" "u = b ! j"
    using assms by (metis in_set_conv_nth)
  then show ?thesis
    using assms sorted_wrt_nth_less [OF assms(1) [unfolded conflict_free_def]]
    by (metis conflicting_sym linorder_neqE_nat)
qed

lemma sorted_wrt_concatD:
  assumes "sorted_wrt R (concat bs)" and "p < q" and "q < length bs"
    and "t \<in> set (bs ! p)" and "u \<in> set (bs ! q)"
  shows "R t u"
  using assms
proof (induction bs arbitrary: p q)
  case (Cons b bs)
  then obtain q' where q: "q = Suc q'" by (cases q) auto
  with Cons show ?case by (cases p) (fastforce simp: sorted_wrt_append)+
qed simp

lemma in_order_keeps_order:
  assumes ord: "in_order locks bs" and free: "\<forall>b\<in>set bs. conflict_free locks b"
  shows "keeps_order locks bs"
  unfolding keeps_order_def
proof (intro allI impI ballI)
  fix p q t u
  assume p: "p < length bs" and q: "q < length bs" and t: "t \<in> set (bs ! p)" and u: "u \<in> set (bs ! q)"
    and c: "twi_index t < twi_index u \<and> conflicting locks (twi_transaction t) (twi_transaction u)"
  have "p \<noteq> q"
    using c conflict_freeD [of locks "bs ! p" t u] free p t u by (auto simp: nth_mem)
  moreover have "\<not> q < p"
    using sorted_wrt_concatD [OF ord [unfolded in_order_def] _ p u t] c conflicting_sym
    by (fastforce simp: may_precede_def)
  ultimately show "p < q" by simp
qed

section \<open>Execution\<close>

text \<open>
  The runtime's locking contract: executing a transaction changes only the accounts it locks for
  writing, and the result there depends only on the accounts it locks.
\<close>

definition respects_locks ::
  "('tx \<Rightarrow> tx_locks) \<Rightarrow> ('tx \<Rightarrow> (address \<Rightarrow> 'v) \<Rightarrow> address \<Rightarrow> 'v) \<Rightarrow> bool" where
  "respects_locks locks exec \<longleftrightarrow> (\<forall>t.
     (\<forall>s a. a \<notin> set (lk_writable (locks t)) \<longrightarrow> exec t s a = s a)
     \<and> (\<forall>s s'. (\<forall>a\<in>set (lk_readonly (locks t)) \<union> set (lk_writable (locks t)). s a = s' a)
          \<longrightarrow> (\<forall>a\<in>set (lk_writable (locks t)). exec t s a = exec t s' a)))"

definition run_batches ::
  "('tx \<Rightarrow> 's \<Rightarrow> 's) \<Rightarrow> 'tx conflict_free_batch list \<Rightarrow> 's \<Rightarrow> 's" where
  "run_batches exec bs = fold (\<lambda>b. fold (\<lambda>t. exec (twi_transaction t)) b) bs"

lemma run_batches_concat: "run_batches exec bs = fold (\<lambda>t. exec (twi_transaction t)) (concat bs)"
  by (induction bs) (simp_all add: run_batches_def fun_eq_iff)

lemma exec_commute:
  assumes ok: "respects_locks locks exec" and nc: "\<not> conflicting locks t u"
  shows "exec t (exec u s) = exec u (exec t s)"
proof
  fix a
  have frame: "b \<notin> set (lk_writable (locks x)) \<Longrightarrow> exec x s' b = s' b" for x s' b
    using ok by (simp add: respects_locks_def)
  have same: "exec x s1 b = exec x s2 b"
    if "b \<in> set (lk_writable (locks x))"
      "\<And>c. c \<in> set (lk_readonly (locks x)) \<union> set (lk_writable (locks x)) \<Longrightarrow> s1 c = s2 c" for x s1 s2 b
    using ok that by (simp add: respects_locks_def)
  consider "a \<in> set (lk_writable (locks t))" "a \<notin> set (lk_writable (locks u))"
    | "a \<in> set (lk_writable (locks u))" "a \<notin> set (lk_writable (locks t))"
    | "a \<notin> set (lk_writable (locks t))" "a \<notin> set (lk_writable (locks u))"
    using nc by (auto simp: conflicting_def)
  then show "exec t (exec u s) a = exec u (exec t s) a"
  proof cases
    case 1
    have "exec t (exec u s) a = exec t s a"
      using 1 nc by (intro same frame) (auto simp: conflicting_def)
    then show ?thesis using 1 by (simp add: frame)
  next
    case 2
    have "exec u (exec t s) a = exec u s a"
      using 2 nc by (intro same frame) (auto simp: conflicting_def)
    then show ?thesis using 2 by (simp add: frame)
  qed (simp add: frame)
qed

lemma fold_move_front:
  assumes "\<And>y s. y \<in> set xs \<Longrightarrow> f x (f y s) = f y (f x s)"
  shows "fold f (xs @ x # ys) s = fold f (x # xs @ ys) s"
  using assms by (induction xs arbitrary: s) simp_all

text \<open>Two lists with the same elements, both respecting the order of conflicting elements.\<close>

lemma fold_reorder:
  assumes "mset xs = mset ys" and "sorted_wrt R xs" and "sorted_wrt R ys"
    and "\<And>x y s. x \<in> set xs \<Longrightarrow> y \<in> set xs \<Longrightarrow> R x y \<Longrightarrow> R y x \<Longrightarrow> f x (f y s) = f y (f x s)"
  shows "fold f xs s = fold f ys s"
  using assms
proof (induction ys arbitrary: xs s)
  case (Cons y ys)
  then obtain us vs where xs: "xs = us @ y # vs"
    by (metis in_set_conv_decomp list.set_intros(1) mset_eq_setD)
  have "set xs = set (y # ys)"
    using Cons.prems(1) by (rule mset_eq_setD)
  then have "f y (f u s') = f u (f y s')" if "u \<in> set us" for u s'
    using that Cons.prems(2,3,4) xs by (cases "u = y") (auto simp: sorted_wrt_append)
  then have "fold f xs s = fold f (us @ vs) (f y s)"
    unfolding xs by (subst fold_move_front) auto
  also have "\<dots> = fold f ys (f y s)"
    using Cons.prems xs by (intro Cons.IH) (auto simp: sorted_wrt_append)
  finally show ?case by simp
qed simp

section \<open>The contracts\<close>

locale batch_scheduler =
  fixes locks :: "'tx \<Rightarrow> tx_locks"
    and schedule :: "'tx list \<Rightarrow> 'tx conflict_free_batch list option"
  assumes returns: "\<exists>bs. schedule txs = Some bs"
    and complete: "schedule txs = Some bs \<Longrightarrow> covers txs bs"
    and separated: "schedule txs = Some bs \<Longrightarrow> b \<in> set bs \<Longrightarrow> conflict_free locks b"
begin

lemma scheduled_once:
  assumes "schedule txs = Some bs"
  shows "distinct (map twi_index (concat bs))" and "set (map twi_index (concat bs)) = {..<length txs}"
proof -
  have "mset (map twi_index (concat bs)) = mset [0..<length txs]"
    using complete [OF assms] by (metis covers_def mset_map with_index_simps(1))
  then show "distinct (map twi_index (concat bs))" "set (map twi_index (concat bs)) = {..<length txs}"
    using mset_eq_imp_distinct_iff mset_eq_setD atLeast_upt distinct_upt by metis+
qed

lemma batch_any_order:
  assumes "schedule txs = Some bs" and "b \<in> set bs" and "mset b' = mset b"
    and ok: "respects_locks locks exec"
  shows "fold (\<lambda>t. exec (twi_transaction t)) b' = fold (\<lambda>t. exec (twi_transaction t)) b"
proof
  fix s
  have "set b' = set b" using assms(3) by (rule mset_eq_setD)
  moreover have "exec (twi_transaction x) (exec (twi_transaction y) s')
      = exec (twi_transaction y) (exec (twi_transaction x) s')" if "x \<in> set b" "y \<in> set b" for x y s'
    using exec_commute [OF ok] conflict_freeD [OF separated [OF assms(1,2)] that] by (cases "x = y") auto
  ultimately show "fold (\<lambda>t. exec (twi_transaction t)) b' s = fold (\<lambda>t. exec (twi_transaction t)) b s"
    using assms(3) by (intro fold_reorder [where R = "\<lambda>_ _. True"]) (auto simp: sorted_wrt_true)
qed

end

locale ordered_scheduler = batch_scheduler +
  assumes ordered: "schedule txs = Some bs \<Longrightarrow> in_order locks bs"
begin

lemma conflicts_keep_order:
  assumes "schedule txs = Some bs"
  shows "keeps_order locks bs"
  using in_order_keeps_order [OF ordered [OF assms]] separated [OF assms] by blast

lemma batches_any_order:
  assumes "schedule txs = Some bs" and "list_all2 (\<lambda>b b'. mset b' = mset b) bs bs'"
    and "respects_locks locks exec"
  shows "run_batches exec bs' = run_batches exec bs"
proof -
  have "set cs \<subseteq> set bs \<Longrightarrow> run_batches exec cs' = run_batches exec cs"
    if "list_all2 (\<lambda>b b'. mset b' = mset b) cs cs'" for cs cs'
    using that
    by (induction rule: list_all2_induct)
      (auto simp: run_batches_def intro!: arg_cong2 [where f = comp] batch_any_order [OF assms(1) _ _ assms(3)])
  then show ?thesis using assms(2) by simp
qed

lemma serializable:
  assumes "schedule txs = Some bs" and "list_all2 (\<lambda>b b'. mset b' = mset b) bs bs'"
    and ok: "respects_locks locks exec"
  shows "run_batches exec bs' s = fold exec txs s"
proof -
  have sorted: "sorted_wrt (may_precede locks) (with_index txs)"
    using sorted_wrt_map [of "(<)" twi_index "with_index txs"]
    by (simp add: sorted_wrt_mono_rel [rotated] may_precede_def)
  have "run_batches exec bs' s = fold (\<lambda>t. exec (twi_transaction t)) (concat bs) s"
    using batches_any_order [OF assms] by (simp add: run_batches_concat)
  also have "\<dots> = fold (\<lambda>t. exec (twi_transaction t)) (with_index txs) s"
    using complete [OF assms(1)] ordered [OF assms(1)] sorted exec_commute [OF ok]
    by (intro fold_reorder [where R = "may_precede locks"])
      (auto simp: covers_def in_order_def may_precede_def)
  also have "\<dots> = fold exec (map twi_transaction (with_index txs)) s"
    by (simp only: fold_map comp_def)
  finally show ?thesis by simp
qed

end

section \<open>The greedy scheduler meets the batch contract\<close>

lemma conflict_free_snoc:
  "conflict_free locks (b @ [t]) \<longleftrightarrow> conflict_free locks b
     \<and> (\<forall>u\<in>set b. \<not> conflicting locks (twi_transaction u) (twi_transaction t))"
  by (simp add: conflict_free_def sorted_wrt_append)

lemma greedy_pass_correct:
  assumes "greedy_pass locks ts batch br bw nx = (b, rest)" and "conflict_free locks batch"
    and "br = (\<Union>t\<in>twi_transaction ` set batch. set (lk_readonly (locks t)))"
    and "bw = (\<Union>t\<in>twi_transaction ` set batch. set (lk_writable (locks t)))"
  shows "conflict_free locks b \<and> mset b + mset rest = mset ts + mset batch + mset nx"
  using assms
proof (induction ts arbitrary: batch br bw nx)
  case (Cons t ts)
  note conf = has_conflict_iff [OF Cons.prems(3,4), of "twi_transaction t"]
  show ?case
  proof (cases "\<exists>u\<in>twi_transaction ` set batch. conflicting locks u (twi_transaction t)")
    case True
    then show ?thesis
      using Cons.prems Cons.IH [of batch br bw "nx @ [t]"] conf
      by (simp add: extract_accounts_def)
  next
    case False
    then show ?thesis
      using Cons.prems conf
        Cons.IH [of "batch @ [t]" "br \<union> set (lk_readonly (locks (twi_transaction t)))"
          "bw \<union> set (lk_writable (locks (twi_transaction t)))" nx]
      by (simp add: extract_accounts_def add_transaction_def conflict_free_snoc Un_commute)
  qed
qed simp

lemma greedy_batches_correct:
  "mset (concat (greedy_batches locks ts)) = mset ts
   \<and> (\<forall>b\<in>set (greedy_batches locks ts). conflict_free locks b \<and> b \<noteq> [])"
proof (induction locks ts rule: greedy_batches.induct)
  case (1 locks ts)
  show ?case
  proof (cases "ts = []")
    case False
    obtain b rest where pass: "greedy_pass locks ts [] {} {} [] = (b, rest)"
      by fastforce
    then have "conflict_free locks b \<and> mset b + mset rest = mset ts"
      using greedy_pass_correct [OF pass] by (simp add: conflict_free_def)
    then show ?thesis
      using 1 [OF False pass [symmetric] refl] pass False
      by (auto simp: greedy_batches.simps [of locks ts])
  qed (simp add: greedy_batches.simps)
qed

lemma greedy_schedule_correct:
  "covers txs (greedy_schedule locks txs)
   \<and> (\<forall>b\<in>set (greedy_schedule locks txs). conflict_free locks b \<and> b \<noteq> [])"
  using greedy_batches_correct [of locks "with_index txs"]
  by (cases "txs = []") (simp_all add: greedy_schedule_def covers_def with_index_def)

interpretation greedy: batch_scheduler locks "\<lambda>txs. Some (greedy_schedule locks txs)" for locks
  using greedy_schedule_correct by unfold_locales blast+

end
