(* ===== verification/Scheduler_Dag.thy ===== *)
theory Scheduler_Dag
  imports Scheduler_Safety
begin

text \<open>
  The dependency-graph scheduler meets the ordered contract. The invariant of its inner loop says
  that the processed set is closed under dependencies, that the queues hold exactly the
  unprocessed transactions whose dependencies are met, and that the output so far is in order.
  A round therefore always schedules something, the fallback that rescans for ready
  transactions is never needed, and the loop ends with every transaction scheduled.
\<close>

section \<open>Ready transactions\<close>

definition ready :: "dag_scheduler \<Rightarrow> nat \<Rightarrow> nat set \<Rightarrow> nat set" where
  "ready dag n P = {j. j < n \<and> (\<forall>i. (i, j) \<in> edges dag \<longrightarrow> i \<in> P)}"

definition iterates :: "(nat \<Rightarrow> nat set \<Rightarrow> nat list) \<Rightarrow> bool" where
  "iterates ord \<longleftrightarrow> (\<forall>i S. finite S \<longrightarrow> set (ord i S) = S \<and> distinct (ord i S))"

lemma graph_shape_Some:
  assumes "graph_shape txs dag" and "d < length txs"
  obtains D where "transaction_dependencies dag d = Some D"
  using assms unfolding graph_shape_def by blast

lemma dependencies_met_eq:
  assumes "graph_shape txs dag" and "d < length txs"
  shows "dependencies_met dag P d = Some (d \<in> ready dag (length txs) P)"
proof -
  obtain D where "transaction_dependencies dag d = Some D"
    using assms by (rule graph_shape_Some)
  then show ?thesis
    using assms(2) by (auto simp: dependencies_met_def ready_def edges_def)
qed

lemma push_ready_eq:
  assumes "graph_shape txs dag" and "set ds \<subseteq> {..<length txs}"
  shows "push_ready dag P ds q = Some (q @ filter (\<lambda>d. d \<in> ready dag (length txs) P - P) ds)"
  using assms(2)
  by (induction ds arbitrary: q) (simp_all add: dependencies_met_eq [OF assms(1)])

lemma initial_queue_eq:
  assumes "graph_shape txs dag"
  shows "initial_queue dag (length txs)
    = Some (filter (\<lambda>i. i \<in> ready dag (length txs) {}) [0..<length txs])"
proof -
  have "transaction_dependencies dag i = Some {} \<longleftrightarrow> i \<in> ready dag (length txs) {}"
    if i: "i < length txs" for i
  proof -
    obtain D where "transaction_dependencies dag i = Some D"
      by (rule graph_shape_Some [OF assms i])
    then show ?thesis using i by (auto simp: ready_def edges_def)
  qed
  then have "filter (\<lambda>i. transaction_dependencies dag i = Some {}) [0..<length txs]
      = filter (\<lambda>i. i \<in> ready dag (length txs) {}) [0..<length txs]"
    by (intro filter_cong) auto
  then show ?thesis
    using assms by (simp add: initial_queue_def graph_shape_def)
qed

lemma dependents_finite:
  assumes "graph_shape txs dag"
  shows "transaction_dependents dag i \<subseteq> {..<length txs}" and "finite (transaction_dependents dag i)"
proof -
  show "transaction_dependents dag i \<subseteq> {..<length txs}"
    using assms by (auto simp: graph_shape_def edges_def)
  then show "finite (transaction_dependents dag i)"
    by (rule finite_subset) simp
qed

section \<open>The inner loop\<close>

definition closed :: "dag_scheduler \<Rightarrow> nat set \<Rightarrow> bool" where
  "closed dag P \<longleftrightarrow> (\<forall>(i, j)\<in>edges dag. j \<in> P \<longrightarrow> i \<in> P)"

lemma closed_trancl: "(i, j) \<in> (edges dag)\<^sup>+ \<Longrightarrow> closed dag P \<Longrightarrow> j \<in> P \<Longrightarrow> i \<in> P"
  by (induction rule: trancl_induct) (auto simp: closed_def)

definition output_inv ::
  "('tx \<Rightarrow> tx_locks) \<Rightarrow> 'tx list \<Rightarrow> dag_scheduler \<Rightarrow> 'tx transaction_with_index list \<Rightarrow> nat set \<Rightarrow> bool" where
  "output_inv locks txs dag out P \<longleftrightarrow>
     P = twi_index ` set out \<and> set out \<subseteq> set (with_index txs) \<and> distinct (map twi_index out)
     \<and> closed dag P \<and> sorted_wrt (may_precede locks) out"

definition queue_inv :: "dag_scheduler \<Rightarrow> nat \<Rightarrow> nat set \<Rightarrow> nat set \<Rightarrow> bool" where
  "queue_inv dag n P Q \<longleftrightarrow> Q \<subseteq> ready dag n P \<and> ready dag n P - P \<subseteq> Q"

definition batch_inv :: "('tx \<Rightarrow> tx_locks) \<Rightarrow> 'tx fill_state \<Rightarrow> bool" where
  "batch_inv locks s \<longleftrightarrow> conflict_free locks (fs_batch s)
     \<and> fs_reads s = (\<Union>t\<in>twi_transaction ` set (fs_batch s). set (lk_readonly (locks t)))
     \<and> fs_writes s = (\<Union>t\<in>twi_transaction ` set (fs_batch s). set (lk_writable (locks t)))
     \<and> (fs_batch s = [] \<longrightarrow> fs_next_ready s = [])"

definition fill_inv ::
  "('tx \<Rightarrow> tx_locks) \<Rightarrow> 'tx list \<Rightarrow> dag_scheduler \<Rightarrow> 'tx transaction_with_index list \<Rightarrow>
     'tx fill_state \<Rightarrow> bool" where
  "fill_inv locks txs dag prev s \<longleftrightarrow>
     output_inv locks txs dag (prev @ fs_batch s) (fs_processed s)
     \<and> queue_inv dag (length txs) (fs_processed s) (set (fs_queue s) \<union> set (fs_next_ready s))
     \<and> batch_inv locks s"

lemma output_inv_add:
  assumes inv: "output_inv locks txs dag out P" and conn: "conflicts_connected locks txs dag"
    and i: "i \<in> ready dag (length txs) P" "i \<notin> P"
  shows "output_inv locks txs dag (out @ [\<lparr>twi_transaction = txs ! i, twi_index = i\<rparr>]) (insert i P)"
proof -
  have n: "i < length txs" using i by (simp add: ready_def)
  have "may_precede locks u \<lparr>twi_transaction = txs ! i, twi_index = i\<rparr>" if u: "u \<in> set out" for u
  proof (rule ccontr)
    assume "\<not> ?thesis"
    then have late: "i \<le> twi_index u" and conf: "conflicting locks (txs ! i) (twi_transaction u)"
      by (simp_all add: may_precede_def conflicting_sym)
    have u: "twi_index u \<in> P" "twi_index u < length txs" "twi_transaction u = txs ! twi_index u"
      using inv u with_indexD [of u txs] by (auto simp: output_inv_def)
    then have "i < twi_index u" using late i by (cases "i = twi_index u") auto
    then have "(i, twi_index u) \<in> (edges dag)\<^sup>+"
      using conn u conf by (simp add: conflicts_connected_def)
    then show False
      using closed_trancl inv u(1) i unfolding output_inv_def by blast
  qed
  moreover have "closed dag (insert i P)"
    using inv i by (auto simp: output_inv_def closed_def ready_def)
  ultimately show ?thesis
    using inv i with_indexI [OF n] by (auto simp: output_inv_def sorted_wrt_append)
qed

lemma queue_inv_add:
  assumes "graph_shape txs dag" and "iterates ord" and "queue_inv dag (length txs) P (insert i Q)"
  shows "queue_inv dag (length txs) (insert i P)
    (Q \<union> set (filter (\<lambda>d. d \<in> ready dag (length txs) (insert i P) - insert i P)
      (ord i (transaction_dependents dag i))))"
proof -
  have "set (ord i (transaction_dependents dag i)) = {j. (i, j) \<in> edges dag}"
    using assms(1,2) dependents_finite [OF assms(1)] by (auto simp: iterates_def graph_shape_def)
  then show ?thesis
    using assms(3) by (auto simp: queue_inv_def ready_def)
qed

lemma fill_skip:
  assumes "fill_inv locks txs dag prev s" and "fs_queue s = i # queue" and "i \<in> fs_processed s"
  shows "fill_inv locks txs dag prev (s\<lparr>fs_queue := queue\<rparr>)"
  using assms by (auto simp: fill_inv_def queue_inv_def batch_inv_def)

lemma fill_defer:
  assumes "fill_inv locks txs dag prev s" and "fs_queue s = i # queue"
    and "has_conflict rs ws (fs_reads s) (fs_writes s)"
  shows "fill_inv locks txs dag prev (s\<lparr>fs_queue := queue, fs_next_ready := fs_next_ready s @ [i]\<rparr>)"
  using assms by (auto simp: fill_inv_def batch_inv_def has_conflict_def list_ex_iff)

lemma fill_add:
  assumes inv: "fill_inv locks txs dag prev s" and q: "fs_queue s = i # queue" "i \<notin> fs_processed s"
    and shape: "graph_shape txs dag" and conn: "conflicts_connected locks txs dag" and ord: "iterates ord"
    and free: "\<not> has_conflict (lk_readonly (locks (txs ! i))) (lk_writable (locks (txs ! i)))
      (fs_reads s) (fs_writes s)"
  shows "fill_inv locks txs dag prev
    (s\<lparr>fs_queue := queue @ filter (\<lambda>d. d \<in> ready dag (length txs) (insert i (fs_processed s))
           - insert i (fs_processed s)) (ord i (transaction_dependents dag i)),
       fs_processed := insert i (fs_processed s),
       fs_batch := add_transaction (fs_batch s) \<lparr>twi_transaction = txs ! i, twi_index = i\<rparr>,
       fs_reads := fs_reads s \<union> set (lk_readonly (locks (txs ! i))),
       fs_writes := fs_writes s \<union> set (lk_writable (locks (txs ! i)))\<rparr>)"
proof -
  have "i \<in> ready dag (length txs) (fs_processed s)"
    using inv q by (auto simp: fill_inv_def queue_inv_def)
  then have "output_inv locks txs dag
      ((prev @ fs_batch s) @ [\<lparr>twi_transaction = txs ! i, twi_index = i\<rparr>]) (insert i (fs_processed s))"
    using inv q conn by (intro output_inv_add) (simp_all add: fill_inv_def)
  moreover have "queue_inv dag (length txs) (fs_processed s)
      (insert i (set queue \<union> set (fs_next_ready s)))"
    using inv q by (simp add: fill_inv_def)
  note queue_inv_add [OF shape ord this]
  moreover have "conflict_free locks (fs_batch s @ [\<lparr>twi_transaction = txs ! i, twi_index = i\<rparr>])"
    using inv free has_conflict_iff [of "fs_reads s" locks "twi_transaction ` set (fs_batch s)"
        "fs_writes s" "txs ! i"]
    by (auto simp: fill_inv_def batch_inv_def conflict_free_snoc)
  ultimately show ?thesis
    using inv by (simp add: fill_inv_def batch_inv_def add_transaction_def Un_ac)
qed

lemma dag_fill_correct:
  assumes shape: "graph_shape txs dag" and conn: "conflicts_connected locks txs dag"
    and ord: "iterates ord" and "fill_inv locks txs dag prev s"
  shows "\<exists>s'. dag_fill locks ord txs dag s = Some s' \<and> fill_inv locks txs dag prev s' \<and> fs_queue s' = []"
  using assms
proof (induction locks ord txs dag s rule: dag_fill.induct)
  case (1 locks ord txs dag s)
  note inv = "1.prems"(4) and prems = "1.prems"(1-3)
  show ?case
  proof (cases "fs_queue s")
    case Nil
    then show ?thesis using inv by (simp add: dag_fill.simps)
  next
    case q: (Cons i queue)
    have i: "i \<in> ready dag (length txs) (fs_processed s)"
      using inv q by (auto simp: fill_inv_def queue_inv_def)
    then have n: "i < length txs" by (simp add: ready_def)
    let ?r = "lk_readonly (locks (txs ! i))" and ?w = "lk_writable (locks (txs ! i))"
    have ex: "extract_accounts locks (txs ! i) = (?r, ?w)"
      by (simp add: extract_accounts_def)
    note step = dag_fill.simps [of locks ord txs dag s]
    note push = push_ready_eq [OF prems(1), of "ord i (transaction_dependents dag i)"]
    have "set (ord i (transaction_dependents dag i)) \<subseteq> {..<length txs}"
      using prems(3) dependents_finite [OF prems(1)] by (simp add: iterates_def)
    note push = push [OF this]
    consider "i \<in> fs_processed s"
      | "i \<notin> fs_processed s" "has_conflict ?r ?w (fs_reads s) (fs_writes s)"
      | "i \<notin> fs_processed s" "\<not> has_conflict ?r ?w (fs_reads s) (fs_writes s)"
      by blast
    then show ?thesis
    proof cases
      case 1
      then show ?thesis
        using "1.IH"(1) [OF q 1 prems fill_skip [OF inv q 1]] q by (simp add: step)
    next
      case 2
      then show ?thesis
        using "1.IH"(2) [OF q 2(1) _ ex [symmetric] refl 2(2) prems fill_defer [OF inv q 2(2)]] q n
        by (simp add: step ex)
    next
      case 3
      then show ?thesis
        using "1.IH"(3) [OF q 3(1) _ ex [symmetric] refl 3(2) refl push prems
            fill_add [OF inv q 3(1) prems 3(2)]] q n
        by (simp add: step ex push Let_def)
    qed
  qed
qed

section \<open>The outer loop\<close>

lemma all_processed:
  assumes "graph_shape txs dag" and "ready dag (length txs) P \<subseteq> P"
  shows "{..<length txs} \<subseteq> P"
proof
  fix j
  show "j \<in> {..<length txs} \<Longrightarrow> j \<in> P"
  proof (induction j rule: less_induct)
    case (less j)
    have "i < j" if "(i, j) \<in> edges dag" for i
      using assms(1) that unfolding graph_shape_def by blast
    then have "j \<in> ready dag (length txs) P"
      using less by (auto simp: ready_def)
    then show ?case using assms(2) by blast
  qed
qed

lemma output_inv_bound:
  assumes "output_inv locks txs dag out P"
  shows "P \<subseteq> {..<length txs}" and "finite P" and "card P = length out"
  using assms with_indexD [of _ txs] card_image [of twi_index "set out"]
  by (auto simp: output_inv_def distinct_map distinct_card)

lemma fill_progress:
  assumes inv: "fill_inv locks txs dag prev s" and q: "fs_queue s = []"
    and shape: "graph_shape txs dag" and short: "length prev < length txs"
  shows "fs_batch s \<noteq> []"
proof
  assume empty: "fs_batch s = []"
  then have "ready dag (length txs) (fs_processed s) \<subseteq> fs_processed s"
    using inv q by (auto simp: fill_inv_def queue_inv_def batch_inv_def)
  moreover have out: "output_inv locks txs dag prev (fs_processed s)"
    using inv empty by (simp add: fill_inv_def)
  ultimately have "length txs \<le> length prev"
    using all_processed [OF shape] card_mono [of "fs_processed s" "{..<length txs}"]
      output_inv_bound [OF out] by simp
  then show False using short by simp
qed

lemma output_complete:
  assumes "output_inv locks txs dag out P" and "length txs \<le> card P"
  shows "mset out = mset (with_index txs)"
proof -
  have "distinct out" and sub: "set out \<subseteq> set (with_index txs)"
    using assms(1) by (auto simp: output_inv_def distinct_map)
  moreover have "card (set (with_index txs)) \<le> card (set out)"
    using assms output_inv_bound(3) [OF assms(1)] \<open>distinct out\<close>
    by (simp add: distinct_card distinct_with_index) (simp add: with_index_def)
  ultimately have "set out = set (with_index txs)"
    by (intro card_seteq) simp_all
  then show ?thesis
    using set_eq_iff_mset_eq_distinct [OF \<open>distinct out\<close> distinct_with_index] by blast
qed

lemma dag_rounds_correct:
  assumes shape: "graph_shape txs dag" and conn: "conflicts_connected locks txs dag"
    and ord: "iterates ord"
    and "output_inv locks txs dag (concat bs) P" and "queue_inv dag (length txs) P (set Q)"
    and "\<forall>b\<in>set bs. conflict_free locks b \<and> b \<noteq> []"
  shows "\<exists>bs'. dag_rounds locks ord txs dag Q P bs = Some bs' \<and> covers txs bs'
    \<and> in_order locks bs' \<and> (\<forall>b\<in>set bs'. conflict_free locks b \<and> b \<noteq> [])"
  using assms(4-)
proof (induction "length txs - length (concat bs)" arbitrary: bs P Q rule: less_induct)
  case less
  note card = output_inv_bound(3) [OF less.prems(1)]
  note step = dag_rounds.simps [of locks ord txs dag Q P bs]
  show ?case
  proof (cases "card P < length txs")
    case False
    then have "dag_rounds locks ord txs dag Q P bs = Some bs"
      by (simp add: step)
    moreover have "covers txs bs"
      using output_complete [OF less.prems(1)] False unfolding covers_def by simp
    moreover have "in_order locks bs"
      using less.prems(1) unfolding in_order_def output_inv_def by blast
    ultimately show ?thesis using less.prems(3) by blast
  next
    case True
    have "fill_inv locks txs dag (concat bs) \<lparr>fs_queue = Q, fs_processed = P, fs_batch = [],
        fs_reads = {}, fs_writes = {}, fs_next_ready = []\<rparr>"
      using less.prems by (simp add: fill_inv_def batch_inv_def conflict_free_def)
    from dag_fill_correct [OF shape conn ord this] obtain s
      where s: "dag_fill locks ord txs dag \<lparr>fs_queue = Q, fs_processed = P, fs_batch = [],
        fs_reads = {}, fs_writes = {}, fs_next_ready = []\<rparr> = Some s"
        "fill_inv locks txs dag (concat bs) s" "fs_queue s = []" by blast
    have b: "fs_batch s \<noteq> []"
      using fill_progress [OF s(2,3) shape] True card by simp
    then have "length txs - length (concat (bs @ [fs_batch s])) < length txs - length (concat bs)"
      using True card by (simp add: diff_less_mono2)
    then have "\<exists>bs'. dag_rounds locks ord txs dag (rev (fs_next_ready s)) (fs_processed s)
        (bs @ [fs_batch s]) = Some bs' \<and> covers txs bs' \<and> in_order locks bs'
        \<and> (\<forall>b\<in>set bs'. conflict_free locks b \<and> b \<noteq> [])"
      using s b less.prems(3) by (intro less.hyps) (auto simp: fill_inv_def batch_inv_def)
    then show ?thesis
      using True s b by (simp add: step)
  qed
qed

lemma dag_schedule_correct:
  assumes "iterates ord"
  shows "\<exists>bs. dag_schedule locks ord txs = Some bs \<and> covers txs bs
    \<and> in_order locks bs \<and> (\<forall>b\<in>set bs. conflict_free locks b \<and> b \<noteq> [])"
proof (cases "txs = []")
  case True
  then show ?thesis by (simp add: dag_schedule_def covers_def in_order_def with_index_def)
next
  case False
  let ?dag = "build_dependency_graph locks txs"
  let ?Q = "filter (\<lambda>i. i \<in> ready ?dag (length txs) {}) [0..<length txs]"
  note graph = build_dependency_graph_correct [of locks txs]
  have "output_inv locks txs ?dag (concat []) {}"
    by (simp add: output_inv_def closed_def)
  moreover have "queue_inv ?dag (length txs) {} (set ?Q)"
    by (auto simp: queue_inv_def ready_def)
  ultimately show ?thesis
    using dag_rounds_correct [of txs ?dag locks ord "[]" "{}" ?Q] graph assms False
    by (simp add: dag_schedule_def initial_queue_eq Let_def)
qed

lemma dag_ordered_scheduler:
  assumes "iterates ord"
  shows "ordered_scheduler locks (dag_schedule locks ord)"
  using dag_schedule_correct [OF assms, of locks] by unfold_locales (metis option.inject)+

locale hash_iteration =
  fixes ord :: "nat \<Rightarrow> nat set \<Rightarrow> nat list"
  assumes iterates: "iterates ord"

sublocale hash_iteration \<subseteq> dag: ordered_scheduler locks "dag_schedule locks ord" for locks
  by (rule dag_ordered_scheduler [OF iterates])

interpretation sorted_iteration: hash_iteration "\<lambda>_. sorted_list_of_set"
  by unfold_locales (simp add: iterates_def)

end
