(* ===== verification/Sequencer.thy ===== *)
theory Sequencer
  imports Scheduler_Dag
begin

text \<open>
  The sequencer stage (\<open>core/src/stages/sequencer.rs\<close>): it collects a window of admitted
  transactions, schedules the window with the dependency-graph scheduler and sends the batches
  to the executor. The input channel is the list of its events: a transaction arriving, or a
  quiet moment (the channel empty at a \<open>try_recv\<close>, or the collection deadline passing); the end of
  the list is the channel closing. The output channel records what was sent and after how many
  sends its receiver goes away.
\<close>

section \<open>Channels\<close>

datatype 'tx rx_event = Recv 'tx | Quiet

record 'tx batch_channel =
  ch_sent :: "'tx conflict_free_batch list"
  ch_closes_after :: "nat option"

text \<open>\<open>Sender::send\<close>: an error once the receiver is gone.\<close>

definition channel_send ::
  "'tx conflict_free_batch \<Rightarrow> 'tx batch_channel \<Rightarrow> 'tx batch_channel option" where
  "channel_send b ch = (case ch_closes_after ch of
     Some 0 \<Rightarrow> None
   | Some (Suc k) \<Rightarrow> Some (ch\<lparr>ch_sent := ch_sent ch @ [b], ch_closes_after := Some k\<rparr>)
   | None \<Rightarrow> Some (ch\<lparr>ch_sent := ch_sent ch @ [b]\<rparr>))"

section \<open>Sending the batches of a window\<close>

fun send_batches ::
  "'tx conflict_free_batch list \<Rightarrow> nat \<Rightarrow> 'tx batch_channel \<Rightarrow> nat \<times> 'tx batch_channel" where
  "send_batches [] batches_sent ch = (batches_sent, ch)"
| "send_batches (b # bs) batches_sent ch =
     (case channel_send b ch of
        Some ch \<Rightarrow> send_batches bs (batches_sent + 1) ch
      | None \<Rightarrow> (batches_sent, ch))"

definition process_and_send_batches ::
  "('tx list \<Rightarrow> 'tx conflict_free_batch list option) \<Rightarrow> 'tx list \<Rightarrow> 'tx batch_channel \<Rightarrow>
     (nat \<times> 'tx batch_channel) option" where
  "process_and_send_batches schedule transactions ch =
     map_option (\<lambda>bs. send_batches bs 0 ch) (schedule transactions)"

section \<open>Collecting a window\<close>

fun collect_until_deadline ::
  "nat \<Rightarrow> 'tx rx_event list \<Rightarrow> 'tx list \<Rightarrow> 'tx list \<times> 'tx rx_event list" where
  "collect_until_deadline max_tx_per_batch [] pending = (pending, [])"
| "collect_until_deadline max_tx_per_batch (e # es) pending =
     (if length pending < max_tx_per_batch
      then case e of
          Recv tx \<Rightarrow> collect_until_deadline max_tx_per_batch es (pending @ [tx])
        | Quiet \<Rightarrow> (pending, es)
      else (pending, e # es))"

fun collect_available ::
  "nat \<Rightarrow> nat \<Rightarrow> 'tx rx_event list \<Rightarrow> 'tx list \<Rightarrow> 'tx list \<times> 'tx rx_event list" where
  "collect_available max_tx_per_batch collected [] pending = (pending, [])"
| "collect_available max_tx_per_batch collected (e # es) pending =
     (if collected < max_tx_per_batch
      then case e of
          Recv tx \<Rightarrow> collect_available max_tx_per_batch (collected + 1) es (pending @ [tx])
        | Quiet \<Rightarrow> (pending, es)
      else (pending, e # es))"

definition collect_window ::
  "nat \<Rightarrow> nat \<Rightarrow> 'tx rx_event list \<Rightarrow> 'tx list \<Rightarrow> 'tx list \<times> 'tx rx_event list" where
  "collect_window max_tx_per_batch batch_deadline_ms es pending =
     (if 0 < batch_deadline_ms then collect_until_deadline max_tx_per_batch es pending
      else collect_available max_tx_per_batch 1 es pending)"

lemma collect_until_deadline_shorter: "length (snd (collect_until_deadline m es p)) \<le> length es"
  by (induction m es p rule: collect_until_deadline.induct) (auto split: rx_event.splits)

lemma collect_available_shorter: "length (snd (collect_available m c es p)) \<le> length es"
  by (induction m c es p rule: collect_available.induct) (auto split: rx_event.splits)

lemma collect_window_shorter: "collect_window m d es p = (w, rest) \<Longrightarrow> length rest < Suc (length es)"
  using collect_until_deadline_shorter [of m es p] collect_available_shorter [of m 1 es p]
  by (auto simp: collect_window_def split: if_splits)

section \<open>The worker\<close>

function sequence_worker ::
  "('tx list \<Rightarrow> 'tx conflict_free_batch list option) \<Rightarrow> nat \<Rightarrow> nat \<Rightarrow> 'tx rx_event list \<Rightarrow>
     'tx list \<Rightarrow> nat \<Rightarrow> 'tx batch_channel \<Rightarrow> (nat \<times> 'tx batch_channel) option" where
  "sequence_worker schedule max_tx_per_batch batch_deadline_ms [] pending total_sent ch =
     (if pending = [] then Some (total_sent, ch)
      else map_option (\<lambda>(sent, ch). (total_sent + sent, ch))
             (process_and_send_batches schedule pending ch))"
| "sequence_worker schedule max_tx_per_batch batch_deadline_ms (Quiet # es) pending total_sent ch =
     sequence_worker schedule max_tx_per_batch batch_deadline_ms es pending total_sent ch"
| "sequence_worker schedule max_tx_per_batch batch_deadline_ms (Recv tx # es) pending total_sent ch =
     (let (pending, rest) = collect_window max_tx_per_batch batch_deadline_ms es (pending @ [tx]) in
      if pending = []
      then sequence_worker schedule max_tx_per_batch batch_deadline_ms rest pending total_sent ch
      else case process_and_send_batches schedule pending ch of
        None \<Rightarrow> None
      | Some (sent, ch) \<Rightarrow>
          sequence_worker schedule max_tx_per_batch batch_deadline_ms rest [] (total_sent + sent) ch)"
  by pat_completeness auto
termination
  by (relation "measure (\<lambda>(_, _, _, es, _). length es)")
    (auto dest!: sym [THEN collect_window_shorter])

section \<open>The stage keeps the order of its input\<close>

fun received :: "'tx rx_event list \<Rightarrow> 'tx list" where
  "received [] = []"
| "received (Recv tx # es) = tx # received es"
| "received (Quiet # es) = received es"

lemma collect_until_deadline_received:
  "collect_until_deadline m es p = (w, rest) \<Longrightarrow>
   w @ received rest = p @ received es \<and> length p \<le> length w
   \<and> (length p \<le> max 1 m \<longrightarrow> length w \<le> max 1 m)"
  by (induction m es p rule: collect_until_deadline.induct) (auto split: rx_event.splits if_splits)

lemma collect_available_received:
  "collect_available m (length p) es p = (w, rest) \<Longrightarrow>
   w @ received rest = p @ received es \<and> length p \<le> length w
   \<and> (length p \<le> max 1 m \<longrightarrow> length w \<le> max 1 m)"
  by (induction m "length p" es p rule: collect_available.induct)
    (auto split: rx_event.splits if_splits)

lemma collect_window_received:
  assumes "collect_window m d es [tx] = (w, rest)"
  shows "w @ received rest = tx # received es" and "length w \<le> max 1 m" and "w \<noteq> []"
  using assms collect_until_deadline_received [of m es "[tx]" w rest]
    collect_available_received [of m "[tx]" es w rest]
  by (auto simp: collect_window_def split: if_splits)

lemma send_batches_open:
  assumes "ch_closes_after ch = None"
  shows "send_batches bs n ch = (n + length bs, ch\<lparr>ch_sent := ch_sent ch @ bs\<rparr>)"
  using assms by (induction bs arbitrary: n ch) (simp_all add: channel_send_def)

lemma run_batches_append: "run_batches exec (as @ bs) s = run_batches exec bs (run_batches exec as s)"
  by (simp add: run_batches_def)

context ordered_scheduler
begin

lemma window_serializable:
  assumes "ch_closes_after ch = None" and ok: "respects_locks locks exec"
  shows "\<exists>bs. process_and_send_batches schedule w ch
      = Some (length bs, ch\<lparr>ch_sent := ch_sent ch @ bs\<rparr>)
    \<and> run_batches exec bs s = fold exec w s \<and> (\<forall>b\<in>set bs. conflict_free locks b \<and> length b \<le> length w)"
proof -
  obtain bs where bs: "schedule w = Some bs" using returns by blast
  have "length b \<le> length w" if b: "b \<in> set bs" for b
  proof -
    have "length b \<le> length (concat bs)"
      using split_list [OF b] by auto
    also have "\<dots> = length (with_index w)"
      using complete [OF bs] unfolding covers_def by (rule mset_eq_length)
    also have "\<dots> = length w"
      by (simp add: with_index_def)
    finally show ?thesis .
  qed
  moreover have "run_batches exec bs s = fold exec w s"
    by (intro serializable [OF bs _ ok] list.rel_refl) simp
  ultimately show ?thesis
    using bs assms(1) separated [OF bs]
    by (intro exI [of _ bs]) (simp add: process_and_send_batches_def send_batches_open)
qed

lemma worker_serializable:
  assumes ok: "respects_locks locks exec" and "ch_closes_after ch = None"
  shows "\<exists>bs. sequence_worker schedule m d es [] n ch
      = Some (n + length bs, ch\<lparr>ch_sent := ch_sent ch @ bs\<rparr>)
    \<and> run_batches exec bs s = fold exec (received es) s
    \<and> (\<forall>b\<in>set bs. conflict_free locks b \<and> length b \<le> max 1 m)"
  using assms(2)
proof (induction es arbitrary: n ch s rule: length_induct)
  case (1 es)
  consider "es = []" | es' where "es = Quiet # es'" | tx es' where "es = Recv tx # es'"
    by (metis neq_Nil_conv rx_event.exhaust)
  then show ?case
  proof cases
    case 1
    then show ?thesis by (intro exI [of _ "[]"]) (simp add: run_batches_def)
  next
    case 2
    then show ?thesis using "1.IH" "1.prems" by simp
  next
    case 3
    obtain w rest where w: "collect_window m d es' [tx] = (w, rest)" by fastforce
    note len = collect_window_received [OF w]
    obtain bs1 where bs1: "process_and_send_batches schedule w ch
        = Some (length bs1, ch\<lparr>ch_sent := ch_sent ch @ bs1\<rparr>)"
      "run_batches exec bs1 s = fold exec w s" "\<forall>b\<in>set bs1. conflict_free locks b \<and> length b \<le> length w"
      using window_serializable [OF "1.prems" ok, of w s] by blast
    obtain bs2 where bs2: "sequence_worker schedule m d rest [] (n + length bs1) (ch\<lparr>ch_sent := ch_sent ch @ bs1\<rparr>)
        = Some (n + length bs1 + length bs2, ch\<lparr>ch_sent := (ch_sent ch @ bs1) @ bs2\<rparr>)"
      "run_batches exec bs2 (fold exec w s) = fold exec (received rest) (fold exec w s)"
      "\<forall>b\<in>set bs2. conflict_free locks b \<and> length b \<le> max 1 m"
      using "1.IH" [rule_format, of rest "ch\<lparr>ch_sent := ch_sent ch @ bs1\<rparr>" "n + length bs1" "fold exec w s"]
        "1.prems" collect_window_shorter [OF w] 3 by auto
    have "fold exec (received rest) (fold exec w s) = fold exec (w @ received rest) s"
      by simp
    then have "fold exec (received rest) (fold exec w s) = fold exec (received es) s"
      unfolding len(1) 3 by simp
    moreover have "\<forall>b\<in>set (bs1 @ bs2). conflict_free locks b \<and> length b \<le> max 1 m"
      using bs1(3) bs2(3) len(2) by fastforce
    ultimately show ?thesis
      using 3 w len(3) bs1 bs2 by (intro exI [of _ "bs1 @ bs2"]) (simp add: run_batches_append add.assoc)
  qed
qed

end

section \<open>Properties\<close>

text \<open>
  C2. The dependency-graph scheduler returns for every list of transactions, whatever the
  iteration order of its hash sets and whatever keys a transaction repeats. Every transaction is in
  exactly one batch, no batch holds two conflicting transactions, of two conflicting transactions
  the earlier one is in an earlier batch, and if execution respects the locks then running the
  batches one after the other, each batch in any order, gives the state of running the
  transactions one by one as they came.
\<close>

theorem dag_schedule_serializable:
  assumes "iterates ord" and "respects_locks locks exec"
  shows "\<exists>bs. dag_schedule locks ord txs = Some bs \<and> covers txs bs \<and> keeps_order locks bs
    \<and> list_all (conflict_free locks) bs
    \<and> (\<forall>bs'. list_all2 (\<lambda>b b'. mset b' = mset b) bs bs' \<longrightarrow> run_batches exec bs' s = fold exec txs s)"
proof -
  have ordered: "ordered_scheduler locks (dag_schedule locks ord)"
    using assms(1) by (rule dag_ordered_scheduler)
  then have batch: "batch_scheduler locks (dag_schedule locks ord)"
    by (rule ordered_scheduler.axioms)
  obtain bs where bs: "dag_schedule locks ord txs = Some bs"
    using batch_scheduler.returns [OF batch] by blast
  show ?thesis
    using bs batch_scheduler.complete [OF batch bs] batch_scheduler.separated [OF batch bs]
      ordered_scheduler.conflicts_keep_order [OF ordered bs]
      ordered_scheduler.serializable [OF ordered bs _ assms(2)]
    by (auto simp: list_all_iff)
qed

text \<open>
  C17. While the executor is there, the sequencer loses and reorders nothing: for every arrival
  pattern, window limit and deadline, it ends when its input closes, and executing the batches it
  sent gives the state of executing the admitted transactions one by one in arrival order. No
  batch is larger than the window limit.
\<close>

theorem sequencer_keeps_arrival_order:
  assumes "iterates ord" and "respects_locks locks exec"
  shows "\<exists>n ch. sequence_worker (dag_schedule locks ord) max_tx_per_batch batch_deadline_ms es [] 0
      \<lparr>ch_sent = [], ch_closes_after = None\<rparr> = Some (n, ch)
    \<and> n = length (ch_sent ch) \<and> run_batches exec (ch_sent ch) s = fold exec (received es) s
    \<and> list_all (\<lambda>b. conflict_free locks b \<and> length b \<le> max 1 max_tx_per_batch) (ch_sent ch)"
  using ordered_scheduler.worker_serializable [OF dag_ordered_scheduler [OF assms(1)] assms(2),
      of "\<lparr>ch_sent = [], ch_closes_after = None\<rparr>" max_tx_per_batch batch_deadline_ms es 0 s]
  by (auto simp: list_all_iff)

text \<open>
  The greedy scheduler returns for every list of transactions, puts every transaction in
  exactly one batch, sends no empty batch and never batches two conflicting transactions together.
\<close>

theorem greedy_schedule_batches:
  "covers txs (greedy_schedule locks txs)
   \<and> list_all (\<lambda>b. conflict_free locks b \<and> b \<noteq> []) (greedy_schedule locks txs)"
  using greedy_schedule_correct by (auto simp: list_all_iff)

section \<open>Witnesses\<close>

text \<open>
  Transactions that double the one account they write when they read nothing, and increment it
  otherwise: the order of two that write the same account matters.
\<close>

definition demo_exec :: "tx_locks \<Rightarrow> (address \<Rightarrow> nat) \<Rightarrow> address \<Rightarrow> nat" where
  "demo_exec t s a =
     (if a \<in> set (lk_writable t) then (if lk_readonly t = [] then 2 * s a else s a + 1) else s a)"

definition demo_txs :: "tx_locks list" where
  "demo_txs = [\<lparr>lk_readonly = [], lk_writable = [7]\<rparr>, \<lparr>lk_readonly = [8], lk_writable = [7, 7]\<rparr>,
     \<lparr>lk_readonly = [], lk_writable = [9]\<rparr>]"

lemma demo_exec_respects: "respects_locks (\<lambda>t. t) demo_exec"
  by (simp add: respects_locks_def demo_exec_def)

lemma sorted_iterates: "iterates (\<lambda>_. sorted_list_of_set)"
  by (simp add: iterates_def)

theorem dag_schedule_serializable_witness:
  "\<exists>bs. dag_schedule (\<lambda>t. t) (\<lambda>_. sorted_list_of_set) demo_txs = Some bs
    \<and> run_batches demo_exec bs (\<lambda>_. 1) 7 = 3"
proof -
  obtain bs where "dag_schedule (\<lambda>t. t) (\<lambda>_. sorted_list_of_set) demo_txs = Some bs"
    "run_batches demo_exec bs (\<lambda>_. 1) = fold demo_exec demo_txs (\<lambda>_. 1)"
    using dag_schedule_serializable [OF sorted_iterates demo_exec_respects, of demo_txs "\<lambda>_. 1"]
      list.rel_refl [of "\<lambda>b b'. mset b' = mset b"] by blast
  then show ?thesis by (simp add: demo_txs_def demo_exec_def)
qed

theorem sequencer_keeps_arrival_order_witness:
  "\<exists>n ch. sequence_worker (dag_schedule (\<lambda>t. t) (\<lambda>_. sorted_list_of_set)) 2 0
      (Quiet # map Recv demo_txs) [] 0 \<lparr>ch_sent = [], ch_closes_after = None\<rparr> = Some (n, ch)
    \<and> run_batches demo_exec (ch_sent ch) (\<lambda>_. 1) 7 = 3
    \<and> list_all (\<lambda>b. length b \<le> 2) (ch_sent ch)"
proof -
  obtain n ch where "sequence_worker (dag_schedule (\<lambda>t. t) (\<lambda>_. sorted_list_of_set)) 2 0
      (Quiet # map Recv demo_txs) [] 0 \<lparr>ch_sent = [], ch_closes_after = None\<rparr> = Some (n, ch)"
    "run_batches demo_exec (ch_sent ch) (\<lambda>_. 1) = fold demo_exec (received (Quiet # map Recv demo_txs)) (\<lambda>_. 1)"
    "list_all (\<lambda>b. conflict_free (\<lambda>t. t) b \<and> length b \<le> max 1 2) (ch_sent ch)"
    using sequencer_keeps_arrival_order [OF sorted_iterates demo_exec_respects, of 2 0
        "Quiet # map Recv demo_txs" "\<lambda>_. 1"] by blast
  then show ?thesis by (auto simp: demo_txs_def demo_exec_def list_all_iff)
qed

end
