(* ===== verification/Dedup.thy ===== *)
theory Dedup
  imports Prelude "HOL-Library.Sublist"
begin

text \<open>
  The channel's replay guard: the dedup stage (\<open>core/src/stages/dedup.rs\<close>) and the part of the
  restart path that decides which stored blocks it may trust
  (\<open>core/src/accounts/get_last_blocks.rs\<close>). Hashes are 256-bit words. The stage runs beside the
  settler, which pops expiring hashes from the shared window; a run is an explicit sequence of
  events of both. Counters of settled blocks are natural numbers.
\<close>

section \<open>Data\<close>

type_synonym hash = "256 word"

record block_info =
  bi_slot :: u64
  bi_blockhash :: hash
  bi_previous_blockhash :: hash
  bi_parent_slot :: u64
  bi_block_height :: "u64 option"
  bi_block_time :: "int option"
  transaction_signatures :: "bytes list"
  transaction_recent_blockhashes :: "hash list"
  transaction_message_hashes :: "hash list"

text \<open>What the stage reads of a transaction: its replay identity and the blockhash it names.\<close>

record dedup_tx =
  message_hash :: hash
  recent_blockhash :: hash

record blockhash_progress =
  announced :: nat
  ingested :: nat
  admissions :: nat

record dedup_state =
  live_blockhashes :: "hash list"
  dedup_cache :: "hash \<rightharpoonup> hash set"
  progress :: blockhash_progress
  forwarded :: "dedup_tx list"

datatype restore_error =
    NoRowsButCounter
  | MissingBlockHeight
  | NotTheChainTip
  | MissingCounter
  | MismatchedRecentBlockhashes
  | MismatchedMessageHashes

section \<open>Restoring the window\<close>

fun collect_heights :: "block_info list \<Rightarrow> restore_error + u64 list" where
  "collect_heights [] = Inr []"
| "collect_heights (b # bs) =
     bindE (ok_orE (bi_block_height b) MissingBlockHeight) (\<lambda>height.
     bindE (collect_heights bs) (\<lambda>heights. Inr (height # heights)))"

definition last_gap :: "u64 list \<Rightarrow> nat option" where
  "last_gap heights =
     fold (\<lambda>index gap. if Some (heights ! index) \<noteq> checked_add (heights ! (index - 1)) 1
       then Some index else gap) [1..<length heights] None"

definition verified_dedup_tail ::
  "block_info list \<Rightarrow> u64 option \<Rightarrow> restore_error + block_info list" where
  "verified_dedup_tail blocks durable_height =
     (if blocks = [] then
        (case durable_height of Some _ \<Rightarrow> Inl NoRowsButCounter | None \<Rightarrow> Inr blocks)
      else
        bindE (collect_heights blocks) (\<lambda>heights.
        let gap = last_gap heights; newest_height = last heights in
        bindE (case durable_height of
            Some durable \<Rightarrow> guardE (newest_height = durable) NotTheChainTip
          | None \<Rightarrow> Inl MissingCounter) (\<lambda>_.
        case gap of
          Some gap \<Rightarrow> Inr (drop gap blocks)
        | None \<Rightarrow> Inr blocks)))"

definition cache_insert :: "hash \<Rightarrow> hash \<Rightarrow> (hash \<rightharpoonup> hash set) \<Rightarrow> (hash \<rightharpoonup> hash set)" where
  "cache_insert blockhash mh cache =
     cache(blockhash \<mapsto> insert mh (case cache blockhash of Some s \<Rightarrow> s | None \<Rightarrow> {}))"

fun build_blocks ::
  "hash set \<Rightarrow> block_info list \<Rightarrow> hash list \<Rightarrow> (hash \<rightharpoonup> hash set) \<Rightarrow>
     restore_error + (hash list \<times> (hash \<rightharpoonup> hash set))" where
  "build_blocks loaded_hashes [] live cache = Inr (live, cache)"
| "build_blocks loaded_hashes (block # blocks) live cache =
     bindE (guardE (length (transaction_signatures block)
         = length (transaction_recent_blockhashes block)) MismatchedRecentBlockhashes) (\<lambda>_.
     bindE (guardE (length (transaction_message_hashes block)
         = length (transaction_signatures block)) MismatchedMessageHashes) (\<lambda>_.
     build_blocks loaded_hashes blocks (live @ [bi_blockhash block])
       (fold (\<lambda>(mh, recent) cache.
           if recent \<in> loaded_hashes then cache_insert recent mh cache else cache)
         (zip (transaction_message_hashes block) (transaction_recent_blockhashes block)) cache)))"

definition build_dedup_state ::
  "block_info list \<Rightarrow> restore_error + (hash list \<times> (hash \<rightharpoonup> hash set))" where
  "build_dedup_state blocks = build_blocks (bi_blockhash ` set blocks) blocks [] Map.empty"

definition dedup_window_is_short :: "block_info list \<Rightarrow> nat \<Rightarrow> bool" where
  "dedup_window_is_short blocks max_blockhashes \<longleftrightarrow>
     length blocks < max_blockhashes \<and> blocks \<noteq> [] \<and> bi_slot (last blocks) \<noteq> 0"

text \<open>
  \<open>load_dedup_state\<close> on the newest rows of the blocks table, oldest first, and the durable height
  counter; \<open>verified_dedup_tail\<close> is the last step of \<open>get_last_blocks\<close>.
\<close>

definition load_dedup_state ::
  "block_info list \<Rightarrow> u64 option \<Rightarrow> restore_error + (hash list \<times> (hash \<rightharpoonup> hash set))" where
  "load_dedup_state rows durable_height =
     bindE (verified_dedup_tail rows durable_height) (\<lambda>blocks.
     if blocks = [] then Inr ([], Map.empty) else build_dedup_state blocks)"

section \<open>The live window\<close>

fun expire_loop ::
  "nat \<Rightarrow> hash list \<Rightarrow> (hash \<rightharpoonup> hash set) \<Rightarrow> hash list \<times> (hash \<rightharpoonup> hash set)" where
  "expire_loop max_blockhashes [] cache = ([], cache)"
| "expire_loop max_blockhashes (h # bh_list) cache =
     (if max_blockhashes < length (h # bh_list)
      then expire_loop max_blockhashes bh_list (cache(h := None))
      else (h # bh_list, cache))"

text \<open>\<open>pending\<close> is what the settled channel holds when it is drained, \<open>first\<close> what \<open>recv\<close> returned.\<close>

definition ingest_blockhashes ::
  "nat \<Rightarrow> hash option \<Rightarrow> hash list \<Rightarrow> dedup_state \<Rightarrow> dedup_state" where
  "ingest_blockhashes max_blockhashes first pending st =
     (case (case first of Some h \<Rightarrow> h # pending | None \<Rightarrow> pending) of
        [] \<Rightarrow> st
      | h # hs \<Rightarrow>
          let (bh_list, cache) =
                expire_loop max_blockhashes (live_blockhashes st @ h # hs) (dedup_cache st)
          in st\<lparr>live_blockhashes := bh_list, dedup_cache := cache |` set bh_list,
               progress := (progress st)\<lparr>ingested := ingested (progress st) + length (h # hs)\<rparr>\<rparr>)"

fun retire_loop :: "nat \<Rightarrow> nat \<Rightarrow> hash list \<Rightarrow> nat \<Rightarrow> hash list \<times> nat" where
  "retire_loop max_blockhashes pending [] popped = ([], popped)"
| "retire_loop max_blockhashes pending (h # bh_list) popped =
     (if max_blockhashes < length (h # bh_list) + pending
      then retire_loop max_blockhashes pending bh_list (popped + 1)
      else (h # bh_list, popped))"

definition retire_expiring_blockhashes :: "nat \<Rightarrow> dedup_state \<Rightarrow> dedup_state \<times> nat \<times> nat" where
  "retire_expiring_blockhashes max_blockhashes st =
     (let announced' = announced (progress st) + 1;
          pending = announced' - ingested (progress st);
          (bh_list, popped) = retire_loop max_blockhashes pending (live_blockhashes st) 0
      in (st\<lparr>live_blockhashes := bh_list, progress := (progress st)\<lparr>announced := announced'\<rparr>\<rparr>,
          popped, admissions (progress st)))"

section \<open>The stage\<close>

definition is_duplicate :: "dedup_tx \<Rightarrow> dedup_state \<Rightarrow> bool" where
  "is_duplicate tx st =
     (case dedup_cache st (recent_blockhash tx) of
        Some hashes \<Rightarrow> message_hash tx \<in> hashes | None \<Rightarrow> False)"

text \<open>
  One received transaction. \<open>pending\<close> are the hashes drained before the checks, \<open>waits\<close> the
  ingests made while the send waits for capacity, and \<open>sent\<close> whether the send went through
  rather than a channel closing.
\<close>

definition handle_transaction ::
  "nat \<Rightarrow> hash list \<Rightarrow> dedup_tx \<Rightarrow> (hash \<times> hash list) list \<Rightarrow> bool \<Rightarrow> dedup_state \<Rightarrow> dedup_state" where
  "handle_transaction max_blockhashes pending tx waits sent st =
     (let st = ingest_blockhashes max_blockhashes None pending st in
      if recent_blockhash tx \<notin> set (live_blockhashes st) then st
      else if is_duplicate tx st then st
      else
        let st = st\<lparr>dedup_cache := cache_insert (recent_blockhash tx) (message_hash tx) (dedup_cache st)\<rparr>;
            st = fold (\<lambda>(h, hs). ingest_blockhashes max_blockhashes (Some h) hs) waits st
        in if sent then st\<lparr>forwarded := forwarded st @ [tx]\<rparr> else st)"

datatype dedup_event =
    Drain "hash list"
  | Settled hash "hash list"
  | Transaction "hash list" dedup_tx "(hash \<times> hash list) list" bool
  | Retire

fun dedup_step :: "nat \<Rightarrow> dedup_event \<Rightarrow> dedup_state \<Rightarrow> dedup_state" where
  "dedup_step max_blockhashes (Drain pending) st = ingest_blockhashes max_blockhashes None pending st"
| "dedup_step max_blockhashes (Settled h pending) st =
     ingest_blockhashes max_blockhashes (Some h) pending st"
| "dedup_step max_blockhashes (Transaction pending tx waits sent) st =
     handle_transaction max_blockhashes pending tx waits sent st"
| "dedup_step max_blockhashes Retire st = fst (retire_expiring_blockhashes max_blockhashes st)"

definition start_dedup :: "hash list \<Rightarrow> (hash \<rightharpoonup> hash set) \<Rightarrow> dedup_state" where
  "start_dedup initial_live_blockhashes initial_dedup_cache =
     \<lparr>live_blockhashes = initial_live_blockhashes, dedup_cache = initial_dedup_cache,
      progress = \<lparr>announced = 0, ingested = 0, admissions = 0\<rparr>, forwarded = []\<rparr>"

definition run_dedup :: "nat \<Rightarrow> dedup_event list \<Rightarrow> dedup_state \<Rightarrow> dedup_state" where
  "run_dedup max_blockhashes = fold (dedup_step max_blockhashes)"

end
