(* ===== verification/Dedup_Safety.thy ===== *)
theory Dedup_Safety
  imports Dedup
begin

text \<open>
  No message passes the dedup stage twice. The invariant is that a message already seen is either
  still cached under its blockhash, or its blockhash has left the window for good. It
  survives ingestion, expiry by the settler, backpressure and, through the restored cache, a
  restart of the node.
\<close>

section \<open>The window\<close>

lemma expire_loop_eq:
  "expire_loop m bh cache =
     (drop (length bh - m) bh, \<lambda>b. if b \<in> set (take (length bh - m) bh) then None else cache b)"
  by (induction bh arbitrary: cache) (auto simp: fun_eq_iff Suc_diff_le)

lemma retire_loop_eq:
  "retire_loop m p bh k = (drop (length bh + p - m) bh, k + min (length bh) (length bh + p - m))"
  by (induction bh arbitrary: k) (auto simp: Suc_diff_le not_less)

definition ingest_hashes :: "nat \<Rightarrow> hash list \<Rightarrow> dedup_state \<Rightarrow> dedup_state" where
  "ingest_hashes m hs = ingest_blockhashes m None hs"

lemma ingest_Some: "ingest_blockhashes m (Some h) hs = ingest_hashes m (h # hs)"
  by (simp add: ingest_hashes_def ingest_blockhashes_def fun_eq_iff)

lemma ingest_live:
  "hs \<noteq> [] \<Longrightarrow> live_blockhashes (ingest_hashes m hs st)
     = drop (length (live_blockhashes st @ hs) - m) (live_blockhashes st @ hs)"
  by (cases hs) (simp_all add: ingest_hashes_def ingest_blockhashes_def expire_loop_eq)

lemma ingest_cache:
  assumes "distinct (live_blockhashes st @ hs)" and "b \<in> set (live_blockhashes (ingest_hashes m hs st))"
  shows "dedup_cache (ingest_hashes m hs st) b = dedup_cache st b"
proof (cases hs)
  case (Cons h hs')
  let ?bh = "live_blockhashes st @ hs" and ?k = "length (live_blockhashes st @ hs) - m"
  have b: "b \<in> set (drop ?k ?bh)"
    using assms(2) Cons ingest_live [of hs m st] by simp
  then have "b \<notin> set (take ?k ?bh)"
    using set_take_disj_set_drop_if_distinct [OF assms(1), of ?k ?k] by blast
  then show ?thesis
    using b Cons
    by (simp add: ingest_hashes_def ingest_blockhashes_def expire_loop_eq del: take_append drop_append)
qed (simp add: ingest_hashes_def ingest_blockhashes_def)

lemma retire_bounded:
  "live_blockhashes (fst (retire_expiring_blockhashes m st)) = []
   \<or> length (live_blockhashes (fst (retire_expiring_blockhashes m st)))
       + (announced (progress (fst (retire_expiring_blockhashes m st)))
          - ingested (progress (fst (retire_expiring_blockhashes m st)))) \<le> m"
proof -
  obtain p where p: "announced (progress st) + 1 - ingested (progress st) = p" by simp
  have "drop (length bh + p - m) bh = [] \<or> length (drop (length bh + p - m) bh) + p \<le> m" for bh :: "hash list"
    by auto
  then show ?thesis
    by (simp add: retire_expiring_blockhashes_def retire_loop_eq Let_def p [simplified])
qed

section \<open>The replay invariant\<close>

definition guarded :: "(hash \<times> hash) set \<Rightarrow> hash list \<Rightarrow> dedup_state \<Rightarrow> bool" where
  "guarded seen future st \<longleftrightarrow>
     distinct (live_blockhashes st @ future)
     \<and> (\<forall>(b, h)\<in>seen. b \<notin> set future
          \<and> (b \<in> set (live_blockhashes st) \<longrightarrow> (\<exists>hs. dedup_cache st b = Some hs \<and> h \<in> hs)))"

lemma guarded_ingest:
  assumes inv: "guarded seen (hs @ future) st"
  shows "guarded seen future (ingest_hashes m hs st)"
proof (cases "hs = []")
  case True
  then show ?thesis
    using inv by (simp add: ingest_hashes_def ingest_blockhashes_def)
next
  case False
  let ?bh = "live_blockhashes st @ hs"
  note live = ingest_live [OF False, of m st]
  have all: "distinct (?bh @ future)"
    using inv by (simp add: guarded_def)
  then have dist: "distinct ?bh" by auto
  have sub: "set (live_blockhashes (ingest_hashes m hs st)) \<subseteq> set ?bh"
    unfolding live by (rule set_drop_subset)
  have "distinct (live_blockhashes (ingest_hashes m hs st) @ future)"
    using all sub distinct_drop [OF dist] unfolding live distinct_append by blast
  moreover have "\<exists>S. dedup_cache (ingest_hashes m hs st) b = Some S \<and> h \<in> S"
    if "(b, h) \<in> seen" "b \<in> set (live_blockhashes (ingest_hashes m hs st))" for b h
    using that inv sub ingest_cache [OF dist that(2)] by (fastforce simp: guarded_def)
  ultimately show ?thesis
    using inv by (fastforce simp: guarded_def)
qed

lemma guarded_waits:
  "guarded seen (concat (map (\<lambda>(h, hs). h # hs) waits) @ future) st \<Longrightarrow>
   guarded seen future (fold (\<lambda>(h, hs). ingest_blockhashes m (Some h) hs) waits st)"
proof (induction waits arbitrary: st)
  case (Cons w waits)
  obtain h hs where w: "w = (h, hs)" by fastforce
  show ?case
    using Cons.IH guarded_ingest [of seen "h # hs" "concat (map (\<lambda>(h, hs). h # hs) waits) @ future" st m]
      Cons.prems
    by (simp add: w ingest_Some)
qed simp

lemma guarded_retire:
  assumes "guarded seen future st"
  shows "guarded seen future (fst (retire_expiring_blockhashes m st))"
  using assms
  by (auto simp: guarded_def retire_expiring_blockhashes_def Let_def retire_loop_eq
      dest: in_set_dropD)

lemma guarded_admit:
  assumes "guarded seen future st" and "b \<in> set (live_blockhashes st)"
  shows "guarded (insert (b, h) seen) future (st\<lparr>dedup_cache := cache_insert b h (dedup_cache st)\<rparr>)"
  using assms by (fastforce simp: guarded_def cache_insert_def split: option.splits)

lemma guarded_duplicate:
  assumes "guarded seen future st" and "recent_blockhash tx \<in> set (live_blockhashes st)"
    and "\<not> is_duplicate tx st"
  shows "(recent_blockhash tx, message_hash tx) \<notin> seen"
  using assms by (auto simp: guarded_def is_duplicate_def split: option.splits)

section \<open>Runs\<close>

abbreviation replay_key :: "dedup_tx \<Rightarrow> hash \<times> hash" where
  "replay_key tx \<equiv> (recent_blockhash tx, message_hash tx)"

fun event_hashes :: "dedup_event \<Rightarrow> hash list" where
  "event_hashes (Drain pending) = pending"
| "event_hashes (Settled h pending) = h # pending"
| "event_hashes (Transaction pending tx waits sent) =
     pending @ concat (map (\<lambda>(h, hs). h # hs) waits)"
| "event_hashes Retire = []"

definition settled_hashes :: "dedup_event list \<Rightarrow> hash list" where
  "settled_hashes evs = concat (map event_hashes evs)"

lemma forwarded_ingest [simp]: "forwarded (ingest_hashes m hs st) = forwarded st"
  by (cases hs) (simp_all add: ingest_hashes_def ingest_blockhashes_def Let_def split: prod.split)

lemma forwarded_waits:
  "forwarded (fold (\<lambda>(h, hs). ingest_blockhashes m (Some h) hs) waits st) = forwarded st"
  by (induction waits arbitrary: st) (auto simp: ingest_Some)

lemma guarded_weaken: "guarded seen (hs @ future) st \<Longrightarrow> guarded seen future st"
  by (auto simp: guarded_def)

lemma guarded_forwarded [simp]: "guarded seen future (st\<lparr>forwarded := f\<rparr>) = guarded seen future st"
  by (simp add: guarded_def)

text \<open>What one event may add: at most one transaction, not seen before.\<close>

lemma dedup_step_guarded:
  assumes inv: "guarded seen (event_hashes ev @ future) st"
  shows "\<exists>new. guarded (seen \<union> set (map replay_key new)) future (dedup_step m ev st)
    \<and> (forwarded (dedup_step m ev st) = forwarded st \<or> forwarded (dedup_step m ev st) = forwarded st @ new)
    \<and> distinct (map replay_key new) \<and> set (map replay_key new) \<inter> seen = {}"
proof (cases ev)
  case (Drain pending)
  then show ?thesis
    using guarded_ingest [of seen pending future st m] inv
    by (intro exI [of _ "[]"]) (simp add: ingest_hashes_def [symmetric])
next
  case (Settled h pending)
  then show ?thesis
    using guarded_ingest [of seen "h # pending" future st m] inv
    by (intro exI [of _ "[]"]) (simp add: ingest_Some)
next
  case Retire
  then show ?thesis
    using guarded_retire [of seen future st m] inv
    by (intro exI [of _ "[]"]) (simp add: retire_expiring_blockhashes_def Let_def split: prod.split)
next
  case (Transaction pending tx waits sent)
  let ?st = "ingest_hashes m pending st" and ?w = "concat (map (\<lambda>(h, hs). h # hs) waits)"
  have st: "guarded seen (?w @ future) ?st"
    using guarded_ingest inv Transaction by simp
  show ?thesis
  proof (cases "recent_blockhash tx \<in> set (live_blockhashes ?st) \<and> \<not> is_duplicate tx ?st")
    case False
    then have "dedup_step m ev st = ?st"
      by (auto simp: Transaction handle_transaction_def ingest_hashes_def Let_def)
    then show ?thesis
      using guarded_weaken [OF st] by (intro exI [of _ "[]"]) simp
  next
    case True
    let ?st' = "fold (\<lambda>(h, hs). ingest_blockhashes m (Some h) hs) waits
      (?st\<lparr>dedup_cache := cache_insert (recent_blockhash tx) (message_hash tx) (dedup_cache ?st)\<rparr>)"
    have "guarded (insert (replay_key tx) seen) future ?st'"
      using True st by (intro guarded_waits guarded_admit) simp_all
    moreover have "dedup_step m ev st = (if sent then ?st'\<lparr>forwarded := forwarded st @ [tx]\<rparr> else ?st')"
      using True by (simp add: Transaction handle_transaction_def Let_def ingest_hashes_def [symmetric] forwarded_waits)
    moreover have "replay_key tx \<notin> seen"
      using guarded_duplicate [OF st] True by blast
    ultimately show ?thesis
      by (intro exI [of _ "[tx]"]) (simp add: forwarded_waits)
  qed
qed

lemma run_dedup_guarded:
  assumes "guarded seen (settled_hashes evs) st"
  shows "\<exists>new. forwarded (run_dedup m evs st) = forwarded st @ new
    \<and> distinct (map replay_key new) \<and> set (map replay_key new) \<inter> seen = {}"
  using assms
proof (induction evs arbitrary: seen st)
  case Nil
  show ?case by (simp add: run_dedup_def)
next
  case (Cons ev evs)
  obtain new where new: "guarded (seen \<union> set (map replay_key new)) (settled_hashes evs) (dedup_step m ev st)"
      "forwarded (dedup_step m ev st) = forwarded st \<or> forwarded (dedup_step m ev st) = forwarded st @ new"
      "distinct (map replay_key new)" "set (map replay_key new) \<inter> seen = {}"
    using dedup_step_guarded [of seen ev "settled_hashes evs" st m] Cons.prems
    by (auto simp: settled_hashes_def)
  obtain new' where new': "forwarded (run_dedup m evs (dedup_step m ev st)) = forwarded (dedup_step m ev st) @ new'"
      "distinct (map replay_key new')" "set (map replay_key new') \<inter> (seen \<union> set (map replay_key new)) = {}"
    using Cons.IH [OF new(1)] by blast
  from new(2) show ?case
  proof
    assume "forwarded (dedup_step m ev st) = forwarded st"
    then show ?thesis using new' by (intro exI [of _ new']) (auto simp: run_dedup_def)
  next
    assume "forwarded (dedup_step m ev st) = forwarded st @ new"
    then show ?thesis using new new' by (intro exI [of _ "new @ new'"]) (auto simp: run_dedup_def)
  qed
qed

section \<open>Restart\<close>

definition recorded :: "block_info list \<Rightarrow> (hash \<times> hash) set" where
  "recorded blocks = (\<Union>block\<in>set blocks.
     {(b, h). (h, b) \<in> set (zip (transaction_message_hashes block) (transaction_recent_blockhashes block))})"

definition cached :: "(hash \<rightharpoonup> hash set) \<Rightarrow> (hash \<times> hash) set" where
  "cached cache = {(b, h). \<exists>S. cache b = Some S \<and> h \<in> S}"

lemma cached_insert: "cached (cache_insert b h cache) = insert (b, h) (cached cache)"
  by (auto simp: cached_def cache_insert_def split: option.splits if_splits)

lemma cached_fold:
  "cached (fold (\<lambda>(mh, recent) cache. if recent \<in> L then cache_insert recent mh cache else cache) zs cache)
     = cached cache \<union> {(b, h). (h, b) \<in> set zs \<and> b \<in> L}"
  by (induction zs arbitrary: cache) (auto simp: cached_insert split: if_splits)

lemma build_blocks_Inr:
  assumes "build_blocks L blocks live cache = Inr (live', cache')"
  shows "live' = live @ map bi_blockhash blocks
    \<and> cached cache' = cached cache \<union> {(b, h). (b, h) \<in> recorded blocks \<and> b \<in> L}"
  using assms
proof (induction blocks arbitrary: live cache)
  case (Cons block blocks)
  let ?zs = "zip (transaction_message_hashes block) (transaction_recent_blockhashes block)"
  have "build_blocks L blocks (live @ [bi_blockhash block])
      (fold (\<lambda>(mh, recent) cache. if recent \<in> L then cache_insert recent mh cache else cache) ?zs cache)
      = Inr (live', cache')"
    using Cons.prems by (simp add: bindE_eq_Inr guardE_eq_Inr)
  from Cons.IH [OF this] show ?case
    by (auto simp: recorded_def cached_fold)
qed (simp add: recorded_def)

lemma load_dedup_state_Inr:
  assumes "load_dedup_state rows durable = Inr (live, cache)"
    and "verified_dedup_tail rows durable = Inr tail"
  shows "live = map bi_blockhash tail"
    and "cached cache = {(b, h). (b, h) \<in> recorded tail \<and> b \<in> set live}"
  using assms build_blocks_Inr [of "bi_blockhash ` set tail" tail "[]" Map.empty live cache]
  by (auto simp: load_dedup_state_def build_dedup_state_def bindE_eq_Inr cached_def recorded_def
      split: if_splits)

section \<open>The restored window is a contiguous run ending at the chain tip\<close>

lemma fold_last_Some:
  "fold (\<lambda>i g. if P i then Some i else g) [1..<n] None = Some k \<Longrightarrow>
   1 \<le> k \<and> k < n \<and> P k \<and> (\<forall>i. k < i \<and> i < n \<longrightarrow> \<not> P i)"
  by (induction n) (auto simp: less_Suc_eq split: if_splits)

lemma fold_last_None:
  "fold (\<lambda>i g. if P i then Some i else g) [1..<n] None = None \<Longrightarrow> \<forall>i. 1 \<le> i \<and> i < n \<longrightarrow> \<not> P i"
  by (induction n) (auto simp: less_Suc_eq split: if_splits)

abbreviation next_height :: "u64 \<Rightarrow> u64 \<Rightarrow> bool" where
  "next_height h h' \<equiv> checked_add h 1 = Some h'"

lemma last_gap_Some:
  assumes "last_gap hs = Some k"
  shows "1 \<le> k" and "k < length hs" and "\<not> next_height (hs ! (k - 1)) (hs ! k)"
    and "successively next_height (drop k hs)"
  using fold_last_Some [OF assms [unfolded last_gap_def]]
  by (auto simp: successively_conv_nth add.commute)

lemma last_gap_None: "last_gap hs = None \<Longrightarrow> successively next_height hs"
  unfolding last_gap_def by (drule fold_last_None) (fastforce simp: successively_conv_nth)

lemma collect_heights_Inr: "collect_heights bs = Inr hs \<Longrightarrow> map bi_block_height bs = map Some hs"
  by (induction bs arbitrary: hs) (auto simp: bindE_eq_Inr ok_orE_eq_Inr)

lemma verified_dedup_tail_Inr:
  assumes "verified_dedup_tail rows durable = Inr tail" and "rows \<noteq> []"
  obtains hs where "collect_heights rows = Inr hs" "durable = Some (last hs)"
    "tail = (case last_gap hs of Some gap \<Rightarrow> drop gap rows | None \<Rightarrow> rows)"
  using assms
  by (auto simp: verified_dedup_tail_def Let_def bindE_eq_Inr guardE_eq_Inr split: option.splits)

section \<open>Properties\<close>

text \<open>
  C3. No message passes the dedup stage twice. Start from any window and cache whose cached
  blockhashes are in the window, and let the settled blockhashes be distinct. Whatever the
  interleaving of transactions, settled hashes, expiry by the settler and backpressure, the keys
  (recent blockhash and message hash) of the forwarded transactions are distinct, and none of
  them was in the initial cache.
\<close>

theorem dedup_forwards_once:
  assumes "distinct (live @ settled_hashes evs)" and "dom cache \<subseteq> set live"
  shows "distinct (map replay_key (forwarded (run_dedup max_blockhashes evs (start_dedup live cache))))
    \<and> set (map replay_key (forwarded (run_dedup max_blockhashes evs (start_dedup live cache))))
        \<inter> cached cache = {}"
proof -
  have "guarded (cached cache) (settled_hashes evs) (start_dedup live cache)"
    using assms by (auto simp: guarded_def cached_def start_dedup_def)
  from run_dedup_guarded [OF this, of max_blockhashes] show ?thesis
    by (auto simp: start_dedup_def)
qed

text \<open>
  C20. A restart does not reopen the replay window. If the state loads, then a message that a
  restored block records is never forwarded afterwards, provided the blockhash it names is not
  settled a second time.
\<close>

theorem restart_keeps_replay_guard:
  assumes "load_dedup_state rows durable = Inr (live, cache)"
    and "verified_dedup_tail rows durable = Inr tail" and "block \<in> set tail"
    and "(mh, recent) \<in> set (zip (transaction_message_hashes block) (transaction_recent_blockhashes block))"
    and "distinct (live @ settled_hashes evs)" and "recent \<notin> set (settled_hashes evs)"
  shows "(recent, mh)
    \<notin> set (map replay_key (forwarded (run_dedup max_blockhashes evs (start_dedup live cache))))"
proof -
  have "(recent, mh) \<in> recorded tail"
    using assms(3,4) by (auto simp: recorded_def)
  then have "(recent, mh) \<in> cached cache" if "recent \<in> set live"
    using that load_dedup_state_Inr(2) [OF assms(1,2)] by simp
  then have "guarded {(recent, mh)} (settled_hashes evs) (start_dedup live cache)"
    using assms(5,6) by (simp add: guarded_def start_dedup_def cached_def)
  from run_dedup_guarded [OF this, of max_blockhashes] show ?thesis
    by (auto simp: start_dedup_def)
qed

text \<open>
  What the restart trusts is a contiguous run of blocks ending at the chain tip. When the
  table has rows and they are accepted, the durable counter is present and is the height of the
  last block kept, heights increase by one throughout, the blocks kept are a suffix of the rows,
  and whatever was dropped lies below a break in the heights.
\<close>

theorem verified_dedup_tail_contiguous:
  assumes "verified_dedup_tail rows durable = Inr tail" and "rows \<noteq> []"
  shows "\<exists>hs dropped. rows = dropped @ tail \<and> tail \<noteq> [] \<and> map bi_block_height tail = map Some hs
    \<and> successively next_height hs \<and> durable = Some (last hs)
    \<and> (dropped \<noteq> [] \<longrightarrow> (\<exists>h. bi_block_height (last dropped) = Some h \<and> \<not> next_height h (hd hs)))"
proof -
  obtain hs where hs: "collect_heights rows = Inr hs" "durable = Some (last hs)"
    "tail = (case last_gap hs of Some gap \<Rightarrow> drop gap rows | None \<Rightarrow> rows)"
    using assms by (rule verified_dedup_tail_Inr)
  note heights = collect_heights_Inr [OF hs(1)]
  then have len: "length hs = length rows" using map_eq_imp_length_eq by metis
  show ?thesis
  proof (cases "last_gap hs")
    case None
    then show ?thesis
      using hs heights last_gap_None assms(2) by (intro exI [of _ hs] exI [of _ "[]"]) simp
  next
    case (Some k)
    note gap = last_gap_Some [OF Some]
    have "bi_block_height (rows ! (k - 1)) = Some (hs ! (k - 1))"
      using arg_cong [OF heights, of "\<lambda>xs. xs ! (k - 1)"] gap(1,2) len by simp
    moreover have "last (take k rows) = rows ! (k - 1)"
      using gap(1,2) len by (subst last_conv_nth) (auto simp: min_absorb2)
    ultimately show ?thesis
      using hs Some gap len arg_cong [OF heights, of "drop k"]
      by (intro exI [of _ "drop k hs"] exI [of _ "take k rows"])
        (simp add: drop_map hd_drop_conv_nth last_drop)
  qed
qed

text \<open>
  C37. After an ingest the window holds at most the configured number of hashes, all of them the
  newest, and the cache has entries only for hashes in the window. After the settler retires
  for a block, the window and the blocks still on their way to dedup fit the limit together,
  unless the window is already empty.
\<close>

theorem window_stays_bounded:
  assumes "hs \<noteq> []"
  shows "live_blockhashes (ingest_blockhashes max_blockhashes None hs st)
      = drop (length (live_blockhashes st) + length hs - max_blockhashes) (live_blockhashes st @ hs)
    \<and> length (live_blockhashes (ingest_blockhashes max_blockhashes None hs st)) \<le> max_blockhashes
    \<and> dom (dedup_cache (ingest_blockhashes max_blockhashes None hs st))
        \<subseteq> set (live_blockhashes (ingest_blockhashes max_blockhashes None hs st))
    \<and> (let st' = fst (retire_expiring_blockhashes max_blockhashes st) in
       live_blockhashes st' = []
       \<or> length (live_blockhashes st') + (announced (progress st') - ingested (progress st')) \<le> max_blockhashes)"
proof -
  let ?st = "ingest_hashes max_blockhashes hs st"
  note live = ingest_live [OF assms, of max_blockhashes st]
  have "length (live_blockhashes ?st) \<le> max_blockhashes"
    unfolding live length_drop by simp
  moreover have "dom (dedup_cache ?st) \<subseteq> set (live_blockhashes ?st)"
    using assms by (cases hs) (auto simp: ingest_hashes_def ingest_blockhashes_def expire_loop_eq)
  ultimately show ?thesis
    using live retire_bounded [of max_blockhashes st] by (simp add: ingest_hashes_def Let_def)
qed

text \<open>
  C40. On a chain younger than the window, with genesis among the restored blocks, the check
  nevertheless reports that retention cut the window as soon as there is a second block: it looks
  at the newest block where it means the oldest, because the rows come oldest first.
\<close>

theorem young_chain_reported_short:
  assumes "sorted_wrt (\<lambda>a b. bi_slot a < bi_slot b) blocks" and "2 \<le> length blocks"
    and "length blocks < max_blockhashes" and "bi_slot (hd blocks) = 0"
  shows "dedup_window_is_short blocks max_blockhashes"
proof -
  obtain a b bs where "blocks = a # b # bs"
    using assms(2) by (cases blocks rule: remdups_adj.cases) auto
  then have "bi_slot (hd blocks) < bi_slot (last blocks)"
    using assms(1) by (auto simp: last_in_set)
  then show ?thesis
    using assms(2-4) by (auto simp: dedup_window_is_short_def)
qed

section \<open>Witnesses\<close>

definition demo_tx :: dedup_tx where
  "demo_tx = \<lparr>message_hash = 50, recent_blockhash = 2\<rparr>"

text \<open>A window of two: a transaction and its replay around an expiry and a settled hash.\<close>

definition demo_events :: "dedup_event list" where
  "demo_events = [Transaction [] demo_tx [] True, Transaction [] demo_tx [] True, Retire,
     Transaction [3] demo_tx [] True, Settled 4 [], Transaction [] demo_tx [] True]"

definition demo_block :: "u64 \<Rightarrow> hash \<Rightarrow> hash list \<Rightarrow> hash list \<Rightarrow> block_info" where
  "demo_block n h mhs recents = \<lparr>bi_slot = n, bi_blockhash = h, bi_previous_blockhash = 0,
     bi_parent_slot = 0, bi_block_height = Some n, bi_block_time = None,
     transaction_signatures = map (\<lambda>_. []) mhs, transaction_recent_blockhashes = recents,
     transaction_message_hashes = mhs\<rparr>"

text \<open>Rows with a hole at height 2: only the blocks at heights 3 and 4 are trusted.\<close>

definition demo_rows :: "block_info list" where
  "demo_rows = [demo_block 1 11 [] [], demo_block 3 13 [] [], demo_block 4 14 [90] [13]]"

definition demo_tail :: "block_info list" where
  "demo_tail = [demo_block 3 13 [] [], demo_block 4 14 [90] [13]]"

lemma demo_tail_verified: "verified_dedup_tail demo_rows (Some 4) = Inr demo_tail"
  by (simp add: verified_dedup_tail_def demo_rows_def demo_tail_def demo_block_def bindE_def guardE_def
      ok_orE_def last_gap_def checked_add_def Let_def upt_conv_Cons)

lemma demo_load:
  "load_dedup_state demo_rows (Some 4) = Inr ([13, 14], [13 \<mapsto> {90}])"
  by (simp add: load_dedup_state_def demo_tail_verified demo_tail_def build_dedup_state_def bindE_def
      guardE_def demo_block_def cache_insert_def)

theorem dedup_forwards_once_witness:
  "distinct (map replay_key (forwarded (run_dedup 2 demo_events (start_dedup [1, 2] Map.empty))))
   \<and> demo_tx \<in> set (forwarded (run_dedup 2 demo_events (start_dedup [1, 2] Map.empty)))"
  using dedup_forwards_once [of "[1, 2]" demo_events Map.empty 2]
  by (simp add: demo_events_def demo_tx_def settled_hashes_def run_dedup_def start_dedup_def
      handle_transaction_def ingest_blockhashes_def retire_expiring_blockhashes_def is_duplicate_def
      cache_insert_def Let_def)

theorem restart_keeps_replay_guard_witness:
  "(13, 90) \<notin> set (map replay_key (forwarded (run_dedup 3
     [Transaction [15] \<lparr>message_hash = 90, recent_blockhash = 13\<rparr> [] True]
     (start_dedup [13, 14] [13 \<mapsto> {90}]))))"
  using restart_keeps_replay_guard [OF demo_load demo_tail_verified, of "demo_block 4 14 [90] [13]" 90 13
      "[Transaction [15] \<lparr>message_hash = 90, recent_blockhash = 13\<rparr> [] True]" 3]
  by (simp add: demo_tail_def demo_block_def settled_hashes_def)

theorem verified_dedup_tail_contiguous_witness:
  "\<exists>hs dropped. demo_rows = dropped @ demo_tail \<and> map bi_block_height demo_tail = map Some hs
     \<and> successively next_height hs \<and> last hs = 4"
  using verified_dedup_tail_contiguous [OF demo_tail_verified] by (auto simp: demo_rows_def)

theorem window_stays_bounded_witness:
  "length (live_blockhashes (ingest_blockhashes 2 None [3, 4] (start_dedup [1, 2] Map.empty))) \<le> 2"
  using window_stays_bounded [of "[3, 4]" 2 "start_dedup [1, 2] Map.empty"] by simp

theorem young_chain_reported_short_witness:
  "dedup_window_is_short [demo_block 0 10 [] [], demo_block 1 11 [] []] 150"
  using young_chain_reported_short [of "[demo_block 0 10 [] [], demo_block 1 11 [] []]" 150]
  by (simp add: demo_block_def)

end
