(* ===== verification/Escrow_Base.thy ===== *)
theory Escrow_Base
  imports Solana
begin

text \<open>
  The escrow program's constants, error codes, discriminators and shared account checks:
  \<open>constants.rs\<close>, \<open>error.rs\<close>, \<open>state/discriminator.rs\<close> and \<open>processor/shared\<close> except the token
  helpers. The production bitmap size is modelled (the \<open>test-tree\<close> feature shrinks it).
\<close>

section \<open>Constants\<close>

definition INSTANCE_SEED :: bytes where
  "INSTANCE_SEED = bytes_of_string ''instance''"

definition OPERATOR_SEED :: bytes where
  "OPERATOR_SEED = bytes_of_string ''operator''"

definition ALLOWED_MINT_SEED :: bytes where
  "ALLOWED_MINT_SEED = bytes_of_string ''allowed_mint''"

definition WITHDRAWAL_BITMAP_SEED :: bytes where
  "WITHDRAWAL_BITMAP_SEED = bytes_of_string ''withdrawal_bitmap''"

definition ALLOWED_WALLET_SEED :: bytes where
  "ALLOWED_WALLET_SEED = bytes_of_string ''allowed_wallet''"

definition INSTANCE_VERSION :: u8 where
  "INSTANCE_VERSION = 2"

text \<open>The base58 strings \<open>9tgHa1DcnaSSUtmMsst8ovKTe1Gfxzezn27KnH9xXYeU\<close> (the program),
  \<open>So11111111111111111111111111111111111111112\<close> and
  \<open>MemoSq4gqABAXKb96qnH8TysNcWxMyWCqXgDLGmfcHr\<close>.\<close>

definition ESCROW_ID :: address where
  "ESCROW_ID = 59752183055549097851532144190244973667680759184992386380624990782723250877049"

definition SPL_NATIVE_MINT :: address where
  "SPL_NATIVE_MINT = 2988679396378646993494765771507681406623014513651778753134412041978399162369"

definition MEMO_PROGRAM_ID :: address where
  "MEMO_PROGRAM_ID = 2392886213181616158119155895008144928703734678198593441007149093687784719501"

definition NONCES_PER_GENERATION :: u64 where
  "NONCES_PER_GENERATION = 65536"

definition BITMAP_BYTES :: nat where
  "BITMAP_BYTES = unat (NONCES_PER_GENERATION div 8)"

definition EVENT_AUTHORITY_SEED :: bytes where
  "EVENT_AUTHORITY_SEED = bytes_of_string ''event_authority''"

definition EVENT_IX_TAG :: u64 where
  "EVENT_IX_TAG = 0x1d9acb512ea545e4"

definition EVENT_IX_TAG_LE :: bytes where
  "EVENT_IX_TAG_LE = u64_le EVENT_IX_TAG"

definition event_authority_pda_ID :: "runtime \<Rightarrow> address" where
  "event_authority_pda_ID rt = fst (rt_derive_program_address rt [EVENT_AUTHORITY_SEED] ESCROW_ID)"

definition event_authority_pda_BUMP :: "runtime \<Rightarrow> u8" where
  "event_authority_pda_BUMP rt = snd (rt_derive_program_address rt [EVENT_AUTHORITY_SEED] ESCROW_ID)"

section \<open>Errors\<close>

datatype escrow_error =
    InvalidEventAuthority
  | InvalidAta
  | InvalidMint
  | InvalidInstanceId
  | InvalidInstance
  | InvalidAdmin
  | TransferHookNotAllowed
  | InvalidOperatorPda
  | InvalidTokenAccount
  | InvalidEscrowBalance
  | InvalidAllowedMint
  | InvalidWithdrawalBitmap
  | NonceAlreadyUsed
  | NonceOutsideCurrentGeneration
  | UnexpectedGeneration
  | DepositsBlockedForMint
  | WithdrawalsBlockedForMint
  | MintProfileChanged
  | ZeroAmount
  | BelowMinimumDeposit
  | WalletNotAllowed
  | InvalidAllowedWalletPda

text \<open>\<open>e as u32\<close> for an enum without explicit discriminants.\<close>

primrec escrow_error_code :: "escrow_error \<Rightarrow> u32" where
  "escrow_error_code InvalidEventAuthority = 0"
| "escrow_error_code InvalidAta = 1"
| "escrow_error_code InvalidMint = 2"
| "escrow_error_code InvalidInstanceId = 3"
| "escrow_error_code InvalidInstance = 4"
| "escrow_error_code InvalidAdmin = 5"
| "escrow_error_code TransferHookNotAllowed = 6"
| "escrow_error_code InvalidOperatorPda = 7"
| "escrow_error_code InvalidTokenAccount = 8"
| "escrow_error_code InvalidEscrowBalance = 9"
| "escrow_error_code InvalidAllowedMint = 10"
| "escrow_error_code InvalidWithdrawalBitmap = 11"
| "escrow_error_code NonceAlreadyUsed = 12"
| "escrow_error_code NonceOutsideCurrentGeneration = 13"
| "escrow_error_code UnexpectedGeneration = 14"
| "escrow_error_code DepositsBlockedForMint = 15"
| "escrow_error_code WithdrawalsBlockedForMint = 16"
| "escrow_error_code MintProfileChanged = 17"
| "escrow_error_code ZeroAmount = 18"
| "escrow_error_code BelowMinimumDeposit = 19"
| "escrow_error_code WalletNotAllowed = 20"
| "escrow_error_code InvalidAllowedWalletPda = 21"

definition escrow_err :: "escrow_error \<Rightarrow> program_error" where
  "escrow_err e = Custom (escrow_error_code e)"

section \<open>Discriminators\<close>

datatype escrow_account_discriminator =
    InstanceDiscriminator
  | OperatorDiscriminator
  | AllowedMintDiscriminator
  | WithdrawalBitmapDiscriminator
  | AllowedWalletDiscriminator

primrec account_discriminator :: "escrow_account_discriminator \<Rightarrow> u8" where
  "account_discriminator InstanceDiscriminator = 0"
| "account_discriminator OperatorDiscriminator = 1"
| "account_discriminator AllowedMintDiscriminator = 2"
| "account_discriminator WithdrawalBitmapDiscriminator = 3"
| "account_discriminator AllowedWalletDiscriminator = 4"

datatype escrow_instruction =
    CreateInstance
  | AllowMint
  | BlockMint
  | AddOperator
  | RemoveOperator
  | SetNewAdmin
  | Deposit
  | ReleaseFunds
  | RotateBitmap
  | AddOrUpdateAllowedWallet
  | RemoveAllowedWallet
  | SetWhitelistEnabled
  | EmitEvent

definition escrow_instruction_try_from :: "u8 \<Rightarrow> escrow_instruction option" where
  "escrow_instruction_try_from value =
     (if value = 0 then Some CreateInstance
      else if value = 1 then Some AllowMint
      else if value = 2 then Some BlockMint
      else if value = 3 then Some AddOperator
      else if value = 4 then Some RemoveOperator
      else if value = 5 then Some SetNewAdmin
      else if value = 6 then Some Deposit
      else if value = 7 then Some ReleaseFunds
      else if value = 8 then Some RotateBitmap
      else if value = 9 then Some AddOrUpdateAllowedWallet
      else if value = 10 then Some RemoveAllowedWallet
      else if value = 11 then Some SetWhitelistEnabled
      else if value = 228 then Some EmitEvent
      else None)"

text \<open>\<open>AccountSerialize::to_bytes\<close>: the discriminator, then the type's own bytes.\<close>

definition account_to_bytes :: "escrow_account_discriminator \<Rightarrow> bytes \<Rightarrow> bytes" where
  "account_to_bytes d inner = account_discriminator d # inner"

section \<open>The \<open>require_len!\<close>, \<open>validate_discriminator!\<close> and \<open>validate_event_authority!\<close> macros\<close>

definition require_len :: "bytes \<Rightarrow> nat \<Rightarrow> unit res" where
  "require_len bs n = guardE (\<not> length bs < n) InvalidInstructionData"

definition validate_discriminator :: "bytes \<Rightarrow> escrow_account_discriminator \<Rightarrow> unit res" where
  "validate_discriminator bs d =
     guardE (\<not> (bs = [] \<or> bs ! 0 \<noteq> account_discriminator d)) InvalidAccountData"

definition validate_event_authority :: "runtime \<Rightarrow> account_view \<Rightarrow> unit res" where
  "validate_event_authority rt info =
     guardE (av_address info = event_authority_pda_ID rt) (escrow_err InvalidEventAuthority)"

text \<open>\<open>match byte { 0 => false, 1 => true, _ => return Err(e) }\<close>.\<close>

definition bool_of_byte :: "program_error \<Rightarrow> u8 \<Rightarrow> bool res" where
  "bool_of_byte e b = (if b = 0 then Inr False else if b = 1 then Inr True else Inl e)"

section \<open>Account checks\<close>

definition verify_signer :: "account_view \<Rightarrow> bool \<Rightarrow> unit res" where
  "verify_signer info expect_writable =
     bindE (guardE (av_is_signer info) MissingRequiredSignature) (\<lambda>_.
     guardE (\<not> (expect_writable \<and> \<not> av_is_writable info)) InvalidAccountData)"

definition verify_account_owner :: "world \<Rightarrow> account_view \<Rightarrow> address \<Rightarrow> unit res" where
  "verify_account_owner w info expected_owner =
     guardE (owned_by w info expected_owner) InvalidAccountOwner"

definition verify_mutability :: "account_view \<Rightarrow> bool \<Rightarrow> unit res" where
  "verify_mutability info expect_writable =
     guardE (\<not> (expect_writable \<and> \<not> av_is_writable info)) InvalidAccountData"

definition verify_system_account :: "world \<Rightarrow> account_view \<Rightarrow> bool \<Rightarrow> unit res" where
  "verify_system_account w info is_writable =
     bindE (guardE (owned_by w info SYSTEM_PROGRAM_ID) InvalidAccountOwner) (\<lambda>_.
     bindE (guardE (is_data_empty w info) AccountAlreadyInitialized) (\<lambda>_.
     guardE (\<not> (is_writable \<and> \<not> av_is_writable info)) InvalidAccountData))"

definition verify_system_program :: "account_view \<Rightarrow> unit res" where
  "verify_system_program info = guardE (av_address info = SYSTEM_PROGRAM_ID) IncorrectProgramId"

definition verify_ata_program :: "account_view \<Rightarrow> unit res" where
  "verify_ata_program info = guardE (av_address info = ATA_PROGRAM_ID) IncorrectProgramId"

definition verify_current_program :: "account_view \<Rightarrow> unit res" where
  "verify_current_program info = guardE (av_address info = ESCROW_ID) IncorrectProgramId"

definition verify_token_programs :: "account_view \<Rightarrow> unit res" where
  "verify_token_programs info =
     guardE (\<not> (av_address info \<noteq> TOKEN_PROGRAM_ID \<and> av_address info \<noteq> TOKEN_2022_PROGRAM_ID))
       IncorrectProgramId"

definition validate_pda_account ::
  "runtime \<Rightarrow> world \<Rightarrow> bytes list \<Rightarrow> address \<Rightarrow> u8 \<Rightarrow> account_view \<Rightarrow> address res" where
  "validate_pda_account rt w seeds program_id expected_bump info =
     (let (calculated_pda, calculated_bump) = rt_find_program_address rt seeds program_id in
      bindE (guardE (calculated_bump = expected_bump) InvalidInstructionData) (\<lambda>_.
      bindE (guardE (av_address info = calculated_pda) InvalidSeeds) (\<lambda>_.
      bindE (guardE (\<not> (\<not> is_data_empty w info \<and> \<not> owned_by w info program_id))
        InvalidAccountOwner) (\<lambda>_.
      Inr calculated_pda))))"

section \<open>Creating a program-derived account\<close>

definition create_pda_account ::
  "runtime \<Rightarrow> account_view \<Rightarrow> (nat \<Rightarrow> u64 res) \<Rightarrow> nat \<Rightarrow> address \<Rightarrow> account_view \<Rightarrow>
     bytes list \<Rightarrow> nat option \<Rightarrow> world \<Rightarrow> world res" where
  "create_pda_account rt payer rent space owner new_pda_account seeds min_rent_space w =
     (let signers = [seeds];
          rent_space = (case min_rent_space of None \<Rightarrow> space | Some m \<Rightarrow> max m space)
      in bindE (rent rent_space) (\<lambda>balance.
      let required_lamports = max balance 1 in
      if 0 < lamports_of w new_pda_account then
        let required_lamports = saturating_sub required_lamports (lamports_of w new_pda_account) in
        bindE (if 0 < required_lamports
               then invoke_signed rt
                 (SystemTransfer (av_address payer) (av_address new_pda_account) required_lamports)
                 [] w
               else Inr w) (\<lambda>w.
        bindE (invoke_signed rt (Allocate (av_address new_pda_account) (word_of_nat space))
                 signers w) (\<lambda>w.
        invoke_signed rt (Assign (av_address new_pda_account) owner) signers w))
      else
        invoke_signed rt
          (CreateAccount (av_address payer) (av_address new_pda_account) required_lamports
             (word_of_nat space) owner) signers w))"

section \<open>Emitting an event\<close>

definition emit_event ::
  "runtime \<Rightarrow> address \<Rightarrow> account_view \<Rightarrow> account_view \<Rightarrow> bytes \<Rightarrow> world \<Rightarrow> world res" where
  "emit_event rt program_id event_authority_info program_info event_data w =
     bindE (guardE (av_address event_authority_info = event_authority_pda_ID rt)
       (escrow_err InvalidEventAuthority)) (\<lambda>_.
     invoke_signed rt
       (Invoke program_id [readonly_signer_meta (av_address event_authority_info)] event_data)
       [[EVENT_AUTHORITY_SEED, [event_authority_pda_BUMP rt]]] w)"

end
