(* ===== verification/Escrow_State.thy ===== *)
theory Escrow_State
  imports Escrow_Base
begin

text \<open>
  The escrow program's account types \<open>Instance\<close>, \<open>Operator\<close>, \<open>AllowedMint\<close> and
  \<open>AllowedWallet\<close> (\<open>state/*.rs\<close>): their layouts, the byte codecs, the PDA validation of each, and
  the checks they carry. The locale \<open>account_codec\<close> states what the handlers rely on in a codec;
  every type interprets it.
\<close>

section \<open>Instance\<close>

definition INSTANCE_RESERVED_LEN :: nat where
  "INSTANCE_RESERVED_LEN = 64"

record escrow_instance =
  inst_bump :: u8
  inst_version :: u8
  inst_instance_seed :: address
  inst_admin :: address
  inst_deposits_whitelisted :: bool
  inst_withdrawals_whitelisted :: bool
  inst_reserved :: bytes

definition Instance_to_bytes_inner :: "escrow_instance \<Rightarrow> bytes" where
  "Instance_to_bytes_inner self =
     [inst_bump self, inst_version self] @ address_bytes (inst_instance_seed self)
     @ address_bytes (inst_admin self)
     @ [of_bool (inst_deposits_whitelisted self), of_bool (inst_withdrawals_whitelisted self)]
     @ inst_reserved self"

definition Instance_to_bytes :: "escrow_instance \<Rightarrow> bytes" where
  "Instance_to_bytes self = account_to_bytes InstanceDiscriminator (Instance_to_bytes_inner self)"

definition Instance_V1_LEN :: nat where
  "Instance_V1_LEN = 1 + 1 + 1 + 32 + 32"

definition Instance_LEN :: nat where
  "Instance_LEN = Instance_V1_LEN + 1 + 1 + INSTANCE_RESERVED_LEN"

definition Instance_new :: "u8 \<Rightarrow> address \<Rightarrow> address \<Rightarrow> escrow_instance" where
  "Instance_new bump instance_seed admin =
     \<lparr>inst_bump = bump, inst_version = INSTANCE_VERSION, inst_instance_seed = instance_seed,
      inst_admin = admin, inst_deposits_whitelisted = False,
      inst_withdrawals_whitelisted = False,
      inst_reserved = replicate INSTANCE_RESERVED_LEN 0\<rparr>"

definition Instance_validate_pda ::
  "runtime \<Rightarrow> world \<Rightarrow> escrow_instance \<Rightarrow> account_view \<Rightarrow> unit res" where
  "Instance_validate_pda rt w self info =
     bindE (validate_pda_account rt w [INSTANCE_SEED, address_bytes (inst_instance_seed self)]
       ESCROW_ID (inst_bump self) info) (\<lambda>_. Inr ())"

definition Instance_validate_admin :: "escrow_instance \<Rightarrow> address \<Rightarrow> unit res" where
  "Instance_validate_admin self provided_admin =
     guardE (inst_admin self = provided_admin) (escrow_err InvalidAdmin)"

definition Instance_try_from_bytes :: "bytes \<Rightarrow> escrow_instance res" where
  "Instance_try_from_bytes bs =
     bindE (validate_discriminator bs InstanceDiscriminator) (\<lambda>_.
     bindE (if length bs \<noteq> Instance_V1_LEN then require_len bs Instance_LEN else Inr ()) (\<lambda>_.
     let inst = \<lparr>inst_bump = bs ! 1, inst_version = bs ! 2,
                 inst_instance_seed = address_of_bytes (slice 3 32 bs),
                 inst_admin = address_of_bytes (slice 35 32 bs),
                 inst_deposits_whitelisted = False, inst_withdrawals_whitelisted = False,
                 inst_reserved = replicate INSTANCE_RESERVED_LEN 0\<rparr>
     in if length bs = Instance_V1_LEN then Inr inst
        else
          bindE (bool_of_byte InvalidAccountData (bs ! 67)) (\<lambda>deposits.
          bindE (bool_of_byte InvalidAccountData (bs ! 68)) (\<lambda>withdrawals.
          Inr (inst\<lparr>inst_deposits_whitelisted := deposits,
                    inst_withdrawals_whitelisted := withdrawals,
                    inst_reserved := slice 69 INSTANCE_RESERVED_LEN bs\<rparr>)))))"

section \<open>Operator\<close>

record escrow_operator =
  op_bump :: u8

definition Operator_to_bytes :: "escrow_operator \<Rightarrow> bytes" where
  "Operator_to_bytes self = account_to_bytes OperatorDiscriminator [op_bump self]"

definition Operator_LEN :: nat where
  "Operator_LEN = 1 + 1"

definition Operator_new :: "u8 \<Rightarrow> escrow_operator" where
  "Operator_new bump = \<lparr>op_bump = bump\<rparr>"

definition Operator_try_from_bytes :: "bytes \<Rightarrow> escrow_operator res" where
  "Operator_try_from_bytes bs =
     bindE (validate_discriminator bs OperatorDiscriminator) (\<lambda>_.
     bindE (require_len bs Operator_LEN) (\<lambda>_.
     Inr \<lparr>op_bump = bs ! 1\<rparr>))"

definition Operator_validate_pda ::
  "runtime \<Rightarrow> world \<Rightarrow> escrow_operator \<Rightarrow> address \<Rightarrow> address \<Rightarrow> account_view \<Rightarrow> unit res" where
  "Operator_validate_pda rt w self instance_pda wallet info =
     bindE (validate_pda_account rt w
       [OPERATOR_SEED, address_bytes instance_pda, address_bytes wallet]
       ESCROW_ID (op_bump self) info) (\<lambda>_. Inr ())"

section \<open>Allowed mint\<close>

text \<open>\<open>MintProfile\<close> of \<open>token_utils.rs\<close>: the mint properties AllowMint pins.\<close>

record mint_profile =
  mp_decimals :: u8
  mp_extensions :: u64
  mp_has_freeze_authority :: bool

definition ISSUER_ADDABLE_EXTENSIONS :: "runtime \<Rightarrow> u64" where
  "ISSUER_ADDABLE_EXTENSIONS rt =
     push_bit (rt_ext_token_metadata rt) 1 OR push_bit (rt_ext_token_group rt) 1
     OR push_bit (rt_ext_token_group_member rt) 1"

record allowed_mint =
  am_bump :: u8
  am_deposits_blocked :: bool
  am_withdrawals_blocked :: bool
  am_decimals :: u8
  am_token_program :: address
  am_extensions :: u64
  am_has_freeze_authority :: bool
  am_min_deposit_amount :: u64

definition AllowedMint_to_bytes_inner :: "allowed_mint \<Rightarrow> bytes" where
  "AllowedMint_to_bytes_inner self =
     [am_bump self, of_bool (am_deposits_blocked self), of_bool (am_withdrawals_blocked self),
      am_decimals self]
     @ address_bytes (am_token_program self) @ u64_le (am_extensions self)
     @ [of_bool (am_has_freeze_authority self)] @ u64_le (am_min_deposit_amount self)"

definition AllowedMint_to_bytes :: "allowed_mint \<Rightarrow> bytes" where
  "AllowedMint_to_bytes self =
     account_to_bytes AllowedMintDiscriminator (AllowedMint_to_bytes_inner self)"

definition AllowedMint_LEN :: nat where
  "AllowedMint_LEN = 1 + 1 + 1 + 1 + 1 + 32 + 8 + 1 + 8"

definition AllowedMint_new ::
  "u8 \<Rightarrow> u8 \<Rightarrow> address \<Rightarrow> u64 \<Rightarrow> bool \<Rightarrow> u64 \<Rightarrow> allowed_mint" where
  "AllowedMint_new bump decimals token_program extensions has_freeze_authority min_deposit_amount =
     \<lparr>am_bump = bump, am_deposits_blocked = False, am_withdrawals_blocked = False,
      am_decimals = decimals, am_token_program = token_program, am_extensions = extensions,
      am_has_freeze_authority = has_freeze_authority,
      am_min_deposit_amount = min_deposit_amount\<rparr>"

definition AllowedMint_try_from_bytes :: "bytes \<Rightarrow> allowed_mint res" where
  "AllowedMint_try_from_bytes bs =
     bindE (validate_discriminator bs AllowedMintDiscriminator) (\<lambda>_.
     bindE (require_len bs AllowedMint_LEN) (\<lambda>_.
     bindE (bool_of_byte InvalidAccountData (bs ! 2)) (\<lambda>deposits_blocked.
     bindE (bool_of_byte InvalidAccountData (bs ! 3)) (\<lambda>withdrawals_blocked.
     bindE (bool_of_byte InvalidAccountData (bs ! 45)) (\<lambda>has_freeze_authority.
     Inr \<lparr>am_bump = bs ! 1, am_deposits_blocked = deposits_blocked,
          am_withdrawals_blocked = withdrawals_blocked, am_decimals = bs ! 4,
          am_token_program = address_of_bytes (slice 5 32 bs),
          am_extensions = u64_of_le (slice 37 8 bs),
          am_has_freeze_authority = has_freeze_authority,
          am_min_deposit_amount = u64_of_le (slice 46 8 bs)\<rparr>)))))"

definition AllowedMint_profile_changed ::
  "runtime \<Rightarrow> allowed_mint \<Rightarrow> mint_profile \<Rightarrow> address \<Rightarrow> bool" where
  "AllowedMint_profile_changed rt self profile token_program =
     (am_decimals self \<noteq> mp_decimals profile
      \<or> am_token_program self \<noteq> token_program
      \<or> (am_extensions self XOR mp_extensions profile) AND NOT (ISSUER_ADDABLE_EXTENSIONS rt) \<noteq> 0
      \<or> (mp_has_freeze_authority profile \<and> \<not> am_has_freeze_authority self))"

definition AllowedMint_validate_pda ::
  "runtime \<Rightarrow> world \<Rightarrow> allowed_mint \<Rightarrow> address \<Rightarrow> address \<Rightarrow> account_view \<Rightarrow> unit res" where
  "AllowedMint_validate_pda rt w self instance_pda mint info =
     bindE (validate_pda_account rt w
       [ALLOWED_MINT_SEED, address_bytes instance_pda, address_bytes mint]
       ESCROW_ID (am_bump self) info) (\<lambda>_. Inr ())"

section \<open>Allowed wallet\<close>

definition WALLET_RESERVED_LEN :: nat where
  "WALLET_RESERVED_LEN = 32"

record allowed_wallet =
  aw_bump :: u8
  aw_deposits_blocked :: bool
  aw_withdrawals_blocked :: bool
  aw_reserved :: bytes

datatype direction = DepositDirection | WithdrawDirection

definition AllowedWallet_to_bytes_inner :: "allowed_wallet \<Rightarrow> bytes" where
  "AllowedWallet_to_bytes_inner self =
     [aw_bump self, of_bool (aw_deposits_blocked self), of_bool (aw_withdrawals_blocked self)]
     @ aw_reserved self"

definition AllowedWallet_to_bytes :: "allowed_wallet \<Rightarrow> bytes" where
  "AllowedWallet_to_bytes self =
     account_to_bytes AllowedWalletDiscriminator (AllowedWallet_to_bytes_inner self)"

definition AllowedWallet_LEN :: nat where
  "AllowedWallet_LEN = 1 + 1 + 1 + 1 + WALLET_RESERVED_LEN"

definition AllowedWallet_new :: "u8 \<Rightarrow> bool \<Rightarrow> bool \<Rightarrow> allowed_wallet" where
  "AllowedWallet_new bump deposits_blocked withdrawals_blocked =
     \<lparr>aw_bump = bump, aw_deposits_blocked = deposits_blocked,
      aw_withdrawals_blocked = withdrawals_blocked,
      aw_reserved = replicate WALLET_RESERVED_LEN 0\<rparr>"

definition AllowedWallet_try_from_bytes :: "bytes \<Rightarrow> allowed_wallet res" where
  "AllowedWallet_try_from_bytes bs =
     bindE (validate_discriminator bs AllowedWalletDiscriminator) (\<lambda>_.
     bindE (require_len bs AllowedWallet_LEN) (\<lambda>_.
     bindE (bool_of_byte InvalidAccountData (bs ! 2)) (\<lambda>deposits_blocked.
     bindE (bool_of_byte InvalidAccountData (bs ! 3)) (\<lambda>withdrawals_blocked.
     Inr \<lparr>aw_bump = bs ! 1, aw_deposits_blocked = deposits_blocked,
          aw_withdrawals_blocked = withdrawals_blocked,
          aw_reserved = slice 4 WALLET_RESERVED_LEN bs\<rparr>))))"

definition AllowedWallet_validate_pda ::
  "runtime \<Rightarrow> world \<Rightarrow> allowed_wallet \<Rightarrow> address \<Rightarrow> address \<Rightarrow> account_view \<Rightarrow> unit res" where
  "AllowedWallet_validate_pda rt w self instance_pda wallet info =
     bindE (validate_pda_account rt w
       [ALLOWED_WALLET_SEED, address_bytes instance_pda, address_bytes wallet]
       ESCROW_ID (aw_bump self) info) (\<lambda>_. Inr ())"

definition AllowedWallet_verify_allowed ::
  "runtime \<Rightarrow> world \<Rightarrow> account_view \<Rightarrow> address \<Rightarrow> address \<Rightarrow> direction \<Rightarrow> unit res" where
  "AllowedWallet_verify_allowed rt w info instance_pda wallet dir =
     (let expected_address = fst (rt_find_program_address rt
            [ALLOWED_WALLET_SEED, address_bytes instance_pda, address_bytes wallet] ESCROW_ID) in
      bindE (guardE (av_address info = expected_address) (escrow_err InvalidAllowedWalletPda)) (\<lambda>_.
      bindE (guardE (\<not> is_data_empty w info) (escrow_err WalletNotAllowed)) (\<lambda>_.
      bindE (guardE (owned_by w info ESCROW_ID) (escrow_err InvalidAllowedWalletPda)) (\<lambda>_.
      bindE (map_errE (escrow_err InvalidAllowedWalletPda)
        (AllowedWallet_try_from_bytes (data_of w info))) (\<lambda>allowed_wallet.
      guardE (\<not> (case dir of
                 DepositDirection \<Rightarrow> aw_deposits_blocked allowed_wallet
               | WithdrawDirection \<Rightarrow> aw_withdrawals_blocked allowed_wallet))
        (escrow_err WalletNotAllowed))))))"

section \<open>Lengths\<close>

lemmas len_defs =
  Instance_LEN_def Instance_V1_LEN_def INSTANCE_RESERVED_LEN_def Operator_LEN_def
  AllowedMint_LEN_def AllowedWallet_LEN_def WALLET_RESERVED_LEN_def

lemma require_len_eq_Inr [simp]: "require_len bs n = Inr u \<longleftrightarrow> n \<le> length bs"
  by (simp add: require_len_def not_less)

lemma validate_discriminator_eq_Inr [simp]:
  "validate_discriminator bs d = Inr u \<longleftrightarrow> bs \<noteq> [] \<and> bs ! 0 = account_discriminator d"
  by (auto simp: validate_discriminator_def)

lemma bool_of_byte_of_bool [simp]: "bool_of_byte e (of_bool b) = Inr b"
  by (cases b) (auto simp: bool_of_byte_def)

lemma bool_of_byte_eq_Inr: "bool_of_byte e x = Inr b \<longleftrightarrow> x = of_bool b"
  by (cases b) (auto simp: bool_of_byte_def)

lemma account_discriminator_inject [simp]:
  "account_discriminator d = account_discriminator d' \<longleftrightarrow> d = d'"
  by (cases d; cases d') auto

section \<open>What the handlers rely on in an account codec\<close>

locale account_codec =
  fixes disc :: escrow_account_discriminator
    and len :: nat
    and wf :: "'a \<Rightarrow> bool"
    and enc :: "'a \<Rightarrow> bytes"
    and dec :: "bytes \<Rightarrow> 'a res"
  assumes enc_tag: "enc x \<noteq> [] \<and> enc x ! 0 = account_discriminator disc"
    and enc_len: "wf x \<Longrightarrow> length (enc x) = len"
    and dec_enc: "wf x \<Longrightarrow> dec (enc x) = Inr x"
    and dec_wf: "dec bs = Inr x \<Longrightarrow> wf x"
    and dec_tag: "dec bs = Inr x \<Longrightarrow> bs \<noteq> [] \<and> bs ! 0 = account_discriminator disc"
    and enc_dec: "dec bs = Inr x \<Longrightarrow> len \<le> length bs \<Longrightarrow> enc x = take len bs"
begin

lemma enc_inject: "wf x \<Longrightarrow> wf y \<Longrightarrow> enc x = enc y \<longleftrightarrow> x = y"
  by (metis dec_enc sum.inject(2))

lemma dec_no_confusion:
  "dec bs = Inr x \<Longrightarrow> bs ! 0 = account_discriminator d \<Longrightarrow> d = disc"
  using dec_tag by force

lemma dec_neq_Nil: "dec bs = Inr x \<Longrightarrow> bs \<noteq> []"
  using dec_tag by blast

lemma dec_canonical: "dec bs = Inr x \<Longrightarrow> length bs = len \<Longrightarrow> enc x = bs"
  using enc_dec by fastforce

end

section \<open>The codecs of the four account types\<close>

definition instance_wf :: "escrow_instance \<Rightarrow> bool" where
  "instance_wf self = (length (inst_reserved self) = INSTANCE_RESERVED_LEN)"

definition allowed_wallet_wf :: "allowed_wallet \<Rightarrow> bool" where
  "allowed_wallet_wf self = (length (aw_reserved self) = WALLET_RESERVED_LEN)"

lemmas to_bytes_defs =
  account_to_bytes_def Instance_to_bytes_def Instance_to_bytes_inner_def Operator_to_bytes_def
  AllowedMint_to_bytes_def AllowedMint_to_bytes_inner_def AllowedWallet_to_bytes_def
  AllowedWallet_to_bytes_inner_def

lemmas try_from_bytes_defs =
  Instance_try_from_bytes_def Operator_try_from_bytes_def AllowedMint_try_from_bytes_def
  AllowedWallet_try_from_bytes_def

lemmas byte_layout = nth_append slice_append_left slice_append_right nth_Cons'

lemma Instance_dec_enc:
  assumes "instance_wf x" shows "Instance_try_from_bytes (Instance_to_bytes x) = Inr x"
  using assms
  by (simp add: instance_wf_def to_bytes_defs try_from_bytes_defs len_defs require_len_def
      validate_discriminator_def byte_layout)

lemma AllowedMint_dec_enc: "AllowedMint_try_from_bytes (AllowedMint_to_bytes x) = Inr x"
  by (simp add: to_bytes_defs try_from_bytes_defs len_defs require_len_def
      validate_discriminator_def byte_layout)

lemma AllowedWallet_dec_enc:
  assumes "allowed_wallet_wf x"
  shows "AllowedWallet_try_from_bytes (AllowedWallet_to_bytes x) = Inr x"
  using assms
  by (simp add: allowed_wallet_wf_def to_bytes_defs try_from_bytes_defs len_defs require_len_def
      validate_discriminator_def byte_layout)

lemma Instance_layout:
  "133 \<le> length bs \<Longrightarrow>
   take 133 bs = bs ! 0 # bs ! 1 # bs ! 2 # slice 3 32 bs @ slice 35 32 bs
     @ bs ! 67 # bs ! 68 # slice 69 64 bs"
  by (rule nth_equalityI) (auto simp: nth_append nth_Cons' intro!: arg_cong [of _ _ "(!) bs"])

lemma AllowedMint_layout:
  "54 \<le> length bs \<Longrightarrow>
   take 54 bs = bs ! 0 # bs ! 1 # bs ! 2 # bs ! 3 # bs ! 4 # slice 5 32 bs @ slice 37 8 bs
     @ bs ! 45 # slice 46 8 bs"
  by (rule nth_equalityI) (auto simp: nth_append nth_Cons' intro!: arg_cong [of _ _ "(!) bs"])

lemma AllowedWallet_layout:
  "36 \<le> length bs \<Longrightarrow> take 36 bs = bs ! 0 # bs ! 1 # bs ! 2 # bs ! 3 # slice 4 32 bs"
  by (rule nth_equalityI) (auto simp: nth_append nth_Cons' intro!: arg_cong [of _ _ "(!) bs"])

lemma Operator_layout: "2 \<le> length bs \<Longrightarrow> take 2 bs = [bs ! 0, bs ! 1]"
  by (rule nth_equalityI) (auto simp: nth_Cons' intro!: arg_cong [of _ _ "(!) bs"])

lemma Instance_enc_dec:
  "Instance_try_from_bytes bs = Inr x \<Longrightarrow> Instance_LEN \<le> length bs \<Longrightarrow>
   Instance_to_bytes x = take Instance_LEN bs"
  using Instance_layout [of bs]
  by (auto simp: try_from_bytes_defs to_bytes_defs len_defs bool_of_byte_eq_Inr
      address_bytes_of_bytes Let_def split: if_splits)

lemma AllowedMint_enc_dec:
  "AllowedMint_try_from_bytes bs = Inr x \<Longrightarrow> AllowedMint_to_bytes x = take AllowedMint_LEN bs"
  using AllowedMint_layout [of bs]
  by (auto simp: try_from_bytes_defs to_bytes_defs len_defs bool_of_byte_eq_Inr
      address_bytes_of_bytes u64_le_of_le)

lemma AllowedWallet_enc_dec:
  "AllowedWallet_try_from_bytes bs = Inr x \<Longrightarrow>
   AllowedWallet_to_bytes x = take AllowedWallet_LEN bs"
  using AllowedWallet_layout [of bs]
  by (auto simp: try_from_bytes_defs to_bytes_defs len_defs bool_of_byte_eq_Inr)

lemma Operator_enc_dec:
  "Operator_try_from_bytes bs = Inr x \<Longrightarrow> Operator_to_bytes x = take Operator_LEN bs"
  using Operator_layout [of bs]
  by (auto simp: try_from_bytes_defs to_bytes_defs len_defs numeral_2_eq_2)

lemma to_bytes_tag:
  "Instance_to_bytes i ! 0 = account_discriminator InstanceDiscriminator"
  "Operator_to_bytes r ! 0 = account_discriminator OperatorDiscriminator"
  "AllowedMint_to_bytes m ! 0 = account_discriminator AllowedMintDiscriminator"
  "AllowedWallet_to_bytes a ! 0 = account_discriminator AllowedWalletDiscriminator"
  by (simp_all add: to_bytes_defs)

lemma to_bytes_neq_Nil [simp]:
  "Instance_to_bytes i \<noteq> []" "Operator_to_bytes r \<noteq> []" "AllowedMint_to_bytes m \<noteq> []"
  "AllowedWallet_to_bytes a \<noteq> []"
  by (simp_all add: to_bytes_defs)

lemma try_from_bytes_tag:
  "Instance_try_from_bytes bs = Inr i \<Longrightarrow>
     bs \<noteq> [] \<and> bs ! 0 = account_discriminator InstanceDiscriminator"
  "Operator_try_from_bytes bs = Inr r \<Longrightarrow>
     bs \<noteq> [] \<and> bs ! 0 = account_discriminator OperatorDiscriminator"
  "AllowedMint_try_from_bytes bs = Inr m \<Longrightarrow>
     bs \<noteq> [] \<and> bs ! 0 = account_discriminator AllowedMintDiscriminator"
  "AllowedWallet_try_from_bytes bs = Inr a \<Longrightarrow>
     bs \<noteq> [] \<and> bs ! 0 = account_discriminator AllowedWalletDiscriminator"
  by (simp_all only: try_from_bytes_defs bindE_eq_Inr validate_discriminator_eq_Inr) blast+

lemma to_bytes_length:
  "instance_wf i \<Longrightarrow> length (Instance_to_bytes i) = Instance_LEN"
  "length (Operator_to_bytes r) = Operator_LEN"
  "length (AllowedMint_to_bytes m) = AllowedMint_LEN"
  "allowed_wallet_wf a \<Longrightarrow> length (AllowedWallet_to_bytes a) = AllowedWallet_LEN"
  by (simp_all add: to_bytes_defs len_defs instance_wf_def allowed_wallet_wf_def)

lemma Instance_try_from_bytes_wf: "Instance_try_from_bytes bs = Inr x \<Longrightarrow> instance_wf x"
  by (auto simp: try_from_bytes_defs instance_wf_def len_defs Let_def split: if_splits)

lemma AllowedWallet_try_from_bytes_wf:
  "AllowedWallet_try_from_bytes bs = Inr x \<Longrightarrow> allowed_wallet_wf x"
  by (auto simp: try_from_bytes_defs allowed_wallet_wf_def len_defs)

lemma Operator_dec_enc: "Operator_try_from_bytes (Operator_to_bytes x) = Inr x"
  by (simp add: to_bytes_defs try_from_bytes_defs len_defs require_len_def
      validate_discriminator_def)

interpretation ins: account_codec InstanceDiscriminator Instance_LEN instance_wf
  Instance_to_bytes Instance_try_from_bytes
  by (unfold_locales; simp only: to_bytes_tag to_bytes_neq_Nil to_bytes_length Instance_dec_enc
      Instance_enc_dec Instance_try_from_bytes_wf try_from_bytes_tag simp_thms)

interpretation opr: account_codec OperatorDiscriminator Operator_LEN "\<lambda>_. True"
  Operator_to_bytes Operator_try_from_bytes
  by (unfold_locales; simp only: to_bytes_tag to_bytes_neq_Nil to_bytes_length Operator_dec_enc
      Operator_enc_dec try_from_bytes_tag simp_thms)

interpretation mnt: account_codec AllowedMintDiscriminator AllowedMint_LEN "\<lambda>_. True"
  AllowedMint_to_bytes AllowedMint_try_from_bytes
  by (unfold_locales; simp only: to_bytes_tag to_bytes_neq_Nil to_bytes_length AllowedMint_dec_enc
      AllowedMint_enc_dec try_from_bytes_tag simp_thms)

interpretation wal: account_codec AllowedWalletDiscriminator AllowedWallet_LEN allowed_wallet_wf
  AllowedWallet_to_bytes AllowedWallet_try_from_bytes
  by (unfold_locales; simp only: to_bytes_tag to_bytes_neq_Nil to_bytes_length
      AllowedWallet_dec_enc AllowedWallet_enc_dec AllowedWallet_try_from_bytes_wf
      try_from_bytes_tag simp_thms)

section \<open>Properties\<close>

lemma Instance_dec_prefix:
  "instance_wf x \<Longrightarrow> Instance_try_from_bytes (Instance_to_bytes x @ ys) = Inr x"
  by (simp add: instance_wf_def to_bytes_defs try_from_bytes_defs len_defs require_len_def
      validate_discriminator_def byte_layout)

lemma Instance_dec_V1:
  "Instance_try_from_bytes (take Instance_V1_LEN (Instance_to_bytes x)) =
     Inr (x\<lparr>inst_deposits_whitelisted := False, inst_withdrawals_whitelisted := False,
            inst_reserved := replicate INSTANCE_RESERVED_LEN 0\<rparr>)"
  by (simp add: to_bytes_defs try_from_bytes_defs len_defs require_len_def
      validate_discriminator_def byte_layout)

lemma Instance_dec_length:
  "Instance_try_from_bytes bs = Inr x \<Longrightarrow>
   length bs = Instance_V1_LEN \<and> \<not> inst_deposits_whitelisted x
     \<and> \<not> inst_withdrawals_whitelisted x \<and> inst_reserved x = replicate INSTANCE_RESERVED_LEN 0
   \<or> Instance_LEN \<le> length bs"
  by (auto simp: try_from_bytes_defs len_defs Let_def split: if_splits)

lemma Instance_layout_V1:
  "length bs = 67 \<Longrightarrow> bs = bs ! 0 # bs ! 1 # bs ! 2 # slice 3 32 bs @ slice 35 32 bs"
  by (rule nth_equalityI) (auto simp: nth_append nth_Cons' intro!: arg_cong [of _ _ "(!) bs"])

lemma Instance_enc_dec_V1:
  "Instance_try_from_bytes bs = Inr x \<Longrightarrow> length bs = Instance_V1_LEN \<Longrightarrow>
   bs = take Instance_V1_LEN (Instance_to_bytes x)"
  using Instance_layout_V1 [of bs]
  by (auto simp: try_from_bytes_defs to_bytes_defs len_defs address_bytes_of_bytes Let_def
      split: if_splits)

text \<open>
  Exactly these bytes decode as a given instance: the encoding of the instance, possibly
  followed by further bytes, or, for an instance with both whitelist flags off and zero reserved
  space, its first 67 bytes, which are the 0.1.0 layout. So reading and writing instances
  round-trips, and no two instances share an encoding.
\<close>

theorem instance_decodes_iff:
  "Instance_try_from_bytes bs = Inr x \<longleftrightarrow>
     instance_wf x \<and> (\<exists>ys. bs = Instance_to_bytes x @ ys)
     \<or> bs = take Instance_V1_LEN (Instance_to_bytes x) \<and> inst_deposits_whitelisted x = False
       \<and> inst_withdrawals_whitelisted x = False
       \<and> inst_reserved x = replicate INSTANCE_RESERVED_LEN 0"
proof
  assume dec: "Instance_try_from_bytes bs = Inr x"
  from Instance_dec_length [OF dec] show "instance_wf x \<and> (\<exists>ys. bs = Instance_to_bytes x @ ys)
     \<or> bs = take Instance_V1_LEN (Instance_to_bytes x) \<and> inst_deposits_whitelisted x = False
       \<and> inst_withdrawals_whitelisted x = False
       \<and> inst_reserved x = replicate INSTANCE_RESERVED_LEN 0"
    using Instance_enc_dec_V1 [OF dec] ins.enc_dec [OF dec] ins.dec_wf [OF dec]
    by (metis append_take_drop_id)
next
  assume "instance_wf x \<and> (\<exists>ys. bs = Instance_to_bytes x @ ys)
     \<or> bs = take Instance_V1_LEN (Instance_to_bytes x) \<and> inst_deposits_whitelisted x = False
       \<and> inst_withdrawals_whitelisted x = False
       \<and> inst_reserved x = replicate INSTANCE_RESERVED_LEN 0"
  then show "Instance_try_from_bytes bs = Inr x"
    using Instance_dec_prefix Instance_dec_V1 [of x] by (cases x) auto
qed

lemma AllowedMint_dec_prefix:
  "AllowedMint_try_from_bytes (AllowedMint_to_bytes x @ ys) = Inr x"
  by (simp add: to_bytes_defs try_from_bytes_defs len_defs require_len_def
      validate_discriminator_def byte_layout)

lemma AllowedWallet_dec_prefix:
  "allowed_wallet_wf x \<Longrightarrow> AllowedWallet_try_from_bytes (AllowedWallet_to_bytes x @ ys) = Inr x"
  by (simp add: allowed_wallet_wf_def to_bytes_defs try_from_bytes_defs len_defs require_len_def
      validate_discriminator_def byte_layout)

text \<open>
  The bytes that decode as a given allowed mint are exactly its encoding, possibly followed
  by further bytes; the same holds for allowed wallets. A byte that is neither 0 nor 1 in the place
  of a flag never decodes.
\<close>

theorem allowed_entries_decode_iff:
  "(AllowedMint_try_from_bytes bs = Inr m \<longleftrightarrow> (\<exists>ys. bs = AllowedMint_to_bytes m @ ys))
   \<and> (AllowedWallet_try_from_bytes bs = Inr a \<longleftrightarrow>
        allowed_wallet_wf a \<and> (\<exists>ys. bs = AllowedWallet_to_bytes a @ ys))"
  using AllowedMint_dec_prefix AllowedWallet_dec_prefix AllowedMint_enc_dec [of bs m]
    AllowedWallet_enc_dec [of bs a] AllowedWallet_try_from_bytes_wf [of bs a]
  by (metis append_take_drop_id)


end
