(* ===== verification/Escrow_Bitmap.thy ===== *)
theory Escrow_Bitmap
  imports Escrow_State
begin

text \<open>
  \<open>state/withdrawal_bitmap.rs\<close>: one bit per withdrawal nonce of the current generation, kept in
  the raw bytes of the bitmap account. The abstract view of the account is a generation number
  and the set of nonces consumed in it; the byte operations refine operations on that view. The
  locale \<open>replay_guard\<close> is the contract ReleaseFunds and RotateBitmap rely on, and shows that a
  guard which satisfies it never accepts a nonce twice.
\<close>

section \<open>The account's operations\<close>

definition BUMP_OFFSET :: nat where "BUMP_OFFSET = 1"
definition GENERATION_OFFSET :: nat where "GENERATION_OFFSET = 2"
definition BITS_OFFSET :: nat where "BITS_OFFSET = 10"

definition WithdrawalBitmap_LEN :: nat where
  "WithdrawalBitmap_LEN = BITS_OFFSET + BITMAP_BYTES"

definition WithdrawalBitmap_verify_len :: "bytes \<Rightarrow> unit res" where
  "WithdrawalBitmap_verify_len bs =
     guardE (\<not> length bs < WithdrawalBitmap_LEN) (escrow_err InvalidWithdrawalBitmap)"

definition put_generation :: "u64 \<Rightarrow> bytes \<Rightarrow> bytes" where
  "put_generation g bs = take GENERATION_OFFSET bs @ u64_le g @ drop BITS_OFFSET bs"

definition WithdrawalBitmap_init :: "bytes \<Rightarrow> u8 \<Rightarrow> bytes res" where
  "WithdrawalBitmap_init bs bump =
     bindE (WithdrawalBitmap_verify_len bs) (\<lambda>_.
     bindE (guardE (bs ! 0 = 0) AccountAlreadyInitialized) (\<lambda>_.
     Inr (put_generation 0
       (bs[0 := account_discriminator WithdrawalBitmapDiscriminator, BUMP_OFFSET := bump]))))"

definition WithdrawalBitmap_validate ::
  "runtime \<Rightarrow> world \<Rightarrow> bytes \<Rightarrow> address \<Rightarrow> account_view \<Rightarrow> unit res" where
  "WithdrawalBitmap_validate rt w bs instance_pda info =
     bindE (validate_discriminator bs WithdrawalBitmapDiscriminator) (\<lambda>_.
     bindE (WithdrawalBitmap_verify_len bs) (\<lambda>_.
     map_errE (escrow_err InvalidWithdrawalBitmap)
       (bindE (validate_pda_account rt w [WITHDRAWAL_BITMAP_SEED, address_bytes instance_pda]
          ESCROW_ID (bs ! BUMP_OFFSET) info) (\<lambda>_. Inr ()))))"

definition WithdrawalBitmap_generation :: "bytes \<Rightarrow> u64 res" where
  "WithdrawalBitmap_generation bs =
     bindE (guardE (BITS_OFFSET \<le> length bs) Panic) (\<lambda>_.
     Inr (u64_of_le (slice GENERATION_OFFSET 8 bs)))"

definition WithdrawalBitmap_validate_generation :: "bytes \<Rightarrow> u64 \<Rightarrow> unit res" where
  "WithdrawalBitmap_validate_generation bs nonce =
     bindE (WithdrawalBitmap_generation bs) (\<lambda>generation.
     guardE (nonce div NONCES_PER_GENERATION = generation)
       (escrow_err NonceOutsideCurrentGeneration))"

definition WithdrawalBitmap_consume_nonce :: "bytes \<Rightarrow> u64 \<Rightarrow> bytes res" where
  "WithdrawalBitmap_consume_nonce bs nonce =
     (let bit_pos = unat (nonce mod NONCES_PER_GENERATION);
          byte = BITS_OFFSET + bit_pos div 8;
          mask = push_bit (bit_pos mod 8) 1
      in bindE (guardE (byte < length bs) Panic) (\<lambda>_.
         bindE (guardE (bs ! byte AND mask = 0) (escrow_err NonceAlreadyUsed)) (\<lambda>_.
         Inr (bs[byte := bs ! byte OR mask]))))"

definition WithdrawalBitmap_rotate :: "bytes \<Rightarrow> u64 \<Rightarrow> bytes res" where
  "WithdrawalBitmap_rotate bs expected_generation =
     bindE (WithdrawalBitmap_generation bs) (\<lambda>generation.
     bindE (guardE (generation = expected_generation) (escrow_err UnexpectedGeneration)) (\<lambda>_.
     bindE (guardE (WithdrawalBitmap_LEN \<le> length bs) Panic) (\<lambda>_.
     let bs = take BITS_OFFSET bs @ replicate BITMAP_BYTES 0 @ drop WithdrawalBitmap_LEN bs in
     bindE (ok_orE (checked_add generation 1) ArithmeticOverflow) (\<lambda>next_generation.
     Inr (put_generation next_generation bs)))))"

section \<open>The abstract view\<close>

definition bitmap_ok :: "bytes \<Rightarrow> bool" where
  "bitmap_ok bs = (WithdrawalBitmap_LEN \<le> length bs
     \<and> bs ! 0 = account_discriminator WithdrawalBitmapDiscriminator)"

definition bitmap_generation :: "bytes \<Rightarrow> u64" where
  "bitmap_generation bs = u64_of_le (slice GENERATION_OFFSET 8 bs)"

definition bitmap_used :: "bytes \<Rightarrow> u64 \<Rightarrow> bool" where
  "bitmap_used bs nonce =
     (let bit_pos = unat (nonce mod NONCES_PER_GENERATION)
      in bit (bs ! (BITS_OFFSET + bit_pos div 8)) (bit_pos mod 8))"

definition bitmap_consumed :: "bytes \<Rightarrow> u64 set" where
  "bitmap_consumed bs =
     {n. n div NONCES_PER_GENERATION = bitmap_generation bs \<and> bitmap_used bs n}"

lemmas bitmap_layout_defs = BUMP_OFFSET_def GENERATION_OFFSET_def BITS_OFFSET_def

lemma BITMAP_BYTES_eq: "BITMAP_BYTES = 8192"
  by (simp add: BITMAP_BYTES_def NONCES_PER_GENERATION_def)

lemma bitmap_byte_less:
  "unat (nonce mod NONCES_PER_GENERATION) div 8 < BITMAP_BYTES"
proof -
  have "nonce mod NONCES_PER_GENERATION < NONCES_PER_GENERATION"
    by (rule word_mod_less_divisor) (simp add: NONCES_PER_GENERATION_def)
  then have "unat (nonce mod NONCES_PER_GENERATION) < 65536"
    by (simp add: word_less_nat_alt NONCES_PER_GENERATION_def)
  then show ?thesis by (simp add: BITMAP_BYTES_eq)
qed

lemma div_mod_eq_iff:
  "(n :: 'a :: semiring_modulo) = m \<longleftrightarrow> n div k = m div k \<and> n mod k = m mod k"
proof
  assume "n div k = m div k \<and> n mod k = m mod k"
  then have "n div k * k + n mod k = m div k * k + m mod k" by (simp only:)
  then show "n = m" by (simp only: div_mult_mod_eq)
qed (simp only: simp_thms)

lemma bit_mask_iff: "bit (2 ^ k :: u8) j \<longleftrightarrow> j = k \<and> k < 8"
  by (auto simp: bit_exp_iff)

lemma bitmap_generation_update [simp]:
  "BITS_OFFSET \<le> i \<Longrightarrow> bitmap_generation (bs[i := x]) = bitmap_generation bs"
  by (simp add: bitmap_generation_def slice_def bitmap_layout_defs drop_update_swap)

lemma bitmap_generation_put [simp]:
  "BITS_OFFSET \<le> length bs \<Longrightarrow> bitmap_generation (put_generation g bs) = g"
  by (simp add: bitmap_generation_def put_generation_def bitmap_layout_defs slice_def)

lemma nth_put_generation:
  "BITS_OFFSET \<le> length bs \<Longrightarrow> i < GENERATION_OFFSET \<or> BITS_OFFSET \<le> i \<Longrightarrow>
   put_generation g bs ! i = bs ! i"
  by (auto simp: put_generation_def bitmap_layout_defs nth_append)

lemma length_put_generation [simp]:
  "BITS_OFFSET \<le> length bs \<Longrightarrow> length (put_generation g bs) = length bs"
  by (simp add: put_generation_def bitmap_layout_defs)

lemma bitmap_used_consume:
  assumes "BITS_OFFSET + unat (n mod NONCES_PER_GENERATION) div 8 < length bs"
  shows "bitmap_used (bs[BITS_OFFSET + unat (n mod NONCES_PER_GENERATION) div 8 :=
            bs ! (BITS_OFFSET + unat (n mod NONCES_PER_GENERATION) div 8)
            OR push_bit (unat (n mod NONCES_PER_GENERATION) mod 8) 1]) m
         \<longleftrightarrow> m mod NONCES_PER_GENERATION = n mod NONCES_PER_GENERATION \<or> bitmap_used bs m"
proof -
  let ?b = "unat (m mod NONCES_PER_GENERATION)" and ?c = "unat (n mod NONCES_PER_GENERATION)"
  have key: "m mod NONCES_PER_GENERATION = n mod NONCES_PER_GENERATION \<longleftrightarrow>
      ?b div 8 = ?c div 8 \<and> ?b mod 8 = ?c mod 8"
    using div_mod_eq_iff [of ?b ?c 8] by (simp only: word_unat_eq_iff)
  show ?thesis
    using assms
    by (auto simp: bitmap_used_def Let_def key nth_list_update bit_or_iff bit_mask_iff)
qed

lemma consume_nonce_eq_Inr:
  assumes "bitmap_ok bs"
  shows "WithdrawalBitmap_consume_nonce bs n = Inr bs' \<longleftrightarrow>
    \<not> bitmap_used bs n \<and>
    bs' = bs[BITS_OFFSET + unat (n mod NONCES_PER_GENERATION) div 8 :=
            bs ! (BITS_OFFSET + unat (n mod NONCES_PER_GENERATION) div 8)
            OR push_bit (unat (n mod NONCES_PER_GENERATION) mod 8) 1]"
  using assms bitmap_byte_less [of n]
  by (auto simp: WithdrawalBitmap_consume_nonce_def Let_def bitmap_ok_def bitmap_used_def
      WithdrawalBitmap_LEN_def bit_iff_and_push_bit_not_eq_0)

lemma validate_generation_eq_Inr:
  "bitmap_ok bs \<Longrightarrow>
   WithdrawalBitmap_validate_generation bs n = Inr u \<longleftrightarrow>
     n div NONCES_PER_GENERATION = bitmap_generation bs"
  by (simp add: WithdrawalBitmap_validate_generation_def WithdrawalBitmap_generation_def
      bitmap_ok_def WithdrawalBitmap_LEN_def bitmap_generation_def)

lemma rotate_eq_Inr:
  "bitmap_ok bs \<Longrightarrow>
   WithdrawalBitmap_rotate bs g = Inr bs' \<longleftrightarrow>
     bitmap_generation bs = g \<and> g \<noteq> - 1 \<and>
     bs' = put_generation (g + 1)
       (take BITS_OFFSET bs @ replicate BITMAP_BYTES 0 @ drop WithdrawalBitmap_LEN bs)"
  by (auto simp: WithdrawalBitmap_rotate_def WithdrawalBitmap_generation_def bitmap_ok_def
      WithdrawalBitmap_LEN_def bitmap_generation_def checked_add_one Let_def)

section \<open>Refinement of the abstract view\<close>

lemma consume_nonce_ok:
  assumes "bitmap_ok bs" "WithdrawalBitmap_consume_nonce bs n = Inr bs'"
  shows "bitmap_ok bs'" "bitmap_generation bs' = bitmap_generation bs"
    "\<not> bitmap_used bs n"
    "bitmap_used bs' m \<longleftrightarrow>
       m mod NONCES_PER_GENERATION = n mod NONCES_PER_GENERATION \<or> bitmap_used bs m"
    "length bs' = length bs"
proof -
  let ?byte = "BITS_OFFSET + unat (n mod NONCES_PER_GENERATION) div 8"
  have less: "?byte < length bs" and zero: "0 < BITS_OFFSET"
    using assms(1) bitmap_byte_less [of n]
    by (simp_all add: bitmap_ok_def WithdrawalBitmap_LEN_def BITS_OFFSET_def)
  note bs' = assms(2) [unfolded consume_nonce_eq_Inr [OF assms(1)]]
  show "\<not> bitmap_used bs n" using bs' by blast
  show "bitmap_generation bs' = bitmap_generation bs" "length bs' = length bs" using bs' by simp_all
  show "bitmap_ok bs'" using bs' assms(1) zero by (simp add: bitmap_ok_def nth_list_update)
  show "bitmap_used bs' m \<longleftrightarrow>
      m mod NONCES_PER_GENERATION = n mod NONCES_PER_GENERATION \<or> bitmap_used bs m"
    using bs' bitmap_used_consume [OF less] by simp
qed

lemma rotate_ok:
  assumes "bitmap_ok bs" "WithdrawalBitmap_rotate bs g = Inr bs'"
  shows "bitmap_ok bs'" "bitmap_generation bs = g" "bitmap_generation bs' = g + 1" "g \<noteq> - 1"
    "\<not> bitmap_used bs' n" "length bs' = length bs"
proof -
  have len: "BITS_OFFSET + BITMAP_BYTES \<le> length bs"
    using assms(1) by (simp add: bitmap_ok_def WithdrawalBitmap_LEN_def)
  note bs' = assms(2) [unfolded rotate_eq_Inr [OF assms(1)]]
  show "bitmap_generation bs = g" "g \<noteq> - 1" using bs' by auto
  show "bitmap_generation bs' = g + 1" "length bs' = length bs"
    using bs' len by (auto simp: WithdrawalBitmap_LEN_def)
  show "bitmap_ok bs'"
    using bs' len assms(1)
    by (auto simp: bitmap_ok_def WithdrawalBitmap_LEN_def nth_put_generation nth_append
        bitmap_layout_defs)
  show "\<not> bitmap_used bs' n"
    using bs' len bitmap_byte_less [of n]
    by (auto simp: bitmap_used_def Let_def nth_put_generation nth_append)
qed

lemma bitmap_consumed_consume:
  assumes "bitmap_ok bs" "n div NONCES_PER_GENERATION = bitmap_generation bs"
    "WithdrawalBitmap_consume_nonce bs n = Inr bs'"
  shows "bitmap_consumed bs' = insert n (bitmap_consumed bs)"
proof (rule set_eqI)
  fix m
  show "m \<in> bitmap_consumed bs' \<longleftrightarrow> m \<in> insert n (bitmap_consumed bs)"
    using assms(2) div_mod_eq_iff [of m n NONCES_PER_GENERATION]
    unfolding bitmap_consumed_def mem_Collect_eq insert_iff consume_nonce_ok(2,4) [OF assms(1,3)]
    by argo
qed

section \<open>The replay-guard contract\<close>

locale replay_guard =
  fixes ok :: "'s \<Rightarrow> bool"
    and gen :: "'s \<Rightarrow> u64"
    and used :: "'s \<Rightarrow> u64 \<Rightarrow> bool"
    and consume :: "'s \<Rightarrow> u64 \<Rightarrow> 's res"
    and rotate :: "'s \<Rightarrow> u64 \<Rightarrow> 's res"
  assumes consume_ok: "ok s \<Longrightarrow> consume s n = Inr s' \<Longrightarrow> ok s' \<and> gen s' = gen s"
    and consume_fresh: "ok s \<Longrightarrow> consume s n = Inr s' \<Longrightarrow>
      n div NONCES_PER_GENERATION = gen s \<and> \<not> used s n"
    and consume_used: "ok s \<Longrightarrow> consume s n = Inr s' \<Longrightarrow> used s' n \<and> (used s m \<longrightarrow> used s' m)"
    and rotate_ok: "ok s \<Longrightarrow> rotate s g = Inr s' \<Longrightarrow> ok s' \<and> gen s < gen s'"
begin

text \<open>\<open>rel\<close> holds the nonces accepted so far: each is of an older generation or is marked used.\<close>

definition tracks :: "'s \<Rightarrow> u64 list \<Rightarrow> bool" where
  "tracks s rel \<longleftrightarrow> ok s \<and> distinct rel \<and>
     (\<forall>n\<in>set rel. n div NONCES_PER_GENERATION < gen s
        \<or> n div NONCES_PER_GENERATION = gen s \<and> used s n)"

lemma tracks_fresh: "tracks s rel \<Longrightarrow> consume s n = Inr s' \<Longrightarrow> n \<notin> set rel"
  using consume_fresh unfolding tracks_def by fastforce

lemma tracks_consume:
  assumes "tracks s rel" "consume s n = Inr s'" shows "tracks s' (n # rel)"
proof -
  have "ok s" using assms(1) by (simp add: tracks_def)
  note facts = consume_ok [OF this assms(2)] consume_fresh [OF this assms(2)]
    consume_used [OF this assms(2)] tracks_fresh [OF assms]
  show ?thesis using facts assms(1) by (auto simp: tracks_def)
qed

lemma tracks_rotate: "tracks s rel \<Longrightarrow> rotate s g = Inr s' \<Longrightarrow> tracks s' rel"
  using rotate_ok [of s g s'] by (fastforce simp: tracks_def)

lemma tracks_init: "ok s \<Longrightarrow> tracks s []"
  by (simp add: tracks_def)

lemma tracks_distinct: "tracks s rel \<Longrightarrow> distinct rel"
  by (simp add: tracks_def)

end

text \<open>The two calls ReleaseFunds makes on the bitmap once it is validated.\<close>

definition bitmap_accept :: "bytes \<Rightarrow> u64 \<Rightarrow> bytes res" where
  "bitmap_accept bs nonce =
     bindE (WithdrawalBitmap_validate_generation bs nonce) (\<lambda>_.
     WithdrawalBitmap_consume_nonce bs nonce)"

lemma word_less_add_one: "(g::u64) \<noteq> - 1 \<Longrightarrow> g < g + 1"
  using checked_add_one [of g "g + 1"] checked_add_Some [of g 1 "g + 1"]
  by (simp add: word_less_nat_alt)

interpretation bm: replay_guard bitmap_ok bitmap_generation bitmap_used bitmap_accept
  WithdrawalBitmap_rotate
proof unfold_locales
  fix s s' n m g
  assume ok: "bitmap_ok s"
  show "bitmap_ok s' \<and> bitmap_generation s' = bitmap_generation s"
    and "n div NONCES_PER_GENERATION = bitmap_generation s \<and> \<not> bitmap_used s n"
    and "bitmap_used s' n \<and> (bitmap_used s m \<longrightarrow> bitmap_used s' m)"
    if "bitmap_accept s n = Inr s'"
    using that consume_nonce_ok [OF ok, of n s'] ok
    by (auto simp: bitmap_accept_def validate_generation_eq_Inr)
  show "bitmap_ok s' \<and> bitmap_generation s < bitmap_generation s'"
    if "WithdrawalBitmap_rotate s g = Inr s'"
    using rotate_ok [OF ok that] word_less_add_one by simp
qed

section \<open>Properties\<close>

text \<open>
  Consuming a nonce of the current generation refines insertion into the set of consumed
  nonces: it fails with NonceAlreadyUsed exactly when the nonce is in the set, and otherwise adds
  exactly that nonce, keeping the generation, the length and the rest of the set.
\<close>

theorem consume_nonce_refines:
  assumes "bitmap_ok bs" "n div NONCES_PER_GENERATION = bitmap_generation bs"
  shows "case WithdrawalBitmap_consume_nonce bs n of
      Inl e \<Rightarrow> n \<in> bitmap_consumed bs \<and> e = escrow_err NonceAlreadyUsed
    | Inr bs' \<Rightarrow> n \<notin> bitmap_consumed bs \<and> bitmap_consumed bs' = insert n (bitmap_consumed bs)
        \<and> bitmap_ok bs' \<and> bitmap_generation bs' = bitmap_generation bs \<and> length bs' = length bs"
proof (cases "WithdrawalBitmap_consume_nonce bs n")
  case (Inl e)
  have "BITS_OFFSET + unat (n mod NONCES_PER_GENERATION) div 8 < length bs"
    using assms(1) bitmap_byte_less [of n] by (simp add: bitmap_ok_def WithdrawalBitmap_LEN_def)
  with Inl have "e = escrow_err NonceAlreadyUsed \<and> bitmap_used bs n"
    by (auto simp: WithdrawalBitmap_consume_nonce_def Let_def bitmap_used_def bindE_eq_Inl
        bit_iff_and_push_bit_not_eq_0)
  with assms(2) Inl show ?thesis by (simp add: bitmap_consumed_def)
next
  case (Inr bs')
  then show ?thesis
    using consume_nonce_ok [OF assms(1) Inr] bitmap_consumed_consume [OF assms Inr]
    by (simp add: bitmap_consumed_def)
qed

text \<open>
  Rotation refines moving to the next generation with an empty set. It fails with
  UnexpectedGeneration when the caller names another generation, so a replayed rotation cannot
  skip one, and with ArithmeticOverflow at the last generation instead of wrapping to 0.
\<close>

theorem rotate_refines:
  assumes "bitmap_ok bs"
  shows "case WithdrawalBitmap_rotate bs g of
      Inl e \<Rightarrow> g \<noteq> bitmap_generation bs \<and> e = escrow_err UnexpectedGeneration
        \<or> g = bitmap_generation bs \<and> g = - 1 \<and> e = ArithmeticOverflow
    | Inr bs' \<Rightarrow> g = bitmap_generation bs \<and> bitmap_ok bs'
        \<and> unat (bitmap_generation bs') = unat g + 1 \<and> bitmap_consumed bs' = {}"
proof (cases "WithdrawalBitmap_rotate bs g")
  case (Inl e)
  have "checked_add g 1 = None \<longleftrightarrow> g = - 1"
    using checked_add_one [of g] by (metis not_None_eq)
  with Inl assms show ?thesis
    by (auto simp: WithdrawalBitmap_rotate_def WithdrawalBitmap_generation_def bitmap_ok_def
        WithdrawalBitmap_LEN_def bitmap_generation_def bindE_eq_Inl Let_def ok_orE_def
        split: option.splits)
next
  case (Inr bs')
  note r = rotate_ok [OF assms Inr]
  have "unat (g + 1) = unat g + 1"
    using r(4) checked_add_one [of g "g + 1"] checked_add_Some [of g 1 "g + 1"] by simp
  with r Inr show ?thesis by (simp add: bitmap_consumed_def)
qed

text \<open>
  Initialising a zeroed account of the right size gives a bitmap at generation 0 with no
  consumed nonce and the given bump, and initialising a live bitmap again is refused, so
  CreateInstance cannot reopen consumed nonces.
\<close>

theorem init_fresh_or_refused:
  "(\<exists>bs'. WithdrawalBitmap_init (replicate WithdrawalBitmap_LEN 0) bump = Inr bs'
      \<and> bitmap_ok bs' \<and> bs' ! BUMP_OFFSET = bump \<and> bitmap_generation bs' = 0
      \<and> bitmap_consumed bs' = {})
   \<and> (bitmap_ok bs \<longrightarrow> WithdrawalBitmap_init bs bump = Inl AccountAlreadyInitialized)"
proof
  let ?z = "replicate WithdrawalBitmap_LEN (0 :: u8)"
  let ?bs = "put_generation 0
    (?z[0 := account_discriminator WithdrawalBitmapDiscriminator, BUMP_OFFSET := bump])"
  have pos: "BITS_OFFSET \<le> WithdrawalBitmap_LEN" "0 < WithdrawalBitmap_LEN"
    by (simp_all add: WithdrawalBitmap_LEN_def BITS_OFFSET_def)
  have "WithdrawalBitmap_init ?z bump = Inr ?bs"
    using pos by (simp add: WithdrawalBitmap_init_def WithdrawalBitmap_verify_len_def)
  moreover have "bitmap_ok ?bs" "?bs ! BUMP_OFFSET = bump"
    using pos by (simp_all add: bitmap_ok_def nth_put_generation bitmap_layout_defs)
  moreover have "bitmap_generation ?bs = 0" using pos by simp
  moreover have "\<not> bitmap_used ?bs n" for n
    using pos bitmap_byte_less [of n]
    by (simp add: bitmap_used_def Let_def nth_put_generation WithdrawalBitmap_LEN_def
        bitmap_layout_defs)
  ultimately show "\<exists>bs'. WithdrawalBitmap_init ?z bump = Inr bs'
      \<and> bitmap_ok bs' \<and> bs' ! BUMP_OFFSET = bump \<and> bitmap_generation bs' = 0
      \<and> bitmap_consumed bs' = {}"
    by (auto simp: bitmap_consumed_def)
  show "bitmap_ok bs \<longrightarrow> WithdrawalBitmap_init bs bump = Inl AccountAlreadyInitialized"
    by (simp add: bitmap_ok_def WithdrawalBitmap_init_def WithdrawalBitmap_verify_len_def)
qed

end
