(* ===== verification/Escrow_Token.thy ===== *)
theory Escrow_Token
  imports Escrow_Bitmap
begin

text \<open>
  \<open>processor/shared/token_utils.rs\<close>: associated token accounts, balances, the mint profile, and
  the hand-built \<open>TransferChecked\<close> CPI with its memo and transfer-hook handling. The readers of
  token accounts and mints are fields of the runtime record.
\<close>

definition validate_ata ::
  "runtime \<Rightarrow> world \<Rightarrow> account_view \<Rightarrow> address \<Rightarrow> account_view \<Rightarrow> account_view \<Rightarrow> unit res" where
  "validate_ata rt w ata_info wallet_key mint_info token_program_info =
     (let expected_ata = fst (rt_find_program_address rt
            [address_bytes wallet_key, address_bytes (av_address token_program_info),
             address_bytes (av_address mint_info)] ATA_PROGRAM_ID)
      in guardE (\<not> (av_address ata_info \<noteq> expected_ata \<or> is_data_empty w ata_info))
           InvalidInstructionData)"

definition get_or_create_ata ::
  "runtime \<Rightarrow> account_view \<Rightarrow> account_view \<Rightarrow> account_view \<Rightarrow> account_view \<Rightarrow> account_view \<Rightarrow>
     account_view \<Rightarrow> world \<Rightarrow> world res" where
  "get_or_create_ata rt ata_info wallet_info mint_info payer_info system_program_info
     token_program_info w =
     (let expected_ata = fst (rt_find_program_address rt
            [address_bytes (av_address wallet_info), address_bytes (av_address token_program_info),
             address_bytes (av_address mint_info)] ATA_PROGRAM_ID)
      in bindE (guardE (av_address ata_info = expected_ata) (escrow_err InvalidAta)) (\<lambda>_.
         if is_data_empty w ata_info
         then invoke_signed rt
           (CreateIdempotent (av_address payer_info) (av_address ata_info) (av_address wallet_info)
             (av_address mint_info) (av_address system_program_info)
             (av_address token_program_info)) [] w
         else Inr w))"

definition get_token_account_balance :: "runtime \<Rightarrow> world \<Rightarrow> account_view \<Rightarrow> u64 res" where
  "get_token_account_balance rt w info =
     (if owned_by w info TOKEN_PROGRAM_ID then Inr (rt_token_amount rt (data_of w info))
      else if owned_by w info TOKEN_2022_PROGRAM_ID
        then Inr (rt_token_2022_amount rt (data_of w info))
      else Inl (escrow_err InvalidTokenAccount))"

definition get_mint_decimals :: "runtime \<Rightarrow> world \<Rightarrow> account_view \<Rightarrow> u8 res" where
  "get_mint_decimals rt w mint_info =
     (if owned_by w mint_info TOKEN_PROGRAM_ID then Inr (rt_mint_decimals rt (data_of w mint_info))
      else if owned_by w mint_info TOKEN_2022_PROGRAM_ID
        then Inr (rt_mint_2022_decimals rt (data_of w mint_info))
      else Inl (escrow_err InvalidMint))"

text \<open>The loop over a Token-2022 mint's extension types.\<close>

fun collect_extensions :: "u16 list \<Rightarrow> u64 \<Rightarrow> u64 res" where
  "collect_extensions [] extensions = Inr extensions"
| "collect_extensions (e # es) extensions =
     (if 64 \<le> e then Inl (escrow_err InvalidMint)
      else collect_extensions es (extensions OR push_bit (unat e) 1))"

definition read_mint_profile :: "runtime \<Rightarrow> world \<Rightarrow> account_view \<Rightarrow> mint_profile res" where
  "read_mint_profile rt w mint_info =
     (if owned_by w mint_info TOKEN_2022_PROGRAM_ID then
        bindE (ok_orE (rt_unpack_mint_2022 rt (data_of w mint_info)) (escrow_err InvalidMint))
          (\<lambda>state.
        bindE (ok_orE (m22_extension_types state) (escrow_err InvalidMint)) (\<lambda>types.
        bindE (collect_extensions types 0) (\<lambda>extensions.
        Inr \<lparr>mp_decimals = m22_decimals state, mp_extensions = extensions,
             mp_has_freeze_authority = m22_has_freeze_authority state\<rparr>)))
      else
        bindE (guardE (length (data_of w mint_info) = rt_mint_len rt) (escrow_err InvalidMint))
          (\<lambda>_.
        Inr \<lparr>mp_decimals = rt_mint_decimals rt (data_of w mint_info), mp_extensions = 0,
             mp_has_freeze_authority = rt_mint_has_freeze_authority rt (data_of w mint_info)\<rparr>))"

definition MAX_HOOK_REMAINING_ACCOUNTS :: nat where
  "MAX_HOOK_REMAINING_ACCOUNTS = 32"

definition TRANSFER_CHECKED_DISCRIMINATOR :: u8 where
  "TRANSFER_CHECKED_DISCRIMINATOR = 12"

definition MEMO_TEXT :: bytes where
  "MEMO_TEXT = bytes_of_string ''escrow release''"

definition requires_memo :: "runtime \<Rightarrow> world \<Rightarrow> account_view \<Rightarrow> bool res" where
  "requires_memo rt w to =
     (if \<not> owned_by w to TOKEN_2022_PROGRAM_ID then Inr False
      else ok_orE (rt_memo_required rt (data_of w to)) (escrow_err InvalidTokenAccount))"

definition invoke_memo :: "runtime \<Rightarrow> account_view \<Rightarrow> world \<Rightarrow> world res" where
  "invoke_memo rt memo_program w =
     bindE (guardE (av_address memo_program = MEMO_PROGRAM_ID) IncorrectProgramId) (\<lambda>_.
     invoke_signed rt (Invoke MEMO_PROGRAM_ID [] MEMO_TEXT) [] w)"

text \<open>The account metas: a hook extra keeps its writable flag and loses its signer flag.\<close>

definition hook_meta :: "account_view \<Rightarrow> instruction_account" where
  "hook_meta info =
     (if av_is_writable info then writable_meta (av_address info)
      else readonly_meta (av_address info))"

definition transfer_checked_instruction ::
  "account_view \<Rightarrow> account_view \<Rightarrow> account_view \<Rightarrow> account_view \<Rightarrow> u64 \<Rightarrow> u8 \<Rightarrow> address \<Rightarrow>
     account_view list \<Rightarrow> cpi" where
  "transfer_checked_instruction from mint to authority amount decimals token_program hook_extras =
     Invoke token_program
       ([writable_meta (av_address from), readonly_meta (av_address mint),
         writable_meta (av_address to), readonly_signer_meta (av_address authority)]
        @ map hook_meta hook_extras)
       ([TRANSFER_CHECKED_DISCRIMINATOR] @ u64_le amount @ [decimals])"

definition transfer_checked_cpi ::
  "runtime \<Rightarrow> account_view \<Rightarrow> account_view \<Rightarrow> account_view \<Rightarrow> account_view \<Rightarrow> u64 \<Rightarrow> u8 \<Rightarrow>
     address \<Rightarrow> account_view option \<Rightarrow> account_view list \<Rightarrow> signer_seeds \<Rightarrow> world \<Rightarrow> world res"
  where
  "transfer_checked_cpi rt from mint to authority amount decimals token_program memo_program
     hook_extras signers w =
     bindE (requires_memo rt w to) (\<lambda>memo.
     bindE (if memo
            then bindE (ok_orE memo_program NotEnoughAccountKeys) (\<lambda>m. invoke_memo rt m w)
            else Inr w) (\<lambda>w.
     bindE (guardE (\<not> MAX_HOOK_REMAINING_ACCOUNTS < length hook_extras) InvalidArgument) (\<lambda>_.
     invoke_signed rt
       (transfer_checked_instruction from mint to authority amount decimals token_program
          hook_extras) signers w)))"

end
