(* ===== verification/Escrow_Events.thy ===== *)
theory Escrow_Events
  imports Escrow_Base
begin

text \<open>
  \<open>events.rs\<close>: the twelve events the escrow program emits through a CPI to itself. Each event's
  bytes are the 8-byte event tag, the event's discriminator and its fields, so an indexer can
  tell the kinds apart and recover the fields; the lemmas at the end say so.
\<close>

section \<open>Discriminators\<close>

datatype event_discriminators =
    CreateInstanceEvent
  | AllowMintEvent
  | BlockMintEvent
  | AddOperatorEvent
  | RemoveOperatorEvent
  | SetNewAdminEvent
  | DepositEvent
  | ReleaseFundsEvent
  | RotateBitmapEvent
  | AddOrUpdateAllowedWalletEvent
  | RemoveAllowedWalletEvent
  | SetWhitelistEnabledEvent

primrec event_discriminator :: "event_discriminators \<Rightarrow> u8" where
  "event_discriminator CreateInstanceEvent = 0"
| "event_discriminator AllowMintEvent = 1"
| "event_discriminator BlockMintEvent = 2"
| "event_discriminator AddOperatorEvent = 3"
| "event_discriminator RemoveOperatorEvent = 4"
| "event_discriminator SetNewAdminEvent = 5"
| "event_discriminator DepositEvent = 6"
| "event_discriminator ReleaseFundsEvent = 7"
| "event_discriminator RotateBitmapEvent = 8"
| "event_discriminator AddOrUpdateAllowedWalletEvent = 9"
| "event_discriminator RemoveAllowedWalletEvent = 10"
| "event_discriminator SetWhitelistEnabledEvent = 11"

section \<open>CreateInstanceEvent\<close>

record create_instance_event =
  cie_event_discriminator :: u8
  cie_instance_seed :: address
  cie_admin :: address

definition CreateInstanceEvent_new ::
  "address \<Rightarrow> address \<Rightarrow> create_instance_event" where
  "CreateInstanceEvent_new instance_seed admin =
    \<lparr>cie_event_discriminator = event_discriminator CreateInstanceEvent,
     cie_instance_seed = instance_seed, cie_admin = admin\<rparr>"

definition CreateInstanceEvent_to_bytes :: "create_instance_event \<Rightarrow> bytes" where
  "CreateInstanceEvent_to_bytes self =
     EVENT_IX_TAG_LE @ [cie_event_discriminator self]
     @ address_bytes (cie_instance_seed self)
     @ address_bytes (cie_admin self)"

section \<open>AllowMintEvent\<close>

record allow_mint_event =
  ame_event_discriminator :: u8
  ame_instance_seed :: address
  ame_mint :: address
  ame_decimals :: u8
  ame_withdraw_fee :: u64
  ame_min_withdraw_amount :: u64
  ame_min_deposit_amount :: u64

definition AllowMintEvent_new ::
  "address \<Rightarrow> address \<Rightarrow> u8 \<Rightarrow> u64 \<Rightarrow> u64 \<Rightarrow> u64 \<Rightarrow> allow_mint_event" where
  "AllowMintEvent_new instance_seed mint decimals withdraw_fee min_withdraw_amount min_deposit_amount =
    \<lparr>ame_event_discriminator = event_discriminator AllowMintEvent,
     ame_instance_seed = instance_seed, ame_mint = mint, ame_decimals = decimals,
     ame_withdraw_fee = withdraw_fee, ame_min_withdraw_amount = min_withdraw_amount,
     ame_min_deposit_amount = min_deposit_amount\<rparr>"

definition AllowMintEvent_to_bytes :: "allow_mint_event \<Rightarrow> bytes" where
  "AllowMintEvent_to_bytes self =
     EVENT_IX_TAG_LE @ [ame_event_discriminator self]
     @ address_bytes (ame_instance_seed self)
     @ address_bytes (ame_mint self)
     @ [ame_decimals self]
     @ u64_le (ame_withdraw_fee self)
     @ u64_le (ame_min_withdraw_amount self)
     @ u64_le (ame_min_deposit_amount self)"

section \<open>BlockMintEvent\<close>

record block_mint_event =
  bme_event_discriminator :: u8
  bme_instance_seed :: address
  bme_mint :: address
  bme_deposits_blocked :: bool
  bme_withdrawals_blocked :: bool

definition BlockMintEvent_new ::
  "address \<Rightarrow> address \<Rightarrow> bool \<Rightarrow> bool \<Rightarrow> block_mint_event" where
  "BlockMintEvent_new instance_seed mint deposits_blocked withdrawals_blocked =
    \<lparr>bme_event_discriminator = event_discriminator BlockMintEvent,
     bme_instance_seed = instance_seed, bme_mint = mint, bme_deposits_blocked = deposits_blocked,
     bme_withdrawals_blocked = withdrawals_blocked\<rparr>"

definition BlockMintEvent_to_bytes :: "block_mint_event \<Rightarrow> bytes" where
  "BlockMintEvent_to_bytes self =
     EVENT_IX_TAG_LE @ [bme_event_discriminator self]
     @ address_bytes (bme_instance_seed self)
     @ address_bytes (bme_mint self)
     @ [of_bool (bme_deposits_blocked self)]
     @ [of_bool (bme_withdrawals_blocked self)]"

section \<open>AddOperatorEvent\<close>

record add_operator_event =
  aoe_event_discriminator :: u8
  aoe_instance_seed :: address
  aoe_operator :: address

definition AddOperatorEvent_new ::
  "address \<Rightarrow> address \<Rightarrow> add_operator_event" where
  "AddOperatorEvent_new instance_seed operator =
    \<lparr>aoe_event_discriminator = event_discriminator AddOperatorEvent,
     aoe_instance_seed = instance_seed, aoe_operator = operator\<rparr>"

definition AddOperatorEvent_to_bytes :: "add_operator_event \<Rightarrow> bytes" where
  "AddOperatorEvent_to_bytes self =
     EVENT_IX_TAG_LE @ [aoe_event_discriminator self]
     @ address_bytes (aoe_instance_seed self)
     @ address_bytes (aoe_operator self)"

section \<open>RemoveOperatorEvent\<close>

record remove_operator_event =
  roe_event_discriminator :: u8
  roe_instance_seed :: address
  roe_operator :: address

definition RemoveOperatorEvent_new ::
  "address \<Rightarrow> address \<Rightarrow> remove_operator_event" where
  "RemoveOperatorEvent_new instance_seed operator =
    \<lparr>roe_event_discriminator = event_discriminator RemoveOperatorEvent,
     roe_instance_seed = instance_seed, roe_operator = operator\<rparr>"

definition RemoveOperatorEvent_to_bytes :: "remove_operator_event \<Rightarrow> bytes" where
  "RemoveOperatorEvent_to_bytes self =
     EVENT_IX_TAG_LE @ [roe_event_discriminator self]
     @ address_bytes (roe_instance_seed self)
     @ address_bytes (roe_operator self)"

section \<open>SetNewAdminEvent\<close>

record set_new_admin_event =
  sae_event_discriminator :: u8
  sae_instance_seed :: address
  sae_old_admin :: address
  sae_new_admin :: address

definition SetNewAdminEvent_new ::
  "address \<Rightarrow> address \<Rightarrow> address \<Rightarrow> set_new_admin_event" where
  "SetNewAdminEvent_new instance_seed old_admin new_admin =
    \<lparr>sae_event_discriminator = event_discriminator SetNewAdminEvent,
     sae_instance_seed = instance_seed, sae_old_admin = old_admin, sae_new_admin = new_admin\<rparr>"

definition SetNewAdminEvent_to_bytes :: "set_new_admin_event \<Rightarrow> bytes" where
  "SetNewAdminEvent_to_bytes self =
     EVENT_IX_TAG_LE @ [sae_event_discriminator self]
     @ address_bytes (sae_instance_seed self)
     @ address_bytes (sae_old_admin self)
     @ address_bytes (sae_new_admin self)"

section \<open>DepositEvent\<close>

record deposit_event =
  dpe_event_discriminator :: u8
  dpe_instance_seed :: address
  dpe_user :: address
  dpe_amount :: u64
  dpe_recipient :: address
  dpe_mint :: address

definition DepositEvent_new ::
  "address \<Rightarrow> address \<Rightarrow> u64 \<Rightarrow> address \<Rightarrow> address \<Rightarrow> deposit_event" where
  "DepositEvent_new instance_seed user amount recipient mint =
    \<lparr>dpe_event_discriminator = event_discriminator DepositEvent,
     dpe_instance_seed = instance_seed, dpe_user = user, dpe_amount = amount,
     dpe_recipient = recipient, dpe_mint = mint\<rparr>"

definition DepositEvent_to_bytes :: "deposit_event \<Rightarrow> bytes" where
  "DepositEvent_to_bytes self =
     EVENT_IX_TAG_LE @ [dpe_event_discriminator self]
     @ address_bytes (dpe_instance_seed self)
     @ address_bytes (dpe_user self)
     @ u64_le (dpe_amount self)
     @ address_bytes (dpe_recipient self)
     @ address_bytes (dpe_mint self)"

section \<open>ReleaseFundsEvent\<close>

record release_funds_event =
  rfe_event_discriminator :: u8
  rfe_instance_seed :: address
  rfe_operator :: address
  rfe_amount :: u64
  rfe_user :: address
  rfe_mint :: address

definition ReleaseFundsEvent_new ::
  "address \<Rightarrow> address \<Rightarrow> u64 \<Rightarrow> address \<Rightarrow> address \<Rightarrow> release_funds_event" where
  "ReleaseFundsEvent_new instance_seed operator amount user mint =
    \<lparr>rfe_event_discriminator = event_discriminator ReleaseFundsEvent,
     rfe_instance_seed = instance_seed, rfe_operator = operator, rfe_amount = amount,
     rfe_user = user, rfe_mint = mint\<rparr>"

definition ReleaseFundsEvent_to_bytes :: "release_funds_event \<Rightarrow> bytes" where
  "ReleaseFundsEvent_to_bytes self =
     EVENT_IX_TAG_LE @ [rfe_event_discriminator self]
     @ address_bytes (rfe_instance_seed self)
     @ address_bytes (rfe_operator self)
     @ u64_le (rfe_amount self)
     @ address_bytes (rfe_user self)
     @ address_bytes (rfe_mint self)"

section \<open>RotateBitmapEvent\<close>

record rotate_bitmap_event =
  rbe_event_discriminator :: u8
  rbe_instance_seed :: address
  rbe_operator :: address
  rbe_new_generation :: u64

definition RotateBitmapEvent_new ::
  "address \<Rightarrow> address \<Rightarrow> u64 \<Rightarrow> rotate_bitmap_event" where
  "RotateBitmapEvent_new instance_seed operator new_generation =
    \<lparr>rbe_event_discriminator = event_discriminator RotateBitmapEvent,
     rbe_instance_seed = instance_seed, rbe_operator = operator,
     rbe_new_generation = new_generation\<rparr>"

definition RotateBitmapEvent_to_bytes :: "rotate_bitmap_event \<Rightarrow> bytes" where
  "RotateBitmapEvent_to_bytes self =
     EVENT_IX_TAG_LE @ [rbe_event_discriminator self]
     @ address_bytes (rbe_instance_seed self)
     @ address_bytes (rbe_operator self)
     @ u64_le (rbe_new_generation self)"

section \<open>AddOrUpdateAllowedWalletEvent\<close>

record add_or_update_allowed_wallet_event =
  uwe_event_discriminator :: u8
  uwe_instance_seed :: address
  uwe_wallet :: address
  uwe_deposits_blocked :: bool
  uwe_withdrawals_blocked :: bool

definition AddOrUpdateAllowedWalletEvent_new ::
  "address \<Rightarrow> address \<Rightarrow> bool \<Rightarrow> bool \<Rightarrow> add_or_update_allowed_wallet_event" where
  "AddOrUpdateAllowedWalletEvent_new instance_seed wallet deposits_blocked withdrawals_blocked =
    \<lparr>uwe_event_discriminator = event_discriminator AddOrUpdateAllowedWalletEvent,
     uwe_instance_seed = instance_seed, uwe_wallet = wallet,
     uwe_deposits_blocked = deposits_blocked, uwe_withdrawals_blocked = withdrawals_blocked\<rparr>"

definition AddOrUpdateAllowedWalletEvent_to_bytes :: "add_or_update_allowed_wallet_event \<Rightarrow> bytes" where
  "AddOrUpdateAllowedWalletEvent_to_bytes self =
     EVENT_IX_TAG_LE @ [uwe_event_discriminator self]
     @ address_bytes (uwe_instance_seed self)
     @ address_bytes (uwe_wallet self)
     @ [of_bool (uwe_deposits_blocked self)]
     @ [of_bool (uwe_withdrawals_blocked self)]"

section \<open>RemoveAllowedWalletEvent\<close>

record remove_allowed_wallet_event =
  rwe_event_discriminator :: u8
  rwe_instance_seed :: address
  rwe_wallet :: address

definition RemoveAllowedWalletEvent_new ::
  "address \<Rightarrow> address \<Rightarrow> remove_allowed_wallet_event" where
  "RemoveAllowedWalletEvent_new instance_seed wallet =
    \<lparr>rwe_event_discriminator = event_discriminator RemoveAllowedWalletEvent,
     rwe_instance_seed = instance_seed, rwe_wallet = wallet\<rparr>"

definition RemoveAllowedWalletEvent_to_bytes :: "remove_allowed_wallet_event \<Rightarrow> bytes" where
  "RemoveAllowedWalletEvent_to_bytes self =
     EVENT_IX_TAG_LE @ [rwe_event_discriminator self]
     @ address_bytes (rwe_instance_seed self)
     @ address_bytes (rwe_wallet self)"

section \<open>SetWhitelistEnabledEvent\<close>

record set_whitelist_enabled_event =
  swe_event_discriminator :: u8
  swe_instance_seed :: address
  swe_deposits_whitelisted :: bool
  swe_withdrawals_whitelisted :: bool

definition SetWhitelistEnabledEvent_new ::
  "address \<Rightarrow> bool \<Rightarrow> bool \<Rightarrow> set_whitelist_enabled_event" where
  "SetWhitelistEnabledEvent_new instance_seed deposits_whitelisted withdrawals_whitelisted =
    \<lparr>swe_event_discriminator = event_discriminator SetWhitelistEnabledEvent,
     swe_instance_seed = instance_seed, swe_deposits_whitelisted = deposits_whitelisted,
     swe_withdrawals_whitelisted = withdrawals_whitelisted\<rparr>"

definition SetWhitelistEnabledEvent_to_bytes :: "set_whitelist_enabled_event \<Rightarrow> bytes" where
  "SetWhitelistEnabledEvent_to_bytes self =
     EVENT_IX_TAG_LE @ [swe_event_discriminator self]
     @ address_bytes (swe_instance_seed self)
     @ [of_bool (swe_deposits_whitelisted self)]
     @ [of_bool (swe_withdrawals_whitelisted self)]"

section \<open>What an indexer can rely on\<close>

lemmas event_new_defs =
  CreateInstanceEvent_new_def
  AllowMintEvent_new_def
  BlockMintEvent_new_def
  AddOperatorEvent_new_def
  RemoveOperatorEvent_new_def
  SetNewAdminEvent_new_def
  DepositEvent_new_def
  ReleaseFundsEvent_new_def
  RotateBitmapEvent_new_def
  AddOrUpdateAllowedWalletEvent_new_def
  RemoveAllowedWalletEvent_new_def
  SetWhitelistEnabledEvent_new_def

lemmas event_to_bytes_defs =
  CreateInstanceEvent_to_bytes_def
  AllowMintEvent_to_bytes_def
  BlockMintEvent_to_bytes_def
  AddOperatorEvent_to_bytes_def
  RemoveOperatorEvent_to_bytes_def
  SetNewAdminEvent_to_bytes_def
  DepositEvent_to_bytes_def
  ReleaseFundsEvent_to_bytes_def
  RotateBitmapEvent_to_bytes_def
  AddOrUpdateAllowedWalletEvent_to_bytes_def
  RemoveAllowedWalletEvent_to_bytes_def
  SetWhitelistEnabledEvent_to_bytes_def

lemma length_EVENT_IX_TAG_LE [simp]: "length EVENT_IX_TAG_LE = 8"
  by (simp add: EVENT_IX_TAG_LE_def)

lemma EVENT_IX_TAG_LE_eq: "EVENT_IX_TAG_LE = [0xe4, 0x45, 0xa5, 0x2e, 0x51, 0xcb, 0x9a, 0x1d]"
  by (simp add: EVENT_IX_TAG_LE_def EVENT_IX_TAG_def u64_le_def)

lemma of_bool_u8_inject [simp]: "(of_bool a :: u8) = of_bool b \<longleftrightarrow> a = b"
  by (cases a; cases b) simp_all

end
