(* ===== verification/Escrow_Processor.thy ===== *)
theory Escrow_Processor
  imports Escrow_Token Escrow_Events
begin

text \<open>
  The escrow program's instruction handlers (\<open>processor/*.rs\<close>) and the entrypoint that
  dispatches to them. A handler takes the runtime, the program id, the account views, the
  instruction data after the discriminator byte, and the world; it returns the new world or the
  error. The address lists given to the mutable borrows are the shared borrows the handler still
  holds at that point.
\<close>

type_synonym handler = "runtime \<Rightarrow> address \<Rightarrow> account_view list \<Rightarrow> bytes \<Rightarrow> world \<Rightarrow> world res"

section \<open>CreateInstance\<close>

record create_instance_args =
  cia_bump :: u8
  cia_bitmap_bump :: u8

definition create_instance_process_instruction_data :: "bytes \<Rightarrow> create_instance_args res" where
  "create_instance_process_instruction_data bs =
     bindE (require_len bs 2) (\<lambda>_. Inr \<lparr>cia_bump = bs ! 0, cia_bitmap_bump = bs ! 1\<rparr>)"

definition process_create_instance :: handler where
  "process_create_instance rt program_id accounts instruction_data w =
     bindE (create_instance_process_instruction_data instruction_data) (\<lambda>args.
     bindE (guardE (length accounts = 8) NotEnoughAccountKeys) (\<lambda>_.
     let payer_info = accounts ! 0; admin_info = accounts ! 1; instance_seed_info = accounts ! 2;
         instance_info = accounts ! 3; withdrawal_bitmap_info = accounts ! 4;
         system_program_info = accounts ! 5; event_authority_info = accounts ! 6;
         program_info = accounts ! 7 in
     bindE (verify_signer payer_info True) (\<lambda>_.
     bindE (verify_signer admin_info False) (\<lambda>_.
     bindE (verify_signer instance_seed_info False) (\<lambda>_.
     bindE (verify_system_account w instance_info True) (\<lambda>_.
     bindE (verify_system_account w withdrawal_bitmap_info True) (\<lambda>_.
     bindE (verify_system_program system_program_info) (\<lambda>_.
     bindE (verify_current_program program_info) (\<lambda>_.
     bindE (validate_event_authority rt event_authority_info) (\<lambda>_.
     let inst = Instance_new (cia_bump args) (av_address instance_seed_info)
           (av_address admin_info) in
     bindE (Instance_validate_pda rt w inst instance_info) (\<lambda>_.
     let instance_seeds =
           [INSTANCE_SEED, address_bytes (inst_instance_seed inst), [cia_bump args]] in
     bindE (rt_rent rt) (\<lambda>rent.
     bindE (create_pda_account rt payer_info rent Instance_LEN program_id instance_info
       instance_seeds None w) (\<lambda>w.
     bindE (copy_to_prefix [] instance_info (Instance_to_bytes inst) w) (\<lambda>w.
     bindE (validate_pda_account rt w
       [WITHDRAWAL_BITMAP_SEED, address_bytes (av_address instance_info)] program_id
       (cia_bitmap_bump args) withdrawal_bitmap_info) (\<lambda>_.
     let bitmap_seeds = [WITHDRAWAL_BITMAP_SEED, address_bytes (av_address instance_info),
           [cia_bitmap_bump args]] in
     bindE (create_pda_account rt payer_info rent WithdrawalBitmap_LEN program_id
       withdrawal_bitmap_info bitmap_seeds None w) (\<lambda>w.
     bindE (try_borrow_mut [] withdrawal_bitmap_info) (\<lambda>_.
     bindE (WithdrawalBitmap_init (data_of w withdrawal_bitmap_info) (cia_bitmap_bump args)) (\<lambda>bm.
     let w = set_data withdrawal_bitmap_info bm w;
         event = CreateInstanceEvent_new (av_address instance_seed_info) (av_address admin_info) in
     emit_event rt program_id event_authority_info program_info
       (CreateInstanceEvent_to_bytes event) w))))))))))))))))))"

section \<open>AllowMint\<close>

record allow_mint_args =
  ama_bump :: u8
  ama_withdraw_fee :: u64
  ama_min_withdraw_amount :: u64
  ama_min_deposit_amount :: u64

definition allow_mint_process_instruction_data :: "bytes \<Rightarrow> allow_mint_args res" where
  "allow_mint_process_instruction_data bs =
     bindE (require_len bs (1 + 8 + 8 + 8)) (\<lambda>_.
     Inr \<lparr>ama_bump = bs ! 0, ama_withdraw_fee = u64_of_le (slice 1 8 bs),
          ama_min_withdraw_amount = u64_of_le (slice 9 8 bs),
          ama_min_deposit_amount = u64_of_le (slice 17 8 bs)\<rparr>)"

definition process_allow_mint :: handler where
  "process_allow_mint rt program_id accounts instruction_data w =
     bindE (allow_mint_process_instruction_data instruction_data) (\<lambda>args.
     bindE (guardE (length accounts = 11) NotEnoughAccountKeys) (\<lambda>_.
     let payer_info = accounts ! 0; admin_info = accounts ! 1; instance_info = accounts ! 2;
         mint_info = accounts ! 3; allowed_mint_info = accounts ! 4;
         instance_ata_info = accounts ! 5; system_program_info = accounts ! 6;
         token_program_info = accounts ! 7; associated_token_program_info = accounts ! 8;
         event_authority_info = accounts ! 9; program_info = accounts ! 10 in
     bindE (verify_signer payer_info True) (\<lambda>_.
     bindE (verify_signer admin_info False) (\<lambda>_.
     bindE (verify_mutability allowed_mint_info True) (\<lambda>_.
     bindE (verify_ata_program associated_token_program_info) (\<lambda>_.
     bindE (verify_system_program system_program_info) (\<lambda>_.
     bindE (verify_token_programs token_program_info) (\<lambda>_.
     bindE (verify_current_program program_info) (\<lambda>_.
     bindE (validate_event_authority rt event_authority_info) (\<lambda>_.
     bindE (verify_account_owner w mint_info (av_address token_program_info)) (\<lambda>_.
     bindE (guardE (av_address mint_info \<noteq> SPL_NATIVE_MINT) (escrow_err InvalidMint)) (\<lambda>_.
     bindE (read_mint_profile rt w mint_info) (\<lambda>mint_profile.
     let mint_decimals = mp_decimals mint_profile in
     bindE (Instance_try_from_bytes (data_of w instance_info)) (\<lambda>inst.
     bindE (map_errE (escrow_err InvalidInstance)
       (Instance_validate_pda rt w inst instance_info)) (\<lambda>_.
     bindE (Instance_validate_admin inst (av_address admin_info)) (\<lambda>_.
     bindE (get_or_create_ata rt instance_ata_info instance_info mint_info payer_info
       system_program_info token_program_info w) (\<lambda>w.
     let allowed_mint = AllowedMint_new (ama_bump args) mint_decimals
           (av_address token_program_info) (mp_extensions mint_profile)
           (mp_has_freeze_authority mint_profile) (ama_min_deposit_amount args) in
     bindE (map_errE (escrow_err InvalidAllowedMint)
       (AllowedMint_validate_pda rt w allowed_mint (av_address instance_info)
         (av_address mint_info) allowed_mint_info)) (\<lambda>_.
     bindE
       (if is_data_empty w allowed_mint_info then
          bindE (verify_system_account w allowed_mint_info True) (\<lambda>_.
          let allowed_mint_seeds = [ALLOWED_MINT_SEED, address_bytes (av_address instance_info),
                address_bytes (av_address mint_info), [ama_bump args]] in
          bindE (rt_rent rt) (\<lambda>rent.
          create_pda_account rt payer_info rent AllowedMint_LEN program_id allowed_mint_info
            allowed_mint_seeds None w))
        else
          bindE (AllowedMint_try_from_bytes (data_of w allowed_mint_info)) (\<lambda>_. Inr w)) (\<lambda>w.
     bindE (copy_from_slice [av_address instance_info] allowed_mint_info
       (AllowedMint_to_bytes allowed_mint) w) (\<lambda>w.
     let event = AllowMintEvent_new (inst_instance_seed inst) (av_address mint_info)
           mint_decimals (ama_withdraw_fee args) (ama_min_withdraw_amount args)
           (ama_min_deposit_amount args) in
     emit_event rt program_id event_authority_info program_info
       (AllowMintEvent_to_bytes event) w))))))))))))))))))))"

section \<open>BlockMint\<close>

record block_mint_args =
  bma_block_deposits :: bool
  bma_block_withdrawals :: bool

definition block_mint_process_instruction_data :: "bytes \<Rightarrow> block_mint_args res" where
  "block_mint_process_instruction_data bs =
     bindE (require_len bs 2) (\<lambda>_.
     bindE (bool_of_byte InvalidInstructionData (bs ! 0)) (\<lambda>block_deposits.
     bindE (bool_of_byte InvalidInstructionData (bs ! 1)) (\<lambda>block_withdrawals.
     Inr \<lparr>bma_block_deposits = block_deposits, bma_block_withdrawals = block_withdrawals\<rparr>)))"

definition process_block_mint :: handler where
  "process_block_mint rt program_id accounts instruction_data w =
     bindE (block_mint_process_instruction_data instruction_data) (\<lambda>args.
     bindE (guardE (length accounts = 7) NotEnoughAccountKeys) (\<lambda>_.
     let payer_info = accounts ! 0; admin_info = accounts ! 1; instance_info = accounts ! 2;
         mint_info = accounts ! 3; allowed_mint_info = accounts ! 4;
         event_authority_info = accounts ! 5; program_info = accounts ! 6 in
     bindE (verify_signer payer_info True) (\<lambda>_.
     bindE (verify_signer admin_info False) (\<lambda>_.
     bindE (verify_mutability allowed_mint_info True) (\<lambda>_.
     bindE (verify_current_program program_info) (\<lambda>_.
     bindE (validate_event_authority rt event_authority_info) (\<lambda>_.
     bindE (Instance_try_from_bytes (data_of w instance_info)) (\<lambda>inst.
     bindE (map_errE (escrow_err InvalidInstance)
       (Instance_validate_pda rt w inst instance_info)) (\<lambda>_.
     bindE (Instance_validate_admin inst (av_address admin_info)) (\<lambda>_.
     bindE (AllowedMint_try_from_bytes (data_of w allowed_mint_info)) (\<lambda>allowed_mint.
     bindE (map_errE (escrow_err InvalidAllowedMint)
       (AllowedMint_validate_pda rt w allowed_mint (av_address instance_info)
         (av_address mint_info) allowed_mint_info)) (\<lambda>_.
     let allowed_mint = allowed_mint\<lparr>am_deposits_blocked := bma_block_deposits args,
           am_withdrawals_blocked := bma_block_withdrawals args\<rparr> in
     bindE (copy_from_slice [av_address instance_info] allowed_mint_info
       (AllowedMint_to_bytes allowed_mint) w) (\<lambda>w.
     let event = BlockMintEvent_new (inst_instance_seed inst) (av_address mint_info)
           (am_deposits_blocked allowed_mint) (am_withdrawals_blocked allowed_mint) in
     emit_event rt program_id event_authority_info program_info
       (BlockMintEvent_to_bytes event) w)))))))))))))"

section \<open>AddOperator\<close>

record add_operator_args =
  aoa_bump :: u8

definition add_operator_process_instruction_data :: "bytes \<Rightarrow> add_operator_args res" where
  "add_operator_process_instruction_data bs =
     bindE (require_len bs 1) (\<lambda>_. Inr \<lparr>aoa_bump = bs ! 0\<rparr>)"

definition process_add_operator :: handler where
  "process_add_operator rt program_id accounts instruction_data w =
     bindE (add_operator_process_instruction_data instruction_data) (\<lambda>args.
     bindE (guardE (length accounts = 8) NotEnoughAccountKeys) (\<lambda>_.
     let payer_info = accounts ! 0; admin_info = accounts ! 1; instance_info = accounts ! 2;
         operator_pda = accounts ! 3; operator_pda_info = accounts ! 4;
         system_program_info = accounts ! 5; event_authority_info = accounts ! 6;
         program_info = accounts ! 7 in
     bindE (verify_signer payer_info True) (\<lambda>_.
     bindE (verify_signer admin_info False) (\<lambda>_.
     bindE (verify_system_account w operator_pda_info True) (\<lambda>_.
     bindE (verify_system_program system_program_info) (\<lambda>_.
     bindE (verify_current_program program_info) (\<lambda>_.
     bindE (validate_event_authority rt event_authority_info) (\<lambda>_.
     bindE (Instance_try_from_bytes (data_of w instance_info)) (\<lambda>inst.
     bindE (map_errE (escrow_err InvalidInstance)
       (Instance_validate_pda rt w inst instance_info)) (\<lambda>_.
     bindE (Instance_validate_admin inst (av_address admin_info)) (\<lambda>_.
     let operator = Operator_new (aoa_bump args) in
     bindE (Operator_validate_pda rt w operator (av_address instance_info)
       (av_address operator_pda) operator_pda_info) (\<lambda>_.
     let operator_seeds = [OPERATOR_SEED, address_bytes (av_address instance_info),
           address_bytes (av_address operator_pda), [aoa_bump args]] in
     bindE (rt_rent rt) (\<lambda>rent.
     bindE (create_pda_account rt payer_info rent Operator_LEN program_id operator_pda_info
       operator_seeds None w) (\<lambda>w.
     bindE (copy_to_prefix [av_address instance_info] operator_pda_info
       (Operator_to_bytes operator) w) (\<lambda>w.
     let event = AddOperatorEvent_new (inst_instance_seed inst) (av_address operator_pda) in
     emit_event rt program_id event_authority_info program_info
       (AddOperatorEvent_to_bytes event) w)))))))))))))))"

section \<open>RemoveOperator\<close>

definition process_remove_operator :: handler where
  "process_remove_operator rt program_id accounts instruction_data w =
     bindE (guardE (length accounts = 8) NotEnoughAccountKeys) (\<lambda>_.
     let payer_info = accounts ! 0; admin_info = accounts ! 1; instance_info = accounts ! 2;
         operator_info = accounts ! 3; operator_pda_info = accounts ! 4;
         system_program_info = accounts ! 5; event_authority_info = accounts ! 6;
         program_info = accounts ! 7 in
     bindE (verify_signer payer_info True) (\<lambda>_.
     bindE (verify_signer admin_info False) (\<lambda>_.
     bindE (verify_system_program system_program_info) (\<lambda>_.
     bindE (verify_current_program program_info) (\<lambda>_.
     bindE (validate_event_authority rt event_authority_info) (\<lambda>_.
     bindE (Instance_try_from_bytes (data_of w instance_info)) (\<lambda>inst.
     bindE (map_errE (escrow_err InvalidInstance)
       (Instance_validate_pda rt w inst instance_info)) (\<lambda>_.
     bindE (Instance_validate_admin inst (av_address admin_info)) (\<lambda>_.
     bindE (Operator_try_from_bytes (data_of w operator_pda_info)) (\<lambda>operator.
     bindE (Operator_validate_pda rt w operator (av_address instance_info)
       (av_address operator_info) operator_pda_info) (\<lambda>_.
     bindE (ok_orE (checked_add (lamports_of w payer_info) (lamports_of w operator_pda_info))
       Panic) (\<lambda>lamports.
     let w = set_lamports operator_pda_info 0 (set_lamports payer_info lamports w) in
     bindE (close_account [av_address instance_info] operator_pda_info w) (\<lambda>w.
     let event = RemoveOperatorEvent_new (inst_instance_seed inst) (av_address operator_info) in
     emit_event rt program_id event_authority_info program_info
       (RemoveOperatorEvent_to_bytes event) w)))))))))))))"

section \<open>SetNewAdmin\<close>

definition process_set_new_admin :: handler where
  "process_set_new_admin rt program_id accounts instruction_data w =
     bindE (guardE (length accounts = 6) NotEnoughAccountKeys) (\<lambda>_.
     let payer_info = accounts ! 0; current_admin_info = accounts ! 1;
         instance_info = accounts ! 2; new_admin_info = accounts ! 3;
         event_authority_info = accounts ! 4; program_info = accounts ! 5 in
     bindE (verify_signer payer_info True) (\<lambda>_.
     bindE (verify_signer current_admin_info False) (\<lambda>_.
     bindE (verify_signer new_admin_info False) (\<lambda>_.
     bindE (verify_current_program program_info) (\<lambda>_.
     bindE (validate_event_authority rt event_authority_info) (\<lambda>_.
     bindE (Instance_try_from_bytes (data_of w instance_info)) (\<lambda>inst.
     bindE (map_errE (escrow_err InvalidInstance)
       (Instance_validate_pda rt w inst instance_info)) (\<lambda>_.
     bindE (Instance_validate_admin inst (av_address current_admin_info)) (\<lambda>_.
     let old_admin = inst_admin inst;
         inst = inst\<lparr>inst_admin := av_address new_admin_info\<rparr>;
         updated = Instance_to_bytes inst in
     bindE (try_borrow_mut [] instance_info) (\<lambda>_.
     let bs = data_of w instance_info;
         written = min (length bs) (length updated);
         w = set_data instance_info (take written updated @ drop written bs) w;
         event = SetNewAdminEvent_new (inst_instance_seed inst) old_admin (inst_admin inst) in
     emit_event rt program_id event_authority_info program_info
       (SetNewAdminEvent_to_bytes event) w))))))))))"

section \<open>Deposit\<close>

definition DEPOSIT_FIXED_ACCOUNTS_LEN :: nat where
  "DEPOSIT_FIXED_ACCOUNTS_LEN = 14"

record deposit_args =
  da_amount :: u64
  da_recipient :: "address option"

definition deposit_process_instruction_data :: "bytes \<Rightarrow> deposit_args res" where
  "deposit_process_instruction_data bs =
     bindE (require_len bs 9) (\<lambda>_.
     let amount = u64_of_le (slice 0 8 bs); tag = bs ! 8 in
     bindE (if tag = 0 then Inr None
            else if tag = 1 then
              bindE (require_len bs (9 + 32)) (\<lambda>_. Inr (Some (address_of_bytes (slice 9 32 bs))))
            else Inl InvalidInstructionData) (\<lambda>recipient.
     Inr \<lparr>da_amount = amount, da_recipient = recipient\<rparr>))"

definition process_deposit :: handler where
  "process_deposit rt program_id accounts instruction_data w =
     bindE (deposit_process_instruction_data instruction_data) (\<lambda>args.
     bindE (guardE (da_amount args \<noteq> 0) (escrow_err ZeroAmount)) (\<lambda>_.
     bindE (guardE (\<not> length accounts < DEPOSIT_FIXED_ACCOUNTS_LEN) NotEnoughAccountKeys) (\<lambda>_.
     let hook_extras = drop DEPOSIT_FIXED_ACCOUNTS_LEN accounts;
         payer_info = accounts ! 0; user_info = accounts ! 1; instance_info = accounts ! 2;
         mint_info = accounts ! 3; allowed_mint_info = accounts ! 4; user_ata_info = accounts ! 5;
         instance_ata_info = accounts ! 6; system_program_info = accounts ! 7;
         token_program_info = accounts ! 8; associated_token_program_info = accounts ! 9;
         event_authority_info = accounts ! 10; program_info = accounts ! 11;
         user_allowed_wallet_pda_info = accounts ! 12;
         recipient_allowed_wallet_pda_info = accounts ! 13 in
     bindE (verify_signer payer_info True) (\<lambda>_.
     bindE (verify_signer user_info False) (\<lambda>_.
     bindE (verify_ata_program associated_token_program_info) (\<lambda>_.
     bindE (verify_system_program system_program_info) (\<lambda>_.
     bindE (verify_token_programs token_program_info) (\<lambda>_.
     bindE (verify_current_program program_info) (\<lambda>_.
     bindE (validate_event_authority rt event_authority_info) (\<lambda>_.
     bindE (verify_account_owner w mint_info (av_address token_program_info)) (\<lambda>_.
     bindE (Instance_try_from_bytes (data_of w instance_info)) (\<lambda>inst.
     bindE (map_errE (escrow_err InvalidInstance)
       (Instance_validate_pda rt w inst instance_info)) (\<lambda>_.
     bindE (AllowedMint_try_from_bytes (data_of w allowed_mint_info)) (\<lambda>allowed_mint.
     bindE (map_errE (escrow_err InvalidAllowedMint)
       (AllowedMint_validate_pda rt w allowed_mint (av_address instance_info)
         (av_address mint_info) allowed_mint_info)) (\<lambda>_.
     bindE (guardE (\<not> am_deposits_blocked allowed_mint) (escrow_err DepositsBlockedForMint)) (\<lambda>_.
     let recipient = (case da_recipient args of None \<Rightarrow> av_address user_info | Some r \<Rightarrow> r) in
     bindE
       (if inst_deposits_whitelisted inst then
          bindE (AllowedWallet_verify_allowed rt w user_allowed_wallet_pda_info
            (av_address instance_info) (av_address user_info) DepositDirection) (\<lambda>_.
          AllowedWallet_verify_allowed rt w recipient_allowed_wallet_pda_info
            (av_address instance_info) recipient DepositDirection)
        else Inr ()) (\<lambda>_.
     bindE (read_mint_profile rt w mint_info) (\<lambda>mint_profile.
     let mint_decimals = mp_decimals mint_profile in
     bindE (guardE (\<not> AllowedMint_profile_changed rt allowed_mint mint_profile
         (av_address token_program_info)) (escrow_err MintProfileChanged)) (\<lambda>_.
     bindE (validate_ata rt w user_ata_info (av_address user_info) mint_info
       token_program_info) (\<lambda>_.
     bindE (validate_ata rt w instance_ata_info (av_address instance_info) mint_info
       token_program_info) (\<lambda>_.
     bindE (get_token_account_balance rt w instance_ata_info) (\<lambda>escrow_token_balance_before.
     bindE (transfer_checked_cpi rt user_ata_info mint_info instance_ata_info user_info
       (da_amount args) mint_decimals (av_address token_program_info) None hook_extras [] w) (\<lambda>w.
     bindE (get_token_account_balance rt w instance_ata_info) (\<lambda>escrow_token_balance_after.
     bindE (ok_orE (checked_sub escrow_token_balance_after escrow_token_balance_before)
       (escrow_err InvalidEscrowBalance)) (\<lambda>received.
     bindE (guardE (received \<noteq> 0) (escrow_err ZeroAmount)) (\<lambda>_.
     bindE (guardE (\<not> received < am_min_deposit_amount allowed_mint)
       (escrow_err BelowMinimumDeposit)) (\<lambda>_.
     let event = DepositEvent_new (inst_instance_seed inst) (av_address user_info) received
           recipient (av_address mint_info) in
     emit_event rt program_id event_authority_info program_info
       (DepositEvent_to_bytes event) w)))))))))))))))))))))))))))"

section \<open>ReleaseFunds\<close>

definition RELEASE_INSTRUCTION_DATA_LENGTH :: nat where
  "RELEASE_INSTRUCTION_DATA_LENGTH = 8 + 32 + 8 + 32"

definition RELEASE_FIXED_ACCOUNTS_LEN :: nat where
  "RELEASE_FIXED_ACCOUNTS_LEN = 16"

record release_funds_args =
  rfa_amount :: u64
  rfa_user :: address
  rfa_transaction_nonce :: u64
  rfa_withdrawer :: address

definition release_funds_process_instruction_data :: "bytes \<Rightarrow> release_funds_args res" where
  "release_funds_process_instruction_data bs =
     bindE (require_len bs RELEASE_INSTRUCTION_DATA_LENGTH) (\<lambda>_.
     Inr \<lparr>rfa_amount = u64_of_le (slice 0 8 bs), rfa_user = address_of_bytes (slice 8 32 bs),
          rfa_transaction_nonce = u64_of_le (slice 40 8 bs),
          rfa_withdrawer = address_of_bytes (slice 48 32 bs)\<rparr>)"

definition process_release_funds :: handler where
  "process_release_funds rt program_id accounts instruction_data w =
     bindE (release_funds_process_instruction_data instruction_data) (\<lambda>args.
     bindE (guardE (\<not> length accounts < RELEASE_FIXED_ACCOUNTS_LEN) NotEnoughAccountKeys) (\<lambda>_.
     let hook_extras = drop RELEASE_FIXED_ACCOUNTS_LEN accounts;
         payer_info = accounts ! 0; operator_info = accounts ! 1; instance_info = accounts ! 2;
         withdrawal_bitmap_info = accounts ! 3; operator_pda_info = accounts ! 4;
         mint_info = accounts ! 5; allowed_mint_info = accounts ! 6; user_ata_info = accounts ! 7;
         instance_ata_info = accounts ! 8; token_program_info = accounts ! 9;
         associated_token_program_info = accounts ! 10; event_authority_info = accounts ! 11;
         program_info = accounts ! 12; memo_program_info = accounts ! 13;
         user_allowed_wallet_pda_info = accounts ! 14;
         withdrawer_allowed_wallet_pda_info = accounts ! 15 in
     bindE (verify_signer payer_info True) (\<lambda>_.
     bindE (verify_signer operator_info False) (\<lambda>_.
     bindE (verify_mutability withdrawal_bitmap_info True) (\<lambda>_.
     bindE (verify_ata_program associated_token_program_info) (\<lambda>_.
     bindE (verify_token_programs token_program_info) (\<lambda>_.
     bindE (verify_current_program program_info) (\<lambda>_.
     bindE (validate_event_authority rt event_authority_info) (\<lambda>_.
     bindE (verify_account_owner w mint_info (av_address token_program_info)) (\<lambda>_.
     bindE (Instance_try_from_bytes (data_of w instance_info)) (\<lambda>inst.
     bindE (map_errE (escrow_err InvalidInstance)
       (Instance_validate_pda rt w inst instance_info)) (\<lambda>_.
     bindE (Operator_try_from_bytes (data_of w operator_pda_info)) (\<lambda>operator_pda.
     bindE (map_errE (escrow_err InvalidOperatorPda)
       (Operator_validate_pda rt w operator_pda (av_address instance_info)
         (av_address operator_info) operator_pda_info)) (\<lambda>_.
     bindE (AllowedMint_try_from_bytes (data_of w allowed_mint_info)) (\<lambda>allowed_mint.
     bindE (map_errE (escrow_err InvalidAllowedMint)
       (AllowedMint_validate_pda rt w allowed_mint (av_address instance_info)
         (av_address mint_info) allowed_mint_info)) (\<lambda>_.
     bindE (guardE (\<not> am_withdrawals_blocked allowed_mint)
       (escrow_err WithdrawalsBlockedForMint)) (\<lambda>_.
     bindE
       (if inst_withdrawals_whitelisted inst then
          bindE (AllowedWallet_verify_allowed rt w withdrawer_allowed_wallet_pda_info
            (av_address instance_info) (rfa_withdrawer args) WithdrawDirection) (\<lambda>_.
          AllowedWallet_verify_allowed rt w user_allowed_wallet_pda_info
            (av_address instance_info) (rfa_user args) WithdrawDirection)
        else Inr ()) (\<lambda>_.
     bindE (validate_ata rt w user_ata_info (rfa_user args) mint_info token_program_info) (\<lambda>_.
     bindE (validate_ata rt w instance_ata_info (av_address instance_info) mint_info
       token_program_info) (\<lambda>_.
     bindE (try_borrow_mut [av_address instance_info, av_address operator_pda_info,
       av_address allowed_mint_info] withdrawal_bitmap_info) (\<lambda>_.
     let bitmap_data = data_of w withdrawal_bitmap_info in
     bindE (WithdrawalBitmap_validate rt w bitmap_data (av_address instance_info)
       withdrawal_bitmap_info) (\<lambda>_.
     bindE (WithdrawalBitmap_validate_generation bitmap_data (rfa_transaction_nonce args)) (\<lambda>_.
     bindE (WithdrawalBitmap_consume_nonce bitmap_data (rfa_transaction_nonce args)) (\<lambda>bitmap_data.
     let w = set_data withdrawal_bitmap_info bitmap_data w in
     bindE (get_token_account_balance rt w instance_ata_info) (\<lambda>escrow_token_balance_before.
     let signer_seeds =
           [INSTANCE_SEED, address_bytes (inst_instance_seed inst), [inst_bump inst]] in
     bindE (get_mint_decimals rt w mint_info) (\<lambda>mint_decimals.
     bindE (transfer_checked_cpi rt instance_ata_info mint_info user_ata_info instance_info
       (rfa_amount args) mint_decimals (av_address token_program_info) (Some memo_program_info)
       hook_extras [signer_seeds] w) (\<lambda>w.
     bindE (get_token_account_balance rt w instance_ata_info) (\<lambda>escrow_token_balance_after.
     bindE (ok_orE (checked_sub escrow_token_balance_before escrow_token_balance_after)
       (escrow_err InvalidEscrowBalance)) (\<lambda>released.
     let event = ReleaseFundsEvent_new (inst_instance_seed inst) (av_address operator_info)
           released (rfa_user args) (av_address mint_info) in
     emit_event rt program_id event_authority_info program_info
       (ReleaseFundsEvent_to_bytes event) w)))))))))))))))))))))))))))))"

section \<open>RotateBitmap\<close>

definition process_rotate_bitmap :: handler where
  "process_rotate_bitmap rt program_id accounts instruction_data w =
     bindE (guardE (length accounts = 7) NotEnoughAccountKeys) (\<lambda>_.
     let payer_info = accounts ! 0; operator_info = accounts ! 1; instance_info = accounts ! 2;
         withdrawal_bitmap_info = accounts ! 3; operator_pda_info = accounts ! 4;
         event_authority_info = accounts ! 5; program_info = accounts ! 6 in
     bindE (guardE (8 \<le> length instruction_data) InvalidInstructionData) (\<lambda>_.
     let expected_generation = u64_of_le (slice 0 8 instruction_data) in
     bindE (verify_signer payer_info True) (\<lambda>_.
     bindE (verify_signer operator_info False) (\<lambda>_.
     bindE (verify_mutability withdrawal_bitmap_info True) (\<lambda>_.
     bindE (verify_current_program program_info) (\<lambda>_.
     bindE (validate_event_authority rt event_authority_info) (\<lambda>_.
     bindE (Instance_try_from_bytes (data_of w instance_info)) (\<lambda>inst.
     bindE (map_errE (escrow_err InvalidInstance)
       (Instance_validate_pda rt w inst instance_info)) (\<lambda>_.
     bindE (Operator_try_from_bytes (data_of w operator_pda_info)) (\<lambda>operator_pda.
     bindE (map_errE (escrow_err InvalidOperatorPda)
       (Operator_validate_pda rt w operator_pda (av_address instance_info)
         (av_address operator_info) operator_pda_info)) (\<lambda>_.
     bindE (try_borrow_mut [av_address instance_info, av_address operator_pda_info]
       withdrawal_bitmap_info) (\<lambda>_.
     let bitmap_data = data_of w withdrawal_bitmap_info in
     bindE (WithdrawalBitmap_validate rt w bitmap_data (av_address instance_info)
       withdrawal_bitmap_info) (\<lambda>_.
     bindE (WithdrawalBitmap_rotate bitmap_data expected_generation) (\<lambda>bitmap_data.
     bindE (WithdrawalBitmap_generation bitmap_data) (\<lambda>new_generation.
     let w = set_data withdrawal_bitmap_info bitmap_data w;
         event = RotateBitmapEvent_new (inst_instance_seed inst) (av_address operator_info)
           new_generation in
     emit_event rt program_id event_authority_info program_info
       (RotateBitmapEvent_to_bytes event) w)))))))))))))))"

section \<open>AddOrUpdateAllowedWallet\<close>

record add_or_update_allowed_wallet_args =
  uwa_bump :: u8
  uwa_block_deposits :: bool
  uwa_block_withdrawals :: bool

definition add_or_update_allowed_wallet_process_instruction_data ::
  "bytes \<Rightarrow> add_or_update_allowed_wallet_args res" where
  "add_or_update_allowed_wallet_process_instruction_data bs =
     bindE (require_len bs 3) (\<lambda>_.
     bindE (bool_of_byte InvalidInstructionData (bs ! 1)) (\<lambda>block_deposits.
     bindE (bool_of_byte InvalidInstructionData (bs ! 2)) (\<lambda>block_withdrawals.
     bindE (guardE (\<not> (block_deposits \<and> block_withdrawals)) InvalidInstructionData) (\<lambda>_.
     Inr \<lparr>uwa_bump = bs ! 0, uwa_block_deposits = block_deposits,
          uwa_block_withdrawals = block_withdrawals\<rparr>))))"

definition process_add_or_update_allowed_wallet :: handler where
  "process_add_or_update_allowed_wallet rt program_id accounts instruction_data w =
     bindE (add_or_update_allowed_wallet_process_instruction_data instruction_data) (\<lambda>args.
     bindE (guardE (length accounts = 8) NotEnoughAccountKeys) (\<lambda>_.
     let payer_info = accounts ! 0; admin_info = accounts ! 1; instance_info = accounts ! 2;
         wallet_info = accounts ! 3; allowed_wallet_pda_info = accounts ! 4;
         system_program_info = accounts ! 5; event_authority_info = accounts ! 6;
         program_info = accounts ! 7 in
     bindE (verify_signer payer_info True) (\<lambda>_.
     bindE (verify_signer admin_info False) (\<lambda>_.
     bindE (verify_mutability allowed_wallet_pda_info True) (\<lambda>_.
     bindE (verify_system_program system_program_info) (\<lambda>_.
     bindE (verify_current_program program_info) (\<lambda>_.
     bindE (validate_event_authority rt event_authority_info) (\<lambda>_.
     bindE (Instance_try_from_bytes (data_of w instance_info)) (\<lambda>inst.
     bindE (map_errE (escrow_err InvalidInstance)
       (Instance_validate_pda rt w inst instance_info)) (\<lambda>_.
     bindE (Instance_validate_admin inst (av_address admin_info)) (\<lambda>_.
     let allowed_wallet = AllowedWallet_new (uwa_bump args) (uwa_block_deposits args)
           (uwa_block_withdrawals args) in
     bindE (map_errE (escrow_err InvalidAllowedWalletPda)
       (AllowedWallet_validate_pda rt w allowed_wallet (av_address instance_info)
         (av_address wallet_info) allowed_wallet_pda_info)) (\<lambda>_.
     bindE
       (if is_data_empty w allowed_wallet_pda_info then
          bindE (verify_system_account w allowed_wallet_pda_info True) (\<lambda>_.
          let allowed_wallet_seeds = [ALLOWED_WALLET_SEED,
                address_bytes (av_address instance_info), address_bytes (av_address wallet_info),
                [uwa_bump args]] in
          bindE (rt_rent rt) (\<lambda>rent.
          create_pda_account rt payer_info rent AllowedWallet_LEN program_id
            allowed_wallet_pda_info allowed_wallet_seeds None w))
        else
          bindE (AllowedWallet_try_from_bytes (data_of w allowed_wallet_pda_info)) (\<lambda>_.
          Inr w)) (\<lambda>w.
     bindE (copy_to_prefix [av_address instance_info] allowed_wallet_pda_info
       (AllowedWallet_to_bytes allowed_wallet) w) (\<lambda>w.
     let event = AddOrUpdateAllowedWalletEvent_new (inst_instance_seed inst)
           (av_address wallet_info) (aw_deposits_blocked allowed_wallet)
           (aw_withdrawals_blocked allowed_wallet) in
     emit_event rt program_id event_authority_info program_info
       (AddOrUpdateAllowedWalletEvent_to_bytes event) w))))))))))))))"

section \<open>RemoveAllowedWallet\<close>

definition process_remove_allowed_wallet :: handler where
  "process_remove_allowed_wallet rt program_id accounts instruction_data w =
     bindE (guardE (length accounts = 8) NotEnoughAccountKeys) (\<lambda>_.
     let payer_info = accounts ! 0; admin_info = accounts ! 1; instance_info = accounts ! 2;
         wallet_info = accounts ! 3; allowed_wallet_pda_info = accounts ! 4;
         system_program_info = accounts ! 5; event_authority_info = accounts ! 6;
         program_info = accounts ! 7 in
     bindE (verify_signer payer_info True) (\<lambda>_.
     bindE (verify_signer admin_info False) (\<lambda>_.
     bindE (verify_system_program system_program_info) (\<lambda>_.
     bindE (verify_current_program program_info) (\<lambda>_.
     bindE (validate_event_authority rt event_authority_info) (\<lambda>_.
     bindE (Instance_try_from_bytes (data_of w instance_info)) (\<lambda>inst.
     bindE (map_errE (escrow_err InvalidInstance)
       (Instance_validate_pda rt w inst instance_info)) (\<lambda>_.
     bindE (Instance_validate_admin inst (av_address admin_info)) (\<lambda>_.
     bindE (AllowedWallet_try_from_bytes (data_of w allowed_wallet_pda_info)) (\<lambda>allowed_wallet.
     bindE (map_errE (escrow_err InvalidAllowedWalletPda)
       (AllowedWallet_validate_pda rt w allowed_wallet (av_address instance_info)
         (av_address wallet_info) allowed_wallet_pda_info)) (\<lambda>_.
     bindE (ok_orE (checked_add (lamports_of w payer_info)
       (lamports_of w allowed_wallet_pda_info)) ArithmeticOverflow) (\<lambda>lamports.
     let w = set_lamports allowed_wallet_pda_info 0 (set_lamports payer_info lamports w) in
     bindE (close_account [av_address instance_info] allowed_wallet_pda_info w) (\<lambda>w.
     let event = RemoveAllowedWalletEvent_new (inst_instance_seed inst)
           (av_address wallet_info) in
     emit_event rt program_id event_authority_info program_info
       (RemoveAllowedWalletEvent_to_bytes event) w)))))))))))))"

section \<open>SetWhitelistEnabled\<close>

record set_whitelist_enabled_args =
  swa_whitelist_deposits :: bool
  swa_whitelist_withdrawals :: bool

definition set_whitelist_enabled_process_instruction_data ::
  "bytes \<Rightarrow> set_whitelist_enabled_args res" where
  "set_whitelist_enabled_process_instruction_data bs =
     bindE (require_len bs 2) (\<lambda>_.
     bindE (bool_of_byte InvalidInstructionData (bs ! 0)) (\<lambda>whitelist_deposits.
     bindE (bool_of_byte InvalidInstructionData (bs ! 1)) (\<lambda>whitelist_withdrawals.
     Inr \<lparr>swa_whitelist_deposits = whitelist_deposits,
          swa_whitelist_withdrawals = whitelist_withdrawals\<rparr>)))"

definition process_set_whitelist_enabled :: handler where
  "process_set_whitelist_enabled rt program_id accounts instruction_data w =
     bindE (set_whitelist_enabled_process_instruction_data instruction_data) (\<lambda>args.
     bindE (guardE (length accounts = 6) NotEnoughAccountKeys) (\<lambda>_.
     let payer_info = accounts ! 0; admin_info = accounts ! 1; instance_info = accounts ! 2;
         system_program_info = accounts ! 3; event_authority_info = accounts ! 4;
         program_info = accounts ! 5 in
     bindE (verify_signer payer_info True) (\<lambda>_.
     bindE (verify_signer admin_info False) (\<lambda>_.
     bindE (verify_mutability instance_info True) (\<lambda>_.
     bindE (verify_system_program system_program_info) (\<lambda>_.
     bindE (verify_current_program program_info) (\<lambda>_.
     bindE (validate_event_authority rt event_authority_info) (\<lambda>_.
     bindE (Instance_try_from_bytes (data_of w instance_info)) (\<lambda>inst.
     bindE (map_errE (escrow_err InvalidInstance)
       (Instance_validate_pda rt w inst instance_info)) (\<lambda>_.
     bindE (Instance_validate_admin inst (av_address admin_info)) (\<lambda>_.
     let inst = inst\<lparr>inst_deposits_whitelisted := swa_whitelist_deposits args,
           inst_withdrawals_whitelisted := swa_whitelist_withdrawals args,
           inst_version := INSTANCE_VERSION\<rparr> in
     bindE
       (if length (data_of w instance_info) < Instance_LEN then
          bindE (rt_rent rt) (\<lambda>rent.
          bindE (rent Instance_LEN) (\<lambda>balance.
          let top_up = saturating_sub balance (lamports_of w instance_info) in
          bindE (if 0 < top_up
                 then invoke_signed rt
                   (SystemTransfer (av_address payer_info) (av_address instance_info) top_up) [] w
                 else Inr w) (\<lambda>w.
          resize_account [] instance_info Instance_LEN w)))
        else Inr w) (\<lambda>w.
     bindE (copy_to_prefix [] instance_info (Instance_to_bytes inst) w) (\<lambda>w.
     let event = SetWhitelistEnabledEvent_new (inst_instance_seed inst)
           (inst_deposits_whitelisted inst) (inst_withdrawals_whitelisted inst) in
     emit_event rt program_id event_authority_info program_info
       (SetWhitelistEnabledEvent_to_bytes event) w)))))))))))))"

section \<open>EmitEvent and the entrypoint\<close>

definition process_emit_event :: "runtime \<Rightarrow> address \<Rightarrow> account_view list \<Rightarrow> world \<Rightarrow> world res" where
  "process_emit_event rt program_id accounts w =
     bindE (guardE (length accounts = 1) NotEnoughAccountKeys) (\<lambda>_.
     let event_authority = accounts ! 0 in
     bindE (guardE (av_address event_authority = event_authority_pda_ID rt)
       (escrow_err InvalidEventAuthority)) (\<lambda>_.
     bindE (verify_signer event_authority False) (\<lambda>_.
     Inr w)))"

definition process_instruction :: handler where
  "process_instruction rt program_id accounts instruction_data w =
     (case instruction_data of
        [] \<Rightarrow> Inl InvalidInstructionData
      | d # instruction_data \<Rightarrow>
          bindE (ok_orE (escrow_instruction_try_from d) InvalidInstructionData) (\<lambda>discriminator.
          case discriminator of
            CreateInstance \<Rightarrow> process_create_instance rt program_id accounts instruction_data w
          | AllowMint \<Rightarrow> process_allow_mint rt program_id accounts instruction_data w
          | BlockMint \<Rightarrow> process_block_mint rt program_id accounts instruction_data w
          | AddOperator \<Rightarrow> process_add_operator rt program_id accounts instruction_data w
          | RemoveOperator \<Rightarrow> process_remove_operator rt program_id accounts instruction_data w
          | SetNewAdmin \<Rightarrow> process_set_new_admin rt program_id accounts instruction_data w
          | Deposit \<Rightarrow> process_deposit rt program_id accounts instruction_data w
          | ReleaseFunds \<Rightarrow> process_release_funds rt program_id accounts instruction_data w
          | RotateBitmap \<Rightarrow> process_rotate_bitmap rt program_id accounts instruction_data w
          | AddOrUpdateAllowedWallet \<Rightarrow>
              process_add_or_update_allowed_wallet rt program_id accounts instruction_data w
          | RemoveAllowedWallet \<Rightarrow>
              process_remove_allowed_wallet rt program_id accounts instruction_data w
          | SetWhitelistEnabled \<Rightarrow>
              process_set_whitelist_enabled rt program_id accounts instruction_data w
          | EmitEvent \<Rightarrow> process_emit_event rt program_id accounts w))"

end
