(* ===== verification/Indexer_Parser.thy ===== *)
theory Indexer_Parser
  imports Escrow_Processor Withdraw_Program
begin

text \<open>
  The indexer's instruction parsers: \<open>indexer/src/indexer/datasource/common/types.rs\<close>,
  \<open>parser/mod.rs\<close>, \<open>parser/escrow.rs\<close>, \<open>parser/withdraw.rs\<close> and the structural checks of
  \<open>tx_validation.rs\<close>. A confirmed instruction comes as indices into a key list and base58 data;
  the parsers turn it into the record of an escrow or withdraw instruction, and read the amount of
  a deposit and the decimals of an allowed mint from the event the escrow program emitted by
  calling itself.

  The crates \<open>bs58\<close>, \<open>borsh\<close> and \<open>solana_sdk\<close> are the fields of \<open>crates\<close>. A derived
  \<open>BorshDeserialize\<close> reads its fields in order and leaves trailing bytes alone; the primitive
  readers are the parameters. A failure's formatted message is kept as the constructor of
  \<open>parse_failure\<close> that the message comes from, with the numbers it prints.
\<close>

section \<open>What comes from outside the repository\<close>

text \<open>
  A primitive reader takes the remaining bytes and gives the value and the rest, or \<open>None\<close> for its
  I/O error. An \<open>Option\<close> of a public key and of a 32-byte array have the same encoding.
\<close>

record crates =
  cr_bs58_decode :: "string \<Rightarrow> bytes option"
  cr_borsh_u8 :: "bytes \<Rightarrow> (u8 \<times> bytes) option"
  cr_borsh_u64 :: "bytes \<Rightarrow> (u64 \<times> bytes) option"
  cr_borsh_bool :: "bytes \<Rightarrow> (bool \<times> bytes) option"
  cr_borsh_option_32 :: "bytes \<Rightarrow> (bytes option \<times> bytes) option"
  cr_find_program_address :: "bytes list \<Rightarrow> address \<Rightarrow> address \<times> u8"

text \<open>The Borsh specification of these types.\<close>

definition borsh_contract :: "'a crates_scheme \<Rightarrow> bool" where
  "borsh_contract cr \<longleftrightarrow>
     (\<forall>bs. cr_borsh_u8 cr bs = (case bs of [] \<Rightarrow> None | b # r \<Rightarrow> Some (b, r)))
     \<and> (\<forall>bs. cr_borsh_u64 cr bs
          = (if length bs < 8 then None else Some (u64_of_le (take 8 bs), drop 8 bs)))
     \<and> (\<forall>bs. cr_borsh_bool cr bs = (case bs of [] \<Rightarrow> None
          | b # r \<Rightarrow> if b = 0 then Some (False, r) else if b = 1 then Some (True, r) else None))
     \<and> (\<forall>bs. cr_borsh_option_32 cr bs = (case bs of [] \<Rightarrow> None
          | b # r \<Rightarrow> if b = 0 then Some (None, r)
                    else if b = 1 then
                      (if length r < 32 then None else Some (Some (take 32 r), drop 32 r))
                    else None))"

section \<open>Instructions as a block reports them\<close>

record compiled_instruction =
  ci_program_id_index :: u8
  ci_accounts :: "u8 list"
  ci_data :: string

record inner_instruction =
  ii_instruction :: compiled_instruction
  ii_stack_height :: "u32 option"

record inner_instructions =
  is_index :: u8
  is_instructions :: "inner_instruction list"

record inner_location =
  il_inner_index :: u32
  il_stack_height :: "u32 option"

record instruction_location =
  loc_top_level_index :: u32
  loc_inner :: "inner_location option"

definition InstructionLocation_top_level :: "u32 \<Rightarrow> instruction_location" where
  "InstructionLocation_top_level top_level_index =
     \<lparr>loc_top_level_index = top_level_index, loc_inner = None\<rparr>"

text \<open>Indexing with \<open>get\<close>.\<close>

definition get :: "'a list \<Rightarrow> nat \<Rightarrow> 'a option" where
  "get xs i = (if i < length xs then Some (xs ! i) else None)"

section \<open>Errors\<close>

datatype account_error =
    InsufficientAccounts nat nat \<comment> \<open>required, actual\<close>
  | AccountIndexOutOfBounds nat

datatype parse_failure =
    ReleaseFundsData_too_short nat nat
  | No_allow_mint_event
  | No_deposit_event
  | No_escrow_entry_after
  | First_escrow_entry_not_event
  | Event_mismatch string

datatype parser_error =
    InstructionParseFailed parse_failure
  | AccountErr account_error
  | Base58Error
  | BorshError

section \<open>Resolving accounts (parser/mod.rs)\<close>

definition resolve_account ::
  "compiled_instruction \<Rightarrow> address list \<Rightarrow> nat \<Rightarrow> parser_error + address" where
  "resolve_account instruction account_keys pos =
     bindE (ok_orE (get (ci_accounts instruction) pos) (AccountErr (AccountIndexOutOfBounds pos)))
       (\<lambda>key_index.
     ok_orE (get account_keys (unat key_index))
       (AccountErr (AccountIndexOutOfBounds (unat key_index))))"

section \<open>Escrow instructions (parser/escrow.rs)\<close>

definition CREATE_INSTANCE :: u8 where "CREATE_INSTANCE = 0"
definition ALLOW_MINT :: u8 where "ALLOW_MINT = 1"
definition BLOCK_MINT :: u8 where "BLOCK_MINT = 2"
definition DEPOSIT :: u8 where "DEPOSIT = 6"
definition RELEASE_FUNDS :: u8 where "RELEASE_FUNDS = 7"
definition ROTATE_BITMAP :: u8 where "ROTATE_BITMAP = 8"

definition CREATE_INSTANCE_ACCOUNTS :: nat where "CREATE_INSTANCE_ACCOUNTS = 8"
definition BLOCK_MINT_ACCOUNTS :: nat where "BLOCK_MINT_ACCOUNTS = 7"
definition RELEASE_FUNDS_MIN_ACCOUNTS :: nat where "RELEASE_FUNDS_MIN_ACCOUNTS = 13"
definition ROTATE_BITMAP_ACCOUNTS :: nat where "ROTATE_BITMAP_ACCOUNTS = 7"
definition LEGACY_BLOCK_MINT_ACCOUNTS :: nat where "LEGACY_BLOCK_MINT_ACCOUNTS = 8"
definition LEGACY_BLOCK_MINT_SYSTEM_PROGRAM_SHIFT :: nat where
  "LEGACY_BLOCK_MINT_SYSTEM_PROGRAM_SHIFT = 1"

definition INDEXER_EVENT_IX_TAG_LE :: bytes where
  "INDEXER_EVENT_IX_TAG_LE = [0xe4, 0x45, 0xa5, 0x2e, 0x51, 0xcb, 0x9a, 0x1d]"
definition ALLOW_MINT_EVENT_DISCRIMINATOR :: u8 where "ALLOW_MINT_EVENT_DISCRIMINATOR = 1"
definition DEPOSIT_EVENT_DISCRIMINATOR :: u8 where "DEPOSIT_EVENT_DISCRIMINATOR = 6"
definition EVENT_DISCRIMINATOR_INDEX :: nat where "EVENT_DISCRIMINATOR_INDEX = 8"
definition ALLOW_MINT_EVENT_MINT_INDEX :: nat where "ALLOW_MINT_EVENT_MINT_INDEX = 41"
definition EVENT_DECIMALS_INDEX :: nat where "EVENT_DECIMALS_INDEX = 73"
definition EVENT_AMOUNT_INDEX :: nat where "EVENT_AMOUNT_INDEX = 73"
definition DEPOSIT_EVENT_INSTANCE_SEED_INDEX :: nat where "DEPOSIT_EVENT_INSTANCE_SEED_INDEX = 9"
definition DEPOSIT_EVENT_USER_INDEX :: nat where "DEPOSIT_EVENT_USER_INDEX = 41"
definition DEPOSIT_EVENT_RECIPIENT_INDEX :: nat where "DEPOSIT_EVENT_RECIPIENT_INDEX = 81"
definition DEPOSIT_EVENT_MINT_INDEX :: nat where "DEPOSIT_EVENT_MINT_INDEX = 113"

lemmas parser_consts =
  CREATE_INSTANCE_def ALLOW_MINT_def BLOCK_MINT_def DEPOSIT_def RELEASE_FUNDS_def ROTATE_BITMAP_def
  CREATE_INSTANCE_ACCOUNTS_def BLOCK_MINT_ACCOUNTS_def RELEASE_FUNDS_MIN_ACCOUNTS_def
  ROTATE_BITMAP_ACCOUNTS_def LEGACY_BLOCK_MINT_ACCOUNTS_def
  LEGACY_BLOCK_MINT_SYSTEM_PROGRAM_SHIFT_def

lemmas event_offsets =
  ALLOW_MINT_EVENT_DISCRIMINATOR_def DEPOSIT_EVENT_DISCRIMINATOR_def EVENT_DISCRIMINATOR_INDEX_def
  ALLOW_MINT_EVENT_MINT_INDEX_def EVENT_DECIMALS_INDEX_def EVENT_AMOUNT_INDEX_def
  DEPOSIT_EVENT_INSTANCE_SEED_INDEX_def DEPOSIT_EVENT_USER_INDEX_def
  DEPOSIT_EVENT_RECIPIENT_INDEX_def DEPOSIT_EVENT_MINT_INDEX_def

subsection \<open>Accounts, data and events\<close>

record create_instance_accounts =
  cic_payer :: address
  cic_admin :: address
  cic_instance_seed :: address
  cic_instance :: address
  cic_withdrawal_bitmap :: address
  cic_system_program :: address
  cic_event_authority :: address
  cic_escrow_program :: address

record allow_mint_accounts =
  amc_payer :: address
  amc_admin :: address
  amc_instance :: address
  amc_mint :: address
  amc_allowed_mint :: address
  amc_instance_ata :: address
  amc_system_program :: address
  amc_token_program :: address
  amc_associated_token_program :: address
  amc_event_authority :: address
  amc_escrow_program :: address

record block_mint_accounts =
  bmc_payer :: address
  bmc_admin :: address
  bmc_instance :: address
  bmc_mint :: address
  bmc_allowed_mint :: address
  bmc_event_authority :: address
  bmc_escrow_program :: address

record deposit_accounts =
  dpc_payer :: address
  dpc_user :: address
  dpc_instance :: address
  dpc_mint :: address
  dpc_allowed_mint :: address
  dpc_user_ata :: address
  dpc_instance_ata :: address
  dpc_system_program :: address
  dpc_token_program :: address
  dpc_associated_token_program :: address
  dpc_event_authority :: address
  dpc_escrow_program :: address

record release_funds_accounts =
  rfc_payer :: address
  rfc_operator :: address
  rfc_instance :: address
  rfc_withdrawal_bitmap :: address
  rfc_operator_pda :: address
  rfc_mint :: address
  rfc_allowed_mint :: address
  rfc_user_ata :: address
  rfc_instance_ata :: address
  rfc_token_program :: address
  rfc_associated_token_program :: address
  rfc_event_authority :: address
  rfc_escrow_program :: address

record rotate_bitmap_accounts =
  rbc_payer :: address
  rbc_operator :: address
  rbc_instance :: address
  rbc_withdrawal_bitmap :: address
  rbc_operator_pda :: address
  rbc_event_authority :: address
  rbc_escrow_program :: address

record create_instance_data =
  cid_bump :: u8

record allow_mint_data =
  amd_bump :: u8
  amd_withdraw_fee :: u64
  amd_min_withdraw_amount :: u64

record block_mint_data =
  bmd_block_deposits :: bool
  bmd_block_withdrawals :: bool

record deposit_data =
  dpd_amount :: u64
  dpd_recipient :: "address option"

record release_funds_data =
  rfd_amount :: u64
  rfd_user :: address
  rfd_transaction_nonce :: u64

record indexed_allow_mint_event =
  iae_decimals :: u8

record indexed_deposit_event =
  ide_amount :: u64

datatype escrow_ix =
    CreateInstance_ix create_instance_accounts create_instance_data
  | AllowMint_ix allow_mint_accounts allow_mint_data indexed_allow_mint_event
  | BlockMint_ix block_mint_accounts block_mint_data
  | Deposit_ix deposit_accounts deposit_data indexed_deposit_event
  | ReleaseFunds_ix release_funds_accounts release_funds_data
  | RotateBitmap_ix rotate_bitmap_accounts

subsection \<open>Reading the data\<close>

definition CreateInstanceData_deserialize ::
  "'c crates_scheme \<Rightarrow> bytes \<Rightarrow> parser_error + create_instance_data" where
  "CreateInstanceData_deserialize cr bs =
     bindE (ok_orE (cr_borsh_u8 cr bs) BorshError) (\<lambda>(bump, _). Inr \<lparr>cid_bump = bump\<rparr>)"

definition AllowMintData_deserialize ::
  "'c crates_scheme \<Rightarrow> bytes \<Rightarrow> parser_error + allow_mint_data" where
  "AllowMintData_deserialize cr bs =
     bindE (ok_orE (cr_borsh_u8 cr bs) BorshError) (\<lambda>(bump, bs).
     bindE (ok_orE (cr_borsh_u64 cr bs) BorshError) (\<lambda>(withdraw_fee, bs).
     bindE (ok_orE (cr_borsh_u64 cr bs) BorshError) (\<lambda>(min_withdraw_amount, _).
     Inr \<lparr>amd_bump = bump, amd_withdraw_fee = withdraw_fee,
          amd_min_withdraw_amount = min_withdraw_amount\<rparr>)))"

definition BlockMintData_deserialize ::
  "'c crates_scheme \<Rightarrow> bytes \<Rightarrow> parser_error + block_mint_data" where
  "BlockMintData_deserialize cr bs =
     bindE (ok_orE (cr_borsh_bool cr bs) BorshError) (\<lambda>(block_deposits, bs).
     bindE (ok_orE (cr_borsh_bool cr bs) BorshError) (\<lambda>(block_withdrawals, _).
     Inr \<lparr>bmd_block_deposits = block_deposits, bmd_block_withdrawals = block_withdrawals\<rparr>))"

definition DepositData_deserialize ::
  "'c crates_scheme \<Rightarrow> bytes \<Rightarrow> parser_error + deposit_data" where
  "DepositData_deserialize cr bs =
     bindE (ok_orE (cr_borsh_u64 cr bs) BorshError) (\<lambda>(amount, bs).
     bindE (ok_orE (cr_borsh_option_32 cr bs) BorshError) (\<lambda>(recipient, _).
     Inr \<lparr>dpd_amount = amount, dpd_recipient = map_option address_of_bytes recipient\<rparr>))"

definition ReleaseFundsData_from_bytes :: "bytes \<Rightarrow> parser_error + release_funds_data" where
  "ReleaseFundsData_from_bytes data =
     (let min_len = 8 + 32 + 8 in
      bindE (guardE (\<not> length data < min_len)
        (InstructionParseFailed (ReleaseFundsData_too_short (length data) min_len))) (\<lambda>_.
      Inr \<lparr>rfd_amount = u64_of_le (slice 0 8 data), rfd_user = address_of_bytes (slice 8 32 data),
           rfd_transaction_nonce = u64_of_le (slice 40 8 data)\<rparr>))"

definition escrow_inner_discriminator_excluded :: "u8 \<Rightarrow> bool" where
  "escrow_inner_discriminator_excluded discriminator \<longleftrightarrow>
     discriminator \<in> {CREATE_INSTANCE, ALLOW_MINT, BLOCK_MINT, RELEASE_FUNDS, ROTATE_BITMAP}"

primrec escrow_instance_of :: "escrow_ix \<Rightarrow> address" where
  "escrow_instance_of (CreateInstance_ix accounts data) = cic_instance accounts"
| "escrow_instance_of (AllowMint_ix accounts data event) = amc_instance accounts"
| "escrow_instance_of (BlockMint_ix accounts data) = bmc_instance accounts"
| "escrow_instance_of (Deposit_ix accounts data event) = dpc_instance accounts"
| "escrow_instance_of (ReleaseFunds_ix accounts data) = rfc_instance accounts"
| "escrow_instance_of (RotateBitmap_ix accounts) = rbc_instance accounts"

subsection \<open>Reading the events\<close>

record decoded_deposit_event =
  dde_instance_seed :: address
  dde_user :: address
  dde_amount :: u64
  dde_recipient :: address
  dde_mint :: address

text \<open>The base58 rendering of a key is injective, so comparing it compares the key.\<close>

definition is_escrow_program :: "inner_instruction \<Rightarrow> address list \<Rightarrow> bool" where
  "is_escrow_program inner account_keys \<longleftrightarrow>
     get account_keys (unat (ci_program_id_index (ii_instruction inner))) = Some ESCROW_ID"

definition starts_with :: "'a list \<Rightarrow> 'a list \<Rightarrow> bool" where
  "starts_with xs p \<longleftrightarrow> take (length p) xs = p"

definition decode_deposit_event ::
  "'c crates_scheme \<Rightarrow> inner_instruction \<Rightarrow> address list \<Rightarrow> decoded_deposit_event option" where
  "decode_deposit_event cr inner account_keys =
     (if \<not> is_escrow_program inner account_keys then None
      else case cr_bs58_decode cr (ci_data (ii_instruction inner)) of
        None \<Rightarrow> None
      | Some event_data \<Rightarrow>
          if length event_data < 145 \<or> \<not> starts_with event_data INDEXER_EVENT_IX_TAG_LE
             \<or> event_data ! EVENT_DISCRIMINATOR_INDEX \<noteq> DEPOSIT_EVENT_DISCRIMINATOR
          then None
          else let key_at = \<lambda>index. address_of_bytes (slice index 32 event_data) in
            Some \<lparr>dde_instance_seed = key_at DEPOSIT_EVENT_INSTANCE_SEED_INDEX,
                  dde_user = key_at DEPOSIT_EVENT_USER_INDEX,
                  dde_amount = u64_of_le (slice EVENT_AMOUNT_INDEX 8 event_data),
                  dde_recipient = key_at DEPOSIT_EVENT_RECIPIENT_INDEX,
                  dde_mint = key_at DEPOSIT_EVENT_MINT_INDEX\<rparr>)"

definition deposit_event_amount ::
  "'c crates_scheme \<Rightarrow> inner_instruction \<Rightarrow> address list \<Rightarrow> u64 option" where
  "deposit_event_amount cr inner account_keys =
     map_option dde_amount (decode_deposit_event cr inner account_keys)"

definition find_instance_pda :: "'c crates_scheme \<Rightarrow> address \<Rightarrow> address" where
  "find_instance_pda cr instance_seed =
     fst (cr_find_program_address cr [INSTANCE_SEED, address_bytes instance_seed] ESCROW_ID)"

definition check_event_matches_deposit ::
  "'c crates_scheme \<Rightarrow> decoded_deposit_event \<Rightarrow> deposit_accounts \<Rightarrow> deposit_data \<Rightarrow>
     parser_error + unit" where
  "check_event_matches_deposit cr event accounts data =
     (let mismatched =
        if dde_user event \<noteq> dpc_user accounts then Some ''user''
        else if dde_mint event \<noteq> dpc_mint accounts then Some ''mint''
        else if dde_recipient event
          \<noteq> (case dpd_recipient data of None \<Rightarrow> dpc_user accounts | Some r \<Rightarrow> r)
        then Some ''recipient''
        else if find_instance_pda cr (dde_instance_seed event) \<noteq> dpc_instance accounts
        then Some ''instance''
        else None in
      case mismatched of
        Some field \<Rightarrow> Inl (InstructionParseFailed (Event_mismatch field))
      | None \<Rightarrow> Inr ())"

definition allow_mint_event_decimals ::
  "'c crates_scheme \<Rightarrow> inner_instruction \<Rightarrow> address list \<Rightarrow> address \<Rightarrow> u8 option" where
  "allow_mint_event_decimals cr inner account_keys mint =
     (case get account_keys (unat (ci_program_id_index (ii_instruction inner))) of
        None \<Rightarrow> None
      | Some program_id \<Rightarrow>
          if program_id \<noteq> ESCROW_ID then None
          else case cr_bs58_decode cr (ci_data (ii_instruction inner)) of
            None \<Rightarrow> None
          | Some event_data \<Rightarrow>
              if 74 \<le> length event_data \<and> starts_with event_data INDEXER_EVENT_IX_TAG_LE
                 \<and> event_data ! EVENT_DISCRIMINATOR_INDEX = ALLOW_MINT_EVENT_DISCRIMINATOR
                 \<and> slice ALLOW_MINT_EVENT_MINT_INDEX
                     (EVENT_DECIMALS_INDEX - ALLOW_MINT_EVENT_MINT_INDEX) event_data
                   = address_bytes mint
              then Some (event_data ! EVENT_DECIMALS_INDEX) else None)"

text \<open>\<open>Iterator::find_map\<close>.\<close>

fun find_map :: "('a \<Rightarrow> 'b option) \<Rightarrow> 'a list \<Rightarrow> 'b option" where
  "find_map f [] = None"
| "find_map f (x # xs) = (case f x of Some y \<Rightarrow> Some y | None \<Rightarrow> find_map f xs)"

subsection \<open>One parser per instruction\<close>

definition parse_create_instance ::
  "'c crates_scheme \<Rightarrow> bytes \<Rightarrow> compiled_instruction \<Rightarrow> address list \<Rightarrow>
     parser_error + escrow_ix option" where
  "parse_create_instance cr data instruction account_keys =
     bindE (CreateInstanceData_deserialize cr data) (\<lambda>ix_data.
     bindE (guardE (\<not> length (ci_accounts instruction) < CREATE_INSTANCE_ACCOUNTS)
       (AccountErr (InsufficientAccounts CREATE_INSTANCE_ACCOUNTS
          (length (ci_accounts instruction))))) (\<lambda>_.
     bindE (resolve_account instruction account_keys 0) (\<lambda>payer.
     bindE (resolve_account instruction account_keys 1) (\<lambda>admin.
     bindE (resolve_account instruction account_keys 2) (\<lambda>instance_seed.
     bindE (resolve_account instruction account_keys 3) (\<lambda>inst.
     bindE (resolve_account instruction account_keys 4) (\<lambda>withdrawal_bitmap.
     bindE (resolve_account instruction account_keys 5) (\<lambda>system_program.
     bindE (resolve_account instruction account_keys 6) (\<lambda>event_authority.
     bindE (resolve_account instruction account_keys 7) (\<lambda>escrow_program.
     Inr (Some (CreateInstance_ix
       \<lparr>cic_payer = payer, cic_admin = admin, cic_instance_seed = instance_seed,
        cic_instance = inst, cic_withdrawal_bitmap = withdrawal_bitmap,
        cic_system_program = system_program, cic_event_authority = event_authority,
        cic_escrow_program = escrow_program\<rparr> ix_data))))))))))))"

definition parse_allow_mint ::
  "'c crates_scheme \<Rightarrow> bytes \<Rightarrow> compiled_instruction \<Rightarrow> address list \<Rightarrow>
     inner_instructions list \<Rightarrow> instruction_location \<Rightarrow> parser_error + escrow_ix option" where
  "parse_allow_mint cr data instruction account_keys sets location =
     bindE (AllowMintData_deserialize cr data) (\<lambda>ix_data.
     bindE (guardE (\<not> length (ci_accounts instruction) < 11)
       (AccountErr (InsufficientAccounts 11 (length (ci_accounts instruction))))) (\<lambda>_.
     bindE (resolve_account instruction account_keys 0) (\<lambda>payer.
     bindE (resolve_account instruction account_keys 1) (\<lambda>admin.
     bindE (resolve_account instruction account_keys 2) (\<lambda>inst.
     bindE (resolve_account instruction account_keys 3) (\<lambda>mint.
     bindE (resolve_account instruction account_keys 4) (\<lambda>allowed_mint.
     bindE (resolve_account instruction account_keys 5) (\<lambda>instance_ata.
     bindE (resolve_account instruction account_keys 6) (\<lambda>system_program.
     bindE (resolve_account instruction account_keys 7) (\<lambda>token_program.
     bindE (resolve_account instruction account_keys 8) (\<lambda>associated_token_program.
     bindE (resolve_account instruction account_keys 9) (\<lambda>event_authority.
     bindE (resolve_account instruction account_keys 10) (\<lambda>escrow_program.
     case Option.bind (find (\<lambda>s. ucast (is_index s) = loc_top_level_index location) sets)
            (\<lambda>s. find_map (\<lambda>inner. allow_mint_event_decimals cr inner account_keys mint)
                   (is_instructions s)) of
       Some decimals \<Rightarrow> Inr (Some (AllowMint_ix
         \<lparr>amc_payer = payer, amc_admin = admin, amc_instance = inst, amc_mint = mint,
          amc_allowed_mint = allowed_mint, amc_instance_ata = instance_ata,
          amc_system_program = system_program, amc_token_program = token_program,
          amc_associated_token_program = associated_token_program,
          amc_event_authority = event_authority, amc_escrow_program = escrow_program\<rparr>
         ix_data \<lparr>iae_decimals = decimals\<rparr>))
     | None \<Rightarrow> Inl (InstructionParseFailed No_allow_mint_event))))))))))))))"

definition parse_block_mint ::
  "'c crates_scheme \<Rightarrow> bytes \<Rightarrow> compiled_instruction \<Rightarrow> address list \<Rightarrow>
     parser_error + escrow_ix option" where
  "parse_block_mint cr data instruction account_keys =
     (let legacy = (data = []);
          (required, shift) =
            if legacy then (LEGACY_BLOCK_MINT_ACCOUNTS, LEGACY_BLOCK_MINT_SYSTEM_PROGRAM_SHIFT)
            else (BLOCK_MINT_ACCOUNTS, 0) in
      bindE (guardE (\<not> length (ci_accounts instruction) < required)
        (AccountErr (InsufficientAccounts required (length (ci_accounts instruction))))) (\<lambda>_.
      bindE (if legacy then Inr \<lparr>bmd_block_deposits = True, bmd_block_withdrawals = True\<rparr>
             else BlockMintData_deserialize cr data) (\<lambda>ix_data.
      bindE (resolve_account instruction account_keys 0) (\<lambda>payer.
      bindE (resolve_account instruction account_keys 1) (\<lambda>admin.
      bindE (resolve_account instruction account_keys 2) (\<lambda>inst.
      bindE (resolve_account instruction account_keys 3) (\<lambda>mint.
      bindE (resolve_account instruction account_keys 4) (\<lambda>allowed_mint.
      bindE (resolve_account instruction account_keys (5 + shift)) (\<lambda>event_authority.
      bindE (resolve_account instruction account_keys (6 + shift)) (\<lambda>escrow_program.
      Inr (Some (BlockMint_ix
        \<lparr>bmc_payer = payer, bmc_admin = admin, bmc_instance = inst, bmc_mint = mint,
         bmc_allowed_mint = allowed_mint, bmc_event_authority = event_authority,
         bmc_escrow_program = escrow_program\<rparr> ix_data))))))))))))"

text \<open>
  The amount of a deposit, by where it sits: with a known depth its event is in the run of deeper
  entries right after it; without one it is the first escrow entry after it, which must name the
  deposit's own accounts; a top-level deposit owns its whole set.
\<close>

definition deposit_amount ::
  "'c crates_scheme \<Rightarrow> address list \<Rightarrow> inner_instructions list \<Rightarrow> instruction_location \<Rightarrow>
     deposit_accounts \<Rightarrow> deposit_data \<Rightarrow> parser_error + u64 option" where
  "deposit_amount cr account_keys sets location accounts ix_data =
     (case (find (\<lambda>s. ucast (is_index s) = loc_top_level_index location) sets, loc_inner location) of
        (Some s, Some inner_loc) \<Rightarrow>
          (let start = unat (il_inner_index inner_loc) + 1 in
           case il_stack_height inner_loc of
             Some own_height \<Rightarrow>
               Inr (find_map (\<lambda>inner. deposit_event_amount cr inner account_keys)
                 (takeWhile (\<lambda>inner. case ii_stack_height inner of
                      Some h \<Rightarrow> h > own_height | None \<Rightarrow> False)
                   (drop start (is_instructions s))))
           | None \<Rightarrow>
               bindE (ok_orE (find (\<lambda>inner. is_escrow_program inner account_keys)
                   (drop start (is_instructions s)))
                 (InstructionParseFailed No_escrow_entry_after)) (\<lambda>first_escrow.
               bindE (ok_orE (decode_deposit_event cr first_escrow account_keys)
                 (InstructionParseFailed First_escrow_entry_not_event)) (\<lambda>event.
               bindE (check_event_matches_deposit cr event accounts ix_data) (\<lambda>_.
               Inr (Some (dde_amount event))))))
      | (Some s, None) \<Rightarrow>
          Inr (find_map (\<lambda>inner. deposit_event_amount cr inner account_keys) (is_instructions s))
      | (None, _) \<Rightarrow> Inr None)"

definition parse_deposit ::
  "'c crates_scheme \<Rightarrow> bytes \<Rightarrow> compiled_instruction \<Rightarrow> address list \<Rightarrow>
     inner_instructions list \<Rightarrow> instruction_location \<Rightarrow> parser_error + escrow_ix option" where
  "parse_deposit cr data instruction account_keys sets location =
     bindE (DepositData_deserialize cr data) (\<lambda>ix_data.
     bindE (guardE (\<not> length (ci_accounts instruction) < 12)
       (AccountErr (InsufficientAccounts 12 (length (ci_accounts instruction))))) (\<lambda>_.
     bindE (resolve_account instruction account_keys 0) (\<lambda>payer.
     bindE (resolve_account instruction account_keys 1) (\<lambda>user.
     bindE (resolve_account instruction account_keys 2) (\<lambda>inst.
     bindE (resolve_account instruction account_keys 3) (\<lambda>mint.
     bindE (resolve_account instruction account_keys 4) (\<lambda>allowed_mint.
     bindE (resolve_account instruction account_keys 5) (\<lambda>user_ata.
     bindE (resolve_account instruction account_keys 6) (\<lambda>instance_ata.
     bindE (resolve_account instruction account_keys 7) (\<lambda>system_program.
     bindE (resolve_account instruction account_keys 8) (\<lambda>token_program.
     bindE (resolve_account instruction account_keys 9) (\<lambda>associated_token_program.
     bindE (resolve_account instruction account_keys 10) (\<lambda>event_authority.
     bindE (resolve_account instruction account_keys 11) (\<lambda>escrow_program.
     let accounts =
       \<lparr>dpc_payer = payer, dpc_user = user, dpc_instance = inst, dpc_mint = mint,
        dpc_allowed_mint = allowed_mint, dpc_user_ata = user_ata, dpc_instance_ata = instance_ata,
        dpc_system_program = system_program, dpc_token_program = token_program,
        dpc_associated_token_program = associated_token_program,
        dpc_event_authority = event_authority, dpc_escrow_program = escrow_program\<rparr> in
     bindE (deposit_amount cr account_keys sets location accounts ix_data) (\<lambda>amount.
     case amount of
       Some amount \<Rightarrow> Inr (Some (Deposit_ix accounts ix_data \<lparr>ide_amount = amount\<rparr>))
     | None \<Rightarrow> Inl (InstructionParseFailed No_deposit_event))))))))))))))))"

definition parse_release_funds ::
  "bytes \<Rightarrow> compiled_instruction \<Rightarrow> address list \<Rightarrow> parser_error + escrow_ix option" where
  "parse_release_funds data instruction account_keys =
     bindE (guardE (\<not> length (ci_accounts instruction) < RELEASE_FUNDS_MIN_ACCOUNTS)
       (AccountErr (InsufficientAccounts RELEASE_FUNDS_MIN_ACCOUNTS
          (length (ci_accounts instruction))))) (\<lambda>_.
     bindE (ReleaseFundsData_from_bytes data) (\<lambda>ix_data.
     bindE (resolve_account instruction account_keys 0) (\<lambda>payer.
     bindE (resolve_account instruction account_keys 1) (\<lambda>operator.
     bindE (resolve_account instruction account_keys 2) (\<lambda>inst.
     bindE (resolve_account instruction account_keys 3) (\<lambda>withdrawal_bitmap.
     bindE (resolve_account instruction account_keys 4) (\<lambda>operator_pda.
     bindE (resolve_account instruction account_keys 5) (\<lambda>mint.
     bindE (resolve_account instruction account_keys 6) (\<lambda>allowed_mint.
     bindE (resolve_account instruction account_keys 7) (\<lambda>user_ata.
     bindE (resolve_account instruction account_keys 8) (\<lambda>instance_ata.
     bindE (resolve_account instruction account_keys 9) (\<lambda>token_program.
     bindE (resolve_account instruction account_keys 10) (\<lambda>associated_token_program.
     bindE (resolve_account instruction account_keys 11) (\<lambda>event_authority.
     bindE (resolve_account instruction account_keys 12) (\<lambda>escrow_program.
     Inr (Some (ReleaseFunds_ix
       \<lparr>rfc_payer = payer, rfc_operator = operator, rfc_instance = inst,
        rfc_withdrawal_bitmap = withdrawal_bitmap, rfc_operator_pda = operator_pda,
        rfc_mint = mint, rfc_allowed_mint = allowed_mint, rfc_user_ata = user_ata,
        rfc_instance_ata = instance_ata, rfc_token_program = token_program,
        rfc_associated_token_program = associated_token_program,
        rfc_event_authority = event_authority, rfc_escrow_program = escrow_program\<rparr>
       ix_data)))))))))))))))))"

definition parse_rotate_bitmap ::
  "compiled_instruction \<Rightarrow> address list \<Rightarrow> parser_error + escrow_ix option" where
  "parse_rotate_bitmap instruction account_keys =
     bindE (guardE (\<not> length (ci_accounts instruction) < ROTATE_BITMAP_ACCOUNTS)
       (AccountErr (InsufficientAccounts ROTATE_BITMAP_ACCOUNTS
          (length (ci_accounts instruction))))) (\<lambda>_.
     bindE (resolve_account instruction account_keys 0) (\<lambda>payer.
     bindE (resolve_account instruction account_keys 1) (\<lambda>operator.
     bindE (resolve_account instruction account_keys 2) (\<lambda>inst.
     bindE (resolve_account instruction account_keys 3) (\<lambda>withdrawal_bitmap.
     bindE (resolve_account instruction account_keys 4) (\<lambda>operator_pda.
     bindE (resolve_account instruction account_keys 5) (\<lambda>event_authority.
     bindE (resolve_account instruction account_keys 6) (\<lambda>escrow_program.
     Inr (Some (RotateBitmap_ix
       \<lparr>rbc_payer = payer, rbc_operator = operator, rbc_instance = inst,
        rbc_withdrawal_bitmap = withdrawal_bitmap, rbc_operator_pda = operator_pda,
        rbc_event_authority = event_authority, rbc_escrow_program = escrow_program\<rparr>))))))))))"

definition parse_escrow_instruction ::
  "'c crates_scheme \<Rightarrow> compiled_instruction \<Rightarrow> address list \<Rightarrow> inner_instructions list \<Rightarrow>
     instruction_location \<Rightarrow> parser_error + escrow_ix option" where
  "parse_escrow_instruction cr instruction account_keys sets location =
     bindE (ok_orE (cr_bs58_decode cr (ci_data instruction)) Base58Error) (\<lambda>data.
     case data of
       [] \<Rightarrow> Inr None
     | discriminator # ix_data \<Rightarrow>
         if discriminator = CREATE_INSTANCE
         then parse_create_instance cr ix_data instruction account_keys
         else if discriminator = ALLOW_MINT
         then parse_allow_mint cr ix_data instruction account_keys sets location
         else if discriminator = BLOCK_MINT
         then parse_block_mint cr ix_data instruction account_keys
         else if discriminator = DEPOSIT
         then parse_deposit cr ix_data instruction account_keys sets location
         else if discriminator = RELEASE_FUNDS
         then parse_release_funds ix_data instruction account_keys
         else if discriminator = ROTATE_BITMAP
         then parse_rotate_bitmap instruction account_keys
         else Inr None)"

section \<open>Withdraw instructions (parser/withdraw.rs)\<close>

definition WITHDRAW_FUNDS :: u8 where "WITHDRAW_FUNDS = 0"

definition withdraw_inner_discriminator_excluded :: "u8 \<Rightarrow> bool" where
  "withdraw_inner_discriminator_excluded discriminator = False"

record withdraw_funds_ix_data =
  wfx_amount :: u64
  wfx_destination :: "bytes option"

record withdraw_funds_accounts =
  wfc_user :: address
  wfc_mint :: address
  wfc_token_account :: address
  wfc_token_program :: address
  wfc_associated_token_program :: address

record withdraw_funds_data =
  wfd_amount :: u64
  wfd_destination :: address

datatype withdraw_ix = WithdrawFunds_ix withdraw_funds_accounts withdraw_funds_data

definition WithdrawFundsIxData_deserialize ::
  "'c crates_scheme \<Rightarrow> bytes \<Rightarrow> parser_error + withdraw_funds_ix_data" where
  "WithdrawFundsIxData_deserialize cr bs =
     bindE (ok_orE (cr_borsh_u64 cr bs) BorshError) (\<lambda>(amount, bs).
     bindE (ok_orE (cr_borsh_option_32 cr bs) BorshError) (\<lambda>(destination, _).
     Inr \<lparr>wfx_amount = amount, wfx_destination = destination\<rparr>))"

definition parse_withdraw_funds ::
  "'c crates_scheme \<Rightarrow> bytes \<Rightarrow> compiled_instruction \<Rightarrow> address list \<Rightarrow>
     parser_error + withdraw_ix option" where
  "parse_withdraw_funds cr data instruction account_keys =
     bindE (WithdrawFundsIxData_deserialize cr data) (\<lambda>ix_data.
     bindE (guardE (\<not> length (ci_accounts instruction) < 5)
       (AccountErr (InsufficientAccounts 5 (length (ci_accounts instruction))))) (\<lambda>_.
     bindE (resolve_account instruction account_keys 0) (\<lambda>user.
     bindE (resolve_account instruction account_keys 1) (\<lambda>mint.
     bindE (resolve_account instruction account_keys 2) (\<lambda>token_account.
     bindE (resolve_account instruction account_keys 3) (\<lambda>token_program.
     bindE (resolve_account instruction account_keys 4) (\<lambda>associated_token_program.
     let destination =
       (case map_option address_of_bytes (wfx_destination ix_data) of
          None \<Rightarrow> user | Some d \<Rightarrow> d) in
     Inr (Some (WithdrawFunds_ix
       \<lparr>wfc_user = user, wfc_mint = mint, wfc_token_account = token_account,
        wfc_token_program = token_program,
        wfc_associated_token_program = associated_token_program\<rparr>
       \<lparr>wfd_amount = wfx_amount ix_data, wfd_destination = destination\<rparr>)))))))))"

definition parse_withdraw_instruction ::
  "'c crates_scheme \<Rightarrow> compiled_instruction \<Rightarrow> address list \<Rightarrow> inner_instructions list \<Rightarrow>
     instruction_location \<Rightarrow> parser_error + withdraw_ix option" where
  "parse_withdraw_instruction cr instruction account_keys sets location =
     bindE (ok_orE (cr_bs58_decode cr (ci_data instruction)) Base58Error) (\<lambda>data.
     case data of
       [] \<Rightarrow> Inr None
     | discriminator # ix_data \<Rightarrow>
         if discriminator = WITHDRAW_FUNDS
         then parse_withdraw_funds cr ix_data instruction account_keys
         else Inr None)"

section \<open>Structural checks (tx_validation.rs)\<close>

definition SIGNATURE_LEN :: nat where "SIGNATURE_LEN = 64"

datatype malformation =
    Bad_signature_length nat
  | Bad_loaded_counts
  | Index_not_u8 string nat
  | Index_outside_keys string nat nat
  | Inner_set_not_u8 nat
  | Inner_set_names_nothing nat nat
  | Invalid_account_key string
  | No_signature
  | Signature_not_base58
  | Inner_instructions_null

definition check_signature :: "bytes \<Rightarrow> malformation + unit" where
  "check_signature bs = guardE (length bs = SIGNATURE_LEN) (Bad_signature_length (length bs))"

definition check_loaded_counts :: "nat \<times> nat \<Rightarrow> nat \<Rightarrow> nat \<Rightarrow> malformation + unit" where
  "check_loaded_counts expected loaded_writable loaded_readonly =
     guardE (expected = (loaded_writable, loaded_readonly)) Bad_loaded_counts"

definition check_key_index :: "string \<Rightarrow> nat \<Rightarrow> nat \<Rightarrow> malformation + unit" where
  "check_key_index what index num_keys =
     bindE (guardE (\<not> 255 < index) (Index_not_u8 what index)) (\<lambda>_.
     guardE (\<not> num_keys \<le> index) (Index_outside_keys what index num_keys))"

text \<open>A \<open>for\<close> loop whose body may return early with an error.\<close>

fun for_each :: "('a \<Rightarrow> 'e + unit) \<Rightarrow> 'a list \<Rightarrow> 'e + unit" where
  "for_each f [] = Inr ()"
| "for_each f (x # xs) = bindE (f x) (\<lambda>_. for_each f xs)"

definition check_instruction :: "nat \<Rightarrow> u32 \<Rightarrow> u8 list \<Rightarrow> malformation + unit" where
  "check_instruction num_keys program_id_index accounts =
     bindE (check_key_index ''program'' (unat program_id_index) num_keys) (\<lambda>_.
     for_each (\<lambda>index. check_key_index ''account'' (unat index) num_keys) accounts)"

definition check_inner_set_index :: "u32 \<Rightarrow> nat \<Rightarrow> malformation + unit" where
  "check_inner_set_index index top_level_count =
     bindE (guardE (\<not> 255 < index) (Inner_set_not_u8 (unat index))) (\<lambda>_.
     guardE (\<not> top_level_count \<le> unat index)
       (Inner_set_names_nothing (unat index) top_level_count))"

definition targets_configured_instance ::
  "compiled_instruction \<Rightarrow> address list \<Rightarrow> address option \<Rightarrow> bool" where
  "targets_configured_instance instruction account_keys escrow_instance_id =
     (case escrow_instance_id of
        None \<Rightarrow> True
      | Some instance_id \<Rightarrow>
          list_ex (\<lambda>index. case get account_keys (unat index) of
              None \<Rightarrow> True | Some key \<Rightarrow> key = instance_id) (ci_accounts instruction))"

end
