(* ===== verification/Checkpoint.thy ===== *)
theory Checkpoint
  imports Prelude "HOL-Library.While_Combinator"
begin

text \<open>
  The indexer's durable progress: \<open>indexer/src/indexer/checkpoint.rs\<close> and the checkpoint row of
  \<open>storage/postgres/db.rs\<close>. The checkpoint writer keeps, per program, the highest slot below which
  everything is processed (the frontier) and writes it to the store. While a backfill range is
  open (gated) the frontier moves over contiguous slots only, and slots that arrive early wait in
  a set. Beside the frontier it keeps the newest channel block at or below it (the fence).

  Slots are \<open>u64\<close>; \<open>frontier + 1\<close> wraps as in a release build. The store keeps \<open>i64\<close> columns, so
  a slot is written as \<open>sint\<close> of its word. A write may fail; whether it does is an argument.
\<close>

section \<open>State\<close>

datatype program_type = Escrow | Withdraw

primrec program_key :: "program_type \<Rightarrow> string" where
  "program_key Escrow = ''escrow''"
| "program_key Withdraw = ''withdraw''"

record channel_fence =
  cf_slot :: u64
  cf_blockhash :: string

record checkpoint_update =
  cu_program_type :: program_type
  cu_slot :: u64
  cu_blockhash :: "string option"

datatype checkpoint_msg =
    SlotMsg checkpoint_update
  | RegateMsg program_type u64 u64 \<comment> \<open>program, from, target\<close>

text \<open>A \<open>BTreeMap\<close> is the list of its entries in ascending order of the keys.\<close>

type_synonym 'v btree_map = "(u64 \<times> 'v) list"

record checkpoint_state =
  cs_frontier :: u64
  cs_completed :: "u64 set"
  cs_gate :: "u64 option"
  cs_dirty :: bool
  cs_stalled_ticks :: u32
  cs_blocks :: "string btree_map"
  cs_fence :: "channel_fence option"

fun btree_insert :: "u64 \<Rightarrow> 'v \<Rightarrow> 'v btree_map \<Rightarrow> 'v btree_map" where
  "btree_insert k v [] = [(k, v)]"
| "btree_insert k v ((k', v') # m) =
     (if k < k' then (k, v) # (k', v') # m
      else if k = k' then (k, v) # m
      else (k', v') # btree_insert k v m)"

text \<open>\<open>range(..=k).next_back()\<close> and \<open>split_off(k)\<close>.\<close>

definition btree_last_upto :: "u64 \<Rightarrow> 'v btree_map \<Rightarrow> (u64 \<times> 'v) option" where
  "btree_last_upto k m =
     (case filter (\<lambda>(k', _). k' \<le> k) m of [] \<Rightarrow> None | e # es \<Rightarrow> Some (last (e # es)))"

definition btree_split_off :: "u64 \<Rightarrow> 'v btree_map \<Rightarrow> 'v btree_map" where
  "btree_split_off k m = filter (\<lambda>(k', _). k \<le> k') m"

section \<open>Advancing the frontier\<close>

definition CheckpointState_ungated :: checkpoint_state where
  "CheckpointState_ungated =
     \<lparr>cs_frontier = 0, cs_completed = {}, cs_gate = None, cs_dirty = False,
      cs_stalled_ticks = 0, cs_blocks = [], cs_fence = None\<rparr>"

definition CheckpointState_gated :: "u64 \<Rightarrow> u64 \<Rightarrow> checkpoint_state" where
  "CheckpointState_gated from_slot target =
     \<lparr>cs_frontier = from_slot, cs_completed = {}, cs_gate = Some target, cs_dirty = False,
      cs_stalled_ticks = 0, cs_blocks = [], cs_fence = None\<rparr>"

text \<open>\<open>while completed.remove(&(frontier + 1)) { frontier += 1 }\<close>\<close>

function absorb :: "u64 \<Rightarrow> u64 set \<Rightarrow> u64 \<times> u64 set" where
  "absorb frontier completed =
     (if frontier + 1 \<in> completed then absorb (frontier + 1) (completed - {frontier + 1})
      else (frontier, completed))"
  by auto
termination
  by (relation "measure (\<lambda>(f, c). card c)") (auto intro!: diff_less simp: card_gt_0_iff)

declare absorb.simps [simp del]

definition fill_gap :: "u64 \<Rightarrow> u64 \<Rightarrow> checkpoint_state \<Rightarrow> checkpoint_state" where
  "fill_gap slot target self =
     (if \<not> (cs_frontier self < slot \<and> slot \<le> target) then self
      else let (frontier, completed) = absorb (cs_frontier self) (insert slot (cs_completed self)) in
        self\<lparr>cs_frontier := frontier,
             cs_completed := (if target \<le> frontier then {} else completed)\<rparr>)"

definition advance :: "u64 \<Rightarrow> checkpoint_state \<Rightarrow> bool \<times> checkpoint_state" where
  "advance slot self =
     (let before = cs_frontier self;
          self = (case cs_gate self of
            Some target \<Rightarrow> if cs_frontier self < target then fill_gap slot target self
              else self\<lparr>cs_frontier := max (cs_frontier self) slot\<rparr>
          | None \<Rightarrow> self\<lparr>cs_frontier := max (cs_frontier self) slot\<rparr>);
          advanced = cs_frontier self > before in
      (advanced, self\<lparr>cs_dirty := cs_dirty self \<or> advanced\<rparr>))"

text \<open>
  \<open>apply_block\<close>: a present block newer than the fence joins the waiting blocks; the frontier
  advances; the newest waiting block at or below it becomes the fence and the waiting blocks up to
  the frontier are dropped.
\<close>

definition offer_block :: "u64 \<Rightarrow> string option \<Rightarrow> checkpoint_state \<Rightarrow> checkpoint_state" where
  "offer_block slot blockhash self =
     (case blockhash of
        Some hash \<Rightarrow>
          if (case cs_fence self of None \<Rightarrow> True | Some fence \<Rightarrow> slot > cf_slot fence)
          then self\<lparr>cs_blocks := btree_insert slot hash (cs_blocks self)\<rparr> else self
      | None \<Rightarrow> self)"

definition move_fence :: "checkpoint_state \<Rightarrow> checkpoint_state" where
  "move_fence self =
     (case btree_last_upto (cs_frontier self) (cs_blocks self) of
        Some (slot, hash) \<Rightarrow>
          self\<lparr>cs_fence := Some \<lparr>cf_slot = slot, cf_blockhash = hash\<rparr>,
               cs_blocks := btree_split_off (cs_frontier self + 1) (cs_blocks self)\<rparr>
      | None \<Rightarrow> self)"

definition apply_block :: "u64 \<Rightarrow> string option \<Rightarrow> checkpoint_state \<Rightarrow> bool \<times> checkpoint_state" where
  "apply_block slot blockhash self =
     (let (advanced, self) = advance slot (offer_block slot blockhash self) in
      (advanced, move_fence self))"

definition regate :: "u64 \<Rightarrow> u64 \<Rightarrow> checkpoint_state \<Rightarrow> checkpoint_state" where
  "regate from target self =
     self\<lparr>cs_frontier := max (cs_frontier self) from, cs_gate := Some target\<rparr>"

definition lag :: "checkpoint_state \<Rightarrow> u64" where
  "lag self = (case cs_gate self of
     Some t0 \<Rightarrow> saturating_sub t0 (cs_frontier self) | None \<Rightarrow> 0)"

section \<open>The checkpoint row\<close>

record indexer_state_row =
  ir_last_committed_slot :: int
  ir_fence :: "(int \<times> string) option"

type_synonym checkpoint_store = "string \<rightharpoonup> indexer_state_row"

definition update_committed_checkpoint ::
  "string \<Rightarrow> u64 \<Rightarrow> channel_fence option \<Rightarrow> checkpoint_store \<Rightarrow> checkpoint_store" where
  "update_committed_checkpoint key slot fence store =
     (let excluded = map_option (\<lambda>f. (sint (cf_slot f), cf_blockhash f)) fence in
      store(key \<mapsto> (case store key of
        None \<Rightarrow> \<lparr>ir_last_committed_slot = sint slot, ir_fence = excluded\<rparr>
      | Some row \<Rightarrow>
          \<lparr>ir_last_committed_slot = max (ir_last_committed_slot row) (sint slot),
           ir_fence = (case excluded of
             None \<Rightarrow> ir_fence row
           | Some (s, h) \<Rightarrow>
               if s > (case ir_fence row of None \<Rightarrow> -1 | Some (s', _) \<Rightarrow> s') then Some (s, h)
               else ir_fence row)\<rparr>)))"

definition get_committed_checkpoint :: "string \<Rightarrow> checkpoint_store \<Rightarrow> u64 option" where
  "get_committed_checkpoint key store =
     map_option (\<lambda>row. word_of_int (ir_last_committed_slot row)) (store key)"

record fence_record =
  fr_fence :: channel_fence
  fr_checkpoint :: u64

definition get_channel_fence :: "checkpoint_store \<Rightarrow> fence_record option" where
  "get_channel_fence store =
     (case store (program_key Withdraw) of
        None \<Rightarrow> None
      | Some row \<Rightarrow>
          map_option (\<lambda>(slot, blockhash).
            \<lparr>fr_fence = \<lparr>cf_slot = word_of_int slot, cf_blockhash = blockhash\<rparr>,
             fr_checkpoint = word_of_int (max (ir_last_committed_slot row) slot)\<rparr>) (ir_fence row))"

section \<open>The writer\<close>

record checkpoint_writer =
  cw_max_batch_size :: nat
  cw_gate :: "(u64 \<times> u64) option"

type_synonym writer_states = "program_type \<rightharpoonup> checkpoint_state"

definition STALL_WARN_TICKS :: u32 where "STALL_WARN_TICKS = 3"

definition new_state :: "checkpoint_writer \<Rightarrow> checkpoint_state" where
  "new_state self = (case cw_gate self of
     Some (from_slot, target) \<Rightarrow> CheckpointState_gated from_slot target
   | None \<Rightarrow> CheckpointState_ungated)"

text \<open>\<open>states.entry(p).or_insert_with(|| self.new_state())\<close>\<close>

definition entry_state :: "checkpoint_writer \<Rightarrow> writer_states \<Rightarrow> program_type \<Rightarrow> checkpoint_state" where
  "entry_state self states p = (case states p of Some st \<Rightarrow> st | None \<Rightarrow> new_state self)"

definition record_update ::
  "checkpoint_writer \<Rightarrow> checkpoint_update \<Rightarrow> writer_states \<Rightarrow> writer_states" where
  "record_update self update states =
     (let p = cu_program_type update in
      states(p \<mapsto> snd (apply_block (cu_slot update) (cu_blockhash update)
        (entry_state self states p))))"

definition record_regate ::
  "checkpoint_writer \<Rightarrow> program_type \<Rightarrow> u64 \<Rightarrow> u64 \<Rightarrow> writer_states \<Rightarrow> writer_states" where
  "record_regate self p from target states =
     states(p \<mapsto> regate from target (entry_state self states p))"

text \<open>The loop over the states touches each on its own; it also tells whether it warned.\<close>

definition warn_one :: "checkpoint_state \<Rightarrow> bool \<times> checkpoint_state" where
  "warn_one state =
     (if cs_gate state = None \<or> lag state = 0 \<or> cs_dirty state
      then (False, state\<lparr>cs_stalled_ticks := 0\<rparr>)
      else let ticks = cs_stalled_ticks state + 1 in
        (ticks mod STALL_WARN_TICKS = 0, state\<lparr>cs_stalled_ticks := ticks\<rparr>))"

definition warn_on_stall :: "writer_states \<Rightarrow> writer_states" where
  "warn_on_stall states = (\<lambda>p. map_option (\<lambda>st. snd (warn_one st)) (states p))"

definition flush_one ::
  "(program_type \<Rightarrow> bool) \<Rightarrow> program_type \<Rightarrow> writer_states \<times> checkpoint_store \<Rightarrow>
     writer_states \<times> checkpoint_store" where
  "flush_one write_ok p = (\<lambda>(states, store).
     case states p of
       None \<Rightarrow> (states, store)
     | Some state \<Rightarrow>
         if \<not> cs_dirty state then (states, store)
         else if write_ok p then
           (states(p \<mapsto> state\<lparr>cs_dirty := False\<rparr>),
            update_committed_checkpoint (program_key p) (cs_frontier state) (cs_fence state) store)
         else (states, store))"

definition flush_checkpoints ::
  "(program_type \<Rightarrow> bool) \<Rightarrow> writer_states \<times> checkpoint_store \<Rightarrow> writer_states \<times> checkpoint_store"
  where
  "flush_checkpoints write_ok s = fold (flush_one write_ok) [Escrow, Withdraw] s"

text \<open>
  The service loop. An event is a message, the close of the channel, or a tick of the interval;
  each comes with which of the writes it triggers succeed.
\<close>

datatype writer_event = Recv checkpoint_msg | Closed | Tick

record writer =
  wr_states :: writer_states
  wr_update_count :: nat
  wr_store :: checkpoint_store

definition flush_writer :: "(program_type \<Rightarrow> bool) \<Rightarrow> writer \<Rightarrow> writer" where
  "flush_writer write_ok wr =
     (let (states, store) = flush_checkpoints write_ok (wr_states wr, wr_store wr) in
      wr\<lparr>wr_states := states, wr_store := store\<rparr>)"

fun writer_step ::
  "checkpoint_writer \<Rightarrow> writer_event \<times> (program_type \<Rightarrow> bool) \<Rightarrow> writer \<Rightarrow> writer" where
  "writer_step self (Recv (RegateMsg p from target), ok) wr =
     wr\<lparr>wr_states := record_regate self p from target (wr_states wr)\<rparr>"
| "writer_step self (Recv (SlotMsg update), ok) wr =
     (let wr = wr\<lparr>wr_states := record_update self update (wr_states wr),
                  wr_update_count := wr_update_count wr + 1\<rparr> in
      if cw_max_batch_size self \<le> wr_update_count wr
      then (flush_writer ok wr)\<lparr>wr_update_count := 0\<rparr> else wr)"
| "writer_step self (Closed, ok) wr = flush_writer ok wr"
| "writer_step self (Tick, ok) wr =
     (flush_writer ok (wr\<lparr>wr_states := warn_on_stall (wr_states wr)\<rparr>))\<lparr>wr_update_count := 0\<rparr>"

fun writer_run ::
  "checkpoint_writer \<Rightarrow> (writer_event \<times> (program_type \<Rightarrow> bool)) list \<Rightarrow> writer \<Rightarrow> writer" where
  "writer_run self [] wr = wr"
| "writer_run self (ev # evs) wr =
     (if fst ev = Closed then writer_step self ev wr
      else writer_run self evs (writer_step self ev wr))"

definition writer_start :: "checkpoint_store \<Rightarrow> writer" where
  "writer_start store = \<lparr>wr_states = Map.empty, wr_update_count = 0, wr_store = store\<rparr>"

section \<open>Where to start, and waiting for the commit\<close>

datatype checkpoint_error =
    StartSlotAheadOfCheckpoint u64 u64 \<comment> \<open>start slot, checkpoint\<close>
  | CommitTimeout "u64 option" u64 \<comment> \<open>last read, target\<close>

definition start_floor :: "u64 option \<Rightarrow> u64 option \<Rightarrow> checkpoint_error + u64" where
  "start_floor last_checkpoint configured_start =
     (case last_checkpoint of
        Some checkpoint \<Rightarrow>
          (case configured_start of
             Some start_slot \<Rightarrow>
               if saturating_sub start_slot 1 > checkpoint
               then Inl (StartSlotAheadOfCheckpoint start_slot checkpoint)
               else Inr checkpoint
           | None \<Rightarrow> Inr checkpoint)
      | None \<Rightarrow> Inr (saturating_sub (case configured_start of None \<Rightarrow> 0 | Some s \<Rightarrow> s) 1))"

definition saturating_add_one :: "u64 \<Rightarrow> u64" where
  "saturating_add_one x = (if x = - 1 then x else x + 1)"

definition live_resume_slot :: "u64 option \<Rightarrow> u64 option \<Rightarrow> u64 option" where
  "live_resume_slot last_checkpoint configured_start =
     map_option (\<lambda>slot. max slot 1)
       (case last_checkpoint of
          Some checkpoint \<Rightarrow> Some (saturating_add_one checkpoint)
        | None \<Rightarrow> configured_start)"

text \<open>
  The polling loop over its reads: each is the row read (\<open>None\<close> for a failed read) and the time
  elapsed by then. The result is \<open>None\<close> while it is still polling.
\<close>

fun wait_for_checkpoint_commit ::
  "u64 \<Rightarrow> nat \<Rightarrow> u64 option \<Rightarrow> (u64 option option \<times> nat) list \<Rightarrow> (checkpoint_error + unit) option" where
  "wait_for_checkpoint_commit target timeout last_read [] = None"
| "wait_for_checkpoint_commit target timeout last_read ((read, elapsed) # reads) =
     (let last_read = (case read of Some committed \<Rightarrow> committed | None \<Rightarrow> last_read) in
      if (case read of Some (Some slot) \<Rightarrow> slot \<ge> target | _ \<Rightarrow> False) then Some (Inr ())
      else if elapsed \<ge> timeout then Some (Inl (CommitTimeout last_read target))
      else wait_for_checkpoint_commit target timeout last_read reads)"

end
