(* ===== verification/Indexer_Decoder.thy ===== *)
theory Indexer_Decoder
  imports Indexer_Parser Checkpoint
begin

text \<open>
  Turning a fetched block into instructions: \<open>indexer/src/indexer/datasource/rpc_polling/types.rs\<close>
  and \<open>decoder.rs\<close>. A slot is decoded as a whole or rejected: a transaction without its metadata,
  one that breaks a rule the runtime enforces, or a supported instruction of the configured
  instance that will not decode leaves the slot's contents unknown.

  \<open>Pubkey::from_str\<close> is a field of \<open>sdk\<close>, which extends \<open>crates\<close>. The label of a transaction in a
  rejection is its first signature or its position. A \<open>for\<close> loop that pushes rows and may return
  early is \<open>collect\<close>.
\<close>

section \<open>Blocks\<close>

record sdk = crates +
  sd_pubkey_from_str :: "string \<Rightarrow> address option"

datatype 'a reported = Missing | Present "'a option"

fun present :: "'a reported \<Rightarrow> 'a option" where
  "present (Present (Some value)) = Some value"
| "present (Present None) = None"
| "present Missing = None"

record address_table_lookup =
  lk_writable_indexes :: "u8 list"
  lk_readonly_indexes :: "u8 list"

record loaded_addresses =
  la_writable :: "string list"
  la_readonly :: "string list"

record encoded_message =
  em_account_keys :: "string list"
  em_instructions :: "compiled_instruction list"
  em_address_table_lookups :: "address_table_lookup list option"

record encoded_transaction =
  et_signatures :: "string list"
  et_message :: encoded_message

record transaction_meta =
  tm_err :: "string reported"
  tm_log_messages :: "string list option"
  tm_inner_instructions :: "inner_instructions list reported"
  tm_loaded_addresses :: "loaded_addresses option"

record rpc_transaction =
  rx_transaction :: encoded_transaction
  rx_meta :: "transaction_meta option"

record rpc_block =
  bk_blockhash :: string
  bk_parent_slot :: u64
  bk_transactions :: "rpc_transaction list"

section \<open>Rejections\<close>

datatype tx_label = Signature string | TxPosition nat

datatype slot_rejection =
    MissingMeta tx_label
  | MissingMetaField tx_label string
  | Undecodable string u32 "u32 option" parser_error
  | Malformed tx_label malformation

primrec metric_label :: "slot_rejection \<Rightarrow> string" where
  "metric_label (MissingMeta s) = ''missing_meta''"
| "metric_label (MissingMetaField s f) = ''missing_meta''"
| "metric_label (Undecodable s i j e) = ''parse_failed''"
| "metric_label (Malformed s r) = ''malformed_tx''"

definition label_of :: "nat \<Rightarrow> rpc_transaction \<Rightarrow> tx_label" where
  "label_of index tx = (case et_signatures (rx_transaction tx) of
     s # _ \<Rightarrow> Signature s | [] \<Rightarrow> TxPosition index)"

definition first_missing_meta :: "rpc_block \<Rightarrow> tx_label option" where
  "first_missing_meta block =
     find_map (\<lambda>(index, tx). if rx_meta tx = None then Some (label_of index tx) else None)
       (enumerate 0 (bk_transactions block))"

definition missing_field :: "transaction_meta \<Rightarrow> string option" where
  "missing_field meta =
     (if tm_err meta = Missing then Some ''err''
      else if tm_inner_instructions meta = Missing then Some ''innerInstructions''
      else if tm_loaded_addresses meta = None then Some ''loadedAddresses''
      else None)"

definition first_missing_meta_field :: "rpc_block \<Rightarrow> (tx_label \<times> string) option" where
  "first_missing_meta_field block =
     find_map (\<lambda>(index, tx). case rx_meta tx of
         None \<Rightarrow> None
       | Some meta \<Rightarrow> map_option (\<lambda>field. (label_of index tx, field)) (missing_field meta))
       (enumerate 0 (bk_transactions block))"

section \<open>One transaction\<close>

definition instruction_discriminator :: "'c crates_scheme \<Rightarrow> compiled_instruction \<Rightarrow> u8 option" where
  "instruction_discriminator cr instruction =
     (case cr_bs58_decode cr (ci_data instruction) of Some (d # _) \<Rightarrow> Some d | _ \<Rightarrow> None)"

fun map_result :: "('a \<Rightarrow> 'e + 'b) \<Rightarrow> 'a list \<Rightarrow> 'e + 'b list" where
  "map_result f [] = Inr []"
| "map_result f (x # xs) = bindE (f x) (\<lambda>y. bindE (map_result f xs) (\<lambda>ys. Inr (y # ys)))"

definition validate_transaction ::
  "'c sdk_scheme \<Rightarrow> rpc_transaction \<Rightarrow> malformation + (address list \<times> string)" where
  "validate_transaction cr tx_with_meta =
     (let tx = rx_transaction tx_with_meta;
          meta = rx_meta tx_with_meta;
          (loaded_writable, loaded_readonly) =
            (case Option.bind meta tm_loaded_addresses of
               None \<Rightarrow> ([], []) | Some loaded \<Rightarrow> (la_writable loaded, la_readonly loaded));
          expected = fold (\<lambda>lookup (writable, readonly).
              (writable + length (lk_writable_indexes lookup),
               readonly + length (lk_readonly_indexes lookup)))
            (case em_address_table_lookups (et_message tx) of None \<Rightarrow> [] | Some ls \<Rightarrow> ls) (0, 0) in
      bindE (check_loaded_counts expected (length loaded_writable) (length loaded_readonly)) (\<lambda>_.
      bindE (map_result (\<lambda>key. ok_orE (sd_pubkey_from_str cr key) (Invalid_account_key key))
        (em_account_keys (et_message tx) @ loaded_writable @ loaded_readonly)) (\<lambda>account_pubkeys.
      bindE (case et_signatures tx of s # _ \<Rightarrow> Inr s | [] \<Rightarrow> Inl No_signature) (\<lambda>signature.
      bindE (ok_orE (cr_bs58_decode cr signature) Signature_not_base58) (\<lambda>signature_bytes.
      bindE (check_signature signature_bytes) (\<lambda>_.
      let num_keys = length account_pubkeys in
      bindE (for_each (\<lambda>instruction. check_instruction num_keys
          (ucast (ci_program_id_index instruction)) (ci_accounts instruction))
        (em_instructions (et_message tx))) (\<lambda>_.
      bindE (for_each (\<lambda>inner_set.
          bindE (check_inner_set_index (ucast (is_index inner_set))
            (length (em_instructions (et_message tx)))) (\<lambda>_.
          for_each (\<lambda>inner. check_instruction num_keys
              (ucast (ci_program_id_index (ii_instruction inner)))
              (ci_accounts (ii_instruction inner)))
            (is_instructions inner_set)))
        (case Option.bind meta (\<lambda>meta. present (tm_inner_instructions meta)) of
           None \<Rightarrow> [] | Some sets \<Rightarrow> sets)) (\<lambda>_.
      Inr (account_pubkeys, signature)))))))))"

fun collect :: "('a \<Rightarrow> 'e + 'b list) \<Rightarrow> 'a list \<Rightarrow> 'e + 'b list" where
  "collect f [] = Inr []"
| "collect f (x # xs) = bindE (f x) (\<lambda>ys. bindE (collect f xs) (\<lambda>zs. Inr (ys @ zs)))"

text \<open>Signature, location, instruction and position of the transaction in its block.\<close>

type_synonym 'ix decoded = "string \<times> instruction_location \<times> 'ix \<times> u32"

type_synonym 'ix parse_fn =
  "compiled_instruction \<Rightarrow> address list \<Rightarrow> inner_instructions list \<Rightarrow> instruction_location \<Rightarrow>
     parser_error + 'ix option"

text \<open>The body that both instruction loops share.\<close>

definition parse_located ::
  "'ix parse_fn \<Rightarrow> address option \<Rightarrow> address list \<Rightarrow> inner_instructions list \<Rightarrow> string \<Rightarrow> nat \<Rightarrow>
     compiled_instruction \<Rightarrow> instruction_location \<Rightarrow> slot_rejection + 'ix decoded list" where
  "parse_located parse_instruction escrow_instance_id keys sets signature tx_position instruction
     location =
     (case parse_instruction instruction keys sets location of
        Inr (Some ix) \<Rightarrow> Inr [(signature, location, ix, word_of_nat tx_position)]
      | Inr None \<Rightarrow> Inr []
      | Inl source \<Rightarrow>
          if \<not> targets_configured_instance instruction keys escrow_instance_id then Inr []
          else Inl (Undecodable signature (loc_top_level_index location)
            (map_option il_inner_index (loc_inner location)) source))"

definition parse_top_level ::
  "'ix parse_fn \<Rightarrow> address \<Rightarrow> address option \<Rightarrow> address list \<Rightarrow> inner_instructions list \<Rightarrow>
     string \<Rightarrow> nat \<Rightarrow> compiled_instruction list \<Rightarrow> slot_rejection + 'ix decoded list" where
  "parse_top_level parse_instruction filter_pubkey escrow_instance_id keys sets signature tx_position
     instructions =
     collect (\<lambda>(ix_index, instruction).
         if get keys (unat (ci_program_id_index instruction)) = Some filter_pubkey
         then parse_located parse_instruction escrow_instance_id keys sets signature tx_position
           instruction (InstructionLocation_top_level (word_of_nat ix_index))
         else Inr [])
       (enumerate 0 instructions)"

definition inner_location_of :: "inner_instructions \<Rightarrow> nat \<Rightarrow> inner_instruction \<Rightarrow> instruction_location"
  where
  "inner_location_of inner_set inner_ix_index inner =
     \<lparr>loc_top_level_index = ucast (is_index inner_set),
      loc_inner = Some \<lparr>il_inner_index = word_of_nat inner_ix_index,
        il_stack_height = ii_stack_height inner\<rparr>\<rparr>"

definition parse_inner ::
  "'c crates_scheme \<Rightarrow> 'ix parse_fn \<Rightarrow> (u8 \<Rightarrow> bool) \<Rightarrow> address \<Rightarrow> address option \<Rightarrow> address list \<Rightarrow>
     inner_instructions list \<Rightarrow> string \<Rightarrow> nat \<Rightarrow> slot_rejection + 'ix decoded list" where
  "parse_inner cr parse_instruction inner_discriminator_excluded filter_pubkey escrow_instance_id keys
     sets signature tx_position =
     collect (\<lambda>inner_set.
         collect (\<lambda>(inner_ix_index, inner).
             if get keys (unat (ci_program_id_index (ii_instruction inner))) \<noteq> Some filter_pubkey
             then Inr []
             else if (case instruction_discriminator cr (ii_instruction inner) of
                        Some d \<Rightarrow> inner_discriminator_excluded d | None \<Rightarrow> False)
             then Inr []
             else parse_located parse_instruction escrow_instance_id keys sets signature tx_position
               (ii_instruction inner) (inner_location_of inner_set inner_ix_index inner))
           (enumerate 0 (is_instructions inner_set)))
       sets"

definition tx_failed :: "rpc_transaction \<Rightarrow> bool" where
  "tx_failed tx = (case rx_meta tx of
     Some meta \<Rightarrow> tm_err meta \<noteq> Present None | None \<Rightarrow> False)"

definition parse_transaction ::
  "'c sdk_scheme \<Rightarrow> 'ix parse_fn \<Rightarrow> (u8 \<Rightarrow> bool) \<Rightarrow> address \<Rightarrow> address option \<Rightarrow> bool \<Rightarrow>
     nat \<times> rpc_transaction \<Rightarrow> slot_rejection + 'ix decoded list" where
  "parse_transaction cr parse_instruction inner_discriminator_excluded filter_pubkey escrow_instance_id
     require_inner_instructions = (\<lambda>(tx_position, tx_with_meta).
     if tx_failed tx_with_meta then Inr []
     else let malformed = Malformed (label_of tx_position tx_with_meta) in
       case validate_transaction cr tx_with_meta of
         Inl reason \<Rightarrow> Inl (malformed reason)
       | Inr (keys, signature) \<Rightarrow>
           if filter_pubkey \<notin> set keys then Inr []
           else if (case escrow_instance_id of Some i \<Rightarrow> i \<notin> set keys | None \<Rightarrow> False) then Inr []
           else let inner = Option.bind (rx_meta tx_with_meta)
               (\<lambda>meta. present (tm_inner_instructions meta)) in
             if require_inner_instructions \<and> inner = None
             then Inl (malformed Inner_instructions_null)
             else let sets = (case inner of Some s \<Rightarrow> s | None \<Rightarrow> []) in
               bindE (parse_top_level parse_instruction filter_pubkey escrow_instance_id keys sets
                 signature tx_position (em_instructions (et_message (rx_transaction tx_with_meta))))
                 (\<lambda>top.
               bindE (parse_inner cr parse_instruction inner_discriminator_excluded filter_pubkey
                 escrow_instance_id keys sets signature tx_position) (\<lambda>inner.
               Inr (top @ inner))))"

section \<open>A block\<close>

definition parse_block_for_program ::
  "'c sdk_scheme \<Rightarrow> rpc_block \<Rightarrow> string \<Rightarrow> 'ix parse_fn \<Rightarrow> (u8 \<Rightarrow> bool) \<Rightarrow> address option \<Rightarrow> bool \<Rightarrow>
     slot_rejection + 'ix decoded list" where
  "parse_block_for_program cr block filter_program_id parse_instruction inner_discriminator_excluded
     escrow_instance_id require_inner_instructions =
     (case sd_pubkey_from_str cr filter_program_id of
        None \<Rightarrow> Inr []
      | Some filter_pubkey \<Rightarrow>
          collect (parse_transaction cr parse_instruction inner_discriminator_excluded filter_pubkey
            escrow_instance_id require_inner_instructions)
          (enumerate 0 (bk_transactions block)))"

definition PRIVATE_CHANNEL_ESCROW_PROGRAM_ID :: string where
  "PRIVATE_CHANNEL_ESCROW_PROGRAM_ID = ''9tgHa1DcnaSSUtmMsst8ovKTe1Gfxzezn27KnH9xXYeU''"

definition PRIVATE_CHANNEL_WITHDRAW_PROGRAM_ID :: string where
  "PRIVATE_CHANNEL_WITHDRAW_PROGRAM_ID = ''J231K9UEpS4y4KAPwGc4gsMNCjKFRMYcQBcjVW7vBhVi''"

datatype program_ix = EscrowIx escrow_ix | WithdrawIx withdraw_ix

record instruction_with_metadata =
  im_instruction :: program_ix
  im_slot :: u64
  im_program_type :: program_type
  im_signature :: "string option"
  im_transaction_index :: u32
  im_instruction_index :: u32
  im_inner_index :: "u32 option"

definition with_metadata ::
  "('ix \<Rightarrow> program_ix) \<Rightarrow> u64 \<Rightarrow> program_type \<Rightarrow> 'ix decoded \<Rightarrow> instruction_with_metadata" where
  "with_metadata wrap slot program_type = (\<lambda>(signature, location, ix, transaction_index).
     \<lparr>im_instruction = wrap ix, im_slot = slot, im_program_type = program_type,
      im_signature = Some signature, im_transaction_index = transaction_index,
      im_instruction_index = loc_top_level_index location,
      im_inner_index = map_option il_inner_index (loc_inner location)\<rparr>)"

definition parse_block ::
  "'c sdk_scheme \<Rightarrow> rpc_block \<Rightarrow> u64 \<Rightarrow> program_type \<Rightarrow> address option \<Rightarrow>
     slot_rejection + instruction_with_metadata list" where
  "parse_block cr block slot program_type escrow_instance_id =
     (case program_type of
        Escrow \<Rightarrow>
          bindE (parse_block_for_program cr block PRIVATE_CHANNEL_ESCROW_PROGRAM_ID
            (parse_escrow_instruction cr) escrow_inner_discriminator_excluded escrow_instance_id True)
            (\<lambda>rows. Inr (map (with_metadata EscrowIx slot program_type) rows))
      | Withdraw \<Rightarrow>
          bindE (parse_block_for_program cr block PRIVATE_CHANNEL_WITHDRAW_PROGRAM_ID
            (parse_withdraw_instruction cr) withdraw_inner_discriminator_excluded None False)
            (\<lambda>rows. Inr (map (with_metadata WithdrawIx slot program_type) rows)))"

definition decode_slot ::
  "'c sdk_scheme \<Rightarrow> rpc_block \<Rightarrow> u64 \<Rightarrow> program_type \<Rightarrow> address option \<Rightarrow>
     slot_rejection + instruction_with_metadata list" where
  "decode_slot cr block slot program_type escrow_instance_id =
     (case first_missing_meta block of
        Some label \<Rightarrow> Inl (MissingMeta label)
      | None \<Rightarrow>
          (case first_missing_meta_field block of
             Some (label, field) \<Rightarrow> Inl (MissingMetaField label field)
           | None \<Rightarrow> parse_block cr block slot program_type escrow_instance_id))"

end
