(* ===== verification/Escrow_Frame.thy ===== *)
theory Escrow_Frame
  imports Escrow_Processor
begin

text \<open>
  Which accounts each escrow instruction can change. The runtime contract states the two rules
  of the Solana runtime the program depends on; from it, and from the owner and discriminator
  checks of the handlers, every handler leaves alone each escrow-owned account whose kind it is
  not meant to write.
\<close>

section \<open>The runtime contract\<close>

text \<open>
  A program can change the data and the owner of an account only if it owns the account, and a
  program that is on the call stack can be invoked again only by itself. So a CPI to another
  program leaves escrow-owned accounts alone, and a CPI to the escrow program runs its entrypoint.
\<close>

definition escrow_frame :: "ledger \<Rightarrow> ledger \<Rightarrow> bool" where
  "escrow_frame l l' \<longleftrightarrow>
     (\<forall>a. acc_owner (l a) = ESCROW_ID \<longrightarrow>
        acc_owner (l' a) = ESCROW_ID \<and> acc_data (l' a) = acc_data (l a))"

definition self_invocation :: "cpi \<Rightarrow> bool" where
  "self_invocation c = (case c of Invoke p _ _ \<Rightarrow> p = ESCROW_ID | _ \<Rightarrow> False)"

definition initial_world :: "ledger \<Rightarrow> world" where
  "initial_world l = \<lparr>w_ledger = l, w_invoked = [], w_logs = []\<rparr>"

definition foreign_cpi_contract :: "runtime \<Rightarrow> bool" where
  "foreign_cpi_contract rt \<longleftrightarrow>
     (\<forall>c seeds l l'. rt_invoke rt c seeds l = Inr l' \<longrightarrow> \<not> self_invocation c \<longrightarrow> escrow_frame l l')"

definition self_cpi_contract :: "runtime \<Rightarrow> bool" where
  "self_cpi_contract rt \<longleftrightarrow>
     (\<forall>metas bs seeds l l'. rt_invoke rt (Invoke ESCROW_ID metas bs) seeds l = Inr l' \<longrightarrow>
        (\<exists>accounts w'. process_instruction rt ESCROW_ID accounts bs (initial_world l) = Inr w'
           \<and> l' = w_ledger w'))"

definition runtime_contract :: "runtime \<Rightarrow> bool" where
  "runtime_contract rt \<longleftrightarrow> foreign_cpi_contract rt \<and> self_cpi_contract rt"

section \<open>An escrow-owned account keeps its bytes\<close>

definition holds :: "address \<Rightarrow> bytes \<Rightarrow> world \<Rightarrow> bool" where
  "holds a bs w \<longleftrightarrow> acc_owner (w_ledger w a) = ESCROW_ID \<and> acc_data (w_ledger w a) = bs"

definition holdsR :: "address \<Rightarrow> bytes \<Rightarrow> world res \<Rightarrow> bool" where
  "holdsR a bs r \<longleftrightarrow> (\<forall>w'. r = Inr w' \<longrightarrow> holds a bs w')"

named_theorems frame_intros \<open>rules that push \<open>holdsR\<close> through a handler\<close>

lemma holdsR_Inl [frame_intros]: "holdsR a bs (Inl e)"
  by (simp add: holdsR_def)

lemma holdsR_Inr [frame_intros]: "holds a bs w \<Longrightarrow> holdsR a bs (Inr w)"
  by (simp add: holdsR_def)

lemma holdsR_if [frame_intros]:
  "(b \<Longrightarrow> holdsR a bs r) \<Longrightarrow> (\<not> b \<Longrightarrow> holdsR a bs s) \<Longrightarrow> holdsR a bs (if b then r else s)"
  by simp

lemma holdsR_bind: "(\<And>x. m = Inr x \<Longrightarrow> holdsR a bs (f x)) \<Longrightarrow> holdsR a bs (bindE m f)"
  by (cases m) (simp_all add: holdsR_def)

lemma holdsR_bind_world:
  "holdsR a bs m \<Longrightarrow> (\<And>w. m = Inr w \<Longrightarrow> holds a bs w \<Longrightarrow> holdsR a bs (f w)) \<Longrightarrow>
   holdsR a bs (bindE m f)"
  by (cases m) (simp_all add: holdsR_def)

lemma holds_set_data [frame_intros]:
  "holds a bs w \<Longrightarrow> av_address info \<noteq> a \<Longrightarrow> holds a bs (set_data info xs w)"
  by (simp add: holds_def set_data_def set_account_def)

lemma holds_set_lamports [frame_intros]:
  "holds a bs w \<Longrightarrow> holds a bs (set_lamports info n w)"
  by (auto simp: holds_def set_lamports_def set_account_def account_of_def)

lemma holdsR_copy_to_prefix [frame_intros]:
  "holds a bs w \<Longrightarrow> av_address info \<noteq> a \<Longrightarrow> holdsR a bs (copy_to_prefix live info xs w)"
  by (auto simp: holdsR_def copy_to_prefix_def intro: holds_set_data)

lemma holdsR_copy_from_slice [frame_intros]:
  "holds a bs w \<Longrightarrow> av_address info \<noteq> a \<Longrightarrow> holdsR a bs (copy_from_slice live info xs w)"
  by (auto simp: holdsR_def copy_from_slice_def intro: holds_set_data)

lemma holdsR_resize_account [frame_intros]:
  "holds a bs w \<Longrightarrow> av_address info \<noteq> a \<Longrightarrow> holdsR a bs (resize_account live info n w)"
  by (auto simp: holdsR_def resize_account_def intro: holds_set_data)

lemma holdsR_close_account [frame_intros]:
  "holds a bs w \<Longrightarrow> av_address info \<noteq> a \<Longrightarrow> holdsR a bs (close_account live info w)"
  by (auto simp: holdsR_def close_account_def holds_def set_account_def)

lemma holdsR_invoke_foreign:
  assumes "runtime_contract rt" "\<not> self_invocation c" "holds a bs w"
  shows "holdsR a bs (invoke_signed rt c seeds w)"
proof -
  have "escrow_frame (w_ledger w) l'" if "rt_invoke rt c seeds (w_ledger w) = Inr l'" for l'
    using assms(1,2) that unfolding runtime_contract_def foreign_cpi_contract_def by blast
  then show ?thesis
    using assms(3) by (auto simp: holdsR_def invoke_signed_def holds_def escrow_frame_def)
qed

lemma process_instruction_event:
  "process_instruction rt p accounts (228 # bs) w = Inr w' \<Longrightarrow> w' = w"
  by (auto simp: process_instruction_def escrow_instruction_try_from_def process_emit_event_def
      Let_def)

lemma invoke_self_event:
  assumes "runtime_contract rt" "invoke_signed rt (Invoke ESCROW_ID metas bs) seeds w = Inr w'"
    "take 8 bs = EVENT_IX_TAG_LE"
  shows "w_ledger w' = w_ledger w"
proof -
  from assms(3) obtain cs where bs: "bs = 228 # cs"
    by (cases bs) (simp_all add: EVENT_IX_TAG_LE_eq)
  from assms(2) obtain l' where l': "rt_invoke rt (Invoke ESCROW_ID metas bs) seeds (w_ledger w) = Inr l'"
    and w': "w_ledger w' = l'"
    by (auto simp: invoke_signed_def)
  from l' assms(1) obtain accounts w''
    where "process_instruction rt ESCROW_ID accounts bs (initial_world (w_ledger w)) = Inr w''"
      and "l' = w_ledger w''"
    unfolding runtime_contract_def self_cpi_contract_def by blast
  then show ?thesis
    using process_instruction_event [of rt ESCROW_ID accounts cs] w' bs
    by (fastforce simp: initial_world_def)
qed

lemma emit_event_ledger:
  assumes "runtime_contract rt" "take 8 bs = EVENT_IX_TAG_LE"
    "emit_event rt ESCROW_ID ea pinfo bs w = Inr w'"
  shows "w_ledger w' = w_ledger w"
  using assms invoke_self_event by (auto simp: emit_event_def)

lemma take_event_tag [simp]: "take 8 (EVENT_IX_TAG_LE @ bs) = EVENT_IX_TAG_LE"
  by simp

lemma holdsR_emit_event [frame_intros]:
  "runtime_contract rt \<Longrightarrow> holds a bs w \<Longrightarrow>
   holdsR a bs (emit_event rt ESCROW_ID ea pinfo (EVENT_IX_TAG_LE @ ev) w)"
  using emit_event_ledger [of rt "EVENT_IX_TAG_LE @ ev"]
  by (auto simp: holdsR_def holds_def)

lemma holdsR_create_pda_account [frame_intros]:
  "runtime_contract rt \<Longrightarrow> holds a bs w \<Longrightarrow>
   holdsR a bs (create_pda_account rt payer rent space owner info seeds m w)"
  unfolding create_pda_account_def Let_def
  by (intro holdsR_bind_world holdsR_bind holdsR_if holdsR_invoke_foreign holdsR_Inr)
    (simp_all add: self_invocation_def)

lemma holdsR_get_or_create_ata [frame_intros]:
  "runtime_contract rt \<Longrightarrow> holds a bs w \<Longrightarrow>
   holdsR a bs (get_or_create_ata rt ata wal mint payer sys tok w)"
  unfolding get_or_create_ata_def Let_def
  by (intro holdsR_bind_world holdsR_bind holdsR_if holdsR_invoke_foreign holdsR_Inr)
    (simp_all add: self_invocation_def)

lemma verify_token_programs_neq_escrow:
  "verify_token_programs info = Inr u \<Longrightarrow> av_address info \<noteq> ESCROW_ID"
  by (auto simp: verify_token_programs_def TOKEN_PROGRAM_ID_def TOKEN_2022_PROGRAM_ID_def
      ESCROW_ID_def)

lemma holdsR_transfer_checked_cpi [frame_intros]:
  assumes "runtime_contract rt" "holds a bs w" "tp \<noteq> ESCROW_ID"
  shows "holdsR a bs (transfer_checked_cpi rt from mint to auth amt dec tp memo extras signers w)"
proof -
  have "MEMO_PROGRAM_ID \<noteq> ESCROW_ID" by (simp add: MEMO_PROGRAM_ID_def ESCROW_ID_def)
  with assms show ?thesis
    unfolding transfer_checked_cpi_def invoke_memo_def transfer_checked_instruction_def
    by (intro holdsR_bind_world holdsR_bind holdsR_if holdsR_invoke_foreign holdsR_Inr)
      (simp_all add: self_invocation_def)
qed

section \<open>The handlers\<close>

text \<open>An account that is empty, or that decodes as another kind, is not the account \<open>a\<close>.\<close>

lemma holds_neq_empty: "is_data_empty w info \<Longrightarrow> holds a bs w \<Longrightarrow> bs \<noteq> [] \<Longrightarrow> av_address info \<noteq> a"
  by (auto simp: holds_def is_data_empty_def data_of_def account_of_def)

lemma holds_neq_system:
  "verify_system_account w info b = Inr u \<Longrightarrow> holds a bs w \<Longrightarrow> bs \<noteq> [] \<Longrightarrow> av_address info \<noteq> a"
  using holds_neq_empty by (auto simp: verify_system_account_def)

lemma holds_data_of: "holds a bs w \<Longrightarrow> av_address info = a \<Longrightarrow> data_of w info = bs"
  by (auto simp: holds_def data_of_def account_of_def)

lemma holds_neq_Instance:
  "Instance_try_from_bytes (data_of w info) = Inr x \<Longrightarrow> holds a bs w \<Longrightarrow>
   bs ! 0 = account_discriminator d \<Longrightarrow> d \<noteq> InstanceDiscriminator \<Longrightarrow> av_address info \<noteq> a"
  using ins.dec_no_confusion holds_data_of by blast

lemma holds_neq_Operator:
  "Operator_try_from_bytes (data_of w info) = Inr x \<Longrightarrow> holds a bs w \<Longrightarrow>
   bs ! 0 = account_discriminator d \<Longrightarrow> d \<noteq> OperatorDiscriminator \<Longrightarrow> av_address info \<noteq> a"
  using opr.dec_no_confusion holds_data_of by blast

lemma holds_neq_AllowedMint:
  "AllowedMint_try_from_bytes (data_of w info) = Inr x \<Longrightarrow> holds a bs w \<Longrightarrow>
   bs ! 0 = account_discriminator d \<Longrightarrow> d \<noteq> AllowedMintDiscriminator \<Longrightarrow> av_address info \<noteq> a"
  using mnt.dec_no_confusion holds_data_of by blast

lemma holds_neq_AllowedWallet:
  "AllowedWallet_try_from_bytes (data_of w info) = Inr x \<Longrightarrow> holds a bs w \<Longrightarrow>
   bs ! 0 = account_discriminator d \<Longrightarrow> d \<noteq> AllowedWalletDiscriminator \<Longrightarrow> av_address info \<noteq> a"
  using wal.dec_no_confusion holds_data_of by blast

lemma WithdrawalBitmap_validate_tag:
  "WithdrawalBitmap_validate rt w bs i info = Inr u \<Longrightarrow>
   bs ! 0 = account_discriminator WithdrawalBitmapDiscriminator"
  by (simp only: WithdrawalBitmap_validate_def bindE_eq_Inr validate_discriminator_eq_Inr) blast

lemma holds_neq_Bitmap:
  "WithdrawalBitmap_validate rt w (data_of w info) i info = Inr u \<Longrightarrow> holds a bs w \<Longrightarrow>
   bs ! 0 = account_discriminator d \<Longrightarrow> d \<noteq> WithdrawalBitmapDiscriminator \<Longrightarrow>
   av_address info \<noteq> a"
  by (metis WithdrawalBitmap_validate_tag account_discriminator_inject holds_data_of)

text \<open>The create-or-rewrite step of AllowMint and AddOrUpdateAllowedWallet.\<close>

lemma holds_neq_upsert_mint:
  "(if is_data_empty w info then r else bindE (AllowedMint_try_from_bytes (data_of w info)) f)
     = Inr y \<Longrightarrow> holds a bs w \<Longrightarrow> bs \<noteq> [] \<Longrightarrow> bs ! 0 = account_discriminator d \<Longrightarrow>
   d \<noteq> AllowedMintDiscriminator \<Longrightarrow> av_address info \<noteq> a"
  by (metis bindE_eq_Inr holds_neq_empty holds_neq_AllowedMint)

lemma holds_neq_upsert_wallet:
  "(if is_data_empty w info then r else bindE (AllowedWallet_try_from_bytes (data_of w info)) f)
     = Inr y \<Longrightarrow> holds a bs w \<Longrightarrow> bs \<noteq> [] \<Longrightarrow> bs ! 0 = account_discriminator d \<Longrightarrow>
   d \<noteq> AllowedWalletDiscriminator \<Longrightarrow> av_address info \<noteq> a"
  by (metis bindE_eq_Inr holds_neq_empty holds_neq_AllowedWallet)

lemmas frame_rules = holdsR_bind_world holdsR_bind frame_intros

lemmas holds_neqs = holds_neq_system holds_neq_Instance holds_neq_Operator
  holds_neq_AllowedMint holds_neq_AllowedWallet holds_neq_Bitmap holds_neq_upsert_mint
  holds_neq_upsert_wallet verify_token_programs_neq_escrow

lemma frame_create_instance:
  "runtime_contract rt \<Longrightarrow> holds a bs w \<Longrightarrow> bs \<noteq> [] \<Longrightarrow>
   holdsR a bs (process_create_instance rt ESCROW_ID accounts xs w)"
  unfolding process_create_instance_def Let_def event_to_bytes_defs
  by (intro frame_rules) (assumption | erule holds_neqs)+

lemma frame_allow_mint:
  "runtime_contract rt \<Longrightarrow> holds a bs w \<Longrightarrow> bs \<noteq> [] \<Longrightarrow> bs ! 0 = account_discriminator d \<Longrightarrow>
   d \<noteq> AllowedMintDiscriminator \<Longrightarrow>
   holdsR a bs (process_allow_mint rt ESCROW_ID accounts xs w)"
  unfolding process_allow_mint_def Let_def event_to_bytes_defs
  by (intro frame_rules) (assumption | erule holds_neqs)+

lemma frame_block_mint:
  "runtime_contract rt \<Longrightarrow> holds a bs w \<Longrightarrow> bs \<noteq> [] \<Longrightarrow> bs ! 0 = account_discriminator d \<Longrightarrow>
   d \<noteq> AllowedMintDiscriminator \<Longrightarrow>
   holdsR a bs (process_block_mint rt ESCROW_ID accounts xs w)"
  unfolding process_block_mint_def Let_def event_to_bytes_defs
  by (intro frame_rules) (assumption | erule holds_neqs)+

lemma frame_add_operator:
  "runtime_contract rt \<Longrightarrow> holds a bs w \<Longrightarrow> bs \<noteq> [] \<Longrightarrow>
   holdsR a bs (process_add_operator rt ESCROW_ID accounts xs w)"
  unfolding process_add_operator_def Let_def event_to_bytes_defs
  by (intro frame_rules) (assumption | erule holds_neqs)+

lemma frame_remove_operator:
  "runtime_contract rt \<Longrightarrow> holds a bs w \<Longrightarrow> bs \<noteq> [] \<Longrightarrow> bs ! 0 = account_discriminator d \<Longrightarrow>
   d \<noteq> OperatorDiscriminator \<Longrightarrow>
   holdsR a bs (process_remove_operator rt ESCROW_ID accounts xs w)"
  unfolding process_remove_operator_def Let_def event_to_bytes_defs
  by (intro frame_rules) (assumption | erule holds_neqs)+

lemma frame_set_new_admin:
  "runtime_contract rt \<Longrightarrow> holds a bs w \<Longrightarrow> bs \<noteq> [] \<Longrightarrow> bs ! 0 = account_discriminator d \<Longrightarrow>
   d \<noteq> InstanceDiscriminator \<Longrightarrow>
   holdsR a bs (process_set_new_admin rt ESCROW_ID accounts xs w)"
  unfolding process_set_new_admin_def Let_def event_to_bytes_defs
  by (intro frame_rules) (assumption | erule holds_neqs)+

lemma frame_rotate_bitmap:
  "runtime_contract rt \<Longrightarrow> holds a bs w \<Longrightarrow> bs \<noteq> [] \<Longrightarrow> bs ! 0 = account_discriminator d \<Longrightarrow>
   d \<noteq> WithdrawalBitmapDiscriminator \<Longrightarrow>
   holdsR a bs (process_rotate_bitmap rt ESCROW_ID accounts xs w)"
  unfolding process_rotate_bitmap_def Let_def event_to_bytes_defs
  by (intro frame_rules) (assumption | erule holds_neqs)+

lemma frame_add_or_update_allowed_wallet:
  "runtime_contract rt \<Longrightarrow> holds a bs w \<Longrightarrow> bs \<noteq> [] \<Longrightarrow> bs ! 0 = account_discriminator d \<Longrightarrow>
   d \<noteq> AllowedWalletDiscriminator \<Longrightarrow>
   holdsR a bs (process_add_or_update_allowed_wallet rt ESCROW_ID accounts xs w)"
  unfolding process_add_or_update_allowed_wallet_def Let_def event_to_bytes_defs
  by (intro frame_rules) (assumption | erule holds_neqs)+

lemma frame_remove_allowed_wallet:
  "runtime_contract rt \<Longrightarrow> holds a bs w \<Longrightarrow> bs \<noteq> [] \<Longrightarrow> bs ! 0 = account_discriminator d \<Longrightarrow>
   d \<noteq> AllowedWalletDiscriminator \<Longrightarrow>
   holdsR a bs (process_remove_allowed_wallet rt ESCROW_ID accounts xs w)"
  unfolding process_remove_allowed_wallet_def Let_def event_to_bytes_defs
  by (intro frame_rules) (assumption | erule holds_neqs)+

lemma frame_deposit:
  "runtime_contract rt \<Longrightarrow> holds a bs w \<Longrightarrow> bs \<noteq> [] \<Longrightarrow>
   holdsR a bs (process_deposit rt ESCROW_ID accounts xs w)"
  unfolding process_deposit_def Let_def event_to_bytes_defs
  by (intro frame_rules) (assumption | erule holds_neqs)+

lemma frame_release_funds:
  "runtime_contract rt \<Longrightarrow> holds a bs w \<Longrightarrow> bs \<noteq> [] \<Longrightarrow> bs ! 0 = account_discriminator d \<Longrightarrow>
   d \<noteq> WithdrawalBitmapDiscriminator \<Longrightarrow>
   holdsR a bs (process_release_funds rt ESCROW_ID accounts xs w)"
  unfolding process_release_funds_def Let_def event_to_bytes_defs
  by (intro frame_rules) (assumption | erule holds_neqs)+

lemma frame_set_whitelist_enabled:
  "runtime_contract rt \<Longrightarrow> holds a bs w \<Longrightarrow> bs \<noteq> [] \<Longrightarrow> bs ! 0 = account_discriminator d \<Longrightarrow>
   d \<noteq> InstanceDiscriminator \<Longrightarrow>
   holdsR a bs (process_set_whitelist_enabled rt ESCROW_ID accounts xs w)"
  unfolding process_set_whitelist_enabled_def Let_def event_to_bytes_defs
  by (intro frame_rules holdsR_invoke_foreign)
    (assumption | erule holds_neqs | simp add: self_invocation_def)+

lemma frame_emit_event:
  "holds a bs w \<Longrightarrow> holdsR a bs (process_emit_event rt p accounts w)"
  unfolding process_emit_event_def Let_def by (intro frame_rules)

section \<open>What an instruction may write\<close>

text \<open>The kinds of existing accounts an instruction is meant to change.\<close>

primrec writes_kind :: "escrow_instruction \<Rightarrow> escrow_account_discriminator set" where
  "writes_kind CreateInstance = {}"
| "writes_kind AllowMint = {AllowedMintDiscriminator}"
| "writes_kind BlockMint = {AllowedMintDiscriminator}"
| "writes_kind AddOperator = {}"
| "writes_kind RemoveOperator = {OperatorDiscriminator}"
| "writes_kind SetNewAdmin = {InstanceDiscriminator}"
| "writes_kind Deposit = {}"
| "writes_kind ReleaseFunds = {WithdrawalBitmapDiscriminator}"
| "writes_kind RotateBitmap = {WithdrawalBitmapDiscriminator}"
| "writes_kind AddOrUpdateAllowedWallet = {AllowedWalletDiscriminator}"
| "writes_kind RemoveAllowedWallet = {AllowedWalletDiscriminator}"
| "writes_kind SetWhitelistEnabled = {InstanceDiscriminator}"
| "writes_kind EmitEvent = {}"

lemma process_instruction_cases:
  assumes "process_instruction rt p accounts ixdata w = Inr w'"
  obtains tag xs ix where "ixdata = tag # xs" "escrow_instruction_try_from tag = Some ix"
  using assms by (cases ixdata) (auto simp: process_instruction_def)

lemmas frame_handlers = frame_create_instance frame_allow_mint frame_block_mint
  frame_add_operator frame_remove_operator frame_set_new_admin frame_deposit
  frame_release_funds frame_rotate_bitmap frame_add_or_update_allowed_wallet
  frame_remove_allowed_wallet frame_set_whitelist_enabled frame_emit_event

lemma frame_process_instruction:
  assumes "runtime_contract rt" "escrow_instruction_try_from tag = Some ix"
    "holds a bs w" "bs \<noteq> []" "bs ! 0 = account_discriminator d" "d \<notin> writes_kind ix"
  shows "holdsR a bs (process_instruction rt ESCROW_ID accounts (tag # xs) w)"
  using assms
  by (cases ix) (simp_all add: process_instruction_def frame_handlers)

end
