(* ===== verification/Escrow_Safety.thy ===== *)
theory Escrow_Safety
  imports Escrow_Frame
begin

text \<open>
  Withdrawal safety of the escrow program over whole runs. A run interleaves successful program
  instructions, with any accounts and data, and steps of the rest of the chain, which cannot
  touch escrow-owned accounts. The ghost list of a run holds the nonces that ReleaseFunds has
  released for one instance.
\<close>

section \<open>What a successful ReleaseFunds has checked and done\<close>

lemma process_release_funds_Inr:
  assumes "process_release_funds rt pid accounts xs w = Inr w'"
  obtains args inst operator_pda allowed_mint bs' before dec w2 after released where
    "release_funds_process_instruction_data xs = Inr args"
    "RELEASE_FIXED_ACCOUNTS_LEN \<le> length accounts"
    "verify_signer (accounts ! 0) True = Inr ()"
    "verify_signer (accounts ! 1) False = Inr ()"
    "verify_mutability (accounts ! 3) True = Inr ()"
    "verify_token_programs (accounts ! 9) = Inr ()"
    "verify_account_owner w (accounts ! 5) (av_address (accounts ! 9)) = Inr ()"
    "Instance_try_from_bytes (data_of w (accounts ! 2)) = Inr inst"
    "Instance_validate_pda rt w inst (accounts ! 2) = Inr ()"
    "Operator_try_from_bytes (data_of w (accounts ! 4)) = Inr operator_pda"
    "Operator_validate_pda rt w operator_pda (av_address (accounts ! 2))
       (av_address (accounts ! 1)) (accounts ! 4) = Inr ()"
    "AllowedMint_try_from_bytes (data_of w (accounts ! 6)) = Inr allowed_mint"
    "AllowedMint_validate_pda rt w allowed_mint (av_address (accounts ! 2))
       (av_address (accounts ! 5)) (accounts ! 6) = Inr ()"
    "\<not> am_withdrawals_blocked allowed_mint"
    "inst_withdrawals_whitelisted inst \<longrightarrow>
       AllowedWallet_verify_allowed rt w (accounts ! 15) (av_address (accounts ! 2))
         (rfa_withdrawer args) WithdrawDirection = Inr () \<and>
       AllowedWallet_verify_allowed rt w (accounts ! 14) (av_address (accounts ! 2))
         (rfa_user args) WithdrawDirection = Inr ()"
    "validate_ata rt w (accounts ! 7) (rfa_user args) (accounts ! 5) (accounts ! 9) = Inr ()"
    "validate_ata rt w (accounts ! 8) (av_address (accounts ! 2)) (accounts ! 5) (accounts ! 9)
       = Inr ()"
    "WithdrawalBitmap_validate rt w (data_of w (accounts ! 3)) (av_address (accounts ! 2))
       (accounts ! 3) = Inr ()"
    "bitmap_accept (data_of w (accounts ! 3)) (rfa_transaction_nonce args) = Inr bs'"
    "get_token_account_balance rt (set_data (accounts ! 3) bs' w) (accounts ! 8) = Inr before"
    "get_mint_decimals rt (set_data (accounts ! 3) bs' w) (accounts ! 5) = Inr dec"
    "transfer_checked_cpi rt (accounts ! 8) (accounts ! 5) (accounts ! 7) (accounts ! 2)
       (rfa_amount args) dec (av_address (accounts ! 9)) (Some (accounts ! 13))
       (drop RELEASE_FIXED_ACCOUNTS_LEN accounts)
       [[INSTANCE_SEED, address_bytes (inst_instance_seed inst), [inst_bump inst]]]
       (set_data (accounts ! 3) bs' w) = Inr w2"
    "get_token_account_balance rt w2 (accounts ! 8) = Inr after"
    "checked_sub before after = Some released"
    "emit_event rt pid (accounts ! 11) (accounts ! 12)
       (ReleaseFundsEvent_to_bytes (ReleaseFundsEvent_new (inst_instance_seed inst)
          (av_address (accounts ! 1)) released (rfa_user args) (av_address (accounts ! 5)))) w2
       = Inr w'"
  using assms unfolding process_release_funds_def Let_def
  apply (simp only: bindE_eq_Inr guardE_eq_Inr map_errE_eq_Inr ok_orE_eq_Inr not_less)
  apply (elim exE conjE)
  apply (rule that; (assumption | simp add: bitmap_accept_def split: if_splits))
  done

lemma process_rotate_bitmap_Inr:
  assumes "process_rotate_bitmap rt pid accounts xs w = Inr w'"
  obtains inst operator_pda bs' gen where
    "length accounts = 7" "8 \<le> length xs"
    "verify_signer (accounts ! 1) False = Inr ()"
    "verify_mutability (accounts ! 3) True = Inr ()"
    "Instance_try_from_bytes (data_of w (accounts ! 2)) = Inr inst"
    "Instance_validate_pda rt w inst (accounts ! 2) = Inr ()"
    "Operator_try_from_bytes (data_of w (accounts ! 4)) = Inr operator_pda"
    "Operator_validate_pda rt w operator_pda (av_address (accounts ! 2))
       (av_address (accounts ! 1)) (accounts ! 4) = Inr ()"
    "WithdrawalBitmap_validate rt w (data_of w (accounts ! 3)) (av_address (accounts ! 2))
       (accounts ! 3) = Inr ()"
    "WithdrawalBitmap_rotate (data_of w (accounts ! 3)) (u64_of_le (slice 0 8 xs)) = Inr bs'"
    "WithdrawalBitmap_generation bs' = Inr gen"
    "emit_event rt pid (accounts ! 5) (accounts ! 6)
       (RotateBitmapEvent_to_bytes (RotateBitmapEvent_new (inst_instance_seed inst)
          (av_address (accounts ! 1)) gen)) (set_data (accounts ! 3) bs' w) = Inr w'"
  using assms unfolding process_rotate_bitmap_def Let_def
  apply (simp only: bindE_eq_Inr guardE_eq_Inr map_errE_eq_Inr)
  apply (elim exE conjE)
  apply (rule that; (assumption | simp))
  done

section \<open>The bitmap account of an instance\<close>

definition bitmap_address :: "(bytes list \<Rightarrow> address \<Rightarrow> address \<times> u8) \<Rightarrow> address \<Rightarrow> address" where
  "bitmap_address fpa instance_pda =
     fst (fpa [WITHDRAWAL_BITMAP_SEED, address_bytes instance_pda] ESCROW_ID)"

lemma validate_pda_account_Inr:
  "validate_pda_account rt w seeds p bump info = Inr pda \<longleftrightarrow>
     rt_find_program_address rt seeds p = (pda, bump) \<and> av_address info = pda \<and>
     (is_data_empty w info \<or> owned_by w info p)"
  by (auto simp: validate_pda_account_def split: prod.splits)

lemma WithdrawalBitmap_validate_Inr:
  assumes "WithdrawalBitmap_validate rt w (data_of w info) i info = Inr u"
  shows "av_address info = bitmap_address (rt_find_program_address rt) i"
    "holds (av_address info) (data_of w info) w" "bitmap_ok (data_of w info)"
proof -
  from assms obtain pda where
    v: "validate_pda_account rt w [WITHDRAWAL_BITMAP_SEED, address_bytes i] ESCROW_ID
          (data_of w info ! BUMP_OFFSET) info = Inr pda"
    and len: "WithdrawalBitmap_LEN \<le> length (data_of w info)"
    by (auto simp: WithdrawalBitmap_validate_def WithdrawalBitmap_verify_len_def not_less)
  show "av_address info = bitmap_address (rt_find_program_address rt) i"
    using v by (simp add: validate_pda_account_Inr bitmap_address_def)
  show "bitmap_ok (data_of w info)"
    using len WithdrawalBitmap_validate_tag [OF assms] by (simp add: bitmap_ok_def)
  have "data_of w info \<noteq> []"
    using len by (auto simp: WithdrawalBitmap_LEN_def BITS_OFFSET_def)
  then show "holds (av_address info) (data_of w info) w"
    using v by (auto simp: validate_pda_account_Inr holds_def owned_by_def is_data_empty_def
        data_of_def account_of_def)
qed

lemma holds_set_data_same:
  "holds (av_address info) bs w \<Longrightarrow> holds (av_address info) bs' (set_data info bs' w)"
  by (simp add: holds_def set_data_def set_account_def account_of_def)

lemma release_funds_bitmap:
  assumes "runtime_contract rt" "process_release_funds rt ESCROW_ID accounts xs w = Inr w'"
    "release_funds_process_instruction_data xs = Inr args"
  obtains bs bs' where
    "bitmap_address (rt_find_program_address rt) (av_address (accounts ! 2))
       = av_address (accounts ! 3)"
    "holds (av_address (accounts ! 3)) bs w" "bitmap_ok bs"
    "bitmap_accept bs (rfa_transaction_nonce args) = Inr bs'"
    "holds (av_address (accounts ! 3)) bs' w'"
  using assms(2)
proof (rule process_release_funds_Inr)
  fix args' bs' w2 dec and ev released and inst
  assume args': "release_funds_process_instruction_data xs = Inr args'"
    and v: "WithdrawalBitmap_validate rt w (data_of w (accounts ! 3)) (av_address (accounts ! 2))
       (accounts ! 3) = Inr ()"
    and acc: "bitmap_accept (data_of w (accounts ! 3)) (rfa_transaction_nonce args') = Inr bs'"
    and tok: "verify_token_programs (accounts ! 9) = Inr ()"
    and tr: "transfer_checked_cpi rt (accounts ! 8) (accounts ! 5) (accounts ! 7) (accounts ! 2)
       (rfa_amount args') dec (av_address (accounts ! 9)) (Some (accounts ! 13))
       (drop RELEASE_FIXED_ACCOUNTS_LEN accounts)
       [[INSTANCE_SEED, address_bytes (inst_instance_seed inst), [inst_bump inst]]]
       (set_data (accounts ! 3) bs' w) = Inr w2"
    and em: "emit_event rt ESCROW_ID (accounts ! 11) (accounts ! 12)
       (ReleaseFundsEvent_to_bytes (ReleaseFundsEvent_new (inst_instance_seed inst)
          (av_address (accounts ! 1)) released (rfa_user args') (av_address (accounts ! 5)))) w2
       = Inr w'"
  note val = WithdrawalBitmap_validate_Inr [OF v]
  have "holds (av_address (accounts ! 3)) bs' w2"
    using holdsR_transfer_checked_cpi [OF assms(1) holds_set_data_same [OF val(2)]
        verify_token_programs_neq_escrow [OF tok]] tr
    unfolding holdsR_def by blast
  then have "holds (av_address (accounts ! 3)) bs' w'"
    using holdsR_emit_event [OF assms(1)] em
    unfolding holdsR_def ReleaseFundsEvent_to_bytes_def by blast
  then show ?thesis
    using that val acc args' assms(3) by simp
qed

lemma rotate_bitmap_bitmap:
  assumes "runtime_contract rt" "process_rotate_bitmap rt ESCROW_ID accounts xs w = Inr w'"
  obtains bs bs' g where
    "holds (av_address (accounts ! 3)) bs w" "bitmap_ok bs"
    "WithdrawalBitmap_rotate bs g = Inr bs'" "holds (av_address (accounts ! 3)) bs' w'"
proof -
  from assms(2) obtain inst :: escrow_instance and bs' gen where
    v: "WithdrawalBitmap_validate rt w (data_of w (accounts ! 3)) (av_address (accounts ! 2))
       (accounts ! 3) = Inr ()"
    and r: "WithdrawalBitmap_rotate (data_of w (accounts ! 3)) (u64_of_le (slice 0 8 xs)) = Inr bs'"
    and em: "emit_event rt ESCROW_ID (accounts ! 5) (accounts ! 6)
       (RotateBitmapEvent_to_bytes (RotateBitmapEvent_new (inst_instance_seed inst)
          (av_address (accounts ! 1)) gen)) (set_data (accounts ! 3) bs' w) = Inr w'"
    by (rule process_rotate_bitmap_Inr) blast
  note val = WithdrawalBitmap_validate_Inr [OF v]
  have "holds (av_address (accounts ! 3)) bs' w'"
    using holdsR_emit_event [OF assms(1) holds_set_data_same [OF val(2)]] em
    unfolding holdsR_def RotateBitmapEvent_to_bytes_def by blast
  then show ?thesis using that val r by blast
qed

text \<open>The two handlers leave every escrow-owned account but their own bitmap alone.\<close>

lemma frame_release_funds_other:
  "runtime_contract rt \<Longrightarrow> holds a bs w \<Longrightarrow> av_address (accounts ! 3) \<noteq> a \<Longrightarrow>
   holdsR a bs (process_release_funds rt ESCROW_ID accounts xs w)"
  unfolding process_release_funds_def Let_def event_to_bytes_defs
  by (intro frame_rules) (assumption | erule holds_neqs)+

lemma frame_rotate_bitmap_other:
  "runtime_contract rt \<Longrightarrow> holds a bs w \<Longrightarrow> av_address (accounts ! 3) \<noteq> a \<Longrightarrow>
   holdsR a bs (process_rotate_bitmap rt ESCROW_ID accounts xs w)"
  unfolding process_rotate_bitmap_def Let_def event_to_bytes_defs
  by (intro frame_rules) (assumption | erule holds_neqs)+

section \<open>Runs\<close>

text \<open>The nonce an instruction releases for the instance, read from its data and accounts.\<close>

definition released_nonces :: "address \<Rightarrow> account_view list \<Rightarrow> bytes \<Rightarrow> u64 list" where
  "released_nonces instance_pda accounts ixdata =
     (case ixdata of
        tag # xs \<Rightarrow>
          (case release_funds_process_instruction_data xs of
             Inr args \<Rightarrow>
               if escrow_instruction_try_from tag = Some ReleaseFunds
                  \<and> av_address (accounts ! 2) = instance_pda
               then [rfa_transaction_nonce args] else []
           | Inl _ \<Rightarrow> [])
      | [] \<Rightarrow> [])"

inductive escrow_run ::
  "(bytes list \<Rightarrow> address \<Rightarrow> address \<times> u8) \<Rightarrow> address \<Rightarrow> ledger \<Rightarrow> u64 list \<Rightarrow> bool"
  for fpa :: "bytes list \<Rightarrow> address \<Rightarrow> address \<times> u8" and instance_pda :: address where
  run_start: "escrow_run fpa instance_pda l []"
| run_instruction:
    "escrow_run fpa instance_pda l rel \<Longrightarrow> runtime_contract rt \<Longrightarrow>
     rt_find_program_address rt = fpa \<Longrightarrow>
     process_instruction rt ESCROW_ID accounts ixdata (initial_world l) = Inr w' \<Longrightarrow>
     escrow_run fpa instance_pda (w_ledger w') (released_nonces instance_pda accounts ixdata @ rel)"
| run_environment:
    "escrow_run fpa instance_pda l rel \<Longrightarrow> escrow_frame l l' \<Longrightarrow> escrow_run fpa instance_pda l' rel"

definition replay_invariant ::
  "(bytes list \<Rightarrow> address \<Rightarrow> address \<times> u8) \<Rightarrow> address \<Rightarrow> ledger \<Rightarrow> u64 list \<Rightarrow> bool" where
  "replay_invariant fpa instance_pda l rel \<longleftrightarrow> rel = [] \<or>
     (\<exists>bs. holds (bitmap_address fpa instance_pda) bs (initial_world l) \<and> bm.tracks bs rel)"

lemma holds_initial_world [simp]: "holds a bs (initial_world (w_ledger w)) = holds a bs w"
  by (simp add: holds_def initial_world_def)

lemma holds_unique: "holds a bs w \<Longrightarrow> holds a bs' w \<Longrightarrow> bs = bs'"
  by (simp add: holds_def)

lemma tracks_bitmap_ok: "bm.tracks bs rel \<Longrightarrow> bitmap_ok bs"
  by (simp add: bm.tracks_def)

lemma bitmap_ok_neq_Nil: "bitmap_ok bs \<Longrightarrow> bs \<noteq> []"
  by (auto simp: bitmap_ok_def WithdrawalBitmap_LEN_def BITS_OFFSET_def)

lemma tracks_weaken: "bm.tracks bs (n # rel) \<Longrightarrow> bm.tracks bs rel"
  by (simp add: bm.tracks_def)

lemma invariant_release:
  assumes rt: "runtime_contract rt"
    and run: "process_release_funds rt ESCROW_ID accounts xs (initial_world l) = Inr w'"
    and args: "release_funds_process_instruction_data xs = Inr args"
    and inv: "replay_invariant (rt_find_program_address rt) i l rel"
  shows "replay_invariant (rt_find_program_address rt) i (w_ledger w')
    (if av_address (accounts ! 2) = i then rfa_transaction_nonce args # rel else rel)"
proof -
  let ?B = "bitmap_address (rt_find_program_address rt) i" and ?n = "rfa_transaction_nonce args"
  obtain bs bs' where own: "bitmap_address (rt_find_program_address rt) (av_address (accounts ! 2))
       = av_address (accounts ! 3)"
    and bs: "holds (av_address (accounts ! 3)) bs (initial_world l)" "bitmap_ok bs"
    and acc: "bitmap_accept bs ?n = Inr bs'" and bs': "holds (av_address (accounts ! 3)) bs' w'"
    using release_funds_bitmap [OF rt run args] by blast
  show ?thesis
  proof (cases "av_address (accounts ! 3) = ?B")
    case True
    have "bm.tracks bs rel"
      using inv bs True bm.tracks_init holds_unique unfolding replay_invariant_def by metis
    then have "bm.tracks bs' (?n # rel)" using acc by (rule bm.tracks_consume)
    with bs' True show ?thesis
      unfolding replay_invariant_def using tracks_weaken by auto
  next
    case False
    with own have "av_address (accounts ! 2) \<noteq> i" by auto
    moreover have "holds ?B cs w'" if "holds ?B cs (initial_world l)" for cs
      using frame_release_funds_other [OF rt that False] run unfolding holdsR_def by blast
    ultimately show ?thesis using inv unfolding replay_invariant_def by auto
  qed
qed

lemma invariant_rotate:
  assumes rt: "runtime_contract rt"
    and run: "process_rotate_bitmap rt ESCROW_ID accounts xs (initial_world l) = Inr w'"
    and inv: "replay_invariant (rt_find_program_address rt) i l rel"
  shows "replay_invariant (rt_find_program_address rt) i (w_ledger w') rel"
proof -
  let ?B = "bitmap_address (rt_find_program_address rt) i"
  obtain bs bs' g where
    bs: "holds (av_address (accounts ! 3)) bs (initial_world l)" "bitmap_ok bs"
    and acc: "WithdrawalBitmap_rotate bs g = Inr bs'"
    and bs': "holds (av_address (accounts ! 3)) bs' w'"
    using rotate_bitmap_bitmap [OF rt run] by blast
  show ?thesis
  proof (cases "av_address (accounts ! 3) = ?B")
    case True
    have "bm.tracks bs rel"
      using inv bs True bm.tracks_init holds_unique unfolding replay_invariant_def by metis
    then have "bm.tracks bs' rel" using acc by (rule bm.tracks_rotate)
    with bs' True show ?thesis unfolding replay_invariant_def by auto
  next
    case False
    have "holds ?B cs w'" if "holds ?B cs (initial_world l)" for cs
      using frame_rotate_bitmap_other [OF rt that False] run unfolding holdsR_def by blast
    then show ?thesis using inv unfolding replay_invariant_def by auto
  qed
qed

lemma invariant_other:
  assumes rt: "runtime_contract rt"
    and ix: "escrow_instruction_try_from tag = Some ix"
      "WithdrawalBitmapDiscriminator \<notin> writes_kind ix"
    and run: "process_instruction rt ESCROW_ID accounts (tag # xs) (initial_world l) = Inr w'"
    and inv: "replay_invariant fpa i l rel"
  shows "replay_invariant fpa i (w_ledger w') rel"
proof -
  have "holds (bitmap_address fpa i) bs w'"
    if "holds (bitmap_address fpa i) bs (initial_world l)" "bm.tracks bs rel" for bs
  proof -
    have "bitmap_ok bs" using that(2) by (rule tracks_bitmap_ok)
    then have "bs ! 0 = account_discriminator WithdrawalBitmapDiscriminator"
      by (simp add: bitmap_ok_def)
    with \<open>bitmap_ok bs\<close> show ?thesis
      using frame_process_instruction [OF rt ix(1) that(1) bitmap_ok_neq_Nil _ ix(2)] run
      unfolding holdsR_def by blast
  qed
  with inv show ?thesis unfolding replay_invariant_def by auto
qed

lemma process_release_funds_parses:
  "process_release_funds rt p accounts xs w = Inr w' \<Longrightarrow>
   \<exists>args. release_funds_process_instruction_data xs = Inr args"
  by (rule process_release_funds_Inr) blast+

lemma released_nonces_other:
  "escrow_instruction_try_from tag = Some ix \<Longrightarrow> ix \<noteq> ReleaseFunds \<Longrightarrow>
   released_nonces i accounts (tag # xs) = []"
  by (simp add: released_nonces_def split: sum.splits)

lemma released_nonces_release:
  "escrow_instruction_try_from tag = Some ReleaseFunds \<Longrightarrow>
   release_funds_process_instruction_data xs = Inr args \<Longrightarrow>
   released_nonces i accounts (tag # xs) =
     (if av_address (accounts ! 2) = i then [rfa_transaction_nonce args] else [])"
  by (simp add: released_nonces_def)

lemma invariant_instruction:
  assumes rt: "runtime_contract rt"
    and run: "process_instruction rt ESCROW_ID accounts ixdata (initial_world l) = Inr w'"
    and inv: "replay_invariant (rt_find_program_address rt) i l rel"
  shows "replay_invariant (rt_find_program_address rt) i (w_ledger w')
    (released_nonces i accounts ixdata @ rel)"
proof -
  obtain tag xs ix where d: "ixdata = tag # xs" "escrow_instruction_try_from tag = Some ix"
    using run by (rule process_instruction_cases)
  consider "ix = ReleaseFunds" | "ix = RotateBitmap" | "WithdrawalBitmapDiscriminator \<notin> writes_kind ix"
    by (cases ix) auto
  then show ?thesis
  proof cases
    case 1
    then have run': "process_release_funds rt ESCROW_ID accounts xs (initial_world l) = Inr w'"
      using run d by (simp add: process_instruction_def)
    then obtain args where args: "release_funds_process_instruction_data xs = Inr args"
      using process_release_funds_parses by blast
    show ?thesis
      using invariant_release [OF rt run' args inv] d 1 released_nonces_release [OF _ args]
      by (auto split: if_splits)
  next
    case 2
    then have "process_rotate_bitmap rt ESCROW_ID accounts xs (initial_world l) = Inr w'"
      using run d by (simp add: process_instruction_def)
    from invariant_rotate [OF rt this inv] show ?thesis
      using d 2 released_nonces_other by simp
  next
    case 3
    then have "ix \<noteq> ReleaseFunds" by auto
    then show ?thesis
      using invariant_other [OF rt d(2) 3 _ inv] run d released_nonces_other by simp
  qed
qed

lemma escrow_run_invariant: "escrow_run fpa i l rel \<Longrightarrow> replay_invariant fpa i l rel"
proof (induction rule: escrow_run.induct)
  case (run_start l)
  show ?case by (simp add: replay_invariant_def)
next
  case (run_instruction l rel rt accounts ixdata w')
  then show ?case using invariant_instruction by blast
next
  case (run_environment l rel l')
  then show ?case
    by (auto simp: replay_invariant_def holds_def initial_world_def escrow_frame_def)
qed

text \<open>
  C1. No double release. In every run of the escrow program, from any ledger, with any sequence
  of instructions, accounts and data, interleaved with anything the rest of the chain can do, the
  nonces that successful ReleaseFunds instructions have released for an instance are pairwise
  distinct: a withdrawal nonce is paid out at most once, across generations and rotations.
\<close>

theorem no_double_release: "escrow_run fpa i l rel \<Longrightarrow> distinct rel"
  using escrow_run_invariant [of fpa i l rel] bm.tracks_distinct
  by (auto simp: replay_invariant_def)

end
