(* ===== verification/Escrow_Scenario.thy ===== *)
theory Escrow_Scenario
  imports Escrow_Safety
begin

text \<open>
  A concrete runtime, ledger and account list on which the escrow handlers run to success. It
  shows that the runtime contract can be met and supplies the concrete inputs at which the
  theorems about the handlers are applied.
\<close>

section \<open>A small runtime\<close>

text \<open>Addresses by seed shape; the token program keeps the balance in the first eight bytes.\<close>

definition demo_find :: "bytes list \<Rightarrow> address \<Rightarrow> address \<times> u8" where
  "demo_find seeds p =
     (if length (hd seeds) = 8 then (if length seeds = 2 then 101 else 102)
      else if length (hd seeds) = 12 then 103
      else if length (hd seeds) = 17 then 104
      else if length (hd seeds) = 14 then 108
      else if hd seeds = address_bytes 101 then 106 else 107, 255)"

definition demo_amount :: "bytes \<Rightarrow> u64" where
  "demo_amount bs = u64_of_le (slice 0 8 bs)"

definition demo_transfer :: "address \<Rightarrow> address \<Rightarrow> u64 \<Rightarrow> ledger \<Rightarrow> ledger" where
  "demo_transfer from to amount l =
     (if acc_owner (l from) = TOKEN_PROGRAM_ID \<and> acc_owner (l to) = TOKEN_PROGRAM_ID then
        let l = l(from := (l from)\<lparr>acc_data := u64_le (demo_amount (acc_data (l from)) - amount)\<rparr>)
        in l(to := (l to)\<lparr>acc_data := u64_le (demo_amount (acc_data (l to)) + amount)\<rparr>)
      else l)"

definition demo_invoke :: "cpi \<Rightarrow> signer_seeds \<Rightarrow> ledger \<Rightarrow> ledger res" where
  "demo_invoke c seeds l =
     (case c of
        Invoke p metas bs \<Rightarrow>
          if p = ESCROW_ID then
            (if bs \<noteq> [] \<and> bs ! 0 = 228 then Inr l else Inl (CpiFailed 1))
          else if p = TOKEN_PROGRAM_ID \<and> 4 \<le> length metas then
            Inr (demo_transfer (ia_address (metas ! 0)) (ia_address (metas ! 2))
              (u64_of_le (slice 1 8 bs)) l)
          else Inr l
      | _ \<Rightarrow> Inr l)"

definition demo_rt :: runtime where
  "demo_rt =
     \<lparr>rt_find_program_address = demo_find,
      rt_create_program_address = (\<lambda>seeds p. Some (fst (demo_find seeds p))),
      rt_derive_program_address = (\<lambda>seeds p. (109, 255)),
      rt_rent = Inr (\<lambda>n. Inr 1),
      rt_invoke = demo_invoke,
      rt_token_amount = demo_amount, rt_token_2022_amount = demo_amount,
      rt_mint_decimals = (\<lambda>_. 6), rt_mint_2022_decimals = (\<lambda>_. 6), rt_mint_len = 8,
      rt_mint_has_freeze_authority = (\<lambda>_. False), rt_unpack_mint_2022 = (\<lambda>_. None),
      rt_memo_required = (\<lambda>_. Some False), rt_mint_2022_base_len = 8,
      rt_mint_2022_authority = (\<lambda>_. None),
      rt_ext_token_metadata = 19, rt_ext_token_group = 21, rt_ext_token_group_member = 23\<rparr>"

lemma demo_transfer_frame: "escrow_frame l (demo_transfer from to amount l)"
proof -
  have "TOKEN_PROGRAM_ID \<noteq> ESCROW_ID" by (simp add: TOKEN_PROGRAM_ID_def ESCROW_ID_def)
  then show ?thesis by (auto simp: escrow_frame_def demo_transfer_def Let_def)
qed

lemma demo_rt_contract: "runtime_contract demo_rt"
proof -
  have "foreign_cpi_contract demo_rt"
    unfolding foreign_cpi_contract_def demo_rt_def
    using demo_transfer_frame
    by (auto simp: demo_invoke_def self_invocation_def escrow_frame_def split: cpi.splits if_splits)
  moreover have "self_cpi_contract demo_rt"
    unfolding self_cpi_contract_def
  proof (intro allI impI)
    fix metas bs seeds l l'
    assume "rt_invoke demo_rt (Invoke ESCROW_ID metas bs) seeds l = Inr l'"
    then obtain cs where bs: "bs = 228 # cs" and l': "l' = l"
      by (cases bs) (auto simp: demo_rt_def demo_invoke_def split: if_splits)
    let ?accounts = "[\<lparr>av_address = event_authority_pda_ID demo_rt, av_is_signer = True,
        av_is_writable = False\<rparr>]"
    have "process_instruction demo_rt ESCROW_ID ?accounts bs (initial_world l)
        = Inr (initial_world l)"
      by (simp add: bs process_instruction_def escrow_instruction_try_from_def
          process_emit_event_def verify_signer_def)
    then show "\<exists>accounts w'. process_instruction demo_rt ESCROW_ID accounts bs (initial_world l)
        = Inr w' \<and> l' = w_ledger w'"
      using l' by (intro exI conjI) (assumption, simp add: initial_world_def)
  qed
  ultimately show ?thesis by (simp add: runtime_contract_def)
qed

section \<open>A ledger with one instance\<close>

definition demo_bitmap :: bytes where
  "demo_bitmap = [3, 255] @ u64_le 0 @ replicate BITMAP_BYTES 0"

definition demo_instance :: escrow_instance where
  "demo_instance = Instance_new 255 1 2"

definition demo_allowed_mint :: allowed_mint where
  "demo_allowed_mint = AllowedMint_new 255 6 TOKEN_PROGRAM_ID 0 False 1"

definition demo_ledger :: ledger where
  "demo_ledger a =
     (if a = 101 then \<lparr>acc_lamports = 9, acc_data = Instance_to_bytes demo_instance, acc_owner = ESCROW_ID\<rparr>
      else if a = 102 then
        \<lparr>acc_lamports = 9, acc_data = Operator_to_bytes (Operator_new 255), acc_owner = ESCROW_ID\<rparr>
      else if a = 103 then
        \<lparr>acc_lamports = 9, acc_data = AllowedMint_to_bytes demo_allowed_mint, acc_owner = ESCROW_ID\<rparr>
      else if a = 104 then \<lparr>acc_lamports = 9, acc_data = demo_bitmap, acc_owner = ESCROW_ID\<rparr>
      else if a = 105 then \<lparr>acc_lamports = 9, acc_data = u64_le 0, acc_owner = TOKEN_PROGRAM_ID\<rparr>
      else if a = 106 then \<lparr>acc_lamports = 9, acc_data = u64_le 1000, acc_owner = TOKEN_PROGRAM_ID\<rparr>
      else if a = 107 then \<lparr>acc_lamports = 9, acc_data = u64_le 50, acc_owner = TOKEN_PROGRAM_ID\<rparr>
      else \<lparr>acc_lamports = 9, acc_data = [], acc_owner = SYSTEM_PROGRAM_ID\<rparr>)"

text \<open>Operator 4 releases 40 tokens to wallet 5 under a nonce.\<close>

definition demo_release_accounts :: "account_view list" where
  "demo_release_accounts =
     [signer_view 3, signer_view 4, plain_view 101, plain_view 104, plain_view 102,
      plain_view 105, plain_view 103, plain_view 107, plain_view 106, plain_view TOKEN_PROGRAM_ID,
      plain_view ATA_PROGRAM_ID, plain_view 109, plain_view ESCROW_ID, plain_view 0,
      plain_view 0, plain_view 0]"

definition demo_release_data :: "u64 \<Rightarrow> bytes" where
  "demo_release_data nonce = u64_le 40 @ address_bytes 5 @ u64_le nonce @ address_bytes 5"

lemma demo_release_args:
  "release_funds_process_instruction_data (demo_release_data nonce) =
     Inr \<lparr>rfa_amount = 40, rfa_user = 5, rfa_transaction_nonce = nonce, rfa_withdrawer = 5\<rparr>"
  by (simp add: release_funds_process_instruction_data_def demo_release_data_def require_len_def
      RELEASE_INSTRUCTION_DATA_LENGTH_def byte_layout)

lemma demo_rt_simps [simp]:
  "rt_find_program_address demo_rt = demo_find" "rt_rent demo_rt = Inr (\<lambda>n. Inr 1)"
  "rt_invoke demo_rt = demo_invoke" "rt_token_amount demo_rt = demo_amount"
  "rt_mint_decimals demo_rt = (\<lambda>_. 6)" "rt_mint_len demo_rt = 8"
  "rt_mint_has_freeze_authority demo_rt = (\<lambda>_. False)"
  "event_authority_pda_ID demo_rt = 109" "event_authority_pda_BUMP demo_rt = 255"
  by (simp_all add: demo_rt_def event_authority_pda_ID_def event_authority_pda_BUMP_def)

lemma demo_find_simps [simp]:
  "demo_find [INSTANCE_SEED, x] p = (101, 255)"
  "demo_find [OPERATOR_SEED, x, y] p = (102, 255)"
  "demo_find [ALLOWED_MINT_SEED, x, y] p = (103, 255)"
  "demo_find [WITHDRAWAL_BITMAP_SEED, x] p = (104, 255)"
  "demo_find [ALLOWED_WALLET_SEED, x, y] p = (108, 255)"
  "demo_find [address_bytes a, x, y] p = (if a = 101 then 106 else 107, 255)"
  by (simp_all add: demo_find_def INSTANCE_SEED_def OPERATOR_SEED_def ALLOWED_MINT_SEED_def
      WITHDRAWAL_BITMAP_SEED_def ALLOWED_WALLET_SEED_def bytes_of_string_def)

lemma demo_amount_le [simp]: "demo_amount (u64_le n) = n"
  by (simp add: demo_amount_def)

lemma demo_decode [simp]:
  "Instance_try_from_bytes (Instance_to_bytes demo_instance) = Inr demo_instance"
  "Operator_try_from_bytes (Operator_to_bytes r) = Inr r"
  "AllowedMint_try_from_bytes (AllowedMint_to_bytes m) = Inr m"
  by (simp_all add: Instance_dec_enc Operator_dec_enc AllowedMint_dec_enc instance_wf_def
      demo_instance_def Instance_new_def)

lemma demo_bitmap_ok [simp]: "bitmap_ok demo_bitmap"
  by (simp add: bitmap_ok_def demo_bitmap_def WithdrawalBitmap_LEN_def BITS_OFFSET_def)

lemma demo_bitmap_generation [simp]: "bitmap_generation demo_bitmap = 0"
  by (simp add: bitmap_generation_def demo_bitmap_def GENERATION_OFFSET_def slice_append_left)

lemma demo_bitmap_used [simp]: "\<not> bitmap_used demo_bitmap n"
  using bitmap_byte_less [of n]
  by (simp add: bitmap_used_def demo_bitmap_def BITS_OFFSET_def nth_append Let_def)

lemma demo_bitmap_bump [simp]: "demo_bitmap ! BUMP_OFFSET = 255" "demo_bitmap \<noteq> []"
  by (simp_all add: demo_bitmap_def BUMP_OFFSET_def)

lemma program_ids_distinct [simp]:
  "TOKEN_PROGRAM_ID \<noteq> ESCROW_ID" "ESCROW_ID \<noteq> TOKEN_PROGRAM_ID"
  "TOKEN_PROGRAM_ID \<noteq> TOKEN_2022_PROGRAM_ID" "TOKEN_2022_PROGRAM_ID \<noteq> TOKEN_PROGRAM_ID"
  by (simp_all add: TOKEN_PROGRAM_ID_def ESCROW_ID_def TOKEN_2022_PROGRAM_ID_def)

lemma demo_validate_bitmap:
  "WithdrawalBitmap_validate demo_rt (initial_world demo_ledger) demo_bitmap i (plain_view 104)
     = Inr ()"
  using demo_bitmap_ok
  by (simp add: WithdrawalBitmap_validate_def WithdrawalBitmap_verify_len_def bitmap_ok_def
      validate_discriminator_def validate_pda_account_def owned_by_def account_of_def
      initial_world_def demo_ledger_def)

lemma demo_accept:
  "nonce div NONCES_PER_GENERATION = 0 \<Longrightarrow>
   WithdrawalBitmap_validate_generation demo_bitmap nonce = Inr () \<and>
   (\<exists>bs'. WithdrawalBitmap_consume_nonce demo_bitmap nonce = Inr bs')"
  by (simp add: validate_generation_eq_Inr consume_nonce_eq_Inr)

lemmas demo_defs = demo_ledger_def initial_world_def account_of_def data_of_def owned_by_def
  is_data_empty_def set_data_def set_account_def verify_signer_def verify_mutability_def
  verify_ata_program_def verify_token_programs_def verify_current_program_def
  verify_system_program_def validate_event_authority_def verify_account_owner_def
  Instance_validate_pda_def Operator_validate_pda_def AllowedMint_validate_pda_def
  validate_pda_account_def validate_ata_def get_token_account_balance_def get_mint_decimals_def
  transfer_checked_cpi_def transfer_checked_instruction_def requires_memo_def invoke_signed_def
  emit_event_def demo_invoke_def demo_transfer_def writable_meta_def readonly_meta_def
  try_borrow_mut_def demo_allowed_mint_def AllowedMint_new_def demo_instance_def
  Instance_new_def Operator_new_def event_to_bytes_defs EVENT_IX_TAG_LE_eq
  checked_sub_def MAX_HOOK_REMAINING_ACCOUNTS_def Let_def

lemma demo_release:
  assumes "nonce div NONCES_PER_GENERATION = 0"
  shows "\<exists>w'. process_release_funds demo_rt ESCROW_ID demo_release_accounts
    (demo_release_data nonce) (initial_world demo_ledger) = Inr w'"
proof -
  obtain bs' where acc: "WithdrawalBitmap_validate_generation demo_bitmap nonce = Inr ()"
      "WithdrawalBitmap_consume_nonce demo_bitmap nonce = Inr bs'"
    using demo_accept [OF assms] by blast
  have [simp]: "data_of (initial_world demo_ledger) (plain_view 104) = demo_bitmap"
    "data_of (initial_world demo_ledger) (plain_view 101) = Instance_to_bytes demo_instance"
    "data_of (initial_world demo_ledger) (plain_view 102) = Operator_to_bytes (Operator_new 255)"
    "data_of (initial_world demo_ledger) (plain_view 103) = AllowedMint_to_bytes demo_allowed_mint"
    by (simp_all add: data_of_def account_of_def initial_world_def demo_ledger_def)
  show ?thesis
    unfolding process_release_funds_def
    by (simp add: demo_release_args demo_release_accounts_def RELEASE_FIXED_ACCOUNTS_LEN_def
        demo_validate_bitmap acc) (simp add: demo_defs slice_append_left)
qed

lemma demo_released: "released_nonces 101 demo_release_accounts (7 # demo_release_data 7) = [7]"
  by (simp add: released_nonces_def demo_release_args escrow_instruction_try_from_def
      demo_release_accounts_def)

lemma demo_released_bitmap:
  "\<exists>l. escrow_run demo_find 101 l [7] \<and> acc_owner (l 104) = ESCROW_ID \<and> bitmap_ok (acc_data (l 104))
     \<and> bitmap_generation (acc_data (l 104)) = 0 \<and> bitmap_consumed (acc_data (l 104)) = {7}"
proof -
  obtain w' where w': "process_release_funds demo_rt ESCROW_ID demo_release_accounts
      (demo_release_data 7) (initial_world demo_ledger) = Inr w'"
    using demo_release [of 7] by (auto simp: NONCES_PER_GENERATION_def)
  have "process_instruction demo_rt ESCROW_ID demo_release_accounts (7 # demo_release_data 7)
      (initial_world demo_ledger) = Inr w'"
    using w' by (simp add: process_instruction_def escrow_instruction_try_from_def)
  from run_instruction [OF run_start demo_rt_contract _ this, of demo_find 101] demo_released
  have run: "escrow_run demo_find 101 (w_ledger w') [7]" by simp
  obtain bs bs' where "holds 104 bs (initial_world demo_ledger)" "bitmap_ok bs"
      "bitmap_accept bs 7 = Inr bs'" "holds 104 bs' w'"
    by (rule release_funds_bitmap [OF demo_rt_contract w' demo_release_args])
      (simp add: demo_release_accounts_def that)
  then have bs: "bs = demo_bitmap" "bitmap_accept demo_bitmap 7 = Inr bs'" "holds 104 bs' w'"
    by (auto simp: holds_def initial_world_def demo_ledger_def)
  have "bitmap_consumed bs' = insert 7 (bitmap_consumed demo_bitmap)"
    using bs(2) bm.consume_fresh [OF demo_bitmap_ok bs(2)]
    by (intro bitmap_consumed_consume) (auto simp: bitmap_accept_def bindE_eq_Inr)
  moreover have "bitmap_consumed demo_bitmap = {}" by (simp add: bitmap_consumed_def)
  ultimately show ?thesis
    using bm.consume_ok [OF demo_bitmap_ok bs(2)] run bs(3) by (auto simp: holds_def)
qed

lemma demo_run: "\<exists>l. escrow_run demo_find 101 l [7]"
  using demo_released_bitmap by blast

text \<open>The witness of C1: a run in which the instance releases nonce 7.\<close>

theorem no_double_release_witness:
  "\<exists>l. escrow_run demo_find 101 l [7] \<and> distinct [7 :: u64]"
  using demo_run no_double_release by blast

section \<open>Configuration instructions in the same ledger\<close>

text \<open>Wallet 2 is the admin of the instance at 101; wallet 8 signs as the next admin.\<close>

definition demo_set_new_admin_accounts :: "account_view list" where
  "demo_set_new_admin_accounts =
     [signer_view 3, signer_view 2, plain_view 101, signer_view 8, plain_view 109,
      plain_view ESCROW_ID]"

definition demo_set_whitelist_accounts :: "account_view list" where
  "demo_set_whitelist_accounts =
     [signer_view 3, signer_view 2, plain_view 101, plain_view SYSTEM_PROGRAM_ID, plain_view 109,
      plain_view ESCROW_ID]"

definition demo_block_mint_accounts :: "account_view list" where
  "demo_block_mint_accounts =
     [signer_view 3, signer_view 2, plain_view 101, plain_view 105, plain_view 103,
      plain_view 109, plain_view ESCROW_ID]"

definition demo_allow_mint_accounts :: "account_view list" where
  "demo_allow_mint_accounts =
     [signer_view 3, signer_view 2, plain_view 101, plain_view 105, plain_view 103,
      plain_view 106, plain_view SYSTEM_PROGRAM_ID, plain_view TOKEN_PROGRAM_ID,
      plain_view ATA_PROGRAM_ID, plain_view 109, plain_view ESCROW_ID]"

definition demo_allow_mint_data :: bytes where
  "demo_allow_mint_data = [255] @ u64_le 1 @ u64_le 2 @ u64_le 3"

definition demo_remove_operator_accounts :: "account_view list" where
  "demo_remove_operator_accounts =
     [signer_view 3, signer_view 2, plain_view 101, plain_view 4, plain_view 102,
      plain_view SYSTEM_PROGRAM_ID, plain_view 109, plain_view ESCROW_ID]"

lemma demo_ledger_data [simp]:
  "data_of (initial_world demo_ledger) (plain_view 101) = Instance_to_bytes demo_instance"
  "data_of (initial_world demo_ledger) (plain_view 102) = Operator_to_bytes (Operator_new 255)"
  "data_of (initial_world demo_ledger) (plain_view 103) = AllowedMint_to_bytes demo_allowed_mint"
  "data_of (initial_world demo_ledger) (plain_view 104) = demo_bitmap"
  by (simp_all add: data_of_def account_of_def initial_world_def demo_ledger_def)

lemma demo_instance_wf [simp]: "instance_wf demo_instance"
  by (simp add: instance_wf_def demo_instance_def Instance_new_def)

lemma length_demo_bytes [simp]:
  "length (Instance_to_bytes demo_instance) = Instance_LEN"
  "length (AllowedMint_to_bytes m) = AllowedMint_LEN"
  by (simp_all add: to_bytes_length)

lemma demo_set_new_admin:
  "\<exists>w'. process_set_new_admin demo_rt ESCROW_ID demo_set_new_admin_accounts []
    (initial_world demo_ledger) = Inr w'"
  unfolding process_set_new_admin_def
  by (simp add: demo_set_new_admin_accounts_def) (simp add: demo_defs Instance_validate_admin_def)

lemma demo_set_whitelist_enabled:
  "\<exists>w'. process_set_whitelist_enabled demo_rt ESCROW_ID demo_set_whitelist_accounts [1, 0]
    (initial_world demo_ledger) = Inr w'"
proof -
  let ?y = "demo_instance\<lparr>inst_deposits_whitelisted := True,
      inst_withdrawals_whitelisted := False, inst_version := INSTANCE_VERSION\<rparr>"
  have "length (Instance_to_bytes ?y) = Instance_LEN"
    using demo_instance_wf by (intro ins.enc_len) (simp add: instance_wf_def)
  then have cp: "copy_to_prefix [] (plain_view 101) (Instance_to_bytes ?y)
      (initial_world demo_ledger) = Inr (set_data (plain_view 101) (Instance_to_bytes ?y)
        (initial_world demo_ledger))"
    by (simp add: copy_to_prefix_def try_borrow_mut_def)
  show ?thesis
    unfolding process_set_whitelist_enabled_def
    by (simp add: demo_set_whitelist_accounts_def cp require_len_def bool_of_byte_def
        set_whitelist_enabled_process_instruction_data_def)
      (simp add: demo_defs Instance_validate_admin_def)
qed

lemma demo_block_mint:
  "\<exists>w'. process_block_mint demo_rt ESCROW_ID demo_block_mint_accounts [1, 0]
    (initial_world demo_ledger) = Inr w'"
  unfolding process_block_mint_def
  by (simp add: demo_block_mint_accounts_def require_len_def bool_of_byte_def
      block_mint_process_instruction_data_def copy_from_slice_def)
    (simp add: demo_defs Instance_validate_admin_def)

lemma demo_allow_mint:
  "\<exists>w'. process_allow_mint demo_rt ESCROW_ID demo_allow_mint_accounts demo_allow_mint_data
    (initial_world demo_ledger) = Inr w'"
proof -
  have args: "allow_mint_process_instruction_data demo_allow_mint_data =
      Inr \<lparr>ama_bump = 255, ama_withdraw_fee = 1, ama_min_withdraw_amount = 2,
           ama_min_deposit_amount = 3\<rparr>"
    by (simp add: allow_mint_process_instruction_data_def demo_allow_mint_data_def require_len_def
        byte_layout)
  have ata: "get_or_create_ata demo_rt (plain_view 106) (plain_view 101) (plain_view 105)
      (signer_view 3) (plain_view SYSTEM_PROGRAM_ID) (plain_view TOKEN_PROGRAM_ID)
      (initial_world demo_ledger) = Inr (initial_world demo_ledger)"
    by (simp add: get_or_create_ata_def demo_defs)
  show ?thesis
    unfolding process_allow_mint_def
    by (simp add: demo_allow_mint_accounts_def args ata copy_from_slice_def is_data_empty_def)
      (simp add: demo_defs Instance_validate_admin_def read_mint_profile_def SPL_NATIVE_MINT_def)
qed

lemma demo_remove_operator:
  "\<exists>w'. process_remove_operator demo_rt ESCROW_ID demo_remove_operator_accounts []
    (initial_world demo_ledger) = Inr w'"
  unfolding process_remove_operator_def
  by (simp add: demo_remove_operator_accounts_def)
    (simp add: demo_defs Instance_validate_admin_def checked_add_def lamports_of_def
      set_lamports_def close_account_def)

section \<open>A deposit and a wallet removal\<close>

definition demo_deposit_accounts :: "account_view list" where
  "demo_deposit_accounts =
     [signer_view 3, signer_view 5, plain_view 101, plain_view 105, plain_view 103,
      plain_view 107, plain_view 106, plain_view SYSTEM_PROGRAM_ID, plain_view TOKEN_PROGRAM_ID,
      plain_view ATA_PROGRAM_ID, plain_view 109, plain_view ESCROW_ID, plain_view 0, plain_view 0]"

definition demo_deposit_data :: bytes where
  "demo_deposit_data = u64_le 20 @ [0]"

lemma demo_deposit:
  "\<exists>w'. process_deposit demo_rt ESCROW_ID demo_deposit_accounts demo_deposit_data
    (initial_world demo_ledger) = Inr w'"
proof -
  have args: "deposit_process_instruction_data demo_deposit_data =
      Inr \<lparr>da_amount = 20, da_recipient = None\<rparr>"
    by (simp add: deposit_process_instruction_data_def demo_deposit_data_def require_len_def
        byte_layout)
  have prof: "read_mint_profile demo_rt (initial_world demo_ledger) (plain_view 105) =
      Inr \<lparr>mp_decimals = 6, mp_extensions = 0, mp_has_freeze_authority = False\<rparr>"
    by (simp add: read_mint_profile_def demo_defs)
  show ?thesis
    unfolding process_deposit_def
    by (simp add: args prof demo_deposit_accounts_def DEPOSIT_FIXED_ACCOUNTS_LEN_def
        AllowedMint_profile_changed_def)
      (simp add: demo_defs slice_append_left)
qed

definition demo_wallet_ledger :: ledger where
  "demo_wallet_ledger = demo_ledger(108 :=
     \<lparr>acc_lamports = 9, acc_data = AllowedWallet_to_bytes (AllowedWallet_new 255 False True),
      acc_owner = ESCROW_ID\<rparr>)"

definition demo_remove_wallet_accounts :: "account_view list" where
  "demo_remove_wallet_accounts =
     [signer_view 3, signer_view 2, plain_view 101, plain_view 5, plain_view 108,
      plain_view SYSTEM_PROGRAM_ID, plain_view 109, plain_view ESCROW_ID]"

lemma demo_remove_allowed_wallet:
  "\<exists>w'. process_remove_allowed_wallet demo_rt ESCROW_ID demo_remove_wallet_accounts []
    (initial_world demo_wallet_ledger) = Inr w'"
proof -
  have [simp]: "data_of (initial_world demo_wallet_ledger) (plain_view 101)
      = Instance_to_bytes demo_instance"
    "data_of (initial_world demo_wallet_ledger) (plain_view 108)
      = AllowedWallet_to_bytes (AllowedWallet_new 255 False True)"
    by (simp_all add: data_of_def account_of_def initial_world_def demo_wallet_ledger_def
        demo_ledger_def)
  have [simp]: "AllowedWallet_try_from_bytes (AllowedWallet_to_bytes
      (AllowedWallet_new 255 False True)) = Inr (AllowedWallet_new 255 False True)"
    by (rule wal.dec_enc) (simp add: allowed_wallet_wf_def AllowedWallet_new_def)
  show ?thesis
    unfolding process_remove_allowed_wallet_def
    by (simp add: demo_remove_wallet_accounts_def)
      (simp add: demo_wallet_ledger_def demo_defs Instance_validate_admin_def checked_add_def
        lamports_of_def set_lamports_def close_account_def AllowedWallet_validate_pda_def
        AllowedWallet_new_def)
qed

section \<open>Witnesses for the bitmap properties\<close>

lemma demo_bitmap_consumed: "bitmap_consumed demo_bitmap = {}"
  by (simp add: bitmap_consumed_def)

theorem consume_nonce_refines_witness:
  "\<exists>bs'. WithdrawalBitmap_consume_nonce demo_bitmap 7 = Inr bs' \<and> bitmap_consumed bs' = {7}"
proof -
  have "7 div NONCES_PER_GENERATION = bitmap_generation demo_bitmap"
    by (simp add: NONCES_PER_GENERATION_def)
  from consume_nonce_refines [OF demo_bitmap_ok this] show ?thesis
    by (simp add: demo_bitmap_consumed split: sum.splits)
qed

theorem rotate_refines_witness:
  "\<exists>bs'. WithdrawalBitmap_rotate demo_bitmap 0 = Inr bs' \<and> unat (bitmap_generation bs') = 1"
  using rotate_refines [OF demo_bitmap_ok, of 0] by (simp split: sum.splits)

theorem init_fresh_or_refused_witness:
  "WithdrawalBitmap_init demo_bitmap 255 = Inl AccountAlreadyInitialized"
  using init_fresh_or_refused [of 255 demo_bitmap] demo_bitmap_ok by simp

end
