(* ===== verification/Escrow_Authority.thy ===== *)
theory Escrow_Authority
  imports Escrow_Scenario
begin

text \<open>
  Who may change what in the escrow program: every configuration instruction needs the signature
  of the admin stored in the instance, the instance account changes only under that signature,
  and the configuration instructions have exactly the effect they name on the account they write.
\<close>

section \<open>The admin's signature\<close>

definition admin_instruction :: "escrow_instruction \<Rightarrow> bool" where
  "admin_instruction ix \<longleftrightarrow>
     ix \<in> {AllowMint, BlockMint, AddOperator, RemoveOperator, SetNewAdmin,
           AddOrUpdateAllowedWallet, RemoveAllowedWallet, SetWhitelistEnabled}"

definition admin_checked :: "runtime \<Rightarrow> world \<Rightarrow> account_view list \<Rightarrow> bool" where
  "admin_checked rt w accounts \<longleftrightarrow>
     (\<exists>inst. av_is_signer (accounts ! 1)
       \<and> Instance_try_from_bytes (data_of w (accounts ! 2)) = Inr inst
       \<and> Instance_validate_pda rt w inst (accounts ! 2) = Inr ()
       \<and> inst_admin inst = av_address (accounts ! 1))"

lemma verify_signer_Inr [simp]:
  "verify_signer info b = Inr u \<longleftrightarrow> av_is_signer info \<and> (b \<longrightarrow> av_is_writable info)"
  by (auto simp: verify_signer_def)

lemma Instance_validate_admin_Inr [simp]:
  "Instance_validate_admin inst a = Inr u \<longleftrightarrow> inst_admin inst = a"
  by (simp add: Instance_validate_admin_def)

lemmas bind_inversion = bindE_eq_Inr guardE_eq_Inr map_errE_eq_Inr ok_orE_eq_Inr
  verify_signer_Inr Instance_validate_admin_Inr

lemma admin_handlers:
  "process_allow_mint rt p accounts xs w = Inr w' \<Longrightarrow> admin_checked rt w accounts"
  "process_block_mint rt p accounts xs w = Inr w' \<Longrightarrow> admin_checked rt w accounts"
  "process_add_operator rt p accounts xs w = Inr w' \<Longrightarrow> admin_checked rt w accounts"
  "process_remove_operator rt p accounts xs w = Inr w' \<Longrightarrow> admin_checked rt w accounts"
  "process_set_new_admin rt p accounts xs w = Inr w' \<Longrightarrow> admin_checked rt w accounts"
  "process_add_or_update_allowed_wallet rt p accounts xs w = Inr w' \<Longrightarrow> admin_checked rt w accounts"
  "process_remove_allowed_wallet rt p accounts xs w = Inr w' \<Longrightarrow> admin_checked rt w accounts"
  "process_set_whitelist_enabled rt p accounts xs w = Inr w' \<Longrightarrow> admin_checked rt w accounts"
  unfolding admin_checked_def process_allow_mint_def process_block_mint_def
    process_add_operator_def process_remove_operator_def process_set_new_admin_def
    process_add_or_update_allowed_wallet_def process_remove_allowed_wallet_def
    process_set_whitelist_enabled_def Let_def
  by (simp_all only: bind_inversion) (elim exE conjE, (intro exI conjI; (assumption | simp)))+

text \<open>
  C34. Every successful configuration instruction was signed by the admin that the instance
  account stores, and that account is the program-derived address of its own seed, owned by the
  escrow program.
\<close>

theorem configuration_needs_admin:
  assumes "process_instruction rt p accounts (tag # xs) w = Inr w'"
    "escrow_instruction_try_from tag = Some ix" "admin_instruction ix"
  shows "\<exists>inst. av_is_signer (accounts ! 1) \<and> inst_admin inst = av_address (accounts ! 1)
    \<and> Instance_try_from_bytes (data_of w (accounts ! 2)) = Inr inst
    \<and> owned_by w (accounts ! 2) ESCROW_ID
    \<and> rt_find_program_address rt [INSTANCE_SEED, address_bytes (inst_instance_seed inst)] ESCROW_ID
        = (av_address (accounts ! 2), inst_bump inst)"
proof -
  have "admin_checked rt w accounts"
    using assms admin_handlers
    by (auto simp: process_instruction_def admin_instruction_def)
  then show ?thesis
    using ins.dec_neq_Nil
    by (fastforce simp: admin_checked_def Instance_validate_pda_def validate_pda_account_Inr
        is_data_empty_def)
qed

section \<open>The instance account changes only under its admin's signature\<close>

lemma frame_set_new_admin_other:
  "runtime_contract rt \<Longrightarrow> holds a bs w \<Longrightarrow> av_address (accounts ! 2) \<noteq> a \<Longrightarrow>
   holdsR a bs (process_set_new_admin rt ESCROW_ID accounts xs w)"
  unfolding process_set_new_admin_def Let_def event_to_bytes_defs
  by (intro frame_rules) (assumption | erule holds_neqs)+

lemma frame_set_whitelist_enabled_other:
  "runtime_contract rt \<Longrightarrow> holds a bs w \<Longrightarrow> av_address (accounts ! 2) \<noteq> a \<Longrightarrow>
   holdsR a bs (process_set_whitelist_enabled rt ESCROW_ID accounts xs w)"
  unfolding process_set_whitelist_enabled_def Let_def event_to_bytes_defs
  by (intro frame_rules holdsR_invoke_foreign)
    (assumption | erule holds_neqs | simp add: self_invocation_def)+

text \<open>
  Whatever instruction runs, an instance account keeps its bytes and its owner, unless the
  instruction is SetNewAdmin or SetWhitelistEnabled on that very instance, signed by the admin it
  stored before the instruction.
\<close>

theorem instance_changes_need_admin:
  assumes rt: "runtime_contract rt"
    and run: "process_instruction rt ESCROW_ID accounts (tag # xs) (initial_world l) = Inr w'"
    and ix: "escrow_instruction_try_from tag = Some ix"
    and inst: "acc_owner (l a) = ESCROW_ID" "Instance_try_from_bytes (acc_data (l a)) = Inr inst"
  shows "acc_owner (w_ledger w' a) = ESCROW_ID \<and> acc_data (w_ledger w' a) = acc_data (l a)
    \<or> ix \<in> {SetNewAdmin, SetWhitelistEnabled} \<and> av_address (accounts ! 2) = a
      \<and> av_is_signer (accounts ! 1) \<and> inst_admin inst = av_address (accounts ! 1)"
proof -
  have h: "holds a (acc_data (l a)) (initial_world l)"
    using inst by (simp add: holds_def initial_world_def)
  have tag: "acc_data (l a) \<noteq> []" "acc_data (l a) ! 0 = account_discriminator InstanceDiscriminator"
    using ins.dec_tag [OF inst(2)] by auto
  show ?thesis
  proof (cases "InstanceDiscriminator \<in> writes_kind ix")
    case False
    then show ?thesis
      using frame_process_instruction [OF rt ix h tag] run by (auto simp: holdsR_def holds_def)
  next
    case True
    then have two: "ix = SetNewAdmin \<or> ix = SetWhitelistEnabled" by (cases ix) auto
    show ?thesis
    proof (cases "av_address (accounts ! 2) = a")
      case True
      have "admin_checked rt (initial_world l) accounts"
        using run ix two admin_handlers by (auto simp: process_instruction_def)
      then have "av_is_signer (accounts ! 1) \<and> inst_admin inst = av_address (accounts ! 1)"
        using True inst(2) by (auto simp: admin_checked_def data_of_def account_of_def
            initial_world_def)
      then show ?thesis using True two by blast
    next
      case False
      then show ?thesis
        using two run ix frame_set_new_admin_other [OF rt h False]
          frame_set_whitelist_enabled_other [OF rt h False]
        by (auto simp: process_instruction_def holdsR_def holds_def)
    qed
  qed
qed

section \<open>The effect of the configuration instructions\<close>

lemma holds_copy_to_prefix:
  "copy_to_prefix live info bs w = Inr w' \<Longrightarrow>
   data_of w' info = bs @ drop (length bs) (data_of w info) \<and> length bs \<le> length (data_of w info)"
  by (auto simp: copy_to_prefix_def data_of_def account_of_def set_data_def set_account_def)

lemma data_of_copy_from_slice:
  "copy_from_slice live info bs w = Inr w' \<Longrightarrow> data_of w' info = bs"
  by (auto simp: copy_from_slice_def data_of_def account_of_def set_data_def set_account_def)

lemma data_of_set_data [simp]: "data_of (set_data info bs w) info = bs"
  by (simp add: data_of_def account_of_def set_data_def set_account_def)

lemma emit_event_data_of:
  assumes "runtime_contract rt" "emit_event rt ESCROW_ID ea pinfo (EVENT_IX_TAG_LE @ ev) w = Inr w'"
  shows "data_of w' info = data_of w info"
  using emit_event_ledger [OF assms(1) _ assms(2)] by (simp add: data_of_def account_of_def)

lemma Instance_rewrite:
  assumes "Instance_try_from_bytes bs = Inr x"
    "y = x\<lparr>inst_admin := a\<rparr>" "n = min (length bs) (length (Instance_to_bytes y))"
  shows "Instance_try_from_bytes (take n (Instance_to_bytes y) @ drop n bs) = Inr y"
proof -
  have wf: "instance_wf y"
    using ins.dec_wf [OF assms(1)] assms(2) by (simp add: instance_wf_def)
  then have len: "length (Instance_to_bytes y) = Instance_LEN" by (rule ins.enc_len)
  from Instance_dec_length [OF assms(1)] show ?thesis
  proof (elim disjE conjE)
    assume v1: "length bs = Instance_V1_LEN" "\<not> inst_deposits_whitelisted x"
      "\<not> inst_withdrawals_whitelisted x" "inst_reserved x = replicate INSTANCE_RESERVED_LEN 0"
    then have "n = Instance_V1_LEN" using assms(3) len by (simp add: len_defs)
    with v1 assms(2) show ?thesis by (simp add: Instance_dec_V1)
  next
    assume "Instance_LEN \<le> length bs"
    then have "n = length (Instance_to_bytes y)" using assms(3) len by simp
    with wf show ?thesis by (simp add: Instance_dec_prefix)
  qed
qed

text \<open>
  SetNewAdmin on an instance of either layout (0.1.0 or current) leaves an account that decodes
  to the same instance with only the admin replaced, by a wallet that signed the instruction
  together with the old admin.
\<close>

theorem set_new_admin_effect:
  assumes "runtime_contract rt" "process_set_new_admin rt ESCROW_ID accounts xs w = Inr w'"
  shows "\<exists>inst. Instance_try_from_bytes (data_of w (accounts ! 2)) = Inr inst
    \<and> inst_admin inst = av_address (accounts ! 1)
    \<and> av_is_signer (accounts ! 1) \<and> av_is_signer (accounts ! 3)
    \<and> length (data_of w' (accounts ! 2)) = length (data_of w (accounts ! 2))
    \<and> Instance_try_from_bytes (data_of w' (accounts ! 2))
        = Inr (inst\<lparr>inst_admin := av_address (accounts ! 3)\<rparr>)"
proof -
  let ?bs = "data_of w (accounts ! 2)"
  from assms(2) obtain inst where
    sig: "av_is_signer (accounts ! 1)" "av_is_signer (accounts ! 3)"
    and dec: "Instance_try_from_bytes ?bs = Inr inst"
    and adm: "inst_admin inst = av_address (accounts ! 1)"
    and em: "emit_event rt ESCROW_ID (accounts ! 4) (accounts ! 5) (SetNewAdminEvent_to_bytes
        (SetNewAdminEvent_new (inst_instance_seed inst) (inst_admin inst)
           (av_address (accounts ! 3))))
        (set_data (accounts ! 2)
          (take (min (length ?bs) (length (Instance_to_bytes
              (inst\<lparr>inst_admin := av_address (accounts ! 3)\<rparr>))))
             (Instance_to_bytes (inst\<lparr>inst_admin := av_address (accounts ! 3)\<rparr>))
           @ drop (min (length ?bs) (length (Instance_to_bytes
              (inst\<lparr>inst_admin := av_address (accounts ! 3)\<rparr>)))) ?bs) w) = Inr w'"
    unfolding process_set_new_admin_def Let_def
    by (simp only: bind_inversion) (elim exE conjE, simp)
  from em have "data_of w' (accounts ! 2) =
      take (min (length ?bs) (length (Instance_to_bytes
              (inst\<lparr>inst_admin := av_address (accounts ! 3)\<rparr>))))
             (Instance_to_bytes (inst\<lparr>inst_admin := av_address (accounts ! 3)\<rparr>))
           @ drop (min (length ?bs) (length (Instance_to_bytes
              (inst\<lparr>inst_admin := av_address (accounts ! 3)\<rparr>)))) ?bs"
    using emit_event_data_of [OF assms(1), where info = "accounts ! 2"]
    unfolding SetNewAdminEvent_to_bytes_def by fastforce
  then show ?thesis
    using sig dec adm Instance_rewrite [OF dec refl refl, of "av_address (accounts ! 3)"]
    by auto
qed

lemma data_of_resize_account:
  "resize_account live info n w = Inr w' \<Longrightarrow> length (data_of w' info) = n"
  by (auto simp: resize_account_def)

text \<open>
  SetWhitelistEnabled leaves an account in the current layout that decodes to the instance
  it found with the two whitelist flags of the instruction data and the current version, whatever
  layout the account had before.
\<close>

theorem set_whitelist_enabled_effect:
  assumes "runtime_contract rt"
    "process_set_whitelist_enabled rt ESCROW_ID accounts xs w = Inr w'"
  shows "\<exists>inst args. Instance_try_from_bytes (data_of w (accounts ! 2)) = Inr inst
    \<and> set_whitelist_enabled_process_instruction_data xs = Inr args
    \<and> Instance_LEN \<le> length (data_of w' (accounts ! 2))
    \<and> Instance_try_from_bytes (data_of w' (accounts ! 2))
        = Inr (inst\<lparr>inst_deposits_whitelisted := swa_whitelist_deposits args,
                    inst_withdrawals_whitelisted := swa_whitelist_withdrawals args,
                    inst_version := INSTANCE_VERSION\<rparr>)"
proof -
  from assms(2) obtain args inst w1 w2 where
    args: "set_whitelist_enabled_process_instruction_data xs = Inr args"
    and dec: "Instance_try_from_bytes (data_of w (accounts ! 2)) = Inr inst"
    and cp: "copy_to_prefix [] (accounts ! 2) (Instance_to_bytes
          (inst\<lparr>inst_deposits_whitelisted := swa_whitelist_deposits args,
                inst_withdrawals_whitelisted := swa_whitelist_withdrawals args,
                inst_version := INSTANCE_VERSION\<rparr>)) w1 = Inr w2"
    and em: "emit_event rt ESCROW_ID (accounts ! 4) (accounts ! 5)
        (SetWhitelistEnabledEvent_to_bytes (SetWhitelistEnabledEvent_new (inst_instance_seed inst)
           (swa_whitelist_deposits args) (swa_whitelist_withdrawals args))) w2 = Inr w'"
    unfolding process_set_whitelist_enabled_def Let_def
    by (simp only: bind_inversion) (elim exE conjE, simp)
  let ?y = "inst\<lparr>inst_deposits_whitelisted := swa_whitelist_deposits args,
                inst_withdrawals_whitelisted := swa_whitelist_withdrawals args,
                inst_version := INSTANCE_VERSION\<rparr>"
  have wf: "instance_wf ?y" using ins.dec_wf [OF dec] by (simp add: instance_wf_def)
  have "data_of w' (accounts ! 2) = data_of w2 (accounts ! 2)"
    using emit_event_data_of [OF assms(1)] em unfolding SetWhitelistEnabledEvent_to_bytes_def by blast
  then have data': "data_of w' (accounts ! 2) =
      Instance_to_bytes ?y @ drop (length (Instance_to_bytes ?y)) (data_of w1 (accounts ! 2))"
    using holds_copy_to_prefix [OF cp] by simp
  with Instance_dec_prefix [OF wf] ins.enc_len [OF wf] args dec show ?thesis by auto
qed

text \<open>
  BlockMint sets exactly the two gates of the allowed mint to the instruction's values and
  keeps every pinned property.
\<close>

theorem block_mint_effect:
  assumes "runtime_contract rt" "process_block_mint rt ESCROW_ID accounts xs w = Inr w'"
  shows "\<exists>am args. AllowedMint_try_from_bytes (data_of w (accounts ! 4)) = Inr am
    \<and> block_mint_process_instruction_data xs = Inr args
    \<and> AllowedMint_try_from_bytes (data_of w' (accounts ! 4))
        = Inr (am\<lparr>am_deposits_blocked := bma_block_deposits args,
                  am_withdrawals_blocked := bma_block_withdrawals args\<rparr>)"
proof -
  from assms(2) obtain args inst am w2 where
    args: "block_mint_process_instruction_data xs = Inr args"
    and dec: "AllowedMint_try_from_bytes (data_of w (accounts ! 4)) = Inr am"
    and cp: "copy_from_slice [av_address (accounts ! 2)] (accounts ! 4) (AllowedMint_to_bytes
        (am\<lparr>am_deposits_blocked := bma_block_deposits args,
            am_withdrawals_blocked := bma_block_withdrawals args\<rparr>)) w = Inr w2"
    and em: "emit_event rt ESCROW_ID (accounts ! 5) (accounts ! 6) (BlockMintEvent_to_bytes
        (BlockMintEvent_new (inst_instance_seed (inst :: escrow_instance)) (av_address (accounts ! 3))
          (bma_block_deposits args) (bma_block_withdrawals args))) w2 = Inr w'"
    unfolding process_block_mint_def Let_def
    by (simp only: bind_inversion) (elim exE conjE, simp)
  have "data_of w' (accounts ! 4) = data_of w2 (accounts ! 4)"
    using emit_event_data_of [OF assms(1)] em unfolding BlockMintEvent_to_bytes_def by blast
  then show ?thesis
    using args dec data_of_copy_from_slice [OF cp] AllowedMint_dec_enc by auto
qed

text \<open>
  AllowMint leaves an allowed-mint account that decodes to both gates open and to the profile
  read from the mint account at that moment, under the token program that owns the mint, with the
  minimum deposit of the instruction; the native mint is refused.
\<close>

theorem allow_mint_effect:
  assumes "runtime_contract rt" "process_allow_mint rt ESCROW_ID accounts xs w = Inr w'"
  shows "\<exists>args profile. allow_mint_process_instruction_data xs = Inr args
    \<and> read_mint_profile rt w (accounts ! 3) = Inr profile
    \<and> owned_by w (accounts ! 3) (av_address (accounts ! 7))
    \<and> av_address (accounts ! 3) \<noteq> SPL_NATIVE_MINT
    \<and> AllowedMint_try_from_bytes (data_of w' (accounts ! 4)) =
        Inr \<lparr>am_bump = ama_bump args, am_deposits_blocked = False, am_withdrawals_blocked = False,
             am_decimals = mp_decimals profile, am_token_program = av_address (accounts ! 7),
             am_extensions = mp_extensions profile,
             am_has_freeze_authority = mp_has_freeze_authority profile,
             am_min_deposit_amount = ama_min_deposit_amount args\<rparr>"
proof -
  from assms(2) obtain args profile inst w1 w2 where
    args: "allow_mint_process_instruction_data xs = Inr args"
    and own: "verify_account_owner w (accounts ! 3) (av_address (accounts ! 7)) = Inr ()"
    and nat: "av_address (accounts ! 3) \<noteq> SPL_NATIVE_MINT"
    and prof: "read_mint_profile rt w (accounts ! 3) = Inr profile"
    and cp: "copy_from_slice [av_address (accounts ! 2)] (accounts ! 4) (AllowedMint_to_bytes
        (AllowedMint_new (ama_bump args) (mp_decimals profile) (av_address (accounts ! 7))
           (mp_extensions profile) (mp_has_freeze_authority profile)
           (ama_min_deposit_amount args))) w1 = Inr w2"
    and em: "emit_event rt ESCROW_ID (accounts ! 9) (accounts ! 10) (AllowMintEvent_to_bytes
        (AllowMintEvent_new (inst_instance_seed (inst :: escrow_instance)) (av_address (accounts ! 3))
          (mp_decimals profile) (ama_withdraw_fee args) (ama_min_withdraw_amount args)
          (ama_min_deposit_amount args))) w2 = Inr w'"
    unfolding process_allow_mint_def Let_def
    by (simp only: bind_inversion) (elim exE conjE, simp)
  have "data_of w' (accounts ! 4) = data_of w2 (accounts ! 4)"
    using emit_event_data_of [OF assms(1)] em unfolding AllowMintEvent_to_bytes_def by blast
  then show ?thesis
    using args own nat prof data_of_copy_from_slice [OF cp] AllowedMint_dec_enc
    by (auto simp: AllowedMint_new_def verify_account_owner_def)
qed

section \<open>Revocation\<close>

lemma Operator_validate_pda_Inr:
  "Operator_validate_pda rt w r i wal info = Inr u \<Longrightarrow>
   av_address info = fst (rt_find_program_address rt
     [OPERATOR_SEED, address_bytes i, address_bytes wal] ESCROW_ID)"
  by (auto simp: Operator_validate_pda_def validate_pda_account_Inr)

lemma remove_operator_closes:
  assumes "runtime_contract rt" "process_remove_operator rt ESCROW_ID accounts xs w = Inr w'"
  shows "acc_data (w_ledger w' (fst (rt_find_program_address rt [OPERATOR_SEED,
    address_bytes (av_address (accounts ! 2)), address_bytes (av_address (accounts ! 3))]
    ESCROW_ID))) = []"
proof -
  from assms(2) obtain inst opr w1 w2 where
    v: "Operator_validate_pda rt w opr (av_address (accounts ! 2)) (av_address (accounts ! 3))
      (accounts ! 4) = Inr ()"
    and cl: "close_account [av_address (accounts ! 2)] (accounts ! 4) w1 = Inr w2"
    and em: "emit_event rt ESCROW_ID (accounts ! 6) (accounts ! 7) (RemoveOperatorEvent_to_bytes
        (RemoveOperatorEvent_new (inst_instance_seed (inst :: escrow_instance))
           (av_address (accounts ! 3)))) w2 = Inr w'"
    unfolding process_remove_operator_def Let_def
    by (simp only: bind_inversion) (elim exE conjE, simp)
  have "data_of w' (accounts ! 4) = data_of w2 (accounts ! 4)"
    using emit_event_data_of [OF assms(1)] em unfolding RemoveOperatorEvent_to_bytes_def by blast
  also have "\<dots> = []"
    using cl by (auto simp: close_account_def data_of_def account_of_def set_account_def)
  finally show ?thesis
    using Operator_validate_pda_Inr [OF v] by (simp add: data_of_def account_of_def)
qed

lemma operator_handlers_need_pda:
  assumes "acc_data (w_ledger w (fst (rt_find_program_address rt [OPERATOR_SEED,
    address_bytes (av_address (accounts ! 2)), address_bytes (av_address (accounts ! 1))]
    ESCROW_ID))) = []"
  shows "process_release_funds rt p accounts xs w \<noteq> Inr w'"
    and "process_rotate_bitmap rt p accounts xs w \<noteq> Inr w'"
proof -
  have no: False
    if "Operator_try_from_bytes (data_of w (accounts ! 4)) = Inr opr"
      "Operator_validate_pda rt w opr (av_address (accounts ! 2)) (av_address (accounts ! 1))
        (accounts ! 4) = Inr ()" for opr
    using opr.dec_neq_Nil [OF that(1)] Operator_validate_pda_Inr [OF that(2)] assms
    by (simp add: data_of_def account_of_def)
  show "process_release_funds rt p accounts xs w \<noteq> Inr w'"
    using no by (blast elim: process_release_funds_Inr)
  show "process_rotate_bitmap rt p accounts xs w \<noteq> Inr w'"
    using no by (blast elim: process_rotate_bitmap_Inr)
qed

text \<open>
  Revocation takes effect at once: in the ledger a successful RemoveOperator leaves, neither
  ReleaseFunds nor RotateBitmap can succeed for that operator wallet on that instance, whatever
  accounts and data are passed.
\<close>

theorem removed_operator_is_powerless:
  assumes "runtime_contract rt" "process_remove_operator rt ESCROW_ID accounts xs w = Inr w'"
    "av_address (later ! 2) = av_address (accounts ! 2)"
    "av_address (later ! 1) = av_address (accounts ! 3)"
  shows "\<not> is_ok (process_release_funds rt ESCROW_ID later ys w')
    \<and> \<not> is_ok (process_rotate_bitmap rt ESCROW_ID later ys w')"
  using operator_handlers_need_pda [of w' rt later] remove_operator_closes [OF assms(1,2)] assms(3,4)
  by (auto simp: is_ok_def split: sum.splits)

section \<open>Concrete instances\<close>

lemma demo_ledger_101 [simp]:
  "acc_owner (demo_ledger 101) = ESCROW_ID"
  "acc_data (demo_ledger 101) = Instance_to_bytes demo_instance"
  by (simp_all add: demo_ledger_def)

lemma demo_process_set_new_admin:
  "\<exists>w'. process_instruction demo_rt ESCROW_ID demo_set_new_admin_accounts [5]
     (initial_world demo_ledger) = Inr w'"
  using demo_set_new_admin by (simp add: process_instruction_def escrow_instruction_try_from_def)

theorem configuration_needs_admin_witness:
  "\<exists>inst. av_is_signer (demo_set_new_admin_accounts ! 1)
    \<and> inst_admin inst = av_address (demo_set_new_admin_accounts ! 1)
    \<and> Instance_try_from_bytes (data_of (initial_world demo_ledger)
        (demo_set_new_admin_accounts ! 2)) = Inr inst
    \<and> owned_by (initial_world demo_ledger) (demo_set_new_admin_accounts ! 2) ESCROW_ID
    \<and> rt_find_program_address demo_rt [INSTANCE_SEED, address_bytes (inst_instance_seed inst)]
        ESCROW_ID = (av_address (demo_set_new_admin_accounts ! 2), inst_bump inst)"
proof -
  obtain w' where "process_instruction demo_rt ESCROW_ID demo_set_new_admin_accounts [5]
      (initial_world demo_ledger) = Inr w'"
    using demo_process_set_new_admin by blast
  then show ?thesis
    by (rule configuration_needs_admin [where ix = SetNewAdmin])
      (simp_all add: escrow_instruction_try_from_def admin_instruction_def)
qed

theorem instance_changes_need_admin_witness:
  "\<exists>w'. process_instruction demo_rt ESCROW_ID demo_set_new_admin_accounts [5]
      (initial_world demo_ledger) = Inr w'
    \<and> (acc_owner (w_ledger w' 101) = ESCROW_ID
        \<and> acc_data (w_ledger w' 101) = acc_data (demo_ledger 101)
       \<or> SetNewAdmin \<in> {SetNewAdmin, SetWhitelistEnabled}
        \<and> av_address (demo_set_new_admin_accounts ! 2) = 101
        \<and> av_is_signer (demo_set_new_admin_accounts ! 1)
        \<and> inst_admin demo_instance = av_address (demo_set_new_admin_accounts ! 1))"
proof -
  obtain w' where run: "process_instruction demo_rt ESCROW_ID demo_set_new_admin_accounts [5]
      (initial_world demo_ledger) = Inr w'"
    using demo_process_set_new_admin by blast
  show ?thesis
    using run instance_changes_need_admin [OF demo_rt_contract run, of SetNewAdmin 101 demo_instance]
    by (intro exI [of _ w'] conjI) (simp_all add: escrow_instruction_try_from_def)
qed

theorem set_new_admin_effect_witness:
  "\<exists>w' inst. process_set_new_admin demo_rt ESCROW_ID demo_set_new_admin_accounts []
      (initial_world demo_ledger) = Inr w'
    \<and> Instance_try_from_bytes (data_of w' (demo_set_new_admin_accounts ! 2))
        = Inr (inst\<lparr>inst_admin := 8\<rparr>)"
proof -
  obtain w' where run: "process_set_new_admin demo_rt ESCROW_ID demo_set_new_admin_accounts []
      (initial_world demo_ledger) = Inr w'"
    using demo_set_new_admin by blast
  have "av_address (demo_set_new_admin_accounts ! 3) = 8"
    by (simp add: demo_set_new_admin_accounts_def)
  with run set_new_admin_effect [OF demo_rt_contract run] show ?thesis by auto
qed

theorem set_whitelist_enabled_effect_witness:
  "\<exists>w' inst. process_set_whitelist_enabled demo_rt ESCROW_ID demo_set_whitelist_accounts [1, 0]
      (initial_world demo_ledger) = Inr w'
    \<and> Instance_try_from_bytes (data_of w' (demo_set_whitelist_accounts ! 2)) = Inr inst
    \<and> inst_deposits_whitelisted inst \<and> \<not> inst_withdrawals_whitelisted inst"
proof -
  obtain w' where run: "process_set_whitelist_enabled demo_rt ESCROW_ID
      demo_set_whitelist_accounts [1, 0] (initial_world demo_ledger) = Inr w'"
    using demo_set_whitelist_enabled by blast
  have "set_whitelist_enabled_process_instruction_data [1, 0] =
      Inr \<lparr>swa_whitelist_deposits = True, swa_whitelist_withdrawals = False\<rparr>"
    by (simp add: set_whitelist_enabled_process_instruction_data_def require_len_def
        bool_of_byte_def)
  with run set_whitelist_enabled_effect [OF demo_rt_contract run] show ?thesis by auto
qed

theorem block_mint_effect_witness:
  "\<exists>w' am. process_block_mint demo_rt ESCROW_ID demo_block_mint_accounts [1, 0]
      (initial_world demo_ledger) = Inr w'
    \<and> AllowedMint_try_from_bytes (data_of w' (demo_block_mint_accounts ! 4)) = Inr am
    \<and> am_deposits_blocked am \<and> \<not> am_withdrawals_blocked am"
proof -
  obtain w' where run: "process_block_mint demo_rt ESCROW_ID demo_block_mint_accounts [1, 0]
      (initial_world demo_ledger) = Inr w'"
    using demo_block_mint by blast
  have "block_mint_process_instruction_data [1, 0] =
      Inr \<lparr>bma_block_deposits = True, bma_block_withdrawals = False\<rparr>"
    by (simp add: block_mint_process_instruction_data_def require_len_def bool_of_byte_def)
  with run block_mint_effect [OF demo_rt_contract run] show ?thesis by auto
qed

theorem allow_mint_effect_witness:
  "\<exists>w' am. process_allow_mint demo_rt ESCROW_ID demo_allow_mint_accounts demo_allow_mint_data
      (initial_world demo_ledger) = Inr w'
    \<and> AllowedMint_try_from_bytes (data_of w' (demo_allow_mint_accounts ! 4)) = Inr am
    \<and> \<not> am_deposits_blocked am \<and> \<not> am_withdrawals_blocked am"
proof -
  obtain w' where run: "process_allow_mint demo_rt ESCROW_ID demo_allow_mint_accounts
      demo_allow_mint_data (initial_world demo_ledger) = Inr w'"
    using demo_allow_mint by blast
  with allow_mint_effect [OF demo_rt_contract run] show ?thesis by auto
qed

theorem removed_operator_is_powerless_witness:
  "\<exists>w'. process_remove_operator demo_rt ESCROW_ID demo_remove_operator_accounts []
      (initial_world demo_ledger) = Inr w'
    \<and> \<not> is_ok (process_release_funds demo_rt ESCROW_ID demo_release_accounts
          (demo_release_data 7) w')
    \<and> \<not> is_ok (process_rotate_bitmap demo_rt ESCROW_ID demo_release_accounts
          (demo_release_data 7) w')"
proof -
  obtain w' where run: "process_remove_operator demo_rt ESCROW_ID demo_remove_operator_accounts []
      (initial_world demo_ledger) = Inr w'"
    using demo_remove_operator by blast
  have "\<not> is_ok (process_release_funds demo_rt ESCROW_ID demo_release_accounts
          (demo_release_data 7) w')
    \<and> \<not> is_ok (process_rotate_bitmap demo_rt ESCROW_ID demo_release_accounts
          (demo_release_data 7) w')"
    by (rule removed_operator_is_powerless [OF demo_rt_contract run])
      (simp_all add: demo_remove_operator_accounts_def demo_release_accounts_def)
  with run show ?thesis by blast
qed

end
