(* ===== verification/Escrow_Funds.thy ===== *)
theory Escrow_Funds
  imports Escrow_Authority
begin

text \<open>
  The money paths of the escrow program: what a successful ReleaseFunds and a successful Deposit
  have checked, which token transfers they made, and that the amounts they report in their events
  are the actual changes of the escrow's token balance.
\<close>

section \<open>Invocations and balances\<close>

lemma invoke_signed_invoked:
  "invoke_signed rt c seeds w = Inr w' \<Longrightarrow> w_invoked w' = w_invoked w @ [(c, seeds)]"
  by (auto simp: invoke_signed_def)

lemma emit_event_invoked:
  "emit_event rt p ea pinfo ev w = Inr w' \<Longrightarrow>
   w_invoked w' = w_invoked w @ [(Invoke p [readonly_signer_meta (av_address ea)] ev,
     [[EVENT_AUTHORITY_SEED, [event_authority_pda_BUMP rt]]])]"
  by (auto simp: emit_event_def dest: invoke_signed_invoked)

definition memo_calls :: "(cpi \<times> signer_seeds) list set" where
  "memo_calls = {[], [(Invoke MEMO_PROGRAM_ID [] MEMO_TEXT, [])]}"

lemma transfer_checked_cpi_invoked:
  assumes "transfer_checked_cpi rt from mint to auth amt dec tp memo extras signers w = Inr w'"
  shows "\<exists>ms\<in>memo_calls. w_invoked w' = w_invoked w @ ms
    @ [(transfer_checked_instruction from mint to auth amt dec tp extras, signers)]
    \<and> length extras \<le> MAX_HOOK_REMAINING_ACCOUNTS"
  using assms unfolding transfer_checked_cpi_def memo_calls_def invoke_memo_def
  by (auto simp: not_less dest!: invoke_signed_invoked split: if_splits)

lemma balance_set_data:
  assumes "holds (av_address info) bs w"
    "get_token_account_balance rt (set_data info bs' w) ata = Inr n"
  shows "get_token_account_balance rt w ata = Inr n"
proof (cases "av_address ata = av_address info")
  case True
  have "ESCROW_ID \<noteq> TOKEN_2022_PROGRAM_ID" by (simp add: ESCROW_ID_def TOKEN_2022_PROGRAM_ID_def)
  with True assms show ?thesis
    by (simp add: get_token_account_balance_def holds_def owned_by_def account_of_def set_data_def
        set_account_def)
next
  case False
  with assms(2) show ?thesis
    by (auto simp: get_token_account_balance_def owned_by_def account_of_def data_of_def
        set_data_def set_account_def split: if_splits)
qed

lemma balance_same_ledger:
  "w_ledger w = w_ledger w' \<Longrightarrow>
   get_token_account_balance rt w ata = get_token_account_balance rt w' ata"
  by (simp add: get_token_account_balance_def owned_by_def account_of_def data_of_def)

section \<open>ReleaseFunds\<close>

lemma AllowedMint_validate_pda_Inr:
  "AllowedMint_validate_pda rt w am i mint info = Inr u \<Longrightarrow>
   rt_find_program_address rt [ALLOWED_MINT_SEED, address_bytes i, address_bytes mint] ESCROW_ID
     = (av_address info, am_bump am) \<and> (is_data_empty w info \<or> owned_by w info ESCROW_ID)"
  by (auto simp: AllowedMint_validate_pda_def validate_pda_account_Inr)

lemma Operator_validate_pda_Inr':
  "Operator_validate_pda rt w r i wal info = Inr u \<Longrightarrow>
   rt_find_program_address rt [OPERATOR_SEED, address_bytes i, address_bytes wal] ESCROW_ID
     = (av_address info, op_bump r) \<and> (is_data_empty w info \<or> owned_by w info ESCROW_ID)"
  by (auto simp: Operator_validate_pda_def validate_pda_account_Inr)

text \<open>
  C14. A successful ReleaseFunds was signed by a wallet that holds an operator account of this
  instance, for a mint whose allowed-mint account of this instance does not block withdrawals,
  to a destination and for a withdrawer that are allowed to withdraw if the instance whitelists
  withdrawals, and under a nonce of the bitmap's current generation that was not yet consumed.
\<close>

theorem release_funds_authorised:
  assumes "process_release_funds rt p accounts xs w = Inr w'"
  shows "\<exists>args inst opr am.
    release_funds_process_instruction_data xs = Inr args
    \<and> av_is_signer (accounts ! 1)
    \<and> Instance_try_from_bytes (data_of w (accounts ! 2)) = Inr inst
    \<and> Operator_try_from_bytes (data_of w (accounts ! 4)) = Inr opr
    \<and> rt_find_program_address rt [OPERATOR_SEED, address_bytes (av_address (accounts ! 2)),
         address_bytes (av_address (accounts ! 1))] ESCROW_ID
        = (av_address (accounts ! 4), op_bump opr)
    \<and> owned_by w (accounts ! 4) ESCROW_ID
    \<and> AllowedMint_try_from_bytes (data_of w (accounts ! 6)) = Inr am
    \<and> rt_find_program_address rt [ALLOWED_MINT_SEED, address_bytes (av_address (accounts ! 2)),
         address_bytes (av_address (accounts ! 5))] ESCROW_ID
        = (av_address (accounts ! 6), am_bump am)
    \<and> owned_by w (accounts ! 6) ESCROW_ID
    \<and> \<not> am_withdrawals_blocked am
    \<and> (inst_withdrawals_whitelisted inst \<longrightarrow>
         is_ok (AllowedWallet_verify_allowed rt w (accounts ! 15) (av_address (accounts ! 2))
           (rfa_withdrawer args) WithdrawDirection)
         \<and> is_ok (AllowedWallet_verify_allowed rt w (accounts ! 14) (av_address (accounts ! 2))
           (rfa_user args) WithdrawDirection))
    \<and> av_address (accounts ! 3)
        = bitmap_address (rt_find_program_address rt) (av_address (accounts ! 2))
    \<and> rfa_transaction_nonce args div NONCES_PER_GENERATION
        = bitmap_generation (data_of w (accounts ! 3))
    \<and> rfa_transaction_nonce args \<notin> bitmap_consumed (data_of w (accounts ! 3))"
  using assms
proof (rule process_release_funds_Inr)
  fix args inst opr am bs'
  assume a: "release_funds_process_instruction_data xs = Inr args"
    "verify_signer (accounts ! 1) False = Inr ()"
    "Instance_try_from_bytes (data_of w (accounts ! 2)) = Inr inst"
    and op: "Operator_try_from_bytes (data_of w (accounts ! 4)) = Inr opr"
      "Operator_validate_pda rt w opr (av_address (accounts ! 2)) (av_address (accounts ! 1))
        (accounts ! 4) = Inr ()"
    and am: "AllowedMint_try_from_bytes (data_of w (accounts ! 6)) = Inr am"
      "AllowedMint_validate_pda rt w am (av_address (accounts ! 2)) (av_address (accounts ! 5))
        (accounts ! 6) = Inr ()" "\<not> am_withdrawals_blocked am"
    and wl: "inst_withdrawals_whitelisted inst \<longrightarrow>
       AllowedWallet_verify_allowed rt w (accounts ! 15) (av_address (accounts ! 2))
         (rfa_withdrawer args) WithdrawDirection = Inr () \<and>
       AllowedWallet_verify_allowed rt w (accounts ! 14) (av_address (accounts ! 2))
         (rfa_user args) WithdrawDirection = Inr ()"
    and bmp: "WithdrawalBitmap_validate rt w (data_of w (accounts ! 3)) (av_address (accounts ! 2))
       (accounts ! 3) = Inr ()"
      "bitmap_accept (data_of w (accounts ! 3)) (rfa_transaction_nonce args) = Inr bs'"
  note val = WithdrawalBitmap_validate_Inr [OF bmp(1)]
  note fresh = bm.consume_fresh [OF val(3) bmp(2)]
  show ?thesis
    by (intro exI conjI)
      (use a op am wl val fresh Operator_validate_pda_Inr' [OF op(2)]
        AllowedMint_validate_pda_Inr [OF am(2)] opr.dec_neq_Nil [OF op(1)]
        mnt.dec_neq_Nil [OF am(1)] in
        \<open>auto simp: is_ok_def is_data_empty_def bitmap_consumed_def\<close>)
qed

text \<open>
  C15. A successful ReleaseFunds makes exactly one token transfer: from the instance's associated
  token account to the one of the destination wallet, for the instruction's amount, signed by the
  instance; before it there is at most a memo, after it only the event. The amount the event
  reports is exactly what the escrow's token balance lost between the start and the end.
\<close>

theorem release_funds_pays_once:
  assumes rt: "runtime_contract rt"
    and run: "process_release_funds rt ESCROW_ID accounts xs w = Inr w'"
  shows "\<exists>args inst dec released before after. \<exists>ms\<in>memo_calls.
    release_funds_process_instruction_data xs = Inr args
    \<and> Instance_try_from_bytes (data_of w (accounts ! 2)) = Inr inst
    \<and> validate_ata rt w (accounts ! 7) (rfa_user args) (accounts ! 5) (accounts ! 9) = Inr ()
    \<and> validate_ata rt w (accounts ! 8) (av_address (accounts ! 2)) (accounts ! 5) (accounts ! 9)
        = Inr ()
    \<and> w_invoked w' = w_invoked w @ ms
        @ [(transfer_checked_instruction (accounts ! 8) (accounts ! 5) (accounts ! 7)
              (accounts ! 2) (rfa_amount args) dec (av_address (accounts ! 9))
              (drop RELEASE_FIXED_ACCOUNTS_LEN accounts),
            [[INSTANCE_SEED, address_bytes (inst_instance_seed inst), [inst_bump inst]]]),
           (Invoke ESCROW_ID [readonly_signer_meta (av_address (accounts ! 11))]
              (ReleaseFundsEvent_to_bytes (ReleaseFundsEvent_new (inst_instance_seed inst)
                 (av_address (accounts ! 1)) released (rfa_user args)
                 (av_address (accounts ! 5)))),
            [[EVENT_AUTHORITY_SEED, [event_authority_pda_BUMP rt]]])]
    \<and> get_token_account_balance rt w (accounts ! 8) = Inr before
    \<and> get_token_account_balance rt w' (accounts ! 8) = Inr after
    \<and> unat before = unat after + unat released"
  using run
proof (rule process_release_funds_Inr)
  fix args and inst :: escrow_instance and bs' before dec w2 after released
  assume a: "release_funds_process_instruction_data xs = Inr args"
    "Instance_try_from_bytes (data_of w (accounts ! 2)) = Inr inst"
    "validate_ata rt w (accounts ! 7) (rfa_user args) (accounts ! 5) (accounts ! 9) = Inr ()"
    "validate_ata rt w (accounts ! 8) (av_address (accounts ! 2)) (accounts ! 5) (accounts ! 9)
       = Inr ()"
    and v: "WithdrawalBitmap_validate rt w (data_of w (accounts ! 3)) (av_address (accounts ! 2))
       (accounts ! 3) = Inr ()"
    and b: "get_token_account_balance rt (set_data (accounts ! 3) bs' w) (accounts ! 8) = Inr before"
    and t: "transfer_checked_cpi rt (accounts ! 8) (accounts ! 5) (accounts ! 7) (accounts ! 2)
       (rfa_amount args) dec (av_address (accounts ! 9)) (Some (accounts ! 13))
       (drop RELEASE_FIXED_ACCOUNTS_LEN accounts)
       [[INSTANCE_SEED, address_bytes (inst_instance_seed inst), [inst_bump inst]]]
       (set_data (accounts ! 3) bs' w) = Inr w2"
    and af: "get_token_account_balance rt w2 (accounts ! 8) = Inr after"
    and r: "checked_sub before after = Some released"
    and em: "emit_event rt ESCROW_ID (accounts ! 11) (accounts ! 12)
       (ReleaseFundsEvent_to_bytes (ReleaseFundsEvent_new (inst_instance_seed inst)
          (av_address (accounts ! 1)) released (rfa_user args) (av_address (accounts ! 5)))) w2
       = Inr w'"
  have "w_ledger w' = w_ledger w2"
    using emit_event_ledger [OF rt _ em] by (simp add: ReleaseFundsEvent_to_bytes_def)
  then have "get_token_account_balance rt w' (accounts ! 8) = Inr after"
    using af balance_same_ledger by metis
  moreover have "get_token_account_balance rt w (accounts ! 8) = Inr before"
    using balance_set_data [OF WithdrawalBitmap_validate_Inr(2) [OF v] b] .
  moreover have "unat before = unat after + unat released"
    using checked_sub_unat [OF r] by simp
  moreover obtain ms where "ms \<in> memo_calls"
    "w_invoked w2 = w_invoked w @ ms @ [(transfer_checked_instruction (accounts ! 8) (accounts ! 5)
        (accounts ! 7) (accounts ! 2) (rfa_amount args) dec (av_address (accounts ! 9))
        (drop RELEASE_FIXED_ACCOUNTS_LEN accounts),
        [[INSTANCE_SEED, address_bytes (inst_instance_seed inst), [inst_bump inst]]])]"
    using transfer_checked_cpi_invoked [OF t] by (auto simp: set_data_def set_account_def)
  ultimately show ?thesis
    using a emit_event_invoked [OF em]
    by (intro exI bexI [of _ ms] conjI) auto
qed

section \<open>Mint drift\<close>

lemma masked_xor_eq_0_iff:
  fixes x y m :: "'a::len word"
  shows "(x XOR y) AND NOT m = 0 \<longleftrightarrow> (\<forall>n<LENGTH('a). \<not> bit m n \<longrightarrow> bit y n = bit x n)"
  by (auto simp: bit_eq_iff bit_and_iff bit_xor_iff bit_not_iff)

lemma bit_ISSUER_ADDABLE_EXTENSIONS:
  "n < 64 \<Longrightarrow> bit (ISSUER_ADDABLE_EXTENSIONS rt) n \<longleftrightarrow>
   n \<in> {rt_ext_token_metadata rt, rt_ext_token_group rt, rt_ext_token_group_member rt}"
  by (auto simp: ISSUER_ADDABLE_EXTENSIONS_def bit_or_iff bit_exp_iff)

lemma profile_changed_iff:
  "\<not> AllowedMint_profile_changed rt am profile tp \<longleftrightarrow>
     mp_decimals profile = am_decimals am \<and> am_token_program am = tp
     \<and> (\<forall>n<64. n \<notin> {rt_ext_token_metadata rt, rt_ext_token_group rt, rt_ext_token_group_member rt} \<longrightarrow>
         bit (mp_extensions profile) n = bit (am_extensions am) n)
     \<and> (mp_has_freeze_authority profile \<longrightarrow> am_has_freeze_authority am)"
  unfolding AllowedMint_profile_changed_def
  using masked_xor_eq_0_iff [of "am_extensions am" "mp_extensions profile"
      "ISSUER_ADDABLE_EXTENSIONS rt"]
  by (auto simp: bit_ISSUER_ADDABLE_EXTENSIONS)

section \<open>Deposit\<close>

lemma process_deposit_Inr:
  assumes "process_deposit rt pid accounts xs w = Inr w'"
  obtains args inst am profile before w2 after received where
    "deposit_process_instruction_data xs = Inr args" "da_amount args \<noteq> 0"
    "DEPOSIT_FIXED_ACCOUNTS_LEN \<le> length accounts"
    "av_is_signer (accounts ! 1)"
    "verify_token_programs (accounts ! 8) = Inr ()"
    "verify_account_owner w (accounts ! 3) (av_address (accounts ! 8)) = Inr ()"
    "Instance_try_from_bytes (data_of w (accounts ! 2)) = Inr inst"
    "Instance_validate_pda rt w inst (accounts ! 2) = Inr ()"
    "AllowedMint_try_from_bytes (data_of w (accounts ! 4)) = Inr am"
    "AllowedMint_validate_pda rt w am (av_address (accounts ! 2)) (av_address (accounts ! 3))
       (accounts ! 4) = Inr ()"
    "\<not> am_deposits_blocked am"
    "inst_deposits_whitelisted inst \<longrightarrow>
       AllowedWallet_verify_allowed rt w (accounts ! 12) (av_address (accounts ! 2))
         (av_address (accounts ! 1)) DepositDirection = Inr () \<and>
       AllowedWallet_verify_allowed rt w (accounts ! 13) (av_address (accounts ! 2))
         (case da_recipient args of None \<Rightarrow> av_address (accounts ! 1) | Some r \<Rightarrow> r)
         DepositDirection = Inr ()"
    "read_mint_profile rt w (accounts ! 3) = Inr profile"
    "\<not> AllowedMint_profile_changed rt am profile (av_address (accounts ! 8))"
    "validate_ata rt w (accounts ! 5) (av_address (accounts ! 1)) (accounts ! 3) (accounts ! 8)
       = Inr ()"
    "validate_ata rt w (accounts ! 6) (av_address (accounts ! 2)) (accounts ! 3) (accounts ! 8)
       = Inr ()"
    "get_token_account_balance rt w (accounts ! 6) = Inr before"
    "transfer_checked_cpi rt (accounts ! 5) (accounts ! 3) (accounts ! 6) (accounts ! 1)
       (da_amount args) (mp_decimals profile) (av_address (accounts ! 8)) None
       (drop DEPOSIT_FIXED_ACCOUNTS_LEN accounts) [] w = Inr w2"
    "get_token_account_balance rt w2 (accounts ! 6) = Inr after"
    "checked_sub after before = Some received" "received \<noteq> 0"
    "am_min_deposit_amount am \<le> received"
    "emit_event rt pid (accounts ! 10) (accounts ! 11)
       (DepositEvent_to_bytes (DepositEvent_new (inst_instance_seed inst)
          (av_address (accounts ! 1)) received
          (case da_recipient args of None \<Rightarrow> av_address (accounts ! 1) | Some r \<Rightarrow> r)
          (av_address (accounts ! 3)))) w2 = Inr w'"
  using assms unfolding process_deposit_def Let_def
  apply (simp only: bind_inversion not_less)
  apply (elim exE conjE)
  apply (rule that; (assumption | simp split: if_splits))
  done

text \<open>What a successful deposit did, with the balances before and after and the calls it made.\<close>

lemma deposit_outcome:
  assumes rt: "runtime_contract rt"
    and run: "process_deposit rt ESCROW_ID accounts xs w = Inr w'"
  obtains args inst am dec received before after ms where
    "deposit_process_instruction_data xs = Inr args"
    "DEPOSIT_FIXED_ACCOUNTS_LEN \<le> length accounts"
    "av_is_signer (accounts ! 1)"
    "verify_token_programs (accounts ! 8) = Inr ()"
    "Instance_try_from_bytes (data_of w (accounts ! 2)) = Inr inst"
    "Instance_validate_pda rt w inst (accounts ! 2) = Inr ()"
    "AllowedMint_try_from_bytes (data_of w (accounts ! 4)) = Inr am"
    "validate_ata rt w (accounts ! 5) (av_address (accounts ! 1)) (accounts ! 3) (accounts ! 8)
        = Inr ()"
    "validate_ata rt w (accounts ! 6) (av_address (accounts ! 2)) (accounts ! 3) (accounts ! 8)
        = Inr ()"
    "ms \<in> memo_calls"
    "w_invoked w' = w_invoked w @ ms
        @ [(transfer_checked_instruction (accounts ! 5) (accounts ! 3) (accounts ! 6)
              (accounts ! 1) (da_amount args) dec (av_address (accounts ! 8))
              (drop DEPOSIT_FIXED_ACCOUNTS_LEN accounts), []),
           (Invoke ESCROW_ID [readonly_signer_meta (av_address (accounts ! 10))]
              (DepositEvent_to_bytes (DepositEvent_new (inst_instance_seed inst)
                 (av_address (accounts ! 1)) received
                 (case da_recipient args of None \<Rightarrow> av_address (accounts ! 1) | Some r \<Rightarrow> r)
                 (av_address (accounts ! 3)))),
            [[EVENT_AUTHORITY_SEED, [event_authority_pda_BUMP rt]]])]"
    "get_token_account_balance rt w (accounts ! 6) = Inr before"
    "get_token_account_balance rt w' (accounts ! 6) = Inr after"
    "unat after = unat before + unat received" "0 < received" "am_min_deposit_amount am \<le> received"
  using run
proof (rule process_deposit_Inr)
  fix args and inst :: escrow_instance and am profile before w2 after received
  assume a: "deposit_process_instruction_data xs = Inr args"
    "DEPOSIT_FIXED_ACCOUNTS_LEN \<le> length accounts" "av_is_signer (accounts ! 1)"
    "verify_token_programs (accounts ! 8) = Inr ()"
    "Instance_validate_pda rt w inst (accounts ! 2) = Inr ()"
    "Instance_try_from_bytes (data_of w (accounts ! 2)) = Inr inst"
    "AllowedMint_try_from_bytes (data_of w (accounts ! 4)) = Inr am"
    "validate_ata rt w (accounts ! 5) (av_address (accounts ! 1)) (accounts ! 3) (accounts ! 8)
       = Inr ()"
    "validate_ata rt w (accounts ! 6) (av_address (accounts ! 2)) (accounts ! 3) (accounts ! 8)
       = Inr ()"
    "get_token_account_balance rt w (accounts ! 6) = Inr before"
    "am_min_deposit_amount am \<le> received" "received \<noteq> 0"
    and t: "transfer_checked_cpi rt (accounts ! 5) (accounts ! 3) (accounts ! 6) (accounts ! 1)
       (da_amount args) (mp_decimals profile) (av_address (accounts ! 8)) None
       (drop DEPOSIT_FIXED_ACCOUNTS_LEN accounts) [] w = Inr w2"
    and af: "get_token_account_balance rt w2 (accounts ! 6) = Inr after"
    and r: "checked_sub after before = Some received"
    and em: "emit_event rt ESCROW_ID (accounts ! 10) (accounts ! 11)
       (DepositEvent_to_bytes (DepositEvent_new (inst_instance_seed inst)
          (av_address (accounts ! 1)) received
          (case da_recipient args of None \<Rightarrow> av_address (accounts ! 1) | Some r \<Rightarrow> r)
          (av_address (accounts ! 3)))) w2 = Inr w'"
  have "w_ledger w' = w_ledger w2"
    using emit_event_ledger [OF rt _ em] by (simp add: DepositEvent_to_bytes_def)
  then have "get_token_account_balance rt w' (accounts ! 6) = Inr after"
    using af balance_same_ledger by metis
  moreover have "unat after = unat before + unat received"
    using checked_sub_unat [OF r] by simp
  moreover have "0 < received" using a(12) by (simp add: word_gt_0)
  moreover obtain ms where "ms \<in> memo_calls"
    "w_invoked w2 = w_invoked w @ ms @ [(transfer_checked_instruction (accounts ! 5) (accounts ! 3)
        (accounts ! 6) (accounts ! 1) (da_amount args) (mp_decimals profile)
        (av_address (accounts ! 8)) (drop DEPOSIT_FIXED_ACCOUNTS_LEN accounts), [])]"
    using transfer_checked_cpi_invoked [OF t] by auto
  ultimately show ?thesis
    using a emit_event_invoked [OF em] by (intro that) auto
qed


text \<open>
  A successful Deposit was into a mint whose allowed-mint account of this instance does not
  block deposits and whose current profile has not drifted from the pinned one: same decimals and
  token program, no extension outside the issuer-addable ones gained or lost, no freeze authority
  gained. If the instance whitelists deposits, depositor and recipient are both allowed.
\<close>

theorem deposit_checks_mint_and_wallets:
  assumes "process_deposit rt p accounts xs w = Inr w'"
  shows "\<exists>args inst am profile.
    deposit_process_instruction_data xs = Inr args \<and> da_amount args \<noteq> 0
    \<and> Instance_try_from_bytes (data_of w (accounts ! 2)) = Inr inst
    \<and> AllowedMint_try_from_bytes (data_of w (accounts ! 4)) = Inr am
    \<and> rt_find_program_address rt [ALLOWED_MINT_SEED, address_bytes (av_address (accounts ! 2)),
         address_bytes (av_address (accounts ! 3))] ESCROW_ID
        = (av_address (accounts ! 4), am_bump am)
    \<and> owned_by w (accounts ! 4) ESCROW_ID \<and> \<not> am_deposits_blocked am
    \<and> read_mint_profile rt w (accounts ! 3) = Inr profile
    \<and> mp_decimals profile = am_decimals am \<and> am_token_program am = av_address (accounts ! 8)
    \<and> (\<forall>n<64. n \<notin> {rt_ext_token_metadata rt, rt_ext_token_group rt, rt_ext_token_group_member rt} \<longrightarrow>
         bit (mp_extensions profile) n = bit (am_extensions am) n)
    \<and> (mp_has_freeze_authority profile \<longrightarrow> am_has_freeze_authority am)
    \<and> (inst_deposits_whitelisted inst \<longrightarrow>
         is_ok (AllowedWallet_verify_allowed rt w (accounts ! 12) (av_address (accounts ! 2))
           (av_address (accounts ! 1)) DepositDirection)
         \<and> is_ok (AllowedWallet_verify_allowed rt w (accounts ! 13) (av_address (accounts ! 2))
           (case da_recipient args of None \<Rightarrow> av_address (accounts ! 1) | Some r \<Rightarrow> r)
           DepositDirection))"
  using assms
proof (rule process_deposit_Inr)
  fix args inst am profile
  assume a: "deposit_process_instruction_data xs = Inr args" "da_amount args \<noteq> 0"
    "Instance_try_from_bytes (data_of w (accounts ! 2)) = Inr inst"
    "\<not> am_deposits_blocked am" "read_mint_profile rt w (accounts ! 3) = Inr profile"
    and am: "AllowedMint_try_from_bytes (data_of w (accounts ! 4)) = Inr am"
      "AllowedMint_validate_pda rt w am (av_address (accounts ! 2)) (av_address (accounts ! 3))
        (accounts ! 4) = Inr ()"
    and pc: "\<not> AllowedMint_profile_changed rt am profile (av_address (accounts ! 8))"
    and wl: "inst_deposits_whitelisted inst \<longrightarrow>
       AllowedWallet_verify_allowed rt w (accounts ! 12) (av_address (accounts ! 2))
         (av_address (accounts ! 1)) DepositDirection = Inr () \<and>
       AllowedWallet_verify_allowed rt w (accounts ! 13) (av_address (accounts ! 2))
         (case da_recipient args of None \<Rightarrow> av_address (accounts ! 1) | Some r \<Rightarrow> r)
         DepositDirection = Inr ()"
  show ?thesis
    by (intro exI conjI)
      (use a am wl AllowedMint_validate_pda_Inr [OF am(2)] mnt.dec_neq_Nil [OF am(1)]
        profile_changed_iff [of rt am profile "av_address (accounts ! 8)"] pc in
        \<open>auto simp: is_ok_def is_data_empty_def\<close>)
qed

section \<open>Transfer hooks\<close>

text \<open>
  The transfer the program builds passes exactly one signer to the token program, the
  transfer authority: an extra account of a transfer hook keeps its writable flag and is never
  passed as a signer, even if it signed the outer transaction.
\<close>

theorem transfer_passes_one_signer:
  "\<exists>metas bs. transfer_checked_instruction from mint to authority amount decimals tp extras
      = Invoke tp metas bs
    \<and> map ia_address (filter ia_is_signer metas) = [av_address authority]
    \<and> map ia_address metas = map av_address ([from, mint, to, authority] @ extras)
    \<and> map ia_is_writable (drop 4 metas) = map av_is_writable extras"
proof -
  have "filter ia_is_signer (map hook_meta extras) = []"
    by (auto simp: filter_empty_conv hook_meta_def writable_meta_def readonly_meta_def)
  moreover have "map ia_address (map hook_meta extras) = map av_address extras"
    "map ia_is_writable (map hook_meta extras) = map av_is_writable extras"
    by (simp_all add: hook_meta_def writable_meta_def readonly_meta_def)
  ultimately show ?thesis
    by (simp add: transfer_checked_instruction_def writable_meta_def readonly_meta_def
        readonly_signer_meta_def)
qed

section \<open>The wallet whitelist\<close>

text \<open>
  A wallet passes the whitelist check exactly when the account passed for it is the wallet's
  own entry of this instance: the program-derived address of instance and wallet, owned by the
  escrow program, decoding as an entry that does not block the direction.
\<close>

theorem verify_allowed_iff:
  "AllowedWallet_verify_allowed rt w info i wallet dir = Inr () \<longleftrightarrow>
     av_address info = fst (rt_find_program_address rt
       [ALLOWED_WALLET_SEED, address_bytes i, address_bytes wallet] ESCROW_ID)
     \<and> owned_by w info ESCROW_ID
     \<and> (\<exists>entry. AllowedWallet_try_from_bytes (data_of w info) = Inr entry
          \<and> (case dir of DepositDirection \<Rightarrow> \<not> aw_deposits_blocked entry
                         | WithdrawDirection \<Rightarrow> \<not> aw_withdrawals_blocked entry))"
  using wal.dec_neq_Nil
  by (fastforce simp: AllowedWallet_verify_allowed_def Let_def is_data_empty_def
      split: direction.splits)

lemma remove_allowed_wallet_closes:
  assumes "runtime_contract rt" "process_remove_allowed_wallet rt ESCROW_ID accounts xs w = Inr w'"
  shows "data_of w' (accounts ! 4) = []"
    and "av_address (accounts ! 4) = fst (rt_find_program_address rt [ALLOWED_WALLET_SEED,
      address_bytes (av_address (accounts ! 2)), address_bytes (av_address (accounts ! 3))]
      ESCROW_ID)"
proof -
  from assms(2) obtain inst aw w1 w2 where
    v: "AllowedWallet_validate_pda rt w aw (av_address (accounts ! 2)) (av_address (accounts ! 3))
      (accounts ! 4) = Inr ()"
    and cl: "close_account [av_address (accounts ! 2)] (accounts ! 4) w1 = Inr w2"
    and em: "emit_event rt ESCROW_ID (accounts ! 6) (accounts ! 7)
        (RemoveAllowedWalletEvent_to_bytes (RemoveAllowedWalletEvent_new
          (inst_instance_seed (inst :: escrow_instance)) (av_address (accounts ! 3)))) w2 = Inr w'"
    unfolding process_remove_allowed_wallet_def Let_def
    by (simp only: bind_inversion) (elim exE conjE, simp)
  have "data_of w' (accounts ! 4) = data_of w2 (accounts ! 4)"
    using emit_event_data_of [OF assms(1)] em unfolding RemoveAllowedWalletEvent_to_bytes_def by blast
  also have "\<dots> = []"
    using cl by (auto simp: close_account_def data_of_def account_of_def set_account_def)
  finally show "data_of w' (accounts ! 4) = []" .
  show "av_address (accounts ! 4) = fst (rt_find_program_address rt [ALLOWED_WALLET_SEED,
      address_bytes (av_address (accounts ! 2)), address_bytes (av_address (accounts ! 3))]
      ESCROW_ID)"
    using v by (auto simp: AllowedWallet_validate_pda_def validate_pda_account_Inr)
qed

text \<open>
  After a successful RemoveAllowedWallet, the whitelist check of that wallet on that instance
  fails in both directions, whatever account is passed for it; for the wallet's own entry the
  error is WalletNotAllowed.
\<close>

theorem removed_wallet_is_not_allowed:
  assumes "runtime_contract rt" "process_remove_allowed_wallet rt ESCROW_ID accounts xs w = Inr w'"
  shows "\<not> is_ok (AllowedWallet_verify_allowed rt w' info (av_address (accounts ! 2))
      (av_address (accounts ! 3)) dir)
    \<and> AllowedWallet_verify_allowed rt w' (accounts ! 4) (av_address (accounts ! 2))
        (av_address (accounts ! 3)) dir = Inl (escrow_err WalletNotAllowed)"
proof -
  note closed = remove_allowed_wallet_closes [OF assms]
  have "data_of w' info = []" if "av_address info = av_address (accounts ! 4)"
    using closed(1) that by (simp add: data_of_def account_of_def)
  with closed show ?thesis
    by (auto simp: AllowedWallet_verify_allowed_def Let_def is_data_empty_def is_ok_def
        guardE_def)
qed

section \<open>Concrete instances\<close>

lemma demo_release_7:
  "\<exists>w'. process_release_funds demo_rt ESCROW_ID demo_release_accounts (demo_release_data 7)
    (initial_world demo_ledger) = Inr w'"
  by (rule demo_release) (simp add: NONCES_PER_GENERATION_def)

theorem release_funds_authorised_witness:
  "\<exists>args. release_funds_process_instruction_data (demo_release_data 7) = Inr args
    \<and> rfa_transaction_nonce args \<notin> bitmap_consumed
        (data_of (initial_world demo_ledger) (demo_release_accounts ! 3))"
proof -
  obtain w' where run: "process_release_funds demo_rt ESCROW_ID demo_release_accounts
      (demo_release_data 7) (initial_world demo_ledger) = Inr w'"
    using demo_release_7 by blast
  show ?thesis using release_funds_authorised [OF run] by blast
qed

theorem release_funds_pays_once_witness:
  "\<exists>w' released before after. process_release_funds demo_rt ESCROW_ID demo_release_accounts
      (demo_release_data 7) (initial_world demo_ledger) = Inr w'
    \<and> get_token_account_balance demo_rt (initial_world demo_ledger) (demo_release_accounts ! 8)
        = Inr before
    \<and> get_token_account_balance demo_rt w' (demo_release_accounts ! 8) = Inr after
    \<and> unat before = unat after + unat (released :: u64)"
proof -
  obtain w' where run: "process_release_funds demo_rt ESCROW_ID demo_release_accounts
      (demo_release_data 7) (initial_world demo_ledger) = Inr w'"
    using demo_release_7 by blast
  show ?thesis using run release_funds_pays_once [OF demo_rt_contract run] by blast
qed


theorem deposit_checks_mint_and_wallets_witness:
  "\<exists>am profile. AllowedMint_try_from_bytes (data_of (initial_world demo_ledger)
      (demo_deposit_accounts ! 4)) = Inr am \<and> \<not> am_deposits_blocked am
    \<and> read_mint_profile demo_rt (initial_world demo_ledger) (demo_deposit_accounts ! 3)
        = Inr profile
    \<and> mp_decimals profile = am_decimals am"
proof -
  obtain w' where run: "process_deposit demo_rt ESCROW_ID demo_deposit_accounts demo_deposit_data
      (initial_world demo_ledger) = Inr w'"
    using demo_deposit by blast
  show ?thesis using deposit_checks_mint_and_wallets [OF run] by blast
qed

theorem removed_wallet_is_not_allowed_witness:
  "\<exists>w'. process_remove_allowed_wallet demo_rt ESCROW_ID demo_remove_wallet_accounts []
      (initial_world demo_wallet_ledger) = Inr w'
    \<and> AllowedWallet_verify_allowed demo_rt w' (demo_remove_wallet_accounts ! 4)
        (av_address (demo_remove_wallet_accounts ! 2))
        (av_address (demo_remove_wallet_accounts ! 3)) DepositDirection
        = Inl (escrow_err WalletNotAllowed)"
proof -
  obtain w' where run: "process_remove_allowed_wallet demo_rt ESCROW_ID
      demo_remove_wallet_accounts [] (initial_world demo_wallet_ledger) = Inr w'"
    using demo_remove_allowed_wallet by blast
  show ?thesis using run removed_wallet_is_not_allowed [OF demo_rt_contract run] by blast
qed

section \<open>What an instruction may write\<close>

text \<open>
  Each instruction of the escrow program writes only the kinds of account it is for: BlockMint
  and AllowMint an allowed mint, SetNewAdmin and SetWhitelistEnabled an instance, RemoveOperator
  an operator, ReleaseFunds and RotateBitmap a withdrawal bitmap, the wallet instructions an
  allowed wallet, and the others none. An existing account of any other kind keeps its owner and
  every byte, whatever accounts the instruction is given.
\<close>

theorem instruction_writes_only_its_kinds:
  assumes "runtime_contract rt" and "escrow_instruction_try_from tag = Some ix"
    and "process_instruction rt ESCROW_ID accounts (tag # xs) w = Inr w'"
    and "acc_owner (w_ledger w a) = ESCROW_ID" and "acc_data (w_ledger w a) = account_discriminator d # bs"
    and "d \<notin> writes_kind ix"
  shows "acc_owner (w_ledger w' a) = ESCROW_ID \<and> acc_data (w_ledger w' a) = account_discriminator d # bs"
  using frame_process_instruction [OF assms(1,2), of a "account_discriminator d # bs" w d accounts xs]
    assms(3-)
  by (simp add: holds_def holdsR_def)

theorem instruction_writes_only_its_kinds_witness:
  "\<exists>w'. process_instruction demo_rt ESCROW_ID demo_deposit_accounts (6 # demo_deposit_data)
      (initial_world demo_ledger) = Inr w'
    \<and> acc_data (w_ledger w' 104) = demo_bitmap"
proof -
  obtain w' where "process_deposit demo_rt ESCROW_ID demo_deposit_accounts demo_deposit_data
      (initial_world demo_ledger) = Inr w'"
    using demo_deposit by blast
  then have run: "process_instruction demo_rt ESCROW_ID demo_deposit_accounts (6 # demo_deposit_data)
      (initial_world demo_ledger) = Inr w'"
    by (simp add: process_instruction_def escrow_instruction_try_from_def)
  obtain bs where bs: "demo_bitmap = account_discriminator WithdrawalBitmapDiscriminator # bs"
    by (simp add: demo_bitmap_def)
  show ?thesis
    using instruction_writes_only_its_kinds [OF demo_rt_contract _ run, of Deposit 104
        WithdrawalBitmapDiscriminator bs] run bs
    by (simp add: escrow_instruction_try_from_def initial_world_def demo_ledger_def)
qed

end
