(* ===== verification/Indexer_Readback.thy ===== *)
theory Indexer_Readback
  imports Escrow_Funds Indexer_Parser
begin

text \<open>
  What the indexer reads is what the programs did. The parsers of \<open>Indexer_Parser\<close> are related to
  the handlers of the escrow and withdraw programs: the argument bytes a handler accepts are read
  to the same arguments, the event a handler emits is read back field by field, and no instruction
  the escrow program accepted is unreadable, so none can stop the indexer at its slot.

  How a block reports a transaction is stated by \<open>resolves\<close> (the account indices resolve to the
  accounts the program saw) and \<open>records_self_calls\<close> (the escrow entries of an instruction's
  subtree start with its own calls to itself, in order: the runtime records every call in call
  order, and forbids a program called by the escrow to call the escrow again).
\<close>

section \<open>Data\<close>

lemma tag_agrees: "INDEXER_EVENT_IX_TAG_LE = EVENT_IX_TAG_LE"
  by (simp add: INDEXER_EVENT_IX_TAG_LE_def EVENT_IX_TAG_LE_def EVENT_IX_TAG_def u64_le_def)

lemma borsh_readers [simp]:
  assumes "borsh_contract cr"
  shows "cr_borsh_u8 cr bs = (case bs of [] \<Rightarrow> None | b # r \<Rightarrow> Some (b, r))"
    "cr_borsh_u64 cr bs
      = (if length bs < 8 then None else Some (u64_of_le (take 8 bs), drop 8 bs))"
    "cr_borsh_bool cr bs = (case bs of [] \<Rightarrow> None
       | b # r \<Rightarrow> if b = 0 then Some (False, r) else if b = 1 then Some (True, r) else None)"
    "cr_borsh_option_32 cr bs = (case bs of [] \<Rightarrow> None
       | b # r \<Rightarrow> if b = 0 then Some (None, r)
                 else if b = 1 then
                   (if length r < 32 then None else Some (Some (take 32 r), drop 32 r))
                 else None)"
  using assms unfolding borsh_contract_def by blast+

lemma drop_Cons_nth: "length bs > n \<Longrightarrow> drop n bs = bs ! n # drop (Suc n) bs"
  by (simp add: Cons_nth_drop_Suc)

lemma deposit_data_agrees:
  assumes "borsh_contract cr" "deposit_process_instruction_data xs = Inr args"
  shows "DepositData_deserialize cr xs
    = Inr \<lparr>dpd_amount = da_amount args, dpd_recipient = da_recipient args\<rparr>"
proof -
  have "8 < length xs"
    using assms(2) by (auto simp: deposit_process_instruction_data_def require_len_def Let_def)
  from drop_Cons_nth [OF this] show ?thesis
    using assms by (auto simp: deposit_process_instruction_data_def DepositData_deserialize_def
        require_len_def Let_def slice_def split: if_splits)
qed

lemma allow_mint_data_agrees:
  assumes "borsh_contract cr" "allow_mint_process_instruction_data xs = Inr args"
  shows "AllowMintData_deserialize cr xs
    = Inr \<lparr>amd_bump = ama_bump args, amd_withdraw_fee = ama_withdraw_fee args,
           amd_min_withdraw_amount = ama_min_withdraw_amount args\<rparr>"
proof -
  have "25 \<le> length xs" and args: "args = \<lparr>ama_bump = xs ! 0,
      ama_withdraw_fee = u64_of_le (slice 1 8 xs), ama_min_withdraw_amount = u64_of_le (slice 9 8 xs),
      ama_min_deposit_amount = u64_of_le (slice 17 8 xs)\<rparr>"
    using assms(2) by (auto simp: allow_mint_process_instruction_data_def require_len_def)
  then show ?thesis
    using assms(1) by (cases xs) (auto simp: AllowMintData_deserialize_def slice_def)
qed

lemma block_mint_data_agrees:
  assumes "borsh_contract cr" "block_mint_process_instruction_data xs = Inr args"
  shows "xs \<noteq> []" "BlockMintData_deserialize cr xs
    = Inr \<lparr>bmd_block_deposits = bma_block_deposits args,
           bmd_block_withdrawals = bma_block_withdrawals args\<rparr>"
proof -
  obtain a b r where "xs = a # b # r"
    using assms(2)
    by (cases xs; cases "tl xs")
      (auto simp: block_mint_process_instruction_data_def require_len_def)
  then show "xs \<noteq> []" "BlockMintData_deserialize cr xs
    = Inr \<lparr>bmd_block_deposits = bma_block_deposits args,
           bmd_block_withdrawals = bma_block_withdrawals args\<rparr>"
    using assms by (auto simp: block_mint_process_instruction_data_def require_len_def
        BlockMintData_deserialize_def bool_of_byte_def split: if_splits)
qed

lemma create_instance_data_agrees:
  assumes "borsh_contract cr" "create_instance_process_instruction_data xs = Inr args"
  shows "CreateInstanceData_deserialize cr xs = Inr \<lparr>cid_bump = cia_bump args\<rparr>"
  using assms by (cases xs) (auto simp: create_instance_process_instruction_data_def
      require_len_def CreateInstanceData_deserialize_def)

lemma release_funds_data_agrees:
  assumes "release_funds_process_instruction_data xs = Inr args"
  shows "ReleaseFundsData_from_bytes xs
    = Inr \<lparr>rfd_amount = rfa_amount args, rfd_user = rfa_user args,
           rfd_transaction_nonce = rfa_transaction_nonce args\<rparr>"
  using assms by (auto simp: release_funds_process_instruction_data_def require_len_def
      ReleaseFundsData_from_bytes_def RELEASE_INSTRUCTION_DATA_LENGTH_def)

lemma withdraw_funds_data_agrees:
  assumes "borsh_contract cr" "withdraw_funds_parse_instruction_data xs = Inr args"
  shows "\<exists>d. WithdrawFundsIxData_deserialize cr xs
      = Inr \<lparr>wfx_amount = wfa_amount args, wfx_destination = d\<rparr>
    \<and> map_option address_of_bytes d = wfa_destination args"
proof -
  have "8 < length xs"
    using assms(2)
    by (auto simp: withdraw_funds_parse_instruction_data_def require_len_withdraw_def Let_def)
  from drop_Cons_nth [OF this] show ?thesis
    using assms by (auto simp: withdraw_funds_parse_instruction_data_def
        WithdrawFundsIxData_deserialize_def require_len_withdraw_def Let_def slice_def
        split: if_splits)
qed

section \<open>Events\<close>

lemma decode_emitted_deposit:
  assumes "is_escrow_program e keys"
    and "cr_bs58_decode cr (ci_data (ii_instruction e))
      = Some (DepositEvent_to_bytes (DepositEvent_new seed user amount recipient mint))"
  shows "decode_deposit_event cr e keys
    = Some \<lparr>dde_instance_seed = seed, dde_user = user, dde_amount = amount,
            dde_recipient = recipient, dde_mint = mint\<rparr>"
  using assms
  by (simp add: decode_deposit_event_def DepositEvent_to_bytes_def DepositEvent_new_def
      starts_with_def tag_agrees EVENT_IX_TAG_LE_def event_offsets nth_append
      slice_append_right slice_append_left slice_prefix)

lemma decode_emitted_allow_mint:
  assumes "is_escrow_program e keys"
    and "cr_bs58_decode cr (ci_data (ii_instruction e))
      = Some (AllowMintEvent_to_bytes (AllowMintEvent_new seed mint dec fee mw md))"
  shows "allow_mint_event_decimals cr e keys mint = Some dec"
  using assms
  by (simp add: allow_mint_event_decimals_def is_escrow_program_def AllowMintEvent_to_bytes_def
      AllowMintEvent_new_def starts_with_def tag_agrees EVENT_IX_TAG_LE_def event_offsets nth_append
      slice_append_right slice_append_left slice_prefix)

text \<open>An entry of another program is never read as an event, whatever its data.\<close>

lemma foreign_entry_not_event:
  assumes "\<not> is_escrow_program e keys"
  shows "decode_deposit_event cr e keys = None" "deposit_event_amount cr e keys = None"
    "allow_mint_event_decimals cr e keys mint = None"
  using assms by (auto simp: decode_deposit_event_def deposit_event_amount_def
      allow_mint_event_decimals_def is_escrow_program_def split: option.splits)

lemma find_map_first:
  assumes "find P xs = Some e" "f e = Some y" "\<And>x. \<not> P x \<Longrightarrow> f x = None"
  shows "find_map f xs = Some y"
  using assms(1)
proof (induction xs)
  case (Cons x xs)
  then show ?case using assms(2, 3) by (cases "P x") auto
qed simp

lemma find_filter: "find P xs = (case filter P xs of [] \<Rightarrow> None | x # _ \<Rightarrow> Some x)"
  by (induction xs) auto

section \<open>How a block reports a transaction\<close>

definition resolves :: "compiled_instruction \<Rightarrow> address list \<Rightarrow> account_view list \<Rightarrow> bool" where
  "resolves ix keys accounts \<longleftrightarrow>
     length (ci_accounts ix) = length accounts
     \<and> (\<forall>i<length accounts. resolve_account ix keys i = Inr (av_address (accounts ! i)))"

fun self_calls :: "(cpi \<times> signer_seeds) list \<Rightarrow> bytes list" where
  "self_calls [] = []"
| "self_calls ((Invoke p metas bs, seeds) # cs)
     = (if p = ESCROW_ID then bs # self_calls cs else self_calls cs)"
| "self_calls (c # cs) = self_calls cs"

definition records_self_calls ::
  "'c crates_scheme \<Rightarrow> address list \<Rightarrow> inner_instruction list \<Rightarrow> (cpi \<times> signer_seeds) list \<Rightarrow>
     bool" where
  "records_self_calls cr keys entries calls \<longleftrightarrow>
     (\<exists>rest. map (\<lambda>e. cr_bs58_decode cr (ci_data (ii_instruction e)))
        (filter (\<lambda>e. is_escrow_program e keys) entries) = map Some (self_calls calls) @ rest)"

text \<open>The entries among which the event of an instruction is looked for.\<close>

definition event_scope :: "instruction_location \<Rightarrow> inner_instructions \<Rightarrow> inner_instruction list" where
  "event_scope location s =
     (case loc_inner location of
        None \<Rightarrow> is_instructions s
      | Some l \<Rightarrow>
          let after = drop (unat (il_inner_index l) + 1) (is_instructions s) in
          case il_stack_height l of
            None \<Rightarrow> after
          | Some own \<Rightarrow> takeWhile (\<lambda>e. case ii_stack_height e of Some h \<Rightarrow> h > own | None \<Rightarrow> False)
              after)"

definition reported_in ::
  "inner_instructions list \<Rightarrow> instruction_location \<Rightarrow> inner_instructions \<Rightarrow> bool" where
  "reported_in sets location s \<longleftrightarrow>
     find (\<lambda>s. ucast (is_index s) = loc_top_level_index location) sets = Some s"

lemma resolvesD:
  assumes "resolves ix keys accounts"
  shows "length (ci_accounts ix) = length accounts"
    "\<And>i. i < length accounts \<Longrightarrow> resolve_account ix keys i = Inr (av_address (accounts ! i))"
  using assms by (auto simp: resolves_def)

lemma first_escrow_entry:
  assumes "records_self_calls cr keys entries calls" "self_calls calls = ev # evs"
  obtains e where "find (\<lambda>e. is_escrow_program e keys) entries = Some e" "is_escrow_program e keys"
    "cr_bs58_decode cr (ci_data (ii_instruction e)) = Some ev"
proof -
  obtain e es where f: "filter (\<lambda>e. is_escrow_program e keys) entries = e # es"
    and d: "cr_bs58_decode cr (ci_data (ii_instruction e)) = Some ev"
    using assms by (auto simp: records_self_calls_def Cons_eq_map_conv dest: sym)
  then have "is_escrow_program e keys" by (metis filter_eq_ConsD)
  with f d show ?thesis using that by (simp add: find_filter)
qed

lemma self_calls_append [simp]: "self_calls (xs @ ys) = self_calls xs @ self_calls ys"
  by (induction xs rule: self_calls.induct) auto

lemma program_ids_differ:
  "MEMO_PROGRAM_ID \<noteq> ESCROW_ID" "TOKEN_PROGRAM_ID \<noteq> ESCROW_ID" "TOKEN_2022_PROGRAM_ID \<noteq> ESCROW_ID"
  by (simp_all add: MEMO_PROGRAM_ID_def TOKEN_PROGRAM_ID_def TOKEN_2022_PROGRAM_ID_def ESCROW_ID_def)

section \<open>Deposits\<close>

lemma deposit_self_calls:
  assumes "verify_token_programs tp = Inr ()" "ms \<in> memo_calls"
  shows "self_calls (ms @ [(transfer_checked_instruction a b c d n dec (av_address tp) ex, []),
           (Invoke ESCROW_ID metas ev, seeds)]) = [ev]"
proof -
  have "av_address tp \<noteq> ESCROW_ID"
    using assms(1) program_ids_differ by (auto simp: verify_token_programs_def)
  then show ?thesis
    using assms(2) program_ids_differ(1)
    by (auto simp: memo_calls_def transfer_checked_instruction_def)
qed

lemma deposit_amount_of_event:
  assumes s: "reported_in sets location s"
    and e: "find (\<lambda>e. is_escrow_program e keys) (event_scope location s) = Some e"
    and dec: "decode_deposit_event cr e keys = Some ev"
    and ok: "check_event_matches_deposit cr ev acc data = Inr ()"
  shows "deposit_amount cr keys sets location acc data = Inr (Some (dde_amount ev))"
proof -
  have "find_map (\<lambda>e. deposit_event_amount cr e keys) (event_scope location s)
      = Some (dde_amount ev)"
    using e by (rule find_map_first) (simp_all add: deposit_event_amount_def dec foreign_entry_not_event)
  then show ?thesis
    using s e dec ok unfolding deposit_amount_def reported_in_def
    by (auto simp: event_scope_def Let_def split: option.splits)
qed

definition deposit_accounts_of :: "account_view list \<Rightarrow> deposit_accounts" where
  "deposit_accounts_of accounts =
     \<lparr>dpc_payer = av_address (accounts ! 0), dpc_user = av_address (accounts ! 1),
      dpc_instance = av_address (accounts ! 2), dpc_mint = av_address (accounts ! 3),
      dpc_allowed_mint = av_address (accounts ! 4), dpc_user_ata = av_address (accounts ! 5),
      dpc_instance_ata = av_address (accounts ! 6), dpc_system_program = av_address (accounts ! 7),
      dpc_token_program = av_address (accounts ! 8),
      dpc_associated_token_program = av_address (accounts ! 9),
      dpc_event_authority = av_address (accounts ! 10),
      dpc_escrow_program = av_address (accounts ! 11)\<rparr>"

lemma parse_deposit_resolved:
  assumes "resolves ix keys accounts" "12 \<le> length accounts"
    and "DepositData_deserialize cr xs = Inr d"
    and "deposit_amount cr keys sets location (deposit_accounts_of accounts) d = Inr (Some n)"
  shows "parse_deposit cr xs ix keys sets location
    = Inr (Some (Deposit_ix (deposit_accounts_of accounts) d \<lparr>ide_amount = n\<rparr>))"
proof -
  have r: "resolve_account ix keys i = Inr (av_address (accounts ! i))" if "i < 12" for i
    using resolvesD(2) [OF assms(1)] that assms(2) by simp
  show ?thesis
    using assms(2, 4) unfolding parse_deposit_def deposit_accounts_of_def
    by (simp add: r assms(3) resolvesD(1) [OF assms(1)] guardE_def)
qed

lemma deposit_read_back:
  assumes rt: "runtime_contract rt" and cr: "borsh_contract cr"
    and pda: "cr_find_program_address cr = rt_find_program_address rt"
    and run: "process_deposit rt ESCROW_ID accounts xs w = Inr w'"
    and ix: "resolves ix keys accounts"
    and rep: "reported_in sets location s"
      "records_self_calls cr keys (event_scope location s)
         (drop (length (w_invoked w)) (w_invoked w'))"
  obtains args received before after where
    "deposit_process_instruction_data xs = Inr args"
    "parse_deposit cr xs ix keys sets location = Inr (Some (Deposit_ix (deposit_accounts_of accounts)
        \<lparr>dpd_amount = da_amount args, dpd_recipient = da_recipient args\<rparr> \<lparr>ide_amount = received\<rparr>))"
    "av_is_signer (accounts ! 1)"
    "get_token_account_balance rt w (accounts ! 6) = Inr before"
    "get_token_account_balance rt w' (accounts ! 6) = Inr after"
    "unat after = unat before + unat received" "0 < received"
proof (rule deposit_outcome [OF rt run])
  fix args :: deposit_args and inst :: escrow_instance and am dec received before after ms
  let ?ev = "DepositEvent_new (inst_instance_seed inst) (av_address (accounts ! 1)) received
    (case da_recipient args of None \<Rightarrow> av_address (accounts ! 1) | Some r \<Rightarrow> r)
    (av_address (accounts ! 3))"
  assume a: "deposit_process_instruction_data xs = Inr args"
    "DEPOSIT_FIXED_ACCOUNTS_LEN \<le> length accounts" "av_is_signer (accounts ! 1)"
    "verify_token_programs (accounts ! 8) = Inr ()"
    "Instance_validate_pda rt w inst (accounts ! 2) = Inr ()"
    and ms: "ms \<in> memo_calls"
    and inv: "w_invoked w' = w_invoked w @ ms
        @ [(transfer_checked_instruction (accounts ! 5) (accounts ! 3) (accounts ! 6)
              (accounts ! 1) (da_amount args) dec (av_address (accounts ! 8))
              (drop DEPOSIT_FIXED_ACCOUNTS_LEN accounts), []),
           (Invoke ESCROW_ID [readonly_signer_meta (av_address (accounts ! 10))]
              (DepositEvent_to_bytes ?ev),
            [[EVENT_AUTHORITY_SEED, [event_authority_pda_BUMP rt]]])]"
    and b: "get_token_account_balance rt w (accounts ! 6) = Inr before"
      "get_token_account_balance rt w' (accounts ! 6) = Inr after"
      "unat after = unat before + unat received" "0 < received"
  have "self_calls (drop (length (w_invoked w)) (w_invoked w')) = [DepositEvent_to_bytes ?ev]"
    using deposit_self_calls [OF a(4) ms] by (simp add: inv)
  then obtain e where e: "find (\<lambda>e. is_escrow_program e keys) (event_scope location s) = Some e"
    and dec: "decode_deposit_event cr e keys = Some \<lparr>dde_instance_seed = inst_instance_seed inst,
      dde_user = av_address (accounts ! 1), dde_amount = received,
      dde_recipient = (case da_recipient args of None \<Rightarrow> av_address (accounts ! 1) | Some r \<Rightarrow> r),
      dde_mint = av_address (accounts ! 3)\<rparr>"
    using rep(2) by (elim first_escrow_entry) (auto dest: decode_emitted_deposit)
  have "find_instance_pda cr (inst_instance_seed inst) = av_address (accounts ! 2)"
    using a(5) by (auto simp: find_instance_pda_def pda Instance_validate_pda_def
        validate_pda_account_Inr)
  then have "check_event_matches_deposit cr \<lparr>dde_instance_seed = inst_instance_seed inst,
      dde_user = av_address (accounts ! 1), dde_amount = received,
      dde_recipient = (case da_recipient args of None \<Rightarrow> av_address (accounts ! 1) | Some r \<Rightarrow> r),
      dde_mint = av_address (accounts ! 3)\<rparr> (deposit_accounts_of accounts)
      \<lparr>dpd_amount = da_amount args, dpd_recipient = da_recipient args\<rparr> = Inr ()"
    by (simp add: check_event_matches_deposit_def deposit_accounts_of_def split: option.split)
  from deposit_amount_of_event [OF rep(1) e dec this]
    parse_deposit_resolved [OF ix _ deposit_data_agrees [OF cr a(1)]]
  show ?thesis using a b by (intro that) (auto simp: DEPOSIT_FIXED_ACCOUNTS_LEN_def)
qed


section \<open>Calls an instruction makes to its own program\<close>

definition calls_self :: "world \<Rightarrow> world \<Rightarrow> bytes list \<Rightarrow> bool" where
  "calls_self w w' evs \<longleftrightarrow> (\<exists>cs. w_invoked w' = w_invoked w @ cs \<and> self_calls cs = evs)"

lemma calls_self_refl: "calls_self w w []"
  by (simp add: calls_self_def)

lemma calls_self_trans: "calls_self w w1 xs \<Longrightarrow> calls_self w1 w2 ys \<Longrightarrow> calls_self w w2 (xs @ ys)"
  by (auto simp: calls_self_def)

lemma calls_self_drop:
  "calls_self w w' evs \<Longrightarrow> self_calls (drop (length (w_invoked w)) (w_invoked w')) = evs"
  by (auto simp: calls_self_def)

lemma calls_self_invoke:
  "invoke_signed rt c seeds w = Inr w' \<Longrightarrow> calls_self w w' (self_calls [(c, seeds)])"
  by (auto simp: calls_self_def invoke_signed_def)

lemma calls_self_same: "w_invoked w' = w_invoked w \<Longrightarrow> calls_self w w' []"
  by (simp add: calls_self_def)

lemma calls_self_emit:
  "emit_event rt ESCROW_ID ea pinfo ev w = Inr w' \<Longrightarrow> calls_self w w' [ev]"
  by (auto simp: emit_event_def dest: calls_self_invoke)

lemma calls_self_copy:
  "copy_from_slice live info xs w = Inr w' \<Longrightarrow> calls_self w w' []"
  by (intro calls_self_same)
    (auto simp: copy_from_slice_def set_data_def set_account_def split: if_splits)

lemma calls_self_ata:
  "get_or_create_ata rt a b c d e f w = Inr w' \<Longrightarrow> calls_self w w' []"
  by (auto simp: get_or_create_ata_def Let_def calls_self_refl split: if_splits
      dest: calls_self_invoke)

lemma calls_self_more:
  "calls_self w w1 evs \<Longrightarrow> invoke_signed rt c seeds w1 = Inr w2 \<Longrightarrow> self_calls [(c, seeds)] = [] \<Longrightarrow>
   calls_self w w2 evs"
  using calls_self_trans calls_self_invoke by fastforce

lemma calls_self_create_pda:
  "create_pda_account rt payer rent space owner pda seeds m w = Inr w' \<Longrightarrow> calls_self w w' []"
  by (auto simp: create_pda_account_def Let_def split: if_splits
      intro: calls_self_more [OF calls_self_more [OF calls_self_more [OF calls_self_refl]]]
        calls_self_more [OF calls_self_more [OF calls_self_refl]] calls_self_more [OF calls_self_refl])

lemma process_allow_mint_Inr:
  assumes "process_allow_mint rt pid accounts xs w = Inr w'"
  obtains args and inst :: escrow_instance and prof :: mint_profile and w1 w2 w3 where
    "allow_mint_process_instruction_data xs = Inr args" "length accounts = 11"
    "get_or_create_ata rt (accounts ! 5) (accounts ! 2) (accounts ! 3) (accounts ! 0)
      (accounts ! 6) (accounts ! 7) w = Inr w1"
    "(if is_data_empty w1 (accounts ! 4) then
          bindE (verify_system_account w1 (accounts ! 4) True) (\<lambda>_.
          bindE (rt_rent rt) (\<lambda>rent.
          create_pda_account rt (accounts ! 0) rent AllowedMint_LEN pid (accounts ! 4)
            [ALLOWED_MINT_SEED, address_bytes (av_address (accounts ! 2)),
                address_bytes (av_address (accounts ! 3)), [ama_bump args]] None w1))
        else
          bindE (AllowedMint_try_from_bytes (data_of w1 (accounts ! 4))) (\<lambda>_. Inr w1)) = Inr w2"
    "copy_from_slice [av_address (accounts ! 2)] (accounts ! 4)
       (AllowedMint_to_bytes (AllowedMint_new (ama_bump args) (mp_decimals prof)
           (av_address (accounts ! 7)) (mp_extensions prof)
           (mp_has_freeze_authority prof) (ama_min_deposit_amount args))) w2 = Inr w3"
    "emit_event rt pid (accounts ! 9) (accounts ! 10)
       (AllowMintEvent_to_bytes (AllowMintEvent_new (inst_instance_seed inst)
          (av_address (accounts ! 3)) (mp_decimals prof) (ama_withdraw_fee args)
          (ama_min_withdraw_amount args) (ama_min_deposit_amount args))) w3 = Inr w'"
  using assms unfolding process_allow_mint_def Let_def
  apply (simp only: bind_inversion)
  apply (elim exE conjE)
  apply (rule that; assumption)
  done

lemma allow_mint_calls:
  assumes "process_allow_mint rt ESCROW_ID accounts xs w = Inr w'"
  shows "\<exists>args seed dec. allow_mint_process_instruction_data xs = Inr args \<and> length accounts = 11
    \<and> calls_self w w' [AllowMintEvent_to_bytes (AllowMintEvent_new seed (av_address (accounts ! 3))
        dec (ama_withdraw_fee args) (ama_min_withdraw_amount args) (ama_min_deposit_amount args))]"
  using assms
proof (rule process_allow_mint_Inr)
  fix args w1 w2 w3 and prof :: mint_profile and inst :: escrow_instance
  assume a: "allow_mint_process_instruction_data xs = Inr args" "length accounts = 11"
    and ata: "get_or_create_ata rt (accounts ! 5) (accounts ! 2) (accounts ! 3) (accounts ! 0)
      (accounts ! 6) (accounts ! 7) w = Inr w1"
    and pda: "(if is_data_empty w1 (accounts ! 4) then
          bindE (verify_system_account w1 (accounts ! 4) True) (\<lambda>_.
          bindE (rt_rent rt) (\<lambda>rent.
          create_pda_account rt (accounts ! 0) rent AllowedMint_LEN ESCROW_ID (accounts ! 4)
            [ALLOWED_MINT_SEED, address_bytes (av_address (accounts ! 2)),
                address_bytes (av_address (accounts ! 3)), [ama_bump args]] None w1))
        else
          bindE (AllowedMint_try_from_bytes (data_of w1 (accounts ! 4))) (\<lambda>_. Inr w1)) = Inr w2"
    and cp: "copy_from_slice [av_address (accounts ! 2)] (accounts ! 4)
       (AllowedMint_to_bytes (AllowedMint_new (ama_bump args) (mp_decimals prof)
           (av_address (accounts ! 7)) (mp_extensions prof)
           (mp_has_freeze_authority prof) (ama_min_deposit_amount args))) w2 = Inr w3"
    and em: "emit_event rt ESCROW_ID (accounts ! 9) (accounts ! 10)
       (AllowMintEvent_to_bytes (AllowMintEvent_new (inst_instance_seed inst)
          (av_address (accounts ! 3)) (mp_decimals prof) (ama_withdraw_fee args)
          (ama_min_withdraw_amount args) (ama_min_deposit_amount args))) w3 = Inr w'"
  have "calls_self w1 w2 []"
    using pda by (auto simp: calls_self_refl calls_self_create_pda split: if_splits)
  from calls_self_trans [OF calls_self_trans [OF calls_self_trans [OF calls_self_ata [OF ata] this]
      calls_self_copy [OF cp]] calls_self_emit [OF em]]
  show ?thesis using a by auto
qed

section \<open>Every accepted instruction is readable\<close>

lemma parse_create_instance_ok:
  assumes "borsh_contract cr" "process_create_instance rt p accounts xs w = Inr w'"
    and ix: "resolves ix keys accounts"
  shows "\<exists>acc args. create_instance_process_instruction_data xs = Inr args
    \<and> parse_create_instance cr xs ix keys
        = Inr (Some (CreateInstance_ix acc \<lparr>cid_bump = cia_bump args\<rparr>))
    \<and> cic_instance acc = av_address (accounts ! 3) \<and> cic_admin acc = av_address (accounts ! 1)"
proof -
  obtain args where a: "create_instance_process_instruction_data xs = Inr args" "length accounts = 8"
    using assms(2) unfolding process_create_instance_def
    by (simp only: bindE_eq_Inr guardE_eq_Inr) (elim exE conjE, rule that; assumption)
  then show ?thesis
    by (simp add: parse_create_instance_def create_instance_data_agrees [OF assms(1) a(1)]
        resolvesD [OF ix] guardE_def parser_consts)
qed

lemma parse_allow_mint_ok:
  assumes "borsh_contract cr" "process_allow_mint rt ESCROW_ID accounts xs w = Inr w'"
    and ix: "resolves ix keys accounts" and s: "reported_in sets location s"
      "records_self_calls cr keys (is_instructions s) (drop (length (w_invoked w)) (w_invoked w'))"
  shows "\<exists>acc args dec. allow_mint_process_instruction_data xs = Inr args
    \<and> parse_allow_mint cr xs ix keys sets location
        = Inr (Some (AllowMint_ix acc \<lparr>amd_bump = ama_bump args, amd_withdraw_fee = ama_withdraw_fee args,
           amd_min_withdraw_amount = ama_min_withdraw_amount args\<rparr> \<lparr>iae_decimals = dec\<rparr>))
    \<and> amc_instance acc = av_address (accounts ! 2) \<and> amc_mint acc = av_address (accounts ! 3)"
proof -
  obtain args seed dec where a: "allow_mint_process_instruction_data xs = Inr args" "length accounts = 11"
    and c: "calls_self w w' [AllowMintEvent_to_bytes (AllowMintEvent_new seed (av_address (accounts ! 3))
        dec (ama_withdraw_fee args) (ama_min_withdraw_amount args) (ama_min_deposit_amount args))]"
    using allow_mint_calls [OF assms(2)] by blast
  obtain e where e: "find (\<lambda>e. is_escrow_program e keys) (is_instructions s) = Some e"
    "allow_mint_event_decimals cr e keys (av_address (accounts ! 3)) = Some dec"
    using first_escrow_entry [OF s(2) calls_self_drop [OF c]] decode_emitted_allow_mint by metis
  have "find_map (\<lambda>e. allow_mint_event_decimals cr e keys (av_address (accounts ! 3)))
      (is_instructions s) = Some dec"
    using e(1) by (rule find_map_first) (simp_all add: e(2) foreign_entry_not_event)
  then show ?thesis
    using a s(1) unfolding reported_in_def
    by (simp add: parse_allow_mint_def allow_mint_data_agrees [OF assms(1) a(1)]
        resolvesD [OF ix] guardE_def)
qed

lemma parse_block_mint_ok:
  assumes "borsh_contract cr" "process_block_mint rt p accounts xs w = Inr w'"
    and ix: "resolves ix keys accounts"
  shows "\<exists>acc args. block_mint_process_instruction_data xs = Inr args
    \<and> parse_block_mint cr xs ix keys
        = Inr (Some (BlockMint_ix acc \<lparr>bmd_block_deposits = bma_block_deposits args,
           bmd_block_withdrawals = bma_block_withdrawals args\<rparr>))
    \<and> bmc_instance acc = av_address (accounts ! 2) \<and> bmc_mint acc = av_address (accounts ! 3)"
proof -
  obtain args where a: "block_mint_process_instruction_data xs = Inr args" "length accounts = 7"
    using assms(2) unfolding process_block_mint_def
    by (simp only: bindE_eq_Inr guardE_eq_Inr) (elim exE conjE, rule that; assumption)
  then show ?thesis
    by (simp add: parse_block_mint_def block_mint_data_agrees [OF assms(1) a(1)]
        resolvesD [OF ix] guardE_def parser_consts)
qed

lemma parse_release_funds_ok:
  assumes "process_release_funds rt p accounts xs w = Inr w'"
    and ix: "resolves ix keys accounts"
  shows "\<exists>acc args. release_funds_process_instruction_data xs = Inr args
    \<and> parse_release_funds xs ix keys
        = Inr (Some (ReleaseFunds_ix acc \<lparr>rfd_amount = rfa_amount args, rfd_user = rfa_user args,
           rfd_transaction_nonce = rfa_transaction_nonce args\<rparr>))
    \<and> rfc_instance acc = av_address (accounts ! 2) \<and> rfc_mint acc = av_address (accounts ! 5)"
proof -
  obtain args where a: "release_funds_process_instruction_data xs = Inr args"
    "16 \<le> length accounts"
    using assms(1) by (rule process_release_funds_Inr) (simp add: RELEASE_FIXED_ACCOUNTS_LEN_def)
  have r: "resolve_account ix keys i = Inr (av_address (accounts ! i))" if "i < 16" for i
    using resolvesD(2) [OF ix] that a(2) by simp
  show ?thesis
    using a by (simp add: parse_release_funds_def release_funds_data_agrees [OF a(1)]
        resolvesD(1) [OF ix] r guardE_def parser_consts)
qed

lemma parse_rotate_bitmap_ok:
  assumes "process_rotate_bitmap rt p accounts xs w = Inr w'" and ix: "resolves ix keys accounts"
  shows "\<exists>acc. parse_rotate_bitmap ix keys = Inr (Some (RotateBitmap_ix acc))
    \<and> rbc_instance acc = av_address (accounts ! 2)"
proof -
  have "length accounts = 7"
    using assms(1) unfolding process_rotate_bitmap_def
    by (simp only: bindE_eq_Inr guardE_eq_Inr) (elim exE conjE)
  then show ?thesis
    by (simp add: parse_rotate_bitmap_def resolvesD [OF ix] guardE_def parser_consts)
qed

text \<open>What a parse result has to say about the instruction the program carried out.\<close>

definition reads_back :: "u8 \<Rightarrow> bytes \<Rightarrow> account_view list \<Rightarrow> escrow_ix option \<Rightarrow> bool" where
  "reads_back d xs accounts r \<longleftrightarrow>
     (case r of
        None \<Rightarrow> d \<notin> {CREATE_INSTANCE, ALLOW_MINT, BLOCK_MINT, DEPOSIT, RELEASE_FUNDS, ROTATE_BITMAP}
      | Some (CreateInstance_ix acc data) \<Rightarrow> d = CREATE_INSTANCE
          \<and> cic_instance acc = av_address (accounts ! 3) \<and> cic_admin acc = av_address (accounts ! 1)
      | Some (AllowMint_ix acc data event) \<Rightarrow> d = ALLOW_MINT
          \<and> amc_instance acc = av_address (accounts ! 2) \<and> amc_mint acc = av_address (accounts ! 3)
          \<and> (\<exists>args. allow_mint_process_instruction_data xs = Inr args
               \<and> amd_withdraw_fee data = ama_withdraw_fee args
               \<and> amd_min_withdraw_amount data = ama_min_withdraw_amount args)
      | Some (BlockMint_ix acc data) \<Rightarrow> d = BLOCK_MINT
          \<and> bmc_instance acc = av_address (accounts ! 2) \<and> bmc_mint acc = av_address (accounts ! 3)
          \<and> block_mint_process_instruction_data xs = Inr \<lparr>bma_block_deposits = bmd_block_deposits data,
               bma_block_withdrawals = bmd_block_withdrawals data\<rparr>
      | Some (Deposit_ix acc data event) \<Rightarrow> d = DEPOSIT
          \<and> dpc_instance acc = av_address (accounts ! 2) \<and> dpc_mint acc = av_address (accounts ! 3)
          \<and> deposit_process_instruction_data xs = Inr \<lparr>da_amount = dpd_amount data,
               da_recipient = dpd_recipient data\<rparr>
      | Some (ReleaseFunds_ix acc data) \<Rightarrow> d = RELEASE_FUNDS
          \<and> rfc_instance acc = av_address (accounts ! 2) \<and> rfc_mint acc = av_address (accounts ! 5)
          \<and> (\<exists>args. release_funds_process_instruction_data xs = Inr args
               \<and> rfd_amount data = rfa_amount args \<and> rfd_user data = rfa_user args
               \<and> rfd_transaction_nonce data = rfa_transaction_nonce args)
      | Some (RotateBitmap_ix acc) \<Rightarrow> d = ROTATE_BITMAP
          \<and> rbc_instance acc = av_address (accounts ! 2))"

lemma parse_not_indexed:
  "cr_bs58_decode cr (ci_data ix) = Some (d # xs) \<Longrightarrow>
   d \<notin> {CREATE_INSTANCE, ALLOW_MINT, BLOCK_MINT, DEPOSIT, RELEASE_FUNDS, ROTATE_BITMAP} \<Longrightarrow>
   parse_escrow_instruction cr ix keys sets location = Inr None"
  by (simp add: parse_escrow_instruction_def)

text \<open>
  The indexer can read every instruction the escrow program accepted. Whatever the instruction,
  the parser does not fail on it - a failure would stop the indexer at that slot - and what it
  reads names the instance, the mint and the arguments the program acted on: the fee and minimum
  of an allowed mint, both gates of a blocked one, and the amount, payee and nonce of a release.
\<close>

theorem accepted_instruction_is_readable:
  assumes rt: "runtime_contract rt" and cr: "borsh_contract cr"
    and pda: "cr_find_program_address cr = rt_find_program_address rt"
    and run: "process_instruction rt ESCROW_ID accounts (d # xs) w = Inr w'"
    and ix: "resolves ix keys accounts" "cr_bs58_decode cr (ci_data ix) = Some (d # xs)"
    and rep: "reported_in sets (InstructionLocation_top_level i) s"
      "records_self_calls cr keys (is_instructions s) (drop (length (w_invoked w)) (w_invoked w'))"
  shows "\<exists>r. parse_escrow_instruction cr ix keys sets (InstructionLocation_top_level i) = Inr r
    \<and> reads_back d xs accounts r"
proof -
  note pe = parse_escrow_instruction_def reads_back_def ix(2) parser_consts
  have scope: "event_scope (InstructionLocation_top_level i) s = is_instructions s"
    by (simp add: event_scope_def InstructionLocation_top_level_def)
  obtain k where k: "escrow_instruction_try_from d = Some k"
    using run by (auto simp: process_instruction_def)
  show ?thesis
  proof (cases k)
    case CreateInstance
    with k run have "d = 0" "process_create_instance rt ESCROW_ID accounts xs w = Inr w'"
      by (auto simp: process_instruction_def escrow_instruction_try_from_def split: if_splits)
    then show ?thesis using parse_create_instance_ok [OF cr _ ix(1)] by (fastforce simp: pe)
  next
    case AllowMint
    with k run have "d = 1" "process_allow_mint rt ESCROW_ID accounts xs w = Inr w'"
      by (auto simp: process_instruction_def escrow_instruction_try_from_def split: if_splits)
    then show ?thesis using parse_allow_mint_ok [OF cr _ ix(1) rep] by (fastforce simp: pe)
  next
    case BlockMint
    with k run have "d = 2" "process_block_mint rt ESCROW_ID accounts xs w = Inr w'"
      by (auto simp: process_instruction_def escrow_instruction_try_from_def split: if_splits)
    then show ?thesis using parse_block_mint_ok [OF cr _ ix(1)] by (fastforce simp: pe)
  next
    case Deposit
    with k run have d: "d = 6" and dep: "process_deposit rt ESCROW_ID accounts xs w = Inr w'"
      by (auto simp: process_instruction_def escrow_instruction_try_from_def split: if_splits)
    show ?thesis
      by (rule deposit_read_back [OF rt cr pda dep ix(1) rep(1)])
        (use rep(2) d in \<open>auto simp: scope pe deposit_accounts_of_def\<close>)
  next
    case ReleaseFunds
    with k run have "d = 7" "process_release_funds rt ESCROW_ID accounts xs w = Inr w'"
      by (auto simp: process_instruction_def escrow_instruction_try_from_def split: if_splits)
    then show ?thesis using parse_release_funds_ok [OF _ ix(1)] by (fastforce simp: pe)
  next
    case RotateBitmap
    with k run have "d = 8" "process_rotate_bitmap rt ESCROW_ID accounts xs w = Inr w'"
      by (auto simp: process_instruction_def escrow_instruction_try_from_def split: if_splits)
    then show ?thesis using parse_rotate_bitmap_ok [OF _ ix(1)] by (fastforce simp: pe)
  qed (use k ix(2) in \<open>auto simp: parser_consts escrow_instruction_try_from_def reads_back_def
    parse_not_indexed split: if_splits\<close>)
qed

section \<open>Withdrawals\<close>

text \<open>
  C32. A withdrawal the indexer records is one the channel burned: from a WithdrawFunds the
  withdraw program accepted, the parser reads exactly the amount that was burned from the signing
  user's token account, the mint it was burned from, and the destination the program logged.
\<close>

theorem withdrawal_read_as_burned:
  assumes cr: "borsh_contract cr"
    and run: "process_withdraw_funds rt p accounts xs w = Inr w'"
    and ix: "resolves ix keys accounts" "cr_bs58_decode cr (ci_data ix) = Some (WITHDRAW_FUNDS # xs)"
  shows "\<exists>acc amount destination.
    parse_withdraw_instruction cr ix keys sets location
      = Inr (Some (WithdrawFunds_ix acc \<lparr>wfd_amount = amount, wfd_destination = destination\<rparr>))
    \<and> wfc_user acc = av_address (accounts ! 0) \<and> av_is_signer (accounts ! 0)
    \<and> wfc_mint acc = av_address (accounts ! 1) \<and> wfc_token_account acc = av_address (accounts ! 2)
    \<and> last (w_invoked w') = (TokenBurn (wfc_token_account acc) (wfc_mint acc) (wfc_user acc) amount
        (av_address (accounts ! 3)), [])
    \<and> last (w_logs w') = WithdrawFundsEvent_to_bytes \<lparr>wfe_amount = amount,
        wfe_destination = destination\<rparr>"
  using run
proof (rule process_withdraw_funds_Inr)
  fix args config w1 w2
  assume a: "withdraw_funds_parse_instruction_data xs = Inr args" "length accounts = 7"
      "av_is_signer (accounts ! 0)"
    and burn: "invoke_signed rt (TokenBurn (av_address (accounts ! 2)) (av_address (accounts ! 1))
       (av_address (accounts ! 0)) (wfa_amount args) (av_address (accounts ! 3))) [] w1 = Inr w2"
    and w': "w2\<lparr>w_logs := w_logs w2 @ [WithdrawFundsEvent_to_bytes \<lparr>wfe_amount = wfa_amount args,
       wfe_destination = (case wfa_destination args of None \<Rightarrow> av_address (accounts ! 0)
          | Some d \<Rightarrow> d)\<rparr>]\<rparr> = w'"
  obtain d where d: "WithdrawFundsIxData_deserialize cr xs
      = Inr \<lparr>wfx_amount = wfa_amount args, wfx_destination = d\<rparr>"
    "map_option address_of_bytes d = wfa_destination args"
    using withdraw_funds_data_agrees [OF cr a(1)] by blast
  have "last (w_invoked w') = (TokenBurn (av_address (accounts ! 2)) (av_address (accounts ! 1))
      (av_address (accounts ! 0)) (wfa_amount args) (av_address (accounts ! 3)), [])"
    using invoke_signed_trace [OF burn] w' by auto
  with w' show ?thesis
    using a by (auto simp: parse_withdraw_instruction_def ix(2) WITHDRAW_FUNDS_def
        parse_withdraw_funds_def d(1) d(2) [symmetric] resolvesD [OF ix(1)] guardE_def Let_def
        comp_def)
qed

section \<open>A block that reports them\<close>

text \<open>
  A concrete block view on which the hypotheses above hold: base58 is replaced by the identity on
  characters, the key list is the instruction's accounts followed by the escrow program, and the
  inner set holds exactly the calls the instruction made to its own program.
\<close>

definition char_encode :: "bytes \<Rightarrow> string" where
  "char_encode bs = map (\<lambda>b. char_of (unat b)) bs"

definition char_decode :: "string \<Rightarrow> bytes option" where
  "char_decode s = Some (map (\<lambda>c. word_of_nat (of_char c)) s)"

definition demo_crates :: "(bytes list \<Rightarrow> address \<Rightarrow> address \<times> u8) \<Rightarrow> crates" where
  "demo_crates fpa =
     \<lparr>cr_bs58_decode = char_decode,
      cr_borsh_u8 = (\<lambda>bs. case bs of [] \<Rightarrow> None | b # r \<Rightarrow> Some (b, r)),
      cr_borsh_u64 = (\<lambda>bs. if length bs < 8 then None
        else Some (u64_of_le (take 8 bs), drop 8 bs)),
      cr_borsh_bool = (\<lambda>bs. case bs of [] \<Rightarrow> None
        | b # r \<Rightarrow> if b = 0 then Some (False, r) else if b = 1 then Some (True, r) else None),
      cr_borsh_option_32 = (\<lambda>bs. case bs of [] \<Rightarrow> None
        | b # r \<Rightarrow> if b = 0 then Some (None, r)
                  else if b = 1 then
                    (if length r < 32 then None else Some (Some (take 32 r), drop 32 r))
                  else None),
      cr_find_program_address = fpa\<rparr>"

definition demo_ix :: "account_view list \<Rightarrow> bytes \<Rightarrow> compiled_instruction" where
  "demo_ix accounts bs =
     \<lparr>ci_program_id_index = word_of_nat (length accounts),
      ci_accounts = map word_of_nat [0..<length accounts], ci_data = char_encode bs\<rparr>"

definition demo_keys :: "account_view list \<Rightarrow> address list" where
  "demo_keys accounts = map av_address accounts @ [ESCROW_ID]"

definition demo_set :: "account_view list \<Rightarrow> bytes list \<Rightarrow> inner_instructions" where
  "demo_set accounts calls =
     \<lparr>is_index = 0,
      is_instructions = map (\<lambda>bs. \<lparr>ii_instruction = \<lparr>ci_program_id_index = word_of_nat (length accounts),
        ci_accounts = [], ci_data = char_encode bs\<rparr>, ii_stack_height = Some 2\<rparr>) calls\<rparr>"

lemma char_decode_encode [simp]: "char_decode (char_encode bs) = Some bs"
proof -
  have "unat b mod 256 = unat b" for b :: u8
    using unsigned_less [of b, where 'a = nat] by simp
  then show ?thesis
    by (simp add: char_decode_def char_encode_def comp_def)
qed

lemma demo_crates_sel [simp]:
  "cr_bs58_decode (demo_crates fpa) = char_decode" "cr_find_program_address (demo_crates fpa) = fpa"
  by (simp_all add: demo_crates_def)

lemma demo_borsh [simp]: "borsh_contract (demo_crates fpa)"
  by (simp add: borsh_contract_def demo_crates_def)

lemma unat_index: "i < 256 \<Longrightarrow> unat (word_of_nat i :: u8) = i"
  by (simp add: unat_u8_of_nat)

lemma demo_resolves:
  "length accounts < 256 \<Longrightarrow> resolves (demo_ix accounts bs) (demo_keys accounts) accounts"
  by (auto simp: resolves_def demo_ix_def demo_keys_def resolve_account_def get_def unat_index
      nth_append)

lemma demo_reported: "reported_in [demo_set accounts calls] (InstructionLocation_top_level 0)
    (demo_set accounts calls)"
  by (simp add: reported_in_def demo_set_def InstructionLocation_top_level_def)

lemma demo_records:
  assumes "length accounts < 256"
  shows "records_self_calls (demo_crates fpa) (demo_keys accounts)
    (is_instructions (demo_set accounts (self_calls calls))) calls"
proof -
  have "is_escrow_program e (demo_keys accounts)"
    if "e \<in> set (is_instructions (demo_set accounts (self_calls calls)))" for e
    using that assms
    by (auto simp: demo_set_def is_escrow_program_def demo_keys_def get_def unat_index nth_append)
  then have "filter (\<lambda>e. is_escrow_program e (demo_keys accounts))
      (is_instructions (demo_set accounts (self_calls calls)))
    = is_instructions (demo_set accounts (self_calls calls))"
    by (simp add: filter_id_conv)
  then show ?thesis
    unfolding records_self_calls_def by (intro exI [of _ "[]"]) (simp add: demo_set_def comp_def)
qed

lemma demo_scope: "event_scope (InstructionLocation_top_level 0) s = is_instructions s"
  by (simp add: event_scope_def InstructionLocation_top_level_def)


theorem accepted_instruction_is_readable_witness:
  "\<exists>w' calls r. process_instruction demo_rt ESCROW_ID demo_deposit_accounts (6 # demo_deposit_data)
      (initial_world demo_ledger) = Inr w'
    \<and> parse_escrow_instruction (demo_crates (rt_find_program_address demo_rt))
        (demo_ix demo_deposit_accounts (6 # demo_deposit_data)) (demo_keys demo_deposit_accounts)
        [demo_set demo_deposit_accounts calls] (InstructionLocation_top_level 0) = Inr r
    \<and> reads_back 6 demo_deposit_data demo_deposit_accounts r"
proof -
  obtain w' where "process_deposit demo_rt ESCROW_ID demo_deposit_accounts demo_deposit_data
      (initial_world demo_ledger) = Inr w'"
    using demo_deposit by blast
  then have run: "process_instruction demo_rt ESCROW_ID demo_deposit_accounts (6 # demo_deposit_data)
      (initial_world demo_ledger) = Inr w'"
    by (simp add: process_instruction_def escrow_instruction_try_from_def)
  have n: "length demo_deposit_accounts < 256" by (simp add: demo_deposit_accounts_def)
  have ix: "cr_bs58_decode (demo_crates (rt_find_program_address demo_rt))
      (ci_data (demo_ix demo_deposit_accounts (6 # demo_deposit_data))) = Some (6 # demo_deposit_data)"
    by (simp add: demo_ix_def)
  from accepted_instruction_is_readable [OF demo_rt_contract demo_borsh _ run demo_resolves [OF n] ix
      demo_reported demo_records [OF n]] run
  show ?thesis by fastforce
qed

theorem withdrawal_read_as_burned_witness:
  "\<exists>w' acc amount destination.
    process_withdraw_funds demo_channel_rt WITHDRAW_ID demo_withdraw_accounts (u64_le 100 @ [0])
      demo_channel_world = Inr w'
    \<and> parse_withdraw_instruction (demo_crates (rt_find_program_address demo_channel_rt))
        (demo_ix demo_withdraw_accounts (WITHDRAW_FUNDS # u64_le 100 @ [0]))
        (demo_keys demo_withdraw_accounts) [] (InstructionLocation_top_level 0)
      = Inr (Some (WithdrawFunds_ix acc \<lparr>wfd_amount = amount, wfd_destination = destination\<rparr>))
    \<and> wfc_user acc = av_address (demo_withdraw_accounts ! 0)"
proof -
  obtain w' where run: "process_withdraw_funds demo_channel_rt WITHDRAW_ID demo_withdraw_accounts
      (u64_le 100 @ [0]) demo_channel_world = Inr w'"
    using demo_withdraw_funds by blast
  have n: "length demo_withdraw_accounts < 256" by (simp add: demo_withdraw_accounts_def)
  have ix: "cr_bs58_decode (demo_crates (rt_find_program_address demo_channel_rt))
      (ci_data (demo_ix demo_withdraw_accounts (WITHDRAW_FUNDS # u64_le 100 @ [0])))
      = Some (WITHDRAW_FUNDS # u64_le 100 @ [0])"
    by (simp add: demo_ix_def)
  from withdrawal_read_as_burned [OF demo_borsh run demo_resolves [OF n] ix] run
  show ?thesis by fastforce
qed

end
