(* ===== verification/Indexer_Slots.thy ===== *)
theory Indexer_Slots
  imports Indexer_Decoder Indexer_Readback
begin

text \<open>
  What a decoded slot contains. The nested loops of \<open>Indexer_Decoder\<close> with their early returns are
  related to a declarative reference: the calls of the program in a transaction (\<open>program_calls\<close>),
  the transactions in scope (\<open>scoped\<close>), and the rows they give (\<open>slot_rows\<close>). A slot is decoded
  exactly when nothing in it is unknown, and then to exactly the reference rows.
\<close>

section \<open>Loops\<close>

lemma is_ok_simps [simp]: "is_ok (Inr x)" "\<not> is_ok (Inl e)"
  by (simp_all add: is_ok_def)

definition ok_rows :: "'e + 'b list \<Rightarrow> 'b list" where
  "ok_rows r = (case r of Inr ys \<Rightarrow> ys | Inl _ \<Rightarrow> [])"

lemma ok_rows_simps [simp]: "ok_rows (Inr ys) = ys" "ok_rows (Inl e) = []"
  by (simp_all add: ok_rows_def)

lemma collect_Inr:
  "collect f xs = Inr ys \<longleftrightarrow> (\<forall>x\<in>set xs. is_ok (f x)) \<and> ys = concat (map (\<lambda>x. ok_rows (f x)) xs)"
proof (induction xs arbitrary: ys)
  case Nil
  show ?case by auto
next
  case (Cons x xs)
  show ?case by (cases "f x") (auto simp: Cons)
qed

lemma is_ok_collect: "is_ok (collect f xs) \<longleftrightarrow> (\<forall>x\<in>set xs. is_ok (f x))"
  by (auto simp: is_ok_iff [of "collect f xs"] collect_Inr)

lemma ok_rows_collect:
  "is_ok (collect f xs) \<Longrightarrow> ok_rows (collect f xs) = concat (map (\<lambda>x. ok_rows (f x)) xs)"
proof -
  assume "is_ok (collect f xs)"
  then obtain ys where "collect f xs = Inr ys" by (auto simp: is_ok_iff)
  with collect_Inr [of f xs ys] show ?thesis by simp
qed

lemma collect_append:
  "collect f (xs @ ys) = bindE (collect f xs) (\<lambda>a. bindE (collect f ys) (\<lambda>b. Inr (a @ b)))"
proof (induction xs)
  case Nil
  show ?case by (cases "collect f ys") simp_all
next
  case (Cons x xs)
  then show ?case by (cases "f x"; cases "collect f xs"; cases "collect f ys") simp_all
qed

lemma collect_filter:
  "collect (\<lambda>x. if P x then f x else Inr []) xs = collect f (filter P xs)"
proof (induction xs)
  case (Cons x xs)
  then show ?case by (cases "collect f (filter P xs)"; cases "f x") simp_all
qed simp

lemma collect_map: "collect (\<lambda>x. f (g x)) xs = collect f (map g xs)"
  by (induction xs) simp_all

lemma collect_concat: "collect (\<lambda>x. collect f (g x)) xs = collect f (concat (map g xs))"
  by (induction xs) (simp_all add: collect_append)

lemma find_map_None: "find_map f xs = None \<longleftrightarrow> (\<forall>x\<in>set xs. f x = None)"
  by (induction xs) (auto split: option.splits)

lemma set_enumerate: "set xs = snd ` set (enumerate n xs)"
  by (metis list.set_map map_snd_enumerate)

lemma enumerate_mem: "(i, x) \<in> set (enumerate n xs) \<Longrightarrow> x \<in> set xs"
  by (metis image_eqI set_enumerate snd_conv)

lemma ball_enumerate: "(\<forall>x\<in>set (enumerate n xs). P (snd x)) \<longleftrightarrow> (\<forall>y\<in>set xs. P y)"
  unfolding set_enumerate [of xs n] by blast

section \<open>The reference\<close>

definition program_calls ::
  "'c crates_scheme \<Rightarrow> (u8 \<Rightarrow> bool) \<Rightarrow> address \<Rightarrow> address list \<Rightarrow> inner_instructions list \<Rightarrow>
     compiled_instruction list \<Rightarrow> (compiled_instruction \<times> instruction_location) list" where
  "program_calls cr excluded program keys sets instructions =
     map (\<lambda>(i, ix). (ix, InstructionLocation_top_level (word_of_nat i)))
       (filter (\<lambda>(i, ix). get keys (unat (ci_program_id_index ix)) = Some program)
         (enumerate 0 instructions))
     @ concat (map (\<lambda>s. map (\<lambda>(i, e). (ii_instruction e, inner_location_of s i e))
         (filter (\<lambda>(i, e). get keys (unat (ci_program_id_index (ii_instruction e))) = Some program
             \<and> \<not> (case instruction_discriminator cr (ii_instruction e) of
                    Some d \<Rightarrow> excluded d | None \<Rightarrow> False))
           (enumerate 0 (is_instructions s)))) sets)"

lemma parse_loops:
  "bindE (parse_top_level p program inst keys sets sig n instructions) (\<lambda>top.
   bindE (parse_inner cr p excluded program inst keys sets sig n) (\<lambda>inner. Inr (top @ inner)))
   = collect (\<lambda>(ix, location). parse_located p inst keys sets sig n ix location)
       (program_calls cr excluded program keys sets instructions)"
proof -
  let ?f = "\<lambda>(ix, location). parse_located p inst keys sets sig n ix location"
  let ?g = "\<lambda>(i, ix). (ix, InstructionLocation_top_level (word_of_nat i))"
  let ?h = "\<lambda>s (i, e). (ii_instruction e, inner_location_of s i e)"
  let ?P = "\<lambda>(i :: nat, ix). get keys (unat (ci_program_id_index ix)) = Some program"
  let ?Q = "\<lambda>(i :: nat, e). get keys (unat (ci_program_id_index (ii_instruction e))) = Some program
    \<and> \<not> (case instruction_discriminator cr (ii_instruction e) of Some d \<Rightarrow> excluded d | None \<Rightarrow> False)"
  have top: "parse_top_level p program inst keys sets sig n instructions
    = collect (\<lambda>x. if ?P x then ?f (?g x) else Inr []) (enumerate 0 instructions)"
    unfolding parse_top_level_def by (intro arg_cong2 [of _ _ _ _ collect]) auto
  have inner: "parse_inner cr p excluded program inst keys sets sig n
    = collect (\<lambda>s. collect (\<lambda>x. if ?Q x then ?f (?h s x) else Inr [])
        (enumerate 0 (is_instructions s))) sets"
    unfolding parse_inner_def by (intro arg_cong2 [of _ _ _ _ collect] ext) (auto split: if_splits)
  show ?thesis
    unfolding top inner collect_filter collect_map [of ?f ?g] collect_map [of ?f "?h _"] collect_concat
    by (simp add: collect_append program_calls_def)
qed

definition inner_sets :: "rpc_transaction \<Rightarrow> inner_instructions list option" where
  "inner_sets tx = Option.bind (rx_meta tx) (\<lambda>meta. present (tm_inner_instructions meta))"

text \<open>A transaction in scope, with its keys and its signature.\<close>

definition scoped ::
  "'c sdk_scheme \<Rightarrow> address \<Rightarrow> address option \<Rightarrow> rpc_transaction \<Rightarrow> (address list \<times> string) option" where
  "scoped cr program inst tx =
     (if tx_failed tx then None
      else case validate_transaction cr tx of
        Inl _ \<Rightarrow> None
      | Inr (keys, signature) \<Rightarrow>
          if program \<in> set keys \<and> (case inst of Some i \<Rightarrow> i \<in> set keys | None \<Rightarrow> True)
          then Some (keys, signature) else None)"

definition tx_calls ::
  "'c crates_scheme \<Rightarrow> (u8 \<Rightarrow> bool) \<Rightarrow> address \<Rightarrow> address list \<Rightarrow> rpc_transaction \<Rightarrow>
     (compiled_instruction \<times> instruction_location) list" where
  "tx_calls cr excluded program keys tx =
     program_calls cr excluded program keys (case inner_sets tx of Some s \<Rightarrow> s | None \<Rightarrow> [])
       (em_instructions (et_message (rx_transaction tx)))"

definition call_rows ::
  "'ix parse_fn \<Rightarrow> address list \<Rightarrow> rpc_transaction \<Rightarrow> string \<Rightarrow> nat \<Rightarrow>
     compiled_instruction \<times> instruction_location \<Rightarrow> 'ix decoded list" where
  "call_rows p keys tx signature n = (\<lambda>(ix, location).
     case p ix keys (case inner_sets tx of Some s \<Rightarrow> s | None \<Rightarrow> []) location of
       Inr (Some i) \<Rightarrow> [(signature, location, i, word_of_nat n)] | _ \<Rightarrow> [])"

definition slot_rows ::
  "'c sdk_scheme \<Rightarrow> 'ix parse_fn \<Rightarrow> (u8 \<Rightarrow> bool) \<Rightarrow> address \<Rightarrow> address option \<Rightarrow> rpc_block \<Rightarrow>
     'ix decoded list" where
  "slot_rows cr p excluded program inst block =
     concat (map (\<lambda>(n, tx). case scoped cr program inst tx of
         None \<Rightarrow> []
       | Some (keys, signature) \<Rightarrow>
           concat (map (call_rows p keys tx signature n) (tx_calls cr excluded program keys tx)))
       (enumerate 0 (bk_transactions block)))"

text \<open>Nothing about the transaction is unknown.\<close>

definition tx_known ::
  "'c sdk_scheme \<Rightarrow> 'ix parse_fn \<Rightarrow> (u8 \<Rightarrow> bool) \<Rightarrow> address \<Rightarrow> address option \<Rightarrow> bool \<Rightarrow>
     rpc_transaction \<Rightarrow> bool" where
  "tx_known cr p excluded program inst need_inner tx \<longleftrightarrow>
     (tx_failed tx \<or> is_ok (validate_transaction cr tx))
     \<and> (case scoped cr program inst tx of
          None \<Rightarrow> True
        | Some (keys, signature) \<Rightarrow>
            (need_inner \<longrightarrow> inner_sets tx \<noteq> None)
            \<and> (\<forall>(ix, location)\<in>set (tx_calls cr excluded program keys tx).
                 is_ok (p ix keys (case inner_sets tx of Some s \<Rightarrow> s | None \<Rightarrow> []) location)
                 \<or> \<not> targets_configured_instance ix keys inst))"

lemma parse_located_ok:
  "is_ok (parse_located p inst keys sets sig n ix location)
    \<longleftrightarrow> is_ok (p ix keys sets location) \<or> \<not> targets_configured_instance ix keys inst"
  "ok_rows (parse_located p inst keys sets sig n ix location)
    = (case p ix keys sets location of Inr (Some i) \<Rightarrow> [(sig, location, i, word_of_nat n)] | _ \<Rightarrow> [])"
  by (auto simp: parse_located_def split: sum.splits option.splits)

section \<open>Decoding is exact\<close>

lemma parse_transaction_exact:
  "(is_ok (parse_transaction cr p excluded program inst need_inner (n, tx))
      \<longleftrightarrow> tx_known cr p excluded program inst need_inner tx)
    \<and> (tx_known cr p excluded program inst need_inner tx \<longrightarrow>
      ok_rows (parse_transaction cr p excluded program inst need_inner (n, tx))
       = (case scoped cr program inst tx of
           None \<Rightarrow> []
         | Some (keys, signature) \<Rightarrow>
             concat (map (call_rows p keys tx signature n) (tx_calls cr excluded program keys tx))))"
proof (cases "scoped cr program inst tx")
  case None
  then show ?thesis
    by (auto simp: tx_known_def scoped_def parse_transaction_def Let_def split: sum.splits if_splits
        option.splits)
next
  case (Some ks)
  obtain keys sig where ks: "ks = (keys, sig)" by fastforce
  let ?sets = "case inner_sets tx of Some s \<Rightarrow> s | None \<Rightarrow> []"
  let ?c = "collect (\<lambda>(ix, location). parse_located p inst keys ?sets sig n ix location)
      (tx_calls cr excluded program keys tx)"
  have "validate_transaction cr tx = Inr (keys, sig)" "\<not> tx_failed tx"
    using Some by (auto simp: scoped_def ks split: if_splits sum.splits)
  moreover have "parse_transaction cr p excluded program inst need_inner (n, tx)
      = (if need_inner \<and> inner_sets tx = None
         then Inl (Malformed (label_of n tx) Inner_instructions_null) else ?c)"
    using Some calculation
    by (auto simp: parse_transaction_def scoped_def ks inner_sets_def [symmetric] Let_def parse_loops
        tx_calls_def split: if_splits option.splits)
  moreover have "ok_rows ?c = concat (map (call_rows p keys tx sig n)
      (tx_calls cr excluded program keys tx))" if "is_ok ?c"
    unfolding ok_rows_collect [OF that] call_rows_def
    by (intro arg_cong [of _ _ concat] map_cong refl) (auto simp: parse_located_ok)
  moreover have "is_ok ?c \<longleftrightarrow> (\<forall>(ix, location)\<in>set (tx_calls cr excluded program keys tx).
      is_ok (p ix keys ?sets location) \<or> \<not> targets_configured_instance ix keys inst)"
    by (auto simp: is_ok_collect parse_located_ok)
  ultimately show ?thesis
    unfolding tx_known_def Some ks option.case prod.case by (simp only: if_bool_eq_conj) auto
qed

definition block_known ::
  "'c sdk_scheme \<Rightarrow> 'ix parse_fn \<Rightarrow> (u8 \<Rightarrow> bool) \<Rightarrow> address \<Rightarrow> address option \<Rightarrow> bool \<Rightarrow>
     rpc_block \<Rightarrow> bool" where
  "block_known cr p excluded program inst need_inner block \<longleftrightarrow>
     (\<forall>tx\<in>set (bk_transactions block). tx_known cr p excluded program inst need_inner tx)"

lemma parse_block_for_program_exact:
  assumes "sd_pubkey_from_str cr program_id = Some program"
  shows "parse_block_for_program cr block program_id p excluded inst need_inner = Inr rows
    \<longleftrightarrow> block_known cr p excluded program inst need_inner block
      \<and> rows = slot_rows cr p excluded program inst block"
proof -
  let ?f = "parse_transaction cr p excluded program inst need_inner"
  let ?txs = "enumerate 0 (bk_transactions block)"
  have ok: "(\<forall>x\<in>set ?txs. is_ok (?f x)) \<longleftrightarrow> block_known cr p excluded program inst need_inner block"
  proof -
    have "is_ok (?f x) \<longleftrightarrow> tx_known cr p excluded program inst need_inner (snd x)" for x
      using parse_transaction_exact [of cr p excluded program inst need_inner "fst x" "snd x"] by simp
    then show ?thesis by (simp add: block_known_def ball_enumerate)
  qed
  have "concat (map (\<lambda>x. ok_rows (?f x)) ?txs) = slot_rows cr p excluded program inst block"
    if known: "block_known cr p excluded program inst need_inner block"
    unfolding slot_rows_def
  proof (intro arg_cong [of _ _ concat] map_cong refl)
    fix x assume x: "x \<in> set ?txs"
    obtain n tx where [simp]: "x = (n, tx)" by fastforce
    have "tx \<in> set (bk_transactions block)"
      using x by (simp add: enumerate_mem)
    with known show "ok_rows (?f x) = (case x of (n, tx) \<Rightarrow> case scoped cr program inst tx of
         None \<Rightarrow> []
       | Some (keys, signature) \<Rightarrow>
           concat (map (call_rows p keys tx signature n) (tx_calls cr excluded program keys tx)))"
      using parse_transaction_exact [of cr p excluded program inst need_inner n tx]
      by (simp add: block_known_def)
  qed
  with ok show ?thesis
    unfolding parse_block_for_program_def assms option.case collect_Inr by auto
qed

lemma no_missing_meta:
  "first_missing_meta block = None \<and> first_missing_meta_field block = None
    \<longleftrightarrow> (\<forall>tx\<in>set (bk_transactions block).
          \<exists>meta. rx_meta tx = Some meta \<and> missing_field meta = None)"
proof -
  let ?txs = "bk_transactions block"
  have "(case x of (index, tx) \<Rightarrow> if rx_meta tx = None then Some (label_of index tx) else None) = None
      \<longleftrightarrow> rx_meta (snd x) \<noteq> None" for x
    by (simp add: case_prod_beta)
  then have "first_missing_meta block = None \<longleftrightarrow> (\<forall>tx\<in>set ?txs. rx_meta tx \<noteq> None)"
    unfolding first_missing_meta_def find_map_None
    by (simp only: ball_enumerate [of 0 _ "\<lambda>tx. rx_meta tx \<noteq> None"])
  moreover have "(case x of (index, tx) \<Rightarrow> case rx_meta tx of None \<Rightarrow> None
        | Some meta \<Rightarrow> map_option (\<lambda>field. (label_of index tx, field)) (missing_field meta)) = None
      \<longleftrightarrow> (\<forall>meta. rx_meta (snd x) = Some meta \<longrightarrow> missing_field meta = None)" for x
    by (simp add: case_prod_beta split: option.splits)
  then have "first_missing_meta_field block = None
      \<longleftrightarrow> (\<forall>tx\<in>set ?txs. \<forall>meta. rx_meta tx = Some meta \<longrightarrow> missing_field meta = None)"
    unfolding first_missing_meta_field_def find_map_None
    by (simp only: ball_enumerate [of 0 _ "\<lambda>tx. \<forall>meta. rx_meta tx = Some meta \<longrightarrow> missing_field meta = None"])
  ultimately show ?thesis by auto
qed


text \<open>
  A block of two transactions: one calls BlockMint of instance \<open>c\<close> at top level and again from
  another program, where that instruction is excluded; the other one failed.
\<close>

definition demo_sdk :: "(bytes list \<Rightarrow> address \<Rightarrow> address \<times> u8) \<Rightarrow> sdk" where
  "demo_sdk fpa = crates.extend (demo_crates fpa) (sdk.fields (\<lambda>s.
     if s = PRIVATE_CHANNEL_ESCROW_PROGRAM_ID then Some ESCROW_ID
     else (case s of [c] \<Rightarrow> Some (word_of_nat (of_char c)) | _ \<Rightarrow> None)))"

definition demo_block_mint :: compiled_instruction where
  "demo_block_mint = \<lparr>ci_program_id_index = 7, ci_accounts = [0, 1, 2, 3, 4, 5, 6],
     ci_data = char_encode [BLOCK_MINT, 1, 0]\<rparr>"

definition demo_transaction :: "string reported \<Rightarrow> rpc_transaction" where
  "demo_transaction err =
     \<lparr>rx_transaction = \<lparr>et_signatures = [replicate 64 CHR ''s''],
        et_message = \<lparr>em_account_keys = [''a'', ''b'', ''c'', ''d'', ''e'', ''f'', ''g'',
            PRIVATE_CHANNEL_ESCROW_PROGRAM_ID, ''h''],
          em_instructions = [demo_block_mint, demo_block_mint\<lparr>ci_program_id_index := 8\<rparr>],
          em_address_table_lookups = None\<rparr>\<rparr>,
      rx_meta = Some \<lparr>tm_err = err, tm_log_messages = None,
        tm_inner_instructions = Present (Some [\<lparr>is_index = 1, is_instructions =
          [\<lparr>ii_instruction = demo_block_mint, ii_stack_height = Some 2\<rparr>]\<rparr>]),
        tm_loaded_addresses = Some \<lparr>la_writable = [], la_readonly = []\<rparr>\<rparr>\<rparr>"

definition demo_block :: rpc_block where
  "demo_block = \<lparr>bk_blockhash = ''hash'', bk_parent_slot = 6,
     bk_transactions = [demo_transaction (Present None), demo_transaction (Present (Some ''e''))]\<rparr>"


end
