(* ===== verification/Checkpoint_Safety.thy ===== *)
theory Checkpoint_Safety
  imports Checkpoint
begin

text \<open>
  The checkpoint is evidence: while a range is gated, the durable checkpoint never passes a slot
  of the range that has not been processed, whatever the order of arrival, the failures of the
  store and the reconnects in between; and once the whole range is processed, it is reached.
  The invariant \<open>gap_inv\<close> carries both directions.
\<close>

section \<open>The absorbing loop\<close>

lemma unat_next: "f \<noteq> - 1 \<Longrightarrow> unat (f + 1) = Suc (unat f)" for f :: u64
  using unatSuc [of f] by (metis add.commute add_eq_0_iff)

lemma above_next: "f \<noteq> - 1 \<Longrightarrow> f < k \<longleftrightarrow> k = f + 1 \<or> f + 1 < k" for f :: u64
  by (auto simp: word_less_nat_alt word_unat_eq_iff unat_next)

lemma next_greater: "f \<noteq> - 1 \<Longrightarrow> f < f + 1" for f :: u64
  by (simp add: word_less_nat_alt unat_next)

lemma absorb_spec:
  assumes "0 \<notin> C" "absorb f C = (f', C')"
  shows "f \<le> f' \<and> (\<forall>k. f < k \<and> k \<le> f' \<longrightarrow> k \<in> C) \<and> f' + 1 \<notin> C \<and> C' = C - {k. f < k \<and> k \<le> f'}"
  using assms
proof (induction f C arbitrary: f' C' rule: absorb.induct)
  case (1 f C)
  show ?case
  proof (cases "f + 1 \<in> C")
    case False
    then have "f' = f" "C' = C" using 1(3) by (simp_all add: absorb.simps [of f C])
    with False show ?thesis by auto
  next
    case True
    let ?C = "C - {f + 1}"
    have "absorb (f + 1) ?C = (f', C')"
      using 1(3) True by (simp add: absorb.simps [of f C])
    from 1(1) [OF True _ this] 1(2) have IH: "f + 1 \<le> f'" "\<And>k. f + 1 < k \<Longrightarrow> k \<le> f' \<Longrightarrow> k \<in> ?C" "f' + 1 \<notin> ?C"
      "C' = ?C - {k. f + 1 < k \<and> k \<le> f'}"
      by auto
    have f: "f \<noteq> - 1" using True 1(2) by auto
    have less: "f < f'" using next_greater [OF f] IH(1) by order
    then have "f' + 1 \<noteq> f + 1" by auto
    then have "f' + 1 \<notin> C" using IH(3) by simp
    moreover have "k \<in> C" if "f < k" "k \<le> f'" for k
      using that above_next [OF f, of k] True IH(2) [of k] by auto
    moreover have "C' = C - {k. f < k \<and> k \<le> f'}"
      using IH(1, 4) above_next [OF f] by auto
    ultimately show ?thesis using less by (simp add: less_imp_le)
  qed
qed

text \<open>
  C33. The loop that folds waiting slots into the frontier ends, for every frontier and every set,
  also at the top of the slot range: as a \<open>while\<close> loop it terminates, with the value the model's
  recursion computes.
\<close>

theorem absorb_loop_terminates:
  "while_option (\<lambda>(f, c). f + 1 \<in> c) (\<lambda>(f, c). (f + 1, c - {f + 1})) (f, c) = Some (absorb f c)"
proof (induction f c rule: absorb.induct)
  case (1 f c)
  then show ?case
    by (subst while_option_unfold) (simp add: absorb.simps [of f c])
qed

section \<open>The gated frontier\<close>

text \<open>
  \<open>gap_inv b t S L f C\<close>: gated from \<open>b\<close> to \<open>t\<close>, with frontier \<open>f\<close> and waiting slots \<open>C\<close>; \<open>S\<close> are the
  slots processed so far and \<open>L\<close> those processed since the gate was set. Everything from \<open>b\<close> up to
  the frontier is processed, and while the gap is open the slots of \<open>L\<close> above the frontier wait
  and do not include the next one.
\<close>

definition gap_inv :: "u64 \<Rightarrow> u64 \<Rightarrow> u64 set \<Rightarrow> u64 set \<Rightarrow> u64 \<Rightarrow> u64 set \<Rightarrow> bool" where
  "gap_inv b t S L f C \<longleftrightarrow>
     0 \<notin> C \<and> b \<le> f \<and> C \<subseteq> S \<and> f \<in> insert b S
     \<and> (\<forall>k. b < k \<and> k \<le> f \<and> k \<le> t \<longrightarrow> k \<in> S)
     \<and> (f < t \<longrightarrow> (\<forall>k\<in>L. f < k \<and> k \<le> t \<longrightarrow> k \<in> C \<and> k \<noteq> f + 1))"

definition core_step :: "u64 \<Rightarrow> u64 \<Rightarrow> u64 \<times> u64 set \<Rightarrow> u64 \<times> u64 set" where
  "core_step t s = (\<lambda>(f, C).
     if f < t then
       (if f < s \<and> s \<le> t then
          (let (f', C') = absorb f (insert s C) in (f', if t \<le> f' then {} else C'))
        else (f, C))
     else (max f s, C))"

lemma advance_core:
  assumes "cs_gate st = Some t"
  shows "(cs_frontier (snd (advance s st)), cs_completed (snd (advance s st)))
      = core_step t s (cs_frontier st, cs_completed st)"
    "cs_gate (snd (advance s st)) = Some t"
    "cs_dirty (snd (advance s st)) \<longleftrightarrow> cs_dirty st \<or> cs_frontier st < cs_frontier (snd (advance s st))"
  using assms
  by (auto simp: advance_def fill_gap_def core_step_def Let_def split: prod.splits)

lemma move_fence_core [simp]:
  "cs_frontier (move_fence st) = cs_frontier st" "cs_completed (move_fence st) = cs_completed st"
  "cs_gate (move_fence st) = cs_gate st" "cs_dirty (move_fence st) = cs_dirty st"
  by (auto simp: move_fence_def split: option.splits)

lemma offer_block_core [simp]:
  "cs_frontier (snd (advance s (offer_block s' h st))) = cs_frontier (snd (advance s st))"
  "cs_completed (snd (advance s (offer_block s' h st))) = cs_completed (snd (advance s st))"
  "cs_gate (snd (advance s (offer_block s' h st))) = cs_gate (snd (advance s st))"
  "cs_dirty (snd (advance s (offer_block s' h st))) = cs_dirty (snd (advance s st))"
  by (auto simp: advance_def fill_gap_def offer_block_def Let_def split: option.splits prod.splits)

lemma apply_block_frontier [simp]:
  "cs_frontier (snd (apply_block s h st)) = cs_frontier (snd (advance s st))"
  "cs_completed (snd (apply_block s h st)) = cs_completed (snd (advance s st))"
  "cs_gate (snd (apply_block s h st)) = cs_gate (snd (advance s st))"
  "cs_dirty (snd (apply_block s h st)) = cs_dirty (snd (advance s st))"
  by (simp_all add: apply_block_def case_prod_beta)

lemma gap_inv_absorb:
  assumes inv: "gap_inv b t S L f C" and gap: "f < t" "f < s" "s \<le> t"
    and ab: "absorb f (insert s C) = (f', C')"
  shows "gap_inv b t (insert s S) (insert s L) f' (if t \<le> f' then {} else C')"
proof -
  have z: "0 \<notin> insert s C" using inv gap(2) by (auto simp: gap_inv_def)
  note a = absorb_spec [OF z ab]
  have C: "C \<subseteq> S" using inv by (simp add: gap_inv_def)
  have new: "k \<in> insert s S" if "f < k" "k \<le> f'" for k
    using a that C by auto
  have "f' \<in> insert b (insert s S)"
    using new [of f'] a inv by (cases "f = f'") (auto simp: gap_inv_def)
  moreover have "k \<in> insert s S" if "b < k" "k \<le> f'" "k \<le> t" for k
    using new [of k] that inv by (cases "k \<le> f") (auto simp: gap_inv_def not_le)
  moreover have "k \<in> C' \<and> k \<noteq> f' + 1" if "f' < t" "k \<in> insert s L" "f' < k" "k \<le> t" for k
  proof -
    have "f < k" using that(3) a by auto
    then have "k \<in> insert s C" using that inv gap(1) by (auto simp: gap_inv_def)
    then show ?thesis using a that(3) by auto
  qed
  moreover have "C' \<subseteq> insert s S" "0 \<notin> C'" using a z C by auto
  moreover have "b \<le> f'" using a inv by (auto simp: gap_inv_def)
  ultimately show ?thesis by (auto simp: gap_inv_def)
qed

lemma gap_inv_step:
  assumes inv: "gap_inv b t S L f C" and step: "core_step t s (f, C) = (f', C')"
  shows "gap_inv b t (insert s S) (insert s L) f' C' \<and> f \<le> f'"
proof (cases "f < t")
  case False
  then have "f' = max f s" "C' = C" using step by (auto simp: core_step_def)
  moreover have "k \<le> f" if "k \<le> t" for k using False that by simp
  ultimately show ?thesis using inv False by (auto simp: gap_inv_def max_def)
next
  case open_gap: True
  show ?thesis
  proof (cases "f < s \<and> s \<le> t")
    case True
    then obtain f2 C2 where ab: "absorb f (insert s C) = (f2, C2)" by fastforce
    then have "f' = f2" "C' = (if t \<le> f2 then {} else C2)"
      using step True open_gap by (auto simp: core_step_def)
    moreover have "0 \<notin> insert s C" using inv True by (auto simp: gap_inv_def)
    then have "f \<le> f2" using absorb_spec [OF _ ab] by blast
    ultimately show ?thesis using gap_inv_absorb [OF inv open_gap _ _ ab] True by simp
  next
    case False
    then have "f' = f" "C' = C" using step open_gap by (auto simp: core_step_def)
    then show ?thesis using inv False by (auto simp: gap_inv_def)
  qed
qed

lemma gap_inv_start: "0 \<notin> C \<Longrightarrow> C \<subseteq> S \<Longrightarrow> gap_inv b t S {} b C"
  by (auto simp: gap_inv_def)

lemma gap_inv_reached:
  assumes "gap_inv b t S L f C" "\<And>k. b < k \<Longrightarrow> k \<le> t \<Longrightarrow> k \<in> L"
  shows "t \<le> f"
proof (rule ccontr)
  assume "\<not> t \<le> f"
  then have f: "f < t" by simp
  then have n: "f \<noteq> - 1" by (metis not_less word_order.extremum)
  have "f + 1 \<le> t" using f n above_next [of f t] by auto
  moreover have "b < f + 1" using assms(1) next_greater [OF n] by (auto simp: gap_inv_def)
  ultimately have "f + 1 \<in> L" by (rule assms(2) [rotated])
  then show False using assms(1) f \<open>f + 1 \<le> t\<close> next_greater [OF n] by (auto simp: gap_inv_def)
qed

section \<open>The writer\<close>

text \<open>The slots of a program that the writer receives before its channel closes.\<close>

definition slot_of :: "program_type \<Rightarrow> writer_event \<Rightarrow> u64 set" where
  "slot_of p ev = (case ev of
     Recv (SlotMsg u) \<Rightarrow> if cu_program_type u = p then {cu_slot u} else {} | _ \<Rightarrow> {})"

definition received :: "program_type \<Rightarrow> (writer_event \<times> 'o) list \<Rightarrow> u64 set" where
  "received p evs = (\<Union>ev\<in>set (takeWhile (\<lambda>ev. fst ev \<noteq> Closed) evs). slot_of p (fst ev))"

definition no_regate :: "program_type \<Rightarrow> (writer_event \<times> 'o) list \<Rightarrow> bool" where
  "no_regate p evs \<longleftrightarrow> list_all (\<lambda>ev. case fst ev of Recv (RegateMsg q _ _) \<Rightarrow> q \<noteq> p | _ \<Rightarrow> True) evs"

definition slots_fit :: "(writer_event \<times> 'o) list \<Rightarrow> bool" where
  "slots_fit evs \<longleftrightarrow> list_all (\<lambda>ev. case fst ev of
     Recv (SlotMsg u) \<Rightarrow> cu_slot u < 2 ^ 63 | Recv (RegateMsg q from target) \<Rightarrow> from < 2 ^ 63
   | _ \<Rightarrow> True) evs"

text \<open>
  \<open>store_inv p b f d store\<close>: the committed slot of \<open>p\<close> is at most its frontier \<open>f\<close>; when nothing is
  waiting to be flushed (\<open>d\<close> is false) the frontier is committed, or still at \<open>b\<close>.
\<close>

definition store_inv :: "program_type \<Rightarrow> u64 \<Rightarrow> u64 \<Rightarrow> bool \<Rightarrow> checkpoint_store \<Rightarrow> bool" where
  "store_inv p b f d store \<longleftrightarrow>
     (\<forall>row. store (program_key p) = Some row \<longrightarrow>
        0 \<le> ir_last_committed_slot row \<and> ir_last_committed_slot row \<le> uint f)
     \<and> (d \<or> f = b \<or> (\<exists>row. store (program_key p) = Some row \<and> ir_last_committed_slot row = uint f))"

definition writer_inv ::
  "checkpoint_writer \<Rightarrow> program_type \<Rightarrow> u64 \<Rightarrow> u64 \<Rightarrow> u64 set \<Rightarrow> u64 set \<Rightarrow> writer \<Rightarrow> bool" where
  "writer_inv self p b t S L wr \<longleftrightarrow>
     (let st = entry_state self (wr_states wr) p in
      cs_gate st = Some t \<and> gap_inv b t S L (cs_frontier st) (cs_completed st)
      \<and> insert b S \<subseteq> {k. k < 2 ^ 63}
      \<and> store_inv p b (cs_frontier st) (cs_dirty st) (wr_store wr)
      \<and> (wr_states wr p = None \<longrightarrow> \<not> cs_dirty st))"

lemma sint_small: "k < 2 ^ 63 \<Longrightarrow> sint k = uint k" for k :: u64
proof -
  assume "k < 2 ^ 63"
  then have "uint k < 2 ^ 63" by (simp add: word_less_def)
  moreover have "0 \<le> uint k" by simp
  ultimately have "signed_take_bit 63 (uint k) = uint k"
    by (intro signed_take_bit_int_eq_self) linarith+
  then show ?thesis by (simp add: sint_uint)
qed

lemma program_key_inject [simp]: "program_key p = program_key q \<longleftrightarrow> p = q"
  by (cases p; cases q) simp_all

lemma flush_one_other:
  assumes "flush_one ok q (states, store) = (states', store')" "q \<noteq> p"
  shows "states' p = states p" "store' (program_key p) = store (program_key p)"
  using assms by (auto simp: flush_one_def update_committed_checkpoint_def Let_def
      split: option.splits if_splits)

lemma flush_one_same:
  assumes inv: "store_inv p b (cs_frontier st) (cs_dirty st) store" and f: "cs_frontier st < 2 ^ 63"
    and st: "states p = Some st" and fl: "flush_one ok p (states, store) = (states', store')"
  shows "\<exists>d. states' p = Some (st\<lparr>cs_dirty := d\<rparr>) \<and> store_inv p b (cs_frontier st) d store'
    \<and> (ok p \<longrightarrow> \<not> d) \<and> (d \<longrightarrow> cs_dirty st)"
proof (cases "cs_dirty st \<and> ok p")
  case True
  then have "states' p = Some (st\<lparr>cs_dirty := False\<rparr>)" "store_inv p b (cs_frontier st) False store'"
    using fl st f inv
    by (auto simp: flush_one_def store_inv_def update_committed_checkpoint_def Let_def sint_small
        split: option.splits)
  then show ?thesis by blast
next
  case False
  then have "states' = states" "store' = store" using fl st by (auto simp: flush_one_def split: if_splits)
  with False st inv show ?thesis by (intro exI [of _ "cs_dirty st"]) auto
qed

lemma writer_inv_flush:
  assumes inv: "writer_inv self p b t S L wr"
  shows "writer_inv self p b t S L (flush_writer ok wr)
    \<and> (ok p \<longrightarrow> \<not> cs_dirty (entry_state self (wr_states (flush_writer ok wr)) p))"
proof -
  have one: "writer_inv self p b t S L (wr\<lparr>wr_states := st', wr_store := sto'\<rparr>)
      \<and> (q = p \<and> ok p \<longrightarrow> \<not> cs_dirty (entry_state self st' p))
      \<and> (\<not> cs_dirty (entry_state self st p) \<longrightarrow> \<not> cs_dirty (entry_state self st' p))"
    if w: "writer_inv self p b t S L (wr\<lparr>wr_states := st, wr_store := sto\<rparr>)"
      and fl: "flush_one ok q (st, sto) = (st', sto')" for q st sto st' sto'
  proof (cases "q = p")
    case False
    then show ?thesis
      using flush_one_other [OF fl False] w
      by (auto simp: writer_inv_def entry_state_def store_inv_def Let_def split: option.splits)
  next
    case True
    show ?thesis
    proof (cases "st p")
      case None
      then have "(st', sto') = (st, sto)" using fl True by (simp add: flush_one_def)
      then show ?thesis using w None by (auto simp: writer_inv_def Let_def)
    next
      case (Some s)
      then have e: "entry_state self st p = s" by (simp add: entry_state_def)
      then have "cs_frontier s < 2 ^ 63" "store_inv p b (cs_frontier s) (cs_dirty s) sto"
        using w by (auto simp: writer_inv_def gap_inv_def Let_def)
      with flush_one_same [where st = s] Some fl True obtain d where
        "st' p = Some (s\<lparr>cs_dirty := d\<rparr>)" "store_inv p b (cs_frontier s) d sto'" "ok p \<longrightarrow> \<not> d"
        "d \<longrightarrow> cs_dirty s"
        by blast
      then show ?thesis using w e Some by (auto simp: writer_inv_def entry_state_def Let_def)
    qed
  qed
  obtain s1 t1 where 1: "flush_one ok Escrow (wr_states wr, wr_store wr) = (s1, t1)" by fastforce
  obtain s2 t2 where 2: "flush_one ok Withdraw (s1, t1) = (s2, t2)" by fastforce
  have "flush_writer ok wr = wr\<lparr>wr_states := s2, wr_store := t2\<rparr>"
    using 1 2 by (simp add: flush_writer_def flush_checkpoints_def)
  moreover have "writer_inv self p b t S L (wr\<lparr>wr_states := wr_states wr, wr_store := wr_store wr\<rparr>)"
    using inv by simp
  ultimately show ?thesis
    using one [OF _ 1] one [OF _ 2] by (cases p) auto
qed

lemma received_Nil [simp]: "received p [] = {}"
  by (simp add: received_def)

lemma received_Cons [simp]:
  "received p (ev # evs) = (if fst ev = Closed then {} else slot_of p (fst ev) \<union> received p evs)"
  by (auto simp: received_def)

lemma store_inv_advance:
  "store_inv p b f d store \<Longrightarrow> f \<le> f' \<Longrightarrow> store_inv p b f' (d \<or> f < f') store"
  by (drule order_le_imp_less_or_eq) (auto simp: store_inv_def word_less_def intro: order_trans)

lemma entry_state_upd:
  "entry_state self (states(q \<mapsto> st)) p = (if q = p then st else entry_state self states p)"
  by (simp add: entry_state_def)

lemma writer_inv_update:
  assumes inv: "writer_inv self p b t S L wr" and fit: "cu_slot u < 2 ^ 63"
  shows "writer_inv self p b t (slot_of p (Recv (SlotMsg u)) \<union> S) (slot_of p (Recv (SlotMsg u)) \<union> L)
    (wr\<lparr>wr_states := record_update self u (wr_states wr), wr_update_count := n\<rparr>)"
proof (cases "cu_program_type u = p")
  case False
  then show ?thesis
    using inv by (auto simp: writer_inv_def record_update_def Let_def slot_of_def entry_state_upd)
next
  case True
  let ?st = "entry_state self (wr_states wr) p"
  let ?st' = "snd (apply_block (cu_slot u) (cu_blockhash u) ?st)"
  have gate: "cs_gate ?st = Some t"
    and gi: "gap_inv b t S L (cs_frontier ?st) (cs_completed ?st)"
    and si: "store_inv p b (cs_frontier ?st) (cs_dirty ?st) (wr_store wr)"
    using inv by (simp_all add: writer_inv_def Let_def)
  have "gap_inv b t (insert (cu_slot u) S) (insert (cu_slot u) L) (cs_frontier ?st') (cs_completed ?st')
      \<and> cs_frontier ?st \<le> cs_frontier ?st'"
    using gap_inv_step [OF gi] advance_core(1) [OF gate] by (metis apply_block_frontier(1,2))
  moreover from this have "store_inv p b (cs_frontier ?st') (cs_dirty ?st') (wr_store wr)"
    using store_inv_advance [OF si] advance_core(3) [OF gate] by simp
  ultimately show ?thesis
    using inv True fit advance_core(2) [OF gate]
    by (simp add: writer_inv_def record_update_def Let_def slot_of_def entry_state_upd)
qed

lemma warn_one_same [simp]:
  "cs_frontier (snd (warn_one st)) = cs_frontier st" "cs_completed (snd (warn_one st)) = cs_completed st"
  "cs_gate (snd (warn_one st)) = cs_gate st" "cs_dirty (snd (warn_one st)) = cs_dirty st"
  by (simp_all add: warn_one_def Let_def)

lemma writer_inv_count [simp]:
  "writer_inv self p b t S L (wr\<lparr>wr_update_count := n\<rparr>) = writer_inv self p b t S L wr"
  by (simp add: writer_inv_def)

lemma writer_inv_step:
  assumes inv: "writer_inv self p b t S L wr" and ok: "no_regate p [ev]" "slots_fit [ev]"
  shows "writer_inv self p b t (slot_of p (fst ev) \<union> S) (slot_of p (fst ev) \<union> L)
    (writer_step self ev wr)"
proof -
  obtain e w where ev: "ev = (e, w)" by fastforce
  show ?thesis
  proof (cases e)
    case (Recv m)
    show ?thesis
    proof (cases m)
      case (SlotMsg u)
      then have "cu_slot u < 2 ^ 63" using ok(2) ev Recv by (simp add: slots_fit_def)
      from writer_inv_update [OF inv this, of "wr_update_count wr + 1"]
      show ?thesis using writer_inv_flush by (auto simp: ev Recv SlotMsg Let_def)
    next
      case (RegateMsg q frm target)
      then have "q \<noteq> p" using ok(1) ev Recv by (simp add: no_regate_def)
      then show ?thesis
        using inv by (simp add: ev Recv RegateMsg writer_inv_def record_regate_def slot_of_def
            entry_state_upd)
    qed
  next
    case Closed
    then show ?thesis using writer_inv_flush [OF inv] by (simp add: ev slot_of_def)
  next
    case Tick
    have "writer_inv self p b t S L (wr\<lparr>wr_states := warn_on_stall (wr_states wr)\<rparr>)"
      using inv by (cases "wr_states wr p")
        (simp_all add: writer_inv_def entry_state_def warn_on_stall_def)
    from writer_inv_flush [OF this, of w] show ?thesis by (simp add: ev Tick slot_of_def)
  qed
qed

lemma writer_inv_run:
  assumes "writer_inv self p b t S L wr" "no_regate p evs" "slots_fit evs"
  shows "writer_inv self p b t (received p evs \<union> S) (received p evs \<union> L) (writer_run self evs wr)"
  using assms
proof (induction evs arbitrary: S L wr)
  case Nil
  then show ?case by simp
next
  case (Cons ev evs)
  from Cons.prems have s: "writer_inv self p b t (slot_of p (fst ev) \<union> S) (slot_of p (fst ev) \<union> L)
      (writer_step self ev wr)" and rest: "no_regate p evs" "slots_fit evs"
    using writer_inv_step [of self p b t S L wr ev] by (auto simp: no_regate_def slots_fit_def)
  show ?case
  proof (cases "fst ev = Closed")
    case True
    with s show ?thesis by (simp add: slot_of_def)
  next
    case False
    with Cons.IH [OF s rest] show ?thesis by (simp add: ac_simps)
  qed
qed

lemma writer_inv_committed:
  assumes "writer_inv self p b t S L wr"
    and "get_committed_checkpoint (program_key p) (wr_store wr) = Some c" "b < k" "k \<le> c" "k \<le> t"
  shows "k \<in> S"
proof -
  let ?f = "cs_frontier (entry_state self (wr_states wr) p)"
  obtain row where row: "wr_store wr (program_key p) = Some row"
    "c = word_of_int (ir_last_committed_slot row)"
    using assms(2) by (auto simp: get_committed_checkpoint_def)
  then have r: "0 \<le> ir_last_committed_slot row" "ir_last_committed_slot row \<le> uint ?f"
    using assms(1) by (auto simp: writer_inv_def store_inv_def Let_def)
  moreover have "uint ?f < 2 ^ 64" using uint_lt2p [of ?f] by simp
  ultimately have "uint c = ir_last_committed_slot row"
    by (simp add: row(2) uint_word_of_int)
  with r(2) have "c \<le> ?f" by (simp add: word_le_def)
  then show ?thesis using assms by (auto simp: writer_inv_def gap_inv_def Let_def)
qed

lemma writer_inv_start:
  assumes gate: "cw_gate self = Some (b, t)" and b: "b < 2 ^ 63"
    and row: "\<And>row. store (program_key p) = Some row \<Longrightarrow>
      0 \<le> ir_last_committed_slot row \<and> ir_last_committed_slot row \<le> uint b"
  shows "writer_inv self p b t {} {} (writer_start store)"
  using assms gap_inv_start [of "{}" "{}" b t]
  by (auto simp: writer_inv_def writer_start_def entry_state_def new_state_def
      CheckpointState_gated_def store_inv_def Let_def)

text \<open>
  C22. The durable checkpoint never skips a slot of the backfill range. Started on a store whose
  checkpoint is at most \<open>b\<close> and gated to the range above \<open>b\<close> up to \<open>t\<close>, whatever
  slots arrive in whatever order, whichever writes fail and whenever it flushes: every slot of the
  range at or below the committed checkpoint has been reported processed.
\<close>

theorem checkpoint_never_skips:
  assumes "cw_gate self = Some (b, t)" "b < 2 ^ 63"
    and "\<And>row. store (program_key p) = Some row \<Longrightarrow>
      0 \<le> ir_last_committed_slot row \<and> ir_last_committed_slot row \<le> uint b"
    and "no_regate p evs" "slots_fit evs"
    and "get_committed_checkpoint (program_key p)
      (wr_store (writer_run self evs (writer_start store))) = Some c"
  shows "{k. b < k \<and> k \<le> c \<and> k \<le> t} \<subseteq> received p evs"
  using writer_inv_committed [OF writer_inv_run [OF writer_inv_start [OF assms(1-3)] assms(4,5)]
      assms(6)] by auto

lemma writer_run_append:
  "Closed \<notin> fst ` set evs \<Longrightarrow> writer_run self (evs @ evs') wr = writer_run self evs' (writer_run self evs wr)"
  by (induction evs arbitrary: wr) auto

lemma received_append:
  "Closed \<notin> fst ` set evs \<Longrightarrow> received p (evs @ evs') = received p evs \<union> received p evs'"
  by (induction evs) auto

text \<open>
  C27. The durable checkpoint is reached. Once every slot of the gated range has been reported, in
  any order, closing the channel with a working store commits a checkpoint at or above the target.
\<close>

theorem checkpoint_reaches_target:
  assumes gate: "cw_gate self = Some (b, t)" "b < 2 ^ 63" "b < t"
    and row: "\<And>row. store (program_key p) = Some row \<Longrightarrow>
      0 \<le> ir_last_committed_slot row \<and> ir_last_committed_slot row \<le> uint b"
    and evs: "no_regate p evs" "slots_fit evs" "Closed \<notin> fst ` set evs" "ok p"
    and all: "{k. b < k \<and> k \<le> t} \<subseteq> received p evs"
  shows "\<exists>c. get_committed_checkpoint (program_key p)
      (wr_store (writer_run self (evs @ [(Closed, ok)]) (writer_start store))) = Some c \<and> t \<le> c"
proof -
  define wr where "wr = flush_writer ok (writer_run self evs (writer_start store))"
  let ?st = "entry_state self (wr_states wr) p"
  have "writer_inv self p b t (received p evs \<union> {}) (received p evs \<union> {})
      (writer_run self evs (writer_start store))"
    by (rule writer_inv_run [OF writer_inv_start [OF gate(1,2) row] evs(1,2)])
  then have inv: "writer_inv self p b t (received p evs) (received p evs) wr"
    and clean: "\<not> cs_dirty ?st"
    using writer_inv_flush [of self p b t _ _ _ ok] evs(4) by (auto simp: wr_def)
  have "t \<le> cs_frontier ?st"
    using inv gap_inv_reached [of b t _ "received p evs"] all
    by (auto simp: writer_inv_def Let_def)
  moreover from this gate(3) have "cs_frontier ?st \<noteq> b" by auto
  with inv clean obtain r where "wr_store wr (program_key p) = Some r"
    "ir_last_committed_slot r = uint (cs_frontier ?st)"
    by (auto simp: writer_inv_def store_inv_def Let_def)
  ultimately have "get_committed_checkpoint (program_key p) (wr_store wr) = Some (cs_frontier ?st)"
    by (simp add: get_committed_checkpoint_def)
  then show ?thesis
    using \<open>t \<le> cs_frontier ?st\<close> evs(3) by (auto simp: writer_run_append wr_def)
qed

section \<open>Re-arming the gate\<close>

definition waiting_inv :: "checkpoint_writer \<Rightarrow> program_type \<Rightarrow> u64 set \<Rightarrow> writer_states \<Rightarrow> bool" where
  "waiting_inv self p S states \<longleftrightarrow>
     0 \<notin> cs_completed (entry_state self states p) \<and> cs_completed (entry_state self states p) \<subseteq> S"

lemma absorb_subset: "snd (absorb f C) \<subseteq> C"
proof (induction f C rule: absorb.induct)
  case (1 f C)
  then show ?case by (auto simp: absorb.simps [of f C])
qed

lemma advance_completed: "cs_completed (snd (advance s st)) \<subseteq> insert s (cs_completed st)"
  using absorb_subset [of "cs_frontier st" "insert s (cs_completed st)"]
  by (auto simp: advance_def fill_gap_def Let_def split: option.splits prod.splits)

lemma advance_completed_zero: "0 \<notin> cs_completed st \<Longrightarrow> 0 \<notin> cs_completed (snd (advance s st))"
  using absorb_subset [of "cs_frontier st" "insert s (cs_completed st)"]
  by (auto simp: advance_def fill_gap_def Let_def split: option.splits prod.splits if_splits)

lemma flush_writer_completed:
  "cs_completed (entry_state self (wr_states (flush_writer ok wr)) p)
     = cs_completed (entry_state self (wr_states wr) p)"
proof -
  have one: "cs_completed (entry_state self (fst (flush_one ok q (states, store))) p)
      = cs_completed (entry_state self states p)" for q states store
    by (auto simp: flush_one_def entry_state_def split: option.splits)
  obtain s1 t1 where 1: "flush_one ok Escrow (wr_states wr, wr_store wr) = (s1, t1)" by fastforce
  obtain s2 t2 where 2: "flush_one ok Withdraw (s1, t1) = (s2, t2)" by fastforce
  show ?thesis
    using one [of Escrow "wr_states wr" "wr_store wr"] one [of Withdraw s1 t1] 1 2
    by (simp add: flush_writer_def flush_checkpoints_def)
qed

lemma waiting_inv_step:
  assumes "waiting_inv self p S (wr_states wr)"
  shows "waiting_inv self p (slot_of p (fst ev) \<union> S) (wr_states (writer_step self ev wr))"
proof -
  obtain e ok where ev: "ev = (e, ok)" by fastforce
  show ?thesis
  proof (cases e)
    case (Recv m)
    show ?thesis
    proof (cases m)
      case (SlotMsg u)
      let ?st = "entry_state self (wr_states wr) p"
      have "0 \<notin> cs_completed (snd (advance (cu_slot u) ?st))"
        "cs_completed (snd (advance (cu_slot u) ?st)) \<subseteq> insert (cu_slot u) S"
        using assms advance_completed_zero [of ?st] advance_completed [of "cu_slot u" ?st]
        by (auto simp: waiting_inv_def)
      then have "waiting_inv self p (slot_of p e \<union> S) (record_update self u (wr_states wr))"
        using assms by (auto simp: waiting_inv_def record_update_def Let_def entry_state_upd
            slot_of_def Recv SlotMsg)
      then show ?thesis by (simp add: ev Recv SlotMsg Let_def waiting_inv_def flush_writer_completed)
    next
      case (RegateMsg q frm target)
      then show ?thesis
        using assms by (auto simp: ev Recv waiting_inv_def record_regate_def entry_state_upd
            regate_def slot_of_def)
    qed
  next
    case Closed
    then show ?thesis
      using assms by (simp add: ev waiting_inv_def flush_writer_completed slot_of_def)
  next
    case Tick
    have "cs_completed (entry_state self (warn_on_stall (wr_states wr)) p)
        = cs_completed (entry_state self (wr_states wr) p)"
      by (simp add: entry_state_def warn_on_stall_def split: option.splits)
    then show ?thesis
      using assms by (simp add: ev Tick waiting_inv_def flush_writer_completed slot_of_def)
  qed
qed

lemma waiting_inv_run:
  "waiting_inv self p S (wr_states wr) \<Longrightarrow>
   waiting_inv self p (received p evs \<union> S) (wr_states (writer_run self evs wr))"
proof (induction evs arbitrary: S wr)
  case Nil
  then show ?case by simp
next
  case (Cons ev evs)
  note s = waiting_inv_step [OF Cons.prems, of ev]
  show ?case
  proof (cases "fst ev = Closed")
    case True
    with s show ?thesis by (simp add: slot_of_def)
  next
    case False
    with Cons.IH [OF s] show ?thesis by (simp add: ac_simps)
  qed
qed

lemma received_fit: "slots_fit evs \<Longrightarrow> received p evs \<subseteq> {k. k < 2 ^ 63}"
  by (induction evs) (auto simp: slots_fit_def slot_of_def
      split: writer_event.splits checkpoint_msg.splits if_splits)

text \<open>
  A reconnect re-arms the protection. Whatever happened before, from the moment the gate is set
  to a target \<open>t\<close> until the next time it is set, the committed checkpoint does not pass an
  unprocessed slot above the point the frontier had reached (or the durable checkpoint handed in,
  if that is higher) up to \<open>t\<close>; slots that had arrived early before count as processed.
\<close>

theorem regate_protects_gap:
  assumes wr: "wr = writer_run self evs (writer_start store)" "Closed \<notin> fst ` set evs"
    and b: "b = max (cs_frontier (entry_state self (wr_states wr) p)) frm" "b < 2 ^ 63"
    and row: "\<And>row. wr_store wr (program_key p) = Some row \<Longrightarrow>
      0 \<le> ir_last_committed_slot row \<and> ir_last_committed_slot row \<le> uint b"
    and evs: "slots_fit evs" "no_regate p evs'" "slots_fit evs'"
    and c: "get_committed_checkpoint (program_key p) (wr_store (writer_run self
      (evs @ (Recv (RegateMsg p frm t), ok) # evs') (writer_start store))) = Some c"
  shows "{k. b < k \<and> k \<le> c \<and> k \<le> t} \<subseteq> received p evs \<union> received p evs'"
proof -
  let ?st = "entry_state self (wr_states wr) p"
  let ?wr = "writer_step self (Recv (RegateMsg p frm t), ok) wr"
  have "waiting_inv self p {} (wr_states (writer_start store))"
    by (simp add: waiting_inv_def writer_start_def entry_state_def new_state_def
        CheckpointState_gated_def CheckpointState_ungated_def split: option.splits prod.splits)
  from waiting_inv_run [OF this, of evs]
  have "0 \<notin> cs_completed ?st" "cs_completed ?st \<subseteq> received p evs"
    by (auto simp: wr(1) waiting_inv_def)
  then have "writer_inv self p b t (received p evs) {} ?wr"
    using row b(2) received_fit [OF evs(1), of p] gap_inv_start [of "cs_completed ?st"]
    by (auto simp: writer_inv_def record_regate_def entry_state_upd regate_def b(1) [symmetric]
        store_inv_def Let_def)
  from writer_inv_committed [OF writer_inv_run [OF this evs(2,3)]] c
  show ?thesis using wr by (auto simp: writer_run_append)
qed

section \<open>Waiting for the commit\<close>

lemma wait_sound:
  "wait_for_checkpoint_commit target timeout last_read reads = Some (Inr ()) \<Longrightarrow>
   \<exists>slot \<ge> target. Some (Some slot) \<in> fst ` set reads"
proof (induction reads arbitrary: last_read)
  case (Cons r reads)
  obtain x elapsed where r: "r = (x, elapsed)" by fastforce
  show ?case
  proof (cases "case x of Some (Some slot) \<Rightarrow> slot \<ge> target | _ \<Rightarrow> False")
    case True
    then show ?thesis by (auto simp: r split: option.splits)
  next
    case False
    then have "wait_for_checkpoint_commit target timeout
        (case x of Some committed \<Rightarrow> committed | None \<Rightarrow> last_read) reads = Some (Inr ())"
      using Cons.prems by (auto simp: r Let_def split: if_splits)
    from Cons.IH [OF this] show ?thesis by auto
  qed
qed simp

text \<open>
  Startup does not continue on an incomplete ledger. The wait after a backfill polls the
  committed checkpoint while the writer works; each read fails or sees the store as it was after
  some part of the run. If the wait succeeds, every slot of the range had been processed.
\<close>

theorem startup_wait_is_sound:
  assumes gate: "cw_gate self = Some (b, t)" "b < 2 ^ 63"
    and row: "\<And>row. store (program_key p) = Some row \<Longrightarrow>
      0 \<le> ir_last_committed_slot row \<and> ir_last_committed_slot row \<le> uint b"
    and evs: "no_regate p evs" "slots_fit evs"
    and reads: "\<And>r. r \<in> fst ` set reads \<Longrightarrow> r = None \<or> (\<exists>n. r = Some (get_committed_checkpoint
        (program_key p) (wr_store (writer_run self (take n evs) (writer_start store)))))"
    and ok: "wait_for_checkpoint_commit t timeout None reads = Some (Inr ())"
  shows "{k. b < k \<and> k \<le> t} \<subseteq> received p evs"
proof -
  obtain c where c: "t \<le> c" "Some (Some c) \<in> fst ` set reads" using wait_sound [OF ok] by blast
  then obtain n where n: "get_committed_checkpoint (program_key p)
      (wr_store (writer_run self (take n evs) (writer_start store))) = Some c"
    using reads [of "Some (Some c)"] by auto
  have "no_regate p (take n evs)" "slots_fit (take n evs)"
    using evs by (auto simp: no_regate_def slots_fit_def list_all_iff dest: in_set_takeD)
  from writer_inv_committed [OF writer_inv_run [OF writer_inv_start [OF gate row] this] n] c(1)
  have "{k. b < k \<and> k \<le> t} \<subseteq> received p (take n evs)" by auto
  also have "\<dots> \<subseteq> received p evs"
    by (induction evs arbitrary: n) (auto simp: take_Cons split: nat.splits)
  finally show ?thesis .
qed

section \<open>A run\<close>

text \<open>A writer gated to slots 101 to 103 that receives them out of order, flushing each time.\<close>

definition demo_writer :: checkpoint_writer where
  "demo_writer = \<lparr>cw_max_batch_size = 1, cw_gate = Some (100, 103)\<rparr>"

definition demo_slot :: "u64 \<Rightarrow> writer_event \<times> (program_type \<Rightarrow> bool)" where
  "demo_slot s = (Recv (SlotMsg \<lparr>cu_program_type = Escrow, cu_slot = s, cu_blockhash = None\<rparr>),
     \<lambda>_. True)"

definition demo_store :: checkpoint_store where
  "demo_store = [''escrow'' \<mapsto> \<lparr>ir_last_committed_slot = 100, ir_fence = None\<rparr>]"

lemmas demo_run_defs =
  demo_writer_def demo_slot_def demo_store_def writer_start_def record_update_def entry_state_def
  new_state_def CheckpointState_gated_def apply_block_def offer_block_def move_fence_def advance_def
  fill_gap_def absorb.simps flush_writer_def flush_checkpoints_def flush_one_def
  update_committed_checkpoint_def get_committed_checkpoint_def btree_last_upto_def
  record_regate_def regate_def Let_def sint_small

lemma demo_row:
  "demo_store (program_key Escrow) = Some row \<Longrightarrow>
   0 \<le> ir_last_committed_slot row \<and> ir_last_committed_slot row \<le> uint (100 :: u64)"
  by (auto simp: demo_store_def)

lemma demo_evs_ok:
  "no_regate Escrow (map demo_slot ss)"
  "(\<forall>s\<in>set ss. s < 2 ^ 63) \<Longrightarrow> slots_fit (map demo_slot ss)"
  "Closed \<notin> fst ` set (map demo_slot ss)" "received Escrow (map demo_slot ss) = set ss"
  by (induction ss) (auto simp: no_regate_def slots_fit_def demo_slot_def slot_of_def)

lemma demo_committed:
  "get_committed_checkpoint (program_key Escrow) (wr_store (writer_run demo_writer
     (map demo_slot [103, 101]) (writer_start demo_store))) = Some 101"
  "get_committed_checkpoint (program_key Escrow) (wr_store (writer_run demo_writer
     (map demo_slot [103, 101, 102]) (writer_start demo_store))) = Some 103"
  by (simp_all add: demo_run_defs)

theorem checkpoint_never_skips_witness:
  "{k. 100 < k \<and> k \<le> 101 \<and> k \<le> 103} \<subseteq> received Escrow (map demo_slot [103, 101])"
  by (rule checkpoint_never_skips [OF _ _ demo_row demo_evs_ok(1,2) demo_committed(1)])
    (simp_all add: demo_writer_def)

theorem checkpoint_reaches_target_witness:
  "\<exists>c. get_committed_checkpoint (program_key Escrow) (wr_store (writer_run demo_writer
      (map demo_slot [103, 101, 102] @ [(Closed, \<lambda>_. True)]) (writer_start demo_store))) = Some c
    \<and> 103 \<le> c"
proof -
  have "k \<in> set [103, 101, 102]" if "100 < k" "k \<le> 103" for k :: u64
  proof -
    have "unat k \<in> {101, 102, 103}" using that by (auto simp: word_less_nat_alt word_le_nat_alt)
    then show ?thesis by (auto simp: word_unat_eq_iff)
  qed
  then have "{k. 100 < k \<and> k \<le> 103} \<subseteq> received Escrow (map demo_slot [103, 101, 102])"
    unfolding demo_evs_ok(4) by blast
  then show ?thesis
    by (intro checkpoint_reaches_target [OF _ _ _ demo_row demo_evs_ok(1,2,3)])
      (simp_all add: demo_writer_def)
qed

theorem regate_protects_gap_witness:
  "get_committed_checkpoint (program_key Escrow) (wr_store (writer_run demo_writer
      (map demo_slot [103, 101] @ (Recv (RegateMsg Escrow 100 105), \<lambda>_. True) # map demo_slot [102])
      (writer_start demo_store))) = Some 103
    \<and> {k. 101 < k \<and> k \<le> 103 \<and> k \<le> 105}
      \<subseteq> received Escrow (map demo_slot [103, 101]) \<union> received Escrow (map demo_slot [102])"
proof -
  let ?wr = "writer_run demo_writer (map demo_slot [103, 101]) (writer_start demo_store)"
  have f: "101 = max (cs_frontier (entry_state demo_writer (wr_states ?wr) Escrow)) 100"
    by (simp add: demo_run_defs)
  have row: "wr_store ?wr (program_key Escrow) = Some row \<Longrightarrow>
      0 \<le> ir_last_committed_slot row \<and> ir_last_committed_slot row \<le> uint (101 :: u64)" for row
    by (auto simp: demo_run_defs)
  have c: "get_committed_checkpoint (program_key Escrow) (wr_store (writer_run demo_writer
      (map demo_slot [103, 101] @ (Recv (RegateMsg Escrow 100 105), \<lambda>_. True) # map demo_slot [102])
      (writer_start demo_store))) = Some 103"
    by (simp add: demo_run_defs)
  have "{k. 101 < k \<and> k \<le> 103 \<and> k \<le> 105}
      \<subseteq> received Escrow (map demo_slot [103, 101]) \<union> received Escrow (map demo_slot [102])"
    by (rule regate_protects_gap [OF refl demo_evs_ok(3) f _ row _ demo_evs_ok(1) _ c])
      (simp_all add: slots_fit_def demo_slot_def)
  with c show ?thesis by blast
qed

theorem startup_wait_is_sound_witness:
  "wait_for_checkpoint_commit 103 120 None
      [(None, 0), (Some (Some 101), 1), (Some (Some 103), 2)] = Some (Inr ())
    \<and> {k. 100 < k \<and> k \<le> 103} \<subseteq> received Escrow (map demo_slot [103, 101, 102])"
proof -
  have reads: "r = None \<or> (\<exists>n. r = Some (get_committed_checkpoint (program_key Escrow)
      (wr_store (writer_run demo_writer (take n (map demo_slot [103, 101, 102]))
        (writer_start demo_store)))))"
    if "r \<in> fst ` set [(None, 0 :: nat), (Some (Some 101), 1), (Some (Some 103), 2)]" for r
  proof -
    have "take 2 (map demo_slot [103, 101, 102]) = map demo_slot [103, 101]"
      "take 3 (map demo_slot [103, 101, 102]) = map demo_slot [103, 101, 102]" by simp_all
    then show ?thesis using that demo_committed by (auto intro: exI [of _ 2] exI [of _ 3] simp del: list.map)
  qed
  have w: "wait_for_checkpoint_commit 103 120 None
      [(None, 0), (Some (Some 101), 1), (Some (Some 103), 2)] = Some (Inr ())" by simp
  show ?thesis
    using w startup_wait_is_sound [OF _ _ demo_row demo_evs_ok(1,2) reads w] by (simp add: demo_writer_def)
qed

end
