(* ===== verification/Channel_Fence.thy ===== *)
theory Channel_Fence
  imports Checkpoint_Safety
begin

text \<open>
  Detecting a restored channel: \<open>indexer/src/channel_fence.rs\<close>, together with the fence that the
  checkpoint writer keeps. The fence is the newest channel block at or below the withdraw
  checkpoint. At boot the indexer asks the channel for that block again: a channel restored from a
  backup has another block there, or none, or blocks where the indexer had seen empty slots.

  The channel's RPC answers are the parameter \<open>channel_rpc\<close>, one per poll. A formatted reason is
  dropped from \<open>Retry\<close> and \<open>Unavailable\<close>; \<open>Mismatch\<close> keeps which of the three proofs it rests on.
\<close>

section \<open>Probing the channel\<close>

record channel_rpc =
  rpc_get_slot :: "u64 option"
  rpc_get_block_summary :: "u64 \<Rightarrow> (string \<times> u64) option option"
    \<comment> \<open>\<open>None\<close> for an error; hash and parent slot of a block\<close>
  rpc_get_blocks_with_limit :: "u64 \<Rightarrow> nat \<Rightarrow> u64 list option"
  rpc_get_first_available_block :: "u64 option"

datatype mismatch = OtherHash string | BlockInGap u64 | SlotSkipped u64 u64

datatype fence_verdict = FenceOk | Mismatch mismatch | Unavailable

datatype probe_result = Final fence_verdict | Retry

definition probe_gap :: "channel_rpc \<Rightarrow> channel_fence \<Rightarrow> u64 \<Rightarrow> probe_result" where
  "probe_gap rpc fence checkpoint =
     (if checkpoint \<le> cf_slot fence then Final FenceOk
      else case rpc_get_blocks_with_limit rpc (cf_slot fence + 1) 1 of
        Some (next # _) \<Rightarrow>
          if next \<le> checkpoint then Final (Mismatch (BlockInGap next)) else Final FenceOk
      | Some [] \<Rightarrow> Retry
      | None \<Rightarrow> Final Unavailable)"

definition probe_missing_block :: "channel_rpc \<Rightarrow> channel_fence \<Rightarrow> probe_result" where
  "probe_missing_block rpc fence =
     (case rpc_get_first_available_block rpc of
        None \<Rightarrow> Final Unavailable
      | Some floor_slot \<Rightarrow>
          if cf_slot fence < floor_slot then Final Unavailable
          else case rpc_get_blocks_with_limit rpc (cf_slot fence + 1) 1 of
            None \<Rightarrow> Final Unavailable
          | Some [] \<Rightarrow> Retry
          | Some (later # _) \<Rightarrow>
              (case rpc_get_block_summary rpc later of
                 None \<Rightarrow> Final Unavailable
               | Some (Some (_, parent)) \<Rightarrow>
                   if parent < cf_slot fence then Final (Mismatch (SlotSkipped later parent)) else Retry
               | Some None \<Rightarrow> Retry))"

definition probe :: "channel_rpc \<Rightarrow> channel_fence \<Rightarrow> u64 \<Rightarrow> probe_result" where
  "probe rpc fence checkpoint =
     (case rpc_get_slot rpc of
        None \<Rightarrow> Final Unavailable
      | Some tip \<Rightarrow>
          if tip < cf_slot fence then Retry
          else case rpc_get_block_summary rpc (cf_slot fence) of
            Some (Some (hash, _)) \<Rightarrow>
              if hash = cf_blockhash fence then probe_gap rpc fence checkpoint
              else Final (Mismatch (OtherHash hash))
          | Some None \<Rightarrow> probe_missing_block rpc fence
          | None \<Rightarrow> Final Unavailable)"

text \<open>The polling loop, over the answers of each poll and the time elapsed; \<open>None\<close> while polling.\<close>

fun verify_loop ::
  "channel_fence \<Rightarrow> u64 \<Rightarrow> nat \<Rightarrow> (channel_rpc \<times> nat) list \<Rightarrow> fence_verdict option" where
  "verify_loop fence checkpoint budget [] = None"
| "verify_loop fence checkpoint budget ((rpc, elapsed) # polls) =
     (case probe rpc fence checkpoint of
        Final verdict \<Rightarrow> Some verdict
      | Retry \<Rightarrow>
          if elapsed \<ge> budget then Some Unavailable
          else verify_loop fence checkpoint budget polls)"

definition verify_channel_fence ::
  "fence_record option \<Rightarrow> nat \<Rightarrow> (channel_rpc \<times> nat) list \<Rightarrow> fence_verdict option" where
  "verify_channel_fence rec budget polls =
     (case rec of
        None \<Rightarrow> Some FenceOk
      | Some r \<Rightarrow> verify_loop (fr_fence r) (fr_checkpoint r) budget polls)"

section \<open>Verdicts against the chain\<close>

text \<open>
  A chain maps the slots that hold a block to its hash and its parent's slot. What a node answers
  about it: a block it serves is a block of the chain, the first block at or after a slot is
  listed with none in between, and the parent of a block is the block before it.
\<close>

type_synonym chain = "u64 \<rightharpoonup> (string \<times> u64)"

definition chain_linked :: "chain \<Rightarrow> bool" where
  "chain_linked ch \<longleftrightarrow> (\<forall>s h q k. ch s = Some (h, q) \<and> q < k \<and> k < s \<longrightarrow> ch k = None)"

definition answers :: "chain \<Rightarrow> channel_rpc \<Rightarrow> bool" where
  "answers ch rpc \<longleftrightarrow>
     (\<forall>s b. rpc_get_block_summary rpc s = Some (Some b) \<longrightarrow> ch s = Some b)
     \<and> (\<forall>s n ns. rpc_get_blocks_with_limit rpc s 1 = Some (n # ns) \<longrightarrow>
          s \<le> n \<and> ch n \<noteq> None \<and> (\<forall>k. s \<le> k \<and> k < n \<longrightarrow> ch k = None))"

definition fence_intact :: "chain \<Rightarrow> channel_fence \<Rightarrow> u64 \<Rightarrow> bool" where
  "fence_intact ch fence checkpoint \<longleftrightarrow>
     (\<exists>parent. ch (cf_slot fence) = Some (cf_blockhash fence, parent))
     \<and> (\<forall>k. cf_slot fence < k \<and> k \<le> checkpoint \<longrightarrow> ch k = None)"

lemma answers_blocks:
  assumes "answers ch rpc" "rpc_get_blocks_with_limit rpc s 1 = Some (n # ns)"
  shows "s \<le> n" "ch n \<noteq> None" "\<And>k. s \<le> k \<Longrightarrow> k < n \<Longrightarrow> ch k = None"
  using assms unfolding answers_def by blast+

lemma probe_sound:
  assumes ans: "answers ch rpc" and ok: "probe rpc fence checkpoint = Final FenceOk"
  shows "fence_intact ch fence checkpoint"
proof -
  obtain parent where b: "ch (cf_slot fence) = Some (cf_blockhash fence, parent)"
    and gap: "probe_gap rpc fence checkpoint = Final FenceOk"
    using ok ans
    by (auto simp: probe_def probe_missing_block_def answers_def split: option.splits if_splits
        list.splits)
  have "ch k = None" if k: "cf_slot fence < k" "k \<le> checkpoint" for k
  proof -
    have "\<not> checkpoint \<le> cf_slot fence" using k by auto
    then obtain n ns where n: "rpc_get_blocks_with_limit rpc (cf_slot fence + 1) 1 = Some (n # ns)"
      "checkpoint < n"
      using gap by (auto simp: probe_gap_def split: option.splits list.splits if_splits)
    have "cf_slot fence \<noteq> - 1" using k(1) by (metis not_less word_order.extremum)
    then have "cf_slot fence + 1 \<le> k" using above_next [of "cf_slot fence" k] k(1) by auto
    moreover have "k < n" using k(2) n(2) by auto
    ultimately show ?thesis by (rule answers_blocks(3) [OF ans n(1)])
  qed
  with b show ?thesis by (auto simp: fence_intact_def)
qed

lemma probe_no_false_alarm:
  assumes ans: "answers ch rpc" "chain_linked ch" and ok: "fence_intact ch fence checkpoint"
    and n: "cf_slot fence \<noteq> - 1"
  shows "probe rpc fence checkpoint \<noteq> Final (Mismatch m)"
proof
  assume p: "probe rpc fence checkpoint = Final (Mismatch m)"
  obtain parent where b: "ch (cf_slot fence) = Some (cf_blockhash fence, parent)"
    using ok by (auto simp: fence_intact_def)
  consider (gap) n ns where "rpc_get_blocks_with_limit rpc (cf_slot fence + 1) 1 = Some (n # ns)"
      "n \<le> checkpoint" "cf_slot fence < checkpoint"
    | (other) hash q where "ch (cf_slot fence) = Some (hash, q)" "hash \<noteq> cf_blockhash fence"
    | (skip) later ns h q where "rpc_get_blocks_with_limit rpc (cf_slot fence + 1) 1 = Some (later # ns)"
      "ch later = Some (h, q)" "q < cf_slot fence"
    using p ans(1)
    by (auto simp: probe_def probe_gap_def probe_missing_block_def answers_def
        split: option.splits if_splits list.splits)
  then show False
  proof cases
    case gap
    then have "cf_slot fence < n"
      using next_greater [OF n] answers_blocks(1) [OF ans(1)] by (metis less_le_trans)
    then show False
      using gap(2) ok answers_blocks(2) [OF ans(1) gap(1)] by (auto simp: fence_intact_def)
  next
    case other
    with b show False by simp
  next
    case skip
    then have "cf_slot fence < later"
      using next_greater [OF n] answers_blocks(1) [OF ans(1)] by (metis less_le_trans)
    then show False using ans(2) skip b by (auto simp: chain_linked_def)
  qed
qed

text \<open>
  C24. The boot check tells a restored channel from an intact one. If it says the fence holds, the
  channel still has the very block the indexer recorded and still no block between it and the
  checkpoint; and on a channel that has both, it never reports a restore, however slow, pruned or
  lagging the node that answers.
\<close>

theorem fence_verdict_is_right:
  assumes polls: "\<forall>(rpc, elapsed)\<in>set polls. answers ch rpc" "chain_linked ch"
    and n: "cf_slot (fr_fence r) \<noteq> - 1"
    and v: "verify_channel_fence (Some r) budget polls = Some v"
  shows "(v = FenceOk \<longrightarrow> fence_intact ch (fr_fence r) (fr_checkpoint r))
    \<and> (fence_intact ch (fr_fence r) (fr_checkpoint r) \<longrightarrow> (\<forall>m. v \<noteq> Mismatch m))"
  using polls(1) v unfolding verify_channel_fence_def option.case
proof (induction polls)
  case (Cons p polls)
  obtain rpc elapsed where p: "p = (rpc, elapsed)" by fastforce
  then have ans: "answers ch rpc" using Cons.prems by auto
  show ?case
  proof (cases "probe rpc (fr_fence r) (fr_checkpoint r)")
    case (Final w)
    then have "v = w" using Cons.prems p by simp
    with Final show ?thesis
      using probe_sound [OF ans] probe_no_false_alarm [OF ans polls(2) _ n] by blast
  next
    case Retry
    with Cons p show ?thesis by (auto split: if_splits)
  qed
qed simp

section \<open>The fence the writer keeps\<close>

definition apply_updates :: "(u64 \<times> string option) list \<Rightarrow> checkpoint_state \<Rightarrow> checkpoint_state" where
  "apply_updates us st = fold (\<lambda>(s, h) st. snd (apply_block s h st)) us st"

lemma keys_insert: "fst ` set (btree_insert k v m) = insert k (fst ` set m)"
  by (induction k v m rule: btree_insert.induct) auto

lemma set_insert: "set (btree_insert k v m) \<subseteq> insert (k, v) (set m)"
  by (induction k v m rule: btree_insert.induct) auto

lemma sorted_insert: "sorted_wrt (<) (map fst m) \<Longrightarrow> sorted_wrt (<) (map fst (btree_insert k v m))"
proof (induction k v m rule: btree_insert.induct)
  case (2 k v k' v' m)
  then show ?case using keys_insert [of k v m] by (auto simp: not_less)
qed simp

lemma sorted_filter: "sorted_wrt (<) (map fst m) \<Longrightarrow> sorted_wrt (<) (map fst (filter P m))"
  by (induction m) auto

lemma strict_sorted_last:
  fixes m :: "'v btree_map"
  assumes "sorted_wrt (<) (map fst m)" "m \<noteq> []" "e \<in> set m"
  shows "fst e \<le> fst (last m)"
  using assms
proof (induction m)
  case (Cons a m)
  show ?case
  proof (cases "m = []")
    case False
    then have "fst a < fst (last m)" using Cons.prems(1) by simp
    with Cons False show ?thesis by (auto intro: less_imp_le)
  qed (use Cons in auto)
qed simp

lemma last_upto_None: "btree_last_upto k m = None \<longleftrightarrow> (\<forall>e\<in>set m. k < fst e)"
  by (cases "filter (\<lambda>(k', _). k' \<le> k) m")
    (auto simp: btree_last_upto_def filter_empty_conv not_le filter_eq_Cons_iff)

lemma last_upto_Some:
  assumes "sorted_wrt (<) (map fst m)" "btree_last_upto k m = Some (s, h)"
  shows "(s, h) \<in> set m" "s \<le> k" "\<And>e. e \<in> set m \<Longrightarrow> fst e \<le> k \<Longrightarrow> fst e \<le> s"
proof -
  let ?m = "filter (\<lambda>(k', _). k' \<le> k) m"
  have m: "?m \<noteq> []" "last ?m = (s, h)"
    using assms(2) by (auto simp: btree_last_upto_def split: list.splits)
  then have "(s, h) \<in> set ?m" by (metis last_in_set)
  then show "(s, h) \<in> set m" "s \<le> k" by auto
  have "sorted_wrt (<) (map fst ?m)"
    using assms(1) by (rule sorted_filter)
  from strict_sorted_last [OF this m(1)] m(2)
  show "fst e \<le> s" if "e \<in> set m" "fst e \<le> k" for e
    using that by (fastforce simp: case_prod_beta)
qed

lemma absorb_mono: "0 \<notin> C \<Longrightarrow> f \<le> fst (absorb f C)"
  using absorb_spec [of C f] by (cases "absorb f C") auto

lemma advance_mono: "0 \<notin> cs_completed st \<Longrightarrow> cs_frontier st \<le> cs_frontier (snd (advance s st))"
proof -
  assume z: "0 \<notin> cs_completed st"
  have "cs_frontier st \<le> fst (absorb (cs_frontier st) (insert s (cs_completed st)))"
    if "cs_frontier st < s"
    using z that by (intro absorb_mono) auto
  then show ?thesis
    by (auto simp: advance_def fill_gap_def Let_def case_prod_beta split: option.splits)
qed

lemma advance_blocks [simp]:
  "cs_blocks (snd (advance s st)) = cs_blocks st" "cs_fence (snd (advance s st)) = cs_fence st"
  by (auto simp: advance_def fill_gap_def Let_def split: option.splits prod.splits)

text \<open>
  \<open>A\<close> are the blocks applied so far. The fence is one of them, at or below the frontier; every
  applied block is at or below the fence or waits; what waits at or below the frontier is not
  newer than the fence.
\<close>

definition fence_inv :: "(u64 \<times> string) set \<Rightarrow> checkpoint_state \<Rightarrow> bool" where
  "fence_inv A st \<longleftrightarrow>
     sorted_wrt (<) (map fst (cs_blocks st)) \<and> set (cs_blocks st) \<subseteq> A \<and> 0 \<notin> cs_completed st
     \<and> (\<forall>F. cs_fence st = Some F \<longrightarrow> (cf_slot F, cf_blockhash F) \<in> A \<and> cf_slot F \<le> cs_frontier st
          \<and> (cf_slot F \<in> fst ` set (cs_blocks st) \<or> (\<forall>k\<in>fst ` set (cs_blocks st). cf_slot F < k)))
     \<and> (\<forall>(s, h)\<in>A. s \<in> fst ` set (cs_blocks st) \<or> (\<exists>F. cs_fence st = Some F \<and> s \<le> cf_slot F))
     \<and> (\<forall>k\<in>fst ` set (cs_blocks st). k \<le> cs_frontier st \<longrightarrow>
          (\<exists>F. cs_fence st = Some F \<and> k \<le> cf_slot F))"

lemma apply_block_split:
  "snd (apply_block s h st) = move_fence (snd (advance s (offer_block s h st)))"
  by (simp add: apply_block_def case_prod_beta)

definition new_blocks :: "u64 \<Rightarrow> string option \<Rightarrow> (u64 \<times> string) set" where
  "new_blocks s h = (case h of Some x \<Rightarrow> {(s, x)} | None \<Rightarrow> {})"

text \<open>The invariant without its last clause, which \<open>move_fence\<close> restores.\<close>

definition fence_pre :: "(u64 \<times> string) set \<Rightarrow> checkpoint_state \<Rightarrow> bool" where
  "fence_pre A st \<longleftrightarrow>
     sorted_wrt (<) (map fst (cs_blocks st)) \<and> set (cs_blocks st) \<subseteq> A \<and> 0 \<notin> cs_completed st
     \<and> (\<forall>F. cs_fence st = Some F \<longrightarrow> (cf_slot F, cf_blockhash F) \<in> A \<and> cf_slot F \<le> cs_frontier st
          \<and> (cf_slot F \<in> fst ` set (cs_blocks st) \<or> (\<forall>k\<in>fst ` set (cs_blocks st). cf_slot F < k)))
     \<and> (\<forall>(s, h)\<in>A. s \<in> fst ` set (cs_blocks st) \<or> (\<exists>F. cs_fence st = Some F \<and> s \<le> cf_slot F))"

lemma fence_inv_pre: "fence_inv A st \<Longrightarrow> fence_pre A st"
  by (simp add: fence_inv_def fence_pre_def)

lemma fence_pre_offer:
  assumes "fence_pre A st"
  shows "fence_pre (new_blocks s h \<union> A) (offer_block s h st)"
proof (cases h)
  case None
  then show ?thesis using assms by (simp add: offer_block_def new_blocks_def)
next
  case (Some x)
  show ?thesis
  proof (cases "case cs_fence st of None \<Rightarrow> True | Some F \<Rightarrow> s > cf_slot F")
    case True
    then show ?thesis
      using assms set_insert [of s x "cs_blocks st"] sorted_insert [of "cs_blocks st" s x]
      by (auto simp: fence_pre_def offer_block_def new_blocks_def Some keys_insert split: option.splits)
  next
    case False
    then show ?thesis
      using assms by (auto simp: fence_pre_def offer_block_def new_blocks_def Some split: option.splits)
  qed
qed

lemma fence_pre_advance: "fence_pre A st \<Longrightarrow> fence_pre A (snd (advance s st))"
  using advance_mono [of st s] advance_completed_zero [of st s]
  by (auto simp: fence_pre_def intro: order_trans)

lemma fence_preD:
  assumes "fence_pre A st"
  shows "sorted_wrt (<) (map fst (cs_blocks st))" "set (cs_blocks st) \<subseteq> A" "0 \<notin> cs_completed st"
    "\<And>F. cs_fence st = Some F \<Longrightarrow> (cf_slot F, cf_blockhash F) \<in> A \<and> cf_slot F \<le> cs_frontier st
      \<and> (cf_slot F \<in> fst ` set (cs_blocks st) \<or> (\<forall>k\<in>fst ` set (cs_blocks st). cf_slot F < k))"
    "\<And>s h. (s, h) \<in> A \<Longrightarrow>
      s \<in> fst ` set (cs_blocks st) \<or> (\<exists>F. cs_fence st = Some F \<and> s \<le> cf_slot F)"
  using assms unfolding fence_pre_def by (elim conjE; simp add: case_prod_beta split_paired_Ball_Sigma; fastforce)+

lemma fence_pre_move:
  assumes pre: "fence_pre A st"
  shows "fence_inv A (move_fence st)"
proof (cases "btree_last_upto (cs_frontier st) (cs_blocks st)")
  case None
  then have "\<not> k \<le> cs_frontier st" if "k \<in> fst ` set (cs_blocks st)" for k
    using that by (auto simp: last_upto_None not_le)
  then show ?thesis
    using pre None by (auto simp: fence_inv_def fence_pre_def move_fence_def)
next
  case (Some e)
  obtain s h where e: "e = (s, h)" by fastforce
  let ?f = "cs_frontier st" and ?m = "cs_blocks st"
  let ?m' = "btree_split_off (?f + 1) ?m"
  have st': "move_fence st = st\<lparr>cs_fence := Some \<lparr>cf_slot = s, cf_blockhash = h\<rparr>, cs_blocks := ?m'\<rparr>"
    by (simp add: move_fence_def Some e)
  note l = last_upto_Some [OF _ Some [unfolded e]]
  have m: "sorted_wrt (<) (map fst ?m)" using pre by (simp add: fence_pre_def)
  have top: "k \<le> s" if "k \<in> fst ` set ?m" "k \<le> ?f" for k using l(3) [OF m] that by auto
  have keys: "fst ` set ?m' = {k \<in> fst ` set ?m. ?f + 1 \<le> k}"
    by (auto simp: btree_split_off_def image_iff)
  have above: "?f + 1 \<le> k" if "?f < k" for k
  proof -
    have "?f \<noteq> - 1" using that by (metis not_less word_order.extremum)
    then show ?thesis using above_next [of ?f k] that by auto
  qed
  have s_key: "s \<in> fst ` set ?m" using l(1) [OF m] by (metis fst_conv image_eqI)
  have sep: "s \<in> fst ` set ?m' \<or> (\<forall>k\<in>fst ` set ?m'. s < k)"
  proof (cases "?f = - 1")
    case True
    then show ?thesis using s_key unfolding keys by simp
  next
    case False
    have "s < k" if "?f + 1 \<le> k" for k
      using l(2) [OF m] next_greater [OF False] that by order
    then show ?thesis unfolding keys by blast
  qed
  have cover: "a \<in> fst ` set ?m' \<or> a \<le> s" if A: "(a, x) \<in> A" for a x
  proof -
    consider "a \<in> fst ` set ?m" | F where "cs_fence st = Some F" "a \<le> cf_slot F"
      using fence_preD(5) [OF pre A] by auto
    then show ?thesis
    proof cases
      case 1
      then show ?thesis using top above by (cases "a \<le> ?f") (auto simp: keys not_le)
    next
      case 2
      have "cf_slot F \<le> s"
        using fence_preD(4) [OF pre 2(1)] top [of "cf_slot F"] s_key by (auto intro: less_imp_le)
      with 2 show ?thesis by auto
    qed
  qed
  have "sorted_wrt (<) (map fst ?m')"
    using m unfolding btree_split_off_def by (rule sorted_filter)
  moreover have "set ?m' \<subseteq> A" "(s, h) \<in> A"
    using pre l(1) [OF m] by (auto simp: fence_pre_def btree_split_off_def)
  ultimately show ?thesis
    using pre sep cover l(2) [OF m] top keys
    by (auto simp: fence_inv_def st') (auto simp: fence_pre_def)
qed

lemma fence_inv_updates:
  "fence_inv A st \<Longrightarrow> fence_inv ({(s, h). (s, Some h) \<in> set us} \<union> A) (apply_updates us st)"
proof (induction us arbitrary: A st)
  case Nil
  then show ?case by (simp add: apply_updates_def)
next
  case (Cons u us)
  obtain s h where u: "u = (s, h)" by fastforce
  have "fence_inv (new_blocks s h \<union> A) (snd (apply_block s h st))"
    unfolding apply_block_split
    by (intro fence_pre_move fence_pre_advance fence_pre_offer fence_inv_pre Cons.prems)
  moreover have "{(s, h). (s, Some h) \<in> set us} \<union> (new_blocks s h \<union> A)
      = {(s, h). (s, Some h) \<in> set (u # us)} \<union> A"
    by (auto simp: u new_blocks_def split: option.splits)
  ultimately show ?case using Cons.IH by (fastforce simp: apply_updates_def u)
qed

lemma fence_newest:
  assumes inv: "fence_inv A st" and F: "cs_fence st = Some F"
  shows "(cf_slot F, cf_blockhash F) \<in> A" "cf_slot F \<le> cs_frontier st"
    "\<And>s h. (s, h) \<in> A \<Longrightarrow> s \<le> cs_frontier st \<Longrightarrow> s \<le> cf_slot F"
proof -
  show "(cf_slot F, cf_blockhash F) \<in> A" "cf_slot F \<le> cs_frontier st"
    using inv F by (auto simp: fence_inv_def)
  have last: "k \<le> cf_slot F" if "k \<in> fst ` set (cs_blocks st)" "k \<le> cs_frontier st" for k
    using inv F that by (auto simp: fence_inv_def)
  show "s \<le> cf_slot F" if "(s, h) \<in> A" "s \<le> cs_frontier st" for s h
    using fence_preD(5) [OF fence_inv_pre [OF inv] that(1)] F last [OF _ that(2)] by auto
qed

definition truthful :: "chain \<Rightarrow> (u64 \<times> string option) list \<Rightarrow> bool" where
  "truthful ch us \<longleftrightarrow> (\<forall>(s, h)\<in>set us. h = map_option fst (ch s))"

lemma apply_updates_gap:
  "gap_inv b t S L (cs_frontier st) (cs_completed st) \<Longrightarrow> cs_gate st = Some t \<Longrightarrow>
   gap_inv b t (fst ` set us \<union> S) (fst ` set us \<union> L) (cs_frontier (apply_updates us st))
     (cs_completed (apply_updates us st))"
proof (induction us arbitrary: S L st)
  case Nil
  then show ?case by (simp add: apply_updates_def)
next
  case (Cons u us)
  obtain s h where u: "u = (s, h)" by fastforce
  let ?st = "snd (apply_block s h st)"
  have "gap_inv b t (insert s S) (insert s L) (cs_frontier ?st) (cs_completed ?st)"
    using gap_inv_step [OF Cons.prems(1)] advance_core(1) [OF Cons.prems(2)]
    by (metis apply_block_frontier(1,2))
  moreover have "cs_gate ?st = Some t" using advance_core(2) [OF Cons.prems(2)] by simp
  ultimately show ?case using Cons.IH by (fastforce simp: apply_updates_def u)
qed

text \<open>
  The fence the indexer records is intact on the chain it indexed. Gated above \<open>b\<close> and given
  updates that tell the truth about which slots of the chain hold a block, in any order, the fence
  is a block of the chain with its hash, and there is no block between it and the checkpoint. The
  boot check therefore never takes the channel that was indexed for a restored one.
\<close>

theorem recorded_fence_is_intact:
  assumes us: "truthful ch us" "\<forall>s\<in>fst ` set us. b < s"
    and st: "st = apply_updates us (CheckpointState_gated b t)" "cs_frontier st \<le> t"
    and F: "cs_fence st = Some F" "cf_slot F \<noteq> - 1"
  shows "fence_intact ch F (cs_frontier st)
    \<and> (\<forall>polls budget m. (\<forall>(rpc, elapsed)\<in>set polls. answers ch rpc) \<and> chain_linked ch \<longrightarrow>
        verify_channel_fence (Some \<lparr>fr_fence = F, fr_checkpoint = cs_frontier st\<rparr>) budget polls
          \<noteq> Some (Mismatch m))"
proof -
  have "fence_inv {} (CheckpointState_gated b t)"
    by (simp add: fence_inv_def CheckpointState_gated_def)
  from fence_inv_updates [OF this, of us] have inv: "fence_inv {(s, h). (s, Some h) \<in> set us} st"
    by (simp add: st)
  have mem: "(cf_slot F, Some (cf_blockhash F)) \<in> set us" "cf_slot F \<le> cs_frontier st"
    using fence_newest(1,2) [OF inv F(1)] by auto
  then have b: "b < cf_slot F" and hash: "Some (cf_blockhash F) = map_option fst (ch (cf_slot F))"
    using us by (auto simp: truthful_def)
  have gap: "gap_inv b t (fst ` set us) (fst ` set us) (cs_frontier st) (cs_completed st)"
    using apply_updates_gap [of b t "{}" "{}" "CheckpointState_gated b t" us] gap_inv_start [of "{}" "{}"]
    by (simp add: st(1) CheckpointState_gated_def)
  have "ch k = None" if k: "cf_slot F < k" "k \<le> cs_frontier st" for k
  proof (rule ccontr)
    assume "ch k \<noteq> None"
    then obtain h q where ch: "ch k = Some (h, q)" by fastforce
    have "b < k" "k \<le> t" using b k st(2) by order+
    then have "k \<in> fst ` set us" using gap k(2) by (simp add: gap_inv_def)
    then have "(k, Some h) \<in> set us" using us(1) ch by (fastforce simp: truthful_def)
    then have "k \<le> cf_slot F" using fence_newest(3) [OF inv F(1)] k(2) by blast
    with k(1) show False by simp
  qed
  moreover have "\<exists>parent. ch (cf_slot F) = Some (cf_blockhash F, parent)"
    using hash by (cases "ch (cf_slot F)") auto
  ultimately have intact: "fence_intact ch F (cs_frontier st)"
    by (auto simp: fence_intact_def)
  have "verify_loop F (cs_frontier st) budget polls \<noteq> Some (Mismatch m)"
    if "\<forall>(rpc, elapsed)\<in>set polls. answers ch rpc" "chain_linked ch" for polls budget m
    using that(1)
  proof (induction polls)
    case (Cons p polls)
    then show ?case
      using probe_no_false_alarm [OF _ that(2) intact F(2)]
      by (auto split: probe_result.splits prod.splits)
  qed simp
  with intact show ?thesis by (auto simp: verify_channel_fence_def)
qed

section \<open>A chain\<close>

text \<open>A chain with blocks at 101 and 103, indexed out of order, and a node that serves it.\<close>

definition demo_chain :: chain where
  "demo_chain = [101 \<mapsto> (''a'', 100), 103 \<mapsto> (''b'', 101)]"

definition demo_updates :: "(u64 \<times> string option) list" where
  "demo_updates = [(102, None), (101, Some ''a'')]"

definition demo_node :: channel_rpc where
  "demo_node = \<lparr>rpc_get_slot = Some 103,
     rpc_get_block_summary = (\<lambda>s. Some (demo_chain s)),
     rpc_get_blocks_with_limit = (\<lambda>s n. if s = 102 then Some [103] else None),
     rpc_get_first_available_block = Some 0\<rparr>"

definition demo_record :: fence_record where
  "demo_record = \<lparr>fr_fence = \<lparr>cf_slot = 101, cf_blockhash = ''a''\<rparr>, fr_checkpoint = 102\<rparr>"

lemma demo_node_answers: "answers demo_chain demo_node"
  by (auto simp: answers_def demo_node_def demo_chain_def split: if_splits)

lemma demo_chain_linked: "chain_linked demo_chain"
  by (auto simp: chain_linked_def demo_chain_def split: if_splits)

theorem fence_verdict_is_right_witness:
  "verify_channel_fence (Some demo_record) 10 [(demo_node, 0)] = Some FenceOk
    \<and> fence_intact demo_chain (fr_fence demo_record) (fr_checkpoint demo_record)"
proof -
  have v: "verify_channel_fence (Some demo_record) 10 [(demo_node, 0)] = Some FenceOk"
    by (simp add: verify_channel_fence_def demo_record_def probe_def probe_gap_def demo_node_def
        demo_chain_def)
  have "cf_slot (fr_fence demo_record) \<noteq> - 1" by (simp add: demo_record_def)
  from fence_verdict_is_right [OF _ demo_chain_linked this v] demo_node_answers v show ?thesis by simp
qed

theorem recorded_fence_is_intact_witness:
  "cs_fence (apply_updates demo_updates (CheckpointState_gated 100 110))
      = Some \<lparr>cf_slot = 101, cf_blockhash = ''a''\<rparr>
    \<and> fence_intact demo_chain \<lparr>cf_slot = 101, cf_blockhash = ''a''\<rparr>
        (cs_frontier (apply_updates demo_updates (CheckpointState_gated 100 110)))"
proof -
  let ?st = "apply_updates demo_updates (CheckpointState_gated 100 110)"
  have st: "cs_fence ?st = Some \<lparr>cf_slot = 101, cf_blockhash = ''a''\<rparr>" "cs_frontier ?st \<le> 110"
    by code_simp+
  have t: "truthful demo_chain demo_updates" "\<forall>s\<in>fst ` set demo_updates. 100 < s"
    by (simp_all add: truthful_def demo_updates_def demo_chain_def)
  show ?thesis
    using recorded_fence_is_intact [OF t refl st(2) st(1)] st(1) by simp
qed

end
