(* ===== verification/Ledger_Db.thy ===== *)
theory Ledger_Db
  imports Checkpoint
begin

text \<open>
  The database that indexer and operators share: the row types of
  \<open>indexer/src/storage/common/models.rs\<close> and the writes of
  \<open>indexer/src/storage/postgres/db.rs\<close>. Each method is one function on the record of tables; it
  returns what the method returns, or an error, and the tables it leaves. A method is one database
  transaction, so a run of the system is a sequence of such calls.

  A table is the list of its rows in insertion order. A column of type \<open>BIGINT\<close> or \<open>INTEGER\<close> is an
  \<open>int\<close>, an amount a \<open>u64\<close> (the \<open>NUMERIC(20,0)\<close> columns hold exactly that range), a time the number
  of microseconds since an epoch. \<open>NOW()\<close>, which is constant within a transaction, is the argument
  \<open>now\<close>. The trigger that stamps \<open>updated_at\<close> on every update and the unique indexes and checks of
  \<open>init_schema\<close> are part of \<open>sql_update\<close> and \<open>sql_insert\<close>: a statement that breaks one is refused.
\<close>

section \<open>Rows (models.rs)\<close>

type_synonym timestamp = nat

datatype tx_type = DepositTx | WithdrawalTx

datatype tx_status =
    Pending
  | Processing
  | Parked
  | Completed
  | Failed
  | FailedReminted
  | ManualReview
  | PendingRemint

record db_transaction =
  t_id :: int
  t_signature :: string
  t_trace_id :: string
  t_slot :: int
  t_initiator :: string
  t_recipient :: string
  t_mint :: string
  t_amount :: u64
  t_memo :: "string option"
  t_type :: tx_type
  t_withdrawal_nonce :: "int option"
  t_status :: tx_status
  t_created_at :: timestamp
  t_updated_at :: timestamp
  t_processed_at :: "timestamp option"
  t_counterpart_signature :: "string option"
  t_remint_signatures :: "string list option"
  t_remint_last_valid_block_heights :: "int list option"
  t_pending_remint_deadline_at :: "timestamp option"
  t_finality_check_attempts :: int
  t_recovery_requeue_attempts :: int
  t_instruction_index :: int
  t_inner_index :: "int option"
  t_landed_remint_signature :: "string option"
  t_release_refused_on_chain :: bool
  t_release_signatures :: "string list option"

record stored_sig =
  ss_transaction_id :: int
  ss_signature :: string
  ss_last_valid_block_height :: int
  ss_blockhash_slot :: "int option"
  ss_superseded :: bool

record db_mint =
  mt_mint_address :: string
  mt_decimals :: int
  mt_token_program :: string
  mt_status :: string
  mt_withdrawals_blocked :: bool
  mt_withdraw_fee :: u64
  mt_min_withdraw_amount :: u64
  mt_allow_mint_slot :: int

record db_mint_status =
  ms_mint_address :: string
  ms_status :: string
  ms_withdrawals_blocked :: bool
  ms_effective_slot :: int
  ms_transaction_index :: int
  ms_instruction_index :: int
  ms_inner_index :: "int option"
  ms_signature :: string

record db_observed_release =
  or_withdrawal_nonce :: int
  or_signature :: string
  or_slot :: int
  or_amount :: "u64 option"

record db_consumed_mint =
  cm_source_event_id :: string
  cm_signature :: string
  cm_kind :: string
  cm_mint :: string
  cm_recipient_ata :: string
  cm_token_program :: string
  cm_amount :: u64

record halt_info =
  hi_halted :: bool
  hi_reason :: string
  hi_halted_at :: timestamp
  hi_insolvency :: bool

record resync_marker =
  rm_program_type :: string
  rm_earliest_slot :: "int option"
  rm_latest_slot :: "int option"

record ledger_db =
  db_transactions :: "db_transaction list"
  db_next_id :: int
  db_withdrawal_nonce_seq :: int
  db_indexer_state :: checkpoint_store
  db_mints :: "db_mint list"
  db_mint_status_history :: "db_mint_status list"
  db_pending_release_signatures :: "stored_sig list"
  db_pending_remint_signatures :: "stored_sig list"
  db_observed_releases :: "db_observed_release list"
  db_consumed_channel_mints :: "db_consumed_mint list"
  db_reconciliation_halt :: "halt_info option"
  db_resync_state :: "resync_marker option"

datatype db_error = ConstraintViolation | RowNotFound | ResyncOfOtherProgram | HaltAlreadySet

type_synonym 'a db_op = "ledger_db \<Rightarrow> (db_error + 'a) \<times> ledger_db"

text \<open>
  The builder of new rows. \<open>build\<close> takes the clock and a fresh identifier from its caller here; a
  required part that was never given is the panic of \<open>expect\<close>.
\<close>

record db_transaction_builder =
  tb_signature :: string
  tb_slot :: int
  tb_mint :: string
  tb_amount :: u64
  tb_initiator :: "string option"
  tb_recipient :: "string option"
  tb_memo :: "string option"
  tb_transaction_type :: "tx_type option"
  tb_trace_id :: "string option"
  tb_instruction_index :: int
  tb_inner_index :: "int option"

definition DbTransactionBuilder_new :: "string \<Rightarrow> u64 \<Rightarrow> string \<Rightarrow> u64 \<Rightarrow> db_transaction_builder" where
  "DbTransactionBuilder_new signature slot mint amount =
     \<lparr>tb_signature = signature, tb_slot = sint slot, tb_mint = mint, tb_amount = amount,
      tb_initiator = None, tb_recipient = None, tb_memo = None, tb_transaction_type = None,
      tb_trace_id = None, tb_instruction_index = 0, tb_inner_index = None\<rparr>"

definition DbTransactionBuilder_build ::
  "timestamp \<Rightarrow> string \<Rightarrow> db_transaction_builder \<Rightarrow> db_transaction option" where
  "DbTransactionBuilder_build now uuid b =
     (case (tb_initiator b, tb_recipient b, tb_transaction_type b) of
        (Some initiator, Some recipient, Some ty) \<Rightarrow> Some
          \<lparr>t_id = 0, t_signature = tb_signature b,
           t_trace_id = (case tb_trace_id b of Some tr \<Rightarrow> tr | None \<Rightarrow> uuid), t_slot = tb_slot b,
           t_initiator = initiator, t_recipient = recipient, t_mint = tb_mint b,
           t_amount = tb_amount b, t_memo = tb_memo b, t_type = ty, t_withdrawal_nonce = None,
           t_status = Pending, t_created_at = now, t_updated_at = now, t_processed_at = None,
           t_counterpart_signature = None, t_remint_signatures = None,
           t_remint_last_valid_block_heights = None, t_pending_remint_deadline_at = None,
           t_finality_check_attempts = 0, t_recovery_requeue_attempts = 0,
           t_instruction_index = tb_instruction_index b, t_inner_index = tb_inner_index b,
           t_landed_remint_signature = None, t_release_refused_on_chain = False,
           t_release_signatures = None\<rparr>
      | _ \<Rightarrow> None)"

section \<open>Constraints, inserts and updates\<close>

definition coalesce :: "'a \<Rightarrow> 'a option \<Rightarrow> 'a" where
  "coalesce d x = (case x of Some v \<Rightarrow> v | None \<Rightarrow> d)"

definition or_else :: "'a option \<Rightarrow> 'a option \<Rightarrow> 'a option" where
  "or_else x y = (case x of Some v \<Rightarrow> Some v | None \<Rightarrow> y)"

text \<open>The conflict target \<open>(signature, instruction_index, COALESCE(inner_index, -1))\<close>.\<close>

definition tx_identity :: "db_transaction \<Rightarrow> string \<times> int \<times> int" where
  "tx_identity r = (t_signature r, t_instruction_index r, coalesce (-1) (t_inner_index r))"

definition row_constraints :: "db_transaction list \<Rightarrow> bool" where
  "row_constraints rows \<longleftrightarrow>
     distinct (map t_id rows)
     \<and> distinct (map tx_identity rows)
     \<and> distinct (map t_trace_id rows)
     \<and> distinct (List.map_filter t_counterpart_signature rows)
     \<and> distinct (List.map_filter t_withdrawal_nonce (filter (\<lambda>r. t_type r = WithdrawalTx) rows))
     \<and> list_all (\<lambda>r. (t_status r \<noteq> FailedReminted \<or> t_landed_remint_signature r \<noteq> None)
          \<and> t_recovery_requeue_attempts r < 2 ^ 31) rows"

definition sql_update ::
  "timestamp \<Rightarrow> (db_transaction \<Rightarrow> bool) \<Rightarrow> (db_transaction \<Rightarrow> db_transaction) \<Rightarrow> nat db_op" where
  "sql_update now P f db =
     (let rows = map (\<lambda>r. if P r then (f r)\<lparr>t_updated_at := now\<rparr> else r) (db_transactions db) in
      if row_constraints rows
      then (Inr (length (filter P (db_transactions db))), db\<lparr>db_transactions := rows\<rparr>)
      else (Inl ConstraintViolation, db))"

text \<open>\<open>rows_affected() == 1\<close>\<close>

definition cas ::
  "timestamp \<Rightarrow> (db_transaction \<Rightarrow> bool) \<Rightarrow> (db_transaction \<Rightarrow> db_transaction) \<Rightarrow> bool db_op" where
  "cas now P f db = (case sql_update now P f db of
     (Inl e, db') \<Rightarrow> (Inl e, db') | (Inr n, db') \<Rightarrow> (Inr (n = 1), db'))"

text \<open>
  \<open>assign_withdrawal_nonce\<close> runs before the insert, so the sequence moves even if the insert is then
  refused. The columns the statement does not bind take their defaults.
\<close>

definition assign_withdrawal_nonce :: "db_transaction \<Rightarrow> ledger_db \<Rightarrow> db_transaction \<times> ledger_db" where
  "assign_withdrawal_nonce r db =
     (if t_type r = WithdrawalTx \<and> t_withdrawal_nonce r = None
      then (r\<lparr>t_withdrawal_nonce := Some (db_withdrawal_nonce_seq db)\<rparr>,
            db\<lparr>db_withdrawal_nonce_seq := db_withdrawal_nonce_seq db + 1\<rparr>)
      else (r, db))"

definition default_columns :: "timestamp \<Rightarrow> int \<Rightarrow> db_transaction \<Rightarrow> db_transaction" where
  "default_columns now new_id r =
     r\<lparr>t_id := new_id, t_withdrawal_nonce := None, t_created_at := now, t_updated_at := now,
       t_processed_at := None, t_remint_signatures := None,
       t_remint_last_valid_block_heights := None, t_pending_remint_deadline_at := None,
       t_finality_check_attempts := 0, t_recovery_requeue_attempts := 0,
       t_release_refused_on_chain := False, t_release_signatures := None\<rparr>"

definition find_identity :: "db_transaction \<Rightarrow> ledger_db \<Rightarrow> int option" where
  "find_identity r db =
     map_option t_id (find (\<lambda>q. tx_identity q = tx_identity r) (db_transactions db))"

definition sql_insert :: "timestamp \<Rightarrow> db_transaction \<Rightarrow> int db_op" where
  "sql_insert now r db =
     (let new_id = db_next_id db;
          (row, db) = assign_withdrawal_nonce (default_columns now new_id r)
            (db\<lparr>db_next_id := new_id + 1\<rparr>);
          rows = db_transactions db @ [row] in
      if row_constraints rows then (Inr new_id, db\<lparr>db_transactions := rows\<rparr>)
      else (Inl ConstraintViolation, db))"

definition insert_transaction :: "timestamp \<Rightarrow> db_transaction \<Rightarrow> int db_op" where
  "insert_transaction now r db =
     (case find_identity r db of
        Some i \<Rightarrow> (Inr i, db)
      | None \<Rightarrow> sql_insert now
          (r\<lparr>t_counterpart_signature := None, t_landed_remint_signature := None\<rparr>) db)"

text \<open>
  The batch is one transaction: an error rolls every row back, but not the sequences, which are
  never rolled back.
\<close>

fun insert_rows :: "timestamp \<Rightarrow> db_transaction list \<Rightarrow> int list db_op" where
  "insert_rows now [] db = (Inr [], db)"
| "insert_rows now (r # rs) db =
     (case (case find_identity r db of Some i \<Rightarrow> (Inr i, db) | None \<Rightarrow> sql_insert now r db) of
        (Inl e, db') \<Rightarrow> (Inl e, db')
      | (Inr i, db') \<Rightarrow>
          (case insert_rows now rs db' of
             (Inl e, db'') \<Rightarrow> (Inl e, db'')
           | (Inr ids, db'') \<Rightarrow> (Inr (i # ids), db'')))"

definition insert_transactions_batch :: "timestamp \<Rightarrow> db_transaction list \<Rightarrow> int list db_op" where
  "insert_transactions_batch now rs db =
     (case insert_rows now rs db of
        (Inr ids, db') \<Rightarrow> (Inr ids, db')
      | (Inl e, db') \<Rightarrow> (Inl e, db'\<lparr>db_transactions := db_transactions db\<rparr>))"

section \<open>Claiming work\<close>

definition committed_slot :: "program_type \<Rightarrow> ledger_db \<Rightarrow> int option" where
  "committed_slot p db = map_option ir_last_committed_slot (db_indexer_state db (program_key p))"

text \<open>Rows another transaction holds locked at this moment are skipped.\<close>

definition get_and_lock_pending_transactions ::
  "(int \<Rightarrow> bool) \<Rightarrow> timestamp \<Rightarrow> tx_type \<Rightarrow> nat \<Rightarrow> db_transaction list db_op" where
  "get_and_lock_pending_transactions locked now transaction_type limit db =
     (let covered = (\<lambda>r. case transaction_type of
            DepositTx \<Rightarrow> (case committed_slot Escrow db of Some s \<Rightarrow> t_slot r \<le> s | None \<Rightarrow> False)
          | WithdrawalTx \<Rightarrow> True);
          claimed = take limit (sort_key t_created_at (filter (\<lambda>r. t_status r = Pending
            \<and> t_type r = transaction_type \<and> covered r \<and> \<not> locked (t_id r)) (db_transactions db)));
          ids = map t_id claimed in
      case sql_update now (\<lambda>r. t_id r \<in> set ids) (\<lambda>r. r\<lparr>t_status := Processing\<rparr>) db of
        (Inl e, db') \<Rightarrow> (Inl e, db')
      | (Inr _, db') \<Rightarrow>
          (Inr (map (\<lambda>r. r\<lparr>t_status := Processing, t_updated_at := now\<rparr>) claimed), db'))"

definition is_halted :: "ledger_db \<Rightarrow> bool" where
  "is_halted db = (case db_reconciliation_halt db of Some h \<Rightarrow> hi_halted h | None \<Rightarrow> False)"

definition has_release_sig :: "int \<Rightarrow> ledger_db \<Rightarrow> bool" where
  "has_release_sig i db = list_ex (\<lambda>s. ss_transaction_id s = i) (db_pending_release_signatures db)"

definition has_remint_sig :: "int \<Rightarrow> ledger_db \<Rightarrow> bool" where
  "has_remint_sig i db = list_ex (\<lambda>s. ss_transaction_id s = i) (db_pending_remint_signatures db)"

text \<open>\<open>INSERT \<dots> ON CONFLICT (signature) DO NOTHING\<close>, with the reference to an existing transaction.\<close>

definition insert_release_signature ::
  "int \<Rightarrow> string \<Rightarrow> int \<Rightarrow> int option \<Rightarrow> unit db_op" where
  "insert_release_signature transaction_id signature height blockhash_slot db =
     (if list_ex (\<lambda>s. ss_signature s = signature) (db_pending_release_signatures db)
      then (Inr (), db)
      else if list_ex (\<lambda>r. t_id r = transaction_id) (db_transactions db)
      then (Inr (), db\<lparr>db_pending_release_signatures := db_pending_release_signatures db
        @ [\<lparr>ss_transaction_id = transaction_id, ss_signature = signature,
            ss_last_valid_block_height = height, ss_blockhash_slot = blockhash_slot,
            ss_superseded = False\<rparr>]\<rparr>)
      else (Inl ConstraintViolation, db))"

definition claim_and_persist_signature ::
  "timestamp \<Rightarrow> int \<Rightarrow> timestamp \<Rightarrow> string \<Rightarrow> int \<Rightarrow> int option \<Rightarrow> timestamp option db_op" where
  "claim_and_persist_signature now transaction_id expected_updated_at signature height blockhash_slot
     db =
     (let halted = is_halted db in
      case sql_update now (\<lambda>r. t_id r = transaction_id \<and> t_status r = Processing
             \<and> t_updated_at r = expected_updated_at \<and> \<not> halted
             \<and> t_landed_remint_signature r = None) (\<lambda>r. r) db of
        (Inl e, _) \<Rightarrow> (Inl e, db)
      | (Inr n, db') \<Rightarrow>
          if n = 0 then (Inr None, db)
          else (case insert_release_signature transaction_id signature height blockhash_slot db' of
                  (Inl e, _) \<Rightarrow> (Inl e, db)
                | (Inr _, db'') \<Rightarrow> (Inr (Some now), db'')))"

section \<open>Status changes\<close>

definition try_mark_reminted :: "timestamp \<Rightarrow> int \<Rightarrow> timestamp \<Rightarrow> string \<Rightarrow> bool db_op" where
  "try_mark_reminted now transaction_id expected_updated_at remint_signature =
     cas now (\<lambda>r. t_id r = transaction_id \<and> t_status r \<in> {Processing, PendingRemint}
          \<and> t_updated_at r = expected_updated_at)
       (\<lambda>r. r\<lparr>t_status := FailedReminted, t_landed_remint_signature := Some remint_signature,
             t_processed_at := Some now\<rparr>)"

definition update_transaction_status ::
  "timestamp \<Rightarrow> int \<Rightarrow> tx_status \<Rightarrow> string option \<Rightarrow> timestamp \<Rightarrow> string list option \<Rightarrow> bool db_op" where
  "update_transaction_status now transaction_id status counterpart_signature processed_at
     release_signatures =
     cas now (\<lambda>r. t_id r = transaction_id \<and> t_status r \<in> {Processing, PendingRemint}
          \<and> status \<noteq> FailedReminted)
       (\<lambda>r. r\<lparr>t_status := status, t_counterpart_signature := counterpart_signature,
             t_processed_at := Some processed_at,
             t_release_signatures := or_else release_signatures (t_release_signatures r)\<rparr>)"

definition try_requeue_processing :: "timestamp \<Rightarrow> int \<Rightarrow> timestamp \<Rightarrow> bool db_op" where
  "try_requeue_processing now transaction_id expected_updated_at =
     cas now (\<lambda>r. t_id r = transaction_id \<and> t_status r = Processing
          \<and> t_updated_at r = expected_updated_at)
       (\<lambda>r. r\<lparr>t_status := Pending,
             t_recovery_requeue_attempts := t_recovery_requeue_attempts r + 1\<rparr>)"

definition requeue_halted_claim :: "timestamp \<Rightarrow> int \<Rightarrow> timestamp \<Rightarrow> bool db_op" where
  "requeue_halted_claim now transaction_id expected_updated_at db =
     cas now (\<lambda>r. t_id r = transaction_id \<and> t_status r = Processing
          \<and> t_updated_at r = expected_updated_at \<and> is_halted db
          \<and> \<not> has_release_sig transaction_id db)
       (\<lambda>r. r\<lparr>t_status := Pending\<rparr>) db"

definition requeue_unclaimed :: "timestamp \<Rightarrow> int \<Rightarrow> timestamp \<Rightarrow> bool db_op" where
  "requeue_unclaimed now transaction_id expected_updated_at db =
     cas now (\<lambda>r. t_id r = transaction_id \<and> t_status r = Processing
          \<and> t_updated_at r = expected_updated_at \<and> \<not> has_release_sig transaction_id db)
       (\<lambda>r. r\<lparr>t_status := Pending\<rparr>) db"

datatype requeue_outcome = Requeued int | AtCap timestamp | NotProcessing

definition try_requeue_prebroadcast ::
  "timestamp \<Rightarrow> int \<Rightarrow> timestamp \<Rightarrow> int \<Rightarrow> requeue_outcome db_op" where
  "try_requeue_prebroadcast now transaction_id expected_updated_at max_attempts db =
     (let P = (\<lambda>r. t_id r = transaction_id \<and> t_status r = Processing
            \<and> t_updated_at r = expected_updated_at) in
      case sql_update now P
             (\<lambda>r. if t_recovery_requeue_attempts r < max_attempts
                  then r\<lparr>t_status := Pending,
                         t_recovery_requeue_attempts := t_recovery_requeue_attempts r + 1\<rparr>
                  else r) db of
        (Inl e, db') \<Rightarrow> (Inl e, db')
      | (Inr _, db') \<Rightarrow>
          (Inr (case find P (db_transactions db) of
             None \<Rightarrow> NotProcessing
           | Some r \<Rightarrow> if t_recovery_requeue_attempts r < max_attempts
               then Requeued (t_recovery_requeue_attempts r + 1) else AtCap now), db'))"

definition try_park_processing :: "timestamp \<Rightarrow> int \<Rightarrow> bool db_op" where
  "try_park_processing now transaction_id =
     cas now (\<lambda>r. t_id r = transaction_id \<and> t_status r \<in> {Processing, Parked})
       (\<lambda>r. r\<lparr>t_status := Parked\<rparr>)"

definition try_unpark_to_processing :: "timestamp \<Rightarrow> int \<Rightarrow> timestamp option db_op" where
  "try_unpark_to_processing now transaction_id db =
     (case cas now (\<lambda>r. t_id r = transaction_id \<and> t_status r = Parked)
             (\<lambda>r. r\<lparr>t_status := Processing\<rparr>) db of
        (Inl e, db') \<Rightarrow> (Inl e, db')
      | (Inr won, db') \<Rightarrow> (Inr (if won then Some now else None), db'))"

definition try_requeue_parked :: "timestamp \<Rightarrow> int \<Rightarrow> timestamp \<Rightarrow> bool db_op" where
  "try_requeue_parked now transaction_id expected_updated_at =
     cas now (\<lambda>r. t_id r = transaction_id \<and> t_status r = Parked
          \<and> t_updated_at r = expected_updated_at)
       (\<lambda>r. r\<lparr>t_status := Pending\<rparr>)"

definition try_complete_processing ::
  "timestamp \<Rightarrow> int \<Rightarrow> timestamp \<Rightarrow> string option \<Rightarrow> string list option \<Rightarrow> bool db_op" where
  "try_complete_processing now transaction_id expected_updated_at counterpart_signature
     release_signatures =
     cas now (\<lambda>r. t_id r = transaction_id \<and> t_status r = Processing
          \<and> t_updated_at r = expected_updated_at)
       (\<lambda>r. r\<lparr>t_status := Completed,
             t_counterpart_signature := or_else counterpart_signature (t_counterpart_signature r),
             t_release_signatures := or_else release_signatures (t_release_signatures r),
             t_processed_at := Some now\<rparr>)"

definition try_fail_processing :: "timestamp \<Rightarrow> int \<Rightarrow> timestamp \<Rightarrow> bool db_op" where
  "try_fail_processing now transaction_id expected_updated_at =
     cas now (\<lambda>r. t_id r = transaction_id \<and> t_status r = Processing
          \<and> t_updated_at r = expected_updated_at)
       (\<lambda>r. r\<lparr>t_status := Failed, t_processed_at := Some now\<rparr>)"

definition try_quarantine_processing ::
  "timestamp \<Rightarrow> int \<Rightarrow> timestamp \<Rightarrow> string list option \<Rightarrow> int list option \<Rightarrow> bool db_op" where
  "try_quarantine_processing now transaction_id expected_updated_at remint_signatures heights =
     cas now (\<lambda>r. t_id r = transaction_id \<and> t_status r = Processing
          \<and> t_updated_at r = expected_updated_at)
       (\<lambda>r. r\<lparr>t_status := ManualReview,
             t_remint_signatures := or_else remint_signatures (t_remint_signatures r),
             t_remint_last_valid_block_heights :=
               or_else heights (t_remint_last_valid_block_heights r),
             t_processed_at := Some now\<rparr>)"

definition complete_stalled_withdrawal ::
  "timestamp \<Rightarrow> int \<Rightarrow> timestamp \<Rightarrow> tx_status \<Rightarrow> string option \<Rightarrow> bool db_op" where
  "complete_stalled_withdrawal now transaction_id expected_updated_at from_status
     counterpart_signature =
     cas now (\<lambda>r. t_id r = transaction_id \<and> t_updated_at r = expected_updated_at
          \<and> t_status r = from_status \<and> t_status r \<in> {ManualReview, PendingRemint}
          \<and> t_type r = WithdrawalTx)
       (\<lambda>r. r\<lparr>t_status := Completed,
             t_counterpart_signature := or_else counterpart_signature (t_counterpart_signature r),
             t_processed_at := Some now\<rparr>)"

definition set_pending_remint ::
  "timestamp \<Rightarrow> int \<Rightarrow> string list \<Rightarrow> int list \<Rightarrow> timestamp \<Rightarrow> bool \<Rightarrow> unit db_op" where
  "set_pending_remint now transaction_id remint_signatures heights deadline_at
     release_refused_on_chain db =
     (case sql_update now (\<lambda>r. t_id r = transaction_id \<and> (t_status r = Processing
             \<or> t_status r = PendingRemint \<and> t_remint_signatures r = Some remint_signatures))
           (\<lambda>r. r\<lparr>t_status := PendingRemint, t_remint_signatures := Some remint_signatures,
                 t_remint_last_valid_block_heights := Some heights,
                 t_pending_remint_deadline_at := Some deadline_at,
                 t_release_refused_on_chain := release_refused_on_chain\<rparr>) db of
        (Inl e, db') \<Rightarrow> (Inl e, db')
      | (Inr n, db') \<Rightarrow> (if n = 0 then Inl RowNotFound else Inr (), db'))"

definition bump_pending_remint_finality_attempt ::
  "timestamp \<Rightarrow> int \<Rightarrow> int \<Rightarrow> timestamp \<Rightarrow> unit db_op" where
  "bump_pending_remint_finality_attempt now transaction_id attempts new_deadline db =
     (case sql_update now (\<lambda>r. t_id r = transaction_id \<and> t_status r = PendingRemint)
           (\<lambda>r. r\<lparr>t_finality_check_attempts := attempts,
                 t_pending_remint_deadline_at := Some new_deadline\<rparr>) db of
        (Inl e, db') \<Rightarrow> (Inl e, db')
      | (Inr n, db') \<Rightarrow> (if n = 0 then Inl RowNotFound else Inr (), db'))"

definition record_remint_result :: "timestamp \<Rightarrow> int \<Rightarrow> string \<Rightarrow> unit db_op" where
  "record_remint_result now transaction_id remint_signature db =
     (case sql_update now (\<lambda>r. t_id r = transaction_id \<and> t_status r = PendingRemint)
           (\<lambda>r. r\<lparr>t_status := FailedReminted, t_landed_remint_signature := Some remint_signature,
                 t_processed_at := Some now\<rparr>) db of
        (Inl e, db') \<Rightarrow> (Inl e, db')
      | (Inr n, db') \<Rightarrow> (if n = 0 then Inl RowNotFound else Inr (), db'))"

text \<open>\<open>array_agg\<close> over no row is null.\<close>

definition array_agg :: "'a list \<Rightarrow> 'a list option" where
  "array_agg xs = (if xs = [] then None else Some xs)"

definition quarantine_active_withdrawals ::
  "timestamp \<Rightarrow> int option \<Rightarrow> int option \<Rightarrow> nat db_op" where
  "quarantine_active_withdrawals now exclude_id min_nonce db =
     sql_update now (\<lambda>r. t_type r = WithdrawalTx \<and> t_status r \<in> {Pending, Processing, Parked}
          \<and> (case exclude_id of Some i \<Rightarrow> t_id r \<noteq> i | None \<Rightarrow> True)
          \<and> (case min_nonce of
               Some m \<Rightarrow> (case t_withdrawal_nonce r of Some n \<Rightarrow> m \<le> n | None \<Rightarrow> False)
             | None \<Rightarrow> True))
       (\<lambda>r. let sigs = filter (\<lambda>s. ss_transaction_id s = t_id r) (db_pending_release_signatures db) in
          r\<lparr>t_status := ManualReview,
            t_remint_signatures :=
              or_else (array_agg (map ss_signature sigs)) (t_remint_signatures r),
            t_remint_last_valid_block_heights :=
              or_else (array_agg (map ss_last_valid_block_height sigs))
                (t_remint_last_valid_block_heights r)\<rparr>) db"

section \<open>Journals and claims of a refund\<close>

datatype remint_claim = Claimed | HeldElsewhere | RowMoved | ReleaseObserved

definition release_observed :: "db_transaction \<Rightarrow> ledger_db \<Rightarrow> bool" where
  "release_observed r db =
     list_ex (\<lambda>ob. t_withdrawal_nonce r = Some (or_withdrawal_nonce ob)) (db_observed_releases db)"

definition claim_remint_attempt ::
  "timestamp \<Rightarrow> int \<Rightarrow> string \<Rightarrow> int \<Rightarrow> int option \<Rightarrow> string list \<Rightarrow> remint_claim db_op" where
  "claim_remint_attempt now transaction_id signature height blockhash_slot superseded_signatures db =
     (case sql_update now (\<lambda>r. t_id r = transaction_id \<and> t_status r = PendingRemint
             \<and> t_type r = WithdrawalTx \<and> \<not> release_observed r db) (\<lambda>r. r) db of
        (Inl e, _) \<Rightarrow> (Inl e, db)
      | (Inr n, db') \<Rightarrow>
          if n = 0 then
            (Inr (if list_ex (\<lambda>r. t_id r = transaction_id \<and> t_status r = PendingRemint
                       \<and> release_observed r db) (db_transactions db)
                  then ReleaseObserved else RowMoved), db)
          else
            let sigs = map (\<lambda>s. if ss_transaction_id s = transaction_id
                    \<and> ss_signature s \<in> set superseded_signatures
                  then s\<lparr>ss_superseded := True\<rparr> else s) (db_pending_remint_signatures db) in
            if list_ex (\<lambda>s. ss_transaction_id s = transaction_id \<and> \<not> ss_superseded s) sigs
            then (Inr HeldElsewhere, db'\<lparr>db_pending_remint_signatures := sigs\<rparr>)
            else if list_ex (\<lambda>s. ss_signature s = signature) sigs
            then (Inl ConstraintViolation, db)
            else (Inr Claimed, db'\<lparr>db_pending_remint_signatures := sigs
              @ [\<lparr>ss_transaction_id = transaction_id, ss_signature = signature,
                  ss_last_valid_block_height = height, ss_blockhash_slot = blockhash_slot,
                  ss_superseded = False\<rparr>]\<rparr>))"

definition delete_release_signatures :: "int \<Rightarrow> unit db_op" where
  "delete_release_signatures transaction_id db =
     (Inr (), db\<lparr>db_pending_release_signatures :=
        filter (\<lambda>s. ss_transaction_id s \<noteq> transaction_id) (db_pending_release_signatures db)\<rparr>)"

definition delete_release_signature :: "int \<Rightarrow> string \<Rightarrow> unit db_op" where
  "delete_release_signature transaction_id signature db =
     (Inr (), db\<lparr>db_pending_release_signatures :=
        filter (\<lambda>s. \<not> (ss_transaction_id s = transaction_id \<and> ss_signature s = signature))
          (db_pending_release_signatures db)\<rparr>)"

definition delete_remint_signatures :: "int \<Rightarrow> unit db_op" where
  "delete_remint_signatures transaction_id db =
     (Inr (), db\<lparr>db_pending_remint_signatures :=
        filter (\<lambda>s. ss_transaction_id s \<noteq> transaction_id) (db_pending_remint_signatures db)\<rparr>)"

definition TERMINAL_STATUSES :: "tx_status list" where
  "TERMINAL_STATUSES = [Completed, Failed, FailedReminted]"

definition is_terminal :: "int \<Rightarrow> ledger_db \<Rightarrow> bool" where
  "is_terminal i db =
     list_ex (\<lambda>r. t_id r = i \<and> t_status r \<in> set TERMINAL_STATUSES) (db_transactions db)"

definition gc_stale_release_signatures :: "nat db_op" where
  "gc_stale_release_signatures db =
     (let stale = (\<lambda>s. is_terminal (ss_transaction_id s) db);
          sigs = db_pending_release_signatures db in
      (Inr (length (filter stale sigs)),
       db\<lparr>db_pending_release_signatures := filter (\<lambda>s. \<not> stale s) sigs\<rparr>))"

definition gc_stale_remint_signatures :: "nat db_op" where
  "gc_stale_remint_signatures db =
     (let stale = (\<lambda>s. is_terminal (ss_transaction_id s) db);
          sigs = db_pending_remint_signatures db in
      (Inr (length (filter stale sigs)),
       db\<lparr>db_pending_remint_signatures := filter (\<lambda>s. \<not> stale s) sigs\<rparr>))"

section \<open>Releases and mints seen on chain\<close>

text \<open>Each row is its own statement: after a failure the rows before it stay.\<close>

definition insert_observed_release :: "db_observed_release \<Rightarrow> ledger_db \<Rightarrow> ledger_db" where
  "insert_observed_release rel db =
     (if list_ex (\<lambda>ob. or_withdrawal_nonce ob = or_withdrawal_nonce rel) (db_observed_releases db)
      then db else db\<lparr>db_observed_releases := db_observed_releases db @ [rel]\<rparr>)"

definition insert_observed_releases_batch :: "db_observed_release list \<Rightarrow> unit db_op" where
  "insert_observed_releases_batch releases db = (Inr (), fold insert_observed_release releases db)"

definition get_observed_release :: "int \<Rightarrow> ledger_db \<Rightarrow> db_observed_release option" where
  "get_observed_release nonce db =
     find (\<lambda>ob. or_withdrawal_nonce ob = nonce) (db_observed_releases db)"

definition upsert_mint :: "db_mint \<Rightarrow> ledger_db \<Rightarrow> ledger_db" where
  "upsert_mint mint db =
     (if list_ex (\<lambda>m. mt_mint_address m = mt_mint_address mint) (db_mints db)
      then db\<lparr>db_mints := map (\<lambda>m.
        if mt_mint_address m = mt_mint_address mint
          \<and> mt_allow_mint_slot m \<le> mt_allow_mint_slot mint
        then m\<lparr>mt_decimals := mt_decimals mint, mt_token_program := mt_token_program mint,
               mt_withdraw_fee := mt_withdraw_fee mint,
               mt_min_withdraw_amount := mt_min_withdraw_amount mint,
               mt_allow_mint_slot := mt_allow_mint_slot mint\<rparr>
        else m) (db_mints db)\<rparr>
      else db\<lparr>db_mints := db_mints db @ [mint\<lparr>mt_withdrawals_blocked := False\<rparr>]\<rparr>)"

definition upsert_mints_batch :: "db_mint list \<Rightarrow> unit db_op" where
  "upsert_mints_batch mints db = (Inr (), fold upsert_mint mints db)"

definition status_identity :: "db_mint_status \<Rightarrow> string \<times> int \<times> int" where
  "status_identity s = (ms_signature s, ms_instruction_index s, coalesce (-1) (ms_inner_index s))"

definition insert_mint_status :: "db_mint_status \<Rightarrow> ledger_db \<Rightarrow> ledger_db" where
  "insert_mint_status s db =
     (if list_ex (\<lambda>h. status_identity h = status_identity s) (db_mint_status_history db)
      then db else db\<lparr>db_mint_status_history := db_mint_status_history db @ [s]\<rparr>)"

text \<open>The check on the \<open>status\<close> column makes the whole batch fail.\<close>

definition insert_mint_statuses_batch :: "db_mint_status list \<Rightarrow> unit db_op" where
  "insert_mint_statuses_batch statuses db =
     (if list_all (\<lambda>s. ms_status s \<in> {''allowed'', ''blocked''}) statuses
      then (Inr (), fold insert_mint_status statuses db) else (Inl ConstraintViolation, db))"

text \<open>Later in the block order: slot, transaction, instruction, inner instruction.\<close>

definition status_position :: "db_mint_status \<Rightarrow> int list" where
  "status_position s = [ms_effective_slot s, ms_transaction_index s, ms_instruction_index s,
     coalesce (-1) (ms_inner_index s)]"

fun lex_less :: "int list \<Rightarrow> int list \<Rightarrow> bool" where
  "lex_less (x # xs) (y # ys) \<longleftrightarrow> x < y \<or> x = y \<and> lex_less xs ys"
| "lex_less [] (y # ys) \<longleftrightarrow> True"
| "lex_less xs [] \<longleftrightarrow> False"

fun latest_status :: "db_mint_status list \<Rightarrow> db_mint_status option" where
  "latest_status [] = None"
| "latest_status (s # ss) =
     (case latest_status ss of
        None \<Rightarrow> Some s
      | Some l \<Rightarrow> if lex_less (status_position s) (status_position l) then Some l else Some s)"

definition sync_mint_status :: "string list \<Rightarrow> unit db_op" where
  "sync_mint_status mint_addresses db =
     (Inr (), db\<lparr>db_mints := map (\<lambda>m.
        if mt_mint_address m \<in> set mint_addresses
        then (case latest_status (filter (\<lambda>h. ms_mint_address h = mt_mint_address m)
                (db_mint_status_history db)) of
                Some h \<Rightarrow> m\<lparr>mt_status := ms_status h, mt_withdrawals_blocked := ms_withdrawals_blocked h\<rparr>
              | None \<Rightarrow> m)
        else m) (db_mints db)\<rparr>)"

datatype mint_status_at_slot = AllowedAtSlot | BlockedAtSlot | NeverAllowed

definition get_mint_status_at_slot :: "string \<Rightarrow> int \<Rightarrow> ledger_db \<Rightarrow> mint_status_at_slot" where
  "get_mint_status_at_slot mint_address slot db =
     (let history = filter (\<lambda>h. ms_mint_address h = mint_address) (db_mint_status_history db);
          coming_in = latest_status (filter (\<lambda>h. ms_effective_slot h < slot) history);
          statuses = (case coming_in of Some h \<Rightarrow> [ms_status h] | None \<Rightarrow> [])
            @ map ms_status (filter (\<lambda>h. ms_effective_slot h = slot) history) in
      if list_ex (\<lambda>s. s = ''allowed'') statuses then AllowedAtSlot
      else if statuses = [] then NeverAllowed else BlockedAtSlot)"

definition get_mint :: "string \<Rightarrow> ledger_db \<Rightarrow> db_mint option" where
  "get_mint mint_address db = find (\<lambda>m. mt_mint_address m = mint_address) (db_mints db)"

definition insert_consumed_mint :: "db_consumed_mint \<Rightarrow> ledger_db \<Rightarrow> ledger_db" where
  "insert_consumed_mint mint db =
     (if list_ex (\<lambda>m. cm_source_event_id m = cm_source_event_id mint) (db_consumed_channel_mints db)
      then db else db\<lparr>db_consumed_channel_mints := db_consumed_channel_mints db @ [mint]\<rparr>)"

definition insert_consumed_mints :: "db_consumed_mint list \<Rightarrow> unit db_op" where
  "insert_consumed_mints mints db = (Inr (), fold insert_consumed_mint mints db)"

section \<open>Halts and resync\<close>

definition set_reconciliation_halt :: "timestamp \<Rightarrow> string \<Rightarrow> unit db_op" where
  "set_reconciliation_halt now reason db =
     (Inr (), db\<lparr>db_reconciliation_halt := Some \<lparr>hi_halted = True, hi_reason = reason,
        hi_halted_at = now, hi_insolvency = True\<rparr>\<rparr>)"

definition set_outage_halt :: "timestamp \<Rightarrow> string \<Rightarrow> bool db_op" where
  "set_outage_halt now reason db =
     (case db_reconciliation_halt db of
        Some h \<Rightarrow> if hi_halted h \<and> hi_insolvency h then (Inr False, db)
          else (Inr True, db\<lparr>db_reconciliation_halt := Some \<lparr>hi_halted = True, hi_reason = reason,
            hi_halted_at = now, hi_insolvency = False\<rparr>\<rparr>)
      | None \<Rightarrow> (Inr True, db\<lparr>db_reconciliation_halt := Some \<lparr>hi_halted = True, hi_reason = reason,
            hi_halted_at = now, hi_insolvency = False\<rparr>\<rparr>))"

definition clear_reconciliation_halt :: "timestamp \<Rightarrow> unit db_op" where
  "clear_reconciliation_halt now db =
     (Inr (), db\<lparr>db_reconciliation_halt := map_option (\<lambda>h. h\<lparr>hi_halted := False, hi_halted_at := now\<rparr>)
        (db_reconciliation_halt db)\<rparr>)"

primrec owned_transaction_type :: "program_type \<Rightarrow> tx_type" where
  "owned_transaction_type Escrow = DepositTx"
| "owned_transaction_type Withdraw = WithdrawalTx"

definition resync_halt_reason :: "program_type \<Rightarrow> string" where
  "resync_halt_reason program =
     ''unfinished '' @ program_key program @ '' resync: rerun resync for '' @ program_key program
     @ ''; do not clear this halt by hand''"

definition opt_merge :: "('a \<Rightarrow> 'a \<Rightarrow> 'a) \<Rightarrow> 'a option \<Rightarrow> 'a option \<Rightarrow> 'a option" where
  "opt_merge f x y = (case (x, y) of (Some a, Some b) \<Rightarrow> Some (f a b) | (None, _) \<Rightarrow> y | (_, None) \<Rightarrow> x)"

fun opt_fold :: "('a \<Rightarrow> 'a \<Rightarrow> 'a) \<Rightarrow> 'a list \<Rightarrow> 'a option" where
  "opt_fold f [] = None"
| "opt_fold f (x # xs) = opt_merge f (Some x) (opt_fold f xs)"

definition own_slots :: "tx_type \<Rightarrow> ledger_db \<Rightarrow> int list" where
  "own_slots ty db = map t_slot (filter (\<lambda>r. t_type r = ty) (db_transactions db))"

definition wipe_program :: "timestamp \<Rightarrow> program_type \<Rightarrow> unit db_op" where
  "wipe_program now program db =
     (let key = program_key program;
          own = owned_transaction_type program;
          earliest = opt_fold min (own_slots own db);
          latest = opt_fold max (own_slots own db);
          reason = resync_halt_reason program in
      if (case db_resync_state db of Some m \<Rightarrow> rm_program_type m \<noteq> key | None \<Rightarrow> False)
      then (Inl ResyncOfOtherProgram, db)
      else if (case db_reconciliation_halt db of
                 Some h \<Rightarrow> hi_halted h \<and> hi_reason h \<noteq> reason | None \<Rightarrow> False)
      then (Inl HaltAlreadySet, db)
      else
        let gone = (\<lambda>i. list_ex (\<lambda>r. t_id r = i \<and> t_type r = own) (db_transactions db)) in
        (Inr (), db\<lparr>
           db_resync_state := Some (case db_resync_state db of
               None \<Rightarrow> \<lparr>rm_program_type = key, rm_earliest_slot = earliest, rm_latest_slot = latest\<rparr>
             | Some m \<Rightarrow> m\<lparr>rm_earliest_slot := opt_merge min (rm_earliest_slot m) earliest,
                          rm_latest_slot := opt_merge max (rm_latest_slot m) latest\<rparr>),
           db_reconciliation_halt := Some \<lparr>hi_halted = True, hi_reason = reason, hi_halted_at = now,
             hi_insolvency = True\<rparr>,
           db_transactions := filter (\<lambda>r. t_type r \<noteq> own) (db_transactions db),
           db_pending_release_signatures :=
             filter (\<lambda>s. \<not> gone (ss_transaction_id s)) (db_pending_release_signatures db),
           db_pending_remint_signatures :=
             filter (\<lambda>s. \<not> gone (ss_transaction_id s)) (db_pending_remint_signatures db),
           db_withdrawal_nonce_seq :=
             (if program = Withdraw then 0 else db_withdrawal_nonce_seq db),
           db_indexer_state := (db_indexer_state db)(key := None)\<rparr>))"

definition clear_unfinished_resync :: "timestamp \<Rightarrow> program_type \<Rightarrow> unit db_op" where
  "clear_unfinished_resync now program db =
     (Inr (), db\<lparr>db_resync_state := None,
        db_reconciliation_halt := map_option (\<lambda>h.
          if hi_halted h \<and> hi_reason h = resync_halt_reason program
          then h\<lparr>hi_halted := False, hi_halted_at := now\<rparr> else h) (db_reconciliation_halt db)\<rparr>)"

end
