(* ===== verification/Ledger_Queries.thy ===== *)
theory Ledger_Queries
  imports Ledger_Db
begin

text \<open>
  The reads of \<open>indexer/src/storage/postgres/db.rs\<close>: work lists, journals, the per-mint ledgers of
  reconciliation, the orphan check and what a resync looks at. \<open>ORDER BY\<close> is a stable sort, so ties
  keep the table order; a \<open>LIMIT\<close> is \<open>take\<close>. An aggregate over amounts is an unbounded integer, as
  \<open>NUMERIC\<close> is.
\<close>

section \<open>Work lists\<close>

definition micros :: "nat \<Rightarrow> nat" where "micros secs = secs * 1000000"

definition get_pending_withdrawals :: "tx_type \<Rightarrow> nat \<Rightarrow> ledger_db \<Rightarrow> db_transaction list" where
  "get_pending_withdrawals transaction_type limit db =
     take limit (sort_key t_id (filter (\<lambda>r. t_status r = Pending \<and> t_type r = transaction_type)
       (db_transactions db)))"

definition count_pending_transactions :: "tx_type \<Rightarrow> ledger_db \<Rightarrow> nat" where
  "count_pending_transactions transaction_type db =
     length (filter (\<lambda>r. t_status r = Pending \<and> t_type r = transaction_type) (db_transactions db))"

definition pending_remint_after :: "int \<Rightarrow> ledger_db \<Rightarrow> db_transaction list" where
  "pending_remint_after after_id db =
     filter (\<lambda>r. t_status r = PendingRemint \<and> t_type r = WithdrawalTx \<and> after_id < t_id r)
       (db_transactions db)"

definition count_pending_remint_transactions :: "int \<Rightarrow> ledger_db \<Rightarrow> nat" where
  "count_pending_remint_transactions after_id db = length (pending_remint_after after_id db)"

definition get_pending_remint_transactions :: "int \<Rightarrow> nat \<Rightarrow> ledger_db \<Rightarrow> db_transaction list" where
  "get_pending_remint_transactions after_id limit db =
     take limit (sort_key t_id (pending_remint_after after_id db))"

definition get_withdrawal_by_nonce :: "int \<Rightarrow> ledger_db \<Rightarrow> db_transaction option" where
  "get_withdrawal_by_nonce nonce db =
     (case rev (sort_key t_id (filter (\<lambda>r. t_withdrawal_nonce r = Some nonce \<and> t_type r = WithdrawalTx)
        (db_transactions db))) of [] \<Rightarrow> None | r # _ \<Rightarrow> Some r)"

definition get_all_transactions :: "tx_type \<Rightarrow> nat \<Rightarrow> ledger_db \<Rightarrow> db_transaction list" where
  "get_all_transactions transaction_type limit db =
     take limit (rev (sort_key t_created_at
       (filter (\<lambda>r. t_type r = transaction_type) (db_transactions db))))"

definition get_stale :: "tx_status \<Rightarrow> timestamp \<Rightarrow> nat \<Rightarrow> nat \<Rightarrow> tx_type \<Rightarrow> ledger_db \<Rightarrow> db_transaction list"
  where
  "get_stale status now threshold_secs limit transaction_type db =
     take limit (sort_key t_updated_at (filter (\<lambda>r. t_status r = status
       \<and> t_updated_at r + micros threshold_secs < now \<and> t_type r = transaction_type)
       (db_transactions db)))"

definition get_stale_processing_transactions ::
  "timestamp \<Rightarrow> nat \<Rightarrow> nat \<Rightarrow> tx_type \<Rightarrow> ledger_db \<Rightarrow> db_transaction list" where
  "get_stale_processing_transactions = get_stale Processing"

definition get_stale_parked_transactions ::
  "timestamp \<Rightarrow> nat \<Rightarrow> nat \<Rightarrow> tx_type \<Rightarrow> ledger_db \<Rightarrow> db_transaction list" where
  "get_stale_parked_transactions = get_stale Parked"

text \<open>\<open>array_length\<close> of an empty array is null, so an empty list does not pass.\<close>

definition get_stalled_withdrawals_with_signatures ::
  "tx_status \<Rightarrow> int \<Rightarrow> nat \<Rightarrow> ledger_db \<Rightarrow> db_transaction list" where
  "get_stalled_withdrawals_with_signatures status after_id limit db =
     take limit (sort_key t_id (filter (\<lambda>r. t_type r = WithdrawalTx \<and> t_status r = status
       \<and> t_withdrawal_nonce r \<noteq> None
       \<and> (case t_remint_signatures r of Some sigs \<Rightarrow> sigs \<noteq> [] | None \<Rightarrow> False)
       \<and> t_remint_last_valid_block_heights r \<noteq> None
       \<and> t_landed_remint_signature r = None
       \<and> \<not> has_remint_sig (t_id r) db
       \<and> after_id < t_id r) (db_transactions db)))"

definition get_transaction_status :: "int \<Rightarrow> ledger_db \<Rightarrow> tx_status option" where
  "get_transaction_status transaction_id db =
     map_option t_status (find (\<lambda>r. t_id r = transaction_id) (db_transactions db))"

definition get_release_signatures :: "int \<Rightarrow> ledger_db \<Rightarrow> stored_sig list" where
  "get_release_signatures transaction_id db =
     filter (\<lambda>s. ss_transaction_id s = transaction_id) (db_pending_release_signatures db)"

definition get_remint_signatures :: "int \<Rightarrow> ledger_db \<Rightarrow> stored_sig list" where
  "get_remint_signatures transaction_id db =
     filter (\<lambda>s. ss_transaction_id s = transaction_id) (db_pending_remint_signatures db)"

record released_withdrawal =
  rw_id :: int
  rw_updated_at :: timestamp
  rw_signatures :: "string list"

definition get_released_withdrawals :: "int \<Rightarrow> nat \<Rightarrow> ledger_db \<Rightarrow> released_withdrawal list" where
  "get_released_withdrawals after_id limit db =
     take limit (map (\<lambda>r. \<lparr>rw_id = t_id r, rw_updated_at = t_updated_at r,
         rw_signatures = map ss_signature (get_release_signatures (t_id r) db)\<rparr>)
       (sort_key t_id (filter (\<lambda>r. t_type r = WithdrawalTx \<and> t_status r = Processing
         \<and> t_landed_remint_signature r = None \<and> \<not> has_remint_sig (t_id r) db
         \<and> has_release_sig (t_id r) db \<and> after_id < t_id r) (db_transactions db))))"

definition is_reconciliation_halted :: "ledger_db \<Rightarrow> halt_info option" where
  "is_reconciliation_halted db =
     (case db_reconciliation_halt db of
        Some h \<Rightarrow> if hi_halted h then Some h else None | None \<Rightarrow> None)"

text \<open>\<open>ORDER BY processed_at DESC NULLS LAST, id DESC LIMIT 1\<close>\<close>

definition newest_processed :: "db_transaction list \<Rightarrow> db_transaction option" where
  "newest_processed rows =
     (case rev (sort_key (\<lambda>r. case t_processed_at r of None \<Rightarrow> 0 | Some t \<Rightarrow> Suc t) (sort_key t_id rows)) of
        [] \<Rightarrow> None | r # _ \<Rightarrow> Some r)"

definition get_newest_known_mint_signatures :: "string \<Rightarrow> tx_type \<Rightarrow> ledger_db \<Rightarrow> string list" where
  "get_newest_known_mint_signatures mint kind db =
     (case kind of
        DepositTx \<Rightarrow>
          (case newest_processed (filter (\<lambda>r. t_mint r = mint \<and> t_type r = DepositTx
                  \<and> t_status r = Completed \<and> t_counterpart_signature r \<noteq> None)
                  (db_transactions db)) of
             Some r \<Rightarrow> [the (t_counterpart_signature r)] | None \<Rightarrow> [])
      | WithdrawalTx \<Rightarrow>
          (case newest_processed (filter (\<lambda>r. t_mint r = mint \<and> t_type r = WithdrawalTx
                  \<and> t_status r = FailedReminted \<and> t_landed_remint_signature r \<noteq> None)
                  (db_transactions db)) of
             Some r \<Rightarrow> [the (t_landed_remint_signature r)] | None \<Rightarrow> []))"

section \<open>Nonces\<close>

definition withdrawal_nonces :: "(db_transaction \<Rightarrow> bool) \<Rightarrow> ledger_db \<Rightarrow> int list" where
  "withdrawal_nonces P db =
     List.map_filter t_withdrawal_nonce (filter (\<lambda>r. t_type r = WithdrawalTx \<and> P r) (db_transactions db))"

definition get_max_withdrawal_nonce :: "ledger_db \<Rightarrow> u64 option" where
  "get_max_withdrawal_nonce db =
     map_option word_of_int (opt_fold max (withdrawal_nonces (\<lambda>r. True) db))"

definition unreleased_withdrawal_nonce_bounds :: "int \<Rightarrow> ledger_db \<Rightarrow> (int \<times> int) option" where
  "unreleased_withdrawal_nonce_bounds min_nonce db =
     (let nonces = filter (\<lambda>n. min_nonce \<le> n) (withdrawal_nonces (\<lambda>r. t_status r
            \<in> {Pending, Processing, Parked, PendingRemint, ManualReview}) db) in
      case (opt_fold min nonces, opt_fold max nonces) of
        (Some lowest, Some highest) \<Rightarrow> Some (lowest, highest)
      | _ \<Rightarrow> None)"

definition get_completed_withdrawal_nonces :: "int \<Rightarrow> int \<Rightarrow> ledger_db \<Rightarrow> int list" where
  "get_completed_withdrawal_nonces min_nonce max_nonce db =
     sort (filter (\<lambda>n. min_nonce \<le> n \<and> n < max_nonce)
       (withdrawal_nonces (\<lambda>r. t_status r = Completed) db))"

section \<open>Reconciliation\<close>

definition RELEASED_BY_OBSERVATION :: "db_transaction \<Rightarrow> db_observed_release option \<Rightarrow> bool" where
  "RELEASED_BY_OBSERVATION t r \<longleftrightarrow> r \<noteq> None"

definition RELEASED_BY_OBSERVATION_OR_STATUS :: "db_transaction \<Rightarrow> db_observed_release option \<Rightarrow> bool"
  where
  "RELEASED_BY_OBSERVATION_OR_STATUS t r \<longleftrightarrow> t_status t = Completed \<or> r \<noteq> None"

text \<open>The join with \<open>observed_releases\<close>, whose key is the nonce.\<close>

definition release_upto :: "int \<Rightarrow> db_transaction \<Rightarrow> ledger_db \<Rightarrow> db_observed_release option" where
  "release_upto as_of_slot t db =
     (case t_withdrawal_nonce t of
        None \<Rightarrow> None
      | Some nonce \<Rightarrow>
          find (\<lambda>r. or_withdrawal_nonce r = nonce \<and> or_slot r \<le> as_of_slot) (db_observed_releases db))"

definition UNLISTED_MINT_SOURCES :: "ledger_db \<Rightarrow> string list" where
  "UNLISTED_MINT_SOURCES db =
     map ms_mint_address (db_mint_status_history db)
     @ map t_mint (filter (\<lambda>t. t_type t = DepositTx) (db_transactions db))
     @ map t_mint (filter (\<lambda>t. t_type t = WithdrawalTx \<and> release_observed t db) (db_transactions db))"

record mint_db_balance =
  mb_mint_address :: string
  mb_token_program :: string
  mb_total_deposits :: int
  mb_total_withdrawals :: int

definition paid_out :: "db_transaction \<Rightarrow> db_observed_release option \<Rightarrow> int" where
  "paid_out t r =
     (let moved = (case Option.bind r or_amount of Some a \<Rightarrow> uint a | None \<Rightarrow> uint (t_amount t)) in
      min moved (uint (t_amount t)))"

definition mint_balance ::
  "(db_transaction \<Rightarrow> db_observed_release option \<Rightarrow> bool) \<Rightarrow> int \<Rightarrow> ledger_db \<Rightarrow> string \<Rightarrow>
     mint_db_balance" where
  "mint_balance released as_of_slot db mint =
     (let rows = filter (\<lambda>t. t_mint t = mint) (db_transactions db) in
      \<lparr>mb_mint_address = mint,
       mb_token_program = (case get_mint mint db of Some m \<Rightarrow> mt_token_program m | None \<Rightarrow> []),
       mb_total_deposits = sum_list (map (\<lambda>t. uint (t_amount t))
         (filter (\<lambda>t. t_type t = DepositTx \<and> t_slot t \<le> as_of_slot) rows)),
       mb_total_withdrawals = sum_list (map (\<lambda>t. paid_out t (release_upto as_of_slot t db))
         (filter (\<lambda>t. t_type t = WithdrawalTx \<and> released t (release_upto as_of_slot t db)) rows))\<rparr>)"

definition mint_balances_query ::
  "(db_transaction \<Rightarrow> db_observed_release option \<Rightarrow> bool) \<Rightarrow> int \<Rightarrow> ledger_db \<Rightarrow>
     mint_db_balance list" where
  "mint_balances_query released as_of_slot db =
     map (mint_balance released as_of_slot db)
       (remdups (map mt_mint_address (db_mints db) @ UNLISTED_MINT_SOURCES db))"

definition get_mint_balances_for_reconciliation :: "int \<Rightarrow> ledger_db \<Rightarrow> mint_db_balance list" where
  "get_mint_balances_for_reconciliation = mint_balances_query RELEASED_BY_OBSERVATION"

definition get_mint_balances_for_unpinned_reconciliation :: "int \<Rightarrow> ledger_db \<Rightarrow> mint_db_balance list"
  where
  "get_mint_balances_for_unpinned_reconciliation =
     mint_balances_query RELEASED_BY_OBSERVATION_OR_STATUS"

definition get_mint_addresses :: "ledger_db \<Rightarrow> (string \<times> string) list" where
  "get_mint_addresses db = map (\<lambda>m. (mt_mint_address m, mt_token_program m)) (db_mints db)"

definition get_unlisted_mints :: "ledger_db \<Rightarrow> string list" where
  "get_unlisted_mints db =
     filter (\<lambda>u. \<not> list_ex (\<lambda>m. mt_mint_address m = u) (db_mints db))
       (remdups (UNLISTED_MINT_SOURCES db))"

definition ENVELOPE_ROWS :: "db_transaction \<Rightarrow> bool" where
  "ENVELOPE_ROWS t \<longleftrightarrow>
     t_type t = DepositTx \<and> t_status t \<in> {Pending, Processing, Parked, PendingRemint}"

record mint_in_flight_amount =
  mf_mint_address :: string
  mf_in_flight_amount :: int
  mf_adjustment_amount :: int

definition get_in_flight_amounts_by_mint ::
  "int option \<Rightarrow> int option \<Rightarrow> ledger_db \<Rightarrow> mint_in_flight_amount list" where
  "get_in_flight_amounts_by_mint deposits_after withdrawals_after db =
     (let above = (\<lambda>bound t. case bound of Some b \<Rightarrow> b < t_slot t | None \<Rightarrow> False);
          rows = filter (\<lambda>t. ENVELOPE_ROWS t
            \<or> t_type t = DepositTx \<and> above deposits_after t
            \<or> t_type t = WithdrawalTx \<and> above withdrawals_after t) (db_transactions db);
          total = (\<lambda>ts. sum_list (map (\<lambda>t. uint (t_amount t)) ts)) in
      map (\<lambda>mint. let own = filter (\<lambda>t. t_mint t = mint) rows in
          \<lparr>mf_mint_address = mint,
           mf_in_flight_amount = total (filter ENVELOPE_ROWS own),
           mf_adjustment_amount = total (filter (\<lambda>t. \<not> ENVELOPE_ROWS t) own)\<rparr>)
        (remdups (map t_mint rows)))"

definition get_orphan_deposit_ids :: "ledger_db \<Rightarrow> int list" where
  "get_orphan_deposit_ids db =
     (case committed_slot Escrow db of
        None \<Rightarrow> []
      | Some committed \<Rightarrow>
          sort (map t_id (filter (\<lambda>t.
            let history = filter (\<lambda>h. ms_mint_address h = t_mint t) (db_mint_status_history db);
                coming_in = latest_status (filter (\<lambda>h. ms_effective_slot h < t_slot t) history) in
            t_type t = DepositTx \<and> t_slot t \<le> committed
            \<and> map_option ms_status coming_in \<noteq> Some ''allowed''
            \<and> \<not> list_ex (\<lambda>h. ms_effective_slot h = t_slot t \<and> ms_status h = ''allowed'') history)
          (db_transactions db))))"

section \<open>Resync\<close>

definition UNSETTLED_STATUSES :: "tx_status list" where
  "UNSETTLED_STATUSES = [Processing, PendingRemint, ManualReview]"

definition get_unfinished_resync :: "ledger_db \<Rightarrow> string option" where
  "get_unfinished_resync db = map_option rm_program_type (db_resync_state db)"

record resync_blockers =
  rb_unsettled_work :: bool
  rb_failed_withdrawals :: bool
  rb_observed_releases :: bool
  rb_earliest_slot :: "int option"
  rb_latest_slot :: "int option"

definition get_resync_blockers :: "tx_type \<Rightarrow> ledger_db \<Rightarrow> resync_blockers" where
  "get_resync_blockers own db =
     (let key = program_key (case own of DepositTx \<Rightarrow> Escrow | WithdrawalTx \<Rightarrow> Withdraw);
          marker = (case db_resync_state db of
            Some m \<Rightarrow> if rm_program_type m = key then Some m else None | None \<Rightarrow> None) in
      \<lparr>rb_unsettled_work = list_ex (\<lambda>t. t_type t = own \<and> (t_status t \<in> set UNSETTLED_STATUSES
         \<or> t_status t \<notin> set TERMINAL_STATUSES
           \<and> (has_release_sig (t_id t) db \<or> has_remint_sig (t_id t) db))) (db_transactions db),
       rb_failed_withdrawals =
         list_ex (\<lambda>t. t_type t = WithdrawalTx \<and> t_status t = Failed) (db_transactions db),
       rb_observed_releases = (db_observed_releases db \<noteq> []),
       rb_earliest_slot = opt_merge min (opt_fold min (own_slots own db))
         (Option.bind marker rm_earliest_slot),
       rb_latest_slot = opt_merge max (opt_fold max (own_slots own db))
         (Option.bind marker rm_latest_slot)\<rparr>)"

record serviced_row =
  sr_id :: int
  sr_signature :: string
  sr_instruction_index :: int
  sr_inner_index :: "int option"

definition get_serviced_rows :: "tx_type \<Rightarrow> int \<Rightarrow> nat \<Rightarrow> ledger_db \<Rightarrow> serviced_row list" where
  "get_serviced_rows own after_id limit db =
     (let status = (case own of DepositTx \<Rightarrow> Completed | WithdrawalTx \<Rightarrow> FailedReminted) in
      map (\<lambda>t. \<lparr>sr_id = t_id t, sr_signature = t_signature t,
          sr_instruction_index = t_instruction_index t, sr_inner_index = t_inner_index t\<rparr>)
        (take limit (sort_key t_id (filter (\<lambda>t. t_type t = own \<and> t_status t = status \<and> after_id < t_id t)
          (db_transactions db)))))"

section \<open>The orphan query and the mint gate agree\<close>

lemma get_mint_status_at_slot_allowed:
  "get_mint_status_at_slot mint slot db = AllowedAtSlot \<longleftrightarrow>
     map_option ms_status (latest_status (filter (\<lambda>h. ms_effective_slot h < slot)
       (filter (\<lambda>h. ms_mint_address h = mint) (db_mint_status_history db)))) = Some ''allowed''
     \<or> list_ex (\<lambda>h. ms_effective_slot h = slot \<and> ms_status h = ''allowed'')
         (filter (\<lambda>h. ms_mint_address h = mint) (db_mint_status_history db))"
  by (auto simp: get_mint_status_at_slot_def Let_def list_ex_iff image_iff split: option.splits)

text \<open>
  The report of orphan deposits and the gate before a channel mint apply one rule. The orphan
  query returns exactly the deposit rows that the escrow checkpoint covers and for whose slot the
  gate does not answer that the mint was allowed.
\<close>

theorem orphans_are_what_the_gate_refuses:
  "set (get_orphan_deposit_ids db) =
     t_id ` {t \<in> set (db_transactions db). t_type t = DepositTx
       \<and> (\<exists>committed. committed_slot Escrow db = Some committed \<and> t_slot t \<le> committed)
       \<and> get_mint_status_at_slot (t_mint t) (t_slot t) db \<noteq> AllowedAtSlot}"
  by (cases "committed_slot Escrow db")
    (simp_all add: get_orphan_deposit_ids_def get_mint_status_at_slot_allowed Let_def)

end
