(* ===== verification/Ledger_Safety.thy ===== *)
theory Ledger_Safety
  imports Ledger_Queries
begin

text \<open>
  What holds of the shared database along every interleaving of the calls that write it. A run is a
  list of calls of \<open>Ledger_Db\<close>, made by any mix of indexer, operators and recovery with whatever
  arguments, each at a later time than the one before.

  \<open>evolves\<close> describes what one call may do to the transactions table; the invariants on nonces and
  journals and the facts on leases rest on it.
\<close>

section \<open>Steps and runs\<close>

text \<open>
  What a step is remembered for: a granted claim of a row with the token it presented, a granted
  refund attempt, the removal of journal entries of a row by request, a wipe, or nothing.
\<close>

datatype ledger_event =
    Wrote
  | Granted int timestamp
  | RemintGranted int string
  | Forgot int
  | Wiped program_type

inductive ledger_step :: "timestamp \<Rightarrow> ledger_event \<Rightarrow> ledger_db \<Rightarrow> ledger_db \<Rightarrow> bool" where
  insert: "ledger_step now Wrote db (snd (insert_transaction now row db))"
| insert_batch: "ledger_step now Wrote db (snd (insert_transactions_batch now rows db))"
| lock: "ledger_step now Wrote db (snd (get_and_lock_pending_transactions locked now ty limit db))"
| claim_granted: "claim_and_persist_signature now i tok sig h bs db = (Inr (Some lease), db')
    \<Longrightarrow> ledger_step now (Granted i tok) db db'"
| journal: "ledger_step now Wrote db (snd (insert_release_signature i sig h bs db))"
| mark_reminted: "ledger_step now Wrote db (snd (try_mark_reminted now i tok sig db))"
| update_status: "ledger_step now Wrote db (snd (update_transaction_status now i st c p rs db))"
| requeue: "ledger_step now Wrote db (snd (try_requeue_processing now i tok db))"
| requeue_halted: "ledger_step now Wrote db (snd (requeue_halted_claim now i tok db))"
| requeue_unclaimed: "ledger_step now Wrote db (snd (requeue_unclaimed now i tok db))"
| requeue_prebroadcast: "ledger_step now Wrote db (snd (try_requeue_prebroadcast now i tok m db))"
| park: "ledger_step now Wrote db (snd (try_park_processing now i db))"
| unpark: "ledger_step now Wrote db (snd (try_unpark_to_processing now i db))"
| requeue_parked: "ledger_step now Wrote db (snd (try_requeue_parked now i tok db))"
| complete: "ledger_step now Wrote db (snd (try_complete_processing now i tok c rs db))"
| fail: "ledger_step now Wrote db (snd (try_fail_processing now i tok db))"
| quarantine: "ledger_step now Wrote db (snd (try_quarantine_processing now i tok ss hs db))"
| complete_stalled: "ledger_step now Wrote db (snd (complete_stalled_withdrawal now i tok st c db))"
| pending_remint: "ledger_step now Wrote db (snd (set_pending_remint now i ss hs d refused db))"
| bump: "ledger_step now Wrote db (snd (bump_pending_remint_finality_attempt now i n d db))"
| record_remint: "ledger_step now Wrote db (snd (record_remint_result now i sig db))"
| quarantine_active: "ledger_step now Wrote db (snd (quarantine_active_withdrawals now ex mn db))"
| remint_granted: "claim_remint_attempt now i sig h bs dead db = (Inr Claimed, db')
    \<Longrightarrow> ledger_step now (RemintGranted i sig) db db'"
| remint_refused: "claim_remint_attempt now i sig h bs dead db = (r, db') \<Longrightarrow> r \<noteq> Inr Claimed
    \<Longrightarrow> ledger_step now Wrote db db'"
| delete_all: "ledger_step now (Forgot i) db (snd (delete_release_signatures i db))"
| delete_one: "ledger_step now (Forgot i) db (snd (delete_release_signature i sig db))"
| delete_remints: "ledger_step now (Forgot i) db (snd (delete_remint_signatures i db))"
| gc_releases: "ledger_step now Wrote db (snd (gc_stale_release_signatures db))"
| gc_remints: "ledger_step now Wrote db (snd (gc_stale_remint_signatures db))"
| observe: "ledger_step now Wrote db (snd (insert_observed_releases_batch rels db))"
| mints: "ledger_step now Wrote db (snd (upsert_mints_batch ms db))"
| statuses: "ledger_step now Wrote db (snd (insert_mint_statuses_batch sts db))"
| mirror: "ledger_step now Wrote db (snd (sync_mint_status addrs db))"
| consumed: "ledger_step now Wrote db (snd (insert_consumed_mints cms db))"
| halt: "ledger_step now Wrote db (snd (set_reconciliation_halt now reason db))"
| outage: "ledger_step now Wrote db (snd (set_outage_halt now reason db))"
| clear_halt: "ledger_step now Wrote db (snd (clear_reconciliation_halt now db))"
| checkpoint: "ledger_step now Wrote db (db\<lparr>db_indexer_state :=
    update_committed_checkpoint (program_key p) slot fence (db_indexer_state db)\<rparr>)"
| wipe: "ledger_step now (Wiped p) db (snd (wipe_program now p db))"
| clear_resync: "ledger_step now Wrote db (snd (clear_unfinished_resync now p db))"

text \<open>A claim that is refused changes nothing, so it is not a step.\<close>

inductive ledger_run ::
  "timestamp \<Rightarrow> ledger_db \<Rightarrow> ledger_event list \<Rightarrow> timestamp \<Rightarrow> ledger_db \<Rightarrow> bool" where
  start: "ledger_run t db [] t db"
| step: "ledger_run t db evs t' db' \<Longrightarrow> t' < now \<Longrightarrow> ledger_step now ev db' db''
    \<Longrightarrow> ledger_run t db (evs @ [ev]) now db''"

definition no_wipe :: "ledger_event list \<Rightarrow> bool" where
  "no_wipe evs \<longleftrightarrow> (\<forall>p. Wiped p \<notin> set evs)"

definition empty_db :: ledger_db where
  "empty_db =
     \<lparr>db_transactions = [], db_next_id = 1, db_withdrawal_nonce_seq = 0,
      db_indexer_state = Map.empty, db_mints = [], db_mint_status_history = [],
      db_pending_release_signatures = [], db_pending_remint_signatures = [],
      db_observed_releases = [], db_consumed_channel_mints = [], db_reconciliation_halt = None,
      db_resync_state = None\<rparr>"

section \<open>What a call may do to a row\<close>

definition row_core where
  "row_core r = (t_id r, t_signature r, t_trace_id r, t_slot r, t_initiator r, t_recipient r, t_mint r,
     t_amount r, t_memo r, t_type r, t_withdrawal_nonce r, t_created_at r, t_instruction_index r,
     t_inner_index r)"

fun status_edge :: "tx_status \<Rightarrow> tx_status \<Rightarrow> bool" where
  "status_edge Pending s = (s \<in> {Processing, ManualReview})"
| "status_edge Processing s = True"
| "status_edge Parked s = (s \<in> {Parked, Processing, Pending, ManualReview})"
| "status_edge PendingRemint s = True"
| "status_edge ManualReview s = (s = Completed)"
| "status_edge Completed s = False"
| "status_edge Failed s = False"
| "status_edge FailedReminted s = False"

definition permitted :: "db_transaction \<Rightarrow> db_transaction \<Rightarrow> bool" where
  "permitted r r' \<longleftrightarrow> row_core r' = row_core r \<and> status_edge (t_status r) (t_status r')"

definition row_step :: "timestamp \<Rightarrow> db_transaction \<Rightarrow> db_transaction \<Rightarrow> bool" where
  "row_step now r r' \<longleftrightarrow> r' = r \<or> permitted r r' \<and> t_updated_at r' = now"

text \<open>The rows a call leaves: the ones before, each moved or kept, then the ones it added.\<close>

definition fresh_row :: "timestamp \<Rightarrow> ledger_db \<Rightarrow> db_transaction \<Rightarrow> bool" where
  "fresh_row now db r \<longleftrightarrow> db_next_id db \<le> t_id r \<and> t_updated_at r = now"

definition evolves :: "timestamp \<Rightarrow> ledger_db \<Rightarrow> ledger_db \<Rightarrow> bool" where
  "evolves now db db' \<longleftrightarrow> db_next_id db \<le> db_next_id db' \<and>
     (\<exists>upd new. db_transactions db' = upd @ new \<and> list_all2 (row_step now) (db_transactions db) upd
        \<and> list_all (fresh_row now db) new)"

lemma row_core_updated_at [simp]: "row_core (r\<lparr>t_updated_at := now\<rparr>) = row_core r"
  by (simp add: row_core_def)

lemma row_step_refl [simp]: "row_step now r r"
  by (simp add: row_step_def)

lemma evolves_rows:
  assumes "list_all2 (row_step now) (db_transactions db) (db_transactions db')"
    and "db_next_id db' = db_next_id db"
  shows "evolves now db db'"
  unfolding evolves_def
  using assms by (intro conjI exI [of _ "db_transactions db'"] exI [of _ "[]"]) simp_all

lemma sql_update_cases:
  obtains "snd (sql_update now P f db) = db" and "fst (sql_update now P f db) = Inl ConstraintViolation"
  | "fst (sql_update now P f db) = Inr (length (filter P (db_transactions db)))"
    and "snd (sql_update now P f db) = db\<lparr>db_transactions :=
      map (\<lambda>r. if P r then (f r)\<lparr>t_updated_at := now\<rparr> else r) (db_transactions db)\<rparr>"
  by (cases "row_constraints (map (\<lambda>r. if P r then (f r)\<lparr>t_updated_at := now\<rparr> else r)
      (db_transactions db))") (simp_all add: sql_update_def Let_def)

text \<open>\<open>only_rows\<close>: nothing but the rows of the table changed, and they evolved.\<close>

definition only_rows :: "timestamp \<Rightarrow> ledger_db \<Rightarrow> ledger_db \<Rightarrow> bool" where
  "only_rows now db db' \<longleftrightarrow> (\<exists>rows. db' = db\<lparr>db_transactions := rows\<rparr>
     \<and> list_all2 (row_step now) (db_transactions db) rows)"

lemma only_rows_refl [simp]: "only_rows now db db"
  unfolding only_rows_def by (rule exI [of _ "db_transactions db"]) (simp add: list_all2_refl)

lemma sql_update_only_rows:
  assumes "\<And>r. r \<in> set (db_transactions db) \<Longrightarrow> P r \<Longrightarrow> permitted r (f r)"
  shows "only_rows now db (snd (sql_update now P f db))"
proof -
  have "row_step now r (if P r then (f r)\<lparr>t_updated_at := now\<rparr> else r)"
    if "r \<in> set (db_transactions db)" for r
    using assms [OF that] by (simp add: row_step_def permitted_def)
  then show ?thesis
    by (cases rule: sql_update_cases [of now P f db])
      (auto simp: only_rows_def list_all2_conv_all_nth intro!: exI [of _ "map _ _"])
qed

lemma cas_snd [simp]: "snd (cas now P f db) = snd (sql_update now P f db)"
  by (cases "sql_update now P f db") (auto simp: cas_def split: sum.splits)

lemma only_rows_evolves: "only_rows now db db' \<Longrightarrow> evolves now db db'"
  by (rule evolves_rows) (auto simp: only_rows_def)

section \<open>What each call does to the table\<close>

named_theorems rows_of_call

lemmas permitted_simps = permitted_def row_core_def

lemma lock_only_rows [rows_of_call]:
  assumes ids: "distinct (map t_id (db_transactions db))"
  shows "only_rows now db (snd (get_and_lock_pending_transactions locked now ty limit db))"
proof -
  let ?cov = "\<lambda>r. case ty of
      DepositTx \<Rightarrow> (case committed_slot Escrow db of Some s \<Rightarrow> t_slot r \<le> s | None \<Rightarrow> False)
    | WithdrawalTx \<Rightarrow> True"
  define claimed where "claimed = take limit (sort_key t_created_at (filter (\<lambda>r. t_status r = Pending
    \<and> t_type r = ty \<and> ?cov r \<and> \<not> locked (t_id r)) (db_transactions db)))"
  let ?u = "sql_update now (\<lambda>r. t_id r \<in> set (map t_id claimed)) (\<lambda>r. r\<lparr>t_status := Processing\<rparr>) db"
  have claimed: "c \<in> set (db_transactions db) \<and> t_status c = Pending" if "c \<in> set claimed" for c
    using that by (auto simp: claimed_def dest!: in_set_takeD)
  have "permitted r (r\<lparr>t_status := Processing\<rparr>)"
    if r: "r \<in> set (db_transactions db)" "t_id r \<in> set (map t_id claimed)" for r
  proof -
    from r(2) obtain c where "c \<in> set claimed" "t_id c = t_id r" by auto
    with claimed r(1) ids have "t_status r = Pending" by (metis distinct_map inj_onD)
    then show ?thesis by (simp add: permitted_simps)
  qed
  from sql_update_only_rows [OF this] have "only_rows now db (snd ?u)" by simp
  moreover have "snd (get_and_lock_pending_transactions locked now ty limit db) = snd ?u"
    by (cases "?u") (auto simp: get_and_lock_pending_transactions_def claimed_def Let_def
        split: sum.splits)
  ultimately show ?thesis by simp
qed

lemma cas_calls_only_rows [rows_of_call]:
  "only_rows now db (snd (try_mark_reminted now i tok sig db))"
  "only_rows now db (snd (update_transaction_status now i st c p rs db))"
  "only_rows now db (snd (try_requeue_processing now i tok db))"
  "only_rows now db (snd (requeue_halted_claim now i tok db))"
  "only_rows now db (snd (requeue_unclaimed now i tok db))"
  "only_rows now db (snd (try_park_processing now i db))"
  "only_rows now db (snd (try_requeue_parked now i tok db))"
  "only_rows now db (snd (try_complete_processing now i tok c rs db))"
  "only_rows now db (snd (try_fail_processing now i tok db))"
  "only_rows now db (snd (try_quarantine_processing now i tok ss hs db))"
  "only_rows now db (snd (complete_stalled_withdrawal now i tok st c db))"
  "only_rows now db (snd (quarantine_active_withdrawals now ex mn db))"
  by (auto simp: try_mark_reminted_def update_transaction_status_def try_requeue_processing_def
      requeue_halted_claim_def requeue_unclaimed_def try_park_processing_def try_requeue_parked_def
      try_complete_processing_def try_fail_processing_def try_quarantine_processing_def
      complete_stalled_withdrawal_def quarantine_active_withdrawals_def Let_def permitted_simps
      intro!: sql_update_only_rows)

lemma snd_case_update:
  "snd (case x of (Inl e, d) \<Rightarrow> (Inl e, d) | (Inr n, d) \<Rightarrow> (g n, d)) = snd x"
  by (cases x) (auto split: sum.splits)

lemma other_calls_only_rows [rows_of_call]:
  "only_rows now db (snd (try_requeue_prebroadcast now i tok m db))"
  "only_rows now db (snd (try_unpark_to_processing now i db))"
  "only_rows now db (snd (set_pending_remint now i ss hs d refused db))"
  "only_rows now db (snd (bump_pending_remint_finality_attempt now i n d db))"
  "only_rows now db (snd (record_remint_result now i sig db))"
  unfolding try_requeue_prebroadcast_def try_unpark_to_processing_def set_pending_remint_def
    bump_pending_remint_finality_attempt_def record_remint_result_def Let_def snd_case_update cas_snd
  by (auto simp: permitted_simps intro!: sql_update_only_rows)

text \<open>A granted claim: the row it was for, and what it leaves.\<close>

definition claimable :: "int \<Rightarrow> timestamp \<Rightarrow> ledger_db \<Rightarrow> db_transaction \<Rightarrow> bool" where
  "claimable i tok db r \<longleftrightarrow> t_id r = i \<and> t_status r = Processing \<and> t_updated_at r = tok
     \<and> \<not> is_halted db \<and> t_landed_remint_signature r = None"

definition journaled :: "int \<Rightarrow> string \<Rightarrow> ledger_db \<Rightarrow> bool" where
  "journaled i sig db \<longleftrightarrow>
     (\<exists>s\<in>set (db_pending_release_signatures db). ss_transaction_id s = i \<and> ss_signature s = sig)"

lemma claim_granted_spec:
  assumes "claim_and_persist_signature now i tok sig h bs db = (Inr (Some lease), db')"
  obtains r where "r \<in> set (db_transactions db)" "claimable i tok db r" "lease = now"
    "db_transactions db' = map (\<lambda>r. if claimable i tok db r then r\<lparr>t_updated_at := now\<rparr> else r)
       (db_transactions db)"
    "db' = db\<lparr>db_transactions := db_transactions db',
       db_pending_release_signatures := db_pending_release_signatures db'\<rparr>"
    "db_pending_release_signatures db'
       = (if \<exists>s\<in>set (db_pending_release_signatures db). ss_signature s = sig
          then db_pending_release_signatures db
          else db_pending_release_signatures db @ [\<lparr>ss_transaction_id = i, ss_signature = sig,
            ss_last_valid_block_height = h, ss_blockhash_slot = bs, ss_superseded = False\<rparr>])"
proof -
  have P: "(\<lambda>r. t_id r = i \<and> t_status r = Processing \<and> t_updated_at r = tok \<and> \<not> is_halted db
      \<and> t_landed_remint_signature r = None) = claimable i tok db"
    by (auto simp: claimable_def fun_eq_iff)
  let ?u = "sql_update now (claimable i tok db) (\<lambda>r. r) db"
  from assms obtain n db1 where u: "?u = (Inr n, db1)" "n \<noteq> 0"
      "insert_release_signature i sig h bs db1 = (Inr (), db')" "lease = now"
    unfolding claim_and_persist_signature_def P Let_def
    by (auto split: prod.splits sum.splits if_splits)
  then have n: "n = length (filter (claimable i tok db) (db_transactions db))"
    and db1: "db1 = db\<lparr>db_transactions := map (\<lambda>r. if claimable i tok db r
        then r\<lparr>t_updated_at := now\<rparr> else r) (db_transactions db)\<rparr>"
    by (cases rule: sql_update_cases [of now "claimable i tok db" "\<lambda>r. r" db]; simp)+
  from n u(2) obtain r where "r \<in> set (db_transactions db)" "claimable i tok db r"
    by (metis filter_False length_0_conv)
  then show ?thesis
    using u(3,4) by (rule_tac that)
      (auto simp: insert_release_signature_def db1 list_ex_iff split: if_splits)
qed

definition refundable :: "int \<Rightarrow> ledger_db \<Rightarrow> db_transaction \<Rightarrow> bool" where
  "refundable i db r \<longleftrightarrow> t_id r = i \<and> t_status r = PendingRemint \<and> t_type r = WithdrawalTx
     \<and> \<not> release_observed r db"

definition retire :: "int \<Rightarrow> string list \<Rightarrow> stored_sig list \<Rightarrow> stored_sig list" where
  "retire i dead sigs = map (\<lambda>s. if ss_transaction_id s = i \<and> ss_signature s \<in> set dead
     then s\<lparr>ss_superseded := True\<rparr> else s) sigs"

definition live :: "int \<Rightarrow> stored_sig list \<Rightarrow> stored_sig list" where
  "live i sigs = filter (\<lambda>s. ss_transaction_id s = i \<and> \<not> ss_superseded s) sigs"

lemma claim_remint_cases:
  assumes "claim_remint_attempt now i sig h bs dead db = (r, db')"
  obtains "r \<noteq> Inr Claimed" "db' = db"
  | "\<exists>t\<in>set (db_transactions db). refundable i db t"
    "db_transactions db' = map (\<lambda>t. if refundable i db t then t\<lparr>t_updated_at := now\<rparr> else t)
       (db_transactions db)"
    "db' = db\<lparr>db_transactions := db_transactions db',
       db_pending_remint_signatures := db_pending_remint_signatures db'\<rparr>"
    "r = Inr HeldElsewhere \<and> db_pending_remint_signatures db' = retire i dead (db_pending_remint_signatures db)
     \<or> r = Inr Claimed \<and> live i (retire i dead (db_pending_remint_signatures db)) = []
        \<and> (\<forall>s\<in>set (db_pending_remint_signatures db). ss_signature s \<noteq> sig)
        \<and> db_pending_remint_signatures db' = retire i dead (db_pending_remint_signatures db)
           @ [\<lparr>ss_transaction_id = i, ss_signature = sig, ss_last_valid_block_height = h,
               ss_blockhash_slot = bs, ss_superseded = False\<rparr>]"
proof -
  have P: "(\<lambda>r. t_id r = i \<and> t_status r = PendingRemint \<and> t_type r = WithdrawalTx
      \<and> \<not> release_observed r db) = refundable i db"
    by (auto simp: refundable_def fun_eq_iff)
  have R: "map (\<lambda>s. if ss_transaction_id s = i \<and> ss_signature s \<in> set dead
      then s\<lparr>ss_superseded := True\<rparr> else s) = retire i dead"
    by (simp add: fun_eq_iff retire_def)
  have L: "list_ex (\<lambda>s. ss_transaction_id s = i \<and> \<not> ss_superseded s) sigs \<longleftrightarrow> live i sigs \<noteq> []" for sigs
    by (simp add: live_def filter_empty_conv list_ex_iff)
  have S: "list_ex (\<lambda>s. ss_signature s = sig) (retire i dead sigs)
      \<longleftrightarrow> (\<exists>s\<in>set sigs. ss_signature s = sig)" for sigs
  proof -
    have m: "map ss_signature (retire i dead sigs) = map ss_signature sigs" by (simp add: retire_def)
    have "list_ex (\<lambda>s. ss_signature s = sig) xs \<longleftrightarrow> sig \<in> set (map ss_signature xs)" for xs
      by (auto simp: list_ex_iff)
    from this [of "retire i dead sigs", unfolded m] show ?thesis by auto
  qed
  note d = assms [unfolded claim_remint_attempt_def P R L S Let_def]
  show ?thesis
  proof (cases rule: sql_update_cases [of now "refundable i db" "\<lambda>r. r" db])
    case 1
    with d show ?thesis by (cases "sql_update now (refundable i db) (\<lambda>r. r) db") (auto intro: that(1))
  next
    case 2
    note u = 2
    show ?thesis
    proof (cases "filter (refundable i db) (db_transactions db) = []")
      case True
      with d u show ?thesis
        by (cases "sql_update now (refundable i db) (\<lambda>r. r) db") (auto intro: that(1) split: if_splits)
    next
      case False
      then have ex: "\<exists>t\<in>set (db_transactions db). refundable i db t"
        by (auto simp: filter_empty_conv)
      let ?sigs = "retire i dead (db_pending_remint_signatures db)"
      let ?db1 = "db\<lparr>db_transactions := map (\<lambda>t. if refundable i db t then t\<lparr>t_updated_at := now\<rparr> else t)
        (db_transactions db)\<rparr>"
      have eq: "(r, db') = (if live i ?sigs \<noteq> []
          then (Inr HeldElsewhere, ?db1\<lparr>db_pending_remint_signatures := ?sigs\<rparr>)
          else if \<exists>s\<in>set (db_pending_remint_signatures db). ss_signature s = sig
          then (Inl ConstraintViolation, db)
          else (Inr Claimed, ?db1\<lparr>db_pending_remint_signatures := ?sigs
            @ [\<lparr>ss_transaction_id = i, ss_signature = sig, ss_last_valid_block_height = h,
                ss_blockhash_slot = bs, ss_superseded = False\<rparr>]\<rparr>))"
      proof -
        have "sql_update now (refundable i db) (\<lambda>r. r) db
            = (Inr (length (filter (refundable i db) (db_transactions db))), ?db1)"
          using u by (intro prod_eqI) simp_all
        from d [unfolded this, symmetric] show ?thesis
          by (simp only: prod.case sum.case length_0_conv False if_False)
      qed
      show ?thesis
      proof (cases "live i ?sigs \<noteq> []")
        case True
        with eq show ?thesis by (intro that(2) ex) simp_all
      next
        case live: False
        show ?thesis
        proof (cases "\<exists>s\<in>set (db_pending_remint_signatures db). ss_signature s = sig")
          case True
          with eq live show ?thesis by (intro that(1)) simp_all
        next
          case False
          with eq live show ?thesis by (intro that(2) ex) simp_all
        qed
      qed
    qed
  qed
qed

text \<open>Calls on the other tables.\<close>

lemma fold_frame:
  assumes "\<And>x db. g (f x db) = g db"
  shows "g (fold f xs db) = g db"
  by (induction xs arbitrary: db) (simp_all add: assms)

named_theorems frames

lemma side_table_frames [frames]:
  "db_transactions (insert_observed_release rel db) = db_transactions db"
  "db_transactions (upsert_mint m db) = db_transactions db"
  "db_transactions (insert_mint_status st db) = db_transactions db"
  "db_transactions (insert_consumed_mint cm db) = db_transactions db"
  "db_next_id (insert_observed_release rel db) = db_next_id db"
  "db_next_id (upsert_mint m db) = db_next_id db"
  "db_next_id (insert_mint_status st db) = db_next_id db"
  "db_next_id (insert_consumed_mint cm db) = db_next_id db"
  "db_withdrawal_nonce_seq (insert_observed_release rel db) = db_withdrawal_nonce_seq db"
  "db_withdrawal_nonce_seq (upsert_mint m db) = db_withdrawal_nonce_seq db"
  "db_withdrawal_nonce_seq (insert_mint_status st db) = db_withdrawal_nonce_seq db"
  "db_withdrawal_nonce_seq (insert_consumed_mint cm db) = db_withdrawal_nonce_seq db"
  "db_pending_release_signatures (insert_observed_release rel db) = db_pending_release_signatures db"
  "db_pending_release_signatures (upsert_mint m db) = db_pending_release_signatures db"
  "db_pending_release_signatures (insert_mint_status st db) = db_pending_release_signatures db"
  "db_pending_release_signatures (insert_consumed_mint cm db) = db_pending_release_signatures db"
  "db_pending_remint_signatures (insert_observed_release rel db) = db_pending_remint_signatures db"
  "db_pending_remint_signatures (upsert_mint m db) = db_pending_remint_signatures db"
  "db_pending_remint_signatures (insert_mint_status st db) = db_pending_remint_signatures db"
  "db_pending_remint_signatures (insert_consumed_mint cm db) = db_pending_remint_signatures db"
  by (simp_all add: insert_observed_release_def upsert_mint_def insert_mint_status_def
      insert_consumed_mint_def)

text \<open>The fields the invariants are about.\<close>

definition tracked where
  "tracked db = (db_transactions db, db_next_id db, db_withdrawal_nonce_seq db,
     db_pending_release_signatures db, db_pending_remint_signatures db)"

lemma tracked_update [simp]:
  "tracked (db\<lparr>db_indexer_state := st\<rparr>) = tracked db"
  "tracked (db\<lparr>db_mints := ms\<rparr>) = tracked db"
  "tracked (db\<lparr>db_reconciliation_halt := hl\<rparr>) = tracked db"
  "tracked (db\<lparr>db_resync_state := rs\<rparr>) = tracked db"
  by (simp_all add: tracked_def)

lemma tracked_fold:
  "tracked (fold insert_observed_release rels db) = tracked db"
  "tracked (fold upsert_mint ms db) = tracked db"
  "tracked (fold insert_mint_status sts db) = tracked db"
  "tracked (fold insert_consumed_mint cms db) = tracked db"
  by (rule fold_frame, simp add: tracked_def frames)+

lemma untracked_calls:
  "tracked (snd (insert_observed_releases_batch rels db)) = tracked db"
  "tracked (snd (upsert_mints_batch ms db)) = tracked db"
  "tracked (snd (insert_mint_statuses_batch sts db)) = tracked db"
  "tracked (snd (sync_mint_status addrs db)) = tracked db"
  "tracked (snd (insert_consumed_mints cms db)) = tracked db"
  "tracked (snd (set_reconciliation_halt now reason db)) = tracked db"
  "tracked (snd (set_outage_halt now reason db)) = tracked db"
  "tracked (snd (clear_reconciliation_halt now db)) = tracked db"
  "tracked (snd (clear_unfinished_resync now p db)) = tracked db"
  "tracked (db\<lparr>db_indexer_state := st\<rparr>) = tracked db"
  by (simp_all add: insert_observed_releases_batch_def upsert_mints_batch_def tracked_fold
      insert_mint_statuses_batch_def sync_mint_status_def insert_consumed_mints_def
      set_reconciliation_halt_def set_outage_halt_def clear_reconciliation_halt_def
      clear_unfinished_resync_def split: option.splits)

section \<open>Inserts, and identifiers\<close>

definition nonces :: "db_transaction list \<Rightarrow> int list" where
  "nonces rows = List.map_filter t_withdrawal_nonce (filter (\<lambda>r. t_type r = WithdrawalTx) rows)"

text \<open>
  Identifiers and nonces follow the order of insertion, stay below their sequences, and every
  withdrawal has a nonce while no deposit has one.
\<close>

definition numbered :: "int \<Rightarrow> int \<Rightarrow> db_transaction \<Rightarrow> bool" where
  "numbered next_id seq r \<longleftrightarrow> t_id r < next_id \<and> (case t_type r of
     WithdrawalTx \<Rightarrow> (case t_withdrawal_nonce r of Some n \<Rightarrow> 0 \<le> n \<and> n < seq | None \<Rightarrow> False)
   | DepositTx \<Rightarrow> t_withdrawal_nonce r = None)"

definition ids_inv :: "ledger_db \<Rightarrow> bool" where
  "ids_inv db \<longleftrightarrow>
     sorted_wrt (<) (map t_id (db_transactions db))
     \<and> sorted_wrt (<) (nonces (db_transactions db))
     \<and> list_all (numbered (db_next_id db) (db_withdrawal_nonce_seq db)) (db_transactions db)
     \<and> 0 \<le> db_withdrawal_nonce_seq db"

lemma numbered_mono: "numbered n q r \<Longrightarrow> n \<le> n' \<Longrightarrow> q \<le> q' \<Longrightarrow> numbered n' q' r"
  by (auto simp: numbered_def split: tx_type.splits option.splits)

lemma ids_inv_distinct: "ids_inv db \<Longrightarrow> distinct (map t_id (db_transactions db))"
  by (simp add: ids_inv_def strict_sorted_iff)

lemma nonces_simps [simp]:
  "nonces [] = []"
  "nonces (r # rs) = (if t_type r = WithdrawalTx
     then (case t_withdrawal_nonce r of Some n \<Rightarrow> n # nonces rs | None \<Rightarrow> nonces rs) else nonces rs)"
  "nonces (xs @ ys) = nonces xs @ nonces ys"
  by (simp_all add: nonces_def List.map_filter_def split: option.splits)

lemma nonces_set: "set (nonces rows) = {n. \<exists>r\<in>set rows. t_type r = WithdrawalTx \<and> t_withdrawal_nonce r = Some n}"
  by (induction rows) (auto split: option.splits)

lemma row_step_core: "row_step now r r' \<Longrightarrow> row_core r' = row_core r"
  by (auto simp: row_step_def permitted_def)

lemma rows_step_core:
  assumes "list_all2 (row_step now) rows rows'"
  shows "map row_core rows' = map row_core rows"
  using assms by (induction rule: list_all2_induct) (auto dest: row_step_core)

lemma row_core_fields:
  assumes "row_core r' = row_core r"
  shows "t_id r' = t_id r" "t_type r' = t_type r" "t_withdrawal_nonce r' = t_withdrawal_nonce r"
  using assms by (simp_all add: row_core_def)

lemma core_determines:
  "map row_core rows' = map row_core rows \<Longrightarrow>
     map t_id rows' = map t_id rows \<and> nonces rows' = nonces rows
     \<and> list_all (numbered n q) rows' = list_all (numbered n q) rows"
proof (induction rows arbitrary: rows')
  case (Cons r rows)
  then obtain r' rs where rows': "rows' = r' # rs" "row_core r' = row_core r"
    "map row_core rs = map row_core rows"
    by (cases rows') simp_all
  note f = row_core_fields [OF rows'(2)]
  have "numbered n q r' = numbered n q r" by (simp only: numbered_def f)
  with f Cons.IH [OF rows'(3)] show ?case by (simp add: rows'(1) split: option.split)
qed simp

lemma ids_inv_core:
  assumes "ids_inv db" "map row_core (db_transactions db') = map row_core (db_transactions db)"
    and "db_next_id db' = db_next_id db" "db_withdrawal_nonce_seq db' = db_withdrawal_nonce_seq db"
  shows "ids_inv db'"
  using assms(1,3,4) using core_determines [OF assms(2)] by (simp add: ids_inv_def)

lemma only_rows_core:
  assumes "only_rows now db db'"
  shows "map row_core (db_transactions db') = map row_core (db_transactions db)"
    "db_next_id db' = db_next_id db" "db_withdrawal_nonce_seq db' = db_withdrawal_nonce_seq db"
    "db_pending_release_signatures db' = db_pending_release_signatures db"
    "db_pending_remint_signatures db' = db_pending_remint_signatures db"
    "db_observed_releases db' = db_observed_releases db"
  using assms rows_step_core by (auto simp: only_rows_def)

lemma ids_inv_only_rows: "ids_inv db \<Longrightarrow> only_rows now db db' \<Longrightarrow> ids_inv db'"
  by (rule ids_inv_core [OF _ only_rows_core(1-3)])

lemma ids_inv_grow:
  assumes "ids_inv db" "db_next_id db \<le> n" "db_withdrawal_nonce_seq db \<le> q"
  shows "ids_inv (db\<lparr>db_next_id := n, db_withdrawal_nonce_seq := q\<rparr>)"
  using assms numbered_mono [OF _ assms(2,3)] by (auto simp: ids_inv_def list_all_iff)

text \<open>\<open>appends\<close>: rows were only added, and the sequences only moved up.\<close>

definition appends :: "timestamp \<Rightarrow> ledger_db \<Rightarrow> ledger_db \<Rightarrow> bool" where
  "appends now db db' \<longleftrightarrow>
     (\<exists>new. db_transactions db' = db_transactions db @ new \<and> list_all (fresh_row now db) new)
     \<and> db_next_id db \<le> db_next_id db' \<and> db_withdrawal_nonce_seq db \<le> db_withdrawal_nonce_seq db'
     \<and> db_pending_release_signatures db' = db_pending_release_signatures db
     \<and> db_pending_remint_signatures db' = db_pending_remint_signatures db"

lemma appends_refl: "appends now db db"
  by (simp add: appends_def)

lemma appends_trans: "appends now db db1 \<Longrightarrow> appends now db1 db2 \<Longrightarrow> appends now db db2"
  by (fastforce simp: appends_def list_all_iff fresh_row_def)

lemma appends_evolves: "appends now db db' \<Longrightarrow> evolves now db db'"
  unfolding appends_def evolves_def using list_all2_refl [of "row_step now", OF row_step_refl] by blast

definition seq_after :: "db_transaction \<Rightarrow> ledger_db \<Rightarrow> int" where
  "seq_after r db = db_withdrawal_nonce_seq db + (if t_type r = WithdrawalTx then 1 else 0)"

lemma sql_insert_cases:
  obtains row where "t_id row = db_next_id db" "t_type row = t_type r"
    "t_withdrawal_nonce row = (if t_type r = WithdrawalTx then Some (db_withdrawal_nonce_seq db) else None)"
    "t_updated_at row = now" "t_status row = t_status r" "tx_identity row = tx_identity r"
    "sql_insert now r db = (let db1 = db\<lparr>db_next_id := db_next_id db + 1,
         db_withdrawal_nonce_seq := seq_after r db\<rparr> in
       if row_constraints (db_transactions db @ [row])
       then (Inr (db_next_id db), db1\<lparr>db_transactions := db_transactions db @ [row]\<rparr>)
       else (Inl ConstraintViolation, db1))"
proof -
  let ?row = "fst (assign_withdrawal_nonce (default_columns now (db_next_id db) r)
    (db\<lparr>db_next_id := db_next_id db + 1\<rparr>))"
  show ?thesis
    by (rule that [of ?row])
      (auto simp: assign_withdrawal_nonce_def default_columns_def tx_identity_def sql_insert_def
        seq_after_def Let_def)
qed

lemma sql_insert_appends: "appends now db (snd (sql_insert now r db))"
  by (cases rule: sql_insert_cases [of db r now]) (simp add: appends_def fresh_row_def seq_after_def Let_def)

lemma sql_insert_inv:
  assumes inv: "ids_inv db"
  shows "ids_inv (snd (sql_insert now r db))"
proof -
  from inv have below: "\<forall>x\<in>set (db_transactions db). t_id x < db_next_id db"
    "\<forall>n\<in>set (nonces (db_transactions db)). n < db_withdrawal_nonce_seq db"
    "0 \<le> db_withdrawal_nonce_seq db"
    by (auto simp: ids_inv_def list_all_iff numbered_def nonces_set split: option.splits)
  have up: "list_all (numbered (db_next_id db + 1) (seq_after r db)) (db_transactions db)"
    using inv numbered_mono [of "db_next_id db" "db_withdrawal_nonce_seq db" _ "db_next_id db + 1"
        "seq_after r db"]
    by (auto simp: ids_inv_def list_all_iff seq_after_def)
  show ?thesis
  proof (cases rule: sql_insert_cases [of db r now])
    case (1 row)
    then have "numbered (db_next_id db + 1) (seq_after r db) row"
      using below(3) by (simp add: numbered_def seq_after_def split: tx_type.split)
    then show ?thesis
      using inv below up 1 by (auto simp: ids_inv_def Let_def sorted_wrt_append seq_after_def)
  qed
qed

lemma insert_rows_appends: "appends now db (snd (insert_rows now rs db))"
proof (induction rs arbitrary: db)
  case (Cons r rs)
  show ?case
  proof (cases "find_identity r db")
    case None
    show ?thesis
    proof (cases "sql_insert now r db")
      case (Pair res db1)
      then have a: "appends now db db1" using sql_insert_appends [of now db r] by simp
      show ?thesis
        using None Pair a appends_trans [OF a Cons.IH [of db1]]
        by (cases res; cases "insert_rows now rs db1"; cases "fst (insert_rows now rs db1)")
          (auto split: sum.splits)
    qed
  next
    case (Some i)
    with Cons.IH [of db] show ?thesis by (cases "insert_rows now rs db") (auto split: sum.splits)
  qed
qed (simp add: appends_refl)

lemma insert_rows_inv: "ids_inv db \<Longrightarrow> ids_inv (snd (insert_rows now rs db))"
proof (induction rs arbitrary: db)
  case (Cons r rs)
  show ?case
  proof (cases "find_identity r db")
    case None
    show ?thesis
    proof (cases "sql_insert now r db")
      case (Pair res db1)
      then have a: "ids_inv db1" using sql_insert_inv [OF Cons.prems, of now r] by simp
      from Cons.IH [OF a] None Pair a show ?thesis
        by (cases res; cases "insert_rows now rs db1"; cases "fst (insert_rows now rs db1)")
          (auto split: sum.splits)
    qed
  next
    case (Some i)
    with Cons.IH [OF Cons.prems] show ?thesis
      by (cases "insert_rows now rs db") (auto split: sum.splits)
  qed
qed simp

lemma insert_calls_append:
  "appends now db (snd (insert_transaction now r db))"
  "appends now db (snd (insert_transactions_batch now rs db))"
proof -
  show "appends now db (snd (insert_transaction now r db))"
    by (auto simp: insert_transaction_def appends_refl sql_insert_appends split: option.split)
  show "appends now db (snd (insert_transactions_batch now rs db))"
    using insert_rows_appends [of now db rs]
    by (cases "insert_rows now rs db")
      (auto simp: insert_transactions_batch_def appends_def split: sum.split)
qed

lemma insert_calls_inv:
  assumes "ids_inv db"
  shows "ids_inv (snd (insert_transaction now r db))"
    "ids_inv (snd (insert_transactions_batch now rs db))"
proof -
  show "ids_inv (snd (insert_transaction now r db))"
    using assms by (auto simp: insert_transaction_def sql_insert_inv split: option.split)
  have "ids_inv (snd (insert_rows now rs db)\<lparr>db_transactions := db_transactions db\<rparr>)"
    using insert_rows_appends [of now db rs] assms
      numbered_mono [of "db_next_id db" "db_withdrawal_nonce_seq db"]
    by (auto simp: appends_def ids_inv_def list_all_iff)
  with insert_rows_inv [OF assms, of now rs]
  show "ids_inv (snd (insert_transactions_batch now rs db))"
    by (cases "insert_rows now rs db") (auto simp: insert_transactions_batch_def split: sum.split)
qed

lemma ids_inv_tracked: "ids_inv db \<Longrightarrow> tracked db' = tracked db \<Longrightarrow> ids_inv db'"
  by (simp add: ids_inv_def tracked_def)

lemma sorted_filter_nonces:
  "sorted_wrt (<) (nonces rows) \<Longrightarrow> sorted_wrt (<) (nonces (filter P rows))"
proof (induction rows)
  case (Cons r rows)
  have "set (nonces (filter P rows)) \<subseteq> set (nonces rows)" by (auto simp: nonces_set)
  with Cons show ?case by (auto split: option.splits if_splits)
qed simp

lemma wipe_cases:
  obtains "snd (wipe_program now p db) = db"
  | "db_transactions (snd (wipe_program now p db))
       = filter (\<lambda>r. t_type r \<noteq> owned_transaction_type p) (db_transactions db)"
    "db_next_id (snd (wipe_program now p db)) = db_next_id db"
    "db_withdrawal_nonce_seq (snd (wipe_program now p db))
       = (if p = Withdraw then 0 else db_withdrawal_nonce_seq db)"
    "db_pending_remint_signatures (snd (wipe_program now p db))
       = filter (\<lambda>s. \<not> list_ex (\<lambda>r. t_id r = ss_transaction_id s
           \<and> t_type r = owned_transaction_type p) (db_transactions db)) (db_pending_remint_signatures db)"
proof (cases "fst (wipe_program now p db) = Inr ()")
  case True
  then show ?thesis
    by (intro that(2)) (simp_all only: wipe_program_def Let_def split: if_splits, simp_all)
next
  case False
  then show ?thesis by (intro that(1)) (simp add: wipe_program_def Let_def split: if_splits)
qed

lemma wipe_inv:
  assumes "ids_inv db"
  shows "ids_inv (snd (wipe_program now p db))"
proof (cases rule: wipe_cases [of now p db])
  case 1
  with assms show ?thesis by simp
next
  case 2
  have none: "nonces (filter (\<lambda>r. t_type r \<noteq> WithdrawalTx) rows) = []" for rows
    by (induction rows) auto
  have ids: "sorted_wrt (<) (map t_id (filter P (db_transactions db)))"
    "sorted_wrt (<) (nonces (filter P (db_transactions db)))" for P
    using assms by (simp_all add: ids_inv_def sorted_wrt_map sorted_wrt_filter sorted_filter_nonces)
  show ?thesis
    using 2 ids none assms
    by (cases p) (auto simp: ids_inv_def list_all_iff numbered_def split: tx_type.splits)
qed

section \<open>Steps\<close>

lemma restamped_rows:
  assumes "\<And>r. P r \<Longrightarrow> status_edge (t_status r) (t_status r)"
  shows "list_all2 (row_step now) rows (map (\<lambda>r. if P r then r\<lparr>t_updated_at := now\<rparr> else r) rows)"
  using assms by (induction rows) (simp_all add: row_step_def permitted_def)

lemma other_fields:
  assumes "db' = db\<lparr>db_transactions := rows, db_pending_release_signatures := sigs\<rparr>
    \<or> db' = db\<lparr>db_transactions := rows, db_pending_remint_signatures := sigs\<rparr>"
  shows "db_next_id db' = db_next_id db" "db_withdrawal_nonce_seq db' = db_withdrawal_nonce_seq db"
  using assms by auto

lemma claim_granted_core:
  assumes "claim_and_persist_signature now i tok sig h bs db = (Inr (Some lease), db')"
  shows "list_all2 (row_step now) (db_transactions db) (db_transactions db')"
    "db_next_id db' = db_next_id db" "db_withdrawal_nonce_seq db' = db_withdrawal_nonce_seq db"
proof -
  show "list_all2 (row_step now) (db_transactions db) (db_transactions db')"
  proof (rule claim_granted_spec [OF assms])
    assume "db_transactions db'
      = map (\<lambda>r. if claimable i tok db r then r\<lparr>t_updated_at := now\<rparr> else r) (db_transactions db)"
    then show ?thesis
      using restamped_rows [of "claimable i tok db" now "db_transactions db"]
      by (simp add: claimable_def)
  qed
  show "db_next_id db' = db_next_id db" "db_withdrawal_nonce_seq db' = db_withdrawal_nonce_seq db"
    by (rule claim_granted_spec [OF assms], erule other_fields [OF disjI1])+
qed

lemma claim_remint_core:
  assumes "claim_remint_attempt now i sig h bs dead db = (res, db')"
  shows "list_all2 (row_step now) (db_transactions db) (db_transactions db')"
    "db_next_id db' = db_next_id db" "db_withdrawal_nonce_seq db' = db_withdrawal_nonce_seq db"
proof -
  show "list_all2 (row_step now) (db_transactions db) (db_transactions db')"
  proof (rule claim_remint_cases [OF assms])
    assume "db_transactions db'
      = map (\<lambda>t. if refundable i db t then t\<lparr>t_updated_at := now\<rparr> else t) (db_transactions db)"
    then show ?thesis
      using restamped_rows [of "refundable i db" now "db_transactions db"]
      by (simp add: refundable_def)
  qed (simp add: list_all2_refl)
  show "db_next_id db' = db_next_id db" "db_withdrawal_nonce_seq db' = db_withdrawal_nonce_seq db"
    by (rule claim_remint_cases [OF assms], simp, erule other_fields [OF disjI2])+
qed

text \<open>
  One step, whichever call it is. The journal of releases loses an entry only by request, with the
  wipe of its program, or when its row has reached a terminal status.
\<close>

definition keeps_journal :: "ledger_event \<Rightarrow> ledger_db \<Rightarrow> ledger_db \<Rightarrow> bool" where
  "keeps_journal ev db db' \<longleftrightarrow> (\<forall>i sig. journaled i sig db \<longrightarrow>
     journaled i sig db' \<or> ev = Forgot i \<or> is_terminal i db)"

definition one_live :: "ledger_db \<Rightarrow> bool" where
  "one_live db \<longleftrightarrow> (\<forall>i. length (live i (db_pending_remint_signatures db)) \<le> 1)"

definition sound_step :: "timestamp \<Rightarrow> ledger_event \<Rightarrow> ledger_db \<Rightarrow> ledger_db \<Rightarrow> bool" where
  "sound_step now ev db db' \<longleftrightarrow> ids_inv db' \<and> evolves now db db' \<and> keeps_journal ev db db'
     \<and> (one_live db \<longrightarrow> one_live db')"

lemma live_filter: "length (live i (filter P sigs)) \<le> length (live i sigs)"
  by (induction sigs) (auto simp: live_def)

lemma one_live_filter: "one_live db \<Longrightarrow>
    db_pending_remint_signatures db' = filter P (db_pending_remint_signatures db) \<Longrightarrow> one_live db'"
  unfolding one_live_def by (metis le_trans live_filter)

lemma live_retire:
  "length (live i (retire j dead sigs)) \<le> length (live i sigs)"
  by (induction sigs) (auto simp: live_def retire_def)

lemma sound_only_rows: "ids_inv db \<Longrightarrow> only_rows now db db' \<Longrightarrow> sound_step now ev db db'"
  by (auto simp: sound_step_def keeps_journal_def journaled_def one_live_def only_rows_core
      intro: ids_inv_only_rows only_rows_evolves)

lemma sound_appends: "ids_inv db' \<Longrightarrow> appends now db db' \<Longrightarrow> sound_step now ev db db'"
  by (simp add: sound_step_def keeps_journal_def journaled_def one_live_def appends_evolves)
    (simp add: appends_def)

lemma sound_same_rows:
  assumes "ids_inv db" "db_transactions db' = db_transactions db" "db_next_id db' = db_next_id db"
    "db_withdrawal_nonce_seq db' = db_withdrawal_nonce_seq db"
    and "keeps_journal ev db db'" "one_live db \<longrightarrow> one_live db'"
  shows "sound_step now ev db db'"
  using assms evolves_rows [of now db db'] by (simp add: sound_step_def ids_inv_def list_all2_refl)

lemma sound_tracked: "ids_inv db \<Longrightarrow> tracked db' = tracked db \<Longrightarrow> sound_step now ev db db'"
  by (rule sound_same_rows)
    (simp_all add: tracked_def keeps_journal_def journaled_def one_live_def)

lemma sound_journal_calls:
  assumes "ids_inv db"
  shows "sound_step now ev db (snd (insert_release_signature i sig h bs db))"
    "sound_step now (Forgot i) db (snd (delete_release_signatures i db))"
    "sound_step now (Forgot i) db (snd (delete_release_signature i sig db))"
    "sound_step now ev db (snd (delete_remint_signatures i db))"
    "sound_step now ev db (snd (gc_stale_release_signatures db))"
    "sound_step now ev db (snd (gc_stale_remint_signatures db))"
proof -
  note same = sound_same_rows [OF assms]
  note defs = insert_release_signature_def delete_release_signatures_def
    delete_release_signature_def delete_remint_signatures_def gc_stale_release_signatures_def
    gc_stale_remint_signatures_def keeps_journal_def journaled_def Let_def
  show "sound_step now ev db (snd (insert_release_signature i sig h bs db))"
    "sound_step now (Forgot i) db (snd (delete_release_signatures i db))"
    "sound_step now (Forgot i) db (snd (delete_release_signature i sig db))"
    "sound_step now ev db (snd (gc_stale_release_signatures db))"
    by (rule same; auto simp: defs one_live_def)+
  show "sound_step now ev db (snd (delete_remint_signatures i db))"
    "sound_step now ev db (snd (gc_stale_remint_signatures db))"
    by (rule same; auto simp: defs intro: one_live_filter)+
qed

lemma sound_claim:
  assumes inv: "ids_inv db"
    and run: "claim_and_persist_signature now i tok sig h bs db = (Inr (Some lease), db')"
  shows "sound_step now ev db db'"
proof -
  note core = claim_granted_core [OF run]
  have "keeps_journal ev db db' \<and> db_pending_remint_signatures db' = db_pending_remint_signatures db"
  proof (rule claim_granted_spec [OF run])
    assume rest: "db' = db\<lparr>db_transactions := db_transactions db',
        db_pending_release_signatures := db_pending_release_signatures db'\<rparr>"
      and "db_pending_release_signatures db'
       = (if \<exists>s\<in>set (db_pending_release_signatures db). ss_signature s = sig
          then db_pending_release_signatures db
          else db_pending_release_signatures db @ [\<lparr>ss_transaction_id = i, ss_signature = sig,
            ss_last_valid_block_height = h, ss_blockhash_slot = bs, ss_superseded = False\<rparr>])"
    then have "set (db_pending_release_signatures db) \<subseteq> set (db_pending_release_signatures db')"
      by (simp only: split: if_splits) auto
    moreover have "db_pending_remint_signatures db' = db_pending_remint_signatures db"
      by (subst rest) simp
    ultimately show ?thesis by (auto simp: keeps_journal_def journaled_def)
  qed
  with inv core show ?thesis
    by (simp add: sound_step_def one_live_def evolves_rows ids_inv_core rows_step_core)
qed

lemma one_live_granted:
  assumes "one_live db" "live i (retire i dead (db_pending_remint_signatures db)) = []"
    and "db_pending_remint_signatures db' = retire i dead (db_pending_remint_signatures db) @ [s]"
    and "ss_transaction_id s = i"
  shows "one_live db'"
proof -
  have "length (live j (db_pending_remint_signatures db')) \<le> 1" for j
  proof (cases "j = i")
    case True
    with assms show ?thesis by (simp add: live_def)
  next
    case False
    have "length (live j (retire i dead (db_pending_remint_signatures db))) \<le> 1"
      using le_trans [OF live_retire] assms(1) by (simp add: one_live_def)
    with False assms(3,4) show ?thesis by (simp add: live_def)
  qed
  then show ?thesis by (simp add: one_live_def)
qed

lemma sound_remint:
  assumes inv: "ids_inv db" and run: "claim_remint_attempt now i sig h bs dead db = (res, db')"
  shows "sound_step now ev db db'"
proof -
  note core = claim_remint_core [OF run]
  have "keeps_journal ev db db' \<and> (one_live db \<longrightarrow> one_live db')"
  proof (rule claim_remint_cases [OF run])
    assume rest: "db' = db\<lparr>db_transactions := db_transactions db',
       db_pending_remint_signatures := db_pending_remint_signatures db'\<rparr>"
      and sigs: "res = Inr HeldElsewhere
          \<and> db_pending_remint_signatures db' = retire i dead (db_pending_remint_signatures db)
        \<or> res = Inr Claimed \<and> live i (retire i dead (db_pending_remint_signatures db)) = []
          \<and> (\<forall>s\<in>set (db_pending_remint_signatures db). ss_signature s \<noteq> sig)
          \<and> db_pending_remint_signatures db' = retire i dead (db_pending_remint_signatures db)
             @ [\<lparr>ss_transaction_id = i, ss_signature = sig, ss_last_valid_block_height = h,
                 ss_blockhash_slot = bs, ss_superseded = False\<rparr>]"
    have "db_pending_release_signatures db' = db_pending_release_signatures db"
      by (subst rest) simp
    then have "keeps_journal ev db db'" by (simp add: keeps_journal_def journaled_def)
    moreover have "one_live db'" if "one_live db"
      using sigs
    proof (elim disjE conjE)
      assume "db_pending_remint_signatures db' = retire i dead (db_pending_remint_signatures db)"
      with that le_trans [OF live_retire] show ?thesis by (simp add: one_live_def)
    qed (rule one_live_granted [OF that], assumption+, simp)
    ultimately show ?thesis by simp
  qed (simp add: keeps_journal_def)
  with inv core show ?thesis by (simp add: sound_step_def evolves_rows ids_inv_core rows_step_core)
qed

lemma step_sound:
  assumes "ledger_step now ev db db'" "ids_inv db" "\<nexists>p. ev = Wiped p"
  shows "sound_step now ev db db'"
  using assms
  by (cases rule: ledger_step.cases)
    (simp_all add: sound_only_rows rows_of_call ids_inv_distinct sound_tracked untracked_calls
      sound_journal_calls sound_appends insert_calls_append insert_calls_inv sound_claim sound_remint)

text \<open>What a wipe keeps: it only removes rows and journal entries.\<close>

lemma wipe_step:
  assumes "ledger_step now (Wiped p) db db'"
  shows "set (db_transactions db') \<subseteq> set (db_transactions db)" "db_next_id db' = db_next_id db"
    "one_live db \<Longrightarrow> one_live db'" "ids_inv db \<Longrightarrow> ids_inv db'"
proof -
  from assms have db': "db' = snd (wipe_program now p db)" by (cases rule: ledger_step.cases) auto
  show "set (db_transactions db') \<subseteq> set (db_transactions db)" "db_next_id db' = db_next_id db"
    by (cases rule: wipe_cases [of now p db], auto simp: db')+
  show "one_live db'" if "one_live db"
    using that by (cases rule: wipe_cases [of now p db]) (auto simp: db' intro: one_live_filter)
  show "ids_inv db'" if "ids_inv db" using that by (simp add: db' wipe_inv)
qed

section \<open>Runs\<close>

lemma run_invariants:
  assumes "ledger_run t db evs t' db'" "ids_inv db" "one_live db"
  shows "ids_inv db' \<and> one_live db'"
  using assms
proof (induction rule: ledger_run.induct)
  case (step t db evs t' db' now ev db'')
  then show ?case
    using step_sound [of now ev db' db''] wipe_step [of now _ db' db'']
    by (cases ev) (auto simp: sound_step_def)
qed simp

lemma empty_invariants: "ids_inv empty_db" "one_live empty_db"
  by (simp_all add: empty_db_def ids_inv_def one_live_def live_def)

lemmas reachable_invariants = run_invariants [OF _ empty_invariants]

text \<open>What remains true of a row.\<close>

definition later :: "db_transaction \<Rightarrow> db_transaction \<Rightarrow> bool" where
  "later r r' \<longleftrightarrow> row_core r' = row_core r
     \<and> (t_status r \<in> set TERMINAL_STATUSES \<longrightarrow> r' = r)
     \<and> (t_status r = ManualReview \<longrightarrow> r' = r \<or> t_status r' = Completed)"

lemma later_refl: "later r r"
  by (simp add: later_def)

lemma later_trans: "later a b \<Longrightarrow> later b c \<Longrightarrow> later a c"
  unfolding later_def by (metis TERMINAL_STATUSES_def list.set_intros(1))

lemma row_step_later: "row_step now r r' \<Longrightarrow> later r r'"
  by (cases "t_status r") (auto simp: row_step_def permitted_def later_def TERMINAL_STATUSES_def)

lemma evolves_later:
  assumes "evolves now db db'" "r \<in> set (db_transactions db)"
  obtains r' where "r' \<in> set (db_transactions db')" "later r r'"
proof -
  from assms(1) obtain upd new where rows: "db_transactions db' = upd @ new"
    "list_all2 (row_step now) (db_transactions db) upd" by (auto simp: evolves_def)
  from rows(2) assms(2) obtain r' where "r' \<in> set upd" "row_step now r r'"
    by (metis list_all2_iff in_set_impl_in_set_zip1 in_set_zipE case_prodD)
  then show ?thesis using rows(1) that row_step_later by auto
qed

lemma no_wipe_append [simp]: "no_wipe (evs @ [ev]) \<longleftrightarrow> no_wipe evs \<and> (\<nexists>p. ev = Wiped p)"
  by (auto simp: no_wipe_def)

lemma run_later:
  assumes "ledger_run t db evs t' db'" "ids_inv db" "one_live db" "no_wipe evs"
    and "r \<in> set (db_transactions db)"
  shows "\<exists>r'\<in>set (db_transactions db'). later r r'"
  using assms
proof (induction rule: ledger_run.induct)
  case (start t db)
  then show ?case using later_refl by blast
next
  case (step t db evs t' db' now ev db'')
  then obtain r1 where r1: "r1 \<in> set (db_transactions db')" "later r r1" by auto
  from step have "sound_step now ev db' db''"
    using run_invariants [OF step.hyps(1)] by (intro step_sound) auto
  then obtain r2 where "r2 \<in> set (db_transactions db'')" "later r1 r2"
    using r1(1) evolves_later by (metis sound_step_def)
  with r1(2) show ?case using later_trans by blast
qed

lemma terminal_stays:
  assumes "evolves now db db'" "is_terminal i db"
  shows "is_terminal i db'"
proof -
  from assms(2) obtain r where r: "r \<in> set (db_transactions db)" "t_id r = i"
    "t_status r \<in> set TERMINAL_STATUSES" by (auto simp: is_terminal_def list_ex_iff)
  from evolves_later [OF assms(1) r(1)] obtain r' where "r' \<in> set (db_transactions db')" "later r r'" .
  with r show ?thesis by (auto simp: is_terminal_def list_ex_iff later_def)
qed

lemma run_journal:
  assumes "ledger_run t db evs t' db'" "ids_inv db" "one_live db" "no_wipe evs" "Forgot i \<notin> set evs"
    and "journaled i sig db \<or> is_terminal i db"
  shows "journaled i sig db' \<or> is_terminal i db'"
  using assms
proof (induction rule: ledger_run.induct)
  case (step t db evs t' db' now ev db'')
  then have "sound_step now ev db' db''"
    using run_invariants [OF step.hyps(1)] by (intro step_sound) auto
  with step show ?case by (auto simp: sound_step_def keeps_journal_def dest: terminal_stays)
qed simp

text \<open>
  Grants of a run. A grant restamps its row, so every later version of the row is younger than the
  token the grant consumed.
\<close>

fun grants :: "ledger_event list \<Rightarrow> (int \<times> timestamp) list" where
  "grants [] = []"
| "grants (Granted i tok # evs) = (i, tok) # grants evs"
| "grants (_ # evs) = grants evs"

definition spent :: "timestamp \<Rightarrow> (int \<times> timestamp) list \<Rightarrow> ledger_db \<Rightarrow> bool" where
  "spent t gs db \<longleftrightarrow>
     (\<forall>r\<in>set (db_transactions db). t_updated_at r \<le> t)
     \<and> (\<forall>(i, tok)\<in>set gs. i < db_next_id db \<and> tok < t
          \<and> (\<forall>r\<in>set (db_transactions db). t_id r = i \<longrightarrow> tok < t_updated_at r))"

lemma grants_append: "grants (xs @ ys) = grants xs @ grants ys"
  by (induction xs rule: grants.induct) simp_all

lemma evolves_origin:
  assumes "evolves now db db'" "r' \<in> set (db_transactions db')"
  shows "(\<exists>r\<in>set (db_transactions db). row_step now r r') \<or> fresh_row now db r'"
proof -
  from assms(1) obtain upd new where rows: "db_transactions db' = upd @ new"
    "list_all2 (row_step now) (db_transactions db) upd" "list_all (fresh_row now db) new"
    by (auto simp: evolves_def)
  show ?thesis
  proof (cases "r' \<in> set upd")
    case True
    with rows(2) show ?thesis
      by (metis list_all2_iff in_set_impl_in_set_zip2 in_set_zipE case_prodD)
  next
    case False
    with rows assms(2) show ?thesis by (auto simp: list_all_iff)
  qed
qed

lemma spent_evolves:
  assumes sp: "spent t gs db" and ev: "evolves now db db'" and "t < now"
  shows "spent now gs db'"
proof -
  have origin: "t_updated_at r' = now \<or> r' \<in> set (db_transactions db)"
    if "r' \<in> set (db_transactions db')" for r'
    using evolves_origin [OF ev that] by (auto simp: row_step_def fresh_row_def)
  have "db_next_id db \<le> db_next_id db'" using ev by (simp add: evolves_def)
  then show ?thesis
    using sp origin \<open>t < now\<close> by (fastforce simp: spent_def)
qed

lemma spent_subset:
  assumes "spent t gs db" "set (db_transactions db') \<subseteq> set (db_transactions db)"
    and "db_next_id db' = db_next_id db" "t < now"
  shows "spent now gs db'"
  using assms by (fastforce simp: spent_def)

lemma grant_spends:
  assumes sp: "spent t gs db" and inv: "ids_inv db" and "t < now"
    and run: "claim_and_persist_signature now i tok sig h bs db = (Inr (Some lease), db')"
  shows "(i, tok) \<notin> set gs" "spent now (gs @ [(i, tok)]) db'"
proof -
  have "evolves now db db'" using sound_claim [OF inv run] by (simp add: sound_step_def)
  from spent_evolves [OF sp this \<open>t < now\<close>] have sp': "spent now gs db'" .
  show "(i, tok) \<notin> set gs"
    by (rule claim_granted_spec [OF run]) (use sp in \<open>auto simp: spent_def claimable_def\<close>)
  show "spent now (gs @ [(i, tok)]) db'"
  proof (rule claim_granted_spec [OF run])
    fix r assume r: "r \<in> set (db_transactions db)" "claimable i tok db r"
      and rows: "db_transactions db'
        = map (\<lambda>r. if claimable i tok db r then r\<lparr>t_updated_at := now\<rparr> else r) (db_transactions db)"
    have tok: "tok < now" "i < db_next_id db'"
      using sp r \<open>t < now\<close> inv claim_granted_core(2) [OF run]
      by (fastforce simp: spent_def claimable_def ids_inv_def list_all_iff numbered_def)+
    have "x = r" if "x \<in> set (db_transactions db)" "t_id x = i" for x
      using that r ids_inv_distinct [OF inv] by (auto simp: claimable_def distinct_map inj_on_def)
    then have "\<forall>x\<in>set (db_transactions db'). t_id x = i \<longrightarrow> t_updated_at x = now"
      using r(2) by (auto simp: rows)
    with tok sp' show ?thesis by (auto simp: spent_def)
  qed
qed

lemma run_grants:
  assumes "ledger_run t0 empty_db evs t db"
  shows "spent t (grants evs) db \<and> distinct (grants evs)"
  using assms
proof (induction t0 "empty_db" evs t db rule: ledger_run.induct)
  case (start t)
  then show ?case by (simp add: spent_def empty_db_def)
next
  case (step t evs t' db' now ev db'')
  then have inv: "ids_inv db'" using reachable_invariants by blast
  show ?case
  proof (cases ev)
    case (Granted i tok)
    with step.hyps(4) obtain sig h bs lease where
      "claim_and_persist_signature now i tok sig h bs db' = (Inr (Some lease), db'')"
      by (cases rule: ledger_step.cases) auto
    from grant_spends [OF _ inv step.hyps(3) this] step.hyps(2) Granted show ?thesis
      by (simp add: grants_append)
  next
    case (Wiped p)
    with step.hyps spent_subset [of t' "grants evs" db' db'' now] wipe_step(1,2) [of now p db' db'']
    show ?thesis by (simp add: grants_append)
  qed (use step.hyps inv step_sound [of now ev db' db''] spent_evolves in
      \<open>auto simp: grants_append sound_step_def\<close>)
qed

section \<open>A withdrawal, step by step\<close>

definition demo_withdrawal :: db_transaction where
  "demo_withdrawal = the (DbTransactionBuilder_build 1 ''t''
     ((DbTransactionBuilder_new ''s'' 9 ''m'' 500)\<lparr>tb_initiator := Some ''u'', tb_recipient := Some ''d'',
       tb_transaction_type := Some WithdrawalTx\<rparr>))"

definition demo_inserted :: ledger_db where
  "demo_inserted = snd (insert_transaction 1 demo_withdrawal empty_db)"

definition demo_locked :: ledger_db where
  "demo_locked = snd (get_and_lock_pending_transactions (\<lambda>_. False) 2 WithdrawalTx 10 demo_inserted)"

definition demo_claimed :: ledger_db where
  "demo_claimed = snd (claim_and_persist_signature 3 1 2 ''a'' 70 None demo_locked)"

definition demo_completed :: ledger_db where
  "demo_completed = snd (try_complete_processing 4 1 3 (Some ''a'') None demo_claimed)"

definition demo_refunding :: ledger_db where
  "demo_refunding = snd (set_pending_remint 4 1 [''a''] [70] 60 False demo_claimed)"

lemmas demo_ledger_defs = demo_withdrawal_def demo_inserted_def demo_locked_def demo_claimed_def
  demo_completed_def demo_refunding_def

lemma demo_claim: "claim_and_persist_signature 3 1 2 ''a'' 70 None demo_locked = (Inr (Some 3), demo_claimed)"
proof (rule prod_eqI)
  show "fst (claim_and_persist_signature 3 1 2 ''a'' 70 None demo_locked)
      = fst (Inr (Some 3) :: db_error + timestamp option, demo_claimed)" by code_simp
qed (simp add: demo_claimed_def)

lemma one_call: "t < now \<Longrightarrow> ledger_step now ev db db' \<Longrightarrow> ledger_run t db [ev] now db'"
  using ledger_run.step [OF ledger_run.start, of t now ev db db'] by simp

lemma demo_run_locked: "ledger_run 0 empty_db [Wrote, Wrote] 2 demo_locked"
proof -
  have "ledger_run 0 empty_db [Wrote] 1 demo_inserted"
    unfolding demo_inserted_def by (rule one_call [OF _ insert]) simp
  from ledger_run.step [OF this _ lock, of 2 "\<lambda>_. False" WithdrawalTx 10] show ?thesis
    by (simp add: demo_locked_def)
qed

lemma demo_run_claimed: "ledger_run 0 empty_db [Wrote, Wrote, Granted 1 2] 3 demo_claimed"
  using ledger_run.step [OF demo_run_locked _ claim_granted [OF demo_claim]] by simp

lemma demo_run_completed:
  "ledger_run 0 empty_db [Wrote, Wrote, Granted 1 2, Wrote] 4 demo_completed"
  using ledger_run.step [OF demo_run_claimed _ complete, of 4 1 3 "Some ''a''" None]
  by (simp add: demo_completed_def)

lemma demo_run_refunding:
  "ledger_run 0 empty_db [Wrote, Wrote, Granted 1 2, Wrote] 4 demo_refunding"
  using ledger_run.step [OF demo_run_claimed _ pending_remint, of 4 1 "[''a'']" "[70]" 60 False]
  by (simp add: demo_refunding_def)

section \<open>Properties\<close>

text \<open>
  C5. Payment rows are final once settled: along any later run of database calls without a wipe, a
  row keeps its identity, parties, mint, amount, nonce and creation time; a row that is completed,
  failed or reminted never changes at all, and one under manual review can only become completed.
\<close>

theorem settled_rows_are_final:
  assumes "ledger_run t0 empty_db evs0 t db" "ledger_run t db evs t' db'" "no_wipe evs"
    and "r \<in> set (db_transactions db)"
  shows "\<exists>r'\<in>set (db_transactions db'). row_core r' = row_core r
    \<and> (t_status r \<in> {Completed, Failed, FailedReminted} \<longrightarrow> r' = r)
    \<and> (t_status r = ManualReview \<longrightarrow> r' = r \<or> t_status r' = Completed)"
  using run_later [OF assms(2) _ _ assms(3,4)] reachable_invariants [OF assms(1)]
  by (simp add: later_def TERMINAL_STATUSES_def)

theorem settled_rows_are_final_witness:
  "\<exists>r\<in>set (db_transactions demo_completed). t_status r = Completed
    \<and> (\<exists>r'\<in>set (db_transactions (snd (set_pending_remint 5 1 [''a''] [70] 60 False demo_completed))).
         r' = r)"
proof -
  let ?after = "snd (set_pending_remint 5 1 [''a''] [70] 60 False demo_completed)"
  have "map t_status (db_transactions demo_completed) = [Completed]" by code_simp
  then obtain r where r: "r \<in> set (db_transactions demo_completed)" "t_status r = Completed" by auto
  have "ledger_run 4 demo_completed [Wrote] 5 ?after"
    by (rule one_call [OF _ pending_remint]) simp
  from settled_rows_are_final [OF demo_run_completed this _ r(1)] r show ?thesis
    by (auto simp: no_wipe_def)
qed

text \<open>
  C10. A lease is granted once: over every run of the database, no claim of a row is granted twice for
  the same version of the row, so of any operators holding the same token at most one may broadcast.
\<close>

theorem lease_is_exclusive:
  assumes "ledger_run t0 empty_db evs t db"
  shows "distinct (grants evs)"
  using run_grants [OF assms] by simp

theorem lease_is_exclusive_witness: "distinct (grants [Wrote, Wrote, Granted 1 2])"
  by (rule lease_is_exclusive [OF demo_run_claimed])

text \<open>
  C11. At most one refund attempt is open per withdrawal in every reachable database, and a further
  attempt is granted only for a withdrawal awaiting its refund whose release has not been observed,
  after which it is the only one open.
\<close>

theorem one_open_refund_attempt:
  assumes "ledger_run t0 empty_db evs t db"
  shows "length (live i (db_pending_remint_signatures db)) \<le> 1
    \<and> (claim_remint_attempt now i sig h bs dead db = (Inr Claimed, db') \<longrightarrow>
        (\<exists>r\<in>set (db_transactions db). t_id r = i \<and> t_type r = WithdrawalTx
           \<and> t_status r = PendingRemint \<and> \<not> release_observed r db)
        \<and> map ss_signature (live i (db_pending_remint_signatures db')) = [sig])"
proof (intro conjI impI)
  show "length (live i (db_pending_remint_signatures db)) \<le> 1"
    using reachable_invariants [OF assms] by (simp add: one_live_def)
  assume run: "claim_remint_attempt now i sig h bs dead db = (Inr Claimed, db')"
  show "\<exists>r\<in>set (db_transactions db). t_id r = i \<and> t_type r = WithdrawalTx
      \<and> t_status r = PendingRemint \<and> \<not> release_observed r db"
    by (rule claim_remint_cases [OF run]) (auto simp: refundable_def)
  show "map ss_signature (live i (db_pending_remint_signatures db')) = [sig]"
    by (rule claim_remint_cases [OF run]) (auto simp: live_def)
qed

theorem one_open_refund_attempt_witness:
  "map ss_signature (live 1 (db_pending_remint_signatures
     (snd (claim_remint_attempt 5 1 ''b'' 80 None [] demo_refunding)))) = [''b'']"
proof -
  have "fst (claim_remint_attempt 5 1 ''b'' 80 None [] demo_refunding) = Inr Claimed" by code_simp
  then have "claim_remint_attempt 5 1 ''b'' 80 None [] demo_refunding
      = (Inr Claimed, snd (claim_remint_attempt 5 1 ''b'' 80 None [] demo_refunding))"
    by (intro prod_eqI) simp_all
  with one_open_refund_attempt [OF demo_run_refunding, of 1 5 "''b''" 80 None "[]"
      "snd (claim_remint_attempt 5 1 ''b'' 80 None [] demo_refunding)"]
  show ?thesis by simp
qed

text \<open>
  C28. Withdrawal nonces are never reused: in every reachable database the nonces of the withdrawal
  rows strictly increase in the order of insertion, every withdrawal has one below the sequence, and
  no deposit has one, whatever inserts were refused or rolled back in between.
\<close>

theorem withdrawal_nonces_are_unique:
  assumes "ledger_run t0 empty_db evs t db"
  shows "sorted_wrt (<) (nonces (db_transactions db))
    \<and> (\<forall>r\<in>set (db_transactions db). case t_type r of
         WithdrawalTx \<Rightarrow> (\<exists>n. t_withdrawal_nonce r = Some n \<and> 0 \<le> n \<and> n < db_withdrawal_nonce_seq db)
       | DepositTx \<Rightarrow> t_withdrawal_nonce r = None)"
  using reachable_invariants [OF assms]
  by (auto simp: ids_inv_def list_all_iff numbered_def split: tx_type.splits option.splits)

theorem withdrawal_nonces_are_unique_witness:
  "sorted_wrt (<) (nonces (db_transactions demo_claimed)) \<and> nonces (db_transactions demo_claimed) = [0]"
proof -
  have "nonces (db_transactions demo_claimed) = [0]" by code_simp
  with withdrawal_nonces_are_unique [OF demo_run_claimed] show ?thesis by simp
qed

text \<open>
  C29. A broadcast stays on record: once a claim is granted, its signature is in the journal, and
  whatever calls follow it stays there until the row is settled, unless an operator removes it or the
  program is wiped.
\<close>

theorem broadcast_stays_on_record:
  assumes "ledger_run t0 empty_db evs0 t db"
    and "claim_and_persist_signature now i tok sig h bs db = (Inr (Some lease), db1)" "t < now"
    and "\<forall>s\<in>set (db_pending_release_signatures db). ss_signature s = sig \<longrightarrow> ss_transaction_id s = i"
    and "ledger_run now db1 evs t' db'" "no_wipe evs" "Forgot i \<notin> set evs"
  shows "journaled i sig db' \<or> is_terminal i db'"
proof (rule run_journal [OF assms(5) _ _ assms(6,7)])
  from step [OF assms(1) assms(3) claim_granted [OF assms(2)]] reachable_invariants
  show "ids_inv db1" "one_live db1" by blast+
  show "journaled i sig db1 \<or> is_terminal i db1"
    by (rule claim_granted_spec [OF assms(2)]) (use assms(4) in \<open>auto simp: journaled_def\<close>)
qed

theorem broadcast_stays_on_record_witness:
  "journaled 1 ''a'' demo_refunding \<or> is_terminal 1 demo_refunding"
proof -
  have "ledger_run 3 demo_claimed [Wrote] 4 demo_refunding"
    unfolding demo_refunding_def by (rule one_call [OF _ pending_remint]) simp
  moreover have "db_pending_release_signatures demo_locked = []" by code_simp
  ultimately show ?thesis
    using broadcast_stays_on_record [OF demo_run_locked demo_claim, of "[Wrote]" 4 demo_refunding]
    by (simp add: no_wipe_def)
qed

end
