(* ===== verification/Channel_Mints.thy ===== *)
theory Channel_Mints
  imports Ledger_Queries Indexer_Decoder "HOL-Library.AList"
begin

text \<open>
  The mints an operator has already made on the channel
  (\<open>indexer/src/operator/sender/mint.rs\<close>, the source-event ids and memos of
  \<open>operator/utils/instruction_util.rs\<close> and the paginated listing of \<open>operator/utils/rpc_util.rs\<close>):
  reading one back from a transaction, walking a history into the consumed set, the cache the
  operators consult before they pay, and the creation of a channel mint on first use.

  What the SDK and the token crates compute are fields of \<open>channel_sdk\<close>; each RPC answer is an
  argument. A \<open>HashMap\<close> is the list of its entries in the order they were inserted, which is one of
  the orders its iteration may have. An error message is a constructor with the values it prints.
  The storage calls answer; what happens when the database is unreachable is not modelled here.
\<close>

section \<open>What comes from outside the repository\<close>

datatype token_ix = MintTo_tix u64 | MintToChecked_tix u64 u8 | Other_tix

datatype unpack_error = UninitializedAccount | OtherUnpackError

record channel_sdk = sdk +
  os_signature_from_str :: "string \<Rightarrow> bytes option"
  os_bs58_encode :: "bytes \<Rightarrow> string"
  os_hashv :: "bytes list \<Rightarrow> bytes"
  os_ata :: "address \<Rightarrow> address \<Rightarrow> address \<Rightarrow> address" \<comment> \<open>owner, mint, token program\<close>
  os_memo_id :: address
  os_token_unpack :: "bytes \<Rightarrow> token_ix option"
  os_token_2022_unpack :: "bytes \<Rightarrow> token_ix option"
  os_mint_unpack :: "bytes \<Rightarrow> unpack_error + address option \<times> address option"
    \<comment> \<open>mint authority and permanent delegate\<close>
  os_channel_mint_len :: nat

definition pubkey_to_string :: "'c channel_sdk_scheme \<Rightarrow> address \<Rightarrow> string" where
  "pubkey_to_string os key = os_bs58_encode os (address_bytes key)"

definition signature_to_string :: "'c channel_sdk_scheme \<Rightarrow> bytes \<Rightarrow> string" where
  "signature_to_string os signature = os_bs58_encode os signature"

text \<open>Base58 text and the digest, as their crates document them.\<close>

definition channel_sdk_contract :: "'c channel_sdk_scheme \<Rightarrow> bool" where
  "channel_sdk_contract os \<longleftrightarrow>
     (\<forall>bs. cr_bs58_decode os (os_bs58_encode os bs) = Some bs)
     \<and> (\<forall>bs. list_all (\<lambda>c. c \<noteq> CHR '';'') (os_bs58_encode os bs))
     \<and> (\<forall>k. sd_pubkey_from_str os (os_bs58_encode os (address_bytes k)) = Some k)
     \<and> (\<forall>bs. length bs = 64 \<longrightarrow> os_signature_from_str os (os_bs58_encode os bs) = Some bs)
     \<and> (\<forall>xs. length (os_hashv os xs) = 32)"

section \<open>Strings\<close>

definition strip_prefix :: "'a list \<Rightarrow> 'a list \<Rightarrow> 'a list option" where
  "strip_prefix p s = (if take (length p) s = p then Some (drop (length p) s) else None)"

text \<open>\<open>str::split_once\<close> and \<open>str::split\<close> for a separator that is not empty.\<close>

fun split_once :: "'a list \<Rightarrow> 'a list \<Rightarrow> ('a list \<times> 'a list) option" where
  "split_once sep s =
     (case strip_prefix sep s of
        Some rest \<Rightarrow> Some ([], rest)
      | None \<Rightarrow> (case s of [] \<Rightarrow> None | c # s' \<Rightarrow> map_option (apfst ((#) c)) (split_once sep s')))"

declare split_once.simps [simp del]

function split_str :: "'a list \<Rightarrow> 'a list \<Rightarrow> 'a list list" where
  "split_str sep s =
     (if sep = [] then [s]
      else case split_once sep s of None \<Rightarrow> [s] | Some (piece, rest) \<Rightarrow> piece # split_str sep rest)"
  by pat_completeness auto

lemma split_once_eq:
  "split_once sep s = Some (piece, rest) \<Longrightarrow> s = piece @ sep @ rest"
proof (induction sep s arbitrary: piece rest rule: split_once.induct)
  case (1 sep s)
  show ?case
  proof (cases "strip_prefix sep s")
    case None
    with "1.prems" obtain c s' p where s: "s = c # s'" "split_once sep s' = Some (p, rest)" "piece = c # p"
      by (auto simp: split_once.simps [of sep s] split: list.splits)
    with "1.IH" [OF None s(1,2)] show ?thesis by simp
  next
    case (Some r)
    then have "s = sep @ r" by (metis strip_prefix_def append_take_drop_id option.discI option.inject)
    with Some "1.prems" show ?thesis by (simp add: split_once.simps [of sep "sep @ r"])
  qed
qed

termination split_str
  by (relation "measure (\<lambda>(sep, s). length s)") (auto dest: split_once_eq)

declare split_str.simps [simp del]

definition is_ascii_digit :: "char \<Rightarrow> bool" where
  "is_ascii_digit c \<longleftrightarrow> 48 \<le> (of_char c :: nat) \<and> (of_char c :: nat) \<le> 57"

text \<open>\<open>str::parse::<u64>\<close>: an optional plus sign, at least one digit, no overflow.\<close>

fun digits_value :: "string \<Rightarrow> nat \<Rightarrow> nat option" where
  "digits_value [] acc = Some acc"
| "digits_value (c # cs) acc =
     (if is_ascii_digit c then digits_value cs (10 * acc + (of_char c - 48)) else None)"

definition parse_u64 :: "string \<Rightarrow> u64 option" where
  "parse_u64 s =
     (let ds = (case s of [] \<Rightarrow> [] | c # cs \<Rightarrow> if c = CHR ''+'' then cs else s) in
      if ds = [] then None
      else case digits_value ds 0 of
        None \<Rightarrow> None
      | Some n \<Rightarrow> if n < 2 ^ 64 then Some (of_nat n) else None)"

section \<open>Source events (instruction_util.rs)\<close>

definition MINT_IDEMPOTENCY_MEMO_PREFIX :: string where
  "MINT_IDEMPOTENCY_MEMO_PREFIX = ''private_channel:mint-idempotency:''"

definition REMINT_IDEMPOTENCY_MEMO_PREFIX :: string where
  "REMINT_IDEMPOTENCY_MEMO_PREFIX = ''private_channel:remint:''"

definition NO_INNER_INDEX :: int where "NO_INNER_INDEX = -1"

definition SOURCE_EVENT_ID_DIGEST_LEN :: nat where "SOURCE_EVENT_ID_DIGEST_LEN = 32"

definition i32_le :: "int \<Rightarrow> bytes" where
  "i32_le i = le_of_nat 4 (unat (word_of_int i :: u32))"

definition SourceEventId_new :: "'c channel_sdk_scheme \<Rightarrow> string \<Rightarrow> int \<Rightarrow> int option \<Rightarrow> string" where
  "SourceEventId_new os signature instruction_index inner_index =
     os_bs58_encode os (os_hashv os
       [bytes_of_string signature, i32_le instruction_index,
        i32_le (case inner_index of Some i \<Rightarrow> i | None \<Rightarrow> NO_INNER_INDEX)])"

definition SourceEventId_from_row :: "'c channel_sdk_scheme \<Rightarrow> db_transaction \<Rightarrow> string" where
  "SourceEventId_from_row os r =
     SourceEventId_new os (t_signature r) (t_instruction_index r) (t_inner_index r)"

definition SourceEventId_from_encoded :: "'c channel_sdk_scheme \<Rightarrow> string \<Rightarrow> string option" where
  "SourceEventId_from_encoded os value =
     (case cr_bs58_decode os value of
        Some bs \<Rightarrow> if length bs = SOURCE_EVENT_ID_DIGEST_LEN then Some value else None
      | None \<Rightarrow> None)"

definition idempotency_memo :: "string \<Rightarrow> string \<Rightarrow> string" where
  "idempotency_memo prefix event_id = prefix @ event_id"

definition mint_idempotency_memo :: "string \<Rightarrow> string" where
  "mint_idempotency_memo source_event_id = idempotency_memo MINT_IDEMPOTENCY_MEMO_PREFIX source_event_id"

definition remint_idempotency_memo :: "string \<Rightarrow> string" where
  "remint_idempotency_memo source_event_id =
     idempotency_memo REMINT_IDEMPOTENCY_MEMO_PREFIX source_event_id"

section \<open>Reading a mint back\<close>

datatype consumed_mint_kind = DepositMint | RemintMint

record consumed_mint =
  cs_signature :: bytes
  cs_kind :: consumed_mint_kind
  cs_mint :: address
  cs_recipient_ata :: address
  cs_token_program :: address
  cs_amount :: u64

type_synonym consumed_set = "(string \<times> consumed_mint) list"

record mint_to_fields =
  mtf_mint :: address
  mtf_recipient_ata :: address
  mtf_mint_authority :: address
  mtf_token_program :: address
  mtf_amount :: u64

datatype json =
    JNull
  | JBool bool
  | JNumber int
  | JString string
  | JArray "json list"
  | JObject "(string \<times> json) list"

fun json_get :: "json \<Rightarrow> string \<Rightarrow> json option" where
  "json_get (JObject entries) key = map_of entries key"
| "json_get _ key = None"

fun as_str :: "json \<Rightarrow> string option" where
  "as_str (JString s) = Some s"
| "as_str _ = None"

datatype ui_instruction =
    Compiled_ui
  | Parsed_ui string json \<comment> \<open>program id, parsed value\<close>
  | PartiallyDecoded_ui string "string list" string \<comment> \<open>program id, accounts, data\<close>

datatype ui_message =
    ParsedMessage "(string \<times> bool) list" "ui_instruction list" \<comment> \<open>account keys with signer flags\<close>
  | RawMessage nat "string list" "compiled_instruction list"
      \<comment> \<open>number of required signatures, account keys\<close>

datatype encoded_payload = JsonPayload ui_message | OtherPayload

record confirmed_transaction =
  ct_meta_err :: "bool option" \<comment> \<open>no meta, or whether it carries an error\<close>
  ct_payload :: encoded_payload

definition parse_pubkey :: "'c sdk_scheme \<Rightarrow> string \<Rightarrow> address option" where
  "parse_pubkey os value = sd_pubkey_from_str os value"

definition parse_pubkey_field :: "'c sdk_scheme \<Rightarrow> json \<Rightarrow> string \<Rightarrow> address option" where
  "parse_pubkey_field os value field =
     Option.bind (Option.bind (json_get value field) as_str) (parse_pubkey os)"

definition parse_u64_field :: "json \<Rightarrow> string \<Rightarrow> u64 option" where
  "parse_u64_field value field = Option.bind (Option.bind (json_get value field) as_str) parse_u64"

fun mint_amount_of :: "token_ix \<Rightarrow> u64 option" where
  "mint_amount_of (MintTo_tix amount) = Some amount"
| "mint_amount_of (MintToChecked_tix amount _) = Some amount"
| "mint_amount_of Other_tix = None"

definition parse_token_instruction_mint_amount ::
  "'c channel_sdk_scheme \<Rightarrow> address \<Rightarrow> bytes \<Rightarrow> u64 option" where
  "parse_token_instruction_mint_amount os program_id data =
     (if program_id = TOKEN_PROGRAM_ID then Option.bind (os_token_unpack os data) mint_amount_of
      else if program_id = TOKEN_2022_PROGRAM_ID
      then Option.bind (os_token_2022_unpack os data) mint_amount_of
      else None)"

definition is_memo_program_id :: "'c channel_sdk_scheme \<Rightarrow> string \<Rightarrow> bool" where
  "is_memo_program_id os program_id =
     (case sd_pubkey_from_str os program_id of Some k \<Rightarrow> k = os_memo_id os | None \<Rightarrow> False)"

definition decode_parsed_mint_to ::
  "'c channel_sdk_scheme \<Rightarrow> string \<Rightarrow> json \<Rightarrow> mint_to_fields option" where
  "decode_parsed_mint_to os program_id parsed =
     Option.bind (parse_pubkey os program_id) (\<lambda>token_program.
     if token_program \<noteq> TOKEN_PROGRAM_ID \<and> token_program \<noteq> TOKEN_2022_PROGRAM_ID then None
     else
       Option.bind (Option.bind (json_get parsed ''type'') as_str) (\<lambda>instruction_type.
       Option.bind (json_get parsed ''info'') (\<lambda>info.
       Option.bind
         (if instruction_type = ''mintTo'' then parse_u64_field info ''amount''
          else if instruction_type = ''mintToChecked''
          then Option.bind (json_get info ''tokenAmount'') (\<lambda>ta. parse_u64_field ta ''amount'')
          else None) (\<lambda>amount.
       Option.bind (parse_pubkey_field os info ''mint'') (\<lambda>mint.
       Option.bind (parse_pubkey_field os info ''account'') (\<lambda>recipient_ata.
       Option.bind (parse_pubkey_field os info ''mintAuthority'') (\<lambda>mint_authority.
       Some \<lparr>mtf_mint = mint, mtf_recipient_ata = recipient_ata, mtf_mint_authority = mint_authority,
             mtf_token_program = token_program, mtf_amount = amount\<rparr>)))))))"

definition decode_partially_decoded_mint_to ::
  "'c channel_sdk_scheme \<Rightarrow> string \<Rightarrow> string list \<Rightarrow> string \<Rightarrow> mint_to_fields option" where
  "decode_partially_decoded_mint_to os program_id accounts data =
     Option.bind (parse_pubkey os program_id) (\<lambda>token_program.
     Option.bind (cr_bs58_decode os data) (\<lambda>bs.
     Option.bind (Option.bind (get accounts 0) (parse_pubkey os)) (\<lambda>mint.
     Option.bind (Option.bind (get accounts 1) (parse_pubkey os)) (\<lambda>recipient_ata.
     Option.bind (Option.bind (get accounts 2) (parse_pubkey os)) (\<lambda>mint_authority.
     Option.bind (parse_token_instruction_mint_amount os token_program bs) (\<lambda>amount.
     Some \<lparr>mtf_mint = mint, mtf_recipient_ata = recipient_ata, mtf_mint_authority = mint_authority,
           mtf_token_program = token_program, mtf_amount = amount\<rparr>))))))"

fun decode_mint_to :: "'c channel_sdk_scheme \<Rightarrow> ui_instruction \<Rightarrow> mint_to_fields option" where
  "decode_mint_to os Compiled_ui = None"
| "decode_mint_to os (Parsed_ui program_id parsed) = decode_parsed_mint_to os program_id parsed"
| "decode_mint_to os (PartiallyDecoded_ui program_id accounts data) =
     decode_partially_decoded_mint_to os program_id accounts data"

definition raw_key :: "'c channel_sdk_scheme \<Rightarrow> string list \<Rightarrow> u8 \<Rightarrow> address option" where
  "raw_key os keys i = Option.bind (get keys (unat i)) (parse_pubkey os)"

definition decode_raw_mint_to ::
  "'c channel_sdk_scheme \<Rightarrow> string list \<Rightarrow> compiled_instruction \<Rightarrow> mint_to_fields option" where
  "decode_raw_mint_to os keys instruction =
     Option.bind (raw_key os keys (ci_program_id_index instruction)) (\<lambda>token_program.
     Option.bind (Option.bind (get (ci_accounts instruction) 0) (raw_key os keys)) (\<lambda>mint.
     Option.bind (Option.bind (get (ci_accounts instruction) 1) (raw_key os keys)) (\<lambda>recipient_ata.
     Option.bind (Option.bind (get (ci_accounts instruction) 2) (raw_key os keys)) (\<lambda>mint_authority.
     Option.bind (cr_bs58_decode os (ci_data instruction)) (\<lambda>data.
     Option.bind (parse_token_instruction_mint_amount os token_program data) (\<lambda>amount.
     Some \<lparr>mtf_mint = mint, mtf_recipient_ata = recipient_ata, mtf_mint_authority = mint_authority,
           mtf_token_program = token_program, mtf_amount = amount\<rparr>))))))"

fun mint_to_target :: "'c channel_sdk_scheme \<Rightarrow> ui_instruction \<Rightarrow> address option" where
  "mint_to_target os Compiled_ui = None"
| "mint_to_target os (Parsed_ui program_id parsed) =
     Option.bind (parse_pubkey os program_id) (\<lambda>p.
     if p \<noteq> TOKEN_PROGRAM_ID \<and> p \<noteq> TOKEN_2022_PROGRAM_ID then None
     else Option.bind (Option.bind (json_get parsed ''type'') as_str) (\<lambda>ty.
       if ty = ''mintTo'' \<or> ty = ''mintToChecked''
       then Option.bind (json_get parsed ''info'') (\<lambda>info. parse_pubkey_field os info ''mint'')
       else None))"
| "mint_to_target os (PartiallyDecoded_ui program_id accounts data) =
     Option.bind (parse_pubkey os program_id) (\<lambda>p.
     Option.bind (cr_bs58_decode os data) (\<lambda>bs.
     Option.bind (parse_token_instruction_mint_amount os p bs) (\<lambda>_.
     Option.bind (get accounts 0) (parse_pubkey os))))"

definition raw_mint_to_target ::
  "'c channel_sdk_scheme \<Rightarrow> string list \<Rightarrow> compiled_instruction \<Rightarrow> address option" where
  "raw_mint_to_target os keys instruction =
     Option.bind (raw_key os keys (ci_program_id_index instruction)) (\<lambda>program_id.
     Option.bind (cr_bs58_decode os (ci_data instruction)) (\<lambda>data.
     Option.bind (parse_token_instruction_mint_amount os program_id data) (\<lambda>_.
     Option.bind (get (ci_accounts instruction) 0) (raw_key os keys))))"

fun message_mint_tos :: "'c channel_sdk_scheme \<Rightarrow> ui_message \<Rightarrow> mint_to_fields list" where
  "message_mint_tos os (ParsedMessage accounts instructions) =
     List.map_filter (decode_mint_to os) instructions"
| "message_mint_tos os (RawMessage n keys instructions) =
     List.map_filter (decode_raw_mint_to os keys) instructions"

definition transaction_mint_tos ::
  "'c channel_sdk_scheme \<Rightarrow> confirmed_transaction \<Rightarrow> mint_to_fields list" where
  "transaction_mint_tos os tx =
     (case ct_payload tx of JsonPayload m \<Rightarrow> message_mint_tos os m | OtherPayload \<Rightarrow> [])"

fun message_targets :: "'c channel_sdk_scheme \<Rightarrow> ui_message \<Rightarrow> address list" where
  "message_targets os (ParsedMessage accounts instructions) =
     List.map_filter (mint_to_target os) instructions"
| "message_targets os (RawMessage n keys instructions) =
     List.map_filter (raw_mint_to_target os keys) instructions"

definition mint_to_targets :: "'c channel_sdk_scheme \<Rightarrow> confirmed_transaction \<Rightarrow> address list" where
  "mint_to_targets os tx =
     (case ct_payload tx of JsonPayload m \<Rightarrow> message_targets os m | OtherPayload \<Rightarrow> [])"

definition transaction_succeeded :: "confirmed_transaction \<Rightarrow> bool" where
  "transaction_succeeded tx \<longleftrightarrow> ct_meta_err tx = Some False"

definition parsed_message_has_signer ::
  "'c channel_sdk_scheme \<Rightarrow> (string \<times> bool) list \<Rightarrow> address \<Rightarrow> bool" where
  "parsed_message_has_signer os accounts signer =
     list_ex (\<lambda>(key, signs). signs \<and> parse_pubkey os key = Some signer) accounts"

fun position :: "('a \<Rightarrow> bool) \<Rightarrow> 'a list \<Rightarrow> nat option" where
  "position P [] = None"
| "position P (x # xs) = (if P x then Some 0 else map_option Suc (position P xs))"

definition raw_message_has_signer ::
  "'c channel_sdk_scheme \<Rightarrow> nat \<Rightarrow> string list \<Rightarrow> address \<Rightarrow> bool" where
  "raw_message_has_signer os num_required_signatures keys signer =
     (case position (\<lambda>k. parse_pubkey os k = Some signer) keys of
        Some i \<Rightarrow> i < num_required_signatures | None \<Rightarrow> False)"

definition transaction_signed_by ::
  "'c channel_sdk_scheme \<Rightarrow> confirmed_transaction \<Rightarrow> address \<Rightarrow> bool" where
  "transaction_signed_by os tx signer =
     (case ct_payload tx of
        JsonPayload (ParsedMessage accounts _) \<Rightarrow> parsed_message_has_signer os accounts signer
      | JsonPayload (RawMessage n keys _) \<Rightarrow> raw_message_has_signer os n keys signer
      | OtherPayload \<Rightarrow> False)"

definition memo_data_is :: "'c channel_sdk_scheme \<Rightarrow> string \<Rightarrow> string \<Rightarrow> bool" where
  "memo_data_is os data expected_memo \<longleftrightarrow>
     cr_bs58_decode os data = Some (bytes_of_string expected_memo)"

definition raw_instruction_has_memo ::
  "'c channel_sdk_scheme \<Rightarrow> string list \<Rightarrow> string \<Rightarrow> compiled_instruction \<Rightarrow> bool" where
  "raw_instruction_has_memo os keys expected_memo instruction =
     (case get keys (unat (ci_program_id_index instruction)) of
        None \<Rightarrow> False
      | Some program_id \<Rightarrow>
          is_memo_program_id os program_id \<and> memo_data_is os (ci_data instruction) expected_memo)"

fun instruction_has_memo :: "'c channel_sdk_scheme \<Rightarrow> string \<Rightarrow> ui_instruction \<Rightarrow> bool" where
  "instruction_has_memo os expected_memo Compiled_ui = False"
| "instruction_has_memo os expected_memo (Parsed_ui program_id parsed) \<longleftrightarrow>
     is_memo_program_id os program_id \<and> as_str parsed = Some expected_memo"
| "instruction_has_memo os expected_memo (PartiallyDecoded_ui program_id accounts data) \<longleftrightarrow>
     is_memo_program_id os program_id \<and> memo_data_is os data expected_memo"

definition transaction_has_memo ::
  "'c channel_sdk_scheme \<Rightarrow> confirmed_transaction \<Rightarrow> string \<Rightarrow> bool" where
  "transaction_has_memo os tx expected_memo =
     (case ct_payload tx of
        JsonPayload (ParsedMessage _ instructions) \<Rightarrow>
          list_ex (instruction_has_memo os expected_memo) instructions
      | JsonPayload (RawMessage _ keys instructions) \<Rightarrow>
          list_ex (raw_instruction_has_memo os keys expected_memo) instructions
      | OtherPayload \<Rightarrow> False)"

definition strip_memo_length_prefix :: "string \<Rightarrow> string" where
  "strip_memo_length_prefix memo =
     (case strip_prefix ''['' memo of
        None \<Rightarrow> memo
      | Some stripped \<Rightarrow>
          (case split_once ''] '' stripped of
             None \<Rightarrow> memo
           | Some (len, value) \<Rightarrow> if list_all is_ascii_digit len then value else memo))"

definition marker_of :: "string \<Rightarrow> (consumed_mint_kind \<times> string) option" where
  "marker_of piece =
     (let value = strip_memo_length_prefix piece in
      case strip_prefix MINT_IDEMPOTENCY_MEMO_PREFIX value of
        Some rest \<Rightarrow> Some (DepositMint, rest)
      | None \<Rightarrow> map_option (Pair RemintMint) (strip_prefix REMINT_IDEMPOTENCY_MEMO_PREFIX value))"

definition memo_markers :: "string \<Rightarrow> (consumed_mint_kind \<times> string) list" where
  "memo_markers memo = List.map_filter marker_of (split_str ''; '' memo)"

section \<open>Does a mint pay this row?\<close>

datatype field_difference =
    MintDiffers address address
  | AtaDiffers address address
  | AmountDiffers u64 u64

datatype mismatch_reason =
    KindMismatch consumed_mint_kind tx_type
  | NotAPubkey string string
  | FieldsDiffer "field_difference list"

record consumed_mint_mismatch =
  mm_source_event_id :: string
  mm_source_signature :: string
  mm_channel_signature :: string
  mm_reason :: mismatch_reason

definition field_differences ::
  "'c channel_sdk_scheme \<Rightarrow> consumed_mint \<Rightarrow> db_transaction \<Rightarrow> string \<Rightarrow> mismatch_reason option" where
  "field_differences os consumed r owner =
     (case (sd_pubkey_from_str os owner, sd_pubkey_from_str os (t_mint r)) of
        (Some owner_key, Some mint) \<Rightarrow>
          let expected_ata = os_ata os owner_key mint (cs_token_program consumed);
              differences =
                (if cs_mint consumed \<noteq> mint then [MintDiffers (cs_mint consumed) mint] else [])
                @ (if cs_recipient_ata consumed \<noteq> expected_ata
                   then [AtaDiffers (cs_recipient_ata consumed) expected_ata] else [])
                @ (if cs_amount consumed \<noteq> t_amount r
                   then [AmountDiffers (cs_amount consumed) (t_amount r)] else []) in
          if differences = [] then None else Some (FieldsDiffer differences)
      | _ \<Rightarrow> Some (NotAPubkey owner (t_mint r)))"

definition check_consumed_mint ::
  "'c channel_sdk_scheme \<Rightarrow> consumed_mint \<Rightarrow> db_transaction \<Rightarrow> consumed_mint_mismatch + unit" where
  "check_consumed_mint os consumed r =
     (case (case (cs_kind consumed, t_type r) of
              (DepositMint, DepositTx) \<Rightarrow> field_differences os consumed r (t_recipient r)
            | (RemintMint, WithdrawalTx) \<Rightarrow> field_differences os consumed r (t_initiator r)
            | (kind, ty) \<Rightarrow> Some (KindMismatch kind ty)) of
        None \<Rightarrow> Inr ()
      | Some reason \<Rightarrow> Inl \<lparr>mm_source_event_id = SourceEventId_from_row os r,
          mm_source_signature = t_signature r,
          mm_channel_signature = signature_to_string os (cs_signature consumed),
          mm_reason = reason\<rparr>)"

section \<open>Listing a history (rpc_util.rs)\<close>

record signature_status =
  gs_signature :: string
  gs_err :: bool
  gs_memo :: "string option"

datatype page_error = PageFailed string | CursorUnparsable

definition stops_at :: "'c channel_sdk_scheme \<Rightarrow> bytes list \<Rightarrow> signature_status \<Rightarrow> bool" where
  "stops_at os stop_at s =
     (case os_signature_from_str os (gs_signature s) of Some g \<Rightarrow> g \<in> set stop_at | None \<Rightarrow> False)"

definition next_cursor :: "'c channel_sdk_scheme \<Rightarrow> signature_status list \<Rightarrow> bytes option" where
  "next_cursor os page =
     (if page = [] then None else os_signature_from_str os (gs_signature (last page)))"

partial_function (option) get_signatures_for_address_paginated ::
  "'c channel_sdk_scheme \<Rightarrow> (bytes option \<Rightarrow> string + signature_status list) \<Rightarrow> nat \<Rightarrow> bytes list \<Rightarrow>
     (signature_status \<Rightarrow> bool) \<Rightarrow> bytes option \<Rightarrow> signature_status list \<Rightarrow>
     (page_error + signature_status list \<times> bool) option" where
  [code]: "get_signatures_for_address_paginated os request page_limit stop_at keep cursor found =
     (case request cursor of
        Inl e \<Rightarrow> Some (Inl (PageFailed e))
      | Inr page \<Rightarrow>
          if list_ex (stops_at os stop_at) page
          then Some (Inr (found @ filter keep (takeWhile (\<lambda>s. \<not> stops_at os stop_at s) page), True))
          else if length page < page_limit then Some (Inr (found @ filter keep page, False))
          else
            (case next_cursor os page of
               None \<Rightarrow> Some (Inl CursorUnparsable)
             | Some g \<Rightarrow> get_signatures_for_address_paginated os request page_limit stop_at keep
                 (Some g) (found @ filter keep page)))"

section \<open>The consumed set\<close>

datatype scope = SignerScope address | MintScope address

primrec scope_address :: "scope \<Rightarrow> address" where
  "scope_address (SignerScope a) = a"
| "scope_address (MintScope a) = a"

datatype walk_error =
    ListingFailed address page_error
  | InvalidSignature string
  | FetchFailed bytes string
  | MarkerCount bytes nat
  | LegacyMemo string
  | NoMemoInstruction bytes string
  | MintToCount bytes nat
  | WrongAuthority bytes address address
  | WrongMint bytes address nat address
  | TwoMints string bytes bytes
  | BadStoredSignature string
  | BadStoredMint string
  | BadRecorded string string
  | FloorUnreadable string
  | ChannelRewound
  | IndexUnreadable string
  | IndexBehind u64 u64

text \<open>The RPC answers a walk reads: pages of the address it lists, and transactions.\<close>

record channel_rpc =
  rp_page :: "address \<Rightarrow> nat \<Rightarrow> bytes option \<Rightarrow> string + signature_status list"
  rp_transaction :: "bytes \<Rightarrow> string + confirmed_transaction"
  rp_first_available_block :: "string + u64"

definition kept_status :: "consumed_mint_kind option \<Rightarrow> signature_status \<Rightarrow> bool" where
  "kept_status only s \<longleftrightarrow> \<not> gs_err s \<and>
     (case gs_memo s of
        None \<Rightarrow> False
      | Some m \<Rightarrow> list_ex (\<lambda>(kind, _). case only of None \<Rightarrow> True | Some k \<Rightarrow> kind = k) (memo_markers m))"

definition counts_in :: "'c channel_sdk_scheme \<Rightarrow> scope \<Rightarrow> confirmed_transaction \<Rightarrow> bool" where
  "counts_in os sc tx \<longleftrightarrow> transaction_succeeded tx \<and>
     (case sc of
        SignerScope authority \<Rightarrow> transaction_signed_by os tx authority
      | MintScope mint \<Rightarrow> mint \<in> set (mint_to_targets os tx))"

definition expected_memo :: "consumed_mint_kind \<Rightarrow> string \<Rightarrow> string" where
  "expected_memo kind source_event_id =
     (case kind of
        DepositMint \<Rightarrow> mint_idempotency_memo source_event_id
      | RemintMint \<Rightarrow> remint_idempotency_memo source_event_id)"

definition check_scope ::
  "'c channel_sdk_scheme \<Rightarrow> scope \<Rightarrow> bytes \<Rightarrow> confirmed_transaction \<Rightarrow> mint_to_fields \<Rightarrow>
     walk_error + unit" where
  "check_scope os sc signature tx mint_to =
     (case sc of
        SignerScope authority \<Rightarrow>
          if mtf_mint_authority mint_to \<noteq> authority
          then Inl (WrongAuthority signature (mtf_mint_authority mint_to) authority) else Inr ()
      | MintScope mint \<Rightarrow>
          if length (mint_to_targets os tx) \<noteq> 1 \<or> mtf_mint mint_to \<noteq> mint
          then Inl (WrongMint signature mint (length (mint_to_targets os tx)) (mtf_mint mint_to))
          else Inr ())"

text \<open>One transaction that passed the gate: its event and the mint it made, or the reason to stop.\<close>

definition authenticate ::
  "'c channel_sdk_scheme \<Rightarrow> scope \<Rightarrow> signature_status \<Rightarrow> bytes \<Rightarrow> confirmed_transaction \<Rightarrow>
     walk_error + string \<times> consumed_mint" where
  "authenticate os sc status signature tx =
     (let markers = memo_markers (case gs_memo status of Some m \<Rightarrow> m | None \<Rightarrow> []) in
      case markers of
        [(kind, encoded)] \<Rightarrow>
          bindE (ok_orE (SourceEventId_from_encoded os encoded) (LegacyMemo (gs_signature status)))
            (\<lambda>source_event_id.
          bindE (guardE (transaction_has_memo os tx (expected_memo kind source_event_id))
            (NoMemoInstruction signature (expected_memo kind source_event_id))) (\<lambda>_.
          (case transaction_mint_tos os tx of
             [mint_to] \<Rightarrow>
               bindE (check_scope os sc signature tx mint_to) (\<lambda>_.
               Inr (source_event_id, \<lparr>cs_signature = signature, cs_kind = kind, cs_mint = mtf_mint mint_to,
                 cs_recipient_ata = mtf_recipient_ata mint_to,
                 cs_token_program = mtf_token_program mint_to, cs_amount = mtf_amount mint_to\<rparr>))
           | mint_tos \<Rightarrow> Inl (MintToCount signature (length mint_tos)))))
      | _ \<Rightarrow> Inl (MarkerCount signature (length markers)))"

text \<open>A vacant entry is taken; the same mint again is nothing new; another mint is refused.\<close>

definition enter :: "string \<Rightarrow> consumed_mint \<Rightarrow> consumed_set \<Rightarrow> walk_error + consumed_set \<times> bool" where
  "enter event consumed cset =
     (case map_of cset event of
        None \<Rightarrow> Inr (cset @ [(event, consumed)], True)
      | Some known \<Rightarrow>
          if cs_signature known = cs_signature consumed then Inr (cset, False)
          else Inl (TwoMints event (cs_signature known) (cs_signature consumed)))"

fun collect_statuses ::
  "'c channel_sdk_scheme \<Rightarrow> (bytes \<Rightarrow> string + confirmed_transaction) \<Rightarrow> scope \<Rightarrow>
     signature_status list \<Rightarrow> bytes list \<Rightarrow> nat \<Rightarrow> consumed_set \<Rightarrow> walk_error + nat \<times> consumed_set" where
  "collect_statuses os fetch sc [] accepted added cset = Inr (added, cset)"
| "collect_statuses os fetch sc (status # statuses) accepted added cset =
     bindE (ok_orE (os_signature_from_str os (gs_signature status))
       (InvalidSignature (gs_signature status))) (\<lambda>signature.
     if signature \<in> set accepted
     then collect_statuses os fetch sc statuses accepted added cset
     else
       bindE (case fetch signature of Inl e \<Rightarrow> Inl (FetchFailed signature e) | Inr tx \<Rightarrow> Inr tx) (\<lambda>tx.
       if \<not> counts_in os sc tx then collect_statuses os fetch sc statuses accepted added cset
       else
         bindE (authenticate os sc status signature tx) (\<lambda>(event, consumed).
         bindE (enter event consumed cset) (\<lambda>(cset', is_new).
         if is_new
         then collect_statuses os fetch sc statuses (accepted @ [signature]) (added + 1) cset'
         else collect_statuses os fetch sc statuses accepted added cset'))))"

text \<open>\<open>None\<close>: the listing never ended.\<close>

definition collect_mints ::
  "'c channel_sdk_scheme \<Rightarrow> channel_rpc \<Rightarrow> scope \<Rightarrow> nat \<Rightarrow> bytes list \<Rightarrow> consumed_mint_kind option \<Rightarrow>
     consumed_set \<Rightarrow> (walk_error + (nat \<times> bool) \<times> consumed_set) option" where
  "collect_mints os rpc sc page_limit stop_at only cset =
     map_option (\<lambda>listed.
       case listed of
         Inl e \<Rightarrow> Inl (ListingFailed (scope_address sc) e)
       | Inr (statuses, met) \<Rightarrow>
           bindE (collect_statuses os (rp_transaction rpc) sc statuses
             (map (cs_signature \<circ> snd) cset) 0 cset) (\<lambda>(added, cset').
           Inr ((added, met), cset')))
     (get_signatures_for_address_paginated os (rp_page rpc (scope_address sc) page_limit) page_limit
        stop_at (kept_status only) None [])"

definition enumerate_consumed_mints ::
  "'c channel_sdk_scheme \<Rightarrow> channel_rpc \<Rightarrow> address \<Rightarrow> nat \<Rightarrow> (walk_error + consumed_set) option" where
  "enumerate_consumed_mints os rpc authority page_limit =
     map_option (\<lambda>r. bindE r (\<lambda>(_, cset). Inr cset))
       (collect_mints os rpc (SignerScope authority) page_limit [] None [])"

definition extend_with_mint_history ::
  "'c channel_sdk_scheme \<Rightarrow> channel_rpc \<Rightarrow> address \<Rightarrow> nat \<Rightarrow> consumed_set \<Rightarrow>
     (walk_error + nat \<times> consumed_set) option" where
  "extend_with_mint_history os rpc mint page_limit cset =
     map_option (\<lambda>r. bindE r (\<lambda>((added, _), cset'). Inr (added, cset')))
       (collect_mints os rpc (MintScope mint) page_limit [] None cset)"

section \<open>Recorded mints\<close>

definition consumed_to_db :: "'c channel_sdk_scheme \<Rightarrow> string \<Rightarrow> consumed_mint \<Rightarrow> db_consumed_mint" where
  "consumed_to_db os event consumed =
     \<lparr>cm_source_event_id = event, cm_signature = signature_to_string os (cs_signature consumed),
      cm_kind = (case cs_kind consumed of DepositMint \<Rightarrow> ''deposit'' | RemintMint \<Rightarrow> ''remint''),
      cm_mint = pubkey_to_string os (cs_mint consumed),
      cm_recipient_ata = pubkey_to_string os (cs_recipient_ata consumed),
      cm_token_program = pubkey_to_string os (cs_token_program consumed),
      cm_amount = cs_amount consumed\<rparr>"

definition consumed_from_db ::
  "'c channel_sdk_scheme \<Rightarrow> db_consumed_mint \<Rightarrow> walk_error + string \<times> consumed_mint" where
  "consumed_from_db os row =
     (let bad = BadRecorded (cm_signature row) in
      bindE (ok_orE (SourceEventId_from_encoded os (cm_source_event_id row)) (bad ''event'')) (\<lambda>event.
      bindE (ok_orE (os_signature_from_str os (cm_signature row)) (bad ''signature'')) (\<lambda>signature.
      bindE (if cm_kind row = ''deposit'' then Inr DepositMint
             else if cm_kind row = ''remint'' then Inr RemintMint else Inl (bad ''kind'')) (\<lambda>kind.
      bindE (ok_orE (sd_pubkey_from_str os (cm_mint row)) (bad ''mint'')) (\<lambda>mint.
      bindE (ok_orE (sd_pubkey_from_str os (cm_recipient_ata row)) (bad ''recipient'')) (\<lambda>recipient.
      bindE (ok_orE (sd_pubkey_from_str os (cm_token_program row)) (bad ''token program'')) (\<lambda>program.
      Inr (event, \<lparr>cs_signature = signature, cs_kind = kind, cs_mint = mint,
        cs_recipient_ata = recipient, cs_token_program = program, cs_amount = cm_amount row\<rparr>))))))))"

section \<open>The cache the operators consult\<close>

record consumed_set_cache =
  cc_set :: consumed_set
  cc_walked :: "address list"
  cc_page_limit :: nat
  cc_role :: tx_type

definition role_kind :: "tx_type \<Rightarrow> consumed_mint_kind" where
  "role_kind role = (case role of DepositTx \<Rightarrow> DepositMint | WithdrawalTx \<Rightarrow> RemintMint)"

definition accept_pruned_walk :: "channel_rpc \<Rightarrow> walk_error + unit" where
  "accept_pruned_walk rpc =
     (case rp_first_available_block rpc of
        Inl e \<Rightarrow> Inl (FloorUnreadable e)
      | Inr floor \<Rightarrow> if floor = 0 then Inl ChannelRewound else Inr ())"

fun enter_all :: "consumed_set \<Rightarrow> consumed_set \<Rightarrow> (walk_error + unit) \<times> consumed_set" where
  "enter_all [] cset = (Inr (), cset)"
| "enter_all ((event, consumed) # found) cset =
     (case enter event consumed cset of
        Inl e \<Rightarrow> (Inl e, cset) | Inr (cset', _) \<Rightarrow> enter_all found cset')"

type_synonym 'a cached = "(walk_error + 'a) \<times> consumed_set_cache \<times> ledger_db"

definition walk_mint ::
  "'c channel_sdk_scheme \<Rightarrow> channel_rpc \<Rightarrow> address \<Rightarrow> consumed_set_cache \<Rightarrow> ledger_db \<Rightarrow>
     unit cached option" where
  "walk_mint os rpc mint cache db =
     (if mint \<in> set (cc_walked cache) then Some (Inr (), cache, db)
      else
        let known = get_newest_known_mint_signatures (pubkey_to_string os mint) (cc_role cache) db in
        case map_result (\<lambda>g. ok_orE (os_signature_from_str os g) (BadStoredSignature g)) known of
          Inl e \<Rightarrow> Some (Inl e, cache, db)
        | Inr stop_at \<Rightarrow>
            map_option (\<lambda>walk.
              case walk of
                Inl e \<Rightarrow> (Inl e, cache, db)
              | Inr ((_, met), found) \<Rightarrow>
                  case (if stop_at \<noteq> [] \<and> \<not> met then accept_pruned_walk rpc else Inr ()) of
                    Inl e \<Rightarrow> (Inl e, cache, db)
                  | Inr _ \<Rightarrow>
                      let db' = (if found = [] then db
                            else snd (insert_consumed_mints (map (\<lambda>(e, c). consumed_to_db os e c) found) db));
                          (res, cset) = enter_all found (cc_set cache);
                          cache' = cache\<lparr>cc_set := cset\<rparr> in
                      (case res of
                         Inl e \<Rightarrow> (Inl e, cache', db')
                       | Inr _ \<Rightarrow> (Inr (), cache'\<lparr>cc_walked := mint # cc_walked cache\<rparr>, db')))
            (collect_mints os rpc (MintScope mint) (cc_page_limit cache) stop_at
               (Some (role_kind (cc_role cache))) []))"

datatype consumed_lookup = Miss | Hit consumed_mint | MismatchFound consumed_mint_mismatch

definition lookup ::
  "'c channel_sdk_scheme \<Rightarrow> channel_rpc \<Rightarrow> db_transaction \<Rightarrow> consumed_set_cache \<Rightarrow> ledger_db \<Rightarrow>
     consumed_lookup cached option" where
  "lookup os rpc row cache db =
     (case sd_pubkey_from_str os (t_mint row) of
        None \<Rightarrow> Some (Inr Miss, cache, db)
      | Some mint \<Rightarrow>
          map_option (\<lambda>(res, cache', db').
            (case res of
               Inl e \<Rightarrow> Inl e
             | Inr _ \<Rightarrow> Inr (case map_of (cc_set cache') (SourceEventId_from_row os row) of
                   None \<Rightarrow> Miss
                 | Some consumed \<Rightarrow>
                     (case check_consumed_mint os consumed row of
                        Inr _ \<Rightarrow> Hit consumed | Inl m \<Rightarrow> MismatchFound m)), cache', db'))
          (walk_mint os rpc mint cache db))"

definition lookup_event ::
  "'c channel_sdk_scheme \<Rightarrow> channel_rpc \<Rightarrow> address \<Rightarrow> string \<Rightarrow> consumed_set_cache \<Rightarrow> ledger_db \<Rightarrow>
     consumed_mint option cached option" where
  "lookup_event os rpc mint event cache db =
     map_option (\<lambda>(res, cache', db').
       (bindE res (\<lambda>_. Inr (map_of (cc_set cache') event)), cache', db'))
     (walk_mint os rpc mint cache db)"

fun recorded_entries ::
  "'c channel_sdk_scheme \<Rightarrow> db_consumed_mint list \<Rightarrow> consumed_set \<Rightarrow> walk_error + consumed_set" where
  "recorded_entries os [] cset = Inr cset"
| "recorded_entries os (row # rows) cset =
     bindE (consumed_from_db os row) (\<lambda>(event, consumed).
     recorded_entries os rows (AList.update event consumed cset))"

fun walk_mints ::
  "'c channel_sdk_scheme \<Rightarrow> channel_rpc \<Rightarrow> string list \<Rightarrow> consumed_set_cache \<Rightarrow> ledger_db \<Rightarrow>
     unit cached option" where
  "walk_mints os rpc [] cache db = Some (Inr (), cache, db)"
| "walk_mints os rpc (m # ms) cache db =
     (case sd_pubkey_from_str os m of
        None \<Rightarrow> Some (Inl (BadStoredMint m), cache, db)
      | Some mint \<Rightarrow>
          (case walk_mint os rpc mint cache db of
             None \<Rightarrow> None
           | Some (Inl e, cache', db') \<Rightarrow> Some (Inl e, cache', db')
           | Some (Inr _, cache', db') \<Rightarrow> walk_mints os rpc ms cache' db'))"

definition build_at_boot ::
  "'c channel_sdk_scheme \<Rightarrow> channel_rpc \<Rightarrow> nat \<Rightarrow> tx_type \<Rightarrow> ledger_db \<Rightarrow>
     ((walk_error + consumed_set_cache) \<times> ledger_db) option" where
  "build_at_boot os rpc page_limit role db =
     (case recorded_entries os (db_consumed_channel_mints db) [] of
        Inl e \<Rightarrow> Some (Inl e, db)
      | Inr cset \<Rightarrow>
          map_option (\<lambda>(res, cache, db'). (bindE res (\<lambda>_. Inr cache), db'))
          (walk_mints os rpc (map fst (get_mint_addresses db))
             \<lparr>cc_set = cset, cc_walked = [], cc_page_limit = page_limit, cc_role = role\<rparr> db))"

section \<open>Waiting for the address index\<close>

datatype index_reply = IndexSlots u64 u64 | MethodNotFound | IndexError string

text \<open>
  Each poll is a reply, a timeout being an error, with the clock when the deadline is looked at.
  \<open>None\<close>: still polling when the replies end.
\<close>

fun wait_for_address_index ::
  "nat \<Rightarrow> u64 option \<Rightarrow> (index_reply \<times> nat) list \<Rightarrow> (walk_error + unit) option" where
  "wait_for_address_index deadline pinned [] = None"
| "wait_for_address_index deadline pinned ((reply, now) # polls) =
     (case reply of
        IndexSlots watermark latest_block \<Rightarrow>
          let target = (case pinned of Some t \<Rightarrow> t | None \<Rightarrow> latest_block) in
          if target \<le> watermark then Some (Inr ())
          else if deadline \<le> now then Some (Inl (IndexBehind watermark target))
          else wait_for_address_index deadline (Some target) polls
      | MethodNotFound \<Rightarrow> Some (Inl (IndexUnreadable ''method not found''))
      | IndexError e \<Rightarrow> Some (Inl (IndexUnreadable e)))"

definition INDEX_CATCH_UP_BUDGET :: nat where "INDEX_CATCH_UP_BUDGET = 30000"

definition ensure_address_index ::
  "nat \<Rightarrow> index_reply \<Rightarrow> (index_reply \<times> nat) list \<Rightarrow> (walk_error + unit) option" where
  "ensure_address_index started first_reply polls =
     (case first_reply of
        MethodNotFound \<Rightarrow> Some (Inr ())
      | _ \<Rightarrow> wait_for_address_index (started + INDEX_CATCH_UP_BUDGET) None polls)"

record consumed_claims =
  cl_cache :: consumed_set_cache
  cl_index_ready :: bool

text \<open>\<open>index\<close> is what \<open>ensure_address_index\<close> gives if it is called; a failure is not remembered.\<close>

definition ConsumedClaims_lookup ::
  "'c channel_sdk_scheme \<Rightarrow> channel_rpc \<Rightarrow> (walk_error + unit) \<Rightarrow> db_transaction \<Rightarrow> consumed_claims \<Rightarrow>
     ledger_db \<Rightarrow> ((walk_error + consumed_lookup) \<times> consumed_claims \<times> ledger_db) option" where
  "ConsumedClaims_lookup os rpc index row claims db =
     (case (if cl_index_ready claims then Inr () else index) of
        Inl e \<Rightarrow> Some (Inl e, claims, db)
      | Inr _ \<Rightarrow>
          map_option (\<lambda>(res, cache, db'). (res, \<lparr>cl_cache = cache, cl_index_ready = True\<rparr>, db'))
            (lookup os rpc row (cl_cache claims) db))"

definition ConsumedClaims_lookup_event ::
  "'c channel_sdk_scheme \<Rightarrow> channel_rpc \<Rightarrow> (walk_error + unit) \<Rightarrow> address \<Rightarrow> string \<Rightarrow> consumed_claims \<Rightarrow>
     ledger_db \<Rightarrow> ((walk_error + consumed_mint option) \<times> consumed_claims \<times> ledger_db) option" where
  "ConsumedClaims_lookup_event os rpc index mint event claims db =
     (case (if cl_index_ready claims then Inr () else index) of
        Inl e \<Rightarrow> Some (Inl e, claims, db)
      | Inr _ \<Rightarrow>
          map_option (\<lambda>(res, cache, db'). (res, \<lparr>cl_cache = cache, cl_index_ready = True\<rparr>, db'))
            (lookup_event os rpc mint event (cl_cache claims) db))"

section \<open>Creating a channel mint on first use\<close>

datatype authority_check =
    Match
  | Mismatch address
  | DelegateMismatch "address option"
  | Uninitialized
  | CorruptData

definition decode_and_check_authority ::
  "'c channel_sdk_scheme \<Rightarrow> bytes \<Rightarrow> address \<Rightarrow> address \<Rightarrow> authority_check" where
  "decode_and_check_authority os data expected_authority expected_delegate =
     (case os_mint_unpack os data of
        Inl e \<Rightarrow> if e = UninitializedAccount \<and> length data = os_channel_mint_len os
                then Uninitialized else CorruptData
      | Inr (authority, delegate) \<Rightarrow>
          (case authority of
             None \<Rightarrow> Mismatch 0
           | Some actual \<Rightarrow>
               if actual \<noteq> expected_authority then Mismatch actual
               else if delegate = Some expected_delegate then Match
               else DelegateMismatch delegate))"

datatype review_reason =
    AuthorityMismatchPrecheck
  | AuthorityMismatchPostinit
  | CorruptMintState
  | PermanentDelegateMismatch

datatype transient_reason =
    NoCachedBuilder int
  | BuilderWithoutMint int
  | DecimalsUnavailable address
  | BuildFailed string
  | SendFailed string
  | StatusUnreadable string
  | InitializeNotConfirmed
  | ConfirmedButUninitialized address

datatype 'ix jit_outcome = Retry 'ix | ReviewManually review_reason | Transient transient_reason

definition jit_verdict :: "authority_check \<Rightarrow> 'ix \<Rightarrow> address \<Rightarrow> bool \<Rightarrow> 'ix jit_outcome" where
  "jit_verdict check instruction mint is_fallback =
     (case check of
        Match \<Rightarrow> Retry instruction
      | Mismatch _ \<Rightarrow> ReviewManually AuthorityMismatchPostinit
      | DelegateMismatch _ \<Rightarrow> ReviewManually PermanentDelegateMismatch
      | CorruptData \<Rightarrow> ReviewManually CorruptMintState
      | Uninitialized \<Rightarrow> Transient
          (if is_fallback then InitializeNotConfirmed else ConfirmedButUninitialized mint))"

text \<open>At most four reads; the first that decodes to anything but uninitialized is the answer.\<close>

fun authority_check_reads ::
  "'c channel_sdk_scheme \<Rightarrow> address \<Rightarrow> address \<Rightarrow> nat \<Rightarrow> (nat \<Rightarrow> string + bytes) \<Rightarrow> authority_check \<Rightarrow>
     authority_check" where
  "authority_check_reads os authority delegate 0 reads last_check = last_check"
| "authority_check_reads os authority delegate (Suc left) reads last_check =
     (case reads left of
        Inl _ \<Rightarrow> authority_check_reads os authority delegate left reads last_check
      | Inr data \<Rightarrow>
          let check = decode_and_check_authority os data authority delegate in
          if check \<noteq> Uninitialized then check
          else authority_check_reads os authority delegate left reads check)"

definition mint_authority_check_with_backoff ::
  "'c channel_sdk_scheme \<Rightarrow> address \<Rightarrow> address \<Rightarrow> (nat \<Rightarrow> string + bytes) \<Rightarrow> authority_check" where
  "mint_authority_check_with_backoff os authority delegate reads =
     authority_check_reads os authority delegate 4 reads Uninitialized"

text \<open>What the calls of one attempt answer, in the order they are made.\<close>

record jit_replies =
  jr_precheck :: "string + bytes"
  jr_decimals :: "string + u8"
  jr_build :: "string + unit"
  jr_send :: "string + bytes"
  jr_status :: "string + bool" \<comment> \<open>whether the result is \<open>Confirmed\<close>\<close>
  jr_reread :: "string + bytes"
  jr_reads :: "nat \<Rightarrow> string + bytes"

definition try_jit_mint_initialization ::
  "'c channel_sdk_scheme \<Rightarrow> (int \<rightharpoonup> address option) \<Rightarrow> address \<Rightarrow> address \<Rightarrow> jit_replies \<Rightarrow> int \<Rightarrow> 'ix \<Rightarrow>
     'ix jit_outcome" where
  "try_jit_mint_initialization os mint_builders admin delegate rs transaction_id instruction =
     (case mint_builders transaction_id of
        None \<Rightarrow> Transient (NoCachedBuilder transaction_id)
      | Some None \<Rightarrow> Transient (BuilderWithoutMint transaction_id)
      | Some (Some mint) \<Rightarrow>
          let initialize =
            (case jr_decimals rs of
               Inl _ \<Rightarrow> Transient (DecimalsUnavailable mint)
             | Inr _ \<Rightarrow>
             (case jr_build rs of
                Inl e \<Rightarrow> Transient (BuildFailed e)
              | Inr _ \<Rightarrow>
              (case jr_send rs of
                 Inl e \<Rightarrow> Transient (SendFailed e)
               | Inr _ \<Rightarrow>
               (case jr_status rs of
                  Inl e \<Rightarrow> Transient (StatusUnreadable e)
                | Inr True \<Rightarrow> jit_verdict (case jr_reread rs of
                      Inr data \<Rightarrow> decode_and_check_authority os data admin delegate
                    | Inl _ \<Rightarrow> mint_authority_check_with_backoff os admin delegate (jr_reads rs))
                    instruction mint False
                | Inr False \<Rightarrow> jit_verdict
                    (mint_authority_check_with_backoff os admin delegate (jr_reads rs))
                    instruction mint True)))) in
          (case jr_precheck rs of
             Inl _ \<Rightarrow> initialize
           | Inr data \<Rightarrow>
               (case decode_and_check_authority os data admin delegate of
                  Match \<Rightarrow> Retry instruction
                | Mismatch _ \<Rightarrow> ReviewManually AuthorityMismatchPrecheck
                | DelegateMismatch _ \<Rightarrow> ReviewManually PermanentDelegateMismatch
                | CorruptData \<Rightarrow> ReviewManually CorruptMintState
                | Uninitialized \<Rightarrow> initialize)))"

definition cleanup_mint_builder :: "int option \<Rightarrow> (int \<rightharpoonup> 'b) \<Rightarrow> (int \<rightharpoonup> 'b)" where
  "cleanup_mint_builder transaction_id mint_builders =
     (case transaction_id of Some i \<Rightarrow> mint_builders(i := None) | None \<Rightarrow> mint_builders)"

end
