(* ===== verification/Indexer_Processor.thy ===== *)
theory Indexer_Processor
  imports Channel_Mints Ledger_Safety "HOL-Library.List_Lexorder" "HOL-Library.Char_ord"
begin

text \<open>
  The processor between the block decoders and the database
  (\<open>indexer/src/indexer/transaction_processor.rs\<close>): instructions are buffered per slot, turned into
  rows when the slot is complete, reconciled against the consumed set on a resync, written in a fixed
  order with retries, and only then is the slot's checkpoint sent.

  Every write may fail. A batch is one database transaction, so it fails with nothing written or with
  everything written and the answer lost; the observed releases are separate statements, so a failure
  may leave the first few of them. Clock, fresh identifiers and failures come with each message.
\<close>

section \<open>Rows of an instruction\<close>

datatype mint_status = Allowed | Blocked

primrec MintStatus_as_str :: "mint_status \<Rightarrow> string" where
  "MintStatus_as_str Allowed = ''allowed''"
| "MintStatus_as_str Blocked = ''blocked''"

record mint_status_change =
  mc_mint_address :: string
  mc_status :: mint_status
  mc_withdrawals_blocked :: bool

definition DbMint_new :: "string \<Rightarrow> int \<Rightarrow> string \<Rightarrow> u64 \<Rightarrow> db_mint" where
  "DbMint_new mint_address decimals token_program withdraw_fee =
     \<lparr>mt_mint_address = mint_address, mt_decimals = decimals, mt_token_program = token_program,
      mt_status = ''allowed'', mt_withdrawals_blocked = False, mt_withdraw_fee = withdraw_fee,
      mt_min_withdraw_amount = 0, mt_allow_mint_slot = 0\<rparr>"

record db_models =
  dm_mint :: "db_mint option"
  dm_status :: "mint_status_change option"
  dm_transaction :: "db_transaction option"
  dm_release :: "db_observed_release option"

definition no_models :: db_models where
  "no_models = \<lparr>dm_mint = None, dm_status = None, dm_transaction = None, dm_release = None\<rparr>"

text \<open>\<open>as i32\<close> of an index and \<open>as i64\<close> of a slot or nonce wrap to the signed type.\<close>

definition build_row ::
  "timestamp \<times> string \<Rightarrow> instruction_with_metadata \<Rightarrow> string \<Rightarrow> string \<Rightarrow> u64 \<Rightarrow> string \<Rightarrow> string \<Rightarrow> tx_type \<Rightarrow>
     db_transaction option" where
  "build_row draw meta signature mint amount initiator recipient ty =
     DbTransactionBuilder_build (fst draw) (snd draw)
       ((DbTransactionBuilder_new signature (im_slot meta) mint amount)\<lparr>
          tb_initiator := Some initiator, tb_recipient := Some recipient,
          tb_transaction_type := Some ty,
          tb_instruction_index := sint (im_instruction_index meta),
          tb_inner_index := map_option sint (im_inner_index meta)\<rparr>)"

definition convert_escrow ::
  "'c channel_sdk_scheme \<Rightarrow> timestamp \<times> string \<Rightarrow> instruction_with_metadata \<Rightarrow> string \<Rightarrow> escrow_ix \<Rightarrow>
     db_models" where
  "convert_escrow os draw meta signature escrow_ix =
     (let to_string = pubkey_to_string os in
      case escrow_ix of
        Deposit_ix accounts data event \<Rightarrow>
          if ide_amount event = 0 then no_models
          else
            let recipient = (case dpd_recipient data of
                  Some r \<Rightarrow> to_string r | None \<Rightarrow> to_string (dpc_user accounts)) in
            no_models\<lparr>dm_transaction := build_row draw meta signature (to_string (dpc_mint accounts))
              (ide_amount event) (to_string (dpc_user accounts)) recipient DepositTx\<rparr>
      | AllowMint_ix accounts data event \<Rightarrow>
          no_models\<lparr>
            dm_mint := Some ((DbMint_new (to_string (amc_mint accounts)) (uint (iae_decimals event))
                (to_string (amc_token_program accounts)) (amd_withdraw_fee data))\<lparr>
              mt_min_withdraw_amount := amd_min_withdraw_amount data,
              mt_allow_mint_slot := sint (im_slot meta)\<rparr>),
            dm_status := Some \<lparr>mc_mint_address = to_string (amc_mint accounts), mc_status = Allowed,
              mc_withdrawals_blocked = False\<rparr>\<rparr>
      | BlockMint_ix accounts data \<Rightarrow>
          no_models\<lparr>dm_status := Some \<lparr>mc_mint_address = to_string (bmc_mint accounts),
            mc_status = (if bmd_block_deposits data then Blocked else Allowed),
            mc_withdrawals_blocked = bmd_block_withdrawals data\<rparr>\<rparr>
      | ReleaseFunds_ix accounts data \<Rightarrow>
          no_models\<lparr>dm_release := Some \<lparr>or_withdrawal_nonce = sint (rfd_transaction_nonce data),
            or_signature = signature, or_slot = sint (im_slot meta), or_amount = Some (rfd_amount data)\<rparr>\<rparr>
      | _ \<Rightarrow> no_models)"

definition convert_to_db_models ::
  "'c channel_sdk_scheme \<Rightarrow> timestamp \<times> string \<Rightarrow> instruction_with_metadata \<Rightarrow> address option \<Rightarrow>
     db_models" where
  "convert_to_db_models os draw meta configured =
     (case im_signature meta of
        None \<Rightarrow> no_models
      | Some signature \<Rightarrow>
          (case im_instruction meta of
             EscrowIx escrow_ix \<Rightarrow>
               if configured \<noteq> Some (escrow_instance_of escrow_ix) then no_models
               else convert_escrow os draw meta signature escrow_ix
           | WithdrawIx (WithdrawFunds_ix accounts data) \<Rightarrow>
               no_models\<lparr>dm_transaction := build_row draw meta signature
                 (pubkey_to_string os (wfc_mint accounts)) (wfd_amount data)
                 (pubkey_to_string os (wfc_user accounts))
                 (pubkey_to_string os (wfd_destination data)) WithdrawalTx\<rparr>))"

section \<open>The processor\<close>

record transaction_processor =
  tp_slot_buffers :: "u64 \<Rightarrow> instruction_with_metadata list"
  tp_configured_escrow_instance_id :: "address option"
  tp_max_attempts :: nat
  tp_consumed :: "consumed_set option"
  tp_validate_only :: bool
  tp_row_mints :: "string set option"

definition DEFAULT_WRITE_MAX_ATTEMPTS :: nat where "DEFAULT_WRITE_MAX_ATTEMPTS = 6"

definition TransactionProcessor_new :: transaction_processor where
  "TransactionProcessor_new =
     \<lparr>tp_slot_buffers = (\<lambda>_. []), tp_configured_escrow_instance_id = None,
      tp_max_attempts = DEFAULT_WRITE_MAX_ATTEMPTS, tp_consumed = None, tp_validate_only = False,
      tp_row_mints = None\<rparr>"

text \<open>The wait between attempts, in milliseconds, for a base delay and a cap.\<close>

definition backoff :: "nat \<Rightarrow> nat \<Rightarrow> nat \<Rightarrow> nat" where
  "backoff base_delay max_delay attempt =
     (let shift = min (attempt - 1) 31 in min (base_delay * 2 ^ shift) max_delay)"

fun validate_against_consumed ::
  "'c channel_sdk_scheme \<Rightarrow> consumed_set option \<Rightarrow> db_transaction list \<Rightarrow>
     consumed_mint_mismatch + unit" where
  "validate_against_consumed os None rows = Inr ()"
| "validate_against_consumed os (Some consumed) rows =
     for_each (\<lambda>r. case map_of consumed (SourceEventId_from_row os r) of
       Some c \<Rightarrow> check_consumed_mint os c r | None \<Rightarrow> Inr ()) rows"

definition reconcile_row :: "'c channel_sdk_scheme \<Rightarrow> consumed_set \<Rightarrow> db_transaction \<Rightarrow> db_transaction" where
  "reconcile_row os consumed r =
     (case map_of consumed (SourceEventId_from_row os r) of
        None \<Rightarrow> r
      | Some c \<Rightarrow>
          (case check_consumed_mint os c r of
             Inl _ \<Rightarrow> r\<lparr>t_status := ManualReview\<rparr>
           | Inr _ \<Rightarrow>
               (case cs_kind c of
                  DepositMint \<Rightarrow> r\<lparr>t_status := Completed,
                    t_counterpart_signature := Some (signature_to_string os (cs_signature c))\<rparr>
                | RemintMint \<Rightarrow> r\<lparr>t_status := FailedReminted,
                    t_landed_remint_signature := Some (signature_to_string os (cs_signature c))\<rparr>)))"

definition reconcile_against_consumed ::
  "'c channel_sdk_scheme \<Rightarrow> consumed_set option \<Rightarrow> db_transaction list \<Rightarrow> db_transaction list" where
  "reconcile_against_consumed os consumed rows =
     (case consumed of None \<Rightarrow> rows | Some c \<Rightarrow> map (reconcile_row os c) rows)"

section \<open>Writing a slot\<close>

datatype write_call = UpsertMints | InsertStatuses | SyncStatus | InsertReleases | InsertRows

datatype fault = Healthy | Fails nat

datatype storage_error = Refused db_error | Unavailable

text \<open>A batch in one transaction: \<open>Fails 0\<close> rolls it back, any other failure loses its answer.\<close>

definition faulty :: "fault \<Rightarrow> 'a db_op \<Rightarrow> ledger_db \<Rightarrow> (storage_error + 'a) \<times> ledger_db" where
  "faulty f op db =
     (case f of
        Healthy \<Rightarrow> (case op db of (Inl e, db') \<Rightarrow> (Inl (Refused e), db') | (Inr x, db') \<Rightarrow> (Inr x, db'))
      | Fails 0 \<Rightarrow> (Inl Unavailable, db)
      | Fails (Suc _) \<Rightarrow> (Inl Unavailable, snd (op db)))"

definition faulty_releases ::
  "fault \<Rightarrow> db_observed_release list \<Rightarrow> ledger_db \<Rightarrow> (storage_error + unit) \<times> ledger_db" where
  "faulty_releases f releases db =
     (case f of
        Healthy \<Rightarrow> (Inr (), snd (insert_observed_releases_batch releases db))
      | Fails n \<Rightarrow> (Inl Unavailable, snd (insert_observed_releases_batch (take n releases) db)))"

definition and_then ::
  "(storage_error + 'a) \<times> ledger_db \<Rightarrow> (ledger_db \<Rightarrow> (storage_error + 'b) \<times> ledger_db) \<Rightarrow>
     (storage_error + 'b) \<times> ledger_db" where
  "and_then r k = (case r of (Inl e, db) \<Rightarrow> (Inl e, db) | (Inr _, db) \<Rightarrow> k db)"

record slot_rows_record =
  sr_mints :: "db_mint list"
  sr_statuses :: "db_mint_status list"
  sr_transactions :: "db_transaction list"
  sr_releases :: "db_observed_release list"

definition sorted_addresses :: "db_mint_status list \<Rightarrow> string list" where
  "sorted_addresses statuses = remdups_adj (sort (map ms_mint_address statuses))"

definition write_slot ::
  "(write_call \<Rightarrow> fault) \<Rightarrow> timestamp \<Rightarrow> slot_rows_record \<Rightarrow> ledger_db \<Rightarrow>
     (storage_error + unit) \<times> ledger_db" where
  "write_slot faults now rows db =
     and_then (if sr_mints rows = [] then (Inr (), db)
               else faulty (faults UpsertMints) (upsert_mints_batch (sr_mints rows)) db) (\<lambda>db.
     and_then (if sr_statuses rows = [] then (Inr (), db)
               else
                 and_then (faulty (faults InsertStatuses) (insert_mint_statuses_batch (sr_statuses rows)) db)
                   (faulty (faults SyncStatus) (sync_mint_status (sorted_addresses (sr_statuses rows))))) (\<lambda>db.
     and_then (if sr_releases rows = [] then (Inr (), db)
               else faulty_releases (faults InsertReleases) (sr_releases rows) db) (\<lambda>db.
     if sr_transactions rows = [] then (Inr (), db)
     else and_then (faulty (faults InsertRows) (insert_transactions_batch now (sr_transactions rows)) db)
       (\<lambda>db. (Inr (), db)))))"

text \<open>The retry loop: an attempt has its own clock and failures.\<close>

function write_with_retry ::
  "nat \<Rightarrow> (nat \<Rightarrow> write_call \<Rightarrow> fault) \<Rightarrow> (nat \<Rightarrow> timestamp) \<Rightarrow> slot_rows_record \<Rightarrow> nat \<Rightarrow> ledger_db \<Rightarrow>
     (storage_error + unit) \<times> ledger_db" where
  "write_with_retry max_attempts faults clock rows attempt db =
     (case write_slot (faults attempt) (clock attempt) rows db of
        (Inr u, db') \<Rightarrow> (Inr (), db')
      | (Inl e, db') \<Rightarrow>
          if max_attempts \<le> attempt then (Inl e, db')
          else write_with_retry max_attempts faults clock rows (attempt + 1) db')"
  by pat_completeness auto
termination
  by (relation "measure (\<lambda>(m, _, _, _, a, _). m - a)") auto

declare write_with_retry.simps [simp del]

section \<open>Messages\<close>

datatype processor_message =
    InstructionMsg instruction_with_metadata
  | SlotComplete u64 program_type "string option"
  | RegateRequest program_type u64 u64

datatype indexer_error =
    StorageErr storage_error
  | MismatchErr consumed_mint_mismatch
  | CheckpointChannelClosed

text \<open>What the world decides while a message is handled.\<close>

record slot_world =
  sw_draw :: "nat \<Rightarrow> timestamp \<times> string"
  sw_clock :: "nat \<Rightarrow> timestamp"
  sw_faults :: "nat \<Rightarrow> write_call \<Rightarrow> fault"
  sw_writer_gone :: bool

record processor_state =
  ps_processor :: transaction_processor
  ps_db :: ledger_db
  ps_sent :: "checkpoint_msg list"

definition status_row ::
  "u64 \<Rightarrow> instruction_with_metadata \<Rightarrow> mint_status_change \<Rightarrow> string \<Rightarrow> db_mint_status" where
  "status_row slot meta change signature =
     \<lparr>ms_mint_address = mc_mint_address change, ms_status = MintStatus_as_str (mc_status change),
      ms_withdrawals_blocked = mc_withdrawals_blocked change, ms_effective_slot = sint slot,
      ms_transaction_index = sint (im_transaction_index meta),
      ms_instruction_index = sint (im_instruction_index meta),
      ms_inner_index = map_option sint (im_inner_index meta), ms_signature = signature\<rparr>"

definition models_of ::
  "'c channel_sdk_scheme \<Rightarrow> address option \<Rightarrow> (nat \<Rightarrow> timestamp \<times> string) \<Rightarrow>
     instruction_with_metadata list \<Rightarrow> (instruction_with_metadata \<times> db_models) list" where
  "models_of os configured draw metas =
     map (\<lambda>(i, meta). (meta, convert_to_db_models os (draw i) meta configured)) (enumerate 0 metas)"

definition slot_rows_of ::
  "u64 \<Rightarrow> (instruction_with_metadata \<times> db_models) list \<Rightarrow> slot_rows_record" where
  "slot_rows_of slot models =
     \<lparr>sr_mints = List.map_filter (dm_mint \<circ> snd) models,
      sr_statuses = List.map_filter (\<lambda>(meta, dm).
        Option.bind (dm_status dm) (\<lambda>change. map_option (status_row slot meta change) (im_signature meta)))
        models,
      sr_transactions = List.map_filter (dm_transaction \<circ> snd) models,
      sr_releases = List.map_filter (dm_release \<circ> snd) models\<rparr>"

definition finalize_and_checkpoint ::
  "'c channel_sdk_scheme \<Rightarrow> slot_world \<Rightarrow> u64 \<Rightarrow> program_type \<Rightarrow> string option \<Rightarrow> processor_state \<Rightarrow>
     (indexer_error + unit) \<times> processor_state" where
  "finalize_and_checkpoint os sw slot program_type blockhash st =
     (let p = ps_processor st;
          metas = tp_slot_buffers p slot;
          p' = p\<lparr>tp_slot_buffers := (tp_slot_buffers p)(slot := [])\<rparr>;
          rows = slot_rows_of slot
            (models_of os (tp_configured_escrow_instance_id p) (sw_draw sw) metas) in
      if tp_validate_only p then
        (case validate_against_consumed os (tp_consumed p) (sr_transactions rows) of
           Inl m \<Rightarrow> Inl (MismatchErr m) | Inr u \<Rightarrow> Inr (),
         st\<lparr>ps_processor := p'\<lparr>tp_row_mints :=
           map_option (\<lambda>ms. ms \<union> set (map t_mint (sr_transactions rows))) (tp_row_mints p)\<rparr>\<rparr>)
      else
        let rows' = rows\<lparr>sr_transactions :=
              reconcile_against_consumed os (tp_consumed p) (sr_transactions rows)\<rparr> in
        (case write_with_retry (tp_max_attempts p) (sw_faults sw) (sw_clock sw) rows' 1 (ps_db st) of
           (Inl e, db) \<Rightarrow> (Inl (StorageErr e), st\<lparr>ps_processor := p', ps_db := db\<rparr>)
         | (Inr u, db) \<Rightarrow>
             if sw_writer_gone sw
             then (Inl CheckpointChannelClosed, st\<lparr>ps_processor := p', ps_db := db\<rparr>)
             else (Inr (), st\<lparr>ps_processor := p', ps_db := db,
               ps_sent := ps_sent st @ [SlotMsg \<lparr>cu_program_type = program_type, cu_slot = slot,
                 cu_blockhash = blockhash\<rparr>]\<rparr>)))"

fun handle_message ::
  "'c channel_sdk_scheme \<Rightarrow> slot_world \<Rightarrow> processor_message \<Rightarrow> processor_state \<Rightarrow>
     (indexer_error + unit) \<times> processor_state" where
  "handle_message os sw (InstructionMsg meta) st =
     (Inr (), st\<lparr>ps_processor := (ps_processor st)\<lparr>tp_slot_buffers :=
        (tp_slot_buffers (ps_processor st))(im_slot meta :=
           tp_slot_buffers (ps_processor st) (im_slot meta) @ [meta])\<rparr>\<rparr>)"
| "handle_message os sw (SlotComplete slot program_type blockhash) st =
     finalize_and_checkpoint os sw slot program_type blockhash st"
| "handle_message os sw (RegateRequest program_type fr target) st =
     (if tp_validate_only (ps_processor st) then (Inr (), st)
      else if sw_writer_gone sw then (Inl CheckpointChannelClosed, st)
      else (Inr (), st\<lparr>ps_sent := ps_sent st @ [RegateMsg program_type fr target]\<rparr>))"

text \<open>The loop over the channel: it ends with the channel, or at the first error.\<close>

fun run_processor ::
  "'c channel_sdk_scheme \<Rightarrow> (slot_world \<times> processor_message) list \<Rightarrow> processor_state \<Rightarrow>
     (indexer_error + unit) \<times> processor_state" where
  "run_processor os [] st = (Inr (), st)"
| "run_processor os ((sw, m) # ms) st =
     (case handle_message os sw m st of
        (Inl e, st') \<Rightarrow> (Inl e, st')
      | (Inr u, st') \<Rightarrow> run_processor os ms st')"

end
