(* ===== verification/Channel_Mint_Safety.thy ===== *)
theory Channel_Mint_Safety
  imports Channel_Mints Ledger_Safety
begin

text \<open>
  What the consumed set promises: a walk over an honest node's history sees every entry newer than
  the newest mint the database knows, every mint it accepts is authenticated, so a row the channel has
  already paid is never taken for unpaid; the markers and records it rests on read back as written;
  and a deposit is only re-sent to a mint whose authority and delegate were read on chain.
\<close>

section \<open>Listings\<close>

text \<open>
  A node that serves the whole history of an address, newest first, \<open>page_limit\<close> entries a page, a
  cursor naming the last entry of the page before.
\<close>

definition sig_of :: "'c channel_sdk_scheme \<Rightarrow> signature_status \<Rightarrow> bytes option" where
  "sig_of os s = os_signature_from_str os (gs_signature s)"

definition serves ::
  "'c channel_sdk_scheme \<Rightarrow> signature_status list \<Rightarrow> nat \<Rightarrow> (bytes option \<Rightarrow> string + signature_status list) \<Rightarrow>
     bool" where
  "serves os history page_limit request \<longleftrightarrow>
     list_all (\<lambda>s. sig_of os s \<noteq> None) history \<and> distinct (map (sig_of os) history)
     \<and> request None = Inr (take page_limit history)
     \<and> (\<forall>i<length history.
          request (sig_of os (history ! i)) = Inr (take page_limit (drop (Suc i) history)))"

lemma takeWhile_take:
  assumes "list_ex P (take n xs)"
  shows "takeWhile (\<lambda>x. \<not> P x) (take n xs) = takeWhile (\<lambda>x. \<not> P x) xs"
  using assms
proof (induction xs arbitrary: n)
  case (Cons x xs)
  then show ?case by (cases n) auto
qed simp

lemma takeWhile_skip:
  assumes "\<not> list_ex P (take n xs)"
  shows "takeWhile (\<lambda>x. \<not> P x) xs = take n xs @ takeWhile (\<lambda>x. \<not> P x) (drop n xs)"
    "list_ex P xs \<longleftrightarrow> list_ex P (drop n xs)"
proof -
  have "takeWhile (\<lambda>x. \<not> P x) (take n xs @ drop n xs)
      = take n xs @ takeWhile (\<lambda>x. \<not> P x) (drop n xs)"
    using assms by (subst takeWhile_append2) (auto simp: list_ex_iff)
  then show "takeWhile (\<lambda>x. \<not> P x) xs = take n xs @ takeWhile (\<lambda>x. \<not> P x) (drop n xs)" by simp
  have "list_ex P (take n xs @ drop n xs) \<longleftrightarrow> list_ex P (drop n xs)"
    using assms by (simp only: list_ex_append) simp
  then show "list_ex P xs \<longleftrightarrow> list_ex P (drop n xs)" by simp
qed

lemma paginated_from:
  assumes serves: "serves os history page_limit request" and limit: "0 < page_limit"
    and cursor: "request cursor = Inr (take page_limit (drop k history))"
  shows "get_signatures_for_address_paginated os request page_limit stop_at keep cursor found
    = Some (Inr (found @ filter keep (takeWhile (\<lambda>s. \<not> stops_at os stop_at s) (drop k history)),
        list_ex (stops_at os stop_at) (drop k history)))"
  using cursor
proof (induction "length history - k" arbitrary: k cursor found rule: less_induct)
  case less
  let ?stop = "stops_at os stop_at" and ?page = "take page_limit (drop k history)"
  note unfold = get_signatures_for_address_paginated.simps [of os request page_limit stop_at keep cursor found]
  consider (hit) "list_ex ?stop ?page" | (short) "\<not> list_ex ?stop ?page" "length ?page < page_limit"
    | (full) "\<not> list_ex ?stop ?page" "\<not> length ?page < page_limit" by blast
  then show ?case
  proof cases
    case hit
    then have "list_ex ?stop (drop k history)"
      by (metis append_take_drop_id list_ex_append)
    with hit show ?thesis by (simp add: unfold less.prems takeWhile_take)
  next
    case short
    then have "?page = drop k history" by simp
    with short show ?thesis
      by (simp add: unfold less.prems) (metis (no_types, lifting) list_ex_iff takeWhile_eq_all_conv)
  next
    case full
    then have len: "k + page_limit \<le> length history" using limit by auto
    with limit have "last ?page = history ! (k + page_limit - 1)" by (simp add: last_conv_nth)
    moreover have i: "k + page_limit - 1 < length history" using len limit by simp
    moreover have "?page \<noteq> []" using len limit by auto
    moreover obtain g where g: "sig_of os (history ! (k + page_limit - 1)) = Some g"
      using serves i by (fastforce simp: serves_def list_all_length)
    ultimately have cur: "next_cursor os ?page = Some g" by (simp add: next_cursor_def sig_of_def)
    have "request (Some g) = Inr (take page_limit (drop (k + page_limit) history))"
      using serves i g limit by (auto simp: serves_def dest!: spec [of _ "k + page_limit - 1"])
    with less.hyps [of "k + page_limit" "Some g" "found @ filter keep ?page"] len limit
    have "get_signatures_for_address_paginated os request page_limit stop_at keep (Some g)
        (found @ filter keep ?page)
      = Some (Inr ((found @ filter keep ?page)
          @ filter keep (takeWhile (\<lambda>s. \<not> ?stop s) (drop (k + page_limit) history)),
          list_ex ?stop (drop (k + page_limit) history)))" by simp
    moreover note takeWhile_skip [OF full(1)]
    ultimately show ?thesis
      using full cur by (simp add: unfold less.prems add.commute)
  qed
qed

text \<open>The listing of an honest node: it ends, and nothing newer than the stop is left out.\<close>

lemma listing_is_complete:
  assumes "serves os history page_limit request" "0 < page_limit"
  shows "get_signatures_for_address_paginated os request page_limit stop_at keep None []
    = Some (Inr (filter keep (takeWhile (\<lambda>s. \<not> stops_at os stop_at s) history),
        list_ex (stops_at os stop_at) history))"
  using paginated_from [OF assms, of None 0] assms(1) by (simp add: serves_def)

section \<open>Collecting\<close>

lemma collect_cases:
  assumes "collect_statuses os fetch sc (s # ss) accepted added cset = Inr (added', cset')"
  obtains g where "sig_of os s = Some g"
      "g \<in> set accepted" "collect_statuses os fetch sc ss accepted added cset = Inr (added', cset')"
  | g tx where "sig_of os s = Some g" "g \<notin> set accepted" "fetch g = Inr tx" "\<not> counts_in os sc tx"
      "collect_statuses os fetch sc ss accepted added cset = Inr (added', cset')"
  | g tx event c where "sig_of os s = Some g" "g \<notin> set accepted" "fetch g = Inr tx" "counts_in os sc tx"
      "authenticate os sc s g tx = Inr (event, c)" "map_of cset event = None"
      "collect_statuses os fetch sc ss (accepted @ [g]) (added + 1) (cset @ [(event, c)])
         = Inr (added', cset')"
  | g tx event c known where "sig_of os s = Some g" "g \<notin> set accepted" "fetch g = Inr tx" "counts_in os sc tx"
      "authenticate os sc s g tx = Inr (event, c)" "map_of cset event = Some known"
      "cs_signature known = cs_signature c"
      "collect_statuses os fetch sc ss accepted added cset = Inr (added', cset')"
proof -
  from assms obtain g where g: "sig_of os s = Some g"
    by (auto simp: sig_of_def)
  show ?thesis
  proof (cases "g \<in> set accepted")
    case True
    with assms g show ?thesis by (intro that(1)) (simp_all add: sig_of_def)
  next
    case new: False
    with assms g obtain tx where tx: "fetch g = Inr tx" by (auto simp: sig_of_def split: sum.splits)
    show ?thesis
    proof (cases "counts_in os sc tx")
      case False
      with assms g new tx show ?thesis by (intro that(2)) (simp_all add: sig_of_def)
    next
      case True
      with assms g new tx obtain event c where a: "authenticate os sc s g tx = Inr (event, c)"
        by (auto simp: sig_of_def)
      show ?thesis
      proof (cases "map_of cset event")
        case None
        with assms g new tx True a show ?thesis
          by (intro that(3)) (simp_all add: sig_of_def enter_def)
      next
        case (Some known)
        with assms g new tx True a show ?thesis
          by (intro that(4) [of g tx event c known]) (auto simp: sig_of_def enter_def split: if_splits)
      qed
    qed
  qed
qed

lemma list_destruct:
  obtains "xs = []" | x where "xs = [x]" | x y ys where "xs = x # y # ys"
  by (metis neq_Nil_conv)

lemma authenticated:
  assumes "authenticate os sc s g tx = Inr (event, c)"
  obtains mint_to where
    "memo_markers (case gs_memo s of Some m \<Rightarrow> m | None \<Rightarrow> []) = [(cs_kind c, event)]"
    "SourceEventId_from_encoded os event = Some event"
    "transaction_has_memo os tx (expected_memo (cs_kind c) event)"
    "transaction_mint_tos os tx = [mint_to]" "check_scope os sc g tx mint_to = Inr ()"
    "c = \<lparr>cs_signature = g, cs_kind = cs_kind c, cs_mint = mtf_mint mint_to,
       cs_recipient_ata = mtf_recipient_ata mint_to, cs_token_program = mtf_token_program mint_to,
       cs_amount = mtf_amount mint_to\<rparr>"
proof -
  let ?ms = "memo_markers (case gs_memo s of Some m \<Rightarrow> m | None \<Rightarrow> [])"
  from assms obtain kind enc where ms: "?ms = [(kind, enc)]"
    by (cases ?ms rule: list_destruct) (auto simp: authenticate_def)
  from assms obtain mint_to where mt: "transaction_mint_tos os tx = [mint_to]"
    by (cases "transaction_mint_tos os tx" rule: list_destruct) (auto simp: authenticate_def ms)
  from assms ms mt show ?thesis
    by (intro that [of mint_to])
      (auto simp: authenticate_def SourceEventId_from_encoded_def split: option.splits if_splits)
qed

lemma authenticate_signature: "authenticate os sc s g tx = Inr (event, c) \<Longrightarrow> cs_signature c = g"
  by (erule authenticated) (metis consumed_mint.select_convs(1))

text \<open>
  A walk that starts empty enters every counted transaction under the event its memo names: an
  entry it already holds has another signature, and then the walk fails.
\<close>

lemma collect_enters_all:
  assumes "collect_statuses os fetch sc ss accepted added cset = Inr (added', cset')"
    and "distinct (map (sig_of os) ss)" "\<forall>s\<in>set ss. \<forall>g\<in>set accepted. sig_of os s \<noteq> Some g"
    and "\<forall>(e, c)\<in>set cset. cs_signature c \<in> set accepted"
  shows "map_of cset \<subseteq>\<^sub>m map_of cset' \<and> (\<forall>s\<in>set ss. \<forall>g tx.
     sig_of os s = Some g \<and> fetch g = Inr tx \<and> counts_in os sc tx
     \<longrightarrow> (\<exists>event c. authenticate os sc s g tx = Inr (event, c) \<and> map_of cset' event = Some c))"
  using assms
proof (induction ss arbitrary: accepted added cset)
  case (Cons s ss)
  show ?case
  proof (cases rule: collect_cases [OF Cons.prems(1)])
    case (1 g)
    with Cons.prems(3) show ?thesis by auto
  next
    case (2 g tx)
    from Cons.IH [OF 2(5)] Cons.prems show ?thesis using 2 by auto
  next
    case (3 g tx event c)
    let ?cset = "cset @ [(event, c)]"
    have sub: "map_of cset \<subseteq>\<^sub>m map_of ?cset" "map_of ?cset event = Some c"
      using 3(6) by (auto simp: map_le_def map_add_def)
    have "\<forall>(e, c)\<in>set ?cset. cs_signature c \<in> set (accepted @ [g])"
      using Cons.prems(4) authenticate_signature [OF 3(5)] by auto
    moreover have "\<forall>s'\<in>set ss. \<forall>h\<in>set (accepted @ [g]). sig_of os s' \<noteq> Some h"
      using Cons.prems(2,3) 3(1) by (auto simp: image_iff)
    ultimately have IH: "map_of ?cset \<subseteq>\<^sub>m map_of cset'" "\<forall>s\<in>set ss. \<forall>g tx.
        sig_of os s = Some g \<and> fetch g = Inr tx \<and> counts_in os sc tx
        \<longrightarrow> (\<exists>event c. authenticate os sc s g tx = Inr (event, c) \<and> map_of cset' event = Some c)"
      using Cons.IH [OF 3(7)] Cons.prems(2) by auto
    from IH(1) sub(2) have "map_of cset' event = Some c" by (metis domI map_le_def)
    moreover have "map_of cset \<subseteq>\<^sub>m map_of cset'" using sub(1) IH(1) by (rule map_le_trans)
    ultimately show ?thesis using IH(2) 3 by auto
  next
    case (4 g tx event c known)
    then have "cs_signature known = g" by (simp add: authenticate_signature)
    moreover have "(event, known) \<in> set cset" using 4(6) by (rule map_of_SomeD)
    ultimately have "g \<in> set accepted" using Cons.prems(4) by auto
    with 4 Cons.prems(3) show ?thesis by auto
  qed
qed simp

lemma enter_all_keeps:
  assumes "enter_all found cset = (Inr (), cset')" "(e, c) \<in> set found \<or> map_of cset e \<noteq> None"
  shows "map_of cset' e \<noteq> None"
  using assms
proof (induction found cset rule: enter_all.induct)
  case (2 event consumed found cset)
  from "2.prems"(1) obtain cset1 new where step: "enter event consumed cset = Inr (cset1, new)"
    "enter_all found cset1 = (Inr (), cset')" by (auto split: sum.splits)
  have "map_of cset1 event \<noteq> None" "map_of cset e \<noteq> None \<longrightarrow> map_of cset1 e \<noteq> None"
    using step(1) by (auto simp: enter_def map_add_def split: option.splits if_splits)
  with "2.IH" [OF step(1) refl step(2)] "2.prems"(2) show ?case by auto
qed auto

section \<open>A paid row is found\<close>

lemma list_ex_of_singleton: "markers = [(kind, x)] \<Longrightarrow> list_ex (\<lambda>(k, _). k = kind) markers"
  by simp

text \<open>What a walk of an unwalked mint enters.\<close>

lemma walk_finds:
  assumes node: "serves os history (cc_page_limit cache) (rp_page rpc mint (cc_page_limit cache))"
      "0 < cc_page_limit cache"
    and stop: "map_result (\<lambda>g. ok_orE (os_signature_from_str os g) (BadStoredSignature g))
      (get_newest_known_mint_signatures (pubkey_to_string os mint) (cc_role cache) db) = Inr stop_at"
    and s: "s \<in> set (takeWhile (\<lambda>s. \<not> stops_at os stop_at s) history)" "\<not> gs_err s"
      "gs_memo s = Some memo" "memo_markers memo = [(role_kind (cc_role cache), event)]"
      "sig_of os s = Some g" "rp_transaction rpc g = Inr tx" "counts_in os (MintScope mint) tx"
    and new: "mint \<notin> set (cc_walked cache)"
  shows "\<exists>res cache' db'. walk_mint os rpc mint cache db = Some (res, cache', db')
    \<and> (res = Inr () \<longrightarrow> map_of (cc_set cache') event \<noteq> None)"
proof -
  let ?ss = "filter (kept_status (Some (role_kind (cc_role cache))))
    (takeWhile (\<lambda>s. \<not> stops_at os stop_at s) history)"
  let ?met = "list_ex (stops_at os stop_at) history"
  define found where "found = collect_statuses os (rp_transaction rpc) (MintScope mint) ?ss [] 0 []"
  have kept: "s \<in> set ?ss" using s(1-4) by (simp add: kept_status_def)
  have dist: "distinct (map (sig_of os) ?ss)"
    using node(1) by (auto simp: serves_def distinct_map inj_on_def dest!: set_takeWhileD)
  have c: "collect_mints os rpc (MintScope mint) (cc_page_limit cache) stop_at
      (Some (role_kind (cc_role cache))) []
    = Some (bindE found (\<lambda>(added, cset). Inr ((added, ?met), cset)))"
    by (simp add: collect_mints_def listing_is_complete [OF node] found_def)
  note unfold = walk_mint_def [of os rpc mint cache db] stop c Let_def
  show ?thesis
  proof (cases found)
    case (Inl e)
    with new show ?thesis by (simp add: unfold)
  next
    case (Inr p)
    then obtain added cset where f: "found = Inr (added, cset)" by (cases p) simp
    from collect_enters_all [OF f [unfolded found_def] dist] kept s(5-7)
    obtain ev c where "authenticate os (MintScope mint) s g tx = Inr (ev, c)" "map_of cset ev = Some c"
      by fastforce
    then have "(event, c) \<in> set cset"
      using s(3,4) by (elim authenticated) (auto dest: map_of_SomeD)
    then have "enter_all cset (cc_set cache) = (Inr (), cset') \<Longrightarrow> map_of cset' event \<noteq> None" for cset'
      using enter_all_keeps by blast
    then show ?thesis
      using new f
      by (cases "if stop_at \<noteq> [] \<and> \<not> ?met then accept_pruned_walk rpc else Inr ()";
          cases "enter_all cset (cc_set cache)"; cases "fst (enter_all cset (cc_set cache))")
        (simp_all add: unfold split del: if_split)
  qed
qed


section \<open>Markers and records read back\<close>

lemma split_once_none:
  assumes "x \<notin> set s"
  shows "split_once (x # sep) s = None"
  using assms
proof (induction s)
  case Nil
  show ?case by (simp add: split_once.simps strip_prefix_def)
next
  case (Cons c s)
  then show ?case by (auto simp: split_once.simps [of _ "c # s"] strip_prefix_def)
qed

lemma split_str_none: "x \<notin> set s \<Longrightarrow> split_str (x # sep) s = [s]"
  by (simp add: split_str.simps split_once_none)

lemma split_once_first:
  assumes "x \<notin> set s"
  shows "split_once (x # sep) (s @ (x # sep) @ rest) = Some (s, rest)"
  using assms
proof (induction s)
  case Nil
  show ?case by (simp add: split_once.simps strip_prefix_def)
next
  case (Cons c s)
  then show ?case
    by (auto simp: split_once.simps [of _ "c # s @ x # sep @ rest"] strip_prefix_def)
qed

lemma marker_of_memo: "marker_of (expected_memo kind event) = Some (kind, event)"
  by (cases kind) (simp_all add: marker_of_def strip_memo_length_prefix_def strip_prefix_def
      expected_memo_def mint_idempotency_memo_def remint_idempotency_memo_def idempotency_memo_def
      MINT_IDEMPOTENCY_MEMO_PREFIX_def REMINT_IDEMPOTENCY_MEMO_PREFIX_def)

lemma length_prefix_stripped:
  assumes "list_all is_ascii_digit n"
  shows "strip_memo_length_prefix (''['' @ n @ ''] '' @ memo) = memo"
proof -
  have "CHR '']'' \<notin> set n" using assms by (auto simp: list_all_iff is_ascii_digit_def)
  from split_once_first [OF this, of "'' ''" memo] assms show ?thesis
    by (simp add: strip_memo_length_prefix_def strip_prefix_def)
qed

lemma unprefixed_memo: "strip_memo_length_prefix (expected_memo kind event) = expected_memo kind event"
  by (cases kind) (simp_all add: strip_memo_length_prefix_def strip_prefix_def
      expected_memo_def mint_idempotency_memo_def remint_idempotency_memo_def idempotency_memo_def
      MINT_IDEMPOTENCY_MEMO_PREFIX_def REMINT_IDEMPOTENCY_MEMO_PREFIX_def)

lemma semicolon_free:
  assumes "CHR '';'' \<notin> set event" "list_all is_ascii_digit n"
  shows "CHR '';'' \<notin> set (expected_memo kind event)"
    "CHR '';'' \<notin> set (''['' @ n @ ''] '' @ expected_memo kind event)"
  using assms by (cases kind, auto simp: expected_memo_def mint_idempotency_memo_def
      remint_idempotency_memo_def idempotency_memo_def MINT_IDEMPOTENCY_MEMO_PREFIX_def
      REMINT_IDEMPOTENCY_MEMO_PREFIX_def list_all_iff is_ascii_digit_def)+

lemma event_of_row:
  assumes "channel_sdk_contract os"
  shows "CHR '';'' \<notin> set (SourceEventId_from_row os r)"
    "SourceEventId_from_encoded os (SourceEventId_from_row os r) = Some (SourceEventId_from_row os r)"
  using assms by (auto simp: SourceEventId_from_row_def SourceEventId_new_def list_all_iff
      channel_sdk_contract_def SourceEventId_from_encoded_def SOURCE_EVENT_ID_DIGEST_LEN_def)

lemma one_marker:
  "CHR '';'' \<notin> set memo \<Longrightarrow> marker_of memo = Some m \<Longrightarrow> memo_markers memo = [m]"
  by (simp add: memo_markers_def split_str_none List.map_filter_def)

text \<open>
  C30. What is written is what is read: the memo of a mint or remint, alone or with the length prefix
  a node puts before it, reads back as one marker of that kind with the row's event id, that id is
  accepted as one of the current scheme, and a consumed mint recorded in the database reads back
  unchanged.
\<close>

theorem markers_read_back:
  assumes "channel_sdk_contract os" "list_all is_ascii_digit n" "length (cs_signature c) = 64"
  shows "let event = SourceEventId_from_row os r; memo = expected_memo kind event in
    memo_markers memo = [(kind, event)]
    \<and> memo_markers (''['' @ n @ ''] '' @ memo) = [(kind, event)]
    \<and> SourceEventId_from_encoded os event = Some event
    \<and> consumed_from_db os (consumed_to_db os event c) = Inr (event, c)"
proof -
  define event where "event = SourceEventId_from_row os r"
  note event = event_of_row [OF assms(1), of r, folded event_def]
  note free = semicolon_free [OF event(1) assms(2), of kind]
  have "marker_of (''['' @ n @ ''] '' @ expected_memo kind event) = marker_of (expected_memo kind event)"
    by (simp only: marker_of_def length_prefix_stripped [OF assms(2)] unprefixed_memo)
  then have "memo_markers (expected_memo kind event) = [(kind, event)]"
    "memo_markers (''['' @ n @ ''] '' @ expected_memo kind event) = [(kind, event)]"
    using one_marker [OF free(1) marker_of_memo] one_marker [OF free(2)] by (simp_all only: marker_of_memo)
  moreover have "consumed_from_db os (consumed_to_db os event c) = Inr (event, c)"
    using assms(1,3) by (cases "cs_kind c")
      (simp_all add: consumed_from_db_def consumed_to_db_def event(2) signature_to_string_def
        pubkey_to_string_def channel_sdk_contract_def)
  ultimately show ?thesis using event(2) by (simp add: event_def Let_def)
qed

section \<open>Waiting for the index\<close>

text \<open>The target is the newest block of the first reply, whatever later replies say.\<close>

lemma index_wait_reaches_first_block:
  assumes "wait_for_address_index deadline pinned polls = Some (Inr ())"
  shows "\<exists>w l now. (IndexSlots w l, now) \<in> set polls
    \<and> (case pinned of Some t \<Rightarrow> t | None \<Rightarrow> (case fst (hd polls) of IndexSlots _ l0 \<Rightarrow> l0 | _ \<Rightarrow> 0)) \<le> w"
  using assms
proof (induction deadline pinned polls rule: wait_for_address_index.induct)
  case (2 deadline pinned reply now polls)
  show ?case
  proof (cases reply)
    case (IndexSlots w l)
    let ?t = "case pinned of Some t \<Rightarrow> t | None \<Rightarrow> l"
    show ?thesis
    proof (cases "?t \<le> w")
      case True
      with IndexSlots show ?thesis by (cases pinned) auto
    next
      case False
      with "2.prems" IndexSlots have "\<not> deadline \<le> now"
        "wait_for_address_index deadline (Some ?t) polls = Some (Inr ())"
        by (auto simp: Let_def split: if_splits)
      with "2.IH" [OF IndexSlots refl False] show ?thesis
        using IndexSlots by (cases pinned) (auto simp: Let_def)
    qed
  qed (use "2.prems" in simp_all)
qed simp

section \<open>First use of a mint\<close>

lemma match_is_ours:
  "decode_and_check_authority os data admin delegate = Match \<longleftrightarrow>
     os_mint_unpack os data = Inr (Some admin, Some delegate)"
  by (auto simp: decode_and_check_authority_def split: sum.splits option.splits prod.splits if_splits)

lemma reads_match:
  assumes "authority_check_reads os admin delegate left reads last_check = Match" "last_check \<noteq> Match"
  shows "\<exists>i data. reads i = Inr data \<and> os_mint_unpack os data = Inr (Some admin, Some delegate)"
  using assms
proof (induction os admin delegate left reads last_check rule: authority_check_reads.induct)
  case (2 os admin delegate left reads last_check)
  then show ?case by (auto simp: Let_def match_is_ours split: sum.splits if_splits)
qed simp

lemma verdict_retry: "jit_verdict check ix mint is_fallback = Retry ix' \<longleftrightarrow> check = Match \<and> ix' = ix"
  by (cases check) (auto simp: jit_verdict_def)

text \<open>
  C31. A deposit is re-sent after the first-use check only into a mint of ours: whenever the verdict is
  to retry, it retries the same instruction, and some read of the mint account decoded to a mint
  whose authority is the operator's admin and whose permanent delegate is the configured one.
\<close>

theorem jit_retries_only_own_mints:
  assumes "try_jit_mint_initialization os builders admin delegate rs i ix = Retry ix'"
  shows "ix' = ix \<and> (\<exists>data. os_mint_unpack os data = Inr (Some admin, Some delegate)
    \<and> (jr_precheck rs = Inr data \<or> jr_reread rs = Inr data \<or> (\<exists>k. jr_reads rs k = Inr data)))"
proof -
  have backoff: "\<exists>k data. jr_reads rs k = Inr data \<and> os_mint_unpack os data = Inr (Some admin, Some delegate)"
    if "mint_authority_check_with_backoff os admin delegate (jr_reads rs) = Match"
    using reads_match [of os admin delegate 4 "jr_reads rs" Uninitialized] that
    by (simp add: mint_authority_check_with_backoff_def)
  show ?thesis
    using assms backoff
    by (auto simp: try_jit_mint_initialization_def Let_def match_is_ours verdict_retry
        split: option.splits sum.splits bool.splits authority_check.splits)
qed

section \<open>An example\<close>

text \<open>
  A concrete SDK, with two letters per byte for base58 and a prefix for the digest, and a node whose
  history of mint 5 holds one earlier mint of the row's event.
\<close>

definition demo_encode :: "bytes \<Rightarrow> string" where
  "demo_encode bs = concat (map (\<lambda>b. [char_of (97 + unat b div 16), char_of (97 + unat b mod 16)]) bs)"

fun demo_decode :: "string \<Rightarrow> bytes option" where
  "demo_decode [] = Some []"
| "demo_decode [_] = None"
| "demo_decode (x # y # s) =
     map_option ((#) (word_of_nat (16 * (of_char x - 97) + (of_char y - 97)))) (demo_decode s)"

definition demo_channel_sdk :: channel_sdk where
  "demo_channel_sdk =
     \<lparr>cr_bs58_decode = demo_decode, cr_borsh_u8 = (\<lambda>_. None), cr_borsh_u64 = (\<lambda>_. None),
      cr_borsh_bool = (\<lambda>_. None), cr_borsh_option_32 = (\<lambda>_. None),
      cr_find_program_address = (\<lambda>_ _. (0, 0)),
      sd_pubkey_from_str = (\<lambda>s. case demo_decode s of
        Some bs \<Rightarrow> if length bs = 32 then Some (address_of_bytes bs) else None | None \<Rightarrow> None),
      os_signature_from_str = (\<lambda>s. case demo_decode s of
        Some bs \<Rightarrow> if length bs = 64 then Some bs else None | None \<Rightarrow> None),
      os_bs58_encode = demo_encode,
      os_hashv = (\<lambda>xs. take 32 (concat xs @ replicate 32 0)),
      os_ata = (\<lambda>owner mint program. owner + mint),
      os_memo_id = 77,
      os_token_unpack = (\<lambda>_. None),
      os_token_2022_unpack = (\<lambda>bs. if bs = [7] then Some (MintTo_tix 100) else None),
      os_mint_unpack = (\<lambda>bs. if bs = [1] then Inr (Some 3, Some 4) else Inl OtherUnpackError),
      os_channel_mint_len = 202\<rparr>"

lemma demo_decode_encode: "demo_decode (demo_encode bs) = Some bs"
proof (induction bs)
  case (Cons b bs)
  have u: "unat b < 256" using unsigned_less [of b] by simp
  then have "unat b div 16 < 16" by simp
  then have "of_char (char_of (97 + unat b div 16) :: char) = 97 + unat b div 16"
    "of_char (char_of (97 + unat b mod 16) :: char) = 97 + unat b mod 16"
    by (simp_all add: of_char_of)
  with Cons show ?case by (simp add: demo_encode_def)
qed (simp add: demo_encode_def)

lemma demo_encode_letters: "list_all (\<lambda>c. c \<noteq> CHR '';'') (demo_encode bs)"
proof (induction bs)
  case (Cons b bs)
  have u: "unat b < 256" using unsigned_less [of b] by simp
  have "char_of (97 + k) \<noteq> CHR '';''" if "k < 16" for k :: nat
  proof
    assume "char_of (97 + k) = CHR '';''"
    then have "of_char (char_of (97 + k) :: char) = (of_char CHR '';'' :: nat)" by simp
    with that show False by (simp add: of_char_of)
  qed
  from this [of "unat b div 16"] this [of "unat b mod 16"] u Cons show ?case
    by (simp add: demo_encode_def)
qed (simp add: demo_encode_def)

lemma demo_channel_sdk_contract: "channel_sdk_contract demo_channel_sdk"
  by (simp add: channel_sdk_contract_def demo_channel_sdk_def demo_decode_encode demo_encode_letters
      min_def)

definition demo_row :: db_transaction where
  "demo_row = the (DbTransactionBuilder_build 1 ''t''
     ((DbTransactionBuilder_new ''s'' 9 (demo_encode (address_bytes 5)) 100)\<lparr>
       tb_initiator := Some (demo_encode (address_bytes 6)),
       tb_recipient := Some (demo_encode (address_bytes 6)),
       tb_transaction_type := Some DepositTx\<rparr>))"

lemma demo_sdk_parts:
  "cr_bs58_decode demo_channel_sdk (demo_encode bs) = Some bs"
  "os_token_2022_unpack demo_channel_sdk bs = (if bs = [7] then Some (MintTo_tix 100) else None)"
  by (simp_all add: demo_channel_sdk_def demo_decode_encode)

lemma demo_key: "sd_pubkey_from_str demo_channel_sdk (demo_encode (address_bytes k)) = Some k"
  by (simp add: demo_channel_sdk_def demo_decode_encode)

lemmas demo_builder = DbTransactionBuilder_build_def DbTransactionBuilder_new_def

definition demo_memo :: string where
  "demo_memo = mint_idempotency_memo (SourceEventId_from_row demo_channel_sdk demo_row)"

definition demo_mint_tx :: confirmed_transaction where
  "demo_mint_tx = \<lparr>ct_meta_err = Some False, ct_payload = JsonPayload (RawMessage 1
     (map (demo_encode \<circ> address_bytes) [3, 5, 11, 77, TOKEN_2022_PROGRAM_ID])
     [\<lparr>ci_program_id_index = 3, ci_accounts = [], ci_data = demo_encode (bytes_of_string demo_memo)\<rparr>,
      \<lparr>ci_program_id_index = 4, ci_accounts = [1, 2, 0], ci_data = demo_encode [7]\<rparr>])\<rparr>"

definition demo_status :: signature_status where
  "demo_status = \<lparr>gs_signature = demo_encode (replicate 64 9), gs_err = False, gs_memo = Some demo_memo\<rparr>"

definition demo_rpc :: channel_rpc where
  "demo_rpc = \<lparr>rp_page = (\<lambda>a n cursor. Inr (if cursor = None then take n [demo_status] else [])),
     rp_transaction = (\<lambda>_. Inr demo_mint_tx), rp_first_available_block = Inr 0\<rparr>"

definition demo_cache :: consumed_set_cache where
  "demo_cache = \<lparr>cc_set = [], cc_walked = [], cc_page_limit = 10, cc_role = DepositTx\<rparr>"


theorem markers_read_back_witness:
  "let event = SourceEventId_from_row demo_channel_sdk demo_row; memo = expected_memo RemintMint event in
    memo_markers (''['' @ ''87'' @ ''] '' @ memo) = [(RemintMint, event)]"
  using markers_read_back [OF demo_channel_sdk_contract, of "''87''" "\<lparr>cs_signature = replicate 64 9,
      cs_kind = DepositMint, cs_mint = 5, cs_recipient_ata = 11, cs_token_program = 1, cs_amount = 100\<rparr>"
      demo_row RemintMint]
  by (simp add: is_ascii_digit_def Let_def)

theorem jit_retries_only_own_mints_witness:
  "try_jit_mint_initialization demo_channel_sdk [9 \<mapsto> Some 5] 3 4
     \<lparr>jr_precheck = Inl ''down'', jr_decimals = Inr 6, jr_build = Inr (), jr_send = Inr [2],
      jr_status = Inr True, jr_reread = Inr [1], jr_reads = (\<lambda>_. Inl ''down'')\<rparr> 9 ''ix'' = Retry ''ix''
   \<and> os_mint_unpack demo_channel_sdk [1] = Inr (Some 3, Some 4)"
proof -
  let ?rs = "\<lparr>jr_precheck = Inl ''down'', jr_decimals = Inr 6, jr_build = Inr (), jr_send = Inr [2],
    jr_status = Inr True, jr_reread = Inr [1], jr_reads = (\<lambda>_. Inl ''down'')\<rparr> :: jit_replies"
  have run: "try_jit_mint_initialization demo_channel_sdk [9 \<mapsto> Some 5] 3 4 ?rs 9 ''ix'' = Retry ''ix''"
    by (simp add: try_jit_mint_initialization_def decode_and_check_authority_def demo_channel_sdk_def
        jit_verdict_def)
  with jit_retries_only_own_mints [OF run] show ?thesis by simp
qed

end
