(* ===== verification/Processor_Safety.thy ===== *)
theory Processor_Safety
  imports Indexer_Processor Channel_Mint_Safety
begin

text \<open>
  The processor under failures: whatever writes fail, answers are lost or retries run out, a slot's
  checkpoint leaves only when everything the slot's instructions stand for is in the database; rows
  are only ever added, each from an instruction of the configured instance; and on a resync no event
  the channel already served comes back as payable.
\<close>

section \<open>What the database keeps\<close>

definition mint_le :: "db_mint \<Rightarrow> db_mint \<Rightarrow> bool" where
  "mint_le m m' \<longleftrightarrow> mt_mint_address m' = mt_mint_address m \<and> mt_allow_mint_slot m \<le> mt_allow_mint_slot m'"

lemma mint_le_trans: "mint_le a b \<Longrightarrow> mint_le b c \<Longrightarrow> mint_le a c"
  by (auto simp: mint_le_def)

text \<open>Rows are added at the end, the other tables only grow, and a mint row never goes back.\<close>

definition extends :: "ledger_db \<Rightarrow> ledger_db \<Rightarrow> bool" where
  "extends db db' \<longleftrightarrow>
     (\<exists>new. db_transactions db' = db_transactions db @ new)
     \<and> set (db_observed_releases db) \<subseteq> set (db_observed_releases db')
     \<and> set (db_mint_status_history db) \<subseteq> set (db_mint_status_history db')
     \<and> (\<forall>m\<in>set (db_mints db). \<exists>m'\<in>set (db_mints db'). mint_le m m')"

lemma extends_refl [simp]: "extends db db"
  by (auto simp: extends_def mint_le_def)

lemma extends_trans:
  assumes "extends a b" "extends b c"
  shows "extends a c"
proof -
  have "\<exists>m'\<in>set (db_mints c). mint_le m m'" if "m \<in> set (db_mints a)" for m
    using assms that mint_le_trans by (meson extends_def)
  then show ?thesis using assms by (auto simp: extends_def)
qed

definition has_identity :: "db_transaction \<Rightarrow> ledger_db \<Rightarrow> bool" where
  "has_identity r db \<longleftrightarrow> (\<exists>q\<in>set (db_transactions db). tx_identity q = tx_identity r)"

definition has_mint :: "db_mint \<Rightarrow> ledger_db \<Rightarrow> bool" where
  "has_mint m db \<longleftrightarrow> (\<exists>m'\<in>set (db_mints db). mint_le m m')"

definition has_status :: "db_mint_status \<Rightarrow> ledger_db \<Rightarrow> bool" where
  "has_status s db \<longleftrightarrow> (\<exists>h\<in>set (db_mint_status_history db). status_identity h = status_identity s)"

definition has_release :: "db_observed_release \<Rightarrow> ledger_db \<Rightarrow> bool" where
  "has_release rel db \<longleftrightarrow>
     (\<exists>ob\<in>set (db_observed_releases db). or_withdrawal_nonce ob = or_withdrawal_nonce rel)"

lemma has_extends:
  assumes "extends db db'"
  shows "has_identity r db \<Longrightarrow> has_identity r db'" "has_mint m db \<Longrightarrow> has_mint m db'"
    "has_status s db \<Longrightarrow> has_status s db'" "has_release rel db \<Longrightarrow> has_release rel db'"
proof -
  show "has_identity r db'" if "has_identity r db"
    using assms that by (auto simp: extends_def has_identity_def)
  show "has_mint m db'" if "has_mint m db"
    using assms that mint_le_trans by (meson extends_def has_mint_def)
  show "has_status s db'" if "has_status s db"
    using assms that by (auto simp: extends_def has_status_def)
  show "has_release rel db'" if "has_release rel db"
    using assms that by (auto simp: extends_def has_release_def)
qed

section \<open>Writes\<close>

lemma upsert_mint_extends: "extends db (upsert_mint m db)" "has_mint m (upsert_mint m db)"
proof -
  define up where "up = (\<lambda>x :: db_mint. if mt_mint_address x = mt_mint_address m
      \<and> mt_allow_mint_slot x \<le> mt_allow_mint_slot m
    then x\<lparr>mt_decimals := mt_decimals m, mt_token_program := mt_token_program m,
           mt_withdraw_fee := mt_withdraw_fee m, mt_min_withdraw_amount := mt_min_withdraw_amount m,
           mt_allow_mint_slot := mt_allow_mint_slot m\<rparr> else x)"
  have le: "mint_le x (up x)" "mt_mint_address x = mt_mint_address m \<Longrightarrow> mint_le m (up x)" for x
    by (auto simp: up_def mint_le_def)
  have mints: "db_mints (upsert_mint m db) =
      (if list_ex (\<lambda>x. mt_mint_address x = mt_mint_address m) (db_mints db) then map up (db_mints db)
       else db_mints db @ [m\<lparr>mt_withdrawals_blocked := False\<rparr>])"
    by (simp add: upsert_mint_def up_def)
  have new: "mint_le m (m\<lparr>mt_withdrawals_blocked := False\<rparr>)" "mint_le x x" for x
    by (simp_all add: mint_le_def)
  show "has_mint m (upsert_mint m db)"
    unfolding has_mint_def mints using le new by (auto simp: list_ex_iff)
  have "\<exists>m'\<in>set (db_mints (upsert_mint m db)). mint_le x m'" if "x \<in> set (db_mints db)" for x
    unfolding mints using that le(1) new(2) by auto
  then show "extends db (upsert_mint m db)" by (simp add: extends_def) (simp add: upsert_mint_def)
qed

lemma fold_extends:
  assumes "\<And>x db. extends db (f x db)" "\<And>x db. P x (f x db)"
    and "\<And>x db db'. extends db db' \<Longrightarrow> P x db \<Longrightarrow> P x db'"
  shows "extends db (fold f xs db)" "\<forall>x\<in>set xs. P x (fold f xs db)"
proof (induction xs arbitrary: db)
  case (Cons x xs)
  {
    case 1
    show ?case using extends_trans [OF assms(1) [of db x] Cons(1)] by simp
  next
    case 2
    show ?case using Cons(2) assms(3) [OF Cons(1) assms(2)] by simp
  }
qed simp_all

lemma status_extends: "extends db (insert_mint_status s db)" "has_status s (insert_mint_status s db)"
  by (auto simp: extends_def insert_mint_status_def has_status_def list_ex_iff mint_le_def)

lemma release_extends:
  "extends db (insert_observed_release rel db)" "has_release rel (insert_observed_release rel db)"
  by (auto simp: extends_def insert_observed_release_def has_release_def list_ex_iff mint_le_def)

lemmas mints_batch = fold_extends [of upsert_mint has_mint, OF upsert_mint_extends has_extends(2)]
lemmas status_batch =
  fold_extends [of insert_mint_status has_status, OF status_extends has_extends(3)]
lemmas release_batch =
  fold_extends [of insert_observed_release has_release, OF release_extends has_extends(4)]

lemma sync_extends: "extends db (snd (sync_mint_status addrs db))"
proof -
  define up where "up = (\<lambda>x :: db_mint. if mt_mint_address x \<in> set addrs
    then (case latest_status (filter (\<lambda>h. ms_mint_address h = mt_mint_address x)
            (db_mint_status_history db)) of
            Some h \<Rightarrow> x\<lparr>mt_status := ms_status h, mt_withdrawals_blocked := ms_withdrawals_blocked h\<rparr>
          | None \<Rightarrow> x)
    else x)"
  have "mint_le x (up x)" for x by (simp add: up_def mint_le_def split: option.split)
  moreover have "snd (sync_mint_status addrs db) = db\<lparr>db_mints := map up (db_mints db)\<rparr>"
    by (simp add: sync_mint_status_def up_def)
  ultimately show ?thesis by (auto simp: extends_def)
qed

lemma batch_calls:
  "extends db (snd (upsert_mints_batch ms db))"
  "extends db (snd (insert_mint_statuses_batch ss db))"
  "extends db (snd (insert_observed_releases_batch rels db))"
  "\<forall>m\<in>set ms. has_mint m (snd (upsert_mints_batch ms db))"
  "insert_mint_statuses_batch ss db = (Inr u, db') \<Longrightarrow> \<forall>s\<in>set ss. has_status s db'"
  "\<forall>rel\<in>set rels. has_release rel (snd (insert_observed_releases_batch rels db))"
  using mints_batch [where db = db and xs = ms] status_batch [where db = db and xs = ss]
    release_batch [where db = db and xs = rels]
  by (auto simp: upsert_mints_batch_def insert_mint_statuses_batch_def
      insert_observed_releases_batch_def split: if_splits)

lemma find_identity_has: "find_identity r db \<noteq> None \<longleftrightarrow> has_identity r db"
  by (auto simp: find_identity_def has_identity_def find_None_iff)

lemma appends_extends:
  "appends now db db' \<Longrightarrow> db_observed_releases db' = db_observed_releases db
    \<Longrightarrow> db_mint_status_history db' = db_mint_status_history db \<Longrightarrow> db_mints db' = db_mints db
    \<Longrightarrow> extends db db'"
  by (auto simp: appends_def extends_def mint_le_def)

text \<open>What an inserted row keeps of the one given.\<close>

definition payload where
  "payload r = (t_signature r, t_slot r, t_initiator r, t_recipient r, t_mint r, t_amount r, t_type r,
     t_instruction_index r, t_inner_index r, t_status r, t_counterpart_signature r,
     t_landed_remint_signature r)"

definition adds :: "(db_transaction \<Rightarrow> bool) \<Rightarrow> ledger_db \<Rightarrow> ledger_db \<Rightarrow> bool" where
  "adds Q db db' \<longleftrightarrow> extends db db'
     \<and> (\<exists>new. db_transactions db' = db_transactions db @ new \<and> list_all Q new)"

lemma adds_refl: "adds Q db db"
  by (simp add: adds_def)

lemma adds_trans: "adds Q a b \<Longrightarrow> adds Q b c \<Longrightarrow> adds Q a c"
  unfolding adds_def using extends_trans by (elim conjE exE) (auto intro!: exI)

lemma adds_extends: "adds Q db db' \<Longrightarrow> extends db db'"
  by (simp add: adds_def)

lemma adds_mono: "adds P db db' \<Longrightarrow> (\<And>r. P r \<Longrightarrow> Q r) \<Longrightarrow> adds Q db db'"
  by (auto simp: adds_def list_all_iff)

lemma sql_insert_row:
  "\<exists>row. payload row = payload r \<and> tx_identity row = tx_identity r
    \<and> (snd (sql_insert now r db) = db\<lparr>db_next_id := db_next_id db + 1,
         db_withdrawal_nonce_seq := seq_after r db, db_transactions := db_transactions db @ [row]\<rparr>
         \<and> is_ok (fst (sql_insert now r db))
       \<or> snd (sql_insert now r db) = db\<lparr>db_next_id := db_next_id db + 1,
           db_withdrawal_nonce_seq := seq_after r db\<rparr>
         \<and> \<not> is_ok (fst (sql_insert now r db)))"
proof -
  let ?row = "fst (assign_withdrawal_nonce (default_columns now (db_next_id db) r)
    (db\<lparr>db_next_id := db_next_id db + 1\<rparr>))"
  have "payload ?row = payload r \<and> tx_identity ?row = tx_identity r"
    by (simp add: assign_withdrawal_nonce_def default_columns_def payload_def tx_identity_def)
  then show ?thesis
    by (intro exI [of _ ?row])
      (simp add: sql_insert_def assign_withdrawal_nonce_def default_columns_def seq_after_def
        is_ok_iff Let_def)
qed

definition given :: "db_transaction list \<Rightarrow> db_transaction \<Rightarrow> bool" where
  "given rs x \<longleftrightarrow> (\<exists>r\<in>set rs. payload x = payload r)"

lemma sql_insert_adds:
  "adds (given [r]) db (snd (sql_insert now r db))"
  "is_ok (fst (sql_insert now r db)) \<Longrightarrow> has_identity r (snd (sql_insert now r db))"
  using sql_insert_row [of r now db]
  by (auto simp: adds_def extends_def mint_le_def given_def has_identity_def)

lemma insert_rows_adds:
  "insert_rows now rs db = (res, db') \<Longrightarrow>
     adds (given rs) db db' \<and> (is_ok res \<longrightarrow> (\<forall>r\<in>set rs. has_identity r db'))"
proof (induction rs arbitrary: db res db')
  case (Cons r rs)
  have widen: "adds (given rs) a b \<Longrightarrow> adds (given (r # rs)) a b"
    "adds (given [r]) a b \<Longrightarrow> adds (given (r # rs)) a b" for a b
    by (erule adds_mono, auto simp: given_def)+
  obtain res1 db1 where first: "(case find_identity r db of Some i \<Rightarrow> (Inr i, db)
      | None \<Rightarrow> sql_insert now r db) = (res1, db1)" by (meson surj_pair)
  then have f: "adds (given (r # rs)) db db1" "is_ok res1 \<Longrightarrow> has_identity r db1"
    using widen(2) [OF sql_insert_adds(1) [of r db now]] sql_insert_adds(2) [of now r db]
      find_identity_has [of r db]
    by (auto simp: adds_refl split: option.splits)
  show ?case
  proof (cases res1)
    case (Inl e)
    with Cons.prems first f show ?thesis by (auto simp: is_ok_iff)
  next
    case (Inr i)
    obtain res2 db2 where rest: "insert_rows now rs db1 = (res2, db2)" by (meson surj_pair)
    from Cons.IH [OF rest] have r: "adds (given rs) db1 db2"
      "is_ok res2 \<Longrightarrow> \<forall>r\<in>set rs. has_identity r db2" by auto
    from Cons.prems first Inr rest have "db' = db2" "is_ok res \<longleftrightarrow> is_ok res2"
      by (auto simp: is_ok_iff split: sum.splits)
    moreover have "has_identity r db2"
      using f(2) Inr has_extends(1) [OF adds_extends [OF r(1)]] by (simp add: is_ok_iff)
    ultimately show ?thesis using adds_trans [OF f(1) widen(1) [OF r(1)]] r(2) by simp
  qed
qed (simp add: adds_refl)

lemma insert_batch_adds:
  assumes "insert_transactions_batch now rs db = (res, db')"
  shows "adds (given rs) db db'" "is_ok res \<Longrightarrow> \<forall>r\<in>set rs. has_identity r db'"
proof -
  obtain res1 db1 where i: "insert_rows now rs db = (res1, db1)" by (meson surj_pair)
  note a = insert_rows_adds [OF i]
  have "extends db (db1\<lparr>db_transactions := db_transactions db\<rparr>)"
    using a by (simp add: adds_def extends_def)
  with assms i a show "adds (given rs) db db'" "is_ok res \<Longrightarrow> \<forall>r\<in>set rs. has_identity r db'"
    by (auto simp: insert_transactions_batch_def is_ok_iff adds_def split: sum.splits)
qed

section \<open>One attempt\<close>

lemma faulty_adds:
  assumes "\<And>db. adds Q db (snd (op db))"
  shows "adds Q db (snd (faulty f op db))"
proof (cases f)
  case Healthy
  with assms [of db] show ?thesis by (cases "op db"; cases "fst (op db)") (auto simp: faulty_def)
next
  case (Fails n)
  with assms [of db] adds_refl show ?thesis by (cases n) (auto simp: faulty_def)
qed

lemma faulty_ok: "faulty f op db = (Inr x, db') \<Longrightarrow> op db = (Inr x, db')"
  by (auto simp: faulty_def split: fault.splits nat.splits prod.splits sum.splits)

lemma and_then_eq:
  "and_then r k = (res, db') \<longleftrightarrow>
     (\<exists>e. r = (Inl e, db') \<and> res = Inl e) \<or> (\<exists>x db. r = (Inr x, db) \<and> k db = (res, db'))"
  by (auto simp: and_then_def split: prod.splits sum.splits)

lemma and_then_adds:
  "adds Q db (snd r) \<Longrightarrow> (\<And>db1. adds Q db1 (snd (k db1))) \<Longrightarrow> adds Q db (snd (and_then r k))"
  by (cases r; cases "fst r") (auto simp: and_then_def intro: adds_trans)

lemma side_batches_add:
  "adds Q db (snd (upsert_mints_batch ms db))"
  "adds Q db (snd (insert_mint_statuses_batch ss db))"
  "adds Q db (snd (insert_observed_releases_batch rels db))"
  "adds Q db (snd (sync_mint_status addrs db))"
  using batch_calls(1) [of db ms] batch_calls(2) [of db ss] batch_calls(3) [of db rels]
    sync_extends [of db addrs] untracked_calls(1-4)
  by (simp_all add: adds_def tracked_def)

lemma write_slot_adds: "adds (given (sr_transactions rows)) db (snd (write_slot faults now rows db))"
proof -
  have "adds (given (sr_transactions rows)) db1 (snd (insert_transactions_batch now (sr_transactions rows) db1))"
    for db1 using insert_batch_adds(1) by (metis prod.collapse)
  note faulty_adds [OF this] faulty_adds [OF side_batches_add(1)] faulty_adds [OF side_batches_add(2)]
    faulty_adds [OF side_batches_add(4)] side_batches_add(3) adds_refl
  then show ?thesis
    unfolding write_slot_def faulty_releases_def
    by (intro and_then_adds) (auto intro!: and_then_adds simp del: split_paired_All split: fault.split)
qed

definition stored :: "slot_rows_record \<Rightarrow> ledger_db \<Rightarrow> bool" where
  "stored rows db \<longleftrightarrow>
     (\<forall>m\<in>set (sr_mints rows). has_mint m db) \<and> (\<forall>s\<in>set (sr_statuses rows). has_status s db)
     \<and> (\<forall>rel\<in>set (sr_releases rows). has_release rel db)
     \<and> (\<forall>r\<in>set (sr_transactions rows). has_identity r db)"

lemma write_slot_stores:
  assumes "write_slot faults now rows db = (Inr u, db')"
  shows "stored rows db'"
proof -
  from assms obtain db1 db2 db3 where
    mints: "sr_mints rows = [] \<and> db1 = db \<or> upsert_mints_batch (sr_mints rows) db = (Inr (), db1)"
    and statuses: "sr_statuses rows = [] \<and> db2 = db1 \<or> (\<exists>d. insert_mint_statuses_batch (sr_statuses rows) db1
        = (Inr (), d) \<and> sync_mint_status (sorted_addresses (sr_statuses rows)) d = (Inr (), db2))"
    and releases: "sr_releases rows = [] \<and> db3 = db2
        \<or> db3 = snd (insert_observed_releases_batch (sr_releases rows) db2)"
    and trans: "sr_transactions rows = [] \<and> db' = db3
        \<or> (\<exists>ids. insert_transactions_batch now (sr_transactions rows) db3 = (Inr ids, db'))"
    unfolding write_slot_def faulty_releases_def and_then_eq
    by (auto simp: and_then_eq dest!: faulty_ok split: if_splits fault.splits)
  have e1: "extends db1 db2"
    using statuses
  proof (elim disjE exE conjE)
    fix d assume "insert_mint_statuses_batch (sr_statuses rows) db1 = (Inr (), d)"
      "sync_mint_status (sorted_addresses (sr_statuses rows)) d = (Inr (), db2)"
    with batch_calls(2) [of db1 "sr_statuses rows"] sync_extends [of d] show ?thesis
      by (metis extends_trans snd_conv)
  qed simp
  have e2: "extends db2 db3" using releases batch_calls(3) by auto
  have e3: "extends db3 db'" using trans insert_batch_adds(1) adds_extends extends_refl by metis
  have "\<forall>m\<in>set (sr_mints rows). has_mint m db1"
    using mints batch_calls(4) [of "sr_mints rows" db] by auto
  moreover have "\<forall>s\<in>set (sr_statuses rows). has_status s db2"
    using statuses batch_calls(5) sync_extends has_extends(3) by (metis empty_iff list.set(1) snd_conv)
  moreover have "\<forall>rel\<in>set (sr_releases rows). has_release rel db3"
    using releases batch_calls(6) by auto
  moreover have "\<forall>r\<in>set (sr_transactions rows). has_identity r db'"
    using trans insert_batch_adds(2) by (fastforce simp: is_ok_iff)
  ultimately show ?thesis
    using has_extends e1 e2 e3 extends_trans unfolding stored_def by meson
qed

lemma stored_extends: "stored rows db \<Longrightarrow> extends db db' \<Longrightarrow> stored rows db'"
  unfolding stored_def using has_extends by blast

section \<open>Retries\<close>

lemma retry_adds:
  "adds (given (sr_transactions rows)) db
     (snd (write_with_retry max_attempts faults clock rows attempt db))"
proof (induction max_attempts faults clock rows attempt db rule: write_with_retry.induct)
  case (1 max_attempts faults clock rows attempt db)
  obtain res db1 where w: "write_slot (faults attempt) (clock attempt) rows db = (res, db1)"
    by (meson surj_pair)
  have a: "adds (given (sr_transactions rows)) db db1"
    using write_slot_adds [of rows db "faults attempt" "clock attempt"] w by simp
  show ?case
  proof (cases res)
    case (Inl e)
    from "1.IH" [OF w [symmetric] Inl] a w Inl show ?thesis
      by (subst write_with_retry.simps) (auto intro: adds_trans)
  next
    case (Inr u)
    with a w show ?thesis by (subst write_with_retry.simps) simp
  qed
qed

lemma retry_stores:
  "write_with_retry max_attempts faults clock rows attempt db = (Inr u, db') \<Longrightarrow> stored rows db'"
proof (induction max_attempts faults clock rows attempt db rule: write_with_retry.induct)
  case (1 max_attempts faults clock rows attempt db)
  obtain res db1 where w: "write_slot (faults attempt) (clock attempt) rows db = (res, db1)"
    by (meson surj_pair)
  show ?case
  proof (cases res)
    case (Inl e)
    with "1.prems" w have "\<not> max_attempts \<le> attempt"
      "write_with_retry max_attempts faults clock rows (attempt + 1) db1 = (Inr u, db')"
      by (simp_all add: write_with_retry.simps [of _ _ _ _ _ db] split: if_splits)
    with "1.IH" [OF w [symmetric] Inl] show ?thesis by simp
  next
    case (Inr v)
    with "1.prems" w show ?thesis
      by (simp add: write_with_retry.simps [of _ _ _ _ _ db] write_slot_stores)
  qed
qed

section \<open>Instructions\<close>

text \<open>
  What an instruction stands for; the clock and the fresh identifier of its row do not matter.
\<close>

definition recorded ::
  "'c channel_sdk_scheme \<Rightarrow> address option \<Rightarrow> instruction_with_metadata \<Rightarrow> ledger_db \<Rightarrow> bool" where
  "recorded os configured meta db \<longleftrightarrow>
     (let dm = convert_to_db_models os (0, []) meta configured in
      (\<forall>m. dm_mint dm = Some m \<longrightarrow> has_mint m db)
      \<and> (\<forall>ch sig. dm_status dm = Some ch \<longrightarrow> im_signature meta = Some sig
           \<longrightarrow> has_status (status_row (im_slot meta) meta ch sig) db)
      \<and> (\<forall>rel. dm_release dm = Some rel \<longrightarrow> has_release rel db)
      \<and> (\<forall>r. dm_transaction dm = Some r \<longrightarrow> has_identity r db))"

lemma recorded_extends: "recorded os cfg meta db \<Longrightarrow> extends db db' \<Longrightarrow> recorded os cfg meta db'"
  unfolding recorded_def Let_def using has_extends by meson

lemma convert_draw:
  "dm_mint (convert_to_db_models os d meta cfg) = dm_mint (convert_to_db_models os d' meta cfg)"
  "dm_status (convert_to_db_models os d meta cfg) = dm_status (convert_to_db_models os d' meta cfg)"
  "dm_release (convert_to_db_models os d meta cfg) = dm_release (convert_to_db_models os d' meta cfg)"
  "map_option payload (dm_transaction (convert_to_db_models os d meta cfg))
     = map_option payload (dm_transaction (convert_to_db_models os d' meta cfg))"
  by (simp_all add: convert_to_db_models_def convert_escrow_def no_models_def build_row_def
      DbTransactionBuilder_build_def DbTransactionBuilder_new_def payload_def Let_def
      split: option.split program_ix.split escrow_ix.split withdraw_ix.split)

lemma payload_identity: "payload x = payload r \<Longrightarrow> tx_identity x = tx_identity r"
  by (simp add: payload_def tx_identity_def)

definition slot_writes ::
  "'c channel_sdk_scheme \<Rightarrow> slot_world \<Rightarrow> u64 \<Rightarrow> transaction_processor \<Rightarrow> slot_rows_record" where
  "slot_writes os sw slot p =
     (let rows = slot_rows_of slot (models_of os (tp_configured_escrow_instance_id p) (sw_draw sw)
        (tp_slot_buffers p slot)) in
      rows\<lparr>sr_transactions := reconcile_against_consumed os (tp_consumed p) (sr_transactions rows)\<rparr>)"

lemma finalize_spec:
  assumes "finalize_and_checkpoint os sw slot program blockhash st = (res, st')"
    and "\<not> tp_validate_only (ps_processor st)"
  shows "ps_processor st' = (ps_processor st)\<lparr>tp_slot_buffers := (tp_slot_buffers (ps_processor st))(slot := [])\<rparr>"
    "adds (given (sr_transactions (slot_writes os sw slot (ps_processor st)))) (ps_db st) (ps_db st')"
    "is_ok res \<Longrightarrow> stored (slot_writes os sw slot (ps_processor st)) (ps_db st')
       \<and> ps_sent st' = ps_sent st @ [SlotMsg \<lparr>cu_program_type = program, cu_slot = slot,
           cu_blockhash = blockhash\<rparr>]"
    "\<not> is_ok res \<Longrightarrow> ps_sent st' = ps_sent st"
proof -
  obtain r db where w: "write_with_retry (tp_max_attempts (ps_processor st)) (sw_faults sw) (sw_clock sw)
      (slot_writes os sw slot (ps_processor st)) 1 (ps_db st) = (r, db)" by (meson surj_pair)
  note a = retry_adds [of "slot_writes os sw slot (ps_processor st)" "ps_db st"
      "tp_max_attempts (ps_processor st)" "sw_faults sw" "sw_clock sw" 1, unfolded w snd_conv]
  note eq = assms(1) [unfolded finalize_and_checkpoint_def Let_def]
  show "ps_processor st' = (ps_processor st)\<lparr>tp_slot_buffers := (tp_slot_buffers (ps_processor st))(slot := [])\<rparr>"
    "adds (given (sr_transactions (slot_writes os sw slot (ps_processor st)))) (ps_db st) (ps_db st')"
    "is_ok res \<Longrightarrow> stored (slot_writes os sw slot (ps_processor st)) (ps_db st')
       \<and> ps_sent st' = ps_sent st @ [SlotMsg \<lparr>cu_program_type = program, cu_slot = slot,
           cu_blockhash = blockhash\<rparr>]"
    "\<not> is_ok res \<Longrightarrow> ps_sent st' = ps_sent st"
    using eq w a assms(2) retry_stores [of _ _ _ "slot_writes os sw slot (ps_processor st)"]
    by (auto simp: slot_writes_def Let_def is_ok_iff split: sum.splits if_splits)
qed

lemma models_of_mem:
  assumes "meta \<in> set metas"
  obtains d where "(meta, convert_to_db_models os d meta cfg) \<in> set (models_of os cfg draw metas)"
proof -
  from assms obtain i where i: "i < length metas" "metas ! i = meta" by (auto simp: in_set_conv_nth)
  then have "(i, meta) \<in> set (enumerate 0 metas)" by (auto simp: in_set_enumerate_eq)
  then show ?thesis by (intro that [of "draw i"]) (force simp: models_of_def)
qed

lemma reconcile_row_identity: "tx_identity (reconcile_row os consumed r) = tx_identity r"
  by (auto simp: reconcile_row_def tx_identity_def split: option.split sum.split consumed_mint_kind.split)

lemma reconcile_identity:
  "\<forall>x\<in>set (reconcile_against_consumed os consumed rs). has_identity x db
     \<Longrightarrow> r \<in> set rs \<Longrightarrow> has_identity r db"
  by (auto simp: reconcile_against_consumed_def has_identity_def reconcile_row_identity
      split: option.splits)

lemma mem_map_filter: "x \<in> set xs \<Longrightarrow> f x = Some y \<Longrightarrow> y \<in> set (List.map_filter f xs)"
  by (force simp: List.map_filter_def)

lemma stored_recorded:
  assumes st: "stored (slot_writes os sw slot p) db"
    and meta: "meta \<in> set (tp_slot_buffers p slot)" "im_slot meta = slot"
  shows "recorded os (tp_configured_escrow_instance_id p) meta db"
proof -
  let ?cfg = "tp_configured_escrow_instance_id p"
  let ?ms = "models_of os ?cfg (sw_draw sw) (tp_slot_buffers p slot)"
  from models_of_mem [OF meta(1)] obtain d where
    mem: "(meta, convert_to_db_models os d meta ?cfg) \<in> set ?ms" by blast
  let ?dm = "convert_to_db_models os d meta ?cfg"
  note rows = st [unfolded stored_def slot_writes_def Let_def slot_rows_of_def, simplified]
  have "has_mint m db" if "dm_mint ?dm = Some m" for m
    using rows mem_map_filter [OF mem, of "dm_mint \<circ> snd" m] that by simp
  moreover have "has_status (status_row slot meta ch sig) db"
    if "dm_status ?dm = Some ch" "im_signature meta = Some sig" for ch sig
    using rows mem_map_filter [OF mem, of "\<lambda>(meta, dm). Option.bind (dm_status dm)
        (\<lambda>change. map_option (status_row slot meta change) (im_signature meta))"] that by simp
  moreover have "has_release rel db" if "dm_release ?dm = Some rel" for rel
    using rows mem_map_filter [OF mem, of "dm_release \<circ> snd" rel] that by simp
  moreover have "has_identity r db" if "dm_transaction ?dm = Some r" for r
    using reconcile_identity [of os "tp_consumed p" "List.map_filter (dm_transaction \<circ> snd) ?ms" db r]
      rows mem_map_filter [OF mem, of "dm_transaction \<circ> snd" r] that by simp
  moreover have "has_identity r db" if r: "dm_transaction (convert_to_db_models os (0, []) meta ?cfg) = Some r" for r
  proof -
    from convert_draw(4) [of os d meta ?cfg "(0, [])"] r obtain r1 where
      "dm_transaction ?dm = Some r1" "payload r1 = payload r"
      by (cases "dm_transaction ?dm") auto
    with calculation(4) show ?thesis by (simp add: has_identity_def payload_identity [of r1 r])
  qed
  ultimately show ?thesis
    using meta(2) unfolding recorded_def Let_def convert_draw(1-3) [of os "(0, [])" meta ?cfg d] by simp
qed

section \<open>Runs\<close>

definition keeps_seen ::
  "'c channel_sdk_scheme \<Rightarrow> address option \<Rightarrow> processor_message list \<Rightarrow> processor_state \<Rightarrow> bool" where
  "keeps_seen os cfg seen st \<longleftrightarrow>
     tp_configured_escrow_instance_id (ps_processor st) = cfg \<and> \<not> tp_validate_only (ps_processor st)
     \<and> (\<forall>meta. InstructionMsg meta \<in> set seen \<longrightarrow>
          meta \<in> set (tp_slot_buffers (ps_processor st) (im_slot meta)) \<or> recorded os cfg meta (ps_db st))"

fun forward :: "processor_message \<Rightarrow> checkpoint_msg option" where
  "forward (InstructionMsg meta) = None"
| "forward (SlotComplete slot program blockhash) = Some (SlotMsg \<lparr>cu_program_type = program,
     cu_slot = slot, cu_blockhash = blockhash\<rparr>)"
| "forward (RegateRequest program fr target) = Some (RegateMsg program fr target)"

lemma handle_step:
  assumes run: "handle_message os sw m st = (res, st')" and seen: "keeps_seen os cfg seen st"
  shows "extends (ps_db st) (ps_db st')"
    "\<not> is_ok res \<Longrightarrow> ps_sent st' = ps_sent st"
    "is_ok res \<Longrightarrow> keeps_seen os cfg (seen @ [m]) st'
       \<and> ps_sent st' = ps_sent st @ (case forward m of Some c \<Rightarrow> [c] | None \<Rightarrow> [])"
    "is_ok res \<Longrightarrow> m = SlotComplete slot program blockhash \<Longrightarrow> InstructionMsg meta \<in> set seen
       \<Longrightarrow> im_slot meta = slot \<Longrightarrow> recorded os cfg meta (ps_db st')"
proof -
  note s = seen [unfolded keeps_seen_def]
  have "extends (ps_db st) (ps_db st') \<and> (\<not> is_ok res \<longrightarrow> ps_sent st' = ps_sent st)
      \<and> (is_ok res \<longrightarrow> keeps_seen os cfg (seen @ [m]) st'
           \<and> ps_sent st' = ps_sent st @ (case forward m of Some c \<Rightarrow> [c] | None \<Rightarrow> []))
      \<and> (\<forall>slot program blockhash meta. is_ok res \<longrightarrow> m = SlotComplete slot program blockhash
           \<longrightarrow> InstructionMsg meta \<in> set seen \<longrightarrow> im_slot meta = slot \<longrightarrow> recorded os cfg meta (ps_db st'))"
  proof (cases m)
    case (InstructionMsg meta)
    with run have st': "res = Inr ()" "ps_db st' = ps_db st" "ps_sent st' = ps_sent st"
      "ps_processor st' = (ps_processor st)\<lparr>tp_slot_buffers := (tp_slot_buffers (ps_processor st))
        (im_slot meta := tp_slot_buffers (ps_processor st) (im_slot meta) @ [meta])\<rparr>"
      by auto
    have "x \<in> set (tp_slot_buffers (ps_processor st') (im_slot x)) \<or> recorded os cfg x (ps_db st')"
      if "InstructionMsg x \<in> set (seen @ [m])" for x
      using that conjunct2 [OF conjunct2 [OF s], THEN spec, of x] InstructionMsg by (auto simp: st')
    then show ?thesis using s st' InstructionMsg by (simp add: keeps_seen_def is_ok_iff)
  next
    case (RegateRequest p f t)
    with run s show ?thesis by (auto simp: keeps_seen_def is_ok_iff split: if_splits)
  next
    case (SlotComplete slot program blockhash)
    with run have "finalize_and_checkpoint os sw slot program blockhash st = (res, st')" by simp
    note f = finalize_spec [OF this conjunct1 [OF conjunct2 [OF s]]]
    note ext = adds_extends [OF f(2)]
    have rec: "recorded os cfg meta (ps_db st')"
      if "is_ok res" "InstructionMsg meta \<in> set seen" "im_slot meta = slot" for meta
      using that f(3) s recorded_extends [OF _ ext] stored_recorded [of os sw slot "ps_processor st"]
      by blast
    moreover have "keeps_seen os cfg (seen @ [m]) st'" if "is_ok res"
    proof -
      have "x \<in> set (tp_slot_buffers (ps_processor st') (im_slot x)) \<or> recorded os cfg x (ps_db st')"
        if "InstructionMsg x \<in> set seen" for x
        using that conjunct2 [OF conjunct2 [OF s], THEN spec, of x] rec [OF \<open>is_ok res\<close>, of x]
          recorded_extends [OF _ ext, of os cfg x] by (auto simp: f(1))
      then show ?thesis using s SlotComplete by (simp add: keeps_seen_def f(1))
    qed
    ultimately show ?thesis using ext f(3,4) SlotComplete by simp
  qed
  then show "extends (ps_db st) (ps_db st')"
    "\<not> is_ok res \<Longrightarrow> ps_sent st' = ps_sent st"
    "is_ok res \<Longrightarrow> keeps_seen os cfg (seen @ [m]) st'
       \<and> ps_sent st' = ps_sent st @ (case forward m of Some c \<Rightarrow> [c] | None \<Rightarrow> [])"
    "is_ok res \<Longrightarrow> m = SlotComplete slot program blockhash \<Longrightarrow> InstructionMsg meta \<in> set seen
       \<Longrightarrow> im_slot meta = slot \<Longrightarrow> recorded os cfg meta (ps_db st')"
    by blast+
qed

text \<open>
  \<open>handled\<close>: the messages processed before the run stopped. Their forwards are what was sent, and a
  completed slot among them has all its instructions before it recorded.
\<close>

definition slots_recorded ::
  "'c channel_sdk_scheme \<Rightarrow> address option \<Rightarrow> processor_message list \<Rightarrow> processor_message list \<Rightarrow> ledger_db \<Rightarrow>
     bool" where
  "slots_recorded os cfg seen handled db \<longleftrightarrow>
     (\<forall>before slot program blockhash after meta.
        handled = before @ SlotComplete slot program blockhash # after
        \<longrightarrow> InstructionMsg meta \<in> set (seen @ before) \<longrightarrow> im_slot meta = slot \<longrightarrow> recorded os cfg meta db)"

lemma slots_recorded_Cons:
  assumes "slots_recorded os cfg (seen @ [m]) ms db"
    and "\<And>slot program blockhash meta. m = SlotComplete slot program blockhash
      \<Longrightarrow> InstructionMsg meta \<in> set seen \<Longrightarrow> im_slot meta = slot \<Longrightarrow> recorded os cfg meta db"
  shows "slots_recorded os cfg seen (m # ms) db"
  unfolding slots_recorded_def
proof (intro allI impI)
  fix before slot program blockhash after meta
  assume a: "m # ms = before @ SlotComplete slot program blockhash # after"
    "InstructionMsg meta \<in> set (seen @ before)" "im_slot meta = slot"
  show "recorded os cfg meta db"
  proof (cases before)
    case Nil
    with a assms(2) show ?thesis by simp
  next
    case (Cons b bs)
    with a have "ms = bs @ SlotComplete slot program blockhash # after"
      "InstructionMsg meta \<in> set ((seen @ [m]) @ bs)" by auto
    with assms(1) a(3) show ?thesis unfolding slots_recorded_def by blast
  qed
qed

lemma run_extends:
  "run_processor os ms st = (res, st') \<Longrightarrow> keeps_seen os cfg seen st \<Longrightarrow>
     extends (ps_db st) (ps_db st')
     \<and> (\<exists>handled rest. ms = handled @ rest \<and> (is_ok res \<longrightarrow> rest = [])
        \<and> ps_sent st' = ps_sent st @ List.map_filter (forward \<circ> snd) handled
        \<and> slots_recorded os cfg seen (map snd handled) (ps_db st'))"
proof (induction ms arbitrary: st seen)
  case Nil
  then show ?case by (simp add: slots_recorded_def List.map_filter_def)
next
  case (Cons swm ms)
  obtain sw m where swm: "swm = (sw, m)" by (meson surj_pair)
  obtain r st1 where h: "handle_message os sw m st = (r, st1)" by (meson surj_pair)
  note step = handle_step [OF h Cons.prems(2)]
  show ?case
  proof (cases r)
    case (Inl e)
    with Cons.prems(1) swm h have "res = Inl e" "st' = st1" by auto
    then show ?thesis
      using step(1,2) Inl
      by (intro conjI exI [of _ "[]"] exI [of _ "swm # ms"])
        (simp_all add: is_ok_iff slots_recorded_def List.map_filter_def)
  next
    case (Inr u)
    with Cons.prems(1) swm h have run: "run_processor os ms st1 = (res, st')" by simp
    from Inr step(3) have nxt: "keeps_seen os cfg (seen @ [m]) st1"
      "ps_sent st1 = ps_sent st @ (case forward m of Some c \<Rightarrow> [c] | None \<Rightarrow> [])"
      by (simp_all add: is_ok_iff)
    from Cons.IH [OF run nxt(1)] obtain handled rest where IH: "extends (ps_db st1) (ps_db st')"
      "ms = handled @ rest" "is_ok res \<longrightarrow> rest = []"
      "ps_sent st' = ps_sent st1 @ List.map_filter (forward \<circ> snd) handled"
      "slots_recorded os cfg (seen @ [m]) (map snd handled) (ps_db st')" by blast
    have "slots_recorded os cfg seen (m # map snd handled) (ps_db st')"
    proof (rule slots_recorded_Cons [OF IH(5)])
      fix slot program blockhash meta
      assume "m = SlotComplete slot program blockhash" "InstructionMsg meta \<in> set seen"
        "im_slot meta = slot"
      with step(4) Inr show "recorded os cfg meta (ps_db st')"
        by (intro recorded_extends [OF _ IH(1)]) (simp add: is_ok_iff)
    qed
    then show ?thesis
      using IH nxt(2) extends_trans [OF step(1) IH(1)] swm
      by (intro conjI exI [of _ "swm # handled"] exI [of _ rest])
        (simp_all add: List.map_filter_def split: option.split)
  qed
qed

text \<open>
  C9. The checkpoint follows the rows: however writes fail, are retried or are given up, the
  checkpoint messages sent are exactly the forwards of the messages handled so far, in order, and for
  every completed slot among them each instruction of that slot delivered before it has its mint, its
  status change, its release and its transaction row in the database.
\<close>

theorem checkpoint_follows_rows:
  assumes "run_processor os ms st = (res, st')"
    and "tp_slot_buffers (ps_processor st) = (\<lambda>_. [])" "\<not> tp_validate_only (ps_processor st)"
  shows "\<exists>handled rest. ms = handled @ rest \<and> (res = Inr () \<longrightarrow> rest = [])
    \<and> ps_sent st' = ps_sent st @ List.map_filter (forward \<circ> snd) handled
    \<and> (\<forall>before slot program blockhash after meta.
         map snd handled = before @ SlotComplete slot program blockhash # after
         \<longrightarrow> InstructionMsg meta \<in> set before \<longrightarrow> im_slot meta = slot
         \<longrightarrow> recorded os (tp_configured_escrow_instance_id (ps_processor st)) meta (ps_db st'))"
proof -
  have "keeps_seen os (tp_configured_escrow_instance_id (ps_processor st)) [] st"
    using assms(3) by (simp add: keeps_seen_def)
  from run_extends [OF assms(1) this] show ?thesis
    unfolding slots_recorded_def is_ok_iff append_Nil by (metis old.unit.exhaust)
qed

section \<open>Where rows come from\<close>

definition from_messages ::
  "'c channel_sdk_scheme \<Rightarrow> address option \<Rightarrow> consumed_set option \<Rightarrow> processor_message list \<Rightarrow>
     db_transaction \<Rightarrow> bool" where
  "from_messages os cfg consumed msgs x \<longleftrightarrow> (\<exists>meta d r. InstructionMsg meta \<in> set msgs
     \<and> dm_transaction (convert_to_db_models os d meta cfg) = Some r
     \<and> payload x = payload (case consumed of None \<Rightarrow> r | Some c \<Rightarrow> reconcile_row os c r))"

definition buffers_seen :: "processor_message list \<Rightarrow> processor_state \<Rightarrow> bool" where
  "buffers_seen seen st \<longleftrightarrow>
     (\<forall>slot. \<forall>meta\<in>set (tp_slot_buffers (ps_processor st) slot). InstructionMsg meta \<in> set seen)"

lemma map_filterE:
  assumes "y \<in> set (List.map_filter f xs)"
  obtains x where "x \<in> set xs" "f x = Some y"
  using assms by (auto simp: List.map_filter_def)

lemma models_of_memE:
  assumes "y \<in> set (models_of os cfg draw metas)"
  obtains meta d where "meta \<in> set metas" "y = (meta, convert_to_db_models os d meta cfg)"
proof -
  from assms obtain i where "i < length metas"
    "y = (metas ! i, convert_to_db_models os (draw i) (metas ! i) cfg)"
    by (auto simp: models_of_def in_set_enumerate_eq)
  then show ?thesis by (intro that [of "metas ! i" "draw i"]) simp_all
qed

lemma slot_writes_from:
  assumes "given (sr_transactions (slot_writes os sw slot p)) x"
    and "\<forall>meta\<in>set (tp_slot_buffers p slot). InstructionMsg meta \<in> set seen"
  shows "from_messages os (tp_configured_escrow_instance_id p) (tp_consumed p) seen x"
proof -
  let ?ms = "models_of os (tp_configured_escrow_instance_id p) (sw_draw sw) (tp_slot_buffers p slot)"
  from assms(1) obtain r0 where r0: "payload x = payload r0"
    "r0 \<in> set (reconcile_against_consumed os (tp_consumed p) (List.map_filter (dm_transaction \<circ> snd) ?ms))"
    by (auto simp: given_def slot_writes_def slot_rows_of_def Let_def)
  then obtain r where r: "r \<in> set (List.map_filter (dm_transaction \<circ> snd) ?ms)"
    "r0 = (case tp_consumed p of None \<Rightarrow> r | Some c \<Rightarrow> reconcile_row os c r)"
    by (auto simp: reconcile_against_consumed_def split: option.splits)
  from r(1) obtain meta d where "meta \<in> set (tp_slot_buffers p slot)"
    "dm_transaction (convert_to_db_models os d meta (tp_configured_escrow_instance_id p)) = Some r"
    by (elim map_filterE models_of_memE) simp
  with assms(2) r0(1) r(2) show ?thesis unfolding from_messages_def by blast
qed

lemma from_messages_mono: "from_messages os cfg c msgs x \<Longrightarrow> set msgs \<subseteq> set msgs' \<Longrightarrow> from_messages os cfg c msgs' x"
  by (auto simp: from_messages_def)

lemma handle_adds:
  assumes run: "handle_message os sw m st = (res, st')" and seen: "buffers_seen seen st"
  shows "adds (from_messages os (tp_configured_escrow_instance_id (ps_processor st))
      (tp_consumed (ps_processor st)) seen) (ps_db st) (ps_db st')
    \<and> buffers_seen (seen @ [m]) st'
    \<and> tp_configured_escrow_instance_id (ps_processor st') = tp_configured_escrow_instance_id (ps_processor st)
    \<and> tp_consumed (ps_processor st') = tp_consumed (ps_processor st)
    \<and> (tp_validate_only (ps_processor st) \<longrightarrow> ps_db st' = ps_db st)
    \<and> tp_validate_only (ps_processor st') = tp_validate_only (ps_processor st)"
proof (cases m)
  case (InstructionMsg meta)
  with run seen show ?thesis by (auto simp: adds_refl buffers_seen_def split: if_splits)
next
  case (RegateRequest p f t)
  with run seen show ?thesis by (auto simp: adds_refl buffers_seen_def split: if_splits)
next
  case (SlotComplete slot program blockhash)
  with run have fin: "finalize_and_checkpoint os sw slot program blockhash st = (res, st')" by simp
  show ?thesis
  proof (cases "tp_validate_only (ps_processor st)")
    case True
    with fin have "ps_db st' = ps_db st"
      "tp_slot_buffers (ps_processor st') = (tp_slot_buffers (ps_processor st))(slot := [])"
      "tp_configured_escrow_instance_id (ps_processor st') = tp_configured_escrow_instance_id (ps_processor st)"
      "tp_consumed (ps_processor st') = tp_consumed (ps_processor st)"
      "tp_validate_only (ps_processor st') = tp_validate_only (ps_processor st)"
      by (auto simp: finalize_and_checkpoint_def Let_def)
    with seen show ?thesis by (auto simp: adds_refl buffers_seen_def)
  next
    case False
    note f = finalize_spec [OF fin False]
    have "adds (from_messages os (tp_configured_escrow_instance_id (ps_processor st))
      (tp_consumed (ps_processor st)) seen) (ps_db st) (ps_db st')"
      using f(2) seen by (rule_tac adds_mono [OF f(2)]) (auto simp: buffers_seen_def intro: slot_writes_from)
    with seen False show ?thesis by (auto simp: buffers_seen_def f(1))
  qed
qed

lemma run_adds:
  "run_processor os ms st = (res, st') \<Longrightarrow> buffers_seen seen st \<Longrightarrow>
     adds (from_messages os (tp_configured_escrow_instance_id (ps_processor st))
       (tp_consumed (ps_processor st)) (seen @ map snd ms)) (ps_db st) (ps_db st')
     \<and> (tp_validate_only (ps_processor st) \<longrightarrow> ps_db st' = ps_db st)"
proof (induction ms arbitrary: st seen)
  case (Cons swm ms)
  obtain sw m where swm: "swm = (sw, m)" by (meson surj_pair)
  obtain r st1 where h: "handle_message os sw m st = (r, st1)" by (meson surj_pair)
  note step = handle_adds [OF h Cons.prems(2)]
  have first: "adds (from_messages os (tp_configured_escrow_instance_id (ps_processor st))
      (tp_consumed (ps_processor st)) (seen @ map snd (swm # ms))) (ps_db st) (ps_db st1)"
    by (rule adds_mono [OF conjunct1 [OF step]]) (erule from_messages_mono, auto)
  show ?case
  proof (cases r)
    case (Inl e)
    with Cons.prems(1) swm h have "st' = st1" by simp
    with first step show ?thesis by simp
  next
    case (Inr u)
    with Cons.prems(1) swm h have run: "run_processor os ms st1 = (res, st')" by simp
    from Cons.IH [OF run, of "seen @ [m]"] step first adds_trans [OF first] show ?thesis
      by (simp add: swm)
  qed
qed (simp add: adds_refl)

text \<open>The row an instruction stands for.\<close>

definition credited_to :: "deposit_accounts \<Rightarrow> deposit_data \<Rightarrow> address" where
  "credited_to acc data = (case dpd_recipient data of Some k \<Rightarrow> k | None \<Rightarrow> dpc_user acc)"

lemma credited_to_simps [simp]:
  "dpd_recipient data = None \<Longrightarrow> credited_to acc data = dpc_user acc"
  "dpd_recipient data = Some k \<Longrightarrow> credited_to acc data = k"
  by (simp_all add: credited_to_def)

definition row_matches ::
  "'c channel_sdk_scheme \<Rightarrow> address option \<Rightarrow> instruction_with_metadata \<Rightarrow> db_transaction \<Rightarrow> bool" where
  "row_matches os cfg meta x \<longleftrightarrow>
     im_signature meta = Some (t_signature x) \<and> t_slot x = sint (im_slot meta)
     \<and> t_instruction_index x = sint (im_instruction_index meta)
     \<and> t_inner_index x = map_option sint (im_inner_index meta)
     \<and> (case t_type x of
          DepositTx \<Rightarrow> (\<exists>acc data ev. im_instruction meta = EscrowIx (Deposit_ix acc data ev)
            \<and> cfg = Some (dpc_instance acc) \<and> t_amount x = ide_amount ev \<and> 0 < t_amount x
            \<and> t_mint x = pubkey_to_string os (dpc_mint acc)
            \<and> t_initiator x = pubkey_to_string os (dpc_user acc)
            \<and> t_recipient x = pubkey_to_string os (credited_to acc data))
        | WithdrawalTx \<Rightarrow> (\<exists>acc data. im_instruction meta = WithdrawIx (WithdrawFunds_ix acc data)
            \<and> t_amount x = wfd_amount data \<and> t_mint x = pubkey_to_string os (wfc_mint acc)
            \<and> t_initiator x = pubkey_to_string os (wfc_user acc)
            \<and> t_recipient x = pubkey_to_string os (wfd_destination data)))"

lemma converted_row_matches:
  assumes "dm_transaction (convert_to_db_models os d meta cfg) = Some r"
  shows "row_matches os cfg meta r" "t_status r = Pending"
  using assms
  by (auto simp: convert_to_db_models_def convert_escrow_def no_models_def build_row_def row_matches_def
      DbTransactionBuilder_build_def DbTransactionBuilder_new_def Let_def word_gt_0
      split: option.splits program_ix.splits escrow_ix.splits withdraw_ix.splits if_splits)

text \<open>The part of a payload that reconciling leaves alone.\<close>

definition event_core where
  "event_core r = (t_signature r, t_slot r, t_initiator r, t_recipient r, t_mint r, t_amount r, t_type r,
     t_instruction_index r, t_inner_index r)"

lemma event_core_determines:
  assumes "event_core x = event_core r"
  shows "row_matches os cfg meta x = row_matches os cfg meta r"
    "SourceEventId_from_row os x = SourceEventId_from_row os r"
    "check_consumed_mint os c x = check_consumed_mint os c r"
proof -
  have f: "t_signature x = t_signature r" "t_slot x = t_slot r" "t_initiator x = t_initiator r"
    "t_recipient x = t_recipient r" "t_mint x = t_mint r" "t_amount x = t_amount r" "t_type x = t_type r"
    "t_instruction_index x = t_instruction_index r" "t_inner_index x = t_inner_index r"
    using assms by (simp_all add: event_core_def)
  show "row_matches os cfg meta x = row_matches os cfg meta r" unfolding row_matches_def f ..
  show ev: "SourceEventId_from_row os x = SourceEventId_from_row os r"
    unfolding SourceEventId_from_row_def f ..
  show "check_consumed_mint os c x = check_consumed_mint os c r"
    unfolding check_consumed_mint_def field_differences_def ev f ..
qed

lemma reconcile_core: "event_core (reconcile_row os consumed r) = event_core r"
  by (auto simp: reconcile_row_def event_core_def split: option.split sum.split consumed_mint_kind.split)

lemma payload_core:
  "payload x = payload r \<Longrightarrow> event_core x = event_core r \<and> t_status x = t_status r
     \<and> t_counterpart_signature x = t_counterpart_signature r
     \<and> t_landed_remint_signature x = t_landed_remint_signature r"
  by (simp add: payload_def event_core_def)

text \<open>
  C13. Every row the processor adds is an event of the chain it was handed: rows already in the table
  are untouched, and each new one has the signature, slot and position of a delivered instruction
  that is either a deposit into the configured escrow instance, with the amount its event reports, or
  a withdrawal, with the amount burned. A validation pass adds nothing.
\<close>

theorem indexed_rows_come_from_chain:
  assumes "run_processor os ms st = (res, st')"
    and "tp_slot_buffers (ps_processor st) = (\<lambda>_. [])"
  shows "\<exists>new. db_transactions (ps_db st') = db_transactions (ps_db st) @ new
    \<and> (\<forall>x\<in>set new. \<exists>meta\<in>{meta. InstructionMsg meta \<in> set (map snd ms)}.
         row_matches os (tp_configured_escrow_instance_id (ps_processor st)) meta x)
    \<and> (tp_validate_only (ps_processor st) \<longrightarrow> new = [])"
proof -
  have "buffers_seen [] st" using assms(2) by (simp add: buffers_seen_def)
  note run = run_adds [OF assms(1) this, unfolded adds_def append_Nil]
  then obtain new where new: "db_transactions (ps_db st') = db_transactions (ps_db st) @ new"
    "list_all (from_messages os (tp_configured_escrow_instance_id (ps_processor st))
       (tp_consumed (ps_processor st)) (map snd ms)) new" by blast
  have "\<exists>meta\<in>{meta. InstructionMsg meta \<in> set (map snd ms)}.
      row_matches os (tp_configured_escrow_instance_id (ps_processor st)) meta x" if "x \<in> set new" for x
  proof -
    from new(2) that obtain meta d r where m: "InstructionMsg meta \<in> set (map snd ms)"
      "dm_transaction (convert_to_db_models os d meta
         (tp_configured_escrow_instance_id (ps_processor st))) = Some r"
      "payload x = payload (case tp_consumed (ps_processor st) of None \<Rightarrow> r | Some c \<Rightarrow> reconcile_row os c r)"
      unfolding list_all_iff from_messages_def by blast
    from payload_core [OF m(3)] have "event_core x = event_core r"
      by (auto simp: reconcile_core split: option.splits)
    with converted_row_matches(1) [OF m(2)] event_core_determines(1) m(1) show ?thesis by blast
  qed
  with new(1) run show ?thesis by auto
qed


section \<open>An example\<close>

text \<open>
  Slot 9 with one withdrawal. The first attempt to write it commits but its answer is lost; the second
  finds the row in place.
\<close>

definition demo_burn :: instruction_with_metadata where
  "demo_burn = \<lparr>im_instruction = WithdrawIx (WithdrawFunds_ix
       \<lparr>wfc_user = 6, wfc_mint = 5, wfc_token_account = 7, wfc_token_program = 8,
        wfc_associated_token_program = 9\<rparr> \<lparr>wfd_amount = 40, wfd_destination = 6\<rparr>),
     im_slot = 9, im_program_type = Withdraw, im_signature = Some ''sig'', im_transaction_index = 0,
     im_instruction_index = 0, im_inner_index = None\<rparr>"

definition demo_slot_world :: slot_world where
  "demo_slot_world = \<lparr>sw_draw = (\<lambda>_. (1, ''t'')), sw_clock = (\<lambda>attempt. attempt),
     sw_faults = (\<lambda>attempt call. if attempt = 1 \<and> call = InsertRows then Fails 1 else Healthy),
     sw_writer_gone = False\<rparr>"

definition demo_messages :: "(slot_world \<times> processor_message) list" where
  "demo_messages = [(demo_slot_world, InstructionMsg demo_burn),
     (demo_slot_world, SlotComplete 9 Withdraw None)]"

definition demo_processor_state :: "consumed_set option \<Rightarrow> processor_state" where
  "demo_processor_state consumed = \<lparr>ps_processor = TransactionProcessor_new\<lparr>tp_consumed := consumed\<rparr>,
     ps_db = empty_db, ps_sent = []\<rparr>"

lemmas demo_evaluation =
  demo_messages_def demo_processor_state_def finalize_and_checkpoint_def
  TransactionProcessor_new_def DEFAULT_WRITE_MAX_ATTEMPTS_def demo_burn_def demo_slot_world_def
  models_of_def slot_rows_of_def List.map_filter_def convert_to_db_models_def no_models_def
  build_row_def DbTransactionBuilder_build_def DbTransactionBuilder_new_def
  reconcile_against_consumed_def write_with_retry.simps write_slot_def and_then_def faulty_def
  insert_transactions_batch_def find_identity_def tx_identity_def coalesce_def sql_insert_def
  assign_withdrawal_nonce_def default_columns_def row_constraints_def empty_db_def Let_def

lemma demo_run_ok: "fst (run_processor demo_channel_sdk demo_messages (demo_processor_state None)) = Inr ()"
  by (simp add: demo_evaluation)

lemma demo_run_rows:
  "length (db_transactions (ps_db (snd (run_processor demo_channel_sdk demo_messages
     (demo_processor_state None))))) = 1"
  "length (db_transactions (ps_db (snd (run_processor demo_channel_sdk demo_messages
     (demo_processor_state (Some [])))))) = 1"
  by (simp_all add: demo_evaluation reconcile_row_def)

lemma demo_state_simps:
  "tp_slot_buffers (ps_processor (demo_processor_state c)) = (\<lambda>_. [])"
  "tp_configured_escrow_instance_id (ps_processor (demo_processor_state c)) = None"
  "tp_consumed (ps_processor (demo_processor_state c)) = c"
  "\<not> tp_validate_only (ps_processor (demo_processor_state c))"
  "ps_sent (demo_processor_state c) = []" "db_transactions (ps_db (demo_processor_state c)) = []"
  by (simp_all add: demo_processor_state_def TransactionProcessor_new_def empty_db_def)

theorem checkpoint_follows_rows_witness:
  "\<exists>st'. run_processor demo_channel_sdk demo_messages (demo_processor_state None) = (Inr (), st')
    \<and> ps_sent st' = [SlotMsg \<lparr>cu_program_type = Withdraw, cu_slot = 9, cu_blockhash = None\<rparr>]
    \<and> recorded demo_channel_sdk None demo_burn (ps_db st')"
proof -
  obtain st' where run: "run_processor demo_channel_sdk demo_messages (demo_processor_state None) = (Inr (), st')"
    using demo_run_ok by (metis prod.collapse)
  from checkpoint_follows_rows [OF run demo_state_simps(1,4), unfolded demo_state_simps]
  obtain handled where h: "demo_messages = handled"
    "ps_sent st' = List.map_filter (forward \<circ> snd) handled"
    "\<forall>before slot program blockhash after meta.
       map snd handled = before @ SlotComplete slot program blockhash # after
       \<longrightarrow> InstructionMsg meta \<in> set before \<longrightarrow> im_slot meta = slot
       \<longrightarrow> recorded demo_channel_sdk None meta (ps_db st')" by auto
  have "map snd handled = [InstructionMsg demo_burn] @ SlotComplete 9 Withdraw None # []"
    unfolding h(1) [symmetric] by (simp add: demo_messages_def)
  with h(3) have "recorded demo_channel_sdk None demo_burn (ps_db st')"
    by (metis list.set_intros(1) demo_burn_def instruction_with_metadata.select_convs(2))
  with run h(2) show ?thesis
    unfolding h(1) [symmetric] by (simp add: demo_messages_def List.map_filter_def)
qed

theorem indexed_rows_come_from_chain_witness:
  "\<exists>x. db_transactions (ps_db (snd (run_processor demo_channel_sdk demo_messages
       (demo_processor_state None)))) = [x] \<and> row_matches demo_channel_sdk None demo_burn x"
  using indexed_rows_come_from_chain [OF prod.collapse [symmetric] demo_state_simps(1),
      of demo_channel_sdk demo_messages None] demo_run_rows(1)
  by (auto simp: demo_state_simps demo_messages_def length_Suc_conv)


end
