(* ===== verification/Deposit_Path.thy ===== *)
theory Deposit_Path
  imports Indexer_Readback Processor_Safety
begin

text \<open>
  From the escrow program to the ledger: a deposit the program accepted, read back from its
  transaction by the parser and handed to the processor, ends as one row that credits what the escrow
  received.
\<close>

section \<open>The row of an instruction\<close>

text \<open>The durable identity of an instruction; the database reads a missing inner index as \<open>-1\<close>.\<close>

definition position_of :: "instruction_with_metadata \<Rightarrow> string option \<times> u32 \<times> u32" where
  "position_of meta = (im_signature meta, im_instruction_index meta,
     case im_inner_index meta of Some i \<Rightarrow> i | None \<Rightarrow> -1)"

lemma sint_u32_inject: "sint a = sint b \<longleftrightarrow> a = (b :: u32)" "sint a = -1 \<longleftrightarrow> a = (-1 :: u32)"
  "-1 = sint b \<longleftrightarrow> b = (-1 :: u32)"
proof -
  show "sint a = sint b \<longleftrightarrow> a = (b :: u32)" for a b by (auto simp: signed_word_eqI)
  from this [of a "-1"] show "sint a = -1 \<longleftrightarrow> a = (-1 :: u32)" by simp
  from \<open>\<And>b a. sint a = sint b \<longleftrightarrow> a = b\<close> [of b "-1"] show "-1 = sint b \<longleftrightarrow> b = (-1 :: u32)" by auto
qed

lemma row_at_position:
  assumes run: "run_processor os ms st = (Inr (), st')"
    and fresh: "tp_slot_buffers (ps_processor st) = (\<lambda>_. [])" "\<not> tp_validate_only (ps_processor st)"
    and delivered: "map snd ms = before @ SlotComplete (im_slot meta) program blockhash # after"
      "InstructionMsg meta \<in> set before"
    and alone: "\<And>m. InstructionMsg m \<in> set (map snd ms) \<Longrightarrow> position_of m = position_of meta \<Longrightarrow> m = meta"
    and row: "dm_transaction (convert_to_db_models os (0, []) meta
        (tp_configured_escrow_instance_id (ps_processor st))) = Some r"
    and new: "\<not> has_identity r (ps_db st)"
  obtains x where "x \<in> set (db_transactions (ps_db st'))" "tx_identity x = tx_identity r"
    "row_matches os (tp_configured_escrow_instance_id (ps_processor st)) meta x"
proof -
  let ?cfg = "tp_configured_escrow_instance_id (ps_processor st)"
  have "keeps_seen os ?cfg [] st" using fresh(2) by (simp add: keeps_seen_def)
  from run_extends [OF run this] delivered have "recorded os ?cfg meta (ps_db st')"
    unfolding slots_recorded_def is_ok_iff append_Nil by (metis append_Nil2)
  with row obtain x where x: "x \<in> set (db_transactions (ps_db st'))" "tx_identity x = tx_identity r"
    by (auto simp: recorded_def has_identity_def Let_def)
  have "buffers_seen [] st" using fresh(1) by (simp add: buffers_seen_def)
  note run_adds [OF run this, unfolded adds_def append_Nil]
  then obtain added where added: "db_transactions (ps_db st') = db_transactions (ps_db st) @ added"
    "list_all (from_messages os ?cfg (tp_consumed (ps_processor st)) (map snd ms)) added" by blast
  with x new have "x \<in> set added" by (auto simp: has_identity_def)
  with added(2) obtain m d r1 where m: "InstructionMsg m \<in> set (map snd ms)"
    "dm_transaction (convert_to_db_models os d m ?cfg) = Some r1"
    "payload x = payload (case tp_consumed (ps_processor st) of None \<Rightarrow> r1 | Some c \<Rightarrow> reconcile_row os c r1)"
    unfolding list_all_iff from_messages_def by blast
  from payload_core [OF m(3)] have "event_core x = event_core r1"
    by (auto simp: reconcile_core split: option.splits)
  with converted_row_matches(1) [OF m(2)] event_core_determines(1)
  have match: "row_matches os ?cfg m x" by blast
  moreover have "row_matches os ?cfg meta r" by (rule converted_row_matches [OF row])
  ultimately have "position_of m = position_of meta"
    using x(2) by (auto simp: row_matches_def tx_identity_def position_of_def sint_u32_inject
        coalesce_def split: option.splits)
  with alone [OF m(1)] match x that show ?thesis by blast
qed

section \<open>Deposits\<close>


section \<open>An example\<close>

definition demo_path_sdk :: channel_sdk where
  "demo_path_sdk = demo_channel_sdk\<lparr>
     cr_bs58_decode := char_decode,
     cr_borsh_u8 := cr_borsh_u8 (demo_crates (rt_find_program_address demo_rt)),
     cr_borsh_u64 := cr_borsh_u64 (demo_crates (rt_find_program_address demo_rt)),
     cr_borsh_bool := cr_borsh_bool (demo_crates (rt_find_program_address demo_rt)),
     cr_borsh_option_32 := cr_borsh_option_32 (demo_crates (rt_find_program_address demo_rt)),
     cr_find_program_address := rt_find_program_address demo_rt\<rparr>"

lemma demo_path_contract: "borsh_contract demo_path_sdk"
  by (simp add: borsh_contract_def demo_path_sdk_def demo_crates_def)

lemma demo_path_records:
  "records_self_calls (demo_crates (rt_find_program_address demo_rt)) keys scope calls
     \<Longrightarrow> records_self_calls demo_path_sdk keys scope calls"
  by (simp add: records_self_calls_def demo_path_sdk_def demo_crates_def)

definition demo_meta :: "escrow_ix \<Rightarrow> instruction_with_metadata" where
  "demo_meta ix = \<lparr>im_instruction = EscrowIx ix, im_slot = 9, im_program_type = Escrow,
     im_signature = Some ''sig'', im_transaction_index = 0, im_instruction_index = 0,
     im_inner_index = None\<rparr>"

definition demo_path_messages :: "escrow_ix \<Rightarrow> (slot_world \<times> processor_message) list" where
  "demo_path_messages ix = [(demo_slot_world, InstructionMsg (demo_meta ix)),
     (demo_slot_world, SlotComplete 9 Escrow None)]"

definition demo_path_state :: processor_state where
  "demo_path_state = (demo_processor_state None)\<lparr>ps_processor := TransactionProcessor_new\<lparr>
     tp_configured_escrow_instance_id := Some (av_address (demo_deposit_accounts ! 2))\<rparr>\<rparr>"

lemma demo_path_run:
  assumes "received \<noteq> 0"
  shows "fst (run_processor demo_path_sdk (demo_path_messages (Deposit_ix
      (deposit_accounts_of demo_deposit_accounts) data \<lparr>ide_amount = received\<rparr>)) demo_path_state) = Inr ()"
  using assms
  by (simp add: demo_path_messages_def demo_path_state_def demo_processor_state_def demo_meta_def
      finalize_and_checkpoint_def TransactionProcessor_new_def DEFAULT_WRITE_MAX_ATTEMPTS_def
      demo_slot_world_def models_of_def slot_rows_of_def List.map_filter_def convert_to_db_models_def
      convert_escrow_def deposit_accounts_of_def no_models_def
      build_row_def DbTransactionBuilder_build_def DbTransactionBuilder_new_def
      reconcile_against_consumed_def write_with_retry.simps write_slot_def and_then_def faulty_def
      insert_transactions_batch_def find_identity_def tx_identity_def coalesce_def sql_insert_def
      assign_withdrawal_nonce_def default_columns_def row_constraints_def empty_db_def Let_def)

lemma demo_path_state_simps:
  "tp_slot_buffers (ps_processor demo_path_state) = (\<lambda>_. [])"
  "\<not> tp_validate_only (ps_processor demo_path_state)"
  "tp_configured_escrow_instance_id (ps_processor demo_path_state)
     = Some (av_address (demo_deposit_accounts ! 2))"
  "db_transactions (ps_db demo_path_state) = []"
  by (simp_all add: demo_path_state_def demo_processor_state_def TransactionProcessor_new_def empty_db_def)


end
