(* ===== verification/Finality.thy ===== *)
theory Finality
  imports Channel_Mints Escrow_Safety
begin

text \<open>
  How the operator learns what happened to a transaction it sent: the finality of its signatures
  (\<open>classify_signatures\<close> of \<open>indexer/src/operator/sender/remint.rs\<close>) and, for a release, the
  withdrawal bitmap of the escrow instance (\<open>verify_release_landed\<close> of \<open>operator/sender/state.rs\<close>,
  \<open>operator/utils/account_util.rs\<close>).

  An endpoint is the record of what its methods answer during one check. A retried call is its last
  attempt. An error message is a constructor with the values it prints. The decoder of the bitmap
  header is generated from the program's interface description, so it is a field of \<open>operator_sdk\<close>,
  as are program addresses.
\<close>

section \<open>The bitmap as the operator reads it (account_util.rs)\<close>

record operator_sdk = channel_sdk +
  od_bitmap_from_bytes :: "bytes \<Rightarrow> (u8 \<times> u8 \<times> u64) option"
    \<comment> \<open>discriminator, bump and generation\<close>
  od_find_program_address :: "bytes list \<Rightarrow> address \<Rightarrow> address \<times> u8"

definition bitmap_header_contract :: "'c operator_sdk_scheme \<Rightarrow> bool" where
  "bitmap_header_contract od \<longleftrightarrow>
     (\<forall>bs. 10 \<le> length bs \<longrightarrow>
        od_bitmap_from_bytes od bs = Some (bs ! 0, bs ! 1, u64_of_le (slice 2 8 bs)))"

definition op_NONCES_PER_GENERATION :: u64 where "op_NONCES_PER_GENERATION = 65536"

definition op_BITMAP_BYTES :: nat where "op_BITMAP_BYTES = unat (op_NONCES_PER_GENERATION div 8)"

definition op_BITS_OFFSET :: nat where "op_BITS_OFFSET = 10"

definition ACCOUNT_LEN :: nat where "ACCOUNT_LEN = op_BITS_OFFSET + op_BITMAP_BYTES"

definition op_WITHDRAWAL_BITMAP_DISCRIMINATOR :: u8 where "op_WITHDRAWAL_BITMAP_DISCRIMINATOR = 3"

definition op_WITHDRAWAL_BITMAP_SEED :: bytes where
  "op_WITHDRAWAL_BITMAP_SEED = bytes_of_string ''withdrawal_bitmap''"

definition find_withdrawal_bitmap_pda :: "'c operator_sdk_scheme \<Rightarrow> address \<Rightarrow> address" where
  "find_withdrawal_bitmap_pda od instance_pda =
     fst (od_find_program_address od [op_WITHDRAWAL_BITMAP_SEED, address_bytes instance_pda] ESCROW_ID)"

record bitmap_state =
  bs_generation :: u64
  bs_consumed :: "u64 list"

definition BitmapState_covers :: "bitmap_state \<Rightarrow> u64 \<Rightarrow> bool" where
  "BitmapState_covers b nonce \<longleftrightarrow> nonce div op_NONCES_PER_GENERATION = bs_generation b"

text \<open>The binary search is membership: the list is ascending wherever \<open>covers\<close> holds.\<close>

definition BitmapState_is_consumed :: "bitmap_state \<Rightarrow> u64 \<Rightarrow> bool" where
  "BitmapState_is_consumed b nonce \<longleftrightarrow> BitmapState_covers b nonce \<and> nonce \<in> set (bs_consumed b)"

definition saturating_mul :: "u64 \<Rightarrow> u64 \<Rightarrow> u64" where
  "saturating_mul a b = (if unat a * unat b < 2 ^ 64 then a * b else - 1)"

datatype bitmap_error =
    TooShort nat
  | HeaderUndecodable
  | NotABitmap u8
  | AccountUnreadable string
  | BelowMinContextSlot u64 u64
  | AccountUndecodable
  | BitmapMissing

definition byte_nonces :: "u64 \<Rightarrow> nat \<Rightarrow> u8 \<Rightarrow> u64 list" where
  "byte_nonces base byte_index b =
     (if b = 0 then []
      else map (\<lambda>k. base + of_nat byte_index * 8 + of_nat k)
        (filter (\<lambda>k. b AND push_bit k 1 \<noteq> 0) [0..<8]))"

definition parse_withdrawal_bitmap :: "'c operator_sdk_scheme \<Rightarrow> bytes \<Rightarrow> bitmap_error + bitmap_state" where
  "parse_withdrawal_bitmap od data =
     bindE (guardE (ACCOUNT_LEN \<le> length data) (TooShort (length data))) (\<lambda>_.
     bindE (ok_orE (od_bitmap_from_bytes od data) HeaderUndecodable) (\<lambda>(discriminator, bump, generation).
     bindE (guardE (discriminator = op_WITHDRAWAL_BITMAP_DISCRIMINATOR) (NotABitmap discriminator)) (\<lambda>_.
     let base = saturating_mul generation op_NONCES_PER_GENERATION;
         bits = slice op_BITS_OFFSET op_BITMAP_BYTES data in
     Inr \<lparr>bs_generation = generation,
          bs_consumed = concat (map (\<lambda>(i, b). byte_nonces base i b) (enumerate 0 bits))\<rparr>)))"

datatype commitment = Processed | Confirmed | Finalized

text \<open>
  An account answer: the context slot and the account, if there is one; \<open>Some None\<close> is an account whose
  data does not decode.
\<close>

record remote_account =
  ra_owner :: address
  ra_data :: bytes

type_synonym account_answer = "string + u64 \<times> remote_account option option"

record solana_rpc =
  sr_latest_blockhash :: "commitment \<Rightarrow> string + u64 \<times> u64" \<comment> \<open>context slot, last valid block height\<close>
  sr_ui_account :: "address \<Rightarrow> commitment \<Rightarrow> u64 option \<Rightarrow> account_answer"

definition get_account_with_context_min_slot ::
  "solana_rpc \<Rightarrow> address \<Rightarrow> commitment \<Rightarrow> u64 option \<Rightarrow> bitmap_error + remote_account option \<times> u64" where
  "get_account_with_context_min_slot rpc key c min_context_slot =
     (case sr_ui_account rpc key c min_context_slot of
        Inl e \<Rightarrow> Inl (AccountUnreadable e)
      | Inr (slot, val) \<Rightarrow>
          (case (case min_context_slot of Some m \<Rightarrow> if slot < m then Some m else None | None \<Rightarrow> None) of
             Some m \<Rightarrow> Inl (BelowMinContextSlot slot m)
           | None \<Rightarrow>
               (case val of
                  None \<Rightarrow> Inr (None, slot)
                | Some None \<Rightarrow> Inl AccountUndecodable
                | Some (Some acc) \<Rightarrow> Inr (Some acc, slot))))"

definition read_bitmap ::
  "'c operator_sdk_scheme \<Rightarrow> solana_rpc \<Rightarrow> address \<Rightarrow> u64 option \<Rightarrow> commitment \<Rightarrow>
     bitmap_error + bitmap_state option \<times> u64" where
  "read_bitmap od rpc bitmap_pda min_context_slot c =
     bindE (get_account_with_context_min_slot rpc bitmap_pda c min_context_slot) (\<lambda>(acc, slot).
     case acc of
       None \<Rightarrow> Inr (None, slot)
     | Some a \<Rightarrow>
         if ra_owner a = SYSTEM_PROGRAM_ID \<and> ra_data a = [] then Inr (None, slot)
         else bindE (parse_withdrawal_bitmap od (ra_data a)) (\<lambda>bitmap. Inr (Some bitmap, slot)))"

definition fetch_consumed_nonces_at ::
  "'c operator_sdk_scheme \<Rightarrow> solana_rpc \<Rightarrow> address \<Rightarrow> u64 option \<Rightarrow> commitment \<Rightarrow>
     bitmap_error + bitmap_state \<times> u64" where
  "fetch_consumed_nonces_at od rpc bitmap_pda min_context_slot c =
     bindE (read_bitmap od rpc bitmap_pda min_context_slot c) (\<lambda>(bitmap, slot).
     bindE (ok_orE bitmap BitmapMissing) (\<lambda>b. Inr (b, slot)))"

definition fetch_consumed_nonces ::
  "'c operator_sdk_scheme \<Rightarrow> solana_rpc \<Rightarrow> address \<Rightarrow> u64 option \<Rightarrow> commitment \<Rightarrow>
     bitmap_error + bitmap_state" where
  "fetch_consumed_nonces od rpc bitmap_pda min_context_slot c =
     bindE (fetch_consumed_nonces_at od rpc bitmap_pda min_context_slot c) (\<lambda>(b, _). Inr b)"

definition fetch_bitmap_if_present ::
  "'c operator_sdk_scheme \<Rightarrow> solana_rpc \<Rightarrow> address \<Rightarrow> u64 option \<Rightarrow> commitment \<Rightarrow>
     bitmap_error + bitmap_state option" where
  "fetch_bitmap_if_present od rpc bitmap_pda min_context_slot c =
     bindE (read_bitmap od rpc bitmap_pda min_context_slot c) (\<lambda>(b, _). Inr b)"

definition fetch_bitmap_generation ::
  "'c operator_sdk_scheme \<Rightarrow> solana_rpc \<Rightarrow> commitment \<Rightarrow> address \<Rightarrow> u64 \<Rightarrow> bitmap_error + u64 \<times> u64" where
  "fetch_bitmap_generation od rpc client_commitment bitmap_pda min_slot =
     bindE (fetch_consumed_nonces_at od rpc bitmap_pda (Some min_slot) client_commitment)
       (\<lambda>(b, slot). Inr (bs_generation b, slot))"

definition finalized_anchor :: "solana_rpc \<Rightarrow> bitmap_error + u64" where
  "finalized_anchor rpc =
     (case sr_latest_blockhash rpc Finalized of
        Inl e \<Rightarrow> Inl (AccountUnreadable e) | Inr (slot, _) \<Rightarrow> Inr slot)"

section \<open>Was the nonce released? (state.rs)\<close>

definition MAX_PROCESSING_AGE :: u64 where "MAX_PROCESSING_AGE = 150"

datatype unproven =
    NoInstance
  | BlockhashUnreadable string
  | NoTipHeight u64
  | BitmapUnreadable bitmap_error
  | OtherGeneration u64 u64

datatype release_verdict =
    ReleaseLanded u64
  | NotLanded
  | UncertainRelease unproven
  | PendingRelease u64 u64

definition verify_release_landed_at ::
  "'c operator_sdk_scheme \<Rightarrow> solana_rpc \<Rightarrow> address option \<Rightarrow> u64 \<Rightarrow> u64 \<Rightarrow> release_verdict \<times> u64 option" where
  "verify_release_landed_at od rpc instance_pda nonce max_lvbh =
     (case instance_pda of
        None \<Rightarrow> (UncertainRelease NoInstance, None)
      | Some instance_pda \<Rightarrow>
     (case sr_latest_blockhash rpc Finalized of
        Inl e \<Rightarrow> (UncertainRelease (BlockhashUnreadable e), None)
      | Inr (ref_slot, lvbh) \<Rightarrow>
     (case checked_sub lvbh MAX_PROCESSING_AGE of
        None \<Rightarrow> (UncertainRelease (NoTipHeight lvbh), None)
      | Some tip_height \<Rightarrow>
          let pending = (if tip_height \<le> max_lvbh then Some (PendingRelease tip_height max_lvbh) else None) in
     (case fetch_consumed_nonces_at od rpc (find_withdrawal_bitmap_pda od instance_pda)
             (Some ref_slot) Finalized of
        Inl e \<Rightarrow> (case pending of Some p \<Rightarrow> p | None \<Rightarrow> UncertainRelease (BitmapUnreadable e), None)
      | Inr (bitmap, slot) \<Rightarrow>
          if nonce div op_NONCES_PER_GENERATION < bs_generation bitmap
          then (UncertainRelease (OtherGeneration (bs_generation bitmap) nonce), Some slot)
          else (case pending of
             Some p \<Rightarrow> (p, None)
           | None \<Rightarrow>
               if \<not> BitmapState_covers bitmap nonce
               then (UncertainRelease (OtherGeneration (bs_generation bitmap) nonce), None)
               else if BitmapState_is_consumed bitmap nonce
               then (ReleaseLanded (bs_generation bitmap), None)
               else (NotLanded, Some slot))))))"

definition verify_release_landed ::
  "'c operator_sdk_scheme \<Rightarrow> solana_rpc \<Rightarrow> address option \<Rightarrow> u64 \<Rightarrow> u64 \<Rightarrow> release_verdict" where
  "verify_release_landed od rpc instance_pda nonce max_lvbh =
     fst (verify_release_landed_at od rpc instance_pda nonce max_lvbh)"

definition release_seen_at_confirmed ::
  "'c operator_sdk_scheme \<Rightarrow> solana_rpc \<Rightarrow> address \<Rightarrow> u64 \<Rightarrow> unproven + bool" where
  "release_seen_at_confirmed od rpc instance_pda nonce =
     bindE (map_sum BitmapUnreadable id (finalized_anchor rpc)) (\<lambda>anchor.
     bindE (map_sum BitmapUnreadable id (fetch_consumed_nonces od rpc
       (find_withdrawal_bitmap_pda od instance_pda) (Some anchor) Confirmed)) (\<lambda>bitmap.
     bindE (guardE (BitmapState_covers bitmap nonce) (OtherGeneration (bs_generation bitmap) nonce)) (\<lambda>_.
     Inr (BitmapState_is_consumed bitmap nonce))))"

section \<open>What became of a signature (remint.rs)\<close>

datatype chain = Channel | Solana

text \<open>A status: whether it failed and whether it satisfies the finalized commitment.\<close>

record sig_status =
  st_err :: bool
  st_finalized :: bool

record pending_sig =
  pg_signature :: bytes
  pg_last_valid_block_height :: u64
  pg_blockhash_slot :: "u64 option"

record finality_endpoint =
  fe_snapshot :: "bytes list \<Rightarrow> string + u64 \<times> sig_status option list \<times> u64"
    \<comment> \<open>height, statuses and first available block, of one state\<close>
  fe_block_height :: "string + u64"
  fe_statuses :: "bytes list \<Rightarrow> string + sig_status option list"
  fe_first_available_block :: "string + u64"

record finality_rpc =
  fr_primary :: finality_endpoint
  fr_fallback :: "finality_endpoint option"
  fr_chain :: chain

definition FinalityRpc_channel :: "finality_endpoint \<Rightarrow> finality_endpoint option \<Rightarrow> finality_rpc" where
  "FinalityRpc_channel primary fallback =
     \<lparr>fr_primary = primary, fr_fallback = fallback, fr_chain = Channel\<rparr>"

definition FinalityRpc_solana :: "finality_endpoint \<Rightarrow> finality_endpoint option \<Rightarrow> finality_rpc" where
  "FinalityRpc_solana primary fallback =
     \<lparr>fr_primary = primary, fr_fallback = fallback, fr_chain = Solana\<rparr>"

datatype live_reason = AwaitingFinalization | StillValid u64

datatype uncertain_reason =
    SnapshotFailed string
  | StatusFailed string
  | StatusCount nat nat
  | HeightFailed string
  | NoJournaledSlot bool u64 \<comment> \<open>read from the fallback\<close>
  | FloorFailed string
  | FloorAbove bool u64 u64 u64

datatype endpoint_verdict =
    EndpointLanded bytes
  | EndpointLive live_reason
  | EndpointUncertain uncertain_reason
  | DeadFinalizedFailure
  | DeadByAbsence u64 "u64 option" "u64 option"

datatype sig_finality =
    Landed bytes
  | Live live_reason
  | Dead
  | Uncertain uncertain_reason

definition lower :: "u64 option \<Rightarrow> u64 \<Rightarrow> u64 option" where
  "lower m x = Some (case m of None \<Rightarrow> x | Some y \<Rightarrow> min y x)"

text \<open>
  The walk over the signatures and their statuses. It carries the lowest height and the lowest
  journaled slot of the expired absences, and whether one of them has no journaled slot.
\<close>

fun walk_sigs ::
  "u64 \<Rightarrow> u64 option \<Rightarrow> (pending_sig \<times> sig_status option) list \<Rightarrow> u64 option \<Rightarrow> u64 option \<Rightarrow> bool \<Rightarrow>
     endpoint_verdict" where
  "walk_sigs height floor [] min_lvbh min_slot unknown =
     (case min_lvbh of
        Some m \<Rightarrow> DeadByAbsence m min_slot floor | None \<Rightarrow> DeadFinalizedFailure)"
| "walk_sigs height floor ((p, Some status) # rest) min_lvbh min_slot unknown =
     (if st_finalized status then walk_sigs height floor rest min_lvbh min_slot unknown
      else EndpointLive AwaitingFinalization)"
| "walk_sigs height floor ((p, None) # rest) min_lvbh min_slot unknown =
     (if pg_last_valid_block_height p < height
      then (case pg_blockhash_slot p of
          Some slot \<Rightarrow> walk_sigs height floor rest (lower min_lvbh (pg_last_valid_block_height p))
            (if unknown then min_slot else lower min_slot slot) unknown
        | None \<Rightarrow> walk_sigs height floor rest (lower min_lvbh (pg_last_valid_block_height p)) None True)
      else EndpointLive (StillValid height))"

definition endpoint_reads ::
  "finality_endpoint \<Rightarrow> chain \<Rightarrow> bytes list \<Rightarrow>
     uncertain_reason + (string + u64) \<times> sig_status option list \<times> u64 option" where
  "endpoint_reads rpc c flat =
     (case c of
        Channel \<Rightarrow>
          (case fe_snapshot rpc flat of
             Inl e \<Rightarrow> Inl (SnapshotFailed e)
           | Inr (height, statuses, floor) \<Rightarrow> Inr (Inr height, statuses, Some floor))
      | Solana \<Rightarrow>
          (case fe_statuses rpc flat of
             Inl e \<Rightarrow> Inl (StatusFailed e)
           | Inr statuses \<Rightarrow> Inr (fe_block_height rpc, statuses, None)))"

definition finalized_success :: "sig_status option \<Rightarrow> bool" where
  "finalized_success s = (case s of Some status \<Rightarrow> st_finalized status \<and> \<not> st_err status | None \<Rightarrow> False)"

definition classify_endpoint :: "finality_endpoint \<Rightarrow> chain \<Rightarrow> pending_sig list \<Rightarrow> endpoint_verdict" where
  "classify_endpoint rpc c sigs =
     (let flat = map pg_signature sigs in
      case endpoint_reads rpc c flat of
        Inl e \<Rightarrow> EndpointUncertain e
      | Inr (block_height, statuses, floor) \<Rightarrow>
          if length statuses \<noteq> length flat
          then EndpointUncertain (StatusCount (length statuses) (length flat))
          else (case position finalized_success statuses of
             Some i \<Rightarrow> EndpointLanded (flat ! i)
           | None \<Rightarrow>
               (case (if None \<in> set statuses then block_height else Inr 0) of
                  Inl e \<Rightarrow> EndpointUncertain (HeightFailed e)
                | Inr height \<Rightarrow> walk_sigs height floor (zip sigs statuses) None None False)))"

definition ledger_coverage_verdict ::
  "chain \<Rightarrow> finality_endpoint \<Rightarrow> u64 \<Rightarrow> u64 option \<Rightarrow> u64 option \<Rightarrow> bool \<Rightarrow> sig_finality" where
  "ledger_coverage_verdict c rpc min_lvbh min_blockhash_slot snapshot_floor is_fallback =
     (case (case (min_blockhash_slot, c) of
              (Some slot, _) \<Rightarrow> Some slot
            | (None, Solana) \<Rightarrow> Some (saturating_sub min_lvbh MAX_PROCESSING_AGE)
            | (None, Channel) \<Rightarrow> None) of
        None \<Rightarrow> Uncertain (NoJournaledSlot is_fallback min_lvbh)
      | Some bound \<Rightarrow>
          (case (case snapshot_floor of Some floor \<Rightarrow> Inr floor | None \<Rightarrow> fe_first_available_block rpc) of
             Inl e \<Rightarrow> Uncertain (FloorFailed e)
           | Inr floor \<Rightarrow>
               if floor \<le> bound then Dead
               else Uncertain (FloorAbove is_fallback floor min_lvbh bound)))"

definition classify_signatures :: "finality_rpc \<Rightarrow> pending_sig list \<Rightarrow> sig_finality" where
  "classify_signatures finality sigs =
     (case classify_endpoint (fr_primary finality) (fr_chain finality) sigs of
        EndpointLanded g \<Rightarrow> Landed g
      | EndpointLive reason \<Rightarrow> Live reason
      | EndpointUncertain reason \<Rightarrow> Uncertain reason
      | DeadFinalizedFailure \<Rightarrow> Dead
      | DeadByAbsence primary_lvbh primary_slot primary_floor \<Rightarrow>
          (case fr_fallback finality of
             Some fb \<Rightarrow>
               (case classify_endpoint fb (fr_chain finality) sigs of
                  EndpointLanded g \<Rightarrow> Landed g
                | EndpointLive reason \<Rightarrow> Live reason
                | EndpointUncertain reason \<Rightarrow> Uncertain reason
                | DeadFinalizedFailure \<Rightarrow> Dead
                | DeadByAbsence min_lvbh min_slot floor \<Rightarrow>
                    ledger_coverage_verdict (fr_chain finality) fb min_lvbh min_slot floor True)
           | None \<Rightarrow>
               ledger_coverage_verdict (fr_chain finality) (fr_primary finality) primary_lvbh
                 primary_slot primary_floor False))"

definition count_rejected :: "finality_endpoint \<Rightarrow> pending_sig list \<Rightarrow> string + nat" where
  "count_rejected rpc sigs =
     bindE (fe_snapshot rpc (map pg_signature sigs)) (\<lambda>(_, statuses, _).
       Inr (length (filter (\<lambda>s. case s of Some status \<Rightarrow> st_err status \<and> st_finalized status | None \<Rightarrow> False)
         statuses)))"

end
