(* ===== verification/Operator_Base.thy ===== *)
theory Operator_Base
  imports Finality Indexer_Processor
begin

text \<open>
  What the operator's components share: storage calls that are retried and fenced
  (\<open>operator/utils/storage_util.rs\<close>), the instructions it builds
  (\<open>operator/utils/instruction_util.rs\<close>), the reading of a sent transaction's outcome
  (\<open>operator/utils/transaction_util.rs\<close>) and the task that writes status updates
  (\<open>operator/db_transaction_writer.rs\<close>).

  A storage call meets the database as other tasks have left it, and may fail: \<open>storage_call\<close> gives
  both for one call. Instructions are the values their builders are given. The encoder of the token
  program's \<open>MintTo\<close> is a library's, so it is a field of \<open>sender_sdk\<close>.
\<close>

section \<open>Storage calls (storage_util.rs)\<close>

record storage_call =
  sc_fault :: fault
  sc_others :: "ledger_db \<Rightarrow> ledger_db" \<comment> \<open>what other tasks did since the last call\<close>

definition write_db :: "storage_call \<Rightarrow> 'a db_op \<Rightarrow> ledger_db \<Rightarrow> (storage_error + 'a) \<times> ledger_db" where
  "write_db c op db = faulty (sc_fault c) op (sc_others c db)"

definition read_db :: "storage_call \<Rightarrow> (ledger_db \<Rightarrow> 'a) \<Rightarrow> ledger_db \<Rightarrow> (storage_error + 'a) \<times> ledger_db" where
  "read_db c f db =
     (case sc_fault c of
        Healthy \<Rightarrow> (Inr (f (sc_others c db)), sc_others c db)
      | Fails _ \<Rightarrow> (Inl Unavailable, sc_others c db))"

definition STORAGE_ATTEMPTS :: nat where "STORAGE_ATTEMPTS = 3"

text \<open>The attempts left; the last error is the one returned.\<close>

fun backoff_attempts ::
  "nat \<Rightarrow> (nat \<Rightarrow> ledger_db \<Rightarrow> (storage_error + 'a) \<times> ledger_db) \<Rightarrow> ledger_db \<Rightarrow>
     (storage_error + 'a) \<times> ledger_db" where
  "backoff_attempts 0 op db = (Inl Unavailable, db)"
| "backoff_attempts (Suc n) op db =
     (case op n db of
        (Inr v, db') \<Rightarrow> (Inr v, db')
      | (Inl e, db') \<Rightarrow> if n = 0 then (Inl e, db') else backoff_attempts n op db')"

definition with_storage_backoff ::
  "(nat \<Rightarrow> ledger_db \<Rightarrow> (storage_error + 'a) \<times> ledger_db) \<Rightarrow> ledger_db \<Rightarrow> (storage_error + 'a) \<times> ledger_db"
where
  "with_storage_backoff = backoff_attempts STORAGE_ATTEMPTS"

datatype fenced_write = Applied | Stale | Unverified

definition alert_message :: "fenced_write \<Rightarrow> string \<Rightarrow> string" where
  "alert_message w reason =
     (case w of
        Unverified \<Rightarrow> reason @ '' (status write unverified; check the row)''
      | _ \<Rightarrow> reason)"

definition fenced_terminal_write ::
  "(nat \<Rightarrow> storage_call) \<Rightarrow> (nat \<Rightarrow> storage_call) \<Rightarrow> int \<Rightarrow> tx_status \<Rightarrow> bool db_op \<Rightarrow> ledger_db \<Rightarrow>
     fenced_write \<times> ledger_db" where
  "fenced_terminal_write writes rereads transaction_id status write db =
     (case with_storage_backoff (\<lambda>n. write_db (writes n) write) db of
        (Inl e, db) \<Rightarrow> (Unverified, db)
      | (Inr True, db) \<Rightarrow> (Applied, db)
      | (Inr False, db) \<Rightarrow>
          (case with_storage_backoff (\<lambda>n. read_db (rereads n) (get_transaction_status transaction_id)) db of
             (Inl e, db) \<Rightarrow> (Unverified, db)
           | (Inr current, db) \<Rightarrow> (if current = Some status then Applied else Stale, db)))"

section \<open>Instructions the operator builds (instruction_util.rs)\<close>

datatype transaction_kind = ReleaseFundsKind | InitializeMintKind | MintKind | RotateBitmapKind

datatype retry_policy = NoRetry | Idempotent

record remint_info =
  ri_transaction_id :: int
  ri_source_event_id :: string
  ri_trace_id :: string
  ri_mint :: address
  ri_user :: address
  ri_user_ata :: address
  ri_token_program :: address
  ri_amount :: u64

record withdraw_config_setup =
  wcs_fee :: u64
  wcs_allow_mint_slot :: u64
  wcs_treasury :: address
  wcs_min_withdraw_amount :: u64

datatype op_instruction =
    CreateAtaIdempotent address address address address \<comment> \<open>payer, owner, mint, token program\<close>
  | SetWithdrawConfigIx address address address u64 u64 address u64
    \<comment> \<open>authority, mint, config, fee, allow slot, treasury, minimum\<close>
  | MemoIx address bytes
  | TokenIx address bytes \<comment> \<open>token program, data\<close>

record sender_sdk = operator_sdk +
  sx_mint_to :: "address \<Rightarrow> address \<Rightarrow> address \<Rightarrow> address \<Rightarrow> u64 \<Rightarrow> string + op_instruction"
    \<comment> \<open>token program, mint, account, authority, amount\<close>
  sx_permanent_delegate :: "address \<Rightarrow> address \<Rightarrow> address \<Rightarrow> string + op_instruction"
  sx_initialize_mint2 :: "address \<Rightarrow> address \<Rightarrow> address \<Rightarrow> address option \<Rightarrow> u8 \<Rightarrow> string + op_instruction"

record mint_to_builder =
  mb_mint :: "address option"
  mb_recipient :: "address option"
  mb_recipient_ata :: "address option"
  mb_payer :: "address option"
  mb_mint_authority :: "address option"
  mb_token_program :: "address option"
  mb_amount :: "u64 option"
  mb_idempotency_memo :: "string option"
  mb_withdraw_config_setup :: "withdraw_config_setup option"

definition MintToBuilder_new :: mint_to_builder where
  "MintToBuilder_new = \<lparr>mb_mint = None, mb_recipient = None, mb_recipient_ata = None, mb_payer = None,
     mb_mint_authority = None, mb_token_program = None, mb_amount = None, mb_idempotency_memo = None,
     mb_withdraw_config_setup = None\<rparr>"

datatype program_build_error = NotSet string | MintToError string | MintCreationError string

definition MintToBuilder_instruction ::
  "'c sender_sdk_scheme \<Rightarrow> mint_to_builder \<Rightarrow> program_build_error + op_instruction" where
  "MintToBuilder_instruction sx b =
     bindE (ok_orE (mb_token_program b) (NotSet ''token_program'')) (\<lambda>token_program.
     bindE (ok_orE (mb_mint b) (NotSet ''mint'')) (\<lambda>mint.
     bindE (ok_orE (mb_recipient_ata b) (NotSet ''recipient_ata'')) (\<lambda>recipient_ata.
     bindE (ok_orE (mb_mint_authority b) (NotSet ''mint_authority'')) (\<lambda>mint_authority.
     bindE (ok_orE (mb_amount b) (NotSet ''amount'')) (\<lambda>amount.
     map_sum MintToError id (sx_mint_to sx token_program mint recipient_ata mint_authority amount))))))"

definition config_instructions ::
  "'c sender_sdk_scheme \<Rightarrow> mint_to_builder \<Rightarrow> address \<Rightarrow> address \<Rightarrow> address \<Rightarrow>
     program_build_error + op_instruction list" where
  "config_instructions sx b mint payer token_program =
     (case mb_withdraw_config_setup b of
        None \<Rightarrow> Inr []
      | Some setup \<Rightarrow>
          bindE (ok_orE (mb_mint_authority b) (NotSet ''mint_authority'')) (\<lambda>mint_authority.
          let withdraw_config = fst (od_find_program_address sx
                [WITHDRAW_CONFIG_SEED, address_bytes mint] WITHDRAW_ID) in
          Inr [CreateAtaIdempotent payer (wcs_treasury setup) mint token_program,
               SetWithdrawConfigIx mint_authority mint withdraw_config (wcs_fee setup)
                 (wcs_allow_mint_slot setup) (wcs_treasury setup) (wcs_min_withdraw_amount setup)]))"

definition MintToBuilder_instructions ::
  "'c sender_sdk_scheme \<Rightarrow> mint_to_builder \<Rightarrow> program_build_error + op_instruction list" where
  "MintToBuilder_instructions sx b =
     bindE (ok_orE (mb_mint b) (NotSet ''mint'')) (\<lambda>mint.
     bindE (ok_orE (mb_recipient b) (NotSet ''recipient'')) (\<lambda>recipient.
     bindE (ok_orE (mb_payer b) (NotSet ''payer'')) (\<lambda>payer.
     bindE (ok_orE (mb_token_program b) (NotSet ''token_program'')) (\<lambda>token_program.
     bindE (config_instructions sx b mint payer token_program) (\<lambda>config.
     bindE (MintToBuilder_instruction sx b) (\<lambda>mint_to.
     Inr (config @ [CreateAtaIdempotent payer recipient mint token_program]
       @ (case mb_idempotency_memo b of Some memo \<Rightarrow> [MemoIx payer (bytes_of_string memo)] | None \<Rightarrow> [])
       @ [mint_to])))))))"

record initialize_mint_builder =
  im_mint :: address
  im_decimals :: u8
  im_mint_authority :: address
  im_token_program :: address
  im_payer :: address
  im_permanent_delegate :: address

definition InitializeMintBuilder_instructions ::
  "'c sender_sdk_scheme \<Rightarrow> initialize_mint_builder \<Rightarrow> program_build_error + op_instruction list" where
  "InitializeMintBuilder_instructions sx b =
     bindE (map_sum MintCreationError id
       (sx_permanent_delegate sx (im_token_program b) (im_mint b) (im_permanent_delegate b))) (\<lambda>delegate.
     bindE (map_sum MintCreationError id
       (sx_initialize_mint2 sx (im_token_program b) (im_mint b) (im_mint_authority b)
          (Some (im_mint_authority b)) (im_decimals b))) (\<lambda>mint.
     Inr [delegate, mint]))"

section \<open>The outcome of a sent transaction (transaction_util.rs)\<close>

datatype instruction_error =
    CustomError u32
  | InvalidAccountDataError
  | UninitializedAccountError
  | IncorrectProgramIdError
  | AccountAlreadyInitializedError
  | OtherInstructionError

datatype sent_error = InstructionFailed nat instruction_error | OtherSentError

datatype confirmation_result =
    ConfirmedTx
  | FailedTx "escrow_error option" u64 \<comment> \<open>slot of the failed status\<close>
  | MintNotInitialized
  | RetryTx

definition is_mint_not_initialized_error :: "sent_error \<Rightarrow> confirmation_result option" where
  "is_mint_not_initialized_error err =
     (case err of
        InstructionFailed _ e \<Rightarrow>
          if e \<in> {InvalidAccountDataError, UninitializedAccountError, IncorrectProgramIdError}
          then Some MintNotInitialized else None
      | OtherSentError \<Rightarrow> None)"

definition is_mint_already_initialized_error :: "sent_error \<Rightarrow> confirmation_result option" where
  "is_mint_already_initialized_error err =
     (case err of
        InstructionFailed _ AccountAlreadyInitializedError \<Rightarrow> Some ConfirmedTx
      | _ \<Rightarrow> None)"

definition escrow_error_for_code :: "u32 \<Rightarrow> escrow_error option" where
  "escrow_error_for_code code =
     (if code = 11 then Some InvalidWithdrawalBitmap
      else if code = 12 then Some NonceAlreadyUsed
      else if code = 13 then Some NonceOutsideCurrentGeneration
      else if code = 14 then Some UnexpectedGeneration
      else if code = 20 then Some WalletNotAllowed
      else if code = 21 then Some InvalidAllowedWalletPda
      else None)"

definition failing_frame :: "'c channel_sdk_scheme \<Rightarrow> string \<Rightarrow> address option" where
  "failing_frame os line =
     Option.bind (strip_prefix ''Program '' line) (\<lambda>rest.
     Option.bind (split_once '' '' rest) (\<lambda>(program, outcome).
     if strip_prefix ''failed:'' outcome = None then None
     else sd_pubkey_from_str os program))"

definition failing_program :: "'c channel_sdk_scheme \<Rightarrow> string list \<Rightarrow> address option" where
  "failing_program os logs =
     (if ''Log truncated'' \<in> set logs then None else find_map (failing_frame os) logs)"

text \<open>\<open>logs\<close>: the log messages of the transaction, if they could be read.\<close>

definition classify_failure ::
  "'c channel_sdk_scheme \<Rightarrow> string list option \<Rightarrow> sent_error \<Rightarrow> transaction_kind \<Rightarrow> u64 \<Rightarrow>
     confirmation_result" where
  "classify_failure os logs err kind slot =
     (case err of
        InstructionFailed _ (CustomError code) \<Rightarrow>
          (case escrow_error_for_code code of
             None \<Rightarrow> FailedTx None slot
           | Some escrow_error \<Rightarrow>
               (case kind of
                  MintKind \<Rightarrow> FailedTx None slot
                | InitializeMintKind \<Rightarrow> FailedTx None slot
                | RotateBitmapKind \<Rightarrow> FailedTx (Some escrow_error) slot
                | ReleaseFundsKind \<Rightarrow>
                    (case Option.bind logs (failing_program os) of
                       Some origin \<Rightarrow>
                         FailedTx (if origin = ESCROW_ID then Some escrow_error else None) slot
                     | None \<Rightarrow> RetryTx)))
      | _ \<Rightarrow> FailedTx None slot)"

definition MAX_POLL_ATTEMPTS_CONFIRMATION :: nat where "MAX_POLL_ATTEMPTS_CONFIRMATION = 5"

text \<open>A status as a poll reads it: its slot, its error and whether it satisfies the commitment.\<close>

record polled_status =
  po_slot :: u64
  po_err :: "sent_error option"
  po_committed :: bool

text \<open>\<open>polls\<close>: the answer to each poll, counted by the polls left.\<close>

fun poll_status ::
  "'c channel_sdk_scheme \<Rightarrow> nat \<Rightarrow> (nat \<Rightarrow> string + polled_status option list) \<Rightarrow> string list option \<Rightarrow>
     transaction_kind \<Rightarrow> (sent_error \<Rightarrow> confirmation_result option) list \<Rightarrow> string + confirmation_result" where
  "poll_status os 0 polls logs kind checks = Inr RetryTx"
| "poll_status os (Suc n) polls logs kind checks =
     bindE (polls n) (\<lambda>statuses.
     case statuses of
       Some status # _ \<Rightarrow>
         if po_committed status
         then (case po_err status of
             None \<Rightarrow> Inr ConfirmedTx
           | Some err \<Rightarrow>
               (case find_map (\<lambda>check. check err) checks of
                  Some result \<Rightarrow> Inr result
                | None \<Rightarrow> Inr (classify_failure os logs err kind (po_slot status))))
         else poll_status os n polls logs kind checks
     | _ \<Rightarrow> poll_status os n polls logs kind checks)"

definition check_transaction_status ::
  "'c channel_sdk_scheme \<Rightarrow> (nat \<Rightarrow> string + polled_status option list) \<Rightarrow> string list option \<Rightarrow>
     transaction_kind \<Rightarrow> (sent_error \<Rightarrow> confirmation_result option) list \<Rightarrow> string + confirmation_result" where
  "check_transaction_status os polls logs kind checks =
     poll_status os MAX_POLL_ATTEMPTS_CONFIRMATION polls logs kind checks"

section \<open>Status updates and their writer (db_transaction_writer.rs)\<close>

record 'm status_update =
  su_transaction_id :: int
  su_trace_id :: "string option"
  su_status :: tx_status
  su_counterpart_signature :: "string option"
  su_processed_at :: "timestamp option"
  su_error_message :: "'m option"
  su_remint_signature :: "string option"
  su_remint_attempted :: bool
  su_alert_only :: bool

definition is_alertable :: "tx_status \<Rightarrow> bool" where
  "is_alertable status \<longleftrightarrow> status \<in> {Failed, FailedReminted, ManualReview}"

definition ALERT_QUEUE_CAPACITY :: nat where "ALERT_QUEUE_CAPACITY = 1024"

text \<open>The alert queue holds what the webhook has not taken yet; a full one drops the alert.\<close>

definition handle_update ::
  "timestamp \<Rightarrow> bool \<Rightarrow> storage_call \<Rightarrow> 'm status_update \<Rightarrow> ledger_db \<times> 'm status_update list \<Rightarrow>
     ledger_db \<times> 'm status_update list" where
  "handle_update now has_webhook c update s =
     (let (db, alerts) = s;
          db' = (if su_alert_only update then db
                 else snd (write_db c (update_transaction_status now (su_transaction_id update)
                   (su_status update) (su_counterpart_signature update)
                   (case su_processed_at update of Some t \<Rightarrow> t | None \<Rightarrow> now) None) db))
      in (db', if is_alertable (su_status update) \<and> has_webhook \<and> length alerts < ALERT_QUEUE_CAPACITY
               then alerts @ [update] else alerts))"

end
