(* ===== verification/Remint.thy ===== *)
theory Remint
  imports Operator_Base
begin

text \<open>
  Refunds: a withdrawal that failed for good is reminted to its owner on the channel, once every
  check says that its release did not and will not pay (\<open>indexer/src/operator/sender/remint.rs\<close>,
  \<open>sender/types.rs\<close>, and the recovery of the queue in \<open>sender/state.rs\<close>).

  \<open>remint_world\<close> is what one entry meets while it is handled: the endpoints, the signer, and for each
  storage call its fault and what other tasks wrote before it. A tick is handed one world per entry
  it has time for. \<open>rs_broadcasts\<close> records every refund transaction handed to the network and
  \<open>rs_updates\<close> every update sent to the database writer. A function returns \<open>None\<close> where the walk of a
  mint's history does not end.
\<close>

section \<open>State (types.rs)\<close>

definition MAX_FINALITY_CHECK_ATTEMPTS :: nat where "MAX_FINALITY_CHECK_ATTEMPTS = 3"

definition MAX_FREE_WAITS :: nat where "MAX_FREE_WAITS = 20"

definition MAX_REMINT_ATTEMPTS :: nat where "MAX_REMINT_ATTEMPTS = 3"

definition MAX_REMINTS_PER_TICK :: nat where "MAX_REMINTS_PER_TICK = 16"

definition REMINT_HYDRATE_PAGE :: nat where "REMINT_HYDRATE_PAGE = 256"

definition FINALITY_SAFETY_DELAY :: timestamp where "FINALITY_SAFETY_DELAY = micros 32"

record transaction_context =
  tc_transaction_id :: "int option"
  tc_withdrawal_nonce :: "u64 option"
  tc_trace_id :: "string option"
  tc_kind :: transaction_kind
  tc_deposit_claim_lease :: "timestamp option"

record pending_remint =
  pr_ctx :: transaction_context
  pr_remint_info :: remint_info
  pr_signatures :: "pending_sig list"
  pr_original_error :: string
  pr_deadline :: timestamp
  pr_finality_check_attempts :: nat
  pr_release_refused_on_chain :: bool
  pr_coverage_slot :: "u64 option"
  pr_coverage_checkpoint :: "u64 option"
  pr_free_waits :: nat

datatype stored_sig_error = MalformedSignature string | NegativeHeight string int

datatype remint_reason =
    SignaturesLive live_reason
  | SignaturesUncertain uncertain_reason
  | ConsumedOnChain u64 u64
  | ConsumedAtConfirmed u64
  | BitmapUnproven unproven
  | FinalityPending u64 u64
  | ReleaseOnRecord u64 db_observed_release
  | RecordUnreadable u64
  | WindowOpen u64
  | CheckpointBehind u64 u64 u64
  | NoCheckpoint u64 u64
  | CheckpointUnreadable u64
  | HistoryUnreadable walk_error
  | MarkerMismatch bytes
  | JournalUnreadable
  | StoredSignature stored_sig_error
  | PriorInFlight live_reason
  | PriorUnclassified uncertain_reason
  | RejectedCap nat nat "string list"
  | RejectedUncounted string
  | BuildFailed program_build_error
  | SignFailed string
  | ClaimFailed storage_error
  | ClaimHeldElsewhere
  | ReleaseBeforeClaim
  | SendFailed string
  | ConfirmationFailed string
  | NotConfirmed confirmation_result
  | RecordFailed bytes storage_error

datatype remint_message =
    OriginalError string
  | WithReason string remint_reason
  | EscalatedAfter string nat remint_reason
  | CounterPersistFailed string nat storage_error
  | RemintFailedToo string remint_reason
  | RowNoLongerPending string "tx_status option"
  | RecoveryFailed string

record remint_state =
  rs_db :: ledger_db
  rs_claims :: "consumed_claims option"
  rs_pending :: "pending_remint list"
  rs_backlog_cursor :: "int option"
  rs_runtime_ids :: "int list"
  rs_backlog_unloaded :: nat
  rs_updates :: "remint_message status_update list"
  rs_broadcasts :: "(int \<times> bytes) list"

datatype remint_call =
    HistoryLookup
  | ReadRemintJournal
  | ClaimAttempt
  | RecordResult nat
  | RereadStatus nat
  | ClearJournal
  | ReadRelease
  | ReadCheckpoint
  | BumpAttempts

record remint_world =
  rw_now :: timestamp
  rw_calls :: "remint_call \<Rightarrow> storage_call"
  rw_dest :: finality_endpoint
  rw_fallback :: "finality_endpoint option"
  rw_source :: finality_endpoint
  rw_solana :: solana_rpc
  rw_channel :: channel_rpc
  rw_index :: "walk_error + unit"
  rw_admin :: address
  rw_sign :: "op_instruction list \<Rightarrow> string + bytes \<times> u64 \<times> u64" \<comment> \<open>signature, height, blockhash slot\<close>
  rw_send :: "bytes \<Rightarrow> string option"
  rw_polls :: "bytes \<Rightarrow> nat \<Rightarrow> string + polled_status option list"

definition dest_finality :: "program_type \<Rightarrow> remint_world \<Rightarrow> finality_rpc" where
  "dest_finality pt w =
     (case pt of
        Withdraw \<Rightarrow> FinalityRpc_solana (rw_dest w) (rw_fallback w)
      | Escrow \<Rightarrow> FinalityRpc_channel (rw_dest w) (rw_fallback w))"

definition source_finality :: "program_type \<Rightarrow> remint_world \<Rightarrow> finality_rpc" where
  "source_finality pt w =
     (case pt of
        Withdraw \<Rightarrow> FinalityRpc_channel (rw_source w) None
      | Escrow \<Rightarrow> FinalityRpc_solana (rw_source w) None)"

definition send_update :: "remint_message status_update \<Rightarrow> remint_state \<Rightarrow> remint_state" where
  "send_update u s = s\<lparr>rs_updates := rs_updates s @ [u]\<rparr>"

section \<open>One attempt to refund\<close>

datatype remint_attempt =
    AttemptConfirmed bytes
  | AttemptDeferPreBroadcast remint_reason
  | AttemptDeferInFlight remint_reason
  | AttemptFailed remint_reason
  | AttemptAbandoned
  | AttemptReleaseObserved remint_reason

definition history_verdict :: "remint_info \<Rightarrow> walk_error + consumed_mint option \<Rightarrow> remint_attempt option" where
  "history_verdict info res =
     (case res of
        Inr None \<Rightarrow> None
      | Inr (Some consumed) \<Rightarrow>
          if cs_kind consumed = RemintMint \<and> cs_mint consumed = ri_mint info
             \<and> cs_recipient_ata consumed = ri_user_ata info \<and> cs_amount consumed = ri_amount info
          then Some (AttemptConfirmed (cs_signature consumed))
          else Some (AttemptFailed (MarkerMismatch (cs_signature consumed)))
      | Inl e \<Rightarrow> Some (AttemptDeferInFlight (HistoryUnreadable e)))"

definition remint_history ::
  "'c sender_sdk_scheme \<Rightarrow> remint_world \<Rightarrow> remint_info \<Rightarrow> remint_state \<Rightarrow>
     (remint_attempt option \<times> remint_state) option" where
  "remint_history sx w info s =
     (case rs_claims s of
        None \<Rightarrow> Some (None, s)
      | Some claims \<Rightarrow>
          map_option (\<lambda>(res, claims', db).
              (history_verdict info res, s\<lparr>rs_claims := Some claims', rs_db := db\<rparr>))
            (ConsumedClaims_lookup_event sx (rw_channel w) (rw_index w) (ri_mint info)
               (ri_source_event_id info) claims (sc_others (rw_calls w HistoryLookup) (rs_db s))))"

definition u64_of_i64 :: "int \<Rightarrow> u64 option" where
  "u64_of_i64 i = (if 0 \<le> i then Some (of_int i) else None)"

definition i64_of_u64 :: "u64 \<Rightarrow> int option" where
  "i64_of_u64 x = (if uint x < 2 ^ 63 then Some (uint x) else None)"

definition I64_MAX :: int where "I64_MAX = 2 ^ 63 - 1"

definition stored_pending_sig :: "'c channel_sdk_scheme \<Rightarrow> stored_sig \<Rightarrow> stored_sig_error + pending_sig" where
  "stored_pending_sig os s =
     bindE (ok_orE (os_signature_from_str os (ss_signature s)) (MalformedSignature (ss_signature s))) (\<lambda>g.
     bindE (ok_orE (u64_of_i64 (ss_last_valid_block_height s))
         (NegativeHeight (ss_signature s) (ss_last_valid_block_height s))) (\<lambda>lvbh.
     Inr \<lparr>pg_signature = g, pg_last_valid_block_height = lvbh,
          pg_blockhash_slot = Option.bind (ss_blockhash_slot s) u64_of_i64\<rparr>))"

text \<open>What the journaled attempts allow: an outcome, or the attempts proven dead.\<close>

definition prior_attempts ::
  "'c channel_sdk_scheme \<Rightarrow> remint_world \<Rightarrow> program_type \<Rightarrow> stored_sig list \<Rightarrow> remint_attempt + string list" where
  "prior_attempts os w pt stored =
     (if stored = [] then Inr []
      else
        case map_result (stored_pending_sig os) stored of
          Inl e \<Rightarrow> Inl (AttemptFailed (StoredSignature e))
        | Inr prior \<Rightarrow>
            (case classify_signatures (source_finality pt w) prior of
               Landed g \<Rightarrow> Inl (AttemptConfirmed g)
             | Live reason \<Rightarrow> Inl (AttemptDeferInFlight (PriorInFlight reason))
             | Uncertain reason \<Rightarrow> Inl (AttemptFailed (PriorUnclassified reason))
             | Dead \<Rightarrow>
                 let proven_dead = map ss_signature stored in
                 if MAX_REMINT_ATTEMPTS \<le> length stored
                 then (case count_rejected (rw_source w) prior of
                     Inl e \<Rightarrow> Inl (AttemptDeferInFlight (RejectedUncounted e))
                   | Inr rejected \<Rightarrow>
                       if MAX_REMINT_ATTEMPTS \<le> rejected
                       then Inl (AttemptFailed (RejectedCap rejected (length stored) proven_dead))
                       else Inr proven_dead)
                 else Inr proven_dead))"

definition remint_builder :: "remint_world \<Rightarrow> remint_info \<Rightarrow> mint_to_builder" where
  "remint_builder w info = MintToBuilder_new\<lparr>mb_mint := Some (ri_mint info),
     mb_recipient := Some (ri_user info), mb_recipient_ata := Some (ri_user_ata info),
     mb_payer := Some (rw_admin w), mb_mint_authority := Some (rw_admin w),
     mb_token_program := Some (ri_token_program info), mb_amount := Some (ri_amount info),
     mb_idempotency_memo := Some (remint_idempotency_memo (ri_source_event_id info))\<rparr>"

text \<open>The claim is journaled before the send, so a send whose answer is lost is still on record.\<close>

definition claim_and_send ::
  "'c sender_sdk_scheme \<Rightarrow> remint_world \<Rightarrow> remint_info \<Rightarrow> string list \<Rightarrow> remint_state \<Rightarrow>
     remint_attempt \<times> remint_state" where
  "claim_and_send sx w info proven_dead s =
     (case MintToBuilder_instructions sx (remint_builder w info) of
        Inl e \<Rightarrow> (AttemptDeferPreBroadcast (BuildFailed e), s)
      | Inr instructions \<Rightarrow>
     (case rw_sign w instructions of
        Inl e \<Rightarrow> (AttemptDeferPreBroadcast (SignFailed e), s)
      | Inr (signature, lvbh, blockhash_slot) \<Rightarrow>
     (case write_db (rw_calls w ClaimAttempt) (claim_remint_attempt (rw_now w) (ri_transaction_id info)
             (os_bs58_encode sx signature) (case i64_of_u64 lvbh of Some i \<Rightarrow> i | None \<Rightarrow> I64_MAX)
             (i64_of_u64 blockhash_slot) proven_dead) (rs_db s) of
        (Inl e, db) \<Rightarrow> (AttemptDeferPreBroadcast (ClaimFailed e), s\<lparr>rs_db := db\<rparr>)
      | (Inr RowMoved, db) \<Rightarrow> (AttemptAbandoned, s\<lparr>rs_db := db\<rparr>)
      | (Inr ReleaseObserved, db) \<Rightarrow> (AttemptReleaseObserved ReleaseBeforeClaim, s\<lparr>rs_db := db\<rparr>)
      | (Inr HeldElsewhere, db) \<Rightarrow> (AttemptDeferInFlight ClaimHeldElsewhere, s\<lparr>rs_db := db\<rparr>)
      | (Inr Claimed, db) \<Rightarrow>
          let s = s\<lparr>rs_db := db,
                   rs_broadcasts := rs_broadcasts s @ [(ri_transaction_id info, signature)]\<rparr> in
          (case rw_send w signature of
             Some e \<Rightarrow> (AttemptDeferInFlight (SendFailed e), s)
           | None \<Rightarrow>
               (case check_transaction_status sx (rw_polls w signature) None MintKind [] of
                  Inl e \<Rightarrow> (AttemptDeferInFlight (ConfirmationFailed e), s)
                | Inr ConfirmedTx \<Rightarrow> (AttemptConfirmed signature, s)
                | Inr other \<Rightarrow> (AttemptDeferInFlight (NotConfirmed other), s))))))"

definition attempt_remint ::
  "'c sender_sdk_scheme \<Rightarrow> remint_world \<Rightarrow> program_type \<Rightarrow> remint_info \<Rightarrow> remint_state \<Rightarrow>
     (remint_attempt \<times> remint_state) option" where
  "attempt_remint sx w pt info s =
     map_option (\<lambda>(verdict, s).
       case verdict of
         Some attempt \<Rightarrow> (attempt, s)
       | None \<Rightarrow>
           (case read_db (rw_calls w ReadRemintJournal) (get_remint_signatures (ri_transaction_id info)) (rs_db s) of
              (Inl e, db) \<Rightarrow> (AttemptDeferInFlight JournalUnreadable, s\<lparr>rs_db := db\<rparr>)
            | (Inr stored, db) \<Rightarrow>
                (case prior_attempts sx w pt stored of
                   Inl attempt \<Rightarrow> (attempt, s\<lparr>rs_db := db\<rparr>)
                 | Inr proven_dead \<Rightarrow> claim_and_send sx w info proven_dead (s\<lparr>rs_db := db\<rparr>))))
       (remint_history sx w info s)"

section \<open>What becomes of an entry\<close>

definition entry_update ::
  "remint_world \<Rightarrow> pending_remint \<Rightarrow> int \<Rightarrow> tx_status \<Rightarrow> remint_message option \<Rightarrow>
     remint_message status_update" where
  "entry_update w entry transaction_id status message =
     \<lparr>su_transaction_id = transaction_id, su_trace_id = tc_trace_id (pr_ctx entry), su_status = status,
      su_counterpart_signature = None, su_processed_at = Some (rw_now w), su_error_message = message,
      su_remint_signature = None, su_remint_attempted = False, su_alert_only = False\<rparr>"

definition send_manual_review :: "remint_world \<Rightarrow> pending_remint \<Rightarrow> remint_reason \<Rightarrow> remint_state \<Rightarrow> remint_state"
where
  "send_manual_review w entry reason s =
     (case tc_transaction_id (pr_ctx entry) of
        None \<Rightarrow> s
      | Some tx_id \<Rightarrow> send_update (entry_update w entry tx_id ManualReview
          (Some (WithReason (pr_original_error entry) reason))) s)"

definition send_reminted_alert ::
  "'c channel_sdk_scheme \<Rightarrow> remint_world \<Rightarrow> pending_remint \<Rightarrow> int \<Rightarrow> bytes \<Rightarrow> remint_message \<Rightarrow> remint_state \<Rightarrow>
     remint_state" where
  "send_reminted_alert os w entry transaction_id signature message s =
     send_update ((entry_update w entry transaction_id FailedReminted (Some message))\<lparr>
       su_remint_signature := Some (os_bs58_encode os signature), su_remint_attempted := True,
       su_alert_only := True\<rparr>) s"

definition send_completed ::
  "'c channel_sdk_scheme \<Rightarrow> remint_world \<Rightarrow> pending_remint \<Rightarrow> bytes \<Rightarrow> remint_state \<Rightarrow> remint_state" where
  "send_completed os w entry sig s =
     (case tc_transaction_id (pr_ctx entry) of
        None \<Rightarrow> s
      | Some tx_id \<Rightarrow> send_update ((entry_update w entry tx_id Completed None)\<lparr>
          su_counterpart_signature := Some (os_bs58_encode os sig)\<rparr>) s)"

datatype deferred_outcome =
    Resolved
  | OutcomePreBroadcast remint_reason
  | OutcomeInFlight remint_reason

definition record_confirmed ::
  "'c channel_sdk_scheme \<Rightarrow> remint_world \<Rightarrow> pending_remint \<Rightarrow> bytes \<Rightarrow> remint_state \<Rightarrow>
     deferred_outcome \<times> remint_state" where
  "record_confirmed os w entry signature s =
     (case tc_transaction_id (pr_ctx entry) of
        None \<Rightarrow> (Resolved, s)
      | Some tx_id \<Rightarrow>
          let recorded = (\<lambda>s. (Resolved, send_reminted_alert os w entry tx_id signature
                (OriginalError (pr_original_error entry))
                (s\<lparr>rs_db := snd (write_db (rw_calls w ClearJournal) (delete_remint_signatures tx_id) (rs_db s))\<rparr>))) in
          (case with_storage_backoff (\<lambda>n. write_db (rw_calls w (RecordResult n))
                  (record_remint_result (rw_now w) tx_id (os_bs58_encode os signature))) (rs_db s) of
             (Inr _, db) \<Rightarrow> recorded (s\<lparr>rs_db := db\<rparr>)
           | (Inl persist_err, db) \<Rightarrow>
               (case with_storage_backoff (\<lambda>n. read_db (rw_calls w (RereadStatus n))
                       (get_transaction_status tx_id)) db of
                  (Inr (Some FailedReminted), db) \<Rightarrow> recorded (s\<lparr>rs_db := db\<rparr>)
                | (Inr (Some PendingRemint), db) \<Rightarrow>
                    (OutcomeInFlight (RecordFailed signature persist_err), s\<lparr>rs_db := db\<rparr>)
                | (Inl _, db) \<Rightarrow> (OutcomeInFlight (RecordFailed signature persist_err), s\<lparr>rs_db := db\<rparr>)
                | (Inr status, db) \<Rightarrow> (Resolved, send_reminted_alert os w entry tx_id signature
                    (RowNoLongerPending (pr_original_error entry) status) (s\<lparr>rs_db := db\<rparr>)))))"

definition execute_deferred_remint ::
  "'c sender_sdk_scheme \<Rightarrow> remint_world \<Rightarrow> program_type \<Rightarrow> pending_remint \<Rightarrow> remint_state \<Rightarrow>
     (deferred_outcome \<times> remint_state) option" where
  "execute_deferred_remint sx w pt entry s =
     map_option (\<lambda>(attempt, s).
       case attempt of
         AttemptConfirmed signature \<Rightarrow> record_confirmed sx w entry signature s
       | AttemptDeferPreBroadcast reason \<Rightarrow> (OutcomePreBroadcast reason, s)
       | AttemptDeferInFlight reason \<Rightarrow> (OutcomeInFlight reason, s)
       | AttemptAbandoned \<Rightarrow> (Resolved, s)
       | AttemptReleaseObserved reason \<Rightarrow> (Resolved, send_manual_review w entry reason s)
       | AttemptFailed reason \<Rightarrow> (Resolved,
           case tc_transaction_id (pr_ctx entry) of
             None \<Rightarrow> s
           | Some tx_id \<Rightarrow> send_update ((entry_update w entry tx_id ManualReview
               (Some (RemintFailedToo (pr_original_error entry) reason)))\<lparr>su_remint_attempted := True\<rparr>) s))
       (attempt_remint sx w pt (pr_remint_info entry) s)"

definition new_deadline :: "remint_world \<Rightarrow> timestamp" where
  "new_deadline w = rw_now w + FINALITY_SAFETY_DELAY"

definition requeue :: "pending_remint \<Rightarrow> remint_state \<Rightarrow> remint_state" where
  "requeue entry s = s\<lparr>rs_pending := rs_pending s @ [entry]\<rparr>"

definition requeue_in_flight :: "remint_world \<Rightarrow> pending_remint \<Rightarrow> remint_state \<Rightarrow> remint_state" where
  "requeue_in_flight w entry s = requeue (entry\<lparr>pr_deadline := new_deadline w\<rparr>) s"

definition requeue_free_wait :: "remint_world \<Rightarrow> pending_remint \<Rightarrow> remint_state \<Rightarrow> remint_state" where
  "requeue_free_wait w entry s =
     requeue (entry\<lparr>pr_deadline := new_deadline w, pr_free_waits := pr_free_waits entry + 1\<rparr>) s"

definition defer_or_escalate ::
  "remint_world \<Rightarrow> pending_remint \<Rightarrow> remint_reason \<Rightarrow> remint_state \<Rightarrow> remint_state" where
  "defer_or_escalate w entry reason s =
     (let attempt = pr_finality_check_attempts entry + 1;
          deferred = entry\<lparr>pr_finality_check_attempts := attempt, pr_deadline := new_deadline w\<rparr> in
      if MAX_FINALITY_CHECK_ATTEMPTS \<le> attempt
      then (case tc_transaction_id (pr_ctx entry) of
          None \<Rightarrow> s
        | Some tx_id \<Rightarrow> send_update (entry_update w entry tx_id ManualReview
            (Some (EscalatedAfter (pr_original_error entry) attempt reason))) s)
      else (case tc_transaction_id (pr_ctx entry) of
          None \<Rightarrow> requeue deferred s
        | Some tx_id \<Rightarrow>
            (case write_db (rw_calls w BumpAttempts) (bump_pending_remint_finality_attempt (rw_now w) tx_id
                    (int attempt) (new_deadline w)) (rs_db s) of
               (Inr _, db) \<Rightarrow> requeue deferred (s\<lparr>rs_db := db\<rparr>)
             | (Inl e, db) \<Rightarrow> send_update (entry_update w entry tx_id ManualReview
                 (Some (CounterPersistFailed (pr_original_error entry) attempt e))) (s\<lparr>rs_db := db\<rparr>))))"

datatype bitmap_verdict =
    BlockedBit remint_reason
  | Clear
  | UnknownBit remint_reason
  | Unfinalized remint_reason
  | PendingBit remint_reason

text \<open>\<open>max().unwrap_or(0)\<close>\<close>

definition max_lvbh :: "pending_sig list \<Rightarrow> u64" where
  "max_lvbh sigs = foldr max (map pg_last_valid_block_height sigs) 0"

definition bitmap_verdict_of ::
  "'c operator_sdk_scheme \<Rightarrow> remint_world \<Rightarrow> address option \<Rightarrow> pending_remint \<Rightarrow> bitmap_verdict \<times> u64 option"
where
  "bitmap_verdict_of od w instance_pda entry =
     (case (tc_withdrawal_nonce (pr_ctx entry), instance_pda) of
        (Some nonce, Some instance_pda) \<Rightarrow>
          let (verdict, window_closed_at) =
                verify_release_landed_at od (rw_solana w) (Some instance_pda) nonce
                  (max_lvbh (pr_signatures entry)) in
          (case verdict of
             ReleaseLanded generation \<Rightarrow> BlockedBit (ConsumedOnChain nonce generation)
           | NotLanded \<Rightarrow>
               (case release_seen_at_confirmed od (rw_solana w) instance_pda nonce of
                  Inr False \<Rightarrow> Clear
                | Inr True \<Rightarrow> Unfinalized (ConsumedAtConfirmed nonce)
                | Inl reason \<Rightarrow> UnknownBit (BitmapUnproven reason))
           | UncertainRelease reason \<Rightarrow> UnknownBit (BitmapUnproven reason)
           | PendingRelease tip height \<Rightarrow> PendingBit (FinalityPending tip height), window_closed_at)
      | _ \<Rightarrow> (Clear, None))"

datatype release_record =
    Found remint_reason
  | ProvenAbsent
  | CatchingUp remint_reason
  | Unproven remint_reason

datatype release_coverage = Covered | CoverageCatchingUp remint_reason | CoverageUnproven remint_reason

definition release_coverage_of ::
  "remint_world \<Rightarrow> pending_remint \<Rightarrow> u64 \<Rightarrow> bool \<Rightarrow> ledger_db \<Rightarrow>
     release_coverage \<times> pending_remint \<times> ledger_db" where
  "release_coverage_of w entry nonce pending db =
     (case pr_coverage_slot entry of
        None \<Rightarrow> (if pending then CoverageCatchingUp (WindowOpen nonce)
                 else CoverageUnproven (WindowOpen nonce), entry, db)
      | Some bound \<Rightarrow>
          (case read_db (rw_calls w ReadCheckpoint)
                  (\<lambda>db. get_committed_checkpoint (program_key Escrow) (db_indexer_state db)) db of
             (Inl e, db) \<Rightarrow> (CoverageUnproven (CheckpointUnreadable nonce), entry, db)
           | (Inr None, db) \<Rightarrow> (CoverageUnproven (NoCheckpoint nonce bound), entry, db)
           | (Inr (Some checkpoint), db) \<Rightarrow>
               if bound \<le> checkpoint then (Covered, entry, db)
               else
                 let advanced = (case pr_coverage_checkpoint entry of None \<Rightarrow> True | Some seen \<Rightarrow> seen < checkpoint);
                     reason = CheckpointBehind nonce checkpoint bound in
                 (if advanced then CoverageCatchingUp reason else CoverageUnproven reason,
                  entry\<lparr>pr_coverage_checkpoint := Some checkpoint\<rparr>, db)))"

definition release_record_of ::
  "remint_world \<Rightarrow> pending_remint \<Rightarrow> bool \<Rightarrow> ledger_db \<Rightarrow> release_record \<times> pending_remint \<times> ledger_db" where
  "release_record_of w entry pending db =
     (case tc_withdrawal_nonce (pr_ctx entry) of
        None \<Rightarrow> (ProvenAbsent, entry, db)
      | Some nonce \<Rightarrow>
          let (coverage, entry, db) = release_coverage_of w entry nonce pending db in
          (case read_db (rw_calls w ReadRelease) (get_observed_release (sint nonce)) db of
             (Inr (Some release), db) \<Rightarrow> (Found (ReleaseOnRecord nonce release), entry, db)
           | (Inl e, db) \<Rightarrow> (Found (RecordUnreadable nonce), entry, db)
           | (Inr None, db) \<Rightarrow>
               (case coverage of
                  Covered \<Rightarrow> ProvenAbsent
                | CoverageCatchingUp reason \<Rightarrow> CatchingUp reason
                | CoverageUnproven reason \<Rightarrow> Unproven reason, entry, db)))"

definition refund_entry ::
  "'c sender_sdk_scheme \<Rightarrow> remint_world \<Rightarrow> program_type \<Rightarrow> pending_remint \<Rightarrow> remint_state \<Rightarrow>
     remint_state option" where
  "refund_entry sx w pt entry s =
     map_option (\<lambda>(outcome, s).
       case outcome of
         Resolved \<Rightarrow> s
       | OutcomePreBroadcast reason \<Rightarrow> defer_or_escalate w entry reason s
       | OutcomeInFlight reason \<Rightarrow> requeue_in_flight w entry s)
       (execute_deferred_remint sx w pt entry s)"

definition settle_by_record ::
  "'c sender_sdk_scheme \<Rightarrow> remint_world \<Rightarrow> program_type \<Rightarrow> pending_remint \<Rightarrow> bool \<Rightarrow> remint_state \<Rightarrow>
     remint_state option" where
  "settle_by_record sx w pt entry pending s =
     (let (verdict, entry, db) = release_record_of w entry pending (rs_db s);
          s = s\<lparr>rs_db := db\<rparr> in
      case verdict of
        Found reason \<Rightarrow> Some (send_manual_review w entry reason s)
      | CatchingUp reason \<Rightarrow>
          Some (if pr_free_waits entry < MAX_FREE_WAITS then requeue_free_wait w entry s
                else defer_or_escalate w entry reason s)
      | Unproven reason \<Rightarrow> Some (defer_or_escalate w entry reason s)
      | ProvenAbsent \<Rightarrow> refund_entry sx w pt entry s)"

definition settle_dead ::
  "'c sender_sdk_scheme \<Rightarrow> remint_world \<Rightarrow> program_type \<Rightarrow> address option \<Rightarrow> pending_remint \<Rightarrow> remint_state \<Rightarrow>
     remint_state option" where
  "settle_dead sx w pt instance_pda entry s =
     (let (verdict, window_closed_at) = bitmap_verdict_of sx w instance_pda entry;
          entry = (if pr_coverage_slot entry = None then entry\<lparr>pr_coverage_slot := window_closed_at\<rparr>
                   else entry) in
      case verdict of
        BlockedBit reason \<Rightarrow> Some (send_manual_review w entry reason s)
      | Unfinalized reason \<Rightarrow> Some (defer_or_escalate w entry reason s)
      | PendingBit reason \<Rightarrow>
          if \<not> pr_release_refused_on_chain entry
          then Some (if pr_free_waits entry < MAX_FREE_WAITS then requeue_free_wait w entry s
                     else defer_or_escalate w entry reason s)
          else settle_by_record sx w pt entry True s
      | UnknownBit reason \<Rightarrow>
          if \<not> pr_release_refused_on_chain entry then Some (defer_or_escalate w entry reason s)
          else settle_by_record sx w pt entry False s
      | Clear \<Rightarrow> settle_by_record sx w pt entry False s)"

definition process_entry ::
  "'c sender_sdk_scheme \<Rightarrow> program_type \<Rightarrow> address option \<Rightarrow> remint_world \<Rightarrow> pending_remint \<Rightarrow> remint_state \<Rightarrow>
     remint_state option" where
  "process_entry sx pt instance_pda w entry s =
     (case classify_signatures (dest_finality pt w) (pr_signatures entry) of
        Landed sig \<Rightarrow> Some (send_completed sx w entry sig s)
      | Live reason \<Rightarrow>
          Some (if pr_free_waits entry < MAX_FREE_WAITS then requeue_free_wait w entry s
                else defer_or_escalate w entry (SignaturesLive reason) s)
      | Uncertain reason \<Rightarrow> Some (defer_or_escalate w entry (SignaturesUncertain reason) s)
      | Dead \<Rightarrow> settle_dead sx w pt instance_pda entry s)"

section \<open>Loading the queue (state.rs)\<close>

datatype journal_error = JournalUnavailable storage_error | JournalCorrupt stored_sig_error

definition load_pending_sigs ::
  "'c channel_sdk_scheme \<Rightarrow> (nat \<Rightarrow> storage_call) \<Rightarrow> int \<Rightarrow> ledger_db \<Rightarrow>
     (journal_error + pending_sig list) \<times> ledger_db" where
  "load_pending_sigs os calls tx_id db =
     (case with_storage_backoff (\<lambda>n. read_db (calls n) (get_release_signatures tx_id)) db of
        (Inl e, db) \<Rightarrow> (Inl (JournalUnavailable e), db)
      | (Inr stored, db) \<Rightarrow> (map_sum JournalCorrupt id (map_result (stored_pending_sig os) stored), db))"

definition send_recovery_manual_review :: "timestamp \<Rightarrow> int \<Rightarrow> string \<Rightarrow> string \<Rightarrow> remint_state \<Rightarrow> remint_state"
where
  "send_recovery_manual_review now transaction_id trace_id reason s =
     send_update \<lparr>su_transaction_id = transaction_id, su_trace_id = Some trace_id,
       su_status = ManualReview, su_counterpart_signature = None, su_processed_at = Some now,
       su_error_message = Some (RecoveryFailed reason), su_remint_signature = None,
       su_remint_attempted = False, su_alert_only = False\<rparr> s"

text \<open>One row: \<open>Inr\<close> is a row handled, \<open>Inl\<close> a journal that could not be read.\<close>

definition hydrate_row ::
  "'c channel_sdk_scheme \<Rightarrow> timestamp \<Rightarrow> (int \<Rightarrow> nat \<Rightarrow> storage_call) \<Rightarrow> db_transaction \<Rightarrow> remint_state \<Rightarrow>
     (storage_error + unit) \<times> remint_state" where
  "hydrate_row os now calls tx s =
     (let review = (\<lambda>reason s. (Inr (), send_recovery_manual_review now (t_id tx) (t_trace_id tx) reason s)) in
      case (sd_pubkey_from_str os (t_mint tx), sd_pubkey_from_str os (t_initiator tx)) of
        (None, _) \<Rightarrow> review ''invalid mint pubkey'' s
      | (_, None) \<Rightarrow> review ''invalid initiator pubkey'' s
      | (Some mint, Some initiator) \<Rightarrow>
          (case load_pending_sigs os (calls (t_id tx)) (t_id tx) (rs_db s) of
             (Inl (JournalUnavailable e), db) \<Rightarrow> (Inl e, s\<lparr>rs_db := db\<rparr>)
           | (Inl (JournalCorrupt e), db) \<Rightarrow> review ''malformed stored release signature'' (s\<lparr>rs_db := db\<rparr>)
           | (Inr signatures, db) \<Rightarrow>
               let s = s\<lparr>rs_db := db\<rparr> in
               if signatures = []
               then review ''no withdrawal signatures stored; cannot verify finality'' s
               else if t_finality_check_attempts tx < 0
               then review ''negative finality_check_attempts'' s
               else (Inr (), requeue
                 \<lparr>pr_ctx = \<lparr>tc_transaction_id = Some (t_id tx),
                    tc_withdrawal_nonce = map_option of_int (t_withdrawal_nonce tx),
                    tc_trace_id = Some (t_trace_id tx), tc_kind = ReleaseFundsKind,
                    tc_deposit_claim_lease = None\<rparr>,
                  pr_remint_info = \<lparr>ri_transaction_id = t_id tx,
                    ri_source_event_id = SourceEventId_new os (t_signature tx) (t_instruction_index tx)
                      (t_inner_index tx),
                    ri_trace_id = t_trace_id tx, ri_mint = mint, ri_user = initiator,
                    ri_user_ata = os_ata os initiator mint TOKEN_2022_PROGRAM_ID,
                    ri_token_program = TOKEN_2022_PROGRAM_ID, ri_amount = t_amount tx\<rparr>,
                  pr_signatures = signatures, pr_original_error = ''recovered from persistent storage'',
                  pr_deadline = (case t_pending_remint_deadline_at tx of Some d \<Rightarrow> d | None \<Rightarrow> now),
                  pr_finality_check_attempts = nat (t_finality_check_attempts tx),
                  pr_release_refused_on_chain = t_release_refused_on_chain tx,
                  pr_coverage_slot = None, pr_coverage_checkpoint = None, pr_free_waits = 0\<rparr> s)))"

fun hydrate_rows ::
  "'c channel_sdk_scheme \<Rightarrow> timestamp \<Rightarrow> (int \<Rightarrow> nat \<Rightarrow> storage_call) \<Rightarrow> int \<Rightarrow> db_transaction list \<Rightarrow>
     remint_state \<Rightarrow> (storage_error + unit) \<times> remint_state" where
  "hydrate_rows os now calls done_through [] s = (Inr (), s)"
| "hydrate_rows os now calls done_through (tx # txs) s =
     (case hydrate_row os now calls tx s of
        (Inl e, s) \<Rightarrow> (Inl e, s\<lparr>rs_backlog_cursor := Some done_through\<rparr>)
      | (Inr _, s) \<Rightarrow> hydrate_rows os now calls (t_id tx) txs s)"

definition forget_runtime_ids_once_drained :: "remint_state \<Rightarrow> remint_state" where
  "forget_runtime_ids_once_drained s =
     (if rs_backlog_cursor s = None then s\<lparr>rs_runtime_ids := []\<rparr> else s)"

record hydrate_world =
  hw_now :: timestamp
  hw_count :: storage_call
  hw_page :: storage_call
  hw_journals :: "int \<Rightarrow> nat \<Rightarrow> storage_call"

definition hydrate_pending_remints ::
  "'c channel_sdk_scheme \<Rightarrow> hydrate_world \<Rightarrow> remint_state \<Rightarrow> (storage_error + unit) \<times> remint_state" where
  "hydrate_pending_remints os h s =
     (case rs_backlog_cursor s of
        None \<Rightarrow> (Inr (), s)
      | Some after_id \<Rightarrow>
     (case read_db (hw_count h) (count_pending_remint_transactions after_id) (rs_db s) of
        (Inl e, db) \<Rightarrow> (Inl e, s\<lparr>rs_db := db\<rparr>)
      | (Inr waiting, db) \<Rightarrow>
     (case read_db (hw_page h) (get_pending_remint_transactions after_id REMINT_HYDRATE_PAGE) db of
        (Inl e, db) \<Rightarrow> (Inl e, s\<lparr>rs_db := db\<rparr>)
      | (Inr page, db) \<Rightarrow>
          let cursor = (if page \<noteq> [] \<and> length page = REMINT_HYDRATE_PAGE then Some (t_id (last page)) else None);
              s = s\<lparr>rs_db := db, rs_backlog_cursor := cursor,
                    rs_backlog_unloaded := (if cursor = None then 0 else waiting - length page)\<rparr>;
              rows = filter (\<lambda>tx. t_id tx \<notin> set (rs_runtime_ids s)) page in
          if rows = [] then (Inr (), forget_runtime_ids_once_drained s)
          else (case hydrate_rows os (hw_now h) (hw_journals h) after_id rows s of
              (Inl e, s) \<Rightarrow> (Inl e, s)
            | (Inr _, s) \<Rightarrow> (Inr (), forget_runtime_ids_once_drained s)))))"

definition recover_pending_remints ::
  "'c channel_sdk_scheme \<Rightarrow> program_type \<Rightarrow> hydrate_world \<Rightarrow> remint_state \<Rightarrow> (storage_error + unit) \<times> remint_state"
where
  "recover_pending_remints os pt h s =
     (if pt \<noteq> Withdraw then (Inr (), s)
      else hydrate_pending_remints os h (s\<lparr>rs_backlog_cursor := Some 0\<rparr>))"

definition queue_runtime_remint :: "pending_remint \<Rightarrow> remint_state \<Rightarrow> remint_state" where
  "queue_runtime_remint entry s =
     requeue entry (case (rs_backlog_cursor s, tc_transaction_id (pr_ctx entry)) of
       (Some _, Some tx_id) \<Rightarrow> s\<lparr>rs_runtime_ids := List.insert tx_id (rs_runtime_ids s)\<rparr>
     | _ \<Rightarrow> s)"

definition queued_backlog_remints :: "remint_state \<Rightarrow> nat" where
  "queued_backlog_remints s =
     length (filter (\<lambda>e. case tc_transaction_id (pr_ctx e) of
       None \<Rightarrow> True | Some tx_id \<Rightarrow> tx_id \<notin> set (rs_runtime_ids s)) (rs_pending s))"

section \<open>One tick\<close>

text \<open>The worlds end where the time budget does; the entries left wait unchanged.\<close>

fun process_matured ::
  "'c sender_sdk_scheme \<Rightarrow> program_type \<Rightarrow> address option \<Rightarrow> remint_world list \<Rightarrow> pending_remint list \<Rightarrow>
     remint_state \<Rightarrow> remint_state option" where
  "process_matured sx pt instance_pda ws [] s = Some s"
| "process_matured sx pt instance_pda [] (entry # rest) s =
     process_matured sx pt instance_pda [] rest (requeue entry s)"
| "process_matured sx pt instance_pda (w # ws) (entry # rest) s =
     Option.bind (process_entry sx pt instance_pda w entry s) (process_matured sx pt instance_pda ws rest)"

text \<open>The source leaves the order of the entries past the cap open; they keep the order of their deadlines.\<close>

definition process_pending_remints ::
  "'c sender_sdk_scheme \<Rightarrow> program_type \<Rightarrow> address option \<Rightarrow> hydrate_world \<Rightarrow> timestamp \<Rightarrow> remint_world \<Rightarrow>
     remint_world list \<Rightarrow> remint_state \<Rightarrow> remint_state option" where
  "process_pending_remints sx pt instance_pda h now w ws s =
     (if pt \<noteq> Withdraw then Some s
      else
        let s = (if queued_backlog_remints s < REMINT_HYDRATE_PAGE
                 then snd (hydrate_pending_remints sx h s) else s);
            matured = sort_key pr_deadline (filter (\<lambda>e. pr_deadline e \<le> now) (rs_pending s));
            waiting = filter (\<lambda>e. \<not> pr_deadline e \<le> now) (rs_pending s) in
        process_matured sx pt instance_pda (w # ws) (take MAX_REMINTS_PER_TICK matured)
          (s\<lparr>rs_pending := waiting @ drop MAX_REMINTS_PER_TICK matured\<rparr>))"

end
