(* ===== verification/Finality_Safety.thy ===== *)
theory Finality_Safety
  imports Finality Escrow_Scenario Channel_Mint_Safety
begin

text \<open>
  What the operator's finality checks prove. The chain is what it will have recorded in the end: for
  each signature the slot and height of the block that holds it and whether it failed there. An
  endpoint may prune and lag, but what it reports is true of that chain; then a signature it calls
  dead never lands, and one it calls landed did. For releases, the bitmap is the one a run of the
  escrow program has left, and the operator's proof that a nonce was not released is checked against
  the releases of that run.
\<close>

section \<open>Signatures\<close>

type_synonym inclusion = "bytes \<Rightarrow> (nat \<times> nat \<times> bool) option"
  \<comment> \<open>slot, height, failed\<close>

definition landed :: "inclusion \<Rightarrow> bytes \<Rightarrow> bool" where
  "landed incl g \<longleftrightarrow> (\<exists>slot height. incl g = Some (slot, height, False))"

text \<open>A transaction is only ever included while its blockhash is valid.\<close>

definition within_validity :: "chain \<Rightarrow> inclusion \<Rightarrow> pending_sig \<Rightarrow> bool" where
  "within_validity c incl p \<longleftrightarrow>
     (\<forall>slot height failed. incl (pg_signature p) = Some (slot, height, failed) \<longrightarrow>
        height \<le> unat (pg_last_valid_block_height p)
        \<and> (\<forall>b. pg_blockhash_slot p = Some b \<longrightarrow> unat b \<le> slot)
        \<and> (c = Solana \<longrightarrow> unat (pg_last_valid_block_height p) - unat MAX_PROCESSING_AGE \<le> slot))"

text \<open>
  A finalized status is what the chain records, and a missing one means that no retained block up to
  the reported height holds the signature.
\<close>

definition truthful_statuses :: "inclusion \<Rightarrow> bytes list \<Rightarrow> sig_status option list \<Rightarrow> bool" where
  "truthful_statuses incl gs statuses \<longleftrightarrow>
     (length statuses = length gs \<longrightarrow>
        list_all2 (\<lambda>g s. \<forall>status. s = Some status \<longrightarrow> st_finalized status \<longrightarrow>
          (\<exists>slot h. incl g = Some (slot, h, st_err status))) gs statuses)"

definition truthful_absences :: "inclusion \<Rightarrow> nat \<Rightarrow> nat \<Rightarrow> bytes list \<Rightarrow> sig_status option list \<Rightarrow> bool" where
  "truthful_absences incl height floor gs statuses \<longleftrightarrow>
     (length statuses = length gs \<longrightarrow>
        list_all2 (\<lambda>g s. s = None \<longrightarrow> (\<forall>slot h failed. incl g = Some (slot, h, failed) \<longrightarrow> h \<le> height \<longrightarrow>
          slot < floor)) gs statuses)"

definition truthful_endpoint :: "chain \<Rightarrow> inclusion \<Rightarrow> finality_endpoint \<Rightarrow> bytes list \<Rightarrow> bool" where
  "truthful_endpoint c incl rpc gs =
     (case c of
        Channel \<Rightarrow>
          (\<forall>height statuses floor. fe_snapshot rpc gs = Inr (height, statuses, floor) \<longrightarrow>
             truthful_statuses incl gs statuses
             \<and> truthful_absences incl (unat height) (unat floor) gs statuses)
      | Solana \<Rightarrow>
          (\<forall>statuses. fe_statuses rpc gs = Inr statuses \<longrightarrow>
             truthful_statuses incl gs statuses
             \<and> (\<forall>height floor. fe_block_height rpc = Inr height \<longrightarrow>
                  fe_first_available_block rpc = Inr floor \<longrightarrow>
                  truthful_absences incl (unat height) (unat floor) gs statuses)))"

lemma position_Some: "position P xs = Some i \<Longrightarrow> i < length xs \<and> P (xs ! i)"
  by (induction P xs arbitrary: i rule: position.induct) (auto split: if_splits)

lemma position_None: "position P xs = None \<longleftrightarrow> (\<forall>x\<in>set xs. \<not> P x)"
  by (induction P xs rule: position.induct) auto

lemma lower_le: "lower m x = Some y \<Longrightarrow> y \<le> x \<and> (\<forall>z. m = Some z \<longrightarrow> y \<le> z)"
  by (auto simp: lower_def split: option.splits)

lemma lower_not_None [simp]: "lower m x \<noteq> None"
  by (simp add: lower_def)

text \<open>What the walk proves of each signature it passes.\<close>

definition bounded_absence :: "u64 \<Rightarrow> u64 \<Rightarrow> u64 option \<Rightarrow> pending_sig \<Rightarrow> bool" where
  "bounded_absence height m min_slot p \<longleftrightarrow>
     pg_last_valid_block_height p < height \<and> m \<le> pg_last_valid_block_height p
     \<and> (\<forall>b. min_slot = Some b \<longrightarrow> (\<exists>s. pg_blockhash_slot p = Some s \<and> b \<le> s))"

lemma walk_sigs_floor:
  "walk_sigs height floor ps min_lvbh min_slot unknown = DeadByAbsence m s f \<Longrightarrow> floor = f"
  by (induction height floor ps min_lvbh min_slot unknown rule: walk_sigs.induct)
    (simp_all split: if_splits option.splits)

lemma walk_sigs_lower:
  "walk_sigs height floor ps min_lvbh min_slot unknown = DeadByAbsence m s f \<Longrightarrow>
   (unknown \<longrightarrow> min_slot = None) \<Longrightarrow>
     (case min_lvbh of None \<Rightarrow> True | Some z \<Rightarrow> m \<le> z)
     \<and> (case s of None \<Rightarrow> True | Some b \<Rightarrow> \<not> unknown \<and> (case min_slot of None \<Rightarrow> True | Some z \<Rightarrow> b \<le> z))"
proof (induction height floor ps min_lvbh min_slot unknown rule: walk_sigs.induct)
  case (1 height floor min_lvbh min_slot unknown)
  then show ?case by (auto split: option.splits)
next
  case (2 height floor q status rest min_lvbh min_slot unknown)
  then show ?case by (simp split: if_splits)
next
  case (3 height floor q rest min_lvbh min_slot unknown)
  from "3.prems"(1) have less: "pg_last_valid_block_height q < height" by (simp split: if_splits)
  show ?case
  proof (cases "pg_blockhash_slot q")
    case None
    from "3.IH"(1) [OF less None] "3.prems"(1) less None show ?thesis
      by (cases min_lvbh; cases s) (simp_all add: lower_def)
  next
    case (Some b)
    from "3.IH"(2) [OF less Some] "3.prems" less Some show ?thesis
      by (cases min_lvbh; cases min_slot; cases s; cases unknown) (simp_all add: lower_def)
  qed
qed

lemma walk_sigs_absent:
  "walk_sigs height floor ps min_lvbh min_slot unknown = DeadByAbsence m s f \<Longrightarrow>
   (unknown \<longrightarrow> min_slot = None) \<Longrightarrow> (p, None) \<in> set ps \<Longrightarrow> bounded_absence height m s p"
proof (induction height floor ps min_lvbh min_slot unknown rule: walk_sigs.induct)
  case (3 height floor q rest min_lvbh min_slot unknown)
  note old = "3.prems"(2)
  from "3.prems"(1) have less: "pg_last_valid_block_height q < height" by (auto split: if_splits)
  show ?case
  proof (cases "pg_blockhash_slot q")
    case None
    with "3.prems"(1) less have w: "walk_sigs height floor rest
        (lower min_lvbh (pg_last_valid_block_height q)) None True = DeadByAbsence m s f" by simp
    from walk_sigs_lower [OF w] have "m \<le> pg_last_valid_block_height q" "s = None"
      by (auto simp: lower_def split: option.splits)
    with less "3.IH"(1) [OF less None w] "3.prems"(3) show ?thesis by (auto simp: bounded_absence_def)
  next
    case (Some b)
    with "3.prems"(1) less have w: "walk_sigs height floor rest
        (lower min_lvbh (pg_last_valid_block_height q)) (if unknown then min_slot else lower min_slot b)
        unknown = DeadByAbsence m s f" by simp
    from walk_sigs_lower [OF w] old have "m \<le> pg_last_valid_block_height q"
      "\<forall>z. s = Some z \<longrightarrow> z \<le> b" by (auto simp: lower_def split: option.splits if_splits)
    with less Some "3.IH"(2) [OF less Some w] "3.prems"(3) old show ?thesis
      by (auto simp: bounded_absence_def)
  qed
qed (auto split: if_splits option.splits)

lemma walk_sigs_present:
  "walk_sigs height floor ps min_lvbh min_slot unknown \<in> {DeadByAbsence m s f, DeadFinalizedFailure} \<Longrightarrow>
   (p, Some status) \<in> set ps \<Longrightarrow> st_finalized status"
  by (induction height floor ps min_lvbh min_slot unknown rule: walk_sigs.induct)
    (auto split: if_splits option.splits)

lemma walk_sigs_no_absence:
  "walk_sigs height floor ps min_lvbh min_slot unknown = DeadFinalizedFailure \<Longrightarrow>
   (p, None) \<notin> set ps \<and> min_lvbh = None"
  by (induction height floor ps min_lvbh min_slot unknown rule: walk_sigs.induct)
    (auto split: if_splits option.splits)

lemma walk_sigs_never:
  "walk_sigs height floor ps min_lvbh min_slot unknown \<noteq> EndpointLanded g"
  "walk_sigs height floor ps min_lvbh min_slot unknown \<noteq> EndpointUncertain e"
  by (induction height floor ps min_lvbh min_slot unknown rule: walk_sigs.induct)
    (auto split: option.splits)


lemma classify_endpoint_cases:
  assumes "classify_endpoint rpc c sigs = v" "\<And>e. v \<noteq> EndpointUncertain e"
  obtains block_height statuses floor where
    "endpoint_reads rpc c (map pg_signature sigs) = Inr (block_height, statuses, floor)"
    "length statuses = length sigs"
    "(\<exists>i. i < length sigs \<and> finalized_success (statuses ! i) \<and> v = EndpointLanded (pg_signature (sigs ! i)))
     \<or> (\<forall>s\<in>set statuses. \<not> finalized_success s)
       \<and> (\<exists>height. (None \<in> set statuses \<longrightarrow> block_height = Inr height)
            \<and> walk_sigs height floor (zip sigs statuses) None None False = v)"
proof -
  from assms obtain block_height statuses floor where
    r: "endpoint_reads rpc c (map pg_signature sigs) = Inr (block_height, statuses, floor)"
    by (auto simp: classify_endpoint_def Let_def split: sum.splits)
  with assms have len: "length statuses = length sigs"
    by (auto simp: classify_endpoint_def Let_def split: if_splits)
  show ?thesis
  proof (cases "position finalized_success statuses")
    case None
    with assms r len have "\<exists>height. (None \<in> set statuses \<longrightarrow> block_height = Inr height)
        \<and> walk_sigs height floor (zip sigs statuses) None None False = v"
      by (auto simp: classify_endpoint_def Let_def split: if_splits sum.splits)
    with that r len None show ?thesis by (auto simp: position_None)
  next
    case (Some i)
    with assms(1) r len have "v = EndpointLanded (pg_signature (sigs ! i))"
      using position_Some [OF Some] by (simp add: classify_endpoint_def Let_def)
    with that r len position_Some [OF Some] show ?thesis by auto
  qed
qed

text \<open>A truthful endpoint, read for the signatures of \<open>sigs\<close>.\<close>

lemma endpoint_truth:
  assumes "truthful_endpoint c incl rpc (map pg_signature sigs)"
    "endpoint_reads rpc c (map pg_signature sigs) = Inr (block_height, statuses, floor)"
    "length statuses = length sigs" "i < length sigs"
  shows "statuses ! i = Some status \<Longrightarrow> st_finalized status \<Longrightarrow>
      \<exists>slot h. incl (pg_signature (sigs ! i)) = Some (slot, h, st_err status)"
    and "statuses ! i = None \<Longrightarrow> block_height = Inr height \<Longrightarrow>
      (case floor of Some f \<Rightarrow> f = f' | None \<Rightarrow> fe_first_available_block rpc = Inr f') \<Longrightarrow>
      incl (pg_signature (sigs ! i)) = Some (slot, h, failed) \<Longrightarrow> h \<le> unat height \<Longrightarrow> slot < unat f'"
  using assms
  by (auto simp: truthful_endpoint_def endpoint_reads_def truthful_statuses_def truthful_absences_def
      list_all2_conv_all_nth split: chain.splits sum.splits)

lemma nth_in_zip:
  "length xs = length ys \<Longrightarrow> i < length xs \<Longrightarrow> (xs ! i, ys ! i) \<in> set (zip xs ys)"
  by (auto simp: set_zip)

lemma classify_endpoint_landed:
  assumes "truthful_endpoint c incl rpc (map pg_signature sigs)"
    "classify_endpoint rpc c sigs = EndpointLanded g"
  shows "g \<in> pg_signature ` set sigs \<and> landed incl g"
proof -
  obtain block_height statuses floor i where
    r: "endpoint_reads rpc c (map pg_signature sigs) = Inr (block_height, statuses, floor)"
      "length statuses = length sigs" "i < length sigs" "finalized_success (statuses ! i)"
      "g = pg_signature (sigs ! i)"
    by (rule classify_endpoint_cases [OF assms(2)]) (simp, auto simp: walk_sigs_never intro: that)
  then show ?thesis using endpoint_truth(1) [OF assms(1) r(1-3)]
    by (auto simp: finalized_success_def landed_def split: option.splits)
qed

lemma classify_endpoint_walk:
  assumes "classify_endpoint rpc c sigs = v" "v = DeadFinalizedFailure \<or> v = DeadByAbsence m s f"
  obtains block_height statuses floor height where
    "endpoint_reads rpc c (map pg_signature sigs) = Inr (block_height, statuses, floor)"
    "length statuses = length sigs" "\<forall>s\<in>set statuses. \<not> finalized_success s"
    "None \<in> set statuses \<Longrightarrow> block_height = Inr height"
    "walk_sigs height floor (zip sigs statuses) None None False = v"
  by (rule classify_endpoint_cases [OF assms(1)]) (use assms(2) in \<open>auto intro: that\<close>)

lemma finalized_failure:
  assumes "truthful_endpoint c incl rpc (map pg_signature sigs)"
    "endpoint_reads rpc c (map pg_signature sigs) = Inr (block_height, statuses, floor)"
    "length statuses = length sigs" "\<forall>s\<in>set statuses. \<not> finalized_success s"
    "walk_sigs height floor (zip sigs statuses) None None False \<in> {DeadByAbsence m s f, DeadFinalizedFailure}"
    "i < length sigs" "statuses ! i = Some status"
  shows "\<not> landed incl (pg_signature (sigs ! i))"
proof -
  have "(sigs ! i, Some status) \<in> set (zip sigs statuses)"
    using nth_in_zip [OF assms(3) [symmetric] assms(6)] assms(7) by simp
  with assms(5) have fin: "st_finalized status" by (rule walk_sigs_present)
  have "\<not> finalized_success (statuses ! i)" using assms(3,4,6) by simp
  with fin have "st_err status" using assms(7) by (simp add: finalized_success_def)
  with endpoint_truth(1) [OF assms(1-3) assms(6,7) fin] show ?thesis by (auto simp: landed_def)
qed

lemma classify_endpoint_failed:
  assumes "truthful_endpoint c incl rpc (map pg_signature sigs)"
    "classify_endpoint rpc c sigs = DeadFinalizedFailure" "p \<in> set sigs"
  shows "\<not> landed incl (pg_signature p)"
proof -
  obtain block_height statuses floor height where
    r: "endpoint_reads rpc c (map pg_signature sigs) = Inr (block_height, statuses, floor)"
      "length statuses = length sigs" "\<forall>s\<in>set statuses. \<not> finalized_success s"
      and w: "walk_sigs height floor (zip sigs statuses) None None False = DeadFinalizedFailure"
    by (rule classify_endpoint_walk [OF assms(2)]) (simp, rule that)
  from assms(3) obtain i where i: "i < length sigs" "p = sigs ! i" by (auto simp: in_set_conv_nth)
  from nth_in_zip [OF r(2) [symmetric] i(1)] walk_sigs_no_absence [OF w]
  obtain status where "statuses ! i = Some status" by (cases "statuses ! i") auto
  from finalized_failure [OF assms(1) r _ i(1) this, of height m s f for m s f] w i(2) show ?thesis
    by auto
qed

text \<open>An expired absence is final where the endpoint retains the slots the attempt could be in.\<close>

lemma coverage_Dead:
  assumes "ledger_coverage_verdict c rpc m s f is_fallback = Dead"
  obtains bound floor where
    "case s of Some slot \<Rightarrow> bound = slot | None \<Rightarrow> c = Solana \<and> bound = saturating_sub m MAX_PROCESSING_AGE"
    "case f of Some fl \<Rightarrow> fl = floor | None \<Rightarrow> fe_first_available_block rpc = Inr floor"
    "floor \<le> bound"
  using assms
  by (auto simp: ledger_coverage_verdict_def intro: that split: option.splits sum.splits chain.splits if_splits)

lemma classify_endpoint_absent:
  assumes truth: "truthful_endpoint c incl rpc (map pg_signature sigs)"
    and valid: "\<forall>p\<in>set sigs. within_validity c incl p"
    and v: "classify_endpoint rpc c sigs = DeadByAbsence m s f"
    and cover: "ledger_coverage_verdict c rpc m s f is_fallback = Dead" and p: "p \<in> set sigs"
  shows "\<not> landed incl (pg_signature p)"
proof -
  obtain block_height statuses floor height where
    r: "endpoint_reads rpc c (map pg_signature sigs) = Inr (block_height, statuses, floor)"
      "length statuses = length sigs" "\<forall>s\<in>set statuses. \<not> finalized_success s"
      and h: "None \<in> set statuses \<Longrightarrow> block_height = Inr height"
      and w: "walk_sigs height floor (zip sigs statuses) None None False = DeadByAbsence m s f"
    by (rule classify_endpoint_walk [OF v]) (simp, rule that)
  from p obtain i where i: "i < length sigs" "p = sigs ! i" by (auto simp: in_set_conv_nth)
  show ?thesis
  proof (cases "statuses ! i")
    case (Some status)
    from finalized_failure [OF truth r _ i(1) this, of height m s f] w i(2) show ?thesis by simp
  next
    case None
    with i(1) r(2) have "None \<in> set statuses" by (metis nth_mem)
    from h [OF this] have height: "block_height = Inr height" .
    have "(p, None) \<in> set (zip sigs statuses)"
      using nth_in_zip [OF r(2) [symmetric] i(1)] None i(2) by simp
    from walk_sigs_absent [OF w _ this] have b: "bounded_absence height m s p" by simp
    obtain bound fl where fl: "fl \<le> bound"
      "case s of Some slot \<Rightarrow> bound = slot | None \<Rightarrow> c = Solana \<and> bound = saturating_sub m MAX_PROCESSING_AGE"
      "case f of Some x \<Rightarrow> x = fl | None \<Rightarrow> fe_first_available_block rpc = Inr fl"
      by (rule coverage_Dead [OF cover])
    have False if incl: "incl (pg_signature p) = Some (slot, hh, e)" for slot hh e
    proof -
      note val = valid [rule_format, OF p, unfolded within_validity_def, rule_format, OF incl]
      have "hh \<le> unat height"
        using val b by (simp add: bounded_absence_def word_less_nat_alt)
      then have "slot < unat fl"
        using endpoint_truth(2) [OF truth r(1,2) i(1) None height, of fl slot hh e] fl(3) incl i(2)
          walk_sigs_floor [OF w] by simp
      moreover have "unat bound \<le> slot"
      proof (cases s)
        case (Some x)
        with b obtain y where "pg_blockhash_slot p = Some y" "x \<le> y" by (auto simp: bounded_absence_def)
        with val Some fl(2) show ?thesis by (auto simp: word_le_nat_alt)
      next
        case None
        then have "unat bound \<le> unat (pg_last_valid_block_height p) - unat MAX_PROCESSING_AGE"
          using fl(2) b by (auto simp: saturating_sub_def bounded_absence_def word_le_nat_alt unat_sub)
        with val None fl(2) show ?thesis by simp
      qed
      ultimately show False using fl(1) by (simp add: word_le_nat_alt)
    qed
    then show ?thesis by (auto simp: landed_def)
  qed
qed

lemma coverage_not_Landed: "ledger_coverage_verdict c rpc m s f is_fallback \<noteq> Landed g"
  by (auto simp: ledger_coverage_verdict_def split: option.splits sum.splits chain.splits if_splits)

definition truthful_finality :: "inclusion \<Rightarrow> finality_rpc \<Rightarrow> pending_sig list \<Rightarrow> bool" where
  "truthful_finality incl finality sigs \<longleftrightarrow>
     truthful_endpoint (fr_chain finality) incl (fr_primary finality) (map pg_signature sigs)
     \<and> (\<forall>fb. fr_fallback finality = Some fb \<longrightarrow>
          truthful_endpoint (fr_chain finality) incl fb (map pg_signature sigs))
     \<and> (\<forall>p\<in>set sigs. within_validity (fr_chain finality) incl p)"

lemma classified:
  assumes "truthful_finality incl finality sigs"
  shows classified_landed: "classify_signatures finality sigs = Landed g \<Longrightarrow>
      g \<in> pg_signature ` set sigs \<and> landed incl g"
    and classified_dead: "classify_signatures finality sigs = Dead \<Longrightarrow> p \<in> set sigs \<Longrightarrow>
      \<not> landed incl (pg_signature p)"
proof -
  from assms have tp: "truthful_endpoint (fr_chain finality) incl (fr_primary finality) (map pg_signature sigs)"
    and tf: "\<And>fb. fr_fallback finality = Some fb \<Longrightarrow>
      truthful_endpoint (fr_chain finality) incl fb (map pg_signature sigs)"
    and val: "\<forall>p\<in>set sigs. within_validity (fr_chain finality) incl p"
    by (auto simp: truthful_finality_def)
  note facts = classify_endpoint_landed [OF tp] classify_endpoint_failed [OF tp]
    classify_endpoint_absent [OF tp val] classify_endpoint_landed [OF tf] classify_endpoint_failed [OF tf]
    classify_endpoint_absent [OF tf val] coverage_not_Landed
  show "g \<in> pg_signature ` set sigs \<and> landed incl g" if "classify_signatures finality sigs = Landed g"
    using that facts unfolding classify_signatures_def
    by (auto split: endpoint_verdict.splits option.splits)
  show "\<not> landed incl (pg_signature p)" if "classify_signatures finality sigs = Dead" "p \<in> set sigs"
    using that facts unfolding classify_signatures_def
    by (auto split: endpoint_verdict.splits option.splits)
qed

section \<open>The bitmap\<close>

lemma operator_layout:
  "op_NONCES_PER_GENERATION = NONCES_PER_GENERATION" "op_BITMAP_BYTES = BITMAP_BYTES"
  "op_BITS_OFFSET = BITS_OFFSET" "ACCOUNT_LEN = WithdrawalBitmap_LEN"
  "op_WITHDRAWAL_BITMAP_DISCRIMINATOR = account_discriminator WithdrawalBitmapDiscriminator"
  "op_WITHDRAWAL_BITMAP_SEED = WITHDRAWAL_BITMAP_SEED"
  by (simp_all add: op_NONCES_PER_GENERATION_def NONCES_PER_GENERATION_def op_BITMAP_BYTES_def
      BITMAP_BYTES_def op_BITS_OFFSET_def bitmap_layout_defs ACCOUNT_LEN_def WithdrawalBitmap_LEN_def
      op_WITHDRAWAL_BITMAP_DISCRIMINATOR_def op_WITHDRAWAL_BITMAP_SEED_def WITHDRAWAL_BITMAP_SEED_def)

lemma find_withdrawal_bitmap_pda_eq:
  "find_withdrawal_bitmap_pda od = bitmap_address (od_find_program_address od)"
  by (simp add: fun_eq_iff find_withdrawal_bitmap_pda_def bitmap_address_def operator_layout)

lemma base_of_window:
  assumes "nonce div NONCES_PER_GENERATION = g"
  shows "saturating_mul g NONCES_PER_GENERATION = nonce - nonce mod NONCES_PER_GENERATION"
    "unat (nonce mod NONCES_PER_GENERATION) < 65536"
proof -
  have N: "unat NONCES_PER_GENERATION = 65536" by (simp add: NONCES_PER_GENERATION_def)
  have "unat g * 65536 \<le> unat nonce"
    unfolding assms [symmetric] unat_div_distrib N by simp
  also have "unat nonce < 2 ^ 64" using unsigned_less [of nonce, where 'a = nat] by simp
  finally have "unat g * unat NONCES_PER_GENERATION < 2 ^ 64" unfolding N .
  then have "saturating_mul g NONCES_PER_GENERATION = g * NONCES_PER_GENERATION"
    by (simp add: saturating_mul_def)
  also have "\<dots> = nonce - nonce mod NONCES_PER_GENERATION"
    unfolding assms [symmetric] by (metis minus_mod_eq_div_mult)
  finally show "saturating_mul g NONCES_PER_GENERATION = nonce - nonce mod NONCES_PER_GENERATION" .
  show "unat (nonce mod NONCES_PER_GENERATION) < 65536"
    by (simp add: unat_mod_distrib N)
qed

lemma window_position:
  assumes "nonce div NONCES_PER_GENERATION = g" "i < 8192" "k < 8"
  shows "nonce = saturating_mul g NONCES_PER_GENERATION + of_nat (i * 8 + k) \<longleftrightarrow>
    i = unat (nonce mod NONCES_PER_GENERATION) div 8 \<and> k = unat (nonce mod NONCES_PER_GENERATION) mod 8"
proof -
  let ?r = "nonce mod NONCES_PER_GENERATION"
  have "unat (of_nat (i * 8 + k) :: u64) = i * 8 + k"
    using assms(2,3) by (simp only: unat_of_nat) simp
  then have "?r = of_nat (i * 8 + k) \<longleftrightarrow> unat ?r = i * 8 + k"
    by (metis word_unat_eq_iff)
  also have "\<dots> \<longleftrightarrow> i = unat ?r div 8 \<and> k = unat ?r mod 8"
    using assms(3) by auto
  finally show ?thesis
    unfolding base_of_window(1) [OF assms(1)] by (metis add_diff_cancel_left' diff_add_cancel)
qed

lemma byte_nonces_mem:
  "n \<in> set (byte_nonces base i b) \<longleftrightarrow> (\<exists>k<8. bit b k \<and> n = base + of_nat (i * 8 + k))"
proof (cases "b = 0")
  case False
  then have "n \<in> set (byte_nonces base i b) \<longleftrightarrow>
      (\<exists>k<8. b AND push_bit k 1 \<noteq> 0 \<and> n = base + of_nat i * 8 + of_nat k)"
    by (auto simp: byte_nonces_def)
  then show ?thesis by (simp add: bit_iff_and_push_bit_not_eq_0 algebra_simps)
qed (simp add: byte_nonces_def)

lemma enumerate_image: "set (enumerate 0 xs) = (\<lambda>i. (i, xs ! i)) ` {..<length xs}"
proof -
  have "set (enumerate 0 xs) = (!) (enumerate 0 xs) ` {..<length (enumerate 0 xs)}"
    by (auto simp: set_conv_nth)
  also have "\<dots> = (\<lambda>i. (i, xs ! i)) ` {..<length xs}"
    by (intro image_cong) (simp_all add: nth_enumerate_eq)
  finally show ?thesis .
qed

lemma concat_enumerate_mem:
  "n \<in> set (concat (map (\<lambda>(i, x). F i x) (enumerate 0 xs))) \<longleftrightarrow> (\<exists>i<length xs. n \<in> set (F i (xs ! i)))"
  by (simp add: enumerate_image Bex_def)

definition parsed_state :: "bytes \<Rightarrow> bitmap_state" where
  "parsed_state data = \<lparr>bs_generation = bitmap_generation data,
     bs_consumed = concat (map (\<lambda>(i, x). byte_nonces
       (saturating_mul (bitmap_generation data) NONCES_PER_GENERATION) i x)
       (enumerate 0 (slice BITS_OFFSET BITMAP_BYTES data)))\<rparr>"

lemma parsed_bitmap:
  assumes "bitmap_header_contract od" "bitmap_ok data"
  shows "parse_withdrawal_bitmap od data = Inr (parsed_state data)"
proof -
  have len: "WithdrawalBitmap_LEN \<le> length data"
    and tag: "data ! 0 = account_discriminator WithdrawalBitmapDiscriminator"
    using assms(2) by (simp_all add: bitmap_ok_def)
  then have "10 \<le> length data" by (simp add: WithdrawalBitmap_LEN_def BITS_OFFSET_def)
  with assms(1) have "od_bitmap_from_bytes od data = Some (data ! 0, data ! 1, bitmap_generation data)"
    by (simp add: bitmap_header_contract_def bitmap_generation_def GENERATION_OFFSET_def)
  with len tag show ?thesis
    unfolding parse_withdrawal_bitmap_def parsed_state_def operator_layout Let_def
    by (simp only: guardE_True bindE_Inr ok_orE_Some prod.case simp_thms)
qed

lemma parsed_generation [simp]: "bs_generation (parsed_state data) = bitmap_generation data"
  by (simp add: parsed_state_def)

lemma parsed_covers: "BitmapState_covers (parsed_state data) n \<longleftrightarrow>
    n div NONCES_PER_GENERATION = bitmap_generation data"
  by (simp add: BitmapState_covers_def operator_layout)

lemma parsed_consumed_mem:
  assumes "bitmap_ok data"
  shows "n \<in> set (bs_consumed (parsed_state data)) \<longleftrightarrow>
    (\<exists>i<8192. \<exists>k<8. bit (data ! (BITS_OFFSET + i)) k
      \<and> n = saturating_mul (bitmap_generation data) NONCES_PER_GENERATION + of_nat (i * 8 + k))"
proof -
  have len: "length (slice BITS_OFFSET BITMAP_BYTES data) = 8192"
    using assms by (simp add: length_slice bitmap_ok_def WithdrawalBitmap_LEN_def BITMAP_BYTES_eq)
  have nth: "slice BITS_OFFSET BITMAP_BYTES data ! i = data ! (BITS_OFFSET + i)" if "i < 8192" for i
    using that assms by (simp add: nth_slice bitmap_ok_def WithdrawalBitmap_LEN_def BITMAP_BYTES_eq)
  show ?thesis
    unfolding parsed_state_def bitmap_state.select_convs concat_enumerate_mem len byte_nonces_mem
    by (intro ex_cong1 conj_cong refl) (simp only: nth)
qed

lemma parsed_consumed_at:
  assumes "bitmap_ok data" "n div NONCES_PER_GENERATION = bitmap_generation data"
  shows "n \<in> set (bs_consumed (parsed_state data)) \<longleftrightarrow> bitmap_used data n"
proof -
  define r where "r = unat (n mod NONCES_PER_GENERATION)"
  define base where "base = saturating_mul (bitmap_generation data) NONCES_PER_GENERATION"
  have "r < 65536" unfolding r_def by (rule base_of_window(2) [OF assms(2)])
  then have r: "r div 8 < 8192" "r mod 8 < 8" by simp_all
  have at: "n = base + of_nat (i * 8 + k) \<longleftrightarrow> i = r div 8 \<and> k = r mod 8"
    if "i < 8192" "k < 8" for i k
    using window_position [OF assms(2) that] unfolding r_def base_def .
  have "n \<in> set (bs_consumed (parsed_state data)) \<longleftrightarrow>
      (\<exists>i<8192. \<exists>k<8. bit (data ! (BITS_OFFSET + i)) k \<and> n = base + of_nat (i * 8 + k))"
    unfolding parsed_consumed_mem [OF assms(1)] base_def ..
  also have "\<dots> \<longleftrightarrow> bit (data ! (BITS_OFFSET + r div 8)) (r mod 8)"
    using at r by blast
  finally show ?thesis unfolding bitmap_used_def Let_def r_def .
qed

lemma parsed_is_consumed:
  assumes "bitmap_ok data"
  shows "BitmapState_is_consumed (parsed_state data) n \<longleftrightarrow> n \<in> bitmap_consumed data"
  unfolding BitmapState_is_consumed_def parsed_covers bitmap_consumed_def mem_Collect_eq
  using parsed_consumed_at [OF assms] by blast

section \<open>The bitmap and the releases of the run\<close>

text \<open>A node answers for an account with its owner and data in the ledger.\<close>

definition answers_with :: "solana_rpc \<Rightarrow> address \<Rightarrow> ledger \<Rightarrow> bool" where
  "answers_with rpc key l \<longleftrightarrow>
     (\<forall>m slot a. sr_ui_account rpc key Finalized m = Inr (slot, Some (Some a)) \<longrightarrow>
        ra_owner a = acc_owner (l key) \<and> ra_data a = acc_data (l key))"

lemma parse_withdrawal_bitmap_ok:
  assumes "bitmap_header_contract od" "parse_withdrawal_bitmap od data = Inr b"
  shows "bitmap_ok data \<and> b = parsed_state data"
proof -
  have len: "WithdrawalBitmap_LEN \<le> length data"
    using assms(2) unfolding parse_withdrawal_bitmap_def operator_layout
    by (auto simp: bindE_eq_Inr)
  then have "10 \<le> length data" by (simp add: WithdrawalBitmap_LEN_def BITS_OFFSET_def)
  with assms(1) have "od_bitmap_from_bytes od data = Some (data ! 0, data ! 1, u64_of_le (slice 2 8 data))"
    by (simp add: bitmap_header_contract_def)
  with assms(2) have "data ! 0 = account_discriminator WithdrawalBitmapDiscriminator"
    unfolding parse_withdrawal_bitmap_def operator_layout by (auto simp: bindE_eq_Inr)
  with len have ok: "bitmap_ok data" by (simp add: bitmap_ok_def)
  with parsed_bitmap [OF assms(1) ok] assms(2) show ?thesis by simp
qed

lemma fetched_bitmap:
  assumes "bitmap_header_contract od" "answers_with rpc key l"
    "fetch_consumed_nonces_at od rpc key m Finalized = Inr (b, slot)"
  shows "bitmap_ok (acc_data (l key)) \<and> b = parsed_state (acc_data (l key))"
proof -
  obtain a where "get_account_with_context_min_slot rpc key Finalized m = Inr (Some a, slot)"
      "parse_withdrawal_bitmap od (ra_data a) = Inr b"
    using assms(3) by (auto simp: fetch_consumed_nonces_at_def read_bitmap_def bindE_eq_Inr
        split: option.splits if_splits)
  moreover from this(1) have "\<exists>s. sr_ui_account rpc key Finalized m = Inr (s, Some (Some a))"
    by (auto simp: get_account_with_context_min_slot_def split: sum.splits option.splits if_splits)
  ultimately show ?thesis
    using assms(2) parse_withdrawal_bitmap_ok [OF assms(1)] by (auto simp: answers_with_def)
qed

lemma checked_sub_bound: "checked_sub a b = Some c \<Longrightarrow> unat c + unat b = unat a"
  by (auto simp: checked_sub_def unat_sub split: if_splits) (simp add: word_le_nat_alt)

lemma verify_release_cases:
  assumes "verify_release_landed_at od rpc (Some i) nonce max_lvbh = (v, s)"
    "v = NotLanded \<or> v = ReleaseLanded g"
  obtains ref_slot lvbh bitmap slot where
    "sr_latest_blockhash rpc Finalized = Inr (ref_slot, lvbh)"
    "unat max_lvbh + unat MAX_PROCESSING_AGE < unat lvbh"
    "fetch_consumed_nonces_at od rpc (find_withdrawal_bitmap_pda od i) (Some ref_slot) Finalized
       = Inr (bitmap, slot)"
    "BitmapState_covers bitmap nonce"
    "v = ReleaseLanded g \<longleftrightarrow> BitmapState_is_consumed bitmap nonce"
proof -
  from assms obtain ref_slot lvbh where
    h: "sr_latest_blockhash rpc Finalized = Inr (ref_slot, lvbh)"
    by (auto simp: verify_release_landed_at_def split: sum.splits)
  from assms h obtain tip where t: "checked_sub lvbh MAX_PROCESSING_AGE = Some tip"
    by (auto simp: verify_release_landed_at_def split: option.splits)
  from assms h t obtain bitmap slot where
    b: "fetch_consumed_nonces_at od rpc (find_withdrawal_bitmap_pda od i) (Some ref_slot) Finalized
       = Inr (bitmap, slot)"
    by (cases "fetch_consumed_nonces_at od rpc (find_withdrawal_bitmap_pda od i) (Some ref_slot) Finalized")
      (auto simp: verify_release_landed_at_def Let_def split: if_splits)
  from assms h t b have "\<not> tip \<le> max_lvbh" "BitmapState_covers bitmap nonce"
    "v = ReleaseLanded g \<longleftrightarrow> BitmapState_is_consumed bitmap nonce"
    by (auto simp: verify_release_landed_at_def Let_def split: if_splits)
  with that [OF h _ b] checked_sub_bound [OF t] show ?thesis by (simp add: word_le_nat_alt)
qed

lemma consumed_is_refused:
  assumes "runtime_contract rt" "bitmap_ok (acc_data (l (bitmap_address (rt_find_program_address rt) i)))"
    "nonce \<in> bitmap_consumed (acc_data (l (bitmap_address (rt_find_program_address rt) i)))"
    "process_instruction rt ESCROW_ID accounts ixdata (initial_world l) = Inr w'"
  shows "nonce \<notin> set (released_nonces i accounts ixdata)"
proof
  assume mem: "nonce \<in> set (released_nonces i accounts ixdata)"
  then obtain tag xs args where d: "ixdata = tag # xs" "escrow_instruction_try_from tag = Some ReleaseFunds"
    "release_funds_process_instruction_data xs = Inr args" "av_address (accounts ! 2) = i"
    "nonce = rfa_transaction_nonce args"
    by (cases ixdata; cases "release_funds_process_instruction_data (tl ixdata)")
      (auto simp: released_nonces_def split: if_splits)
  then have "process_release_funds rt ESCROW_ID accounts xs (initial_world l) = Inr w'"
    using assms(4) by (simp add: process_instruction_def)
  from release_funds_bitmap [OF assms(1) this d(3)] obtain bs bs' where
    "bitmap_address (rt_find_program_address rt) i = av_address (accounts ! 3)"
    "holds (av_address (accounts ! 3)) bs (initial_world l)" "bitmap_ok bs"
    "bitmap_accept bs nonce = Inr bs'" using d by metis
  with assms(3) bm.consume_fresh [of bs nonce bs'] show False
    by (auto simp: holds_def initial_world_def bitmap_consumed_def)
qed

lemma released_is_consumed:
  assumes "escrow_run fpa i l rel" "n \<in> set rel"
    "n div NONCES_PER_GENERATION = bitmap_generation (acc_data (l (bitmap_address fpa i)))"
  shows "n \<in> bitmap_consumed (acc_data (l (bitmap_address fpa i)))"
proof -
  from escrow_run_invariant [OF assms(1)] assms(2) obtain bs where
    "holds (bitmap_address fpa i) bs (initial_world l)" "bm.tracks bs rel"
    by (auto simp: replay_invariant_def)
  with assms(2,3) show ?thesis
    by (auto simp: holds_def initial_world_def bm.tracks_def bitmap_consumed_def)
qed

section \<open>The verdicts\<close>

text \<open>
  C26. The verdict on a row's signatures is right on either chain, from one endpoint or two: with
  endpoints that report finalized statuses and retained blocks as they are, and signatures that are
  only included while their blockhash is valid, \<open>Landed\<close> names a stored signature that is in a
  block and succeeded, and \<open>Dead\<close> means that none of them did and none ever will.
\<close>

theorem finality_verdict_is_right:
  assumes "truthful_finality incl finality sigs"
  shows "case classify_signatures finality sigs of
      Landed g \<Rightarrow> g \<in> pg_signature ` set sigs \<and> landed incl g
    | Dead \<Rightarrow> \<forall>p\<in>set sigs. \<not> landed incl (pg_signature p)
    | Live _ \<Rightarrow> True
    | Uncertain _ \<Rightarrow> True"
  using classified [OF assms] by (auto split: sig_finality.split)

lemma release_verdict_facts:
  assumes "bitmap_header_contract od"
    "answers_with rpc (bitmap_address (od_find_program_address od) i) l"
    "verify_release_landed_at od rpc (Some i) nonce max_lvbh = (v, s)"
    "v = NotLanded \<or> v = ReleaseLanded g"
  defines "data \<equiv> acc_data (l (bitmap_address (od_find_program_address od) i))"
  shows "bitmap_ok data" "nonce div NONCES_PER_GENERATION = bitmap_generation data"
    "v = ReleaseLanded g \<longleftrightarrow> nonce \<in> bitmap_consumed data"
    "\<exists>slot lvbh. sr_latest_blockhash rpc Finalized = Inr (slot, lvbh)
       \<and> unat max_lvbh + unat MAX_PROCESSING_AGE < unat lvbh"
proof -
  obtain ref_slot lvbh bitmap slot where
    r: "sr_latest_blockhash rpc Finalized = Inr (ref_slot, lvbh)"
      "unat max_lvbh + unat MAX_PROCESSING_AGE < unat lvbh"
    and b: "fetch_consumed_nonces_at od rpc (find_withdrawal_bitmap_pda od i) (Some ref_slot) Finalized
       = Inr (bitmap, slot)"
    and c: "BitmapState_covers bitmap nonce" "v = ReleaseLanded g \<longleftrightarrow> BitmapState_is_consumed bitmap nonce"
    by (rule verify_release_cases [OF assms(3,4)]) (rule that)
  note f = fetched_bitmap [OF assms(1,2) b [unfolded find_withdrawal_bitmap_pda_eq], folded data_def]
  show ok: "bitmap_ok data" using f ..
  show "nonce div NONCES_PER_GENERATION = bitmap_generation data"
    using c(1) unfolding conjunct2 [OF f] parsed_covers .
  show "v = ReleaseLanded g \<longleftrightarrow> nonce \<in> bitmap_consumed data"
    using c(2) unfolding conjunct2 [OF f] parsed_is_consumed [OF ok] .
  show "\<exists>slot lvbh. sr_latest_blockhash rpc Finalized = Inr (slot, lvbh)
      \<and> unat max_lvbh + unat MAX_PROCESSING_AGE < unat lvbh" using r by blast
qed

lemma not_landed_unreleased:
  assumes "escrow_run (od_find_program_address od) i l rel" "bitmap_header_contract od"
    "answers_with rpc (bitmap_address (od_find_program_address od) i) l"
    "verify_release_landed_at od rpc (Some i) nonce max_lvbh = (NotLanded, s)"
  shows "nonce \<notin> set rel"
  using released_is_consumed [OF assms(1), of nonce]
    release_verdict_facts(2,3) [where g = 0, OF assms(2,3,4) disjI1 [OF refl]] by auto

text \<open>
  C25. What the operator concludes from the on-chain bitmap agrees with the escrow's own history. When
  it reads that a release did not land, no instruction of the run released the nonce, and finality had
  passed every attempt's blockhash by a full window; when it reads that one landed, every further
  instruction that would release the nonce is refused by the escrow program.
\<close>

theorem release_verdict_is_right:
  assumes "escrow_run (od_find_program_address od) i l rel" "bitmap_header_contract od"
    "answers_with rpc (bitmap_address (od_find_program_address od) i) l"
  shows "case verify_release_landed od rpc (Some i) nonce max_lvbh of
      NotLanded \<Rightarrow> nonce \<notin> set rel
        \<and> (\<exists>slot lvbh. sr_latest_blockhash rpc Finalized = Inr (slot, lvbh)
             \<and> unat max_lvbh + unat MAX_PROCESSING_AGE < unat lvbh)
    | ReleaseLanded _ \<Rightarrow>
        (\<forall>rt accounts ixdata w'. runtime_contract rt \<and> rt_find_program_address rt = od_find_program_address od
           \<and> process_instruction rt ESCROW_ID accounts ixdata (initial_world l) = Inr w' \<longrightarrow>
           nonce \<notin> set (released_nonces i accounts ixdata))
    | _ \<Rightarrow> True"
proof -
  obtain v s where v: "verify_release_landed_at od rpc (Some i) nonce max_lvbh = (v, s)" by fastforce
  note facts = release_verdict_facts [OF assms(2,3) v]
  show ?thesis
  proof (cases v)
    case (ReleaseLanded g)
    have "nonce \<notin> set (released_nonces i accounts ixdata)"
      if "runtime_contract rt" "rt_find_program_address rt = od_find_program_address od"
        "process_instruction rt ESCROW_ID accounts ixdata (initial_world l) = Inr w'"
      for rt accounts ixdata w'
      using consumed_is_refused [of rt l i nonce accounts ixdata w'] facts(1,3) [OF disjI2 [OF ReleaseLanded]]
        that ReleaseLanded by simp
    with ReleaseLanded v show ?thesis unfolding verify_release_landed_def by auto
  next
    case NotLanded
    with v have "nonce \<notin> set rel" using not_landed_unreleased [OF assms] by blast
    with NotLanded facts(4) [where g = 0, OF disjI1 [OF NotLanded]] v show ?thesis
      unfolding verify_release_landed_def by simp
  qed (use v in \<open>simp_all add: verify_release_landed_def\<close>)
qed

section \<open>Instances\<close>

text \<open>
  Two attempts on Solana: the first is absent and expired in a ledger that is retained from its slot
  on, the second failed.
\<close>

definition demo_attempts :: "pending_sig list" where
  "demo_attempts = [\<lparr>pg_signature = [1], pg_last_valid_block_height = 300, pg_blockhash_slot = Some 160\<rparr>,
     \<lparr>pg_signature = [2], pg_last_valid_block_height = 400, pg_blockhash_slot = None\<rparr>]"

definition demo_inclusion :: inclusion where
  "demo_inclusion g = (if g = [2] then Some (320, 310, True) else None)"

definition demo_endpoint :: finality_endpoint where
  "demo_endpoint = \<lparr>fe_snapshot = (\<lambda>_. Inl ''x''), fe_block_height = Inr 500,
     fe_statuses = (\<lambda>_. Inr [None, Some \<lparr>st_err = True, st_finalized = True\<rparr>]),
     fe_first_available_block = Inr 100\<rparr>"

lemma demo_truthful: "truthful_finality demo_inclusion (FinalityRpc_solana demo_endpoint None) demo_attempts"
  by (simp add: truthful_finality_def FinalityRpc_solana_def demo_endpoint_def demo_attempts_def
      truthful_endpoint_def truthful_statuses_def truthful_absences_def within_validity_def
      demo_inclusion_def MAX_PROCESSING_AGE_def)

lemma demo_classified: "classify_signatures (FinalityRpc_solana demo_endpoint None) demo_attempts = Dead"
  by (simp add: classify_signatures_def FinalityRpc_solana_def demo_endpoint_def demo_attempts_def
      classify_endpoint_def endpoint_reads_def finalized_success_def lower_def ledger_coverage_verdict_def)

theorem finality_verdict_is_right_witness:
  "classify_signatures (FinalityRpc_solana demo_endpoint None) demo_attempts = Dead
     \<and> \<not> landed demo_inclusion [1] \<and> \<not> landed demo_inclusion [2]"
  using finality_verdict_is_right [OF demo_truthful] demo_classified by (simp add: demo_attempts_def)

text \<open>The run that releases nonce 7, and a node that answers from its ledger.\<close>

definition demo_operator_sdk :: operator_sdk where
  "demo_operator_sdk = channel_sdk.extend demo_channel_sdk (operator_sdk.fields
     (\<lambda>bs. Some (bs ! 0, bs ! 1, u64_of_le (slice 2 8 bs))) demo_find)"

lemma demo_operator_sdk_simps [simp]:
  "od_find_program_address demo_operator_sdk = demo_find" "bitmap_header_contract demo_operator_sdk"
  by (simp_all add: demo_operator_sdk_def bitmap_header_contract_def channel_sdk.defs operator_sdk.defs)

definition demo_solana :: "ledger \<Rightarrow> solana_rpc" where
  "demo_solana l = \<lparr>sr_latest_blockhash = (\<lambda>_. Inr (90, 600)),
     sr_ui_account = (\<lambda>key c m. Inr (90, Some (Some
       \<lparr>ra_owner = acc_owner (l key), ra_data = acc_data (l key)\<rparr>)))\<rparr>"

lemma demo_solana_hash: "sr_latest_blockhash (demo_solana l) c = Inr (90, 600)"
  by (simp add: demo_solana_def)

lemma demo_solana_answers: "answers_with (demo_solana l) key l"
  by (simp add: answers_with_def demo_solana_def)

lemma demo_bitmap_pda: "bitmap_address demo_find 101 = 104"
  by (simp add: bitmap_address_def)

lemma demo_fetched:
  assumes "acc_owner (l 104) = ESCROW_ID" "bitmap_ok (acc_data (l 104))"
  shows "fetch_consumed_nonces_at demo_operator_sdk (demo_solana l)
    (find_withdrawal_bitmap_pda demo_operator_sdk 101) (Some 90) Finalized
    = Inr (parsed_state (acc_data (l 104)), 90)"
  unfolding find_withdrawal_bitmap_pda_eq demo_operator_sdk_simps(1) demo_bitmap_pda
  using parsed_bitmap [OF demo_operator_sdk_simps(2) assms(2)] assms bitmap_ok_neq_Nil [OF assms(2)]
  by (simp add: fetch_consumed_nonces_at_def read_bitmap_def get_account_with_context_min_slot_def
      demo_solana_def)

theorem release_verdict_is_right_witness:
  "\<exists>l. escrow_run demo_find 101 l [7]
     \<and> verify_release_landed demo_operator_sdk (demo_solana l) (Some 101) 7 400 = ReleaseLanded 0
     \<and> (\<forall>w'. process_instruction demo_rt ESCROW_ID demo_release_accounts (7 # demo_release_data 7)
           (initial_world l) \<noteq> Inr w')"
proof -
  obtain l where l: "escrow_run demo_find 101 l [7]" "acc_owner (l 104) = ESCROW_ID"
    "bitmap_ok (acc_data (l 104))" "bitmap_generation (acc_data (l 104)) = 0"
    using demo_released_bitmap by blast
  have "7 \<in> bitmap_consumed (acc_data (l 104))"
    using released_is_consumed [OF l(1), of 7] l(4) by (simp add: demo_bitmap_pda NONCES_PER_GENERATION_def)
  with l(4) have v: "verify_release_landed demo_operator_sdk (demo_solana l) (Some 101) 7 400 = ReleaseLanded 0"
    unfolding verify_release_landed_def verify_release_landed_at_def
    by (simp add: demo_fetched [of l, OF l(2,3)] parsed_is_consumed [OF l(3)] parsed_covers Let_def
        checked_sub_def MAX_PROCESSING_AGE_def demo_solana_hash
        op_NONCES_PER_GENERATION_def NONCES_PER_GENERATION_def)
  have "escrow_run (od_find_program_address demo_operator_sdk) 101 l [7]" using l(1) by simp
  from release_verdict_is_right [OF this demo_operator_sdk_simps(2) demo_solana_answers, of 7 400]
  have "process_instruction demo_rt ESCROW_ID demo_release_accounts (7 # demo_release_data 7)
      (initial_world l) \<noteq> Inr w'" for w'
    unfolding v using demo_released demo_rt_contract by fastforce
  with l(1) v show ?thesis by blast
qed

end
