(* ===== verification/Remint_Safety.thy ===== *)
theory Remint_Safety
  imports Remint Finality_Safety Ledger_Safety
begin

text \<open>
  What the refund path guarantees: a refund is sent only for a withdrawal whose release did not and
  will not pay, and of all the refunds ever sent for a withdrawal at most one lands.
\<close>

section \<open>Where a refund is sent\<close>

named_theorems quiet \<open>steps that send no refund\<close>

lemma quiet_updates [quiet]:
  "rs_broadcasts (send_update u s) = rs_broadcasts s"
  "rs_broadcasts (requeue e s) = rs_broadcasts s"
  "rs_db (send_update u s) = rs_db s" "rs_db (requeue e s) = rs_db s"
  by (simp_all add: send_update_def requeue_def)

lemma quiet_entry [quiet]:
  "rs_broadcasts (send_manual_review w e r s) = rs_broadcasts s"
  "rs_broadcasts (send_reminted_alert os w e i g m s) = rs_broadcasts s"
  "rs_broadcasts (send_completed os w e g s) = rs_broadcasts s"
  "rs_broadcasts (requeue_in_flight w e s) = rs_broadcasts s"
  "rs_broadcasts (requeue_free_wait w e s) = rs_broadcasts s"
  "rs_db (send_manual_review w e r s) = rs_db s"
  "rs_db (send_reminted_alert os w e i g m s) = rs_db s"
  "rs_db (send_completed os w e g s) = rs_db s"
  "rs_db (requeue_in_flight w e s) = rs_db s"
  "rs_db (requeue_free_wait w e s) = rs_db s"
  by (simp_all add: send_manual_review_def send_reminted_alert_def send_completed_def
      requeue_in_flight_def requeue_free_wait_def quiet split: option.splits)

lemma quiet_defer [quiet]: "rs_broadcasts (defer_or_escalate w e r s) = rs_broadcasts s"
  by (simp add: defer_or_escalate_def Let_def quiet split: option.splits prod.splits sum.splits)

lemma quiet_record:
  "record_confirmed os w e g s = (outcome, s') \<Longrightarrow> rs_broadcasts s' = rs_broadcasts s"
  by (auto simp: record_confirmed_def Let_def quiet
      split: option.splits prod.splits sum.splits tx_status.splits)

lemma quiet_history [quiet]:
  "remint_history sx w info s = Some (v, s') \<Longrightarrow> rs_broadcasts s' = rs_broadcasts s"
  by (auto simp: remint_history_def split: option.splits)

text \<open>The claim that goes before a send.\<close>

definition sends ::
  "'c sender_sdk_scheme \<Rightarrow> remint_world \<Rightarrow> remint_info \<Rightarrow> string list \<Rightarrow> ledger_db \<Rightarrow> bytes \<Rightarrow> ledger_db \<Rightarrow> bool" where
  "sends sx w info dead db g db' \<longleftrightarrow>
     (\<exists>ixs lvbh slot height bslot. rw_sign w ixs = Inr (g, lvbh, slot)
        \<and> write_db (rw_calls w ClaimAttempt) (claim_remint_attempt (rw_now w) (ri_transaction_id info)
             (os_bs58_encode sx g) height bslot dead) db = (Inr Claimed, db'))"

lemma claim_and_send_cases:
  assumes "claim_and_send sx w info dead s = (a, s')"
  obtains "rs_broadcasts s' = rs_broadcasts s"
  | g where "sends sx w info dead (rs_db s) g (rs_db s')"
      "rs_broadcasts s' = rs_broadcasts s @ [(ri_transaction_id info, g)]"
proof (cases "MintToBuilder_instructions sx (remint_builder w info)")
  case (Inl e)
  with assms that(1) show ?thesis by (simp add: claim_and_send_def)
next
  case (Inr ixs)
  show ?thesis
  proof (cases "rw_sign w ixs")
    case (Inl e)
    with assms that(1) Inr show ?thesis by (simp add: claim_and_send_def)
  next
    case (Inr signed)
    obtain g lvbh slot where g: "signed = (g, lvbh, slot)" by (cases signed)
    obtain r db where c: "write_db (rw_calls w ClaimAttempt) (claim_remint_attempt (rw_now w)
        (ri_transaction_id info) (os_bs58_encode sx g)
        (case i64_of_u64 lvbh of Some i \<Rightarrow> i | None \<Rightarrow> I64_MAX) (i64_of_u64 slot) dead) (rs_db s) = (r, db)"
      by fastforce
    note d = assms [unfolded claim_and_send_def \<open>MintToBuilder_instructions _ _ = _\<close> sum.case Inr g
        prod.case c]
    show ?thesis
    proof (cases "r = Inr Claimed")
      case True
      with d have "rs_db s' = db" "rs_broadcasts s' = rs_broadcasts s @ [(ri_transaction_id info, g)]"
        by (auto simp: Let_def split: option.splits sum.splits confirmation_result.splits)
      with that(2) True c Inr g show ?thesis unfolding sends_def by blast
    next
      case False
      with d that(1) show ?thesis by (auto split: sum.splits remint_claim.splits)
    qed
  qed
qed

lemma attempt_remint_cases:
  assumes "attempt_remint sx w pt info s = Some (a, s')"
  obtains "rs_broadcasts s' = rs_broadcasts s"
  | v s1 stored db dead g where "remint_history sx w info s = Some (None, s1)"
      "read_db (rw_calls w ReadRemintJournal) (get_remint_signatures (ri_transaction_id info)) (rs_db s1)
         = (Inr stored, db)"
      "prior_attempts sx w pt stored = Inr dead" "sends sx w info dead db g (rs_db s')"
      "rs_broadcasts s' = rs_broadcasts s @ [(ri_transaction_id info, g)]"
proof -
  from assms obtain v s1 where h: "remint_history sx w info s = Some (v, s1)"
    and rest: "(case v of Some attempt \<Rightarrow> (attempt, s1)
       | None \<Rightarrow>
           (case read_db (rw_calls w ReadRemintJournal) (get_remint_signatures (ri_transaction_id info)) (rs_db s1) of
              (Inl e, db) \<Rightarrow> (AttemptDeferInFlight JournalUnreadable, s1\<lparr>rs_db := db\<rparr>)
            | (Inr stored, db) \<Rightarrow>
                (case prior_attempts sx w pt stored of
                   Inl attempt \<Rightarrow> (attempt, s1\<lparr>rs_db := db\<rparr>)
                 | Inr proven_dead \<Rightarrow> claim_and_send sx w info proven_dead (s1\<lparr>rs_db := db\<rparr>)))) = (a, s')"
    by (auto simp: attempt_remint_def)
  note b = quiet_history [OF h]
  show ?thesis
  proof (cases v)
    case (Some x)
    with rest b that(1) show ?thesis by simp
  next
    case None
    obtain r db where rd: "read_db (rw_calls w ReadRemintJournal)
        (get_remint_signatures (ri_transaction_id info)) (rs_db s1) = (r, db)" by fastforce
    show ?thesis
    proof (cases r)
      case (Inl e)
      with rest None rd b that(1) show ?thesis by auto
    next
      case (Inr stored)
      show ?thesis
      proof (cases "prior_attempts sx w pt stored")
        case (Inl x)
        with rest None rd Inr b that(1) show ?thesis by auto
      next
        case (Inr dead)
        with rest None rd \<open>r = Inr stored\<close>
        have "claim_and_send sx w info dead (s1\<lparr>rs_db := db\<rparr>) = (a, s')" by simp
        then show ?thesis
          using that h None rd \<open>r = Inr stored\<close> Inr b by (cases rule: claim_and_send_cases) auto
      qed
    qed
  qed
qed

lemma refund_entry_broadcasts:
  assumes "refund_entry sx w pt entry s = Some s'"
    "attempt_remint sx w pt (pr_remint_info entry) s = Some (a, s1)"
  shows "rs_broadcasts s' = rs_broadcasts s1"
  using assms
  by (auto simp: refund_entry_def execute_deferred_remint_def quiet dest: quiet_record
      split: remint_attempt.splits deferred_outcome.splits option.splits prod.splits)

lemma refund_entry_cases:
  assumes "refund_entry sx w pt entry s = Some s'"
  obtains "rs_broadcasts s' = rs_broadcasts s"
  | a s1 where "attempt_remint sx w pt (pr_remint_info entry) s = Some (a, s1)"
      "rs_broadcasts s' = rs_broadcasts s1" "rs_broadcasts s1 \<noteq> rs_broadcasts s"
proof -
  from assms obtain a s1 where a: "attempt_remint sx w pt (pr_remint_info entry) s = Some (a, s1)"
    by (auto simp: refund_entry_def execute_deferred_remint_def)
  with refund_entry_broadcasts [OF assms] that show ?thesis
    by (cases "rs_broadcasts s1 = rs_broadcasts s") auto
qed

definition closed_entry ::
  "'c operator_sdk_scheme \<Rightarrow> remint_world \<Rightarrow> address option \<Rightarrow> pending_remint \<Rightarrow> pending_remint" where
  "closed_entry od w instance_pda entry =
     (if pr_coverage_slot entry = None
      then entry\<lparr>pr_coverage_slot := snd (bitmap_verdict_of od w instance_pda entry)\<rparr> else entry)"

lemma closed_entry_simps [simp]:
  "pr_ctx (closed_entry od w i e) = pr_ctx e"
  "pr_remint_info (closed_entry od w i e) = pr_remint_info e"
  "pr_release_refused_on_chain (closed_entry od w i e) = pr_release_refused_on_chain e"
  by (simp_all add: closed_entry_def)

lemma settle_dead_unfold:
  "settle_dead sx w pt i entry s =
     (let entry' = closed_entry sx w i entry in
      case fst (bitmap_verdict_of sx w i entry) of
        BlockedBit reason \<Rightarrow> Some (send_manual_review w entry' reason s)
      | Unfinalized reason \<Rightarrow> Some (defer_or_escalate w entry' reason s)
      | PendingBit reason \<Rightarrow>
          if \<not> pr_release_refused_on_chain entry'
          then Some (if pr_free_waits entry' < MAX_FREE_WAITS then requeue_free_wait w entry' s
                     else defer_or_escalate w entry' reason s)
          else settle_by_record sx w pt entry' True s
      | UnknownBit reason \<Rightarrow>
          if \<not> pr_release_refused_on_chain entry' then Some (defer_or_escalate w entry' reason s)
          else settle_by_record sx w pt entry' False s
      | Clear \<Rightarrow> settle_by_record sx w pt entry' False s)"
  unfolding settle_dead_def closed_entry_def Let_def case_prod_beta ..

lemma release_record_entry:
  "release_record_of w entry pending db = (v, entry', db') \<Longrightarrow>
   pr_remint_info entry' = pr_remint_info entry \<and> pr_ctx entry' = pr_ctx entry"
  by (auto simp: release_record_of_def release_coverage_of_def Let_def
      split: option.splits prod.splits sum.splits if_splits release_coverage.splits)

lemma settle_by_record_sends:
  assumes "settle_by_record sx w pt entry pending s = Some s'" "rs_broadcasts s' \<noteq> rs_broadcasts s"
  obtains entry' db where "release_record_of w entry pending (rs_db s) = (ProvenAbsent, entry', db)"
    "refund_entry sx w pt entry' (s\<lparr>rs_db := db\<rparr>) = Some s'"
proof -
  obtain v entry' db where r: "release_record_of w entry pending (rs_db s) = (v, entry', db)"
    by (cases "release_record_of w entry pending (rs_db s)")
  with assms have "v = ProvenAbsent" "refund_entry sx w pt entry' (s\<lparr>rs_db := db\<rparr>) = Some s'"
    by (auto simp: settle_by_record_def Let_def quiet split: release_record.splits if_splits)
  with r that show ?thesis by simp
qed

lemma process_entry_sends:
  assumes "process_entry sx pt i w entry s = Some s'" "rs_broadcasts s' \<noteq> rs_broadcasts s"
  obtains pending entry' db where
    "classify_signatures (dest_finality pt w) (pr_signatures entry) = Dead"
    "fst (bitmap_verdict_of sx w i entry) = Clear \<or> pr_release_refused_on_chain entry"
    "release_record_of w (closed_entry sx w i entry) pending (rs_db s) = (ProvenAbsent, entry', db)"
    "refund_entry sx w pt entry' (s\<lparr>rs_db := db\<rparr>) = Some s'"
proof -
  from assms have d: "classify_signatures (dest_finality pt w) (pr_signatures entry) = Dead"
    and sd: "settle_dead sx w pt i entry s = Some s'"
    by (auto simp: process_entry_def quiet split: sig_finality.splits if_splits)
  then obtain pending where
    v: "fst (bitmap_verdict_of sx w i entry) = Clear \<or> pr_release_refused_on_chain entry"
    and sr: "settle_by_record sx w pt (closed_entry sx w i entry) pending s = Some s'"
    using assms(2) unfolding settle_dead_unfold Let_def
    by (auto simp: quiet split: bitmap_verdict.splits if_splits)
  show ?thesis
    by (rule settle_by_record_sends [OF sr assms(2)]) (rule that [OF d v])
qed

section \<open>The release did not pay\<close>

text \<open>
  The indexer's record: a release of the run is on record once the escrow checkpoint has reached its
  slot. Other tasks only add to it.
\<close>

definition releases_recorded :: "(u64 \<Rightarrow> nat) \<Rightarrow> u64 list \<Rightarrow> ledger_db \<Rightarrow> bool" where
  "releases_recorded released_at rel db \<longleftrightarrow>
     (\<forall>n\<in>set rel. \<forall>c. get_committed_checkpoint (program_key Escrow) (db_indexer_state db) = Some c \<longrightarrow>
        released_at n \<le> unat c \<longrightarrow> sint n \<in> or_withdrawal_nonce ` set (db_observed_releases db))"

definition record_grows :: "(u64 \<Rightarrow> nat) \<Rightarrow> u64 list \<Rightarrow> storage_call \<Rightarrow> bool" where
  "record_grows released_at rel c \<longleftrightarrow>
     (\<forall>db. (releases_recorded released_at rel db \<longrightarrow> releases_recorded released_at rel (sc_others c db))
        \<and> set (db_observed_releases db) \<subseteq> set (db_observed_releases (sc_others c db)))"

lemma read_db_Inr: "read_db c f db = (Inr v, db') \<longleftrightarrow> sc_fault c = Healthy \<and> db' = sc_others c db \<and> f db' = v"
  by (auto simp: read_db_def split: fault.splits)

lemma proven_absent:
  assumes "release_record_of w entry pending db = (ProvenAbsent, entry', db')"
    "tc_withdrawal_nonce (pr_ctx entry) = Some nonce"
  obtains bound c where "pr_coverage_slot entry = Some bound"
    "get_committed_checkpoint (program_key Escrow)
       (db_indexer_state (sc_others (rw_calls w ReadCheckpoint) db)) = Some c" "bound \<le> c"
    "get_observed_release (sint nonce) (sc_others (rw_calls w ReadRelease)
       (sc_others (rw_calls w ReadCheckpoint) db)) = None"
proof -
  obtain cov e db1 where c: "release_coverage_of w entry nonce pending db = (cov, e, db1)"
    by (cases "release_coverage_of w entry nonce pending db")
  with assms have cov: "cov = Covered"
    and rd: "read_db (rw_calls w ReadRelease) (get_observed_release (sint nonce)) db1 = (Inr None, db')"
    by (auto simp: release_record_of_def Let_def split: prod.splits sum.splits option.splits
        release_coverage.splits)
  from c cov obtain bound ck where "pr_coverage_slot entry = Some bound"
    "read_db (rw_calls w ReadCheckpoint)
       (\<lambda>db. get_committed_checkpoint (program_key Escrow) (db_indexer_state db)) db = (Inr (Some ck), db1)"
    "bound \<le> ck"
    by (auto simp: release_coverage_of_def Let_def split: option.splits prod.splits sum.splits if_splits)
  with rd that show ?thesis by (auto simp: read_db_Inr)
qed

definition record_settles ::
  "(u64 \<Rightarrow> nat) \<Rightarrow> u64 list \<Rightarrow> remint_world \<Rightarrow> pending_remint \<Rightarrow> u64 \<Rightarrow> ledger_db \<Rightarrow> bool" where
  "record_settles released_at rel w entry nonce db \<longleftrightarrow>
     releases_recorded released_at rel db
     \<and> record_grows released_at rel (rw_calls w ReadCheckpoint)
     \<and> record_grows released_at rel (rw_calls w ReadRelease)
     \<and> (\<forall>bound. pr_coverage_slot entry = Some bound \<longrightarrow> nonce \<in> set rel \<longrightarrow> released_at nonce \<le> unat bound)"

lemma recorded_unreleased:
  assumes "record_settles released_at rel w entry nonce db"
    "release_record_of w entry pending db = (ProvenAbsent, entry', db')"
    "tc_withdrawal_nonce (pr_ctx entry) = Some nonce"
  shows "nonce \<notin> set rel"
proof
  assume mem: "nonce \<in> set rel"
  let ?db1 = "sc_others (rw_calls w ReadCheckpoint) db"
  let ?db2 = "sc_others (rw_calls w ReadRelease) ?db1"
  obtain bound c where b: "pr_coverage_slot entry = Some bound"
    "get_committed_checkpoint (program_key Escrow) (db_indexer_state ?db1) = Some c" "bound \<le> c"
    and absent: "get_observed_release (sint nonce) ?db2 = None"
    by (rule proven_absent [OF assms(2,3)])
  have "releases_recorded released_at rel ?db1"
    using assms(1) by (simp add: record_settles_def record_grows_def)
  with b mem assms(1) have "sint nonce \<in> or_withdrawal_nonce ` set (db_observed_releases ?db1)"
    by (force simp: record_settles_def releases_recorded_def word_le_nat_alt)
  moreover have "set (db_observed_releases ?db1) \<subseteq> set (db_observed_releases ?db2)"
    using assms(1) by (simp add: record_settles_def record_grows_def)
  ultimately have "sint nonce \<in> or_withdrawal_nonce ` set (db_observed_releases ?db2)" by blast
  with absent show False by (auto simp: get_observed_release_def find_None_iff)
qed

lemma clear_bit_unreleased:
  assumes "escrow_run (od_find_program_address od) i l rel" "bitmap_header_contract od"
    "answers_with (rw_solana w) (bitmap_address (od_find_program_address od) i) l"
    "tc_withdrawal_nonce (pr_ctx entry) = Some nonce"
    "fst (bitmap_verdict_of od w (Some i) entry) = Clear"
  shows "nonce \<notin> set rel"
proof -
  obtain v s where v: "verify_release_landed_at od (rw_solana w) (Some i) nonce
      (max_lvbh (pr_signatures entry)) = (v, s)" by fastforce
  with assms(4,5) have "v = NotLanded"
    by (auto simp: bitmap_verdict_of_def split: release_verdict.splits sum.splits bool.splits)
  with v not_landed_unreleased [OF assms(1-3)] show ?thesis by blast
qed


section \<open>What the refund journal keeps\<close>

type_synonym refund_attempt = "int \<times> string \<times> int \<times> int option"

definition refund_attempts :: "ledger_db \<Rightarrow> refund_attempt list" where
  "refund_attempts db = map (\<lambda>s. (ss_transaction_id s, ss_signature s, ss_last_valid_block_height s,
     ss_blockhash_slot s)) (db_pending_remint_signatures db)"

definition sound_db :: "ledger_db \<Rightarrow> bool" where
  "sound_db db \<longleftrightarrow> ids_inv db \<and> one_live db"

text \<open>
  From one database to a later one, only attempts of \<open>V\<close> are added, an attempt is dropped only with
  its row settled, and a settled row stays settled.
\<close>

definition refund_frame :: "(refund_attempt \<Rightarrow> bool) \<Rightarrow> ledger_db \<Rightarrow> ledger_db \<Rightarrow> bool" where
  "refund_frame V db db' \<longleftrightarrow> (sound_db db \<longrightarrow> sound_db db'
     \<and> (\<forall>i. is_terminal i db \<longrightarrow> is_terminal i db')
     \<and> (\<forall>a\<in>set (refund_attempts db'). a \<in> set (refund_attempts db) \<or> V a)
     \<and> (\<forall>a\<in>set (refund_attempts db). a \<in> set (refund_attempts db') \<or> is_terminal (fst a) db'))"

lemma frame_refl [simp]: "refund_frame V db db"
  by (simp add: refund_frame_def)

lemma frame_trans [trans]: "refund_frame V a b \<Longrightarrow> refund_frame V b c \<Longrightarrow> refund_frame V a c"
  unfolding refund_frame_def by blast

definition same_attempts :: "ledger_db \<Rightarrow> ledger_db \<Rightarrow> bool" where
  "same_attempts db db' \<longleftrightarrow> refund_attempts db' = refund_attempts db"

lemma attempts_retire [simp]:
  "map (\<lambda>s. (ss_transaction_id s, ss_signature s, ss_last_valid_block_height s, ss_blockhash_slot s))
     (retire i dead sigs) =
   map (\<lambda>s. (ss_transaction_id s, ss_signature s, ss_last_valid_block_height s, ss_blockhash_slot s)) sigs"
  by (simp add: retire_def)

lemma same_only_rows: "only_rows now db db' \<Longrightarrow> same_attempts db db'"
  by (auto simp: only_rows_def refund_attempts_def same_attempts_def)

lemma same_appends: "appends now db db' \<Longrightarrow> same_attempts db db'"
  by (auto simp: appends_def refund_attempts_def same_attempts_def)

lemma same_tracked: "tracked db' = tracked db \<Longrightarrow> same_attempts db db'"
  by (simp add: tracked_def refund_attempts_def same_attempts_def)

lemma attempts_claim:
  assumes "claim_remint_attempt now i sig h bs dead db = (r, db')"
  shows "refund_attempts db' = refund_attempts db @ (if r = Inr Claimed then [(i, sig, h, bs)] else [])"
  by (rule claim_remint_cases [OF assms]) (auto simp: refund_attempts_def)

lemma same_refused:
  "claim_remint_attempt now i sig h bs dead db = (r, db') \<Longrightarrow> r \<noteq> Inr Claimed \<Longrightarrow> same_attempts db db'"
  unfolding same_attempts_def by (drule attempts_claim) simp

lemma same_journal_calls:
  "same_attempts db (snd (insert_release_signature i sig h bs db))"
  "same_attempts db (snd (gc_stale_release_signatures db))"
  by (auto simp: insert_release_signature_def gc_stale_release_signatures_def Let_def refund_attempts_def
      same_attempts_def)

lemma same_claim_release:
  assumes "claim_and_persist_signature now i tok sig h bs db = (Inr (Some lease), db')"
  shows "same_attempts db db'"
proof -
  have "db' = db\<lparr>db_transactions := db_transactions db',
      db_pending_release_signatures := db_pending_release_signatures db'\<rparr>"
    by (rule claim_granted_spec [OF assms])
  then have "db_pending_remint_signatures db' = db_pending_remint_signatures db"
    by (metis ledger_db.ext_inject ledger_db.surjective ledger_db.update_convs(1,7))
  then show ?thesis by (simp add: same_attempts_def refund_attempts_def)
qed

text \<open>What other tasks do: any call but the forgetting of a journal, a wipe, or a refund claim.\<close>

definition plain_event :: "ledger_event \<Rightarrow> bool" where
  "plain_event ev \<longleftrightarrow> (ev = Wrote \<or> (\<exists>i tok. ev = Granted i tok))"

lemma plain_event_simps [simp]:
  "plain_event Wrote" "plain_event (Granted i tok)" "\<not> plain_event (RemintGranted i sig)"
  "\<not> plain_event (Forgot i)" "\<not> plain_event (Wiped p)"
  by (simp_all add: plain_event_def)

lemma step_attempts:
  assumes "ledger_step now ev db db'" "plain_event ev" "ids_inv db"
  shows "same_attempts db db' \<or> db' = snd (gc_stale_remint_signatures db)"
  using assms
  by (cases rule: ledger_step.cases)
    (simp_all add: same_only_rows [where now = now] rows_of_call ids_inv_distinct same_tracked
      untracked_calls same_journal_calls same_appends [where now = now] insert_calls_append same_claim_release same_refused)

lemma gc_attempts:
  "set (refund_attempts (snd (gc_stale_remint_signatures db))) \<subseteq> set (refund_attempts db)"
  "a \<in> set (refund_attempts db) \<Longrightarrow>
   a \<in> set (refund_attempts (snd (gc_stale_remint_signatures db))) \<or> is_terminal (fst a) db"
  by (auto simp: refund_attempts_def gc_stale_remint_signatures_def Let_def)

lemma step_frame:
  assumes "ledger_step now ev db db'" "plain_event ev"
  shows "refund_frame V db db'"
  unfolding refund_frame_def
proof
  assume s: "sound_db db"
  then have st: "sound_step now ev db db'"
    using step_sound [OF assms(1)] assms(2) by (cases ev) (auto simp: sound_db_def)
  then have t: "sound_db db'" "\<And>i. is_terminal i db \<Longrightarrow> is_terminal i db'"
    using s terminal_stays by (auto simp: sound_db_def sound_step_def)
  have "same_attempts db db' \<or> db' = snd (gc_stale_remint_signatures db)"
    using step_attempts [OF assms] s by (simp add: sound_db_def)
  then have "set (refund_attempts db') \<subseteq> set (refund_attempts db)
      \<and> (\<forall>a\<in>set (refund_attempts db). a \<in> set (refund_attempts db') \<or> is_terminal (fst a) db)"
  proof
    assume "same_attempts db db'"
    then show ?thesis by (simp add: same_attempts_def)
  next
    assume gc: "db' = snd (gc_stale_remint_signatures db)"
    show ?thesis unfolding gc using gc_attempts [where db = db] by blast
  qed
  with t show "sound_db db' \<and> (\<forall>i. is_terminal i db \<longrightarrow> is_terminal i db')
      \<and> (\<forall>a\<in>set (refund_attempts db'). a \<in> set (refund_attempts db) \<or> V a)
      \<and> (\<forall>a\<in>set (refund_attempts db). a \<in> set (refund_attempts db') \<or> is_terminal (fst a) db')"
    by blast
qed

definition calm_run :: "ledger_db \<Rightarrow> ledger_db \<Rightarrow> bool" where
  "calm_run db db' \<longleftrightarrow> (\<exists>t evs t'. ledger_run t db evs t' db' \<and> list_all plain_event evs)"

lemma calm_refl: "calm_run db db"
  unfolding calm_run_def by (intro exI [of _ "[]"] exI [of _ 0]) (simp add: ledger_run.start)

lemma calm_frame: "calm_run db db' \<Longrightarrow> refund_frame V db db'"
proof -
  have "ledger_run t db evs t' db' \<Longrightarrow> list_all plain_event evs \<Longrightarrow> refund_frame V db db'" for t evs t'
  proof (induction rule: ledger_run.induct)
    case (step t db evs t' db' now ev db'')
    then show ?case using step_frame frame_trans by auto
  qed simp
  then show "calm_run db db' \<Longrightarrow> refund_frame V db db'" unfolding calm_run_def by blast
qed

definition calm_call :: "storage_call \<Rightarrow> bool" where
  "calm_call c \<longleftrightarrow> (\<forall>db. calm_run db (sc_others c db))"

lemma others_frame: "calm_call c \<Longrightarrow> refund_frame V db (sc_others c db)"
  by (simp add: calm_call_def calm_frame)

lemma read_frame: "calm_call c \<Longrightarrow> read_db c f db = (r, db') \<Longrightarrow> refund_frame V db db'"
  by (auto simp: read_db_def others_frame split: fault.splits)

lemma faulty_cases:
  assumes "faulty f op db = (r, db')"
  obtains "db' = db" "\<And>v. r \<noteq> Inr v" | "db' = snd (op db)" "\<And>v. r = Inr v \<Longrightarrow> op db = (Inr v, db')"
  using assms by (cases f; cases "op db") (auto simp: faulty_def split: nat.splits sum.splits)

lemma write_frame:
  assumes "calm_call c" "\<And>db. refund_frame V db (snd (op db))" "write_db c op db = (r, db')"
  shows "refund_frame V db db'"
  using assms(3) unfolding write_db_def
  by (rule faulty_cases) (auto simp: others_frame assms(1) intro: frame_trans [OF _ assms(2)])

lemma backoff_cases:
  assumes "with_storage_backoff op db = (r, db')" "\<And>n d v d'. op n d = (v, d') \<Longrightarrow> refund_frame V d d'"
  shows "refund_frame V db db' \<and> (\<forall>v. r = Inr v \<longrightarrow> (\<exists>n d. op n d = (Inr v, db')))"
proof -
  have "backoff_attempts k op d = (r, d') \<Longrightarrow>
      refund_frame V d d' \<and> (\<forall>v. r = Inr v \<longrightarrow> (\<exists>n d. op n d = (Inr v, d')))" for k d d'
  proof (induction k arbitrary: d)
    case (Suc k d)
    obtain x d1 where c: "op k d = (x, d1)" by fastforce
    note f = assms(2) [OF c]
    show ?case
    proof (cases x)
      case (Inl e)
      with Suc c f show ?thesis by (auto split: if_splits intro: frame_trans)
    next
      case (Inr v)
      with Suc.prems c f show ?thesis by auto
    qed
  qed auto
  from this [OF assms(1) [unfolded with_storage_backoff_def]] show ?thesis .
qed

section \<open>What one entry does to the database\<close>

lemma step_write_frame:
  assumes "\<And>db. ledger_step now Wrote db (snd (op db))" "calm_call c" "write_db c op db = (r, db')"
  shows "refund_frame V db db'"
  by (rule write_frame [OF assms(2) _ assms(3)]) (rule step_frame [OF assms(1)], simp)

definition calm_world :: "remint_world \<Rightarrow> bool" where
  "calm_world w \<longleftrightarrow> (\<forall>c. calm_call (rw_calls w c))"

lemma calm_calls: "calm_world w \<Longrightarrow> calm_call (rw_calls w c)"
  by (simp add: calm_world_def)

lemma defer_frame: "calm_world w \<Longrightarrow> refund_frame V (rs_db s) (rs_db (defer_or_escalate w e r s))"
  by (auto simp: defer_or_escalate_def Let_def quiet split: option.splits prod.splits sum.splits
      intro: step_write_frame [OF ledger_step.bump] calm_calls)

lemma coverage_frame:
  assumes "calm_world w" "release_coverage_of w e n p db = (c, e', db')"
  shows "refund_frame V db db'"
  using assms(2) read_frame [OF calm_calls [OF assms(1)]]
  by (auto simp: release_coverage_of_def Let_def split: option.splits prod.splits sum.splits if_splits)

lemma record_frame:
  assumes "calm_world w" "release_record_of w e p db = (v, e', db')"
  shows "refund_frame V db db'"
proof (cases "tc_withdrawal_nonce (pr_ctx e)")
  case (Some nonce)
  obtain c e1 db1 where c: "release_coverage_of w e nonce p db = (c, e1, db1)"
    by (cases "release_coverage_of w e nonce p db")
  obtain r db2 where r: "read_db (rw_calls w ReadRelease) (get_observed_release (sint nonce)) db1 = (r, db2)"
    by fastforce
  with assms(2) Some c have "db' = db2"
    by (auto simp: release_record_of_def Let_def split: sum.splits option.splits)
  with frame_trans [OF coverage_frame [OF assms(1) c] read_frame [OF calm_calls [OF assms(1)] r]]
  show ?thesis by simp
qed (use assms(2) in \<open>simp add: release_record_of_def\<close>)

lemma walk_mint_db:
  assumes "walk_mint os rpc mint cache db = Some (res, cache', db')"
  shows "db' = db \<or> (\<exists>rows. db' = snd (insert_consumed_mints rows db))"
proof (cases "mint \<in> set (cc_walked cache)")
  case False
  let ?known = "get_newest_known_mint_signatures (pubkey_to_string os mint) (cc_role cache) db"
  note d = assms [unfolded walk_mint_def Let_def, simplified False if_False]
  show ?thesis
  proof (cases "map_result (\<lambda>g. ok_orE (os_signature_from_str os g) (BadStoredSignature g)) ?known")
    case (Inr stop_at)
    obtain walk where c: "collect_mints os rpc (MintScope mint) (cc_page_limit cache) stop_at
        (Some (role_kind (cc_role cache))) [] = Some walk" using d Inr by auto
    note e = d [unfolded Inr sum.case c option.map option.inject]
    show ?thesis
    proof (cases walk)
      case (Inr x)
      obtain p met found where x: "x = ((p, met), found)" by (metis surj_pair)
      have "db' \<in> {db, snd (insert_consumed_mints (map (\<lambda>(e, c). consumed_to_db os e c) found) db)}"
        using e unfolding Inr x by (auto split: sum.splits prod.splits if_splits)
      then show ?thesis by auto
    qed (use e in simp)
  qed (use d in simp)
qed (use assms in \<open>simp add: walk_mint_def\<close>)

lemma lookup_event_db:
  assumes "ConsumedClaims_lookup_event os rpc index mint event claims db = Some (res, claims', db')"
  shows "db' = db \<or> (\<exists>rows. db' = snd (insert_consumed_mints rows db))"
  using assms walk_mint_db [of os rpc mint "cl_cache claims" db]
  by (auto simp: ConsumedClaims_lookup_event_def lookup_event_def split: sum.splits if_splits)

lemma history_frame:
  assumes "calm_world w" "remint_history sx w info s = Some (v, s')"
  shows "refund_frame V (rs_db s) (rs_db s')"
proof (cases "rs_claims s")
  case (Some claims)
  with assms(2) obtain res claims' where "ConsumedClaims_lookup_event sx (rw_channel w) (rw_index w)
      (ri_mint info) (ri_source_event_id info) claims (sc_others (rw_calls w HistoryLookup) (rs_db s))
      = Some (res, claims', rs_db s')"
    by (auto simp: remint_history_def)
  then have "refund_frame V (sc_others (rw_calls w HistoryLookup) (rs_db s)) (rs_db s')"
    by (auto dest!: lookup_event_db intro: step_frame [OF ledger_step.consumed plain_event_simps(1)])
  with others_frame [OF calm_calls [OF assms(1)]] show ?thesis by (rule frame_trans)
qed (use assms(2) in \<open>simp add: remint_history_def\<close>)

text \<open>An attempt is valid if it is only ever included while its blockhash is.\<close>

definition valid_attempt :: "'c channel_sdk_scheme \<Rightarrow> inclusion \<Rightarrow> refund_attempt \<Rightarrow> bool" where
  "valid_attempt os incl a = (case a of (i, sig, h, bs) \<Rightarrow>
     \<forall>p. stored_pending_sig os \<lparr>ss_transaction_id = i, ss_signature = sig, ss_last_valid_block_height = h,
           ss_blockhash_slot = bs, ss_superseded = False\<rparr> = Inr p \<longrightarrow> within_validity Channel incl p)"

definition honest_world :: "inclusion \<Rightarrow> remint_world \<Rightarrow> bool" where
  "honest_world incl w \<longleftrightarrow> calm_world w
     \<and> (\<forall>gs. truthful_endpoint Channel incl (rw_source w) gs)
     \<and> (\<forall>ixs g lvbh slot. rw_sign w ixs = Inr (g, lvbh, slot) \<longrightarrow> length g = 64 \<and> uint lvbh < 2 ^ 63
          \<and> within_validity Channel incl \<lparr>pg_signature = g, pg_last_valid_block_height = lvbh,
              pg_blockhash_slot = Some slot\<rparr>)"

lemma claim_frame:
  assumes "V (i, sig, h, bs)"
  shows "refund_frame V db (snd (claim_remint_attempt now i sig h bs dead db))"
  unfolding refund_frame_def
proof
  assume s: "sound_db db"
  obtain r db' where c: "claim_remint_attempt now i sig h bs dead db = (r, db')" by fastforce
  from sound_remint [OF _ c, of Wrote] s have "sound_step now Wrote db db'" by (simp add: sound_db_def)
  then have t: "sound_db db'" "\<And>i. is_terminal i db \<Longrightarrow> is_terminal i db'"
    using s terminal_stays by (auto simp: sound_db_def sound_step_def)
  let ?c = "snd (claim_remint_attempt now i sig h bs dead db)"
  from t attempts_claim [OF c] assms show "sound_db ?c \<and> (\<forall>i. is_terminal i db \<longrightarrow> is_terminal i ?c)
      \<and> (\<forall>a\<in>set (refund_attempts ?c). a \<in> set (refund_attempts db) \<or> V a)
      \<and> (\<forall>a\<in>set (refund_attempts db). a \<in> set (refund_attempts ?c) \<or> is_terminal (fst a) ?c)"
    unfolding c by auto
qed

lemma signed_valid:
  assumes "channel_sdk_contract sx" "length g = 64" "uint lvbh < 2 ^ 63"
    "within_validity Channel incl \<lparr>pg_signature = g, pg_last_valid_block_height = lvbh,
       pg_blockhash_slot = Some slot\<rparr>"
  shows "valid_attempt sx incl (i, os_bs58_encode sx g,
    case i64_of_u64 lvbh of Some i \<Rightarrow> i | None \<Rightarrow> I64_MAX, i64_of_u64 slot)"
proof -
  have "os_signature_from_str sx (os_bs58_encode sx g) = Some g"
    using assms(1,2) by (simp add: channel_sdk_contract_def)
  then show ?thesis
    using assms(3,4)
    by (auto simp: valid_attempt_def stored_pending_sig_def i64_of_u64_def u64_of_i64_def
        within_validity_def split: if_splits)
qed

lemma claim_and_send_frame:
  assumes "channel_sdk_contract sx" "honest_world incl w" "claim_and_send sx w info dead s = (a, s')"
  shows "refund_frame (valid_attempt sx incl) (rs_db s) (rs_db s')"
proof (cases "MintToBuilder_instructions sx (remint_builder w info)")
  case (Inl e)
  with assms(3) show ?thesis by (simp add: claim_and_send_def)
next
  case (Inr ixs)
  show ?thesis
  proof (cases "rw_sign w ixs")
    case (Inl e)
    with assms(3) Inr show ?thesis by (simp add: claim_and_send_def)
  next
    case (Inr signed)
    obtain g lvbh slot where g: "signed = (g, lvbh, slot)" by (cases signed)
    obtain r db where c: "write_db (rw_calls w ClaimAttempt) (claim_remint_attempt (rw_now w)
        (ri_transaction_id info) (os_bs58_encode sx g)
        (case i64_of_u64 lvbh of Some i \<Rightarrow> i | None \<Rightarrow> I64_MAX) (i64_of_u64 slot) dead) (rs_db s) = (r, db)"
      by fastforce
    have "valid_attempt sx incl (ri_transaction_id info, os_bs58_encode sx g,
        case i64_of_u64 lvbh of Some i \<Rightarrow> i | None \<Rightarrow> I64_MAX, i64_of_u64 slot)"
      using signed_valid [OF assms(1), of g lvbh incl slot] assms(2) Inr g by (simp add: honest_world_def)
    then have "refund_frame (valid_attempt sx incl) (rs_db s) db"
      using assms(2) by (intro write_frame [OF _ claim_frame c]) (simp_all add: honest_world_def calm_calls)
    moreover have "rs_db s' = db"
      using assms(3) [unfolded claim_and_send_def \<open>MintToBuilder_instructions _ _ = _\<close> sum.case Inr g
        prod.case c]
      by (auto simp: Let_def split: option.splits sum.splits confirmation_result.splits remint_claim.splits)
    ultimately show ?thesis by simp
  qed
qed

lemma attempt_frame:
  assumes "channel_sdk_contract sx" "honest_world incl w" "attempt_remint sx w pt info s = Some (a, s')"
  shows "refund_frame (valid_attempt sx incl) (rs_db s) (rs_db s')"
proof -
  have calm: "calm_world w" using assms(2) by (simp add: honest_world_def)
  from assms(3) obtain v s1 where h: "remint_history sx w info s = Some (v, s1)"
    by (auto simp: attempt_remint_def)
  obtain r db where rd: "read_db (rw_calls w ReadRemintJournal)
      (get_remint_signatures (ri_transaction_id info)) (rs_db s1) = (r, db)" by fastforce
  have f: "refund_frame (valid_attempt sx incl) (rs_db s1) db"
    by (rule read_frame [OF calm_calls [OF calm] rd])
  have c: "refund_frame (valid_attempt sx incl) (rs_db s1) (rs_db s')"
    if "claim_and_send sx w info dead (s1\<lparr>rs_db := db\<rparr>) = (a, s')" for dead
    using frame_trans [OF f] claim_and_send_frame [OF assms(1,2) that] by simp
  have "refund_frame (valid_attempt sx incl) (rs_db s1) (rs_db s')"
    using assms(3) h rd f c by (auto simp: attempt_remint_def split: option.splits sum.splits)
  with history_frame [OF calm h] show ?thesis by (rule frame_trans)
qed

lemma recorded_terminal:
  assumes "record_remint_result now i sig db = (Inr u, db')"
  shows "is_terminal i db'"
proof -
  let ?P = "\<lambda>r. t_id r = i \<and> t_status r = PendingRemint"
  let ?f = "\<lambda>r. r\<lparr>t_status := FailedReminted, t_landed_remint_signature := Some sig, t_processed_at := Some now\<rparr>"
  obtain n db1 where u: "sql_update now ?P ?f db = (n, db1)" by (cases "sql_update now ?P ?f db")
  note d = assms [unfolded record_remint_result_def u]
  have n: "n = Inr (length (filter ?P (db_transactions db)))" and db1: "db1 = db\<lparr>db_transactions :=
      map (\<lambda>r. if ?P r then (?f r)\<lparr>t_updated_at := now\<rparr> else r) (db_transactions db)\<rparr>"
    by (rule sql_update_cases [of now ?P ?f db]; use d u in simp)+
  from d n have "db' = db1" "filter ?P (db_transactions db) \<noteq> []" by (auto split: if_splits)
  from this(2) obtain r where "r \<in> set (db_transactions db)" "?P r" by (auto simp: filter_empty_conv)
  then have "(?f r)\<lparr>t_updated_at := now\<rparr>
      \<in> (\<lambda>r. if ?P r then (?f r)\<lparr>t_updated_at := now\<rparr> else r) ` set (db_transactions db)"
    by (intro image_eqI [of _ _ r]) simp_all
  then have "(?f r)\<lparr>t_updated_at := now\<rparr> \<in> set (db_transactions db1)"
    unfolding db1 by simp
  with \<open>?P r\<close> \<open>db' = db1\<close> show ?thesis
    unfolding is_terminal_def list_ex_iff by (intro bexI) (simp_all add: TERMINAL_STATUSES_def)
qed

lemma status_terminal: "get_transaction_status i db = Some FailedReminted \<Longrightarrow> is_terminal i db"
  by (auto simp: get_transaction_status_def is_terminal_def list_ex_iff TERMINAL_STATUSES_def find_Some_iff)

lemma delete_frame:
  assumes "is_terminal i db" shows "refund_frame V db (snd (delete_remint_signatures i db))"
proof -
  have "sound_step 0 Wrote db (snd (delete_remint_signatures i db))" if "ids_inv db"
    using sound_journal_calls(4) [OF that] .
  then show ?thesis
    using assms terminal_stays
    by (auto simp: refund_frame_def sound_db_def sound_step_def refund_attempts_def
        delete_remint_signatures_def is_terminal_def)
qed

lemma clear_frame:
  assumes "calm_call c" "is_terminal i db" "write_db c (delete_remint_signatures i) db = (r, db')" "sound_db db"
  shows "refund_frame V db db'"
proof -
  have f: "refund_frame V db (sc_others c db)" by (rule others_frame [OF assms(1)])
  with assms(2,4) have "is_terminal i (sc_others c db)" by (simp add: refund_frame_def)
  from delete_frame [OF this] f show ?thesis
    using assms(3) unfolding write_db_def by (auto elim!: faulty_cases intro: frame_trans)
qed

lemma record_confirmed_frame:
  assumes "calm_world w" "record_confirmed os w entry g s = (outcome, s')"
  shows "refund_frame V (rs_db s) (rs_db s')"
proof (cases "tc_transaction_id (pr_ctx entry)")
  case (Some i)
  let ?wr = "\<lambda>n. write_db (rw_calls w (RecordResult n)) (record_remint_result (rw_now w) i (os_bs58_encode os g))"
  let ?rd = "\<lambda>n. read_db (rw_calls w (RereadStatus n)) (get_transaction_status i)"
  note calm = calm_calls [OF assms(1)]
  obtain r db1 where b: "with_storage_backoff ?wr (rs_db s) = (r, db1)" by fastforce
  have wf: "refund_frame V d d'" if "?wr n d = (v, d')" for n d v d'
    by (rule step_write_frame [OF ledger_step.record_remint calm that])
  have bw: "refund_frame V (rs_db s) db1 \<and> (\<forall>v. r = Inr v \<longrightarrow> (\<exists>n d. ?wr n d = (Inr v, db1)))"
    by (rule backoff_cases [OF b]) (rule wf)
  have w: "refund_frame V (rs_db s) db1" "\<And>v. r = Inr v \<Longrightarrow> is_terminal i db1"
    using bw by (auto simp: write_db_def elim!: faulty_cases dest: recorded_terminal)
  obtain st db2 where b2: "with_storage_backoff ?rd db1 = (st, db2)" by fastforce
  have rf: "refund_frame V d d'" if "?rd n d = (v, d')" for n d v d'
    by (rule read_frame [OF calm that])
  have br: "refund_frame V db1 db2 \<and> (\<forall>v. st = Inr v \<longrightarrow> (\<exists>n d. ?rd n d = (Inr v, db2)))"
    by (rule backoff_cases [OF b2]) (rule rf)
  have rd: "refund_frame V db1 db2" "\<And>v. st = Inr v \<Longrightarrow> v = get_transaction_status i db2"
    using br by (auto simp: read_db_Inr)
  have cl: "refund_frame V (rs_db s) (snd (write_db (rw_calls w ClearJournal) (delete_remint_signatures i) db))"
    if "refund_frame V (rs_db s) db" "is_terminal i db" for db
  proof (cases "sound_db (rs_db s)")
    case True
    with that(1) have "sound_db db" by (simp add: refund_frame_def)
    from clear_frame [OF calm that(2) _ this] frame_trans [OF that(1)] show ?thesis
      by (metis prod.collapse)
  qed (simp add: refund_frame_def)
  note frames = w(1) frame_trans [OF w(1) rd(1)] cl [OF w(1)] cl [OF frame_trans [OF w(1) rd(1)]]
  show ?thesis
    using assms(2) Some b b2 frames w(2) rd(2) status_terminal
    by (auto simp: record_confirmed_def Let_def quiet split: sum.splits option.splits tx_status.splits)
qed (use assms(2) in \<open>simp add: record_confirmed_def\<close>)

lemma refund_entry_after:
  assumes "calm_world w" "refund_entry sx w pt entry s = Some s'"
    "attempt_remint sx w pt (pr_remint_info entry) s = Some (a, s1)"
  shows "refund_frame V (rs_db s1) (rs_db s')"
proof -
  from assms(2) obtain outcome s2 where e: "execute_deferred_remint sx w pt entry s = Some (outcome, s2)"
    by (auto simp: refund_entry_def)
  have "refund_frame V (rs_db s1) (rs_db s2)"
    using e assms(3) record_confirmed_frame [OF assms(1)]
    by (auto simp: execute_deferred_remint_def quiet split: remint_attempt.splits option.splits)
  moreover have "refund_frame V (rs_db s2) (rs_db s')"
    using assms(2) e defer_frame [OF assms(1)]
    by (auto simp: refund_entry_def quiet split: deferred_outcome.splits)
  ultimately show ?thesis by (rule frame_trans)
qed

lemma refund_entry_frame:
  assumes "channel_sdk_contract sx" "honest_world incl w" "refund_entry sx w pt entry s = Some s'"
  shows "refund_frame (valid_attempt sx incl) (rs_db s) (rs_db s')"
proof -
  from assms(3) obtain a s1 where a: "attempt_remint sx w pt (pr_remint_info entry) s = Some (a, s1)"
    by (auto simp: refund_entry_def execute_deferred_remint_def)
  show ?thesis
    using assms(2) by (intro frame_trans [OF attempt_frame [OF assms(1,2) a] refund_entry_after [OF _ assms(3) a]])
      (simp add: honest_world_def)
qed

lemma settle_by_record_frame:
  assumes "channel_sdk_contract sx" "honest_world incl w" "settle_by_record sx w pt entry p s = Some s'"
  shows "refund_frame (valid_attempt sx incl) (rs_db s) (rs_db s')"
proof -
  have calm: "calm_world w" using assms(2) by (simp add: honest_world_def)
  obtain v e db where r: "release_record_of w entry p (rs_db s) = (v, e, db)"
    by (cases "release_record_of w entry p (rs_db s)")
  have "refund_frame (valid_attempt sx incl) db (rs_db s')"
    using assms(3) r defer_frame [OF calm, where s = "s\<lparr>rs_db := db\<rparr>"]
      refund_entry_frame [OF assms(1,2), of pt e "s\<lparr>rs_db := db\<rparr>" s']
    by (auto simp: settle_by_record_def Let_def quiet split: release_record.splits if_splits)
  with record_frame [OF calm r] show ?thesis by (rule frame_trans)
qed

lemma process_entry_frame:
  assumes "channel_sdk_contract sx" "honest_world incl w" "process_entry sx pt i w entry s = Some s'"
  shows "refund_frame (valid_attempt sx incl) (rs_db s) (rs_db s')"
proof -
  have calm: "calm_world w" using assms(2) by (simp add: honest_world_def)
  show ?thesis
    using assms(3) defer_frame [OF calm] settle_by_record_frame [OF assms(1,2)]
    by (auto simp: process_entry_def settle_dead_unfold Let_def quiet
        split: sig_finality.splits bitmap_verdict.splits if_splits)
qed

section \<open>At most one refund lands\<close>

definition on_record :: "int \<Rightarrow> string \<Rightarrow> ledger_db \<Rightarrow> bool" where
  "on_record i sig db \<longleftrightarrow> is_terminal i db \<or> (\<exists>h bs. (i, sig, h, bs) \<in> set (refund_attempts db))"

definition refunds_inv :: "'c sender_sdk_scheme \<Rightarrow> inclusion \<Rightarrow> ledger_db \<Rightarrow> (int \<times> bytes) list \<Rightarrow> bool" where
  "refunds_inv sx incl db sent \<longleftrightarrow> sound_db db
     \<and> (\<forall>a\<in>set (refund_attempts db). valid_attempt sx incl a)
     \<and> (\<forall>(i, g)\<in>set sent. length g = 64 \<and> on_record i (os_bs58_encode sx g) db)
     \<and> (\<forall>i g h. (i, g) \<in> set sent \<longrightarrow> (i, h) \<in> set sent \<longrightarrow> landed incl g \<longrightarrow> landed incl h \<longrightarrow> g = h)"

lemma on_record_frame: "refund_frame V db db' \<Longrightarrow> sound_db db \<Longrightarrow> on_record i sig db \<Longrightarrow> on_record i sig db'"
  unfolding refund_frame_def on_record_def by force

lemma refunds_frame:
  assumes "refund_frame (valid_attempt sx incl) db db'" "refunds_inv sx incl db sent"
  shows "refunds_inv sx incl db' sent"
proof -
  have s: "sound_db db" using assms(2) by (simp add: refunds_inv_def)
  with assms show ?thesis
    using on_record_frame [OF assms(1) s] unfolding refunds_inv_def refund_frame_def by fast
qed

lemma map_result_mem:
  "map_result f xs = Inr ys \<Longrightarrow> x \<in> set xs \<Longrightarrow> \<exists>y\<in>set ys. f x = Inr y"
  "map_result f xs = Inr ys \<Longrightarrow> y \<in> set ys \<Longrightarrow> \<exists>x\<in>set xs. f x = Inr y"
  by (induction f xs arbitrary: ys rule: map_result.induct) (auto simp: bindE_eq_Inr)

lemma attempt_of_stored:
  assumes "st \<in> set (get_remint_signatures i db)" "\<forall>a\<in>set (refund_attempts db). valid_attempt sx incl a"
    "stored_pending_sig sx st = Inr p"
  shows "within_validity Channel incl p"
proof -
  have "(ss_transaction_id st, ss_signature st, ss_last_valid_block_height st, ss_blockhash_slot st)
      \<in> set (refund_attempts db)"
    using assms(1) by (auto simp: get_remint_signatures_def refund_attempts_def)
  with assms(2,3) show ?thesis by (auto simp: valid_attempt_def stored_pending_sig_def)
qed

lemma prior_attempts_dead:
  assumes "channel_sdk_contract sx" "honest_world incl w"
    "prior_attempts sx w Withdraw (get_remint_signatures i db) = Inr dead"
    "\<forall>a\<in>set (refund_attempts db). valid_attempt sx incl a"
    "(i, os_bs58_encode sx g, h, bs) \<in> set (refund_attempts db)" "length g = 64"
  shows "\<not> landed incl g"
proof -
  from assms(5) obtain st where st: "st \<in> set (get_remint_signatures i db)" "ss_signature st = os_bs58_encode sx g"
    by (auto simp: refund_attempts_def get_remint_signatures_def)
  with assms(3) obtain prior where m: "map_result (stored_pending_sig sx) (get_remint_signatures i db) = Inr prior"
    and c: "classify_signatures (source_finality Withdraw w) prior = Dead"
    by (auto simp: prior_attempts_def Let_def split: sum.splits sig_finality.splits if_splits)
  have "truthful_finality incl (source_finality Withdraw w) prior"
    using assms(2) map_result_mem(2) [OF m] attempt_of_stored [OF _ assms(4)]
    by (auto simp: truthful_finality_def source_finality_def FinalityRpc_channel_def honest_world_def)
  note dead = classified_dead [OF this c]
  from map_result_mem(1) [OF m st(1)] obtain p where p: "p \<in> set prior" "stored_pending_sig sx st = Inr p" by blast
  have "os_signature_from_str sx (ss_signature st) = Some g"
    using assms(1,6) st(2) by (simp add: channel_sdk_contract_def)
  with p(2) have "pg_signature p = g" by (auto simp: stored_pending_sig_def bindE_eq_Inr)
  with dead [OF p(1)] show ?thesis by simp
qed

lemma sends_claim:
  assumes "sends sx w info dead db g db'" "calm_world w" "sound_db db"
  shows "\<not> is_terminal (ri_transaction_id info) db" "on_record (ri_transaction_id info) (os_bs58_encode sx g) db'"
proof -
  let ?i = "ri_transaction_id info" and ?db = "sc_others (rw_calls w ClaimAttempt) db"
  from assms(1) obtain height bslot where
    "write_db (rw_calls w ClaimAttempt) (claim_remint_attempt (rw_now w) ?i (os_bs58_encode sx g)
       height bslot dead) db = (Inr Claimed, db')" by (auto simp: sends_def)
  then have c: "claim_remint_attempt (rw_now w) ?i (os_bs58_encode sx g) height bslot dead ?db = (Inr Claimed, db')"
    unfolding write_db_def by (auto elim!: faulty_cases)
  have f: "refund_frame V db ?db" for V by (rule others_frame [OF calm_calls [OF assms(2)]])
  from f [of "\<lambda>_. True"] assms(3) have s: "sound_db ?db" by (simp add: refund_frame_def)
  from c obtain t where t: "t \<in> set (db_transactions ?db)" "refundable ?i ?db t"
    by (rule claim_remint_cases) auto
  have "t' = t" if "t' \<in> set (db_transactions ?db)" "t_id t' = t_id t" for t'
    using that t(1) s ids_inv_distinct [of ?db] by (auto simp: sound_db_def distinct_map inj_on_def)
  with t(2) have "\<not> is_terminal ?i ?db"
    by (auto simp: is_terminal_def list_ex_iff refundable_def TERMINAL_STATUSES_def)
  with f [of "\<lambda>_. True"] assms(3) show "\<not> is_terminal ?i db" by (auto simp: refund_frame_def)
  from attempts_claim [OF c] show "on_record ?i (os_bs58_encode sx g) db'" by (auto simp: on_record_def)
qed

lemma refund_entry_inv:
  assumes "channel_sdk_contract sx" "honest_world incl w" "refund_entry sx w Withdraw entry s = Some s'"
    "refunds_inv sx incl (rs_db s) (rs_broadcasts s)" "rs_broadcasts s' \<noteq> rs_broadcasts s"
  shows "refunds_inv sx incl (rs_db s') (rs_broadcasts s')"
proof -
  have calm: "calm_world w" using assms(2) by (simp add: honest_world_def)
  let ?i = "ri_transaction_id (pr_remint_info entry)"
  obtain a s1 where a: "attempt_remint sx w Withdraw (pr_remint_info entry) s = Some (a, s1)"
      "rs_broadcasts s' = rs_broadcasts s1" "rs_broadcasts s1 \<noteq> rs_broadcasts s"
    using assms(5) by (rule_tac refund_entry_cases [OF assms(3)]) auto
  from a(1) obtain s0 stored db dead g where h: "remint_history sx w (pr_remint_info entry) s = Some (None, s0)"
    and rd: "read_db (rw_calls w ReadRemintJournal) (get_remint_signatures ?i) (rs_db s0) = (Inr stored, db)"
    and pr: "prior_attempts sx w Withdraw stored = Inr dead"
    and sd: "sends sx w (pr_remint_info entry) dead db g (rs_db s1)"
    and b: "rs_broadcasts s1 = rs_broadcasts s @ [(?i, g)]"
    by (rule attempt_remint_cases) (use a(3) in auto)
  have inv: "refunds_inv sx incl db (rs_broadcasts s)"
    by (rule refunds_frame [OF frame_trans [OF history_frame [OF calm h] read_frame [OF calm_calls [OF calm] rd]] assms(4)])
  then have s: "sound_db db" and valid: "\<forall>a\<in>set (refund_attempts db). valid_attempt sx incl a"
    by (simp_all add: refunds_inv_def)
  have old: "\<not> landed incl x" if "(?i, x) \<in> set (rs_broadcasts s)" for x
  proof -
    from inv that have x: "length x = 64" "on_record ?i (os_bs58_encode sx x) db"
      unfolding refunds_inv_def by auto
    with sends_claim(1) [OF sd calm s] obtain hh bs where
      "(?i, os_bs58_encode sx x, hh, bs) \<in> set (refund_attempts db)" by (auto simp: on_record_def)
    moreover have "prior_attempts sx w Withdraw (get_remint_signatures ?i db) = Inr dead"
      using pr read_db_Inr [THEN iffD1, OF rd] by metis
    ultimately show ?thesis using prior_attempts_dead [OF assms(1,2) _ valid] x(1) by blast
  qed
  have f: "refund_frame (valid_attempt sx incl) (rs_db s1) (rs_db s')"
    by (rule refund_entry_after [OF calm assms(3) a(1)])
  have "sound_db (rs_db s1)"
    using attempt_frame [OF assms(1,2) a(1)] assms(4) by (simp add: refunds_inv_def refund_frame_def)
  from on_record_frame [OF f this sends_claim(2) [OF sd calm s]]
  have new: "on_record ?i (os_bs58_encode sx g) (rs_db s')" "length g = 64"
    using sd assms(2) by (auto simp: sends_def honest_world_def)
  have kept: "refunds_inv sx incl (rs_db s') (rs_broadcasts s)"
    by (rule refunds_frame [OF refund_entry_frame [OF assms(1-3)] assms(4)])
  show ?thesis
    using kept old new unfolding a(2) b refunds_inv_def by auto
qed

lemma process_entry_inv:
  assumes "channel_sdk_contract sx" "honest_world incl w" "process_entry sx Withdraw i w entry s = Some s'"
    "refunds_inv sx incl (rs_db s) (rs_broadcasts s)"
  shows "refunds_inv sx incl (rs_db s') (rs_broadcasts s')"
proof (cases "rs_broadcasts s' = rs_broadcasts s")
  case True
  with refunds_frame [OF process_entry_frame [OF assms(1-3)] assms(4)] show ?thesis by simp
next
  case False
  obtain pending entry' db where
    r: "release_record_of w (closed_entry sx w i entry) pending (rs_db s) = (ProvenAbsent, entry', db)"
      "refund_entry sx w Withdraw entry' (s\<lparr>rs_db := db\<rparr>) = Some s'"
    by (rule process_entry_sends [OF assms(3) False])
  have "refunds_inv sx incl db (rs_broadcasts s)"
    using assms(2) by (intro refunds_frame [OF record_frame [OF _ r(1)] assms(4)]) (simp add: honest_world_def)
  with False show ?thesis by (intro refund_entry_inv [OF assms(1,2) r(2)]) simp_all
qed

lemma load_frame:
  assumes "\<And>n. calm_call (calls n)" "load_pending_sigs os calls i db = (r, db')"
  shows "refund_frame V db db'"
proof -
  obtain r' where "with_storage_backoff (\<lambda>n. read_db (calls n) (get_release_signatures i)) db = (r', db')"
    using assms(2) by (auto simp: load_pending_sigs_def split: prod.splits sum.splits)
  from backoff_cases [OF this, of V] show ?thesis using read_frame [OF assms(1)] by blast
qed

lemma hydrate_row_frame:
  assumes "\<And>i n. calm_call (calls i n)" "hydrate_row os now calls tx s = (r, s')"
  shows "refund_frame V (rs_db s) (rs_db s') \<and> rs_broadcasts s' = rs_broadcasts s"
proof -
  obtain p db where l: "load_pending_sigs os (calls (t_id tx)) (t_id tx) (rs_db s) = (p, db)" by fastforce
  have "refund_frame V (rs_db s) db" by (rule load_frame [OF assms(1) l])
  with assms(2) l show ?thesis
    by (auto simp: hydrate_row_def Let_def quiet send_recovery_manual_review_def
        split: option.splits sum.splits journal_error.splits if_splits)
qed

lemma hydrate_rows_frame:
  assumes "\<And>i n. calm_call (calls i n)" "hydrate_rows os now calls k txs s = (r, s')"
  shows "refund_frame V (rs_db s) (rs_db s') \<and> rs_broadcasts s' = rs_broadcasts s"
  using assms(2)
proof (induction txs arbitrary: k s)
  case (Cons tx txs)
  obtain r1 s1 where h: "hydrate_row os now calls tx s = (r1, s1)" by fastforce
  note f = hydrate_row_frame [OF assms(1) h, of V]
  show ?case
  proof (cases r1)
    case (Inl e)
    with Cons.prems h f show ?thesis by auto
  next
    case (Inr u)
    with Cons h f show ?thesis by (auto intro: frame_trans)
  qed
qed simp

definition calm_hydrate :: "hydrate_world \<Rightarrow> bool" where
  "calm_hydrate h \<longleftrightarrow> calm_call (hw_count h) \<and> calm_call (hw_page h) \<and> (\<forall>i n. calm_call (hw_journals h i n))"

lemma forget_simps [simp]:
  "rs_db (forget_runtime_ids_once_drained s) = rs_db s"
  "rs_broadcasts (forget_runtime_ids_once_drained s) = rs_broadcasts s"
  by (simp_all add: forget_runtime_ids_once_drained_def)

lemma hydrate_frame:
  assumes "calm_hydrate h" "hydrate_pending_remints os h s = (r, s')"
  shows "refund_frame V (rs_db s) (rs_db s') \<and> rs_broadcasts s' = rs_broadcasts s"
proof (cases "rs_backlog_cursor s")
  case (Some after_id)
  have calm: "calm_call (hw_count h)" "calm_call (hw_page h)" "\<And>i n. calm_call (hw_journals h i n)"
    using assms(1) by (simp_all add: calm_hydrate_def)
  obtain c db1 where c: "read_db (hw_count h) (count_pending_remint_transactions after_id) (rs_db s) = (c, db1)"
    by fastforce
  note f1 = read_frame [OF calm(1) c, of V]
  obtain p db2 where p: "read_db (hw_page h) (get_pending_remint_transactions after_id REMINT_HYDRATE_PAGE) db1
      = (p, db2)" by fastforce
  note f2 = frame_trans [OF f1 read_frame [OF calm(2) p]]
  have rows: "refund_frame V (rs_db s) (rs_db s2) \<and> rs_broadcasts s2 = rs_broadcasts s"
    if "hydrate_rows os (hw_now h) (hw_journals h) k txs s1 = (r1, s2)" "rs_db s1 = db2"
      "rs_broadcasts s1 = rs_broadcasts s" for k txs s1 r1 s2
    using hydrate_rows_frame [OF calm(3) that(1), of V] frame_trans [OF f2] that(2,3) by auto
  show ?thesis
    using assms(2) Some c p f1 f2
    by (auto simp: hydrate_pending_remints_def Let_def split: sum.splits if_splits prod.splits
        dest!: rows)
qed (use assms(2) in \<open>simp add: hydrate_pending_remints_def\<close>)

lemma process_matured_inv:
  assumes "channel_sdk_contract sx" "\<forall>w\<in>set ws. honest_world incl w"
    "process_matured sx Withdraw i ws es s = Some s'" "refunds_inv sx incl (rs_db s) (rs_broadcasts s)"
  shows "refunds_inv sx incl (rs_db s') (rs_broadcasts s')"
  using assms
proof (induction sx Withdraw i ws es s rule: process_matured.induct)
  case (3 sx i w ws e es s)
  then obtain s1 where "process_entry sx Withdraw i w e s = Some s1"
    "process_matured sx Withdraw i ws es s1 = Some s'" by (auto simp: Option.bind_eq_Some_conv)
  with 3 process_entry_inv [of sx incl w i e s s1] show ?case by auto
qed (simp_all add: quiet)

text \<open>
  Runs of a sender: ticks in honest worlds, and in between anything else that happens to the queue and
  the database, restarts included. The record of what was sent outlives a restart.
\<close>

inductive refund_run ::
  "'c sender_sdk_scheme \<Rightarrow> inclusion \<Rightarrow> address option \<Rightarrow> remint_state \<Rightarrow> bool"
  for sx :: "'c sender_sdk_scheme" and incl :: inclusion and instance_pda :: "address option" where
  run_begin: "sound_db (rs_db s) \<Longrightarrow> refund_attempts (rs_db s) = [] \<Longrightarrow> rs_broadcasts s = [] \<Longrightarrow>
    refund_run sx incl instance_pda s"
| run_tick: "refund_run sx incl instance_pda s \<Longrightarrow> calm_hydrate h \<Longrightarrow> \<forall>w\<in>set (w # ws). honest_world incl w \<Longrightarrow>
    process_pending_remints sx Withdraw instance_pda h now w ws s = Some s' \<Longrightarrow>
    refund_run sx incl instance_pda s'"
| run_between: "refund_run sx incl instance_pda s \<Longrightarrow> calm_run (rs_db s) (rs_db s') \<Longrightarrow>
    rs_broadcasts s' = rs_broadcasts s \<Longrightarrow> refund_run sx incl instance_pda s'"

lemma tick_inv:
  assumes "channel_sdk_contract sx" "calm_hydrate h" "\<forall>w\<in>set (w # ws). honest_world incl w"
    "process_pending_remints sx Withdraw i h now w ws s = Some s'"
    "refunds_inv sx incl (rs_db s) (rs_broadcasts s)"
  shows "refunds_inv sx incl (rs_db s') (rs_broadcasts s')"
proof -
  let ?s = "if queued_backlog_remints s < REMINT_HYDRATE_PAGE then snd (hydrate_pending_remints sx h s) else s"
  have "refunds_inv sx incl (rs_db ?s) (rs_broadcasts ?s)"
    using assms(5) hydrate_frame [OF assms(2), of sx s _ "snd (hydrate_pending_remints sx h s)" "valid_attempt sx incl"]
      refunds_frame [OF _ assms(5)] by (metis prod.collapse)
  moreover obtain es pending where
    "process_matured sx Withdraw i (w # ws) es (?s\<lparr>rs_pending := pending\<rparr>) = Some s'"
    using assms(4) unfolding process_pending_remints_def Let_def by auto
  ultimately show ?thesis
    using process_matured_inv [OF assms(1,3), of i es "?s\<lparr>rs_pending := pending\<rparr>" s'] by simp
qed

lemma run_refunds_inv:
  assumes "refund_run sx incl i s" "channel_sdk_contract sx"
  shows "refunds_inv sx incl (rs_db s) (rs_broadcasts s)"
  using assms
proof (induction rule: refund_run.induct)
  case (run_begin s)
  then show ?case by (simp add: refunds_inv_def)
next
  case (run_tick s h w ws now s')
  then show ?case using tick_inv by blast
next
  case (run_between s s')
  then show ?case using refunds_frame [OF calm_frame] by auto
qed

text \<open>
  C7. A withdrawal is refunded at most once. Along any run of one sender's refund ticks, with restarts
  that drop the queue and load it again, failing storage calls, lost send and confirmation answers, and
  the database's other writers before every call (anything but a wipe, the deletion of a journal or a
  second sender's refund claim), at most one of the refund transactions broadcast for a row ever
  succeeds on the channel. Endpoints are taken to report finalized statuses truthfully, and a
  transaction to be included only while its blockhash is valid.
\<close>

theorem refund_lands_once:
  assumes "refund_run sx incl i s" "channel_sdk_contract sx"
  shows "card {g. (tx_id, g) \<in> set (rs_broadcasts s) \<and> landed incl g} \<le> 1"
proof -
  let ?S = "{g. (tx_id, g) \<in> set (rs_broadcasts s) \<and> landed incl g}"
  have "g = h" if "g \<in> ?S" "h \<in> ?S" for g h
    using run_refunds_inv [OF assms] that unfolding refunds_inv_def by blast
  moreover have "finite ?S" by (rule finite_subset [of _ "snd ` set (rs_broadcasts s)"]) force+
  ultimately show ?thesis unfolding One_nat_def by (subst card_le_Suc0_iff_eq) simp_all
qed

end
