(* ===== verification/Remint_Scenario.thy ===== *)
theory Remint_Scenario
  imports Remint_Safety
begin

text \<open>
  A refund that goes through. The escrow has released nonce 7; the release of nonce 8 was signed twice,
  the first attempt expired and the second failed, its bit is clear, and the indexer has passed the
  slot of that reading with no release of it on record.
\<close>

definition demo_sender_sdk :: sender_sdk where
  "demo_sender_sdk = operator_sdk.extend demo_operator_sdk (sender_sdk.fields
     (\<lambda>program mint account authority amount. Inr (TokenIx program [7]))
     (\<lambda>program mint delegate. Inr (TokenIx program [35]))
     (\<lambda>program mint authority freeze decimals. Inr (TokenIx program [20])))"

lemmas demo_sdk_defs = demo_sender_sdk_def demo_operator_sdk_def demo_channel_sdk_def operator_sdk.defs
  sender_sdk.defs channel_sdk.defs

lemma demo_sender_sdk_simps [simp]:
  "od_find_program_address demo_sender_sdk = demo_find" "bitmap_header_contract demo_sender_sdk"
  "sx_mint_to demo_sender_sdk program mint account authority amount = Inr (TokenIx program [7])"
  by (simp_all add: demo_sdk_defs bitmap_header_contract_def)

lemma demo_sender_contract: "channel_sdk_contract demo_sender_sdk"
  using demo_channel_sdk_contract by (simp add: channel_sdk_contract_def demo_sdk_defs)

definition quiet_call :: storage_call where
  "quiet_call = \<lparr>sc_fault = Healthy, sc_others = (\<lambda>db. db)\<rparr>"

definition demo_refund_db :: ledger_db where
  "demo_refund_db = demo_refunding\<lparr>db_indexer_state :=
     update_committed_checkpoint (program_key Escrow) 95 None (db_indexer_state demo_refunding)\<rparr>"

definition demo_refund_sig :: bytes where "demo_refund_sig = replicate 64 9"

definition demo_refund_world :: "ledger \<Rightarrow> remint_world" where
  "demo_refund_world l = \<lparr>rw_now = 60, rw_calls = (\<lambda>_. quiet_call), rw_dest = demo_endpoint,
     rw_fallback = None,
     rw_source = \<lparr>fe_snapshot = (\<lambda>_. Inl ''down''), fe_block_height = Inl ''down'',
       fe_statuses = (\<lambda>_. Inl ''down''), fe_first_available_block = Inl ''down''\<rparr>,
     rw_solana = demo_solana l, rw_channel = demo_rpc, rw_index = Inr (), rw_admin = 3,
     rw_sign = (\<lambda>_. Inr (demo_refund_sig, 700, 400)), rw_send = (\<lambda>_. None),
     rw_polls = (\<lambda>_ _. Inr [Some \<lparr>po_slot = 410, po_err = None, po_committed = True\<rparr>])\<rparr>"

definition demo_entry :: pending_remint where
  "demo_entry = \<lparr>
     pr_ctx = \<lparr>tc_transaction_id = Some 1, tc_withdrawal_nonce = Some 8, tc_trace_id = Some ''t'',
       tc_kind = ReleaseFundsKind, tc_deposit_claim_lease = None\<rparr>,
     pr_remint_info = \<lparr>ri_transaction_id = 1, ri_source_event_id = ''e'', ri_trace_id = ''t'', ri_mint = 5,
       ri_user = 6, ri_user_ata = 11, ri_token_program = TOKEN_2022_PROGRAM_ID, ri_amount = 500\<rparr>,
     pr_signatures = demo_attempts, pr_original_error = ''refused'', pr_deadline = 60,
     pr_finality_check_attempts = 0, pr_release_refused_on_chain = False, pr_coverage_slot = None,
     pr_coverage_checkpoint = None, pr_free_waits = 0\<rparr>"

definition demo_refund_state :: remint_state where
  "demo_refund_state = \<lparr>rs_db = demo_refund_db, rs_claims = None, rs_pending = [],
     rs_backlog_cursor = None, rs_runtime_ids = [], rs_backlog_unloaded = 0, rs_updates = [],
     rs_broadcasts = []\<rparr>"

lemma quiet_calls [simp]:
  "write_db quiet_call op db = faulty Healthy op db" "read_db quiet_call f db = (Inr (f db), db)"
  by (simp_all add: quiet_call_def write_db_def read_db_def)

lemma demo_parts [simp]:
  "rs_db demo_refund_state = demo_refund_db" "rs_claims demo_refund_state = None"
  "rs_broadcasts demo_refund_state = []" "demo_refund_state\<lparr>rs_db := demo_refund_db\<rparr> = demo_refund_state"
  "rw_calls (demo_refund_world l) c = quiet_call" "rw_solana (demo_refund_world l) = demo_solana l"
  "rw_dest (demo_refund_world l) = demo_endpoint" "rw_fallback (demo_refund_world l) = None"
  "ri_transaction_id (pr_remint_info demo_entry) = 1" "pr_signatures demo_entry = demo_attempts"
  "tc_withdrawal_nonce (pr_ctx demo_entry) = Some 8" "pr_coverage_slot demo_entry = None"
  "\<not> pr_release_refused_on_chain demo_entry"
  by (simp_all add: demo_refund_state_def demo_refund_world_def demo_entry_def)

lemma demo_refund_claim:
  "\<exists>db. claim_remint_attempt 60 1 (demo_encode demo_refund_sig) 700 (Some 400) [] demo_refund_db
     = (Inr Claimed, db)"
proof -
  have "fst (claim_remint_attempt 60 1 (demo_encode demo_refund_sig) 700 (Some 400) [] demo_refund_db) = Inr Claimed"
    by code_simp
  then show ?thesis by (metis prod.collapse)
qed

lemma demo_refund_reads:
  "get_remint_signatures 1 demo_refund_db = []"
  "get_committed_checkpoint (program_key Escrow) (db_indexer_state demo_refund_db) = Some 95"
  "get_observed_release (sint (8 :: u64)) demo_refund_db = None"
  by code_simp+

lemma demo_confirmed:
  "check_transaction_status os (\<lambda>_. Inr [Some \<lparr>po_slot = slot, po_err = None, po_committed = True\<rparr>]) logs kind
     checks = Inr ConfirmedTx"
  by (simp add: check_transaction_status_def MAX_POLL_ATTEMPTS_CONFIRMATION_def eval_nat_numeral)

lemma demo_instructions:
  "\<exists>ixs. MintToBuilder_instructions demo_sender_sdk (remint_builder w info) = Inr ixs"
  by (simp add: MintToBuilder_instructions_def MintToBuilder_instruction_def config_instructions_def
      remint_builder_def MintToBuilder_new_def)

lemma demo_attempt:
  "\<exists>s1. attempt_remint demo_sender_sdk (demo_refund_world l) Withdraw (pr_remint_info demo_entry)
     demo_refund_state = Some (AttemptConfirmed demo_refund_sig, s1)
     \<and> rs_broadcasts s1 = [(1, demo_refund_sig)]"
proof -
  obtain db where c: "claim_remint_attempt 60 1 (demo_encode demo_refund_sig) 700 (Some 400) [] demo_refund_db
     = (Inr Claimed, db)" using demo_refund_claim by blast
  have e: "os_bs58_encode demo_sender_sdk g = demo_encode g" for g by (simp add: demo_sdk_defs)
  have n: "i64_of_u64 700 = Some 700" "i64_of_u64 400 = Some 400" by (simp_all add: i64_of_u64_def)
  obtain ixs where i: "MintToBuilder_instructions demo_sender_sdk
      (remint_builder (demo_refund_world l) (pr_remint_info demo_entry)) = Inr ixs"
    using demo_instructions by blast
  have "claim_and_send demo_sender_sdk (demo_refund_world l) (pr_remint_info demo_entry) [] demo_refund_state
      = (AttemptConfirmed demo_refund_sig,
         demo_refund_state\<lparr>rs_db := db, rs_broadcasts := [(1, demo_refund_sig)]\<rparr>)"
    unfolding claim_and_send_def i
    by (simp add: demo_refund_world_def demo_refund_state_def e n demo_entry_def faulty_def c demo_confirmed)
  moreover have "prior_attempts demo_sender_sdk (demo_refund_world l) Withdraw [] = Inr []"
    by (simp add: prior_attempts_def)
  ultimately show ?thesis by (simp add: attempt_remint_def remint_history_def demo_refund_reads)
qed

lemma demo_bitmap_clear:
  assumes "acc_owner (l 104) = ESCROW_ID" "bitmap_ok (acc_data (l 104))"
    "bitmap_generation (acc_data (l 104)) = 0" "bitmap_consumed (acc_data (l 104)) = {7}"
  shows "bitmap_verdict_of demo_sender_sdk (demo_refund_world l) (Some 101) demo_entry = (Clear, Some 90)"
proof -
  have f: "fetch_consumed_nonces_at demo_sender_sdk (demo_solana l) (find_withdrawal_bitmap_pda demo_sender_sdk 101)
      (Some 90) c = Inr (parsed_state (acc_data (l 104)), 90)" for c
    unfolding find_withdrawal_bitmap_pda_eq demo_sender_sdk_simps(1) demo_bitmap_pda
    using parsed_bitmap [OF demo_sender_sdk_simps(2) assms(2)] assms bitmap_ok_neq_Nil [OF assms(2)]
    by (simp add: fetch_consumed_nonces_at_def read_bitmap_def get_account_with_context_min_slot_def
        demo_solana_def)
  have p: "BitmapState_covers (parsed_state (acc_data (l 104))) 8"
    "\<not> BitmapState_is_consumed (parsed_state (acc_data (l 104))) 8"
    using assms(3,4) by (simp_all add: parsed_covers parsed_is_consumed [OF assms(2)] NONCES_PER_GENERATION_def)
  have "verify_release_landed_at demo_sender_sdk (demo_solana l) (Some 101) 8 400 = (NotLanded, Some 90)"
    using p assms(3) by (simp add: verify_release_landed_at_def demo_solana_hash f checked_sub_def
        MAX_PROCESSING_AGE_def Let_def op_NONCES_PER_GENERATION_def)
  moreover have "release_seen_at_confirmed demo_sender_sdk (demo_solana l) 101 8 = Inr False"
    using p by (simp add: release_seen_at_confirmed_def finalized_anchor_def demo_solana_hash
        fetch_consumed_nonces_def f)
  moreover have "max_lvbh demo_attempts = 400" by (simp add: max_lvbh_def demo_attempts_def)
  ultimately show ?thesis by (simp add: bitmap_verdict_of_def demo_parts)
qed

lemma demo_entry_refunded:
  assumes "acc_owner (l 104) = ESCROW_ID" "bitmap_ok (acc_data (l 104))"
    "bitmap_generation (acc_data (l 104)) = 0" "bitmap_consumed (acc_data (l 104)) = {7}"
  shows "\<exists>s'. process_entry demo_sender_sdk Withdraw (Some 101) (demo_refund_world l) demo_entry
      demo_refund_state = Some s' \<and> rs_broadcasts s' = [(1, demo_refund_sig)]"
proof -
  let ?e = "closed_entry demo_sender_sdk (demo_refund_world l) (Some 101) demo_entry"
  note v = demo_bitmap_clear [of l, OF assms]
  have e: "pr_coverage_slot ?e = Some 90" by (simp add: closed_entry_def v demo_parts)
  have rec: "release_record_of (demo_refund_world l) ?e False demo_refund_db = (ProvenAbsent, ?e, demo_refund_db)"
    by (simp add: release_record_of_def release_coverage_of_def e demo_refund_reads [simplified] demo_parts)
  obtain s1 where a: "attempt_remint demo_sender_sdk (demo_refund_world l) Withdraw (pr_remint_info ?e)
      demo_refund_state = Some (AttemptConfirmed demo_refund_sig, s1)" "rs_broadcasts s1 = [(1, demo_refund_sig)]"
    using demo_attempt by auto
  from a(1) obtain s' where s': "refund_entry demo_sender_sdk (demo_refund_world l) Withdraw ?e demo_refund_state = Some s'"
    by (cases "record_confirmed demo_sender_sdk (demo_refund_world l) ?e demo_refund_sig s1")
      (simp add: refund_entry_def execute_deferred_remint_def)
  have "process_entry demo_sender_sdk Withdraw (Some 101) (demo_refund_world l) demo_entry demo_refund_state = Some s'"
    using s' demo_classified rec
    by (simp add: process_entry_def dest_finality_def demo_parts settle_dead_unfold Let_def v
        settle_by_record_def)
  with refund_entry_broadcasts [OF s' a(1)] a(2) show ?thesis by simp
qed


text \<open>The same refund in a run of the sender, and the block that holds it.\<close>

definition demo_refund_inclusion :: inclusion where
  "demo_refund_inclusion g = (if g = demo_refund_sig then Some (410, 405, False) else None)"

definition demo_hydrate :: hydrate_world where
  "demo_hydrate = \<lparr>hw_now = 60, hw_count = quiet_call, hw_page = quiet_call, hw_journals = (\<lambda>_ _. quiet_call)\<rparr>"

lemma quiet_calm: "calm_call quiet_call"
  by (simp add: calm_call_def quiet_call_def calm_refl)

lemma demo_calm_hydrate: "calm_hydrate demo_hydrate"
  by (simp add: calm_hydrate_def demo_hydrate_def quiet_calm)

lemma demo_honest: "honest_world demo_refund_inclusion (demo_refund_world l)"
  by (simp add: honest_world_def calm_world_def demo_refund_world_def quiet_calm truthful_endpoint_def
      within_validity_def demo_refund_sig_def demo_refund_inclusion_def)

lemma demo_refund_sound: "sound_db demo_refund_db" "refund_attempts demo_refund_db = []"
proof -
  have "ledger_run 0 empty_db ([Wrote, Wrote, Granted 1 2, Wrote] @ [Wrote]) 5 demo_refund_db"
    unfolding demo_refund_db_def by (rule ledger_run.step [OF demo_run_refunding _ checkpoint]) simp
  then show "sound_db demo_refund_db" unfolding sound_db_def by (rule reachable_invariants)
  show "refund_attempts demo_refund_db = []" by code_simp
qed

lemma demo_tick:
  assumes "process_entry demo_sender_sdk Withdraw (Some 101) w demo_entry demo_refund_state = Some s'"
  shows "process_pending_remints demo_sender_sdk Withdraw (Some 101) demo_hydrate 60 w []
      (demo_refund_state\<lparr>rs_pending := [demo_entry]\<rparr>) = Some s'"
proof -
  have "rs_backlog_cursor demo_refund_state = None" "demo_refund_state\<lparr>rs_pending := []\<rparr> = demo_refund_state"
    "pr_deadline demo_entry = 60" by (simp_all add: demo_refund_state_def demo_entry_def)
  with assms show ?thesis
    by (simp add: process_pending_remints_def hydrate_pending_remints_def MAX_REMINTS_PER_TICK_def)
qed

theorem refund_lands_once_witness:
  "\<exists>s. refund_run demo_sender_sdk demo_refund_inclusion (Some 101) s \<and> rs_broadcasts s = [(1, demo_refund_sig)]
     \<and> landed demo_refund_inclusion demo_refund_sig
     \<and> card {g. (1, g) \<in> set (rs_broadcasts s) \<and> landed demo_refund_inclusion g} \<le> 1"
proof -
  obtain l :: ledger where l: "acc_owner (l 104) = ESCROW_ID" "bitmap_ok (acc_data (l 104))"
      "bitmap_generation (acc_data (l 104)) = 0" "bitmap_consumed (acc_data (l 104)) = {7}"
    using demo_released_bitmap by blast
  from demo_entry_refunded [of l, OF l] obtain s where
    s: "process_entry demo_sender_sdk Withdraw (Some 101) (demo_refund_world l) demo_entry demo_refund_state = Some s"
      "rs_broadcasts s = [(1, demo_refund_sig)]" by blast
  have b: "refund_run demo_sender_sdk demo_refund_inclusion (Some 101) (demo_refund_state\<lparr>rs_pending := [demo_entry]\<rparr>)"
    by (rule run_begin) (simp_all add: demo_refund_sound)
  have h: "\<forall>w\<in>set [demo_refund_world l]. honest_world demo_refund_inclusion w"
    by (simp only: list.set insert_iff empty_iff ball_simps demo_honest)
  have r: "refund_run demo_sender_sdk demo_refund_inclusion (Some 101) s"
    by (rule run_tick [OF b demo_calm_hydrate h demo_tick [OF s(1)]])
  have "landed demo_refund_inclusion demo_refund_sig"
    by (simp add: landed_def demo_refund_inclusion_def)
  with r s(2) refund_lands_once [OF r demo_sender_contract, of 1]
  show ?thesis by (intro exI [of _ s] conjI)
qed

end
