(* ===== verification/Spec2Isabelle.thy ===== *)
theory Spec2Isabelle
  imports Admission Sequencer Dedup_Safety Indexer_Slots Channel_Fence Ledger_Safety Deposit_Path Remint_Scenario
begin

text \<open>
  \<^bold>\<open>Solana Private Channels: a verification library.\<close>

  The system moves tokens between Solana and a private channel. On Solana, the escrow program
  (\<open>private-channel-escrow-program/program\<close>) holds deposits and releases them on an operator's
  instruction. Inside the channel, the withdraw program
  (\<open>private-channel-withdraw-program/program\<close>) burns channel tokens, which the operator answers
  with a release. The channel node (\<open>core\<close>) admits transactions over RPC, verifies signatures,
  drops replays, schedules conflict-free batches, executes and settles them. The indexer and the
  operator (\<open>indexer\<close>) carry events between the two sides; gateway and auth service sit in front.

  \<^bold>\<open>The theories.\<close>

  \<^item> \<open>Prelude\<close>: the result monad (\<open>bindE\<close>, \<open>guardE\<close>), checked and saturating word arithmetic, byte
  slices, little-endian and address encodings. \<open>Solana\<close>: accounts, account views and their
  borrows, cross-program calls and the \<open>world\<close> (ledger, calls made, logs). Everything the programs
  take from other crates - address derivation, rent, token and mint decoding, the effect of a
  call - is a field of the \<open>runtime\<close> record, a parameter of every handler.
  \<^item> \<open>Escrow_Base\<close> (\<open>constants.rs\<close>, \<open>error.rs\<close>, \<open>discriminator.rs\<close>, \<open>processor/shared\<close>),
  \<open>Escrow_State\<close> (\<open>state/{instance,operator,allowed_mint,allowed_wallet}.rs\<close>), \<open>Escrow_Bitmap\<close>
  (\<open>state/withdrawal_bitmap.rs\<close>), \<open>Escrow_Events\<close> (\<open>events.rs\<close>), \<open>Escrow_Token\<close>
  (\<open>shared/token_utils.rs\<close>) and \<open>Escrow_Processor\<close> (all handlers and the entrypoint): one record
  per account or event with the byte layout of the source, one function per operation and handler
  in the order of the source's checks, errors as values.
  \<^item> \<open>Escrow_Frame\<close>, \<open>Escrow_Safety\<close>, \<open>Escrow_Authority\<close>, \<open>Escrow_Funds\<close>: the theorems on the escrow
  program; \<open>Escrow_Scenario\<close>: a concrete runtime and ledger on which the hypotheses hold.
  \<^item> \<open>Withdraw_Program\<close>: the withdraw program and its theorems.
  \<^item> \<open>Admission\<close>: \<open>core/src/transactions.rs\<close>, the checks of \<open>rpc/send_transaction_impl.rs\<close> and
  \<open>stages/sigverify.rs\<close>.
  \<^item> \<open>Scheduler\<close> (\<open>core/src/scheduler\<close>), \<open>Scheduler_Graph\<close>, \<open>Scheduler_Safety\<close>, \<open>Scheduler_Dag\<close>, and
  \<open>Sequencer\<close> (\<open>stages/sequencer.rs\<close>).
  \<^item> \<open>Dedup\<close> (\<open>stages/dedup.rs\<close> and the checks of \<open>accounts/get_last_blocks.rs\<close>) and \<open>Dedup_Safety\<close>.
  \<^item> The indexer (\<open>indexer/src/indexer\<close>): \<open>Indexer_Parser\<close> (the instruction parsers and
  \<open>tx_validation.rs\<close>), \<open>Indexer_Decoder\<close> (\<open>rpc_polling/types.rs\<close>, \<open>decoder.rs\<close>), \<open>Indexer_Processor\<close>
  (\<open>transaction_processor.rs\<close>), \<open>Checkpoint\<close> (\<open>checkpoint.rs\<close>) and \<open>Channel_Fence\<close>
  (\<open>channel_fence.rs\<close>, with its theorem); the theorems are in \<open>Indexer_Readback\<close>, \<open>Indexer_Slots\<close>,
  \<open>Processor_Safety\<close> and \<open>Checkpoint_Safety\<close>. \<open>Deposit_Path\<close> joins them to the escrow program.
  \<^item> The database that indexer and operator share: \<open>Ledger_Db\<close> (the tables and writes of
  \<open>storage/postgres/db.rs\<close>, constraints and trigger included), \<open>Ledger_Queries\<close> (its reads) and
  \<open>Ledger_Safety\<close>. A method is one function on the record of tables.
  \<^item> The operator (\<open>indexer/src/operator\<close>): \<open>Channel_Mints\<close> (\<open>sender/mint.rs\<close>, memos and history
  walks) with \<open>Channel_Mint_Safety\<close>; \<open>Finality\<close> (\<open>classify_signatures\<close>, \<open>verify_release_landed\<close>,
  \<open>utils/account_util.rs\<close>) with \<open>Finality_Safety\<close>; \<open>Operator_Base\<close> (\<open>utils/storage_util.rs\<close>,
  \<open>instruction_util.rs\<close>, \<open>transaction_util.rs\<close>, \<open>db_transaction_writer.rs\<close>); \<open>Remint\<close>
  (\<open>sender/remint.rs\<close> and the refund queue of \<open>sender/state.rs\<close>) with \<open>Remint_Safety\<close>, and
  \<open>Remint_Scenario\<close>, a refund that goes through.

  \<^bold>\<open>What is shown.\<close>

  \<^item> Replay of withdrawals: the bitmap refines a set of consumed nonces (the locale \<open>replay_guard\<close>,
  interpreted on the bitmap operations), and no run of the program, interleaved with anything else
  on chain, releases a nonce twice. Runs are the inductive relation \<open>escrow_run\<close>.
  \<^item> Authority: configuration needs the stored admin, an instance changes only by its admin, each
  instruction writes only the kinds of account it is for, and revocation is immediate.
  \<^item> Funds: what a release pays and a deposit reports, stated against the calls made and the
  token balances before and after; signer privilege is never passed on to a transfer hook.
  \<^item> Layouts: account encodings round-trip (the locale \<open>account_codec\<close>, interpreted for the four
  account types) and no bytes decode as two kinds.
  \<^item> Channel fees: a withdrawal charges and burns exactly what the config says, a config never
  goes back to an older slot, and changing one needs a channel admin's signature.
  \<^item> Admission: privileged instructions need an admin signer, seized balances go to the
  compliance account only, and what \<open>sendTransaction\<close> accepts is within the allowlist.
  \<^item> Scheduling: both schedulers meet the contract \<open>batch_scheduler\<close>; the dependency-graph one meets
  \<open>ordered_scheduler\<close>, from which batched execution equals sequential execution, and the sequencer
  inherits that for every arrival pattern.
  \<^item> Dedup: no message is forwarded twice, also across a restart, and the window stays bounded.
  \<^item> Reading the chain: the indexer reads back what the programs did, amounts included; a slot is
  decoded exactly when nothing in it is unknown; an accepted deposit ends as one row that credits
  what the escrow received.
  \<^item> Progress: under every failure of the store a slot's checkpoint follows its rows, the checkpoint
  never skips a slot of an open range and reaches its end, and a restored channel is recognised.
  \<^item> The ledger, along every interleaving of its writers: settled rows are final, leases exclusive,
  withdrawal nonces unique, broadcast signatures stay on record, one refund attempt is open.
  \<^item> Paying once: a row the channel has paid is never taken for unpaid, rows rebuilt by a resync are
  not paid again, a verdict on a transaction's fate is right, a refund goes out only for a withdrawal
  whose release did not and will not pay, and at most one refund of a withdrawal lands.

  \<^bold>\<open>Assumptions.\<close> Calls to other programs leave accounts owned by the calling program alone, and a
  self-call runs the program's own entrypoint (\<open>runtime_contract\<close>, \<open>owner_cpi_contract\<close>): this is the
  ownership rule of the Solana runtime. Nothing is assumed about collisions of derived addresses;
  the safety theorems rest on owner and discriminator checks. Execution of channel transactions
  respects their account locks (\<open>respects_locks\<close>); iterating a hash set visits each element once
  (\<open>iterates\<close>); blockhashes are settled once. A block reports a transaction's accounts and its calls in
  call order (\<open>resolves\<close>, \<open>records_self_calls\<close>). Nodes may fail, lag and prune, but a finalized status,
  a listed history entry and a finalized account are true of their chain (\<open>truthful_endpoint\<close>,
  \<open>serves\<close>, \<open>answers_with\<close>, \<open>truthful\<close>), and a transaction is included only while its blockhash is
  valid (\<open>within_validity\<close>). Encoders of other crates round-trip (\<open>channel_sdk_contract\<close>,
  \<open>borsh_contract\<close>, \<open>bitmap_header_contract\<close>). Storage calls may fail before or after they take
  effect, and other tasks may write between any two of them; refunds have one sender. The checks the runtime makes after an instruction
  (lamport conservation, read-only accounts) and borrow checks at a call are left out, so the model
  allows more runs than the chain does.

  \<^bold>\<open>Loops.\<close> No fuel is used. Loops over data are structural recursion or have a termination measure;
  retries and polls count down from the source's limits. The outer loop of the dependency-graph
  scheduler is a partial function whose value \<open>None\<close> stands for a panic or for not returning, and is
  shown never to occur; the paginated walk of a history is one as well, since a node may keep
  returning pages, and what it returns on an honest node is proved.

  \<^bold>\<open>Not modelled.\<close> Metrics, logging and heartbeats; decoding and sanitising of transactions by the
  SDK; cryptography; database connections, migrations and advisory locks. Of the node: executor,
  settler, admin VM, storage and read RPC. Of the indexer: backfill, resync, reconciliation and the
  gRPC source. Of the operator: the submission of releases and mints, the recovery worker, the sweep
  and the solvency fence. Gateway and auth service. Natural extensions, in order: the operator's
  recovery of stalled rows and its submission of releases on top of \<open>Finality\<close> and \<open>Ledger_Db\<close>; the
  admin VM's mint initialisation; the settler's block assembly; writer epochs and truncation; gateway
  and auth policy.
\<close>

section \<open>Properties that span components\<close>

text \<open>
  C36. Fees and limits of the channel change only with a channel admin's signature. If the
  signature stage lets a transaction through and executing one of its withdraw-program
  instructions changes the data of an account the withdraw program owns, a configured admin
  signed the transaction. The runtime is only assumed to keep calls to other programs from
  changing the withdraw program's accounts.
\<close>

theorem config_change_needs_channel_admin:
  assumes "owner_cpi_contract rt WITHDRAW_ID"
    and "sigverify_transaction env tx policy = Valid ty"
    and "(WITHDRAW_ID, ix) \<in> set (program_instructions tx)"
    and "process_instruction_withdraw rt WITHDRAW_ID accounts (si_data ix) w = Inr w'"
    and "acc_owner (w_ledger w a) = WITHDRAW_ID"
    and "acc_data (w_ledger w' a) \<noteq> acc_data (w_ledger w a)"
  shows "is_signed_by_admin tx (admin_keys policy)"
proof -
  obtain d xs where d: "si_data ix = d # xs"
    using assms(4) by (cases "si_data ix") (auto simp: process_instruction_withdraw_def)
  have "d \<noteq> 0"
    using assms(4-) d withdraw_funds_keeps_owned [OF assms(1), of accounts xs w w' a]
    by (auto simp: process_instruction_withdraw_def withdraw_instruction_try_from_def keeps_owned_def)
  then have "requires_admin_signer WITHDRAW_ID (si_data ix)"
    using assms(4) d
    by (auto simp: process_instruction_withdraw_def withdraw_instruction_try_from_def
        requires_admin_signer_def get_nth_def SET_WITHDRAW_CONFIG_DISCRIMINATOR_def split: if_splits)
  then have "needs_admin_signer tx"
    using assms(3) by (auto simp: needs_admin_signer_def list_ex_iff)
  then show ?thesis using sigverify_Valid(3) [OF assms(2)] by blast
qed

text \<open>Key 1 is the admin; the transaction carries the SetWithdrawConfig of the withdraw scenario.\<close>

definition demo_config_tx :: sanitized_transaction where
  "demo_config_tx = \<lparr>account_keys = [1, 14, 12, WITHDRAW_ID], num_required_signatures = 2,
     program_instructions = [(WITHDRAW_ID, \<lparr>si_accounts = [1, 2], si_data = 1 # demo_set_config_data\<rparr>)],
     is_writable = (\<lambda>i. i < 3), verify_error = None\<rparr>"

lemma demo_config_valid: "sigverify_transaction demo_env demo_config_tx demo_policy = Valid Normal"
  by (simp add: sigverify_transaction_def classify_transaction_def demo_config_tx_def demo_env_def
      demo_policy_def get_nth_def is_admin_instruction_def ADMIN_INSTRUCTIONS_MAP_def
      is_signed_by_admin_def rotates_delegate_away_def is_foreign_delegate_rotation_def
      delegate_moves_def List.map_filter_def delegate_move_def Let_def TOKEN_2022_PROGRAM_ID_def
      WITHDRAW_ID_def)

theorem config_change_needs_channel_admin_witness:
  "\<exists>w'. process_instruction_withdraw demo_channel_rt WITHDRAW_ID demo_set_config_accounts
      (1 # demo_set_config_data) demo_channel_world = Inr w'
    \<and> acc_data (w_ledger w' 12) \<noteq> acc_data (w_ledger demo_channel_world 12)
    \<and> is_signed_by_admin demo_config_tx (admin_keys demo_policy)"
proof -
  obtain w' c where "process_set_withdraw_config demo_channel_rt WITHDRAW_ID
      demo_set_config_accounts demo_set_config_data demo_channel_world = Inr w'"
    and c: "acc_data (w_ledger w' 12) = WithdrawConfig_to_bytes c" "wc_allow_mint_slot c = 12"
    using demo_set_config by blast
  then have run: "process_instruction_withdraw demo_channel_rt WITHDRAW_ID demo_set_config_accounts
      (1 # demo_set_config_data) demo_channel_world = Inr w'"
    by (simp add: process_instruction_withdraw_def withdraw_instruction_try_from_def)
  have "c \<noteq> demo_config"
    using c(2) by (auto simp: demo_config_def)
  then have "WithdrawConfig_to_bytes c \<noteq> WithdrawConfig_to_bytes demo_config"
    by (metis WithdrawConfig_dec_enc sum.inject(2))
  then have change: "acc_data (w_ledger w' 12) \<noteq> acc_data (w_ledger demo_channel_world 12)"
    by (simp add: c demo_channel_world_def)
  have own: "acc_owner (w_ledger demo_channel_world 12) = WITHDRAW_ID"
    by (simp add: demo_channel_world_def)
  have "is_signed_by_admin demo_config_tx (admin_keys demo_policy)"
    using config_change_needs_channel_admin [OF demo_channel_contract demo_config_valid, of
        "\<lparr>si_accounts = [1, 2], si_data = 1 # demo_set_config_data\<rparr>" demo_set_config_accounts
        demo_channel_world w' 12] run own change
    by (simp add: demo_config_tx_def)
  then show ?thesis using run change by blast
qed

end
